(* ===== verification/KF_Prelude.thy ===== *)
theory KF_Prelude
  imports Main "HOL-Library.Word" "HOL-Library.Char_ord" "HOL-Library.List_Lexorder"
    "HOL-Library.Product_Lexorder"
begin

text \<open>
  Shared vocabulary of the KeyForge development: the result type of fallible code, the
  JavaScript string and array operations the sources use, the shape of D1 statements over
  tables, and the lemma collections the component theories draw on.

  A JavaScript string is a \<^typ>\<open>string\<close>: a list of characters with codes below 256, so
  each character is one UTF-16 code unit and \<open>length\<close> is the source's \<open>.length\<close>. The UTF-8
  length of such a character is one byte below 128 and two bytes from 128 on
  (\<open>utf8_length\<close>). Numbers are \<^typ>\<open>int\<close>: the sources only compute integers far below
  the 2^53 limit of exact JavaScript arithmetic.
\<close>

section \<open>Lemma collections\<close>

named_theorems str_simps \<open>facts on the JavaScript string operations\<close>
named_theorems table_simps \<open>facts on D1 statements over tables\<close>
named_theorems kf_defs \<open>definitions that component proofs unfold\<close>

section \<open>Results\<close>

text \<open>A call that may throw returns \<open>Inl\<close> of the thrown value or \<open>Inr\<close> of its result.\<close>

type_synonym ('e, 'a) result = "'e + 'a"

abbreviation Throw :: "'e \<Rightarrow> ('e, 'a) result" where "Throw \<equiv> Inl"
abbreviation Return :: "'a \<Rightarrow> ('e, 'a) result" where "Return \<equiv> Inr"

definition is_ok :: "('e, 'a) result \<Rightarrow> bool" where
  "is_ok r = (case r of Inl _ \<Rightarrow> False | Inr _ \<Rightarrow> True)"

lemma is_ok_simps [simp]: "is_ok (Inr x) = True" "is_ok (Inl e) = False"
  by (simp_all add: is_ok_def)

lemma is_okE: "is_ok r \<Longrightarrow> (\<And>x. r = Inr x \<Longrightarrow> P) \<Longrightarrow> P"
  by (cases r) auto

section \<open>Characters\<close>

abbreviation ccode :: "char \<Rightarrow> nat" where "ccode c \<equiv> of_char c"

lemma code_bound: "ccode c < 256"
  by (metis of_char_mod_256 mod_less_divisor zero_less_numeral)

text \<open>The ranges of the regular expressions in the sources.\<close>

definition is_upper :: "char \<Rightarrow> bool" where "is_upper c = (65 \<le> ccode c \<and> ccode c \<le> 90)"
definition is_lower :: "char \<Rightarrow> bool" where "is_lower c = (97 \<le> ccode c \<and> ccode c \<le> 122)"
definition is_digit :: "char \<Rightarrow> bool" where "is_digit c = (48 \<le> ccode c \<and> ccode c \<le> 57)"
definition is_alnum :: "char \<Rightarrow> bool" where
  "is_alnum c = (is_upper c \<or> is_lower c \<or> is_digit c)"

text \<open>
  The white space of \<open>trim\<close> and of the class \<open>\s\<close>, restricted to one-byte codes: tab, line
  feed, vertical tab, form feed, carriage return, space and no-break space.
\<close>

definition is_ws :: "char \<Rightarrow> bool" where
  "is_ws c = ((9 \<le> ccode c \<and> ccode c \<le> 13) \<or> ccode c = 32 \<or> ccode c = 160)"

text \<open>The class \<open>[A-Za-z0-9_-]\<close> of unpadded base64url.\<close>

definition is_b64url_char :: "char \<Rightarrow> bool" where
  "is_b64url_char c = (is_alnum c \<or> c = CHR ''_'' \<or> c = CHR ''-'')"

lemma is_ws_space [simp]: "is_ws (CHR '' '')"
  by (simp add: is_ws_def)

lemma b64url_not_ws: "is_b64url_char c \<Longrightarrow> \<not> is_ws c"
  by (auto simp: is_b64url_char_def is_alnum_def is_upper_def is_lower_def is_digit_def is_ws_def)

definition utf8_char_length :: "char \<Rightarrow> nat" where
  "utf8_char_length c = (if ccode c < 128 then 1 else 2)"

definition utf8_length :: "string \<Rightarrow> nat" where
  "utf8_length s = sum_list (map utf8_char_length s)"

lemma utf8_length_ge: "length s \<le> utf8_length s"
  by (induction s) (auto simp: utf8_length_def utf8_char_length_def)

lemma utf8_length_ascii: "list_all (\<lambda>c. ccode c < 128) s \<Longrightarrow> utf8_length s = length s"
  by (induction s) (auto simp: utf8_length_def utf8_char_length_def)

section \<open>Strings\<close>

text \<open>\<open>s.trim()\<close>.\<close>

definition js_trim :: "string \<Rightarrow> string" where
  "js_trim s = rev (dropWhile is_ws (rev (dropWhile is_ws s)))"

text \<open>\<open>s.split(/\s+/)\<close>: the pieces between maximal runs of white space, empty ones included.\<close>

function split_ws :: "string \<Rightarrow> string list" where
  "split_ws s =
     (let w = takeWhile (\<lambda>c. \<not> is_ws c) s; rest = dropWhile (\<lambda>c. \<not> is_ws c) s
      in if rest = [] then [w] else w # split_ws (dropWhile is_ws rest))"
  by pat_completeness auto
termination
proof (relation "measure length", goal_cases)
  case 1
  show ?case by simp
next
  case (2 s w rest)
  have "length rest \<le> length s" using 2 by (simp add: length_dropWhile_le)
  moreover have "length (dropWhile is_ws rest) < length rest"
  proof (cases rest)
    case Nil
    with 2 show ?thesis by simp
  next
    case (Cons c cs)
    from Cons 2(2) have "is_ws c" by (metis dropWhile_eq_Cons_conv)
    with Cons show ?thesis by (simp add: length_dropWhile_le le_imp_less_Suc)
  qed
  ultimately show ?case by simp
qed

declare split_ws.simps [simp del]

text \<open>\<open>xs.join(sep)\<close>.\<close>

fun js_join :: "string \<Rightarrow> string list \<Rightarrow> string" where
  "js_join sep [] = []"
| "js_join sep [x] = x"
| "js_join sep (x # y # xs) = x @ sep @ js_join sep (y # xs)"

text \<open>\<open>s.split(sep)\<close> for a one-character separator.\<close>

fun js_split :: "char \<Rightarrow> string \<Rightarrow> string list" where
  "js_split sep [] = [[]]"
| "js_split sep (c # cs) =
     (if c = sep then [] # js_split sep cs
      else (case js_split sep cs of [] \<Rightarrow> [[c]] | p # ps \<Rightarrow> (c # p) # ps))"

text \<open>\<open>s.indexOf(c)\<close>, \<open>None\<close> for -1.\<close>

fun js_index_of :: "char \<Rightarrow> string \<Rightarrow> nat option" where
  "js_index_of c [] = None"
| "js_index_of c (d # ds) = (if c = d then Some 0 else map_option Suc (js_index_of c ds))"

definition starts_with :: "string \<Rightarrow> string \<Rightarrow> bool" where
  "starts_with p s = (take (length p) s = p)"

lemma starts_with_iff: "starts_with p s \<longleftrightarrow> (\<exists>t. s = p @ t)"
  by (auto simp: starts_with_def) (metis append_take_drop_id)

text \<open>\<open>[...new Set(xs)]\<close>: the distinct elements in order of first occurrence.\<close>

fun js_dedup :: "'a list \<Rightarrow> 'a list" where
  "js_dedup [] = []"
| "js_dedup (x # xs) = x # filter (\<lambda>y. y \<noteq> x) (js_dedup xs)"

lemma set_js_dedup [simp]: "set (js_dedup xs) = set xs"
  by (induction xs) auto

lemma distinct_js_dedup [simp]: "distinct (js_dedup xs)"
  by (induction xs) auto

lemma length_js_dedup_le: "length (js_dedup xs) \<le> length xs"
  by (induction xs) (auto intro: le_trans [OF length_filter_le])

lemma js_dedup_distinct: "distinct xs \<Longrightarrow> js_dedup xs = xs"
  by (induction xs) (auto simp: filter_id_conv)

lemma js_dedup_length_eq_iff: "length (js_dedup xs) = length xs \<longleftrightarrow> distinct xs"
  by (metis card_distinct distinct_card distinct_js_dedup js_dedup_distinct set_js_dedup)

lemma foldr_max_le: "\<forall>x\<in>set xs. k + x \<le> n \<Longrightarrow> k \<le> n \<Longrightarrow> k + foldr max xs 0 \<le> (n :: nat)"
  by (induction xs) (auto simp: max_def)

subsection \<open>Splitting inverts joining\<close>

lemma js_split_nonempty [simp]: "js_split sep s \<noteq> []"
  by (induction s) (auto split: list.splits)

lemma js_split_no_sep: "sep \<notin> set s \<Longrightarrow> js_split sep s = [s]"
  by (induction s) auto

lemma js_split_append:
  "sep \<notin> set p \<Longrightarrow> js_split sep (p @ sep # s) = p # js_split sep s"
  by (induction p) auto

lemma js_split_join [str_simps]:
  "xs \<noteq> [] \<Longrightarrow> \<forall>x\<in>set xs. sep \<notin> set x \<Longrightarrow> js_split sep (js_join [sep] xs) = xs"
  by (induction "[sep]" xs rule: js_join.induct) (auto simp: js_split_no_sep js_split_append)

lemma split_ws_word: "list_all (\<lambda>c. \<not> is_ws c) w \<Longrightarrow> split_ws w = [w]"
  by (subst split_ws.simps) (simp add: list_all_iff Let_def)

lemma split_ws_Cons:
  assumes w: "list_all (\<lambda>c. \<not> is_ws c) w" and sep: "is_ws sep"
    and s: "s = [] \<or> \<not> is_ws (hd s)"
  shows "split_ws (w @ sep # s) = w # split_ws s"
proof -
  have tw: "takeWhile (\<lambda>c. \<not> is_ws c) (w @ sep # s) = w"
    using w sep by (auto simp: takeWhile_tail list_all_iff)
  have dw: "dropWhile (\<lambda>c. \<not> is_ws c) (w @ sep # s) = sep # s"
    using w sep by (auto simp: dropWhile_append list_all_iff)
  have "dropWhile is_ws (sep # s) = s"
    using sep s by (cases s) auto
  with tw dw show ?thesis by (subst split_ws.simps) (simp add: Let_def)
qed

text \<open>A word: a non-empty string without white space.\<close>

definition is_word :: "string \<Rightarrow> bool" where
  "is_word w = (w \<noteq> [] \<and> list_all (\<lambda>c. \<not> is_ws c) w)"

lemma is_word_hd: "is_word w \<Longrightarrow> \<not> is_ws (hd (w @ t))"
  by (cases w) (auto simp: is_word_def)

lemma hd_js_join: "is_word w \<Longrightarrow> \<not> is_ws (hd (js_join sep (w # ws)))"
  by (cases ws) (auto dest: is_word_hd [where t = "[]"] is_word_hd)

lemma split_ws_join:
  "ws \<noteq> [] \<Longrightarrow> \<forall>w\<in>set ws. is_word w \<Longrightarrow> split_ws (js_join '' '' ws) = ws"
proof (induction "'' ''" ws rule: js_join.induct)
  case (3 x y xs)
  have "split_ws (x @ CHR '' '' # js_join '' '' (y # xs)) = x # split_ws (js_join '' '' (y # xs))"
    using 3(3) by (intro split_ws_Cons) (auto simp: is_word_def hd_js_join)
  with 3 show ?case by simp
qed (auto simp: is_word_def split_ws_word)

lemma js_trim_id: "s \<noteq> [] \<Longrightarrow> \<not> is_ws (hd s) \<Longrightarrow> \<not> is_ws (last s) \<Longrightarrow> js_trim s = s"
proof -
  assume a: "s \<noteq> []" "\<not> is_ws (hd s)" "\<not> is_ws (last s)"
  from a have "dropWhile is_ws s = s" by (cases s) auto
  moreover from a have "dropWhile is_ws (rev s) = rev s"
    by (cases s rule: rev_cases) auto
  ultimately show ?thesis by (simp add: js_trim_def)
qed

lemma js_join_nonempty: "ws \<noteq> [] \<Longrightarrow> last ws \<noteq> [] \<Longrightarrow> js_join sep ws \<noteq> []"
  by (induction sep ws rule: js_join.induct) auto

lemma last_js_join: "ws \<noteq> [] \<Longrightarrow> last ws \<noteq> [] \<Longrightarrow> last (js_join sep ws) = last (last ws)"
proof (induction sep ws rule: js_join.induct)
  case (3 sep x y xs)
  have "js_join sep (y # xs) \<noteq> []" using 3(3) by (intro js_join_nonempty) auto
  with 3 show ?case by simp
qed auto

end
