(* ===== verification/Config.thy ===== *)
theory Config
  imports KF_Prelude
begin

text \<open>
  Static configuration and domain types: \<open>src/config.ts\<close>, \<open>src/types/domain.ts\<close>,
  \<open>src/types/tokens.ts\<close>, \<open>src/security/errors.ts\<close>, \<open>src/operations/yolo.ts\<close>,
  \<open>src/utils/time.ts\<close> and \<open>src/security/recent-auth.ts\<close>. The bindings and variables of the
  Worker that the modelled code reads are the record \<open>env\<close>. The clock is an argument:
  \<open>now\<close> in UNIX seconds, \<open>nowMs\<close> in milliseconds.
\<close>

section \<open>config.ts\<close>

record token_ttl =
  ttl_idToken :: int
  ttl_userAccessToken :: int
  ttl_serviceAccessToken :: int
  ttl_authorizationCode :: int
  ttl_refreshToken :: int
  ttl_refreshTokenRememberMe :: int
  ttl_deviceCode :: int
  ttl_magicLink :: int
  ttl_emailVerification :: int
  ttl_passwordReset :: int
  ttl_webauthnChallenge :: int

definition TOKEN_TTL :: token_ttl where
  "TOKEN_TTL = \<lparr>ttl_idToken = 600, ttl_userAccessToken = 900, ttl_serviceAccessToken = 600,
     ttl_authorizationCode = 60, ttl_refreshToken = 30 * 24 * 60 * 60,
     ttl_refreshTokenRememberMe = 90 * 24 * 60 * 60, ttl_deviceCode = 600,
     ttl_magicLink = 15 * 60, ttl_emailVerification = 24 * 60 * 60,
     ttl_passwordReset = 60 * 60, ttl_webauthnChallenge = 5 * 60\<rparr>"

record refresh_token_policy =
  minimumRotationIntervalSeconds :: int
  maximumGeneration :: int
  maximumActiveFamiliesPerUserClient :: nat

definition REFRESH_TOKEN_POLICY :: refresh_token_policy where
  "REFRESH_TOKEN_POLICY = \<lparr>minimumRotationIntervalSeconds = 10, maximumGeneration = 10000,
     maximumActiveFamiliesPerUserClient = 20\<rparr>"

definition DEVICE_POLL_INTERVAL_SECONDS :: int where
  "DEVICE_POLL_INTERVAL_SECONDS = 5"

definition SESSION_TTL_default :: int where "SESSION_TTL_default = 30 * 24 * 60 * 60"
definition SESSION_TTL_rememberMe :: int where "SESSION_TTL_rememberMe = 90 * 24 * 60 * 60"

definition USER_ONLY_SCOPES :: "string list" where
  "USER_ONLY_SCOPES = [''openid'', ''profile'', ''email'', ''offline_access'']"

definition DEVICE_CODE_GRANT :: string where
  "DEVICE_CODE_GRANT = ''urn:ietf:params:oauth:grant-type:device_code''"

definition GRANT_TYPES :: "string list" where
  "GRANT_TYPES = [''authorization_code'', ''refresh_token'',
     ''urn:ietf:params:oauth:grant-type:device_code'', ''client_credentials'']"

lemmas policy_simps [kf_defs] = TOKEN_TTL_def REFRESH_TOKEN_POLICY_def

section \<open>Worker environment and yolo.ts\<close>

record env =
  ENVIRONMENT :: "string option"
  YOLO_MODE :: "string option"
  ISSUER :: string

definition YOLO_ENVIRONMENT :: string where "YOLO_ENVIRONMENT = ''dev''"

definition isYoloEnabled :: "env \<Rightarrow> bool" where
  "isYoloEnabled env =
     (ENVIRONMENT env = Some YOLO_ENVIRONMENT \<and> YOLO_MODE env = Some ''true'')"

text \<open>\<open>yoloAllow\<close> returns its decision and the lines it writes with \<open>console.warn\<close>.\<close>

definition yoloAllow :: "env \<Rightarrow> string \<Rightarrow> bool \<times> string list" where
  "yoloAllow env check =
     (if \<not> isYoloEnabled env then (False, []) else (True, [''yolo.bypass '' @ check]))"

section \<open>time.ts and recent-auth.ts\<close>

definition nowSeconds :: "int \<Rightarrow> int" where "nowSeconds nowMs = nowMs div 1000"

definition secondsUntil :: "int \<Rightarrow> int \<Rightarrow> int" where
  "secondsUntil now expiresAtSeconds = max 0 (expiresAtSeconds - now)"

definition isExpired :: "int \<Rightarrow> int \<Rightarrow> bool" where
  "isExpired now expiresAtSeconds = (now \<ge> expiresAtSeconds)"

section \<open>domain.ts\<close>

datatype ClientType = public_client | confidential
datatype ClientKind = application | device | service
datatype TokenEndpointAuthMethod =
  client_secret_basic | client_secret_post | auth_none | private_key_jwt
datatype MetadataClientPolicy = policy_disabled | consent_required_policy | admin_approved
datatype DeviceStatus = pending | approved | denied | expired | consumed
datatype AuthMethod = password | magic_link | passkey
datatype RegistrationType = static | client_id_metadata

record SessionRecord =
  sr_id :: string
  sr_userId :: string
  sr_authMethod :: AuthMethod
  sr_authTime :: int
  sr_passkeyAuthenticated :: bool
  sr_createdAt :: int
  sr_lastSeenAt :: int
  sr_expiresAt :: int

record User =
  u_id :: string
  u_email :: string
  u_alias :: string
  u_emailVerified :: bool
  u_name :: "string option"
  u_picture :: "string option"
  u_avatarKey :: "string option"
  u_avatarContentType :: "string option"
  u_avatarUpdatedAt :: "int option"
  u_disabled :: bool
  u_createdAt :: int

record OAuthClient =
  oc_clientId :: string
  oc_name :: string
  oc_type :: ClientType
  oc_clientKind :: ClientKind
  oc_clientSecretHash :: "string option"
  oc_redirectUris :: "string list"
  oc_postLogoutRedirectUris :: "string list"
  oc_allowedScopes :: "string list"
  oc_allowedGrantTypes :: "string list"
  oc_allowedResources :: "string list"
  oc_defaultResource :: "string option"
  oc_requirePkce :: bool
  oc_enabled :: bool
  oc_tokenEndpointAuthMethods :: "TokenEndpointAuthMethod list"
  oc_introspectionAllowed :: bool
  oc_registrationType :: RegistrationType
  oc_metadataFingerprint :: "string option"
  oc_metadataExpiresAt :: "int option"
  oc_metadataJwksUri :: "string option"

record OAuthResource =
  rs_resourceUri :: string
  rs_name :: string
  rs_allowedScopes :: "string list"
  rs_enabled :: bool
  rs_mcpEnabled :: bool
  rs_metadataClientPolicy :: MetadataClientPolicy

definition RECENT_AUTH_SECONDS :: int where "RECENT_AUTH_SECONDS = 10 * 60"

definition hasRecentAuthentication :: "SessionRecord option \<Rightarrow> int \<Rightarrow> bool" where
  "hasRecentAuthentication session now =
     (case session of None \<Rightarrow> False
      | Some s \<Rightarrow> now \<ge> sr_authTime s \<and> now - sr_authTime s \<le> RECENT_AUTH_SECONDS)"

section \<open>tokens.ts\<close>

record AuthorizationCodePayload =
  ac_issuer :: string
  ac_clientId :: string
  ac_userId :: string
  ac_redirectUri :: string
  ac_scope :: string
  ac_resource :: string
  ac_resourceRequired :: bool
  ac_metadataFingerprint :: "string option"
  ac_codeChallenge :: string
  ac_nonce :: "string option"
  ac_authTime :: int
  ac_sessionId :: string

section \<open>errors.ts\<close>

datatype OAuthErrorCode =
    invalid_request | invalid_client | invalid_grant | unauthorized_client
  | unsupported_grant_type | unsupported_response_type | invalid_scope | invalid_target
  | access_denied | server_error | temporarily_unavailable | authorization_pending
  | slow_down | expired_token | login_required | consent_required | interaction_required

fun error_code_string :: "OAuthErrorCode \<Rightarrow> string" where
  "error_code_string invalid_request = ''invalid_request''"
| "error_code_string invalid_client = ''invalid_client''"
| "error_code_string invalid_grant = ''invalid_grant''"
| "error_code_string unauthorized_client = ''unauthorized_client''"
| "error_code_string unsupported_grant_type = ''unsupported_grant_type''"
| "error_code_string unsupported_response_type = ''unsupported_response_type''"
| "error_code_string invalid_scope = ''invalid_scope''"
| "error_code_string invalid_target = ''invalid_target''"
| "error_code_string access_denied = ''access_denied''"
| "error_code_string server_error = ''server_error''"
| "error_code_string temporarily_unavailable = ''temporarily_unavailable''"
| "error_code_string authorization_pending = ''authorization_pending''"
| "error_code_string slow_down = ''slow_down''"
| "error_code_string expired_token = ''expired_token''"
| "error_code_string login_required = ''login_required''"
| "error_code_string consent_required = ''consent_required''"
| "error_code_string interaction_required = ''interaction_required''"

fun DEFAULT_STATUS :: "OAuthErrorCode \<Rightarrow> nat" where
  "DEFAULT_STATUS invalid_request = 400"
| "DEFAULT_STATUS invalid_client = 401"
| "DEFAULT_STATUS invalid_grant = 400"
| "DEFAULT_STATUS unauthorized_client = 400"
| "DEFAULT_STATUS unsupported_grant_type = 400"
| "DEFAULT_STATUS unsupported_response_type = 400"
| "DEFAULT_STATUS invalid_scope = 400"
| "DEFAULT_STATUS invalid_target = 400"
| "DEFAULT_STATUS access_denied = 403"
| "DEFAULT_STATUS server_error = 500"
| "DEFAULT_STATUS temporarily_unavailable = 503"
| "DEFAULT_STATUS authorization_pending = 400"
| "DEFAULT_STATUS slow_down = 400"
| "DEFAULT_STATUS expired_token = 400"
| "DEFAULT_STATUS login_required = 401"
| "DEFAULT_STATUS consent_required = 401"
| "DEFAULT_STATUS interaction_required = 401"

text \<open>
  An \<open>OAuthError\<close>: the code, the HTTP status, the public message and the internal detail.
  The chained \<open>cause\<close> and the stack are not modelled.
\<close>

record OAuthError =
  err_code :: OAuthErrorCode
  err_status :: nat
  err_message :: string
  err_detail :: "string option"

definition new_OAuthError ::
  "OAuthErrorCode \<Rightarrow> string option \<Rightarrow> nat option \<Rightarrow> string option \<Rightarrow> OAuthError" where
  "new_OAuthError code description status detail =
     \<lparr>err_code = code,
      err_status = (case status of Some s \<Rightarrow> s | None \<Rightarrow> DEFAULT_STATUS code),
      err_message = (case description of Some d \<Rightarrow> d | None \<Rightarrow> error_code_string code),
      err_detail = detail\<rparr>"

text \<open>The common shape: a code, a description and a detail.\<close>

definition oauth_error :: "OAuthErrorCode \<Rightarrow> string \<Rightarrow> string \<Rightarrow> OAuthError" where
  "oauth_error code description detail = new_OAuthError code (Some description) None (Some detail)"

lemma oauth_error_simps [simp]:
  "err_code (oauth_error code ds dt) = code"
  "err_status (oauth_error code ds dt) = DEFAULT_STATUS code"
  "err_message (oauth_error code ds dt) = ds"
  "err_code (new_OAuthError code d st dd) = code"
  by (simp_all add: oauth_error_def new_OAuthError_def)

definition toBody :: "OAuthError \<Rightarrow> string \<times> string" where
  "toBody e = (error_code_string (err_code e), err_message e)"

text \<open>The body sent to a client depends on the code and the public message alone.\<close>

lemma toBody_hides_detail:
  "toBody (new_OAuthError c (Some d) st dt) = (error_code_string c, d)"
  by (simp add: toBody_def new_OAuthError_def)

section \<open>YOLO mode\<close>

lemma yolo_off_outside_dev:
  "ENVIRONMENT env \<noteq> Some ''dev'' \<Longrightarrow> \<not> isYoloEnabled env"
  by (simp add: isYoloEnabled_def YOLO_ENVIRONMENT_def)

lemma yoloAllow_eq [simp]: "fst (yoloAllow env check) = isYoloEnabled env"
  by (simp add: yoloAllow_def)

end
