(* ===== verification/Scopes.thy ===== *)
theory Scopes
  imports Config
begin

text \<open>
  \<open>src/oauth/scopes.ts\<close>, \<open>src/oauth/scope-policy.ts\<close> and the scope arithmetic of the consent
  store (\<open>src/db/queries/consents.ts\<close>): parsing and printing scope strings, the catalogue
  bounds, and the subset check every grant goes through.
\<close>

definition OAUTH_SCOPE_MAX_COUNT :: nat where "OAUTH_SCOPE_MAX_COUNT = 64"
definition OAUTH_SCOPE_MAX_BYTES :: nat where "OAUTH_SCOPE_MAX_BYTES = 128"

text \<open>The class \<open>[\x21\x23-\x5B\x5D-\x7E]\<close> of RFC 6749 scope tokens.\<close>

definition is_scope_char :: "char \<Rightarrow> bool" where
  "is_scope_char c =
     (ccode c = 33 \<or> (35 \<le> ccode c \<and> ccode c \<le> 91) \<or> (93 \<le> ccode c \<and> ccode c \<le> 126))"

definition SCOPE_TOKEN :: "string \<Rightarrow> bool" where
  "SCOPE_TOKEN s = (s \<noteq> [] \<and> list_all is_scope_char s)"

datatype catalog_failure = too_many | duplicate | invalid_token

definition validateScopeCatalog :: "string list \<Rightarrow> (catalog_failure, string list) result" where
  "validateScopeCatalog scopes =
     (if length scopes > OAUTH_SCOPE_MAX_COUNT then Inl too_many
      else if length (js_dedup scopes) \<noteq> length scopes then Inl duplicate
      else if list_ex (\<lambda>scope. \<not> SCOPE_TOKEN scope \<or> utf8_length scope = 0 \<or>
                utf8_length scope > OAUTH_SCOPE_MAX_BYTES) scopes
      then Inl invalid_token
      else Inr scopes)"

definition parseScopeString :: "string option \<Rightarrow> string list" where
  "parseScopeString raw =
     (case raw of
        None \<Rightarrow> []
      | Some s \<Rightarrow> filter (\<lambda>scope. length scope > 0) (split_ws (js_trim s)))"

definition serializeScopes :: "string list \<Rightarrow> string" where
  "serializeScopes scopes = js_join '' '' scopes"

definition validateRequestedScopes ::
  "string list \<Rightarrow> string list \<Rightarrow> (OAuthError, string list) result" where
  "validateRequestedScopes requested allowed =
     (let disallowed = filter (\<lambda>scope. scope \<notin> set allowed) requested
      in if length disallowed > 0
         then Inl (oauth_error invalid_scope ''One or more requested scopes are not permitted''
                (''disallowed scopes: '' @ js_join '' '' disallowed))
         else Inr requested)"

section \<open>scope-policy.ts\<close>

definition RESOURCE_AUTHORIZED_SCOPES :: "string list" where
  "RESOURCE_AUTHORIZED_SCOPES = USER_ONLY_SCOPES"

definition isPermissionGroupControlledScope :: "string \<Rightarrow> bool" where
  "isPermissionGroupControlledScope scope = (scope \<notin> set RESOURCE_AUTHORIZED_SCOPES)"

section \<open>Parsing and printing\<close>

lemma validateRequestedScopes_iff:
  "validateRequestedScopes requested allowed = Inr scopes \<longleftrightarrow>
     scopes = requested \<and> set requested \<subseteq> set allowed"
  by (auto simp: validateRequestedScopes_def Let_def filter_empty_conv)

lemma validateRequestedScopes_err:
  "validateRequestedScopes requested allowed = Inl e \<Longrightarrow>
     err_code e = invalid_scope \<and> err_status e = 400 \<and> \<not> set requested \<subseteq> set allowed"
  by (auto simp: validateRequestedScopes_def Let_def filter_empty_conv split: if_splits)

lemma scope_char_not_ws: "is_scope_char c \<Longrightarrow> \<not> is_ws c"
  by (auto simp: is_scope_char_def is_ws_def)

lemma SCOPE_TOKEN_word: "SCOPE_TOKEN s \<Longrightarrow> is_word s"
  by (auto simp: SCOPE_TOKEN_def is_word_def list_all_iff scope_char_not_ws)

lemma parse_serialize_words:
  assumes "\<forall>w\<in>set ws. is_word w"
  shows "parseScopeString (Some (serializeScopes ws)) = ws"
proof (cases "ws = []")
  case True
  have "split_ws [] = [[]]" by (subst split_ws.simps) simp
  with True show ?thesis by (simp add: parseScopeString_def serializeScopes_def js_trim_def)
next
  case False
  then obtain v vs where ws: "ws = v # vs" by (cases ws) auto
  have ne: "js_join '' '' ws \<noteq> []" "\<not> is_ws (last (js_join '' '' ws))"
  proof -
    have l: "is_word (last ws)" using assms False by simp
    then have "last ws \<noteq> []" by (simp add: is_word_def)
    then show "js_join '' '' ws \<noteq> []" using False by (intro js_join_nonempty) auto
    have "last (js_join '' '' ws) = last (last ws)"
      using False \<open>last ws \<noteq> []\<close> by (intro last_js_join) auto
    moreover have "last (last ws) \<in> set (last ws)" using \<open>last ws \<noteq> []\<close> by simp
    ultimately show "\<not> is_ws (last (js_join '' '' ws))"
      using l by (auto simp: is_word_def list_all_iff)
  qed
  have "js_trim (js_join '' '' ws) = js_join '' '' ws"
    using assms ne hd_js_join [of v "'' ''" vs] by (intro js_trim_id) (auto simp: ws)
  moreover have "filter (\<lambda>s. 0 < length s) ws = ws"
    using assms by (auto simp: is_word_def filter_id_conv)
  ultimately show ?thesis
    using assms False
    by (simp add: parseScopeString_def serializeScopes_def split_ws_join)
qed

text \<open>Whatever string is parsed, the pieces are words: non-empty and free of white space.\<close>

lemma split_ws_pieces: "w \<in> set (split_ws s) \<Longrightarrow> list_all (\<lambda>c. \<not> is_ws c) w"
proof (induction s rule: split_ws.induct)
  case (1 s)
  let ?w = "takeWhile (\<lambda>c. \<not> is_ws c) s" and ?r = "dropWhile (\<lambda>c. \<not> is_ws c) s"
  have tw: "list_all (\<lambda>c. \<not> is_ws c) ?w" by (auto simp: list_all_iff dest: set_takeWhileD)
  show ?case
  proof (cases "?r = []")
    case True
    with "1.prems" tw show ?thesis by (subst (asm) split_ws.simps) (auto simp: Let_def)
  next
    case False
    have "w = ?w \<or> w \<in> set (split_ws (dropWhile is_ws ?r))"
      using "1.prems" False by (subst (asm) split_ws.simps) (auto simp: Let_def split: if_splits)
    with "1.IH" [OF refl refl False] tw show ?thesis by auto
  qed
qed

lemma parseScopeString_words: "\<forall>w\<in>set (parseScopeString raw). is_word w"
  by (auto simp: parseScopeString_def is_word_def split_ws_pieces split: option.splits)

section \<open>Properties\<close>

text \<open>
  Scope strings round trip: every catalogue \<open>validateScopeCatalog\<close> accepts is printed and
  parsed back unchanged, so that a scope list survives storage as a space-separated string.
\<close>

theorem validated_catalog_roundtrip:
  assumes "validateScopeCatalog scopes = Inr catalog"
  shows "catalog = scopes \<and> parseScopeString (Some (serializeScopes catalog)) = catalog \<and>
    distinct catalog \<and> length catalog \<le> 64"
proof -
  have "\<forall>s\<in>set scopes. SCOPE_TOKEN s" "catalog = scopes" "distinct scopes" "length scopes \<le> 64"
    using assms
    by (auto simp: validateScopeCatalog_def list_ex_iff OAUTH_SCOPE_MAX_COUNT_def
        js_dedup_length_eq_iff split: if_splits)
  then show ?thesis using SCOPE_TOKEN_word by (auto intro!: parse_serialize_words)
qed

theorem validated_catalog_roundtrip_witness:
  "parseScopeString (Some (serializeScopes [''openid'', ''mail.read''])) = [''openid'', ''mail.read'']"
proof -
  have "validateScopeCatalog [''openid'', ''mail.read''] = Inr [''openid'', ''mail.read'']"
    by (simp add: validateScopeCatalog_def OAUTH_SCOPE_MAX_COUNT_def OAUTH_SCOPE_MAX_BYTES_def
        SCOPE_TOKEN_def is_scope_char_def utf8_length_def utf8_char_length_def)
  from validated_catalog_roundtrip [OF this] show ?thesis by blast
qed

end
