(* ===== verification/Json.thy ===== *)
theory Json
  imports KF_Prelude
begin

text \<open>
  JSON values as the sources handle them (\<open>unknown\<close> data read from a request, a queue message
  or a database column) and \<open>JSON.stringify\<close>. An object is the list of its properties in
  insertion order; property names are not array indices, which JavaScript would list first.
  Numbers are integers below \<open>10^21\<close>, which print in plain decimal notation.
\<close>

datatype json =
    JNull | JBool bool | JNum int | JStr string | JArr "json list" | JObj "(string \<times> json) list"

definition jget :: "(string \<times> json) list \<Rightarrow> string \<Rightarrow> json option" where
  "jget obj k = map_of obj k"

text \<open>\<open>obj[k] = v\<close>: replaces the value in place, or appends the property.\<close>

fun jset :: "string \<Rightarrow> json \<Rightarrow> (string \<times> json) list \<Rightarrow> (string \<times> json) list" where
  "jset k v [] = [(k, v)]"
| "jset k v ((k', v') # ps) = (if k' = k then (k, v) # ps else (k', v') # jset k v ps)"

section \<open>JSON.stringify\<close>

definition hex_digit :: "nat \<Rightarrow> char" where
  "hex_digit n = (if n < 10 then char_of (48 + n) else char_of (87 + n))"

definition quote_char :: "char \<Rightarrow> string" where
  "quote_char c =
     (let n = ccode c in
      if n = 34 then [char_of (92 :: nat), c]
      else if n = 92 then [c, c]
      else if n = 8 then [char_of (92 :: nat), CHR ''b'']
      else if n = 9 then [char_of (92 :: nat), CHR ''t'']
      else if n = 10 then [char_of (92 :: nat), CHR ''n'']
      else if n = 12 then [char_of (92 :: nat), CHR ''f'']
      else if n = 13 then [char_of (92 :: nat), CHR ''r'']
      else if n < 32 then
        [char_of (92 :: nat), CHR ''u'', CHR ''0'', CHR ''0'', hex_digit (n div 16), hex_digit (n mod 16)]
      else [c])"

definition json_quote :: "string \<Rightarrow> string" where
  "json_quote s = char_of (34 :: nat) # concat (map quote_char s) @ [char_of (34 :: nat)]"

fun nat_string :: "nat \<Rightarrow> string" where
  "nat_string n = (if n < 10 then [char_of (48 + n)]
                   else nat_string (n div 10) @ [char_of (48 + n mod 10)])"

declare nat_string.simps [simp del]

definition int_string :: "int \<Rightarrow> string" where
  "int_string i = (if i < 0 then CHR ''-'' # nat_string (nat (- i)) else nat_string (nat i))"

fun json_stringify :: "json \<Rightarrow> string" where
  "json_stringify JNull = ''null''"
| "json_stringify (JBool b) = (if b then ''true'' else ''false'')"
| "json_stringify (JNum i) = int_string i"
| "json_stringify (JStr s) = json_quote s"
| "json_stringify (JArr vs) = ''['' @ js_join '','' (map json_stringify vs) @ '']''"
| "json_stringify (JObj ps) =
     ''{'' @ js_join '','' (map (\<lambda>p. json_quote (fst p) @ '':'' @ json_stringify (snd p)) ps) @ ''}''"

section \<open>Object laws\<close>

lemma jget_jset: "jget (jset k v ps) k' = (if k' = k then Some v else jget ps k')"
  by (induction k v ps rule: jset.induct) (auto simp: jget_def)

lemma jset_keys: "map fst (jset k v ps) = (if k \<in> set (map fst ps) then map fst ps else map fst ps @ [k])"
  by (induction k v ps rule: jset.induct) auto

lemma length_jset: "length (jset k v ps) = (if k \<in> set (map fst ps) then length ps else Suc (length ps))"
  using arg_cong [OF jset_keys, of length k v ps] by (simp split: if_splits)

lemma set_jset: "set (jset k v ps) \<subseteq> insert (k, v) (set ps)"
  by (induction k v ps rule: jset.induct) auto

end
