(* ===== verification/Permission_Rules.thy ===== *)
theory Permission_Rules
  imports Scopes Json
begin

text \<open>
  \<open>src/oauth/permission-rules.ts\<close>: the default-deny rule engine of permission groups. A raw
  rule is a JSON value (\<open>unknown\<close> in the source); the zod schemas are the decoders
  \<open>parse_condition\<close> and \<open>parse_rule\<close>, written out from the schema definitions, with \<open>None\<close> for a
  failed parse.
\<close>

text \<open>\<open>.strict()\<close>: no key beyond the declared ones.\<close>

definition strict_keys :: "string list \<Rightarrow> (string \<times> json) list \<Rightarrow> bool" where
  "strict_keys ks obj = list_all (\<lambda>(k, v). k \<in> set ks) obj"

section \<open>Rules\<close>

definition MAX_PERMISSION_GROUP_RULES :: nat where "MAX_PERMISSION_GROUP_RULES = 256"
definition MAX_PERMISSION_RULE_DEPTH :: nat where "MAX_PERMISSION_RULE_DEPTH = 5"
definition MAX_PERMISSION_RULE_NODES :: nat where "MAX_PERMISSION_RULE_NODES = 64"
definition MAX_PERMISSION_RULE_CHILDREN :: nat where "MAX_PERMISSION_RULE_CHILDREN = 16"
definition MAX_PERMISSION_RULE_SET_VALUES :: nat where "MAX_PERMISSION_RULE_SET_VALUES = 64"

lemmas rule_bounds = MAX_PERMISSION_GROUP_RULES_def MAX_PERMISSION_RULE_DEPTH_def
  MAX_PERMISSION_RULE_NODES_def MAX_PERMISSION_RULE_CHILDREN_def MAX_PERMISSION_RULE_SET_VALUES_def

datatype PermissionRuleEffect = deny | allow
datatype PermissionRuleField = field_application | field_api | field_scope
datatype SingleOperator = equals | not_equals
datatype SetOperator = op_in | not_in
datatype GroupOperator = op_and | op_or

datatype PermissionRuleCondition =
    SingleMatch PermissionRuleField SingleOperator string
  | SetMatch PermissionRuleField SetOperator "string list"
  | GroupCond GroupOperator "PermissionRuleCondition list"

record PermissionGroupRuleInput =
  ri_id :: "string option"
  ri_effect :: PermissionRuleEffect
  ri_condition :: PermissionRuleCondition

record EffectivePermissionRule =
  er_id :: string
  er_effect :: PermissionRuleEffect
  er_condition :: PermissionRuleCondition
  er_groupId :: string
  er_groupName :: string
  er_priority :: int

record PermissionRuleContext =
  cx_application :: string
  cx_api :: string
  cx_scope :: string

datatype ValidationIssue = invalid_rule | too_many_rules | duplicate_rule_id | standard_scope

section \<open>The schemas\<close>

fun parse_field :: "json option \<Rightarrow> PermissionRuleField option" where
  "parse_field (Some (JStr s)) =
     (if s = ''application'' then Some field_application
      else if s = ''api'' then Some field_api
      else if s = ''scope'' then Some field_scope else None)"
| "parse_field _ = None"

fun parse_single_op :: "json option \<Rightarrow> SingleOperator option" where
  "parse_single_op (Some (JStr s)) =
     (if s = ''equals'' then Some equals
      else if s = ''not_equals'' then Some not_equals else None)"
| "parse_single_op _ = None"

fun parse_set_op :: "json option \<Rightarrow> SetOperator option" where
  "parse_set_op (Some (JStr s)) =
     (if s = ''in'' then Some op_in else if s = ''not_in'' then Some not_in else None)"
| "parse_set_op _ = None"

fun parse_group_op :: "json option \<Rightarrow> GroupOperator option" where
  "parse_group_op (Some (JStr s)) =
     (if s = ''and'' then Some op_and else if s = ''or'' then Some op_or else None)"
| "parse_group_op _ = None"

fun parse_effect :: "json option \<Rightarrow> PermissionRuleEffect option" where
  "parse_effect (Some (JStr s)) =
     (if s = ''allow'' then Some allow else if s = ''deny'' then Some deny else None)"
| "parse_effect _ = None"

fun parse_rule_value :: "json option \<Rightarrow> string option" where
  "parse_rule_value (Some (JStr s)) = (if 1 \<le> length s \<and> length s \<le> 2048 then Some s else None)"
| "parse_rule_value _ = None"

definition parse_single :: "(string \<times> json) list \<Rightarrow> PermissionRuleCondition option" where
  "parse_single obj =
     (if \<not> strict_keys [''field'', ''operator'', ''value''] obj then None
      else case (parse_field (jget obj ''field''), parse_single_op (jget obj ''operator''),
                 parse_rule_value (jget obj ''value'')) of
             (Some f, Some op, Some v) \<Rightarrow> Some (SingleMatch f op v)
           | _ \<Rightarrow> None)"

fun parse_values :: "json option \<Rightarrow> string list option" where
  "parse_values (Some (JArr vs)) =
     (case those (map (\<lambda>v. parse_rule_value (Some v)) vs) of
        None \<Rightarrow> None
      | Some values \<Rightarrow>
          if 1 \<le> length values \<and> length values \<le> MAX_PERMISSION_RULE_SET_VALUES \<and>
             length (js_dedup values) = length values
          then Some values else None)"
| "parse_values _ = None"

definition parse_set :: "(string \<times> json) list \<Rightarrow> PermissionRuleCondition option" where
  "parse_set obj =
     (if \<not> strict_keys [''field'', ''operator'', ''values''] obj then None
      else case (parse_field (jget obj ''field''), parse_set_op (jget obj ''operator''),
                 parse_values (jget obj ''values'')) of
             (Some f, Some op, Some vs) \<Rightarrow> Some (SetMatch f op vs)
           | _ \<Rightarrow> None)"

lemma size_json_member: "c \<in> set cs \<Longrightarrow> size c < size (JArr cs)"
  by (induction cs) auto

lemma size_json_field: "(k, v) \<in> set obj \<Longrightarrow> size v < size (JObj obj)"
  by (induction obj) auto

text \<open>\<open>permissionRuleConditionSchema\<close>: the first alternative of the union that accepts.\<close>

function parse_condition :: "json \<Rightarrow> PermissionRuleCondition option" where
  "parse_condition raw =
     (case raw of
        JObj obj \<Rightarrow>
          (case parse_single obj of
             Some c \<Rightarrow> Some c
           | None \<Rightarrow>
               (case parse_set obj of
                  Some c \<Rightarrow> Some c
                | None \<Rightarrow>
                    (if \<not> strict_keys [''operator'', ''conditions''] obj then None
                     else case parse_group_op (jget obj ''operator'') of
                        None \<Rightarrow> None
                      | Some op \<Rightarrow>
                          (case jget obj ''conditions'' of
                             Some (JArr cs) \<Rightarrow>
                               (case those (map parse_condition cs) of
                                  None \<Rightarrow> None
                                | Some conditions \<Rightarrow>
                                    if 1 \<le> length conditions \<and>
                                       length conditions \<le> MAX_PERMISSION_RULE_CHILDREN
                                    then Some (GroupCond op conditions) else None)
                           | _ \<Rightarrow> None))))
      | _ \<Rightarrow> None)"
  by pat_completeness auto
termination
proof (relation "measure size", goal_cases)
  case 1
  show ?case by simp
next
  case (2 raw obj op v cs c)
  then have "(''conditions'', JArr cs) \<in> set obj"
    by (auto simp: jget_def dest: map_of_SomeD)
  then have "size (JArr cs) < size (JObj obj)" by (rule size_json_field)
  moreover have "size c < size (JArr cs)" using 2 by (intro size_json_member)
  ultimately show ?case using 2 by simp
qed

declare parse_condition.simps [simp del]

fun parse_id :: "json option \<Rightarrow> string option option" where
  "parse_id None = Some None"
| "parse_id (Some (JStr s)) = (if 1 \<le> length s \<and> length s \<le> 128 then Some (Some s) else None)"
| "parse_id _ = None"

fun parse_rule :: "json \<Rightarrow> PermissionGroupRuleInput option" where
  "parse_rule (JObj obj) =
     (if \<not> strict_keys [''id'', ''effect'', ''condition''] obj then None
      else case (parse_id (jget obj ''id''), parse_effect (jget obj ''effect''),
                 Option.bind (jget obj ''condition'') parse_condition) of
             (Some i, Some e, Some c) \<Rightarrow> Some \<lparr>ri_id = i, ri_effect = e, ri_condition = c\<rparr>
           | _ \<Rightarrow> None)"
| "parse_rule _ = None"

text \<open>\<open>permissionGroupRulesInputSchema.safeParse\<close>.\<close>

fun parse_rules :: "json \<Rightarrow> PermissionGroupRuleInput list option" where
  "parse_rules (JArr rs) =
     (case those (map parse_rule rs) of
        None \<Rightarrow> None
      | Some rules \<Rightarrow> if length rules \<le> MAX_PERMISSION_GROUP_RULES then Some rules else None)"
| "parse_rules _ = None"

section \<open>Validation\<close>

record inspected =
  in_nodes :: nat
  in_valid :: bool
  in_standardScope :: bool

fun condition_values :: "PermissionRuleCondition \<Rightarrow> string list" where
  "condition_values (SingleMatch f op v) = [v]"
| "condition_values (SetMatch f op vs) = vs"
| "condition_values (GroupCond op cs) = []"

text \<open>
  The loop over the children of a group threads \<open>nodes\<close>, \<open>valid\<close> and \<open>standardScope\<close>.
\<close>

fun inspectCondition :: "PermissionRuleCondition \<Rightarrow> nat \<Rightarrow> inspected"
  and inspectChildren :: "PermissionRuleCondition list \<Rightarrow> nat \<Rightarrow> inspected \<Rightarrow> inspected" where
  "inspectCondition (SingleMatch f op v) depth =
     (if depth > MAX_PERMISSION_RULE_DEPTH
      then \<lparr>in_nodes = 1, in_valid = False, in_standardScope = False\<rparr>
      else \<lparr>in_nodes = 1, in_valid = True,
            in_standardScope = (f = field_scope \<and>
              list_ex (\<lambda>x. x \<in> set RESOURCE_AUTHORIZED_SCOPES) [v])\<rparr>)"
| "inspectCondition (SetMatch f op vs) depth =
     (if depth > MAX_PERMISSION_RULE_DEPTH
      then \<lparr>in_nodes = 1, in_valid = False, in_standardScope = False\<rparr>
      else \<lparr>in_nodes = 1, in_valid = True,
            in_standardScope = (f = field_scope \<and>
              list_ex (\<lambda>x. x \<in> set RESOURCE_AUTHORIZED_SCOPES) vs)\<rparr>)"
| "inspectCondition (GroupCond op cs) depth =
     (if depth > MAX_PERMISSION_RULE_DEPTH
      then \<lparr>in_nodes = 1, in_valid = False, in_standardScope = False\<rparr>
      else (let r = inspectChildren cs (depth + 1)
                     \<lparr>in_nodes = 1, in_valid = (length cs > 0), in_standardScope = False\<rparr>
            in r\<lparr>in_valid := (in_valid r \<and> in_nodes r \<le> MAX_PERMISSION_RULE_NODES)\<rparr>))"
| "inspectChildren [] depth acc = acc"
| "inspectChildren (c # cs) depth acc =
     (let i = inspectCondition c depth
      in inspectChildren cs depth
           \<lparr>in_nodes = in_nodes acc + in_nodes i, in_valid = (in_valid acc \<and> in_valid i),
            in_standardScope = (in_standardScope acc \<or> in_standardScope i)\<rparr>)"

fun check_rules :: "PermissionGroupRuleInput list \<Rightarrow> ValidationIssue option" where
  "check_rules [] = None"
| "check_rules (rule # rules) =
     (let i = inspectCondition (ri_condition rule) 1
      in if \<not> in_valid i \<or> in_nodes i > MAX_PERMISSION_RULE_NODES then Some invalid_rule
         else if in_standardScope i then Some standard_scope
         else check_rules rules)"

definition validatePermissionGroupRules ::
  "json \<Rightarrow> (ValidationIssue, PermissionGroupRuleInput list) result" where
  "validatePermissionGroupRules raw =
     (case parse_rules raw of
        None \<Rightarrow>
          Inl (case raw of
                 JArr rs \<Rightarrow> (if length rs > MAX_PERMISSION_GROUP_RULES then too_many_rules
                             else invalid_rule)
               | _ \<Rightarrow> invalid_rule)
      | Some data \<Rightarrow>
          (let ids = concat (map (\<lambda>rule. case ri_id rule of None \<Rightarrow> [] | Some i \<Rightarrow> [i]) data)
           in if length (js_dedup ids) \<noteq> length ids then Inl duplicate_rule_id
              else case check_rules data of
                     Some issue \<Rightarrow> Inl issue
                   | None \<Rightarrow> Inr data))"

section \<open>Evaluation\<close>

fun conditionUsesScope :: "PermissionRuleCondition \<Rightarrow> bool" where
  "conditionUsesScope (SingleMatch f op v) = (f = field_scope)"
| "conditionUsesScope (SetMatch f op vs) = (f = field_scope)"
| "conditionUsesScope (GroupCond op cs) = list_ex conditionUsesScope cs"

fun listPermissionRuleReferences ::
  "PermissionRuleCondition \<Rightarrow> (PermissionRuleField \<times> string) list" where
  "listPermissionRuleReferences (SingleMatch f op v) = [(f, v)]"
| "listPermissionRuleReferences (SetMatch f op vs) = map (\<lambda>v. (f, v)) vs"
| "listPermissionRuleReferences (GroupCond op cs) = concat (map listPermissionRuleReferences cs)"

fun context_field :: "PermissionRuleContext \<Rightarrow> PermissionRuleField \<Rightarrow> string" where
  "context_field cx field_application = cx_application cx"
| "context_field cx field_api = cx_api cx"
| "context_field cx field_scope = cx_scope cx"

fun permissionRuleMatches :: "PermissionRuleCondition \<Rightarrow> PermissionRuleContext \<Rightarrow> bool" where
  "permissionRuleMatches (SingleMatch f op v) cx =
     (case op of equals \<Rightarrow> context_field cx f = v | not_equals \<Rightarrow> context_field cx f \<noteq> v)"
| "permissionRuleMatches (SetMatch f op vs) cx =
     (case op of op_in \<Rightarrow> context_field cx f \<in> set vs | not_in \<Rightarrow> context_field cx f \<notin> set vs)"
| "permissionRuleMatches (GroupCond op cs) cx =
     (case op of
        op_and \<Rightarrow> list_all (\<lambda>c. permissionRuleMatches c cx) cs
      | op_or \<Rightarrow> list_ex (\<lambda>c. permissionRuleMatches c cx) cs)"

datatype PermissionRuleDecision =
    Allowed int
  | NoMatch
  | Denied int

datatype stage = base_stage | scope_stage

definition matching_rules ::
  "EffectivePermissionRule list \<Rightarrow> PermissionRuleContext \<Rightarrow> stage \<Rightarrow> EffectivePermissionRule list" where
  "matching_rules rules cx st =
     filter (\<lambda>rule. conditionUsesScope (er_condition rule) = (st = scope_stage) \<and>
               permissionRuleMatches (er_condition rule) cx) rules"

definition resolvePermissionRules ::
  "EffectivePermissionRule list \<Rightarrow> PermissionRuleContext \<Rightarrow> stage \<Rightarrow> PermissionRuleDecision" where
  "resolvePermissionRules rules cx st =
     (case matching_rules rules cx st of
        [] \<Rightarrow> NoMatch
      | r # rs \<Rightarrow>
          (let priority = fold min (map er_priority rs) (er_priority r);
               winning = filter (\<lambda>rule. er_priority rule = priority) (r # rs)
           in if list_ex (\<lambda>rule. er_effect rule = deny) winning then Denied priority
              else Allowed priority))"

definition isResourceAuthorizedScope :: "string \<Rightarrow> bool" where
  "isResourceAuthorizedScope scope = (scope \<in> set RESOURCE_AUTHORIZED_SCOPES)"

section \<open>What validation guarantees\<close>

fun cond_nodes :: "PermissionRuleCondition \<Rightarrow> nat" where
  "cond_nodes (GroupCond op cs) = 1 + sum_list (map cond_nodes cs)"
| "cond_nodes _ = 1"

fun cond_depth :: "PermissionRuleCondition \<Rightarrow> nat" where
  "cond_depth (GroupCond op cs) = 1 + foldr max (map cond_depth cs) 0"
| "cond_depth _ = 1"

text \<open>Some scope leaf names a standard scope.\<close>

definition mentions_standard :: "PermissionRuleCondition \<Rightarrow> bool" where
  "mentions_standard c =
     list_ex (\<lambda>(f, v). f = field_scope \<and> isResourceAuthorizedScope v) (listPermissionRuleReferences c)"

lemma mentions_standard_simps [simp]:
  "mentions_standard (SingleMatch f op v) = (f = field_scope \<and> isResourceAuthorizedScope v)"
  "mentions_standard (SetMatch f sop vs) = (f = field_scope \<and> list_ex isResourceAuthorizedScope vs)"
  "mentions_standard (GroupCond gop cs) = list_ex mentions_standard cs"
  by (auto simp: mentions_standard_def list_ex_iff)

lemma inspect_sound:
  "in_valid (inspectCondition c d) \<Longrightarrow>
     in_nodes (inspectCondition c d) = cond_nodes c \<and> d + cond_depth c \<le> 6 \<and> cond_nodes c \<le> 64 \<and>
     in_standardScope (inspectCondition c d) = mentions_standard c"
  "in_valid (inspectChildren cs d acc) \<Longrightarrow>
     in_valid acc \<and> in_nodes (inspectChildren cs d acc) = in_nodes acc + sum_list (map cond_nodes cs) \<and>
     (\<forall>c\<in>set cs. d + cond_depth c \<le> 6) \<and>
     in_standardScope (inspectChildren cs d acc) = (in_standardScope acc \<or> list_ex mentions_standard cs)"
proof (induction c d and cs d acc rule: inspectCondition_inspectChildren.induct)
  case (3 op cs depth)
  have d: "\<not> depth > MAX_PERMISSION_RULE_DEPTH" using 3(2) by (auto split: if_splits)
  let ?acc = "\<lparr>in_nodes = 1, in_valid = (length cs > 0), in_standardScope = False\<rparr>"
  have v: "in_valid (inspectChildren cs (depth + 1) ?acc)"
    "in_nodes (inspectChildren cs (depth + 1) ?acc) \<le> 64"
    using 3(2) d by (auto simp: Let_def rule_bounds)
  note IH = 3(1) [OF d v(1)]
  have "depth + 1 + foldr max (map cond_depth cs) 0 \<le> 6"
  proof -
    have "\<forall>x\<in>set (map cond_depth cs). depth + 1 + x \<le> 6" using IH by auto
    moreover have "depth + 1 \<le> 6" using d by (simp add: rule_bounds)
    ultimately show ?thesis by (rule foldr_max_le)
  qed
  moreover have "cs \<noteq> []" using IH by simp
  ultimately show ?case using IH v d by (simp add: Let_def)
qed (auto simp: isResourceAuthorizedScope_def rule_bounds Let_def list_ex_iff split: if_splits)

lemma check_rules_sound:
  "check_rules rules = None \<Longrightarrow> rule \<in> set rules \<Longrightarrow>
     cond_nodes (ri_condition rule) \<le> 64 \<and> cond_depth (ri_condition rule) \<le> 5 \<and>
     \<not> mentions_standard (ri_condition rule)"
proof (induction rules)
  case (Cons r rules)
  then show ?case
    using inspect_sound(1) [of "ri_condition r" 1]
    by (auto simp: Let_def split: if_splits)
qed simp

section \<open>The decision as a minimum\<close>

text \<open>
  Effects ordered with \<open>deny\<close> first: among matching rules the decision is the least pair of
  priority and effect, so deny wins ties.
\<close>

instantiation PermissionRuleEffect :: linorder
begin

definition less_eq_PermissionRuleEffect :: "PermissionRuleEffect \<Rightarrow> PermissionRuleEffect \<Rightarrow> bool" where
  "less_eq_PermissionRuleEffect a b = (a = deny \<or> b = allow)"

definition less_PermissionRuleEffect :: "PermissionRuleEffect \<Rightarrow> PermissionRuleEffect \<Rightarrow> bool" where
  "less_PermissionRuleEffect a b = (a = deny \<and> b = allow)"

instance
proof (standard, goal_cases)
  case (1 x y)
  show ?case by (cases x; cases y) (simp_all add: less_PermissionRuleEffect_def less_eq_PermissionRuleEffect_def)
next
  case (2 x)
  show ?case by (cases x) (simp_all add: less_eq_PermissionRuleEffect_def)
next
  case (3 x y z)
  then show ?case by (cases x; cases y; cases z) (simp_all add: less_eq_PermissionRuleEffect_def)
next
  case (4 x y)
  then show ?case by (cases x; cases y) (simp_all add: less_eq_PermissionRuleEffect_def)
next
  case (5 x y)
  show ?case by (cases x; cases y) (simp_all add: less_eq_PermissionRuleEffect_def)
qed

end

lemma effect_order [simp]: "deny \<le> (e :: PermissionRuleEffect)" "(e :: PermissionRuleEffect) \<le> allow"
  by (simp_all add: less_eq_PermissionRuleEffect_def)

definition rule_key :: "EffectivePermissionRule \<Rightarrow> int \<times> PermissionRuleEffect" where
  "rule_key r = (er_priority r, er_effect r)"

fun decision_of :: "int \<times> PermissionRuleEffect \<Rightarrow> PermissionRuleDecision" where
  "decision_of (p, allow) = Allowed p"
| "decision_of (p, deny) = Denied p"

lemma winning_key:
  assumes "ms \<noteq> []" and p: "p = Min (er_priority ` set ms)"
  shows "Min (rule_key ` set ms) =
    (p, if list_ex (\<lambda>r. er_effect r = deny) (filter (\<lambda>r. er_priority r = p) ms) then deny else allow)"
proof (rule Min_eqI)
  show "finite (rule_key ` set ms)" by simp
next
  fix y
  assume "y \<in> rule_key ` set ms"
  then obtain r where r: "r \<in> set ms" "y = rule_key r" by auto
  have "p \<le> er_priority r" using r by (simp add: p)
  moreover have "er_effect r = allow \<or> list_ex (\<lambda>r. er_effect r = deny) (filter (\<lambda>r. er_priority r = p) ms)"
    if "er_priority r = p"
    using r that by (cases "er_effect r") (auto simp: list_ex_iff)
  ultimately show "(p, if list_ex (\<lambda>r. er_effect r = deny) (filter (\<lambda>r. er_priority r = p) ms) then deny
      else allow) \<le> y"
    using r by (cases "er_priority r = p") (auto simp: rule_key_def less_eq_prod_def)
next
  have "p \<in> er_priority ` set ms" unfolding p using assms(1) by (intro Min_in) auto
  then obtain r where r: "r \<in> set ms" "er_priority r = p" by auto
  show "(p, if list_ex (\<lambda>r. er_effect r = deny) (filter (\<lambda>r. er_priority r = p) ms) then deny else allow)
    \<in> rule_key ` set ms"
  proof (cases "list_ex (\<lambda>r. er_effect r = deny) (filter (\<lambda>r. er_priority r = p) ms)")
    case True
    then obtain q where "q \<in> set ms" "er_effect q = deny" "er_priority q = p"
      by (auto simp: list_ex_iff)
    with True show ?thesis by (auto simp: rule_key_def intro!: image_eqI [where x = q])
  next
    case False
    then have "er_effect r = allow" using r by (cases "er_effect r") (auto simp: list_ex_iff)
    with False r show ?thesis by (auto simp: rule_key_def intro!: image_eqI [where x = r])
  qed
qed

lemma resolve_is_least:
  "resolvePermissionRules rules cx st =
     (if matching_rules rules cx st = [] then NoMatch
      else decision_of (Min (rule_key ` set (matching_rules rules cx st))))"
proof (cases "matching_rules rules cx st")
  case (Cons r rs)
  let ?p = "fold min (map er_priority rs) (er_priority r)"
  have p: "?p = Min (er_priority ` set (r # rs))"
    using Min.set_eq_fold [of "er_priority r" "map er_priority rs"] by simp
  have "resolvePermissionRules rules cx st =
    decision_of (?p, if list_ex (\<lambda>r. er_effect r = deny) (filter (\<lambda>r. er_priority r = ?p) (r # rs))
      then deny else allow)"
    unfolding resolvePermissionRules_def Cons list.case Let_def
    by (simp only: decision_of.simps split: if_split) simp
  also have "\<dots> = decision_of (Min (rule_key ` set (r # rs)))"
    using winning_key [of "r # rs", OF _ p] by (simp only: list.distinct not_False_eq_True)
  finally show ?thesis by (simp only: Cons list.distinct if_False)
qed (simp add: resolvePermissionRules_def)

lemma resolve_Allowed:
  "resolvePermissionRules rules cx st = Allowed p \<Longrightarrow>
     \<exists>r\<in>set (matching_rules rules cx st). er_effect r = allow \<and> er_priority r = p \<and>
       (\<forall>q\<in>set (matching_rules rules cx st). p \<le> er_priority q \<and>
          (er_priority q = p \<longrightarrow> er_effect q = allow))"
proof -
  assume a: "resolvePermissionRules rules cx st = Allowed p"
  let ?M = "rule_key ` set (matching_rules rules cx st)"
  have ne: "matching_rules rules cx st \<noteq> []" and d: "decision_of (Min ?M) = Allowed p"
    using a by (auto simp: resolve_is_least split: if_splits)
  then have m: "Min ?M = (p, allow)"
    by (metis PermissionRuleDecision.distinct(3) PermissionRuleDecision.inject(1) PermissionRuleEffect.exhaust
        decision_of.simps surj_pair)
  have "Min ?M \<in> ?M" using ne by (intro Min_in) auto
  then obtain r where r: "r \<in> set (matching_rules rules cx st)" "rule_key r = (p, allow)"
    using m by auto
  have "(p, allow) \<le> rule_key q" if "q \<in> set (matching_rules rules cx st)" for q
    using that by (metis List.finite_set Min_le finite_imageI imageI m)
  then have "\<forall>q\<in>set (matching_rules rules cx st). p \<le> er_priority q \<and>
      (er_priority q = p \<longrightarrow> er_effect q = allow)"
    by (force simp: rule_key_def less_eq_prod_def less_eq_PermissionRuleEffect_def)
  with r show ?thesis by (auto simp: rule_key_def)
qed

section \<open>Storing and reloading a condition\<close>

text \<open>The JSON text of a condition, as \<open>JSON.stringify\<close> writes it to \<open>condition_json\<close>.\<close>

fun field_string :: "PermissionRuleField \<Rightarrow> string" where
  "field_string field_application = ''application''"
| "field_string field_api = ''api''"
| "field_string field_scope = ''scope''"

fun effect_string :: "PermissionRuleEffect \<Rightarrow> string" where
  "effect_string allow = ''allow''"
| "effect_string deny = ''deny''"

fun condition_json :: "PermissionRuleCondition \<Rightarrow> json" where
  "condition_json (SingleMatch f op v) =
     JObj [(''field'', JStr (field_string f)),
           (''operator'', JStr (case op of equals \<Rightarrow> ''equals'' | not_equals \<Rightarrow> ''not_equals'')),
           (''value'', JStr v)]"
| "condition_json (SetMatch f op vs) =
     JObj [(''field'', JStr (field_string f)),
           (''operator'', JStr (case op of op_in \<Rightarrow> ''in'' | not_in \<Rightarrow> ''not_in'')),
           (''values'', JArr (map JStr vs))]"
| "condition_json (GroupCond op cs) =
     JObj [(''operator'', JStr (case op of op_and \<Rightarrow> ''and'' | op_or \<Rightarrow> ''or'')),
           (''conditions'', JArr (map condition_json cs))]"

text \<open>The bounds the schemas impose on a condition.\<close>

definition wf_value :: "string \<Rightarrow> bool" where
  "wf_value v = (1 \<le> length v \<and> length v \<le> 2048)"

fun wf_condition :: "PermissionRuleCondition \<Rightarrow> bool" where
  "wf_condition (SingleMatch f op v) = wf_value v"
| "wf_condition (SetMatch f op vs) =
     (1 \<le> length vs \<and> length vs \<le> MAX_PERMISSION_RULE_SET_VALUES \<and> distinct vs \<and> list_all wf_value vs)"
| "wf_condition (GroupCond op cs) =
     (1 \<le> length cs \<and> length cs \<le> MAX_PERMISSION_RULE_CHILDREN \<and> list_all wf_condition cs)"

lemma those_map_Some: "(\<And>x. x \<in> set xs \<Longrightarrow> f x = Some (g x)) \<Longrightarrow> those (map f xs) = Some (map g xs)"
  by (induction xs) auto

lemma those_SomeD: "those (map f xs) = Some ys \<Longrightarrow> list_all2 (\<lambda>x y. f x = Some y) xs ys"
  by (induction xs arbitrary: ys) (auto split: option.splits)

lemma list_all2_Some_all:
  "list_all2 (\<lambda>x y. f x = Some y) xs ys \<Longrightarrow> (\<And>x y. x \<in> set xs \<Longrightarrow> f x = Some y \<Longrightarrow> P y) \<Longrightarrow> list_all P ys"
  by (induction rule: list_all2_induct) auto

lemma parse_field_string [simp]: "parse_field (Some (JStr (field_string f))) = Some f"
  by (cases f) auto

lemma parse_condition_json: "wf_condition c \<Longrightarrow> parse_condition (condition_json c) = Some c"
proof (induction c)
  case (SingleMatch f op v)
  then show ?case
    by (cases op; cases f; subst parse_condition.simps;
        simp add: parse_single_def strict_keys_def jget_def wf_value_def)
next
  case (SetMatch f op vs)
  have t: "those (map (\<lambda>v. parse_rule_value (Some v)) (map JStr vs)) = Some vs"
    using SetMatch those_map_Some [of vs "\<lambda>v. parse_rule_value (Some (JStr v))" id]
    by (simp add: comp_def list_all_iff wf_value_def)
  show ?case
    using SetMatch t
    by (cases op; cases f; subst parse_condition.simps;
        simp add: parse_single_def parse_set_def strict_keys_def jget_def js_dedup_distinct comp_def)
next
  case (GroupCond op cs)
  have t: "those (map parse_condition (map condition_json cs)) = Some cs"
    using GroupCond those_map_Some [of cs "\<lambda>c. parse_condition (condition_json c)" id]
    by (simp add: comp_def list_all_iff)
  show ?case
    using GroupCond(2) t
    by (cases op; subst parse_condition.simps;
        simp add: parse_single_def parse_set_def strict_keys_def jget_def comp_def)
qed

lemma wf_parse_rule_value: "parse_rule_value j = Some v \<Longrightarrow> wf_value v"
  by (cases j rule: parse_rule_value.cases) (auto simp: wf_value_def split: if_splits)

lemma wf_parse_single: "parse_single obj = Some c \<Longrightarrow> wf_condition c"
  by (auto simp: parse_single_def wf_parse_rule_value split: if_splits option.splits)

lemma wf_parse_values:
  "parse_values j = Some vs \<Longrightarrow> 1 \<le> length vs \<and> length vs \<le> MAX_PERMISSION_RULE_SET_VALUES \<and>
     distinct vs \<and> list_all wf_value vs"
proof (cases j rule: parse_values.cases)
  case (1 js)
  assume a: "parse_values j = Some vs"
  then have "list_all2 (\<lambda>x y. parse_rule_value (Some x) = Some y) js vs"
    using 1 those_SomeD [of "\<lambda>v. parse_rule_value (Some v)" js] by (auto split: option.splits if_splits)
  then have "list_all wf_value vs"
    by (induction rule: list_all2_induct) (auto dest: wf_parse_rule_value)
  with a 1 show ?thesis by (auto simp: js_dedup_length_eq_iff split: option.splits if_splits)
qed auto

lemma wf_parse_set: "parse_set obj = Some c \<Longrightarrow> wf_condition c"
  by (auto simp: parse_set_def dest!: wf_parse_values split: if_splits option.splits)

lemma wf_parse_condition: "parse_condition raw = Some c \<Longrightarrow> wf_condition c"
proof (induction raw arbitrary: c rule: parse_condition.induct)
  case (1 raw)
  consider (leaf) obj where "parse_single obj = Some c \<or> parse_set obj = Some c"
    | (group) obj op cs conds where "raw = JObj obj" "parse_single obj = None" "parse_set obj = None"
      "strict_keys [''operator'', ''conditions''] obj" "parse_group_op (jget obj ''operator'') = Some op"
      "jget obj ''conditions'' = Some (JArr cs)" "those (map parse_condition cs) = Some conds"
      "1 \<le> length conds" "length conds \<le> MAX_PERMISSION_RULE_CHILDREN" "c = GroupCond op conds"
    using "1.prems"
    by (subst (asm) parse_condition.simps) (auto split: json.splits option.splits if_splits)
  then show ?case
  proof cases
    case leaf
    then show ?thesis using wf_parse_single wf_parse_set by blast
  next
    case group
    have IH: "x \<in> set cs \<Longrightarrow> parse_condition x = Some y \<Longrightarrow> wf_condition y" for x y
      using "1.IH" [OF group(1,2,3) _ group(5,6) refl] group(4) by blast
    have "list_all wf_condition conds"
      using those_SomeD [OF group(7)] IH by (rule list_all2_Some_all)
    with group show ?thesis by simp
  qed
qed

section \<open>Properties\<close>

text \<open>
  The rule engine decides by the least key: among the rules of the stage that match, ordered
  by priority and, at equal priority, with \<open>deny\<close> before \<open>allow\<close>, the least one decides; with no
  matching rule there is no permission.
\<close>

theorem decision_is_least_rule:
  "resolvePermissionRules rules cx st =
     (if matching_rules rules cx st = [] then NoMatch
      else decision_of (Min (rule_key ` set (matching_rules rules cx st))))"
  by (rule resolve_is_least)

text \<open>
  Validation bounds every stored rule: rules accepted by \<open>validatePermissionGroupRules\<close> are at
  most 256, have conditions of at most 64 nodes and depth at most 5, well-formed leaves, and no
  leaf that names a standard scope.
\<close>

theorem validated_rules_bounded:
  assumes "validatePermissionGroupRules raw = Inr rules"
  shows "length rules \<le> 256 \<and>
    (\<forall>r\<in>set rules. cond_nodes (ri_condition r) \<le> 64 \<and> cond_depth (ri_condition r) \<le> 5 \<and>
       wf_condition (ri_condition r) \<and> \<not> mentions_standard (ri_condition r))"
proof -
  have p: "parse_rules raw = Some rules" and c: "check_rules rules = None"
    using assms by (auto simp: validatePermissionGroupRules_def Let_def split: option.splits if_splits)
  obtain rs where rs: "those (map parse_rule rs) = Some rules" "length rules \<le> 256"
    using p by (cases raw rule: parse_rules.cases) (auto simp: rule_bounds split: option.splits if_splits)
  have "list_all (\<lambda>r. wf_condition (ri_condition r)) rules"
    using those_SomeD [OF rs(1)]
  proof (rule list_all2_Some_all)
    fix x y
    assume "parse_rule x = Some y"
    then show "wf_condition (ri_condition y)"
      by (cases x rule: parse_rule.cases)
        (auto dest: wf_parse_condition split: if_splits option.splits bind_splits)
  qed
  with rs(2) check_rules_sound [OF c] show ?thesis by (auto simp: list_all_iff)
qed

definition demo_rules :: json where
  "demo_rules = JArr [JObj [(''effect'', JStr ''allow''),
     (''condition'', condition_json (SingleMatch field_application equals ''app''))]]"

lemma demo_rules_valid:
  "validatePermissionGroupRules demo_rules =
     Inr [\<lparr>ri_id = None, ri_effect = allow, ri_condition = SingleMatch field_application equals ''app''\<rparr>]"
proof -
  have "parse_condition (condition_json (SingleMatch field_application equals ''app'')) =
      Some (SingleMatch field_application equals ''app'')"
    by (rule parse_condition_json) (simp add: wf_value_def)
  then show ?thesis
    by (simp add: demo_rules_def validatePermissionGroupRules_def strict_keys_def jget_def rule_bounds
        Let_def del: condition_json.simps)
qed

theorem validated_rules_bounded_witness:
  "\<exists>rules. validatePermissionGroupRules demo_rules = Inr rules \<and> length rules \<le> 256"
  using validated_rules_bounded [OF demo_rules_valid] demo_rules_valid by blast

text \<open>
  A validated condition survives storage: the JSON text written to \<open>condition_json\<close> parses
  back to the same condition on every read.
\<close>

theorem stored_condition_roundtrip:
  assumes "parse_condition raw = Some c"
  shows "parse_condition (condition_json c) = Some c"
  using parse_condition_json [OF wf_parse_condition [OF assms]] .

theorem stored_condition_roundtrip_witness:
  "parse_condition (condition_json (GroupCond op_or [SingleMatch field_api not_equals ''x''])) =
     Some (GroupCond op_or [SingleMatch field_api not_equals ''x''])"
proof -
  let ?c = "GroupCond op_or [SingleMatch field_api not_equals ''x'']"
  have "parse_condition (condition_json ?c) = Some ?c"
    by (rule parse_condition_json) (simp add: wf_value_def rule_bounds)
  then show ?thesis by (rule stored_condition_roundtrip)
qed

end
