(* ===== verification/Database.thy ===== *)
theory Database
  imports Permission_Rules
begin

text \<open>
  The D1 tables the authorization core reads and writes, and the query functions of
  \<open>src/db/queries\<close> over them. A table is the list of its rows in insertion order. A column
  that holds JSON text (scope lists, redirect lists) is the decoded list; the condition of a
  permission rule is kept as a JSON value (or \<open>None\<close> when the text is not JSON), because the
  code re-validates it on every read. The statements are total functions on tables: \<open>SELECT\<close>
  with \<open>first()\<close> is \<open>find\<close>, \<open>UPDATE ... WHERE\<close> is \<open>update_where\<close> and its \<open>meta.changes\<close> is
  \<open>changes\<close>.
\<close>

section \<open>Statements\<close>

definition update_where :: "('r \<Rightarrow> bool) \<Rightarrow> ('r \<Rightarrow> 'r) \<Rightarrow> 'r list \<Rightarrow> 'r list" where
  "update_where P f t = map (\<lambda>r. if P r then f r else r) t"

definition changes :: "('r \<Rightarrow> bool) \<Rightarrow> 'r list \<Rightarrow> nat" where
  "changes P t = length (filter P t)"

lemma update_where_simps [simp, table_simps]:
  "update_where P f [] = []"
  "update_where P f (r # t) = (if P r then f r else r) # update_where P f t"
  "length (update_where P f t) = length t"
  by (simp_all add: update_where_def)

lemma set_update_where: "set (update_where P f t) = (\<lambda>r. if P r then f r else r) ` set t"
  by (auto simp: update_where_def)

lemma filter_update_where:
  "filter Q (update_where P f t) = map (\<lambda>r. if P r then f r else r)
     (filter (\<lambda>r. Q (if P r then f r else r)) t)"
  by (induction t) auto

lemma filter_update_untouched:
  assumes "\<And>r. P r \<Longrightarrow> \<not> Q r \<and> \<not> Q (f r)"
  shows "filter Q (update_where P f t) = filter Q t"
  using assms by (induction t) auto

lemma filter_update_removed:
  assumes "\<And>r. P r \<Longrightarrow> \<not> Q (f r)"
  shows "filter Q (update_where P f t) = filter (\<lambda>r. \<not> P r) (filter Q t)"
  using assms by (induction t) auto

lemma map_update_where: "(\<And>r. g (f r) = g r) \<Longrightarrow> map g (update_where P f t) = map g t"
  by (induction t) auto

lemma find_update_where:
  assumes "\<And>r. K (f r) = K r"
  shows "find (\<lambda>r. K r = k) (update_where P f t) =
    map_option (\<lambda>r. if P r then f r else r) (find (\<lambda>r. K r = k) t)"
  using assms by (induction t) auto

lemma find_append_None: "find P xs = None \<Longrightarrow> find P (xs @ ys) = find P ys"
  by (induction xs) (auto split: if_splits)

lemma find_by_key:
  assumes "distinct (map k t)" "r \<in> set t"
  shows "find (\<lambda>x. k x = k r) t = Some r"
  using assms by (induction t) force+

lemma find_Some_mem: "find P t = Some r \<Longrightarrow> r \<in> set t \<and> P r"
  by (induction t) (auto split: if_splits)

section \<open>Rows\<close>

record user_row = User +
  ur_securityVersion :: int
  ur_updatedAt :: int

record session_row = SessionRecord +
  se_tokenHash :: string
  se_amrJson :: string
  se_ipHash :: "string option"
  se_userAgentHash :: "string option"
  se_revokedAt :: "int option"

record refresh_row =
  rt_id :: string
  rt_tokenHash :: string
  rt_userId :: string
  rt_clientId :: string
  rt_sessionId :: "string option"
  rt_resource :: string
  rt_scope :: string
  rt_generation :: int
  rt_rememberMe :: bool
  rt_createdAt :: int
  rt_lastRotatedAt :: int
  rt_expiresAt :: int
  rt_authTime :: int
  rt_revokedAt :: "int option"

record consent_row =
  cs_id :: string
  cs_userId :: string
  cs_clientId :: string
  cs_scope :: string
  cs_resource :: string
  cs_metadataFingerprint :: "string option"
  cs_createdAt :: int
  cs_updatedAt :: int

record grant_row =
  gr_id :: string
  gr_userId :: string
  gr_clientId :: string
  gr_sessionId :: "string option"
  gr_scope :: string
  gr_resource :: string
  gr_grantType :: string
  gr_createdAt :: int
  gr_revokedAt :: "int option"

record device_row =
  dv_id :: string
  dv_deviceCodeHash :: string
  dv_userCodeHash :: string
  dv_clientId :: string
  dv_resourceUri :: "string option"
  dv_scope :: string
  dv_status :: DeviceStatus
  dv_userId :: "string option"
  dv_expiresAt :: int
  dv_approvedAt :: "int option"
  dv_deniedAt :: "int option"
  dv_lastPolledAt :: "int option"
  dv_pollIntervalSeconds :: int
  dv_pollCount :: int
  dv_createdAt :: int
  dv_sessionId :: "string option"
  dv_authTime :: "int option"

record reauth_row =
  ra_tokenHash :: string
  ra_sessionId :: string
  ra_requestHash :: string
  ra_expiresAt :: int
  ra_createdAt :: int
  ra_consumedAt :: "int option"

record group_row =
  gp_id :: string
  gp_name :: string
  gp_priority :: int
  gp_description :: "string option"
  gp_isPublic :: bool

record membership_row =
  um_userId :: string
  um_groupId :: string
  um_createdAt :: int

record membership_request_row =
  mq_userId :: string
  mq_groupId :: string
  mq_requestedAt :: int

record group_rule_row =
  pr_id :: string
  pr_groupId :: string
  pr_effect :: PermissionRuleEffect
  pr_condition_json :: "json option"
  pr_position :: int

record db =
  t_users :: "user_row list"
  t_sessions :: "session_row list"
  t_refresh_tokens :: "refresh_row list"
  t_consents :: "consent_row list"
  t_authorization_grants :: "grant_row list"
  t_devices :: "device_row list"
  t_oauth_clients :: "OAuthClient list"
  t_oauth_resources :: "OAuthResource list"
  t_metadata_client_approvals :: "(string \<times> string) list"
  t_groups :: "group_row list"
  t_user_groups :: "membership_row list"
  t_group_requests :: "membership_request_row list"
  t_permission_group_rules :: "group_rule_row list"
  t_reauth_continuations :: "reauth_row list"

text \<open>
  What the foreign keys do when sessions are deleted: an optional reference becomes null, and a row
  with a mandatory one is deleted with its session.
\<close>

definition unlink :: "string list \<Rightarrow> string option \<Rightarrow> string option" where
  "unlink ids link = (case link of None \<Rightarrow> None | Some i \<Rightarrow> if i \<in> set ids then None else Some i)"

definition forget_sessions :: "string list \<Rightarrow> db \<Rightarrow> db" where
  "forget_sessions ids db = db\<lparr>
     t_refresh_tokens := map (\<lambda>r. r\<lparr>rt_sessionId := unlink ids (rt_sessionId r)\<rparr>) (t_refresh_tokens db),
     t_authorization_grants := map (\<lambda>r. r\<lparr>gr_sessionId := unlink ids (gr_sessionId r)\<rparr>) (t_authorization_grants db),
     t_devices := map (\<lambda>r. r\<lparr>dv_sessionId := unlink ids (dv_sessionId r)\<rparr>) (t_devices db),
     t_reauth_continuations := filter (\<lambda>r. ra_sessionId r \<notin> set ids) (t_reauth_continuations db)\<rparr>"

text \<open>
  The trigger that deletes the permission rules naming a deleted client or resource: a rule is deleted
  when some object in its condition has the field and the name as its value or among its values.
\<close>

definition json_names :: "string \<Rightarrow> json option \<Rightarrow> bool" where
  "json_names name v = (case v of Some (JStr s) \<Rightarrow> s = name | Some (JNum i) \<Rightarrow> int_string i = name | _ \<Rightarrow> False)"

fun json_mentions :: "string \<Rightarrow> string \<Rightarrow> json \<Rightarrow> bool" where
  "json_mentions field name (JObj ps) =
     (jget ps ''field'' = Some (JStr field) \<and>
        (json_names name (jget ps ''value'') \<or>
         (case jget ps ''values'' of Some (JArr vs) \<Rightarrow> list_ex (\<lambda>v. json_names name (Some v)) vs | _ \<Rightarrow> False)) \<or>
      list_ex (\<lambda>p. json_mentions field name (snd p)) ps)"
| "json_mentions field name (JArr vs) = list_ex (\<lambda>v. json_mentions field name v) vs"
| "json_mentions field name _ = False"

definition prune_rules :: "string \<Rightarrow> string list \<Rightarrow> db \<Rightarrow> db" where
  "prune_rules field names db = db\<lparr>t_permission_group_rules :=
     filter (\<lambda>r. case pr_condition_json r of None \<Rightarrow> True | Some j \<Rightarrow> \<not> list_ex (\<lambda>n. json_mentions field n j) names)
       (t_permission_group_rules db)\<rparr>"

section \<open>users.ts, clients.ts, resources.ts\<close>

definition getUserById :: "db \<Rightarrow> string \<Rightarrow> User option" where
  "getUserById db i = map_option User.truncate (find (\<lambda>r. u_id r = i) (t_users db))"

definition getClientById :: "db \<Rightarrow> string \<Rightarrow> OAuthClient option" where
  "getClientById db clientId = find (\<lambda>c. oc_clientId c = clientId) (t_oauth_clients db)"

definition getResourceByUri :: "db \<Rightarrow> string \<Rightarrow> OAuthResource option" where
  "getResourceByUri db uri = find (\<lambda>r. rs_resourceUri r = uri) (t_oauth_resources db)"

definition isMetadataClientApproved :: "db \<Rightarrow> string \<Rightarrow> string \<Rightarrow> bool" where
  "isMetadataClientApproved db clientId resourceUri =
     ((clientId, resourceUri) \<in> set (t_metadata_client_approvals db))"

lemma getUserById_id: "getUserById db i = Some u \<Longrightarrow> u_id u = i"
  by (auto simp: getUserById_def User.defs dest: find_Some_mem)

lemma getClientById_id: "getClientById db i = Some c \<Longrightarrow> oc_clientId c = i"
  by (auto simp: getClientById_def dest: find_Some_mem)

lemma getResourceByUri_uri: "getResourceByUri db i = Some r \<Longrightarrow> rs_resourceUri r = i"
  by (auto simp: getResourceByUri_def dest: find_Some_mem)

section \<open>tokens.ts\<close>

record RefreshTokenRecord =
  rr_familyId :: string
  rr_userId :: string
  rr_clientId :: string
  rr_sessionId :: "string option"
  rr_resource :: string
  rr_scope :: string
  rr_authTime :: int
  rr_expiresAt :: int
  rr_revokedAt :: "int option"

definition map_refresh :: "refresh_row \<Rightarrow> RefreshTokenRecord" where
  "map_refresh r = \<lparr>rr_familyId = rt_id r, rr_userId = rt_userId r, rr_clientId = rt_clientId r,
     rr_sessionId = rt_sessionId r, rr_resource = rt_resource r, rr_scope = rt_scope r,
     rr_authTime = rt_authTime r, rr_expiresAt = rt_expiresAt r, rr_revokedAt = rt_revokedAt r\<rparr>"

definition getRefreshTokenByHash :: "db \<Rightarrow> string \<Rightarrow> RefreshTokenRecord option" where
  "getRefreshTokenByHash db tokenHash =
     map_option map_refresh (find (\<lambda>r. rt_tokenHash r = tokenHash) (t_refresh_tokens db))"

definition getRefreshTokenByFamilyId :: "db \<Rightarrow> string \<Rightarrow> RefreshTokenRecord option" where
  "getRefreshTokenByFamilyId db familyId =
     map_option map_refresh (find (\<lambda>r. rt_id r = familyId) (t_refresh_tokens db))"

definition markRefreshTokenRevoked :: "int \<Rightarrow> string \<Rightarrow> db \<Rightarrow> db" where
  "markRefreshTokenRevoked now familyId db =
     db\<lparr>t_refresh_tokens := update_where (\<lambda>r. rt_id r = familyId \<and> rt_revokedAt r = None)
          (\<lambda>r. r\<lparr>rt_revokedAt := Some now\<rparr>) (t_refresh_tokens db)\<rparr>"

section \<open>consents.ts\<close>

record ConsentRecord =
  cr_scope :: string
  cr_resource :: "string option"
  cr_metadataFingerprint :: "string option"

text \<open>\<open>getConsent\<close> with a resource argument, the form every caller of the core uses.\<close>

definition getConsent :: "db \<Rightarrow> string \<Rightarrow> string \<Rightarrow> string \<Rightarrow> ConsentRecord option" where
  "getConsent db userId clientId resource =
     map_option (\<lambda>r. \<lparr>cr_scope = cs_scope r,
         cr_resource = (if cs_resource r = [] then None else Some (cs_resource r)),
         cr_metadataFingerprint = cs_metadataFingerprint r\<rparr>)
       (find (\<lambda>r. cs_userId r = userId \<and> cs_clientId r = clientId \<and> cs_resource r = resource)
         (t_consents db))"

text \<open>
  The scope merge of the upsert: the values of the old and the new scope string, grouped, with
  the least source and the least position of each group, ordered by that pair.
\<close>

fun position_in :: "'a \<Rightarrow> 'a list \<Rightarrow> nat option" where
  "position_in v [] = None"
| "position_in v (x # xs) = (if x = v then Some 0 else map_option Suc (position_in v xs))"

definition merge_key :: "string list \<Rightarrow> string list \<Rightarrow> string \<Rightarrow> nat \<times> nat" where
  "merge_key old new v =
     (case (position_in v old, position_in v new) of
        (Some i, Some j) \<Rightarrow> (0, min i j)
      | (Some i, None) \<Rightarrow> (0, i)
      | (None, Some j) \<Rightarrow> (1, j)
      | (None, None) \<Rightarrow> (1, 0))"

definition merge_scopes :: "string \<Rightarrow> string \<Rightarrow> string" where
  "merge_scopes old new =
     (let os = js_split (CHR '' '') old; ns = js_split (CHR '' '') new
      in js_join '' '' (sort_key (merge_key os ns) (js_dedup (os @ ns))))"

record SaveConsentInput =
  sc_userId :: string
  sc_clientId :: string
  sc_scope :: string
  sc_resource :: "string option"
  sc_metadataFingerprint :: "string option"

definition saveConsent :: "int \<Rightarrow> string \<Rightarrow> SaveConsentInput \<Rightarrow> db \<Rightarrow> db" where
  "saveConsent now consentId input db =
     (let res = (case sc_resource input of None \<Rightarrow> [] | Some r \<Rightarrow> r);
          conflict = (\<lambda>r. cs_userId r = sc_userId input \<and> cs_clientId r = sc_clientId input \<and>
                          cs_resource r = res)
      in if list_ex conflict (t_consents db)
         then db\<lparr>t_consents := update_where conflict
                (\<lambda>r. r\<lparr>cs_scope := (if cs_metadataFingerprint r = sc_metadataFingerprint input
                                     then merge_scopes (cs_scope r) (sc_scope input)
                                     else sc_scope input),
                       cs_metadataFingerprint := sc_metadataFingerprint input,
                       cs_updatedAt := now\<rparr>) (t_consents db)\<rparr>
         else db\<lparr>t_consents := t_consents db @
                [\<lparr>cs_id = consentId, cs_userId = sc_userId input, cs_clientId = sc_clientId input,
                  cs_scope = sc_scope input, cs_resource = res,
                  cs_metadataFingerprint = sc_metadataFingerprint input,
                  cs_createdAt = now, cs_updatedAt = now\<rparr>]\<rparr>)"

definition deleteConsent :: "string \<Rightarrow> string \<Rightarrow> db \<Rightarrow> bool \<times> db" where
  "deleteConsent userId clientId db =
     (let hit = (\<lambda>r. cs_userId r = userId \<and> cs_clientId r = clientId)
      in (changes hit (t_consents db) \<ge> 1,
          db\<lparr>t_consents := filter (\<lambda>r. \<not> hit r) (t_consents db)\<rparr>))"

section \<open>grants.ts\<close>

definition recordAuthorizationGrant ::
  "int \<Rightarrow> string \<Rightarrow> string \<Rightarrow> string \<Rightarrow> string option \<Rightarrow> string \<Rightarrow> string \<Rightarrow> string \<Rightarrow> db \<Rightarrow> db" where
  "recordAuthorizationGrant now grantId userId clientId sessionId scope resource grantType db =
     db\<lparr>t_authorization_grants := t_authorization_grants db @
       [\<lparr>gr_id = grantId, gr_userId = userId, gr_clientId = clientId, gr_sessionId = sessionId,
         gr_scope = scope, gr_resource = resource, gr_grantType = grantType,
         gr_createdAt = now, gr_revokedAt = None\<rparr>]\<rparr>"

definition revokeAuthorizationGrantsByUserClient ::
  "int \<Rightarrow> string \<Rightarrow> string \<Rightarrow> db \<Rightarrow> nat \<times> db" where
  "revokeAuthorizationGrantsByUserClient now userId clientId db =
     (let hit = (\<lambda>g. gr_userId g = userId \<and> gr_clientId g = clientId \<and> gr_revokedAt g = None)
      in (changes hit (t_authorization_grants db),
          db\<lparr>t_authorization_grants := update_where hit (\<lambda>g. g\<lparr>gr_revokedAt := Some now\<rparr>)
               (t_authorization_grants db)\<rparr>))"

section \<open>permission-group-rules.ts\<close>

record UserPermissionRules =
  up_valid :: bool
  up_adminMember :: bool
  up_rules :: "EffectivePermissionRule list"

text \<open>
  The join of memberships, groups and (optional) rules of one user, in the order of the
  \<open>ORDER BY\<close> clause.
\<close>

definition user_rule_rows :: "db \<Rightarrow> string \<Rightarrow> (group_row \<times> group_rule_row option) list" where
  "user_rule_rows db userId =
     sort_key (\<lambda>(g, r). (gp_priority g, gp_id g,
                          case r of None \<Rightarrow> (0, []) | Some p \<Rightarrow> (pr_position p, pr_id p)))
       (concat (map (\<lambda>m.
          if um_userId m \<noteq> userId then []
          else concat (map (\<lambda>g.
                 if gp_id g \<noteq> um_groupId m then []
                 else (let ps = filter (\<lambda>p. pr_groupId p = gp_id g) (t_permission_group_rules db)
                       in if ps = [] then [(g, None)] else map (\<lambda>p. (g, Some p)) ps))
               (t_groups db)))
        (t_user_groups db)))"

text \<open>\<open>validatePermissionGroupRules([{ effect, condition }]).ok\<close>.\<close>

definition revalidate :: "PermissionRuleEffect \<Rightarrow> PermissionRuleCondition \<Rightarrow> bool" where
  "revalidate effect condition =
     is_ok (validatePermissionGroupRules
       (JArr [JObj [(''effect'', JStr (effect_string effect)), (''condition'', condition_json condition)]]))"

fun collect_rules ::
  "(group_row \<times> group_rule_row option) list \<Rightarrow> bool \<Rightarrow> EffectivePermissionRule list
   \<Rightarrow> UserPermissionRules" where
  "collect_rules [] admin rules = \<lparr>up_valid = True, up_adminMember = admin, up_rules = rules\<rparr>"
| "collect_rules ((g, r) # rows) admin rules =
     (let admin' = (admin \<or> gp_name g = ''admins'')
      in case r of
           None \<Rightarrow> collect_rules rows admin' rules
         | Some p \<Rightarrow>
             (case pr_condition_json p of
                None \<Rightarrow> \<lparr>up_valid = False, up_adminMember = admin', up_rules = []\<rparr>
              | Some raw \<Rightarrow>
                  (case parse_condition raw of
                     None \<Rightarrow> \<lparr>up_valid = False, up_adminMember = admin', up_rules = []\<rparr>
                   | Some condition \<Rightarrow>
                       if \<not> revalidate (pr_effect p) condition
                       then \<lparr>up_valid = False, up_adminMember = admin', up_rules = []\<rparr>
                       else collect_rules rows admin'
                         (rules @ [\<lparr>er_id = pr_id p, er_effect = pr_effect p,
                            er_condition = condition, er_groupId = gp_id g,
                            er_groupName = gp_name g, er_priority = gp_priority g\<rparr>]))))"

definition getUserPermissionRules :: "db \<Rightarrow> string \<Rightarrow> UserPermissionRules" where
  "getUserPermissionRules db userId = collect_rules (user_rule_rows db userId) False []"

lemma collect_rules_admin:
  "up_valid (collect_rules rows admin rules) \<Longrightarrow>
     up_adminMember (collect_rules rows admin rules) \<longleftrightarrow>
       admin \<or> list_ex (\<lambda>x. gp_name (fst x) = ''admins'') rows"
  by (induction rows admin rules rule: collect_rules.induct)
    (auto simp: Let_def split: option.splits if_splits)

lemma user_rule_rows_mem:
  "(g, r) \<in> set (user_rule_rows db userId) \<Longrightarrow>
     g \<in> set (t_groups db) \<and> (\<exists>m\<in>set (t_user_groups db). um_userId m = userId \<and> um_groupId m = gp_id g)"
  by (auto simp: user_rule_rows_def Let_def split: if_splits)

lemma getUserPermissionRules_admin:
  assumes "up_valid (getUserPermissionRules db userId)"
    and "up_adminMember (getUserPermissionRules db userId)"
  shows "\<exists>g\<in>set (t_groups db). gp_name g = ''admins'' \<and> (\<exists>m\<in>set (t_user_groups db). um_userId m = userId \<and> um_groupId m = gp_id g)"
proof -
  have "list_ex (\<lambda>x. gp_name (fst x) = ''admins'') (user_rule_rows db userId)"
    using assms collect_rules_admin [of "user_rule_rows db userId" False "[]"]
    by (simp add: getUserPermissionRules_def)
  then obtain g r where "(g, r) \<in> set (user_rule_rows db userId)" "gp_name g = ''admins''"
    by (auto simp: list_ex_iff)
  with user_rule_rows_mem show ?thesis by blast
qed

section \<open>Consent laws\<close>

lemma position_in_None [simp]: "position_in v xs = None \<longleftrightarrow> v \<notin> set xs"
  by (induction xs) auto

lemma set_parse_join:
  "\<forall>w\<in>set ws. is_word w \<Longrightarrow> set (parseScopeString (Some (js_join '' '' ws))) = set ws"
  using parse_serialize_words [of ws] by (simp add: serializeScopes_def)

end
