(* ===== verification/Policy.thy ===== *)
theory Policy
  imports Database
begin

text \<open>
  The policy decisions every token flow takes: \<open>src/security/redirect-uri.ts\<close>,
  \<open>src/oauth/resources.ts\<close>, \<open>src/oauth/consent.ts\<close> and \<open>src/oauth/user-token-policy.ts\<close>. The
  WHATWG URL parser of the runtime is the parameter \<open>parse_url\<close> (\<open>None\<close> when \<open>new URL\<close> throws).
\<close>

section \<open>redirect-uri.ts\<close>

record url =
  url_protocol :: string
  url_username :: string
  url_password :: string
  url_hostname :: string
  url_origin :: string
  url_pathname :: string
  url_search :: string
  url_hash :: string
  url_prefix :: string

text \<open>
  \<open>url_prefix\<close> is the part of the serialization before the path: the scheme, the credentials, the
  host and the port. With it \<open>url.href\<close> is a function of the record.
\<close>

definition url_href :: "url \<Rightarrow> string" where
  "url_href url = url_prefix url @ url_pathname url @ url_search url @ url_hash url"

type_synonym url_parser = "string \<Rightarrow> url option"

definition isLoopback :: "string \<Rightarrow> bool" where
  "isLoopback hostname =
     (hostname = ''localhost'' \<or> hostname = ''127.0.0.1'' \<or> hostname = ''[::1]'')"

definition to_lower :: "char \<Rightarrow> char" where
  "to_lower c = (if is_upper c then char_of (ccode c + 32) else c)"

definition is_scheme_char :: "char \<Rightarrow> bool" where
  "is_scheme_char c = (is_alnum c \<or> c \<in> {CHR ''+'', CHR ''.'', CHR ''-''})"

text \<open>The pattern \<open>^[a-z][a-z0-9+.-]{2,127}$\<close> without regard to case.\<close>

definition scheme_pattern :: "string \<Rightarrow> bool" where
  "scheme_pattern s =
     (case s of [] \<Rightarrow> False
      | c # cs \<Rightarrow> (is_upper c \<or> is_lower c) \<and> 2 \<le> length cs \<and> length cs \<le> 127 \<and>
                  list_all is_scheme_char cs)"

definition isSafeOAuthRedirectUri :: "url_parser \<Rightarrow> string \<Rightarrow> bool" where
  "isSafeOAuthRedirectUri parse_url raw =
     (case parse_url raw of
        None \<Rightarrow> False
      | Some url \<Rightarrow>
          if url_hash url \<noteq> [] \<or> url_username url \<noteq> [] \<or> url_password url \<noteq> [] then False
          else if url_protocol url = ''https:'' then url_hostname url \<noteq> []
          else if url_protocol url = ''http:'' then isLoopback (url_hostname url)
          else (let scheme = butlast (url_protocol url)
                in CHR ''.'' \<in> set scheme \<and> scheme_pattern scheme \<and>
                   map to_lower scheme \<notin> set [''javascript'', ''data'', ''file'', ''vbscript'']))"

definition isSafeResourceUri :: "url_parser \<Rightarrow> string \<Rightarrow> bool" where
  "isSafeResourceUri parse_url raw =
     (case parse_url raw of
        None \<Rightarrow> False
      | Some url \<Rightarrow>
          if url_hash url \<noteq> [] \<or> url_username url \<noteq> [] \<or> url_password url \<noteq> [] then False
          else (url_protocol url = ''https:'' \<and> url_hostname url \<noteq> []) \<or>
               (url_protocol url = ''http:'' \<and> isLoopback (url_hostname url)) \<or>
               url_protocol url = ''urn:'')"

definition isSafeMcpResourceUri :: "url_parser \<Rightarrow> string \<Rightarrow> bool" where
  "isSafeMcpResourceUri parse_url raw =
     (if \<not> isSafeResourceUri parse_url raw then False
      else case parse_url raw of
             None \<Rightarrow> False
           | Some url \<Rightarrow> url_search url = [] \<and>
               (url_protocol url = ''https:'' \<or>
                (url_protocol url = ''http:'' \<and> isLoopback (url_hostname url))))"

definition isMcpResourceUriAllowed :: "url_parser \<Rightarrow> string option \<Rightarrow> string \<Rightarrow> bool" where
  "isMcpResourceUriAllowed parse_url environment raw =
     (if \<not> isSafeMcpResourceUri parse_url raw then False
      else case parse_url raw of
             None \<Rightarrow> False
           | Some url \<Rightarrow> url_protocol url = ''https:'' \<or> environment = Some ''local'')"

section \<open>resources.ts\<close>

definition resolveResourceRecord ::
  "url_parser \<Rightarrow> env \<Rightarrow> db \<Rightarrow> OAuthClient \<Rightarrow> string option \<Rightarrow> (OAuthError, OAuthResource) result" where
  "resolveResourceRecord parse_url env db client requestedResource =
     (let yolo = isYoloEnabled env;
          resource = (case requestedResource of Some r \<Rightarrow> Some r | None \<Rightarrow> oc_defaultResource client)
      in case resource of
           None \<Rightarrow> Inl (oauth_error invalid_target ''No target resource specified''
                    ''request has no resource and client has no default_resource'')
         | Some resource \<Rightarrow>
             if resource = [] then
               Inl (oauth_error invalid_target ''No target resource specified''
                 ''request has no resource and client has no default_resource'')
             else if \<not> yolo \<and> resource \<notin> set (oc_allowedResources client) then
               Inl (oauth_error invalid_target ''The requested resource is not permitted''
                 (''resource '' @ resource @ '' not in client allowed_resources''))
             else
               (let missing = (\<lambda>name scopes mcp policy.
                      if yolo then
                        Inr \<lparr>rs_resourceUri = resource, rs_name = name, rs_allowedScopes = scopes,
                             rs_enabled = True, rs_mcpEnabled = mcp, rs_metadataClientPolicy = policy\<rparr>
                      else Inl (oauth_error invalid_target ''Unknown or disabled resource''
                             (''resource '' @ resource @ '' not registered or disabled'')))
                in case getResourceByUri db resource of
                     None \<Rightarrow> missing resource (oc_allowedScopes client) False policy_disabled
                   | Some registered \<Rightarrow>
                       if \<not> rs_enabled registered then
                         missing (rs_name registered) (rs_allowedScopes registered)
                           (rs_mcpEnabled registered) (rs_metadataClientPolicy registered)
                       else if rs_mcpEnabled registered \<and>
                         \<not> isMcpResourceUriAllowed parse_url (ENVIRONMENT env) (rs_resourceUri registered)
                       then Inl (oauth_error invalid_target
                              ''The requested resource is not available in this environment''
                              (''resource '' @ resource @ '' violates the '' @
                               (case ENVIRONMENT env of Some e \<Rightarrow> e | None \<Rightarrow> ''unknown'') @
                               '' transport policy''))
                       else if \<not> yolo \<and> rs_mcpEnabled registered \<and> requestedResource = None
                       then Inl (oauth_error invalid_target
                              ''The resource parameter is required for this protected resource''
                              (''MCP resource '' @ resource @
                               '' was selected only through client default_resource''))
                       else if \<not> yolo \<and> oc_registrationType client = client_id_metadata \<and>
                         (let approved = (rs_metadataClientPolicy registered = admin_approved \<and>
                                isMetadataClientApproved db (oc_clientId client) (rs_resourceUri registered))
                          in \<not> rs_mcpEnabled registered \<or>
                             rs_metadataClientPolicy registered = policy_disabled \<or>
                             (rs_metadataClientPolicy registered = admin_approved \<and> \<not> approved))
                       then Inl (oauth_error invalid_target
                              ''The requested resource does not admit this client''
                              (''metadata client '' @ oc_clientId client @
                               '' is not admitted to resource '' @ resource))
                       else Inr registered))"

definition resolveResource ::
  "url_parser \<Rightarrow> env \<Rightarrow> db \<Rightarrow> OAuthClient \<Rightarrow> string option \<Rightarrow> (OAuthError, string) result" where
  "resolveResource parse_url env db client requestedResource =
     (case resolveResourceRecord parse_url env db client requestedResource of
        Inl e \<Rightarrow> Inl e | Inr r \<Rightarrow> Inr (rs_resourceUri r))"

definition resolveResourceForScopes ::
  "url_parser \<Rightarrow> env \<Rightarrow> db \<Rightarrow> OAuthClient \<Rightarrow> string option \<Rightarrow> string list
   \<Rightarrow> (OAuthError, string) result" where
  "resolveResourceForScopes parse_url env db client requestedResource requestedScopes =
     (case resolveResourceRecord parse_url env db client requestedResource of
        Inl e \<Rightarrow> Inl e
      | Inr registered \<Rightarrow>
          (let resource = rs_resourceUri registered
           in if isYoloEnabled env then Inr resource
              else case validateRequestedScopes requestedScopes (oc_allowedScopes client) of
                     Inl e \<Rightarrow> Inl e
                   | Inr _ \<Rightarrow>
                       (case validateRequestedScopes
                               (filter isPermissionGroupControlledScope requestedScopes)
                               (rs_allowedScopes registered) of
                          Inl e \<Rightarrow>
                            (if err_code e = invalid_scope
                             then Inl (oauth_error invalid_scope
                               ''One or more requested scopes are not permitted for this resource''
                               (''resource '' @ resource @ '' does not allow every requested scope''))
                             else Inl e)
                        | Inr _ \<Rightarrow> Inr resource)))"

section \<open>consent.ts\<close>

definition consentCoversScopes ::
  "env \<Rightarrow> db \<Rightarrow> string \<Rightarrow> string \<Rightarrow> string \<Rightarrow> string list \<Rightarrow> string option \<Rightarrow> bool" where
  "consentCoversScopes env db userId clientId resource requestedScopes metadataFingerprint =
     (if fst (yoloAllow env ''consent'') then True
      else case getConsent db userId clientId resource of
             None \<Rightarrow> False
           | Some consent \<Rightarrow>
               if cr_metadataFingerprint consent \<noteq> metadataFingerprint then False
               else (let granted = set (parseScopeString (Some (cr_scope consent)))
                     in list_all (\<lambda>scope. scope \<in> granted) requestedScopes))"

section \<open>user-token-policy.ts\<close>

definition ADMIN_SCOPES :: "string list" where
  "ADMIN_SCOPES = [''admin.read'', ''admin.write'']"

datatype DenyReason =
  application_resource | admin_scope | scope_denied | scope_not_allowed | invalid_policy

text \<open>The loop over the requested scopes; \<open>None\<close> when it finishes without a denial.\<close>

fun check_scopes ::
  "EffectivePermissionRule list \<Rightarrow> PermissionRuleContext \<Rightarrow> string list \<Rightarrow> DenyReason option" where
  "check_scopes rules cx [] = None"
| "check_scopes rules cx (scope # scopes) =
     (if isResourceAuthorizedScope scope then check_scopes rules cx scopes
      else case resolvePermissionRules rules (cx\<lparr>cx_scope := scope\<rparr>) scope_stage of
             Allowed _ \<Rightarrow> check_scopes rules cx scopes
           | Denied _ \<Rightarrow> Some scope_denied
           | NoMatch \<Rightarrow> Some scope_not_allowed)"

definition evaluateUserTokenAccess ::
  "env \<Rightarrow> db \<Rightarrow> string \<Rightarrow> string \<Rightarrow> string \<Rightarrow> string list \<Rightarrow> (DenyReason, unit) result" where
  "evaluateUserTokenAccess env db userId clientId resourceUri scopes =
     (if fst (yoloAllow env ''user-token-policy'') then Inr ()
      else (let policy = getUserPermissionRules db userId
            in if \<not> up_valid policy then Inl invalid_policy
               else (let uniqueScopes = js_dedup scopes;
                         cx = \<lparr>cx_application = clientId, cx_api = resourceUri,
                               cx_scope = (case uniqueScopes of [] \<Rightarrow> [] | s # _ \<Rightarrow> s)\<rparr>
                     in case resolvePermissionRules (up_rules policy) cx base_stage of
                          Allowed _ \<Rightarrow>
                            (if list_ex (\<lambda>s. s \<in> set ADMIN_SCOPES) uniqueScopes \<and>
                                \<not> up_adminMember policy
                             then Inl admin_scope
                             else case check_scopes (up_rules policy) cx uniqueScopes of
                                    Some reason \<Rightarrow> Inl reason
                                  | None \<Rightarrow> Inr ())
                        | _ \<Rightarrow> Inl application_resource)))"

section \<open>Exactly when a resource is granted\<close>

text \<open>The admission rule of a registered resource for a client, with YOLO mode off.\<close>

definition admits ::
  "url_parser \<Rightarrow> env \<Rightarrow> db \<Rightarrow> OAuthClient \<Rightarrow> string option \<Rightarrow> OAuthResource \<Rightarrow> bool" where
  "admits parse_url env db client requested r =
     (rs_enabled r \<and>
      (rs_mcpEnabled r \<longrightarrow> requested \<noteq> None \<and>
         isMcpResourceUriAllowed parse_url (ENVIRONMENT env) (rs_resourceUri r)) \<and>
      (oc_registrationType client = client_id_metadata \<longrightarrow>
         rs_mcpEnabled r \<and> rs_metadataClientPolicy r \<noteq> policy_disabled \<and>
         (rs_metadataClientPolicy r = admin_approved \<longrightarrow>
            isMetadataClientApproved db (oc_clientId client) (rs_resourceUri r))))"

lemma resolveResourceRecord_iff:
  assumes "\<not> isYoloEnabled env"
  shows "resolveResourceRecord parse_url env db client requested = Inr r \<longleftrightarrow>
    (\<exists>uri. (case requested of Some u \<Rightarrow> Some u | None \<Rightarrow> oc_defaultResource client) = Some uri \<and>
       uri \<noteq> [] \<and> uri \<in> set (oc_allowedResources client) \<and>
       getResourceByUri db uri = Some r \<and> admits parse_url env db client requested r)"
  using assms
  by (auto simp: resolveResourceRecord_def admits_def Let_def split: option.splits if_splits)

lemma resolveResourceForScopes_iff:
  assumes "\<not> isYoloEnabled env"
  shows "resolveResourceForScopes parse_url env db client requested scopes = Inr uri \<longleftrightarrow>
    (\<exists>r. (case requested of Some u \<Rightarrow> Some u | None \<Rightarrow> oc_defaultResource client) = Some uri \<and>
       uri \<noteq> [] \<and> uri \<in> set (oc_allowedResources client) \<and>
       getResourceByUri db uri = Some r \<and> admits parse_url env db client requested r \<and>
       set scopes \<subseteq> set (oc_allowedScopes client) \<and>
       {s \<in> set scopes. isPermissionGroupControlledScope s} \<subseteq> set (rs_allowedScopes r))"
proof
  assume "resolveResourceForScopes parse_url env db client requested scopes = Inr uri"
  then obtain r where r: "resolveResourceRecord parse_url env db client requested = Inr r"
    "uri = rs_resourceUri r" "set scopes \<subseteq> set (oc_allowedScopes client)"
    "set (filter isPermissionGroupControlledScope scopes) \<subseteq> set (rs_allowedScopes r)"
    using assms
    by (auto simp: resolveResourceForScopes_def Let_def validateRequestedScopes_iff
        split: sum.splits if_splits)
  then show "\<exists>r. (case requested of Some u \<Rightarrow> Some u | None \<Rightarrow> oc_defaultResource client) = Some uri \<and>
       uri \<noteq> [] \<and> uri \<in> set (oc_allowedResources client) \<and>
       getResourceByUri db uri = Some r \<and> admits parse_url env db client requested r \<and>
       set scopes \<subseteq> set (oc_allowedScopes client) \<and>
       {s \<in> set scopes. isPermissionGroupControlledScope s} \<subseteq> set (rs_allowedScopes r)"
    unfolding resolveResourceRecord_iff [OF assms] by (auto dest: getResourceByUri_uri)
next
  assume "\<exists>r. (case requested of Some u \<Rightarrow> Some u | None \<Rightarrow> oc_defaultResource client) = Some uri \<and>
       uri \<noteq> [] \<and> uri \<in> set (oc_allowedResources client) \<and>
       getResourceByUri db uri = Some r \<and> admits parse_url env db client requested r \<and>
       set scopes \<subseteq> set (oc_allowedScopes client) \<and>
       {s \<in> set scopes. isPermissionGroupControlledScope s} \<subseteq> set (rs_allowedScopes r)"
  then obtain r where r: "resolveResourceRecord parse_url env db client requested = Inr r"
    "rs_resourceUri r = uri" "set scopes \<subseteq> set (oc_allowedScopes client)"
    "set (filter isPermissionGroupControlledScope scopes) \<subseteq> set (rs_allowedScopes r)"
    unfolding resolveResourceRecord_iff [OF assms] by (auto dest: getResourceByUri_uri)
  have "validateRequestedScopes scopes (oc_allowedScopes client) = Inr scopes"
    "validateRequestedScopes (filter isPermissionGroupControlledScope scopes) (rs_allowedScopes r) =
       Inr (filter isPermissionGroupControlledScope scopes)"
    using r by (simp_all only: validateRequestedScopes_iff simp_thms)
  with r(1,2) assms show "resolveResourceForScopes parse_url env db client requested scopes = Inr uri"
    by (simp add: resolveResourceForScopes_def Let_def)
qed

section \<open>Exactly when a user may hold a token\<close>

definition allows :: "EffectivePermissionRule list \<Rightarrow> PermissionRuleContext \<Rightarrow> stage \<Rightarrow> bool" where
  "allows rules cx st = (\<exists>p. resolvePermissionRules rules cx st = Allowed p)"

lemma check_scopes_None:
  "check_scopes rules cx scopes = None \<longleftrightarrow>
     (\<forall>s\<in>set scopes. isResourceAuthorizedScope s \<or> allows rules (cx\<lparr>cx_scope := s\<rparr>) scope_stage)"
  by (induction scopes) (auto simp: allows_def split: PermissionRuleDecision.splits)

text \<open>A base rule does not look at the scope, so the base decision is the same for every scope.\<close>

lemma matches_ignores_scope:
  "\<not> conditionUsesScope c \<Longrightarrow>
     permissionRuleMatches c (cx\<lparr>cx_scope := s\<rparr>) = permissionRuleMatches c cx"
proof (induction c)
  case (SingleMatch f op v)
  then show ?case by (cases f; cases op) auto
next
  case (SetMatch f op vs)
  then show ?case by (cases f; cases op) auto
next
  case (GroupCond op cs)
  then show ?case by (cases op) (auto simp: list_ex_iff list_all_iff)
qed

lemma base_ignores_scope:
  "resolvePermissionRules rules (cx\<lparr>cx_scope := s\<rparr>) base_stage = resolvePermissionRules rules cx base_stage"
proof -
  have "matching_rules rules (cx\<lparr>cx_scope := s\<rparr>) base_stage = matching_rules rules cx base_stage"
    by (auto simp: matching_rules_def matches_ignores_scope intro!: filter_cong)
  then show ?thesis by (simp add: resolvePermissionRules_def)
qed

lemma evaluateUserTokenAccess_iff:
  assumes "\<not> isYoloEnabled env"
  shows "evaluateUserTokenAccess env db userId clientId resourceUri scopes = Inr () \<longleftrightarrow>
    (let policy = getUserPermissionRules db userId;
         cx = (\<lambda>s. \<lparr>cx_application = clientId, cx_api = resourceUri, cx_scope = s\<rparr>)
     in up_valid policy \<and> allows (up_rules policy) (cx []) base_stage \<and>
        (set scopes \<inter> set ADMIN_SCOPES \<noteq> {} \<longrightarrow> up_adminMember policy) \<and>
        (\<forall>s\<in>set scopes. isResourceAuthorizedScope s \<or> allows (up_rules policy) (cx s) scope_stage))"
proof -
  let ?p = "getUserPermissionRules db userId"
  let ?cx = "\<lambda>s. \<lparr>cx_application = clientId, cx_api = resourceUri, cx_scope = s\<rparr>"
  let ?s = "case js_dedup scopes of [] \<Rightarrow> [] | s # _ \<Rightarrow> s"
  have base: "resolvePermissionRules (up_rules ?p) (?cx ?s) base_stage =
      resolvePermissionRules (up_rules ?p) (?cx []) base_stage"
    using base_ignores_scope [of "up_rules ?p" ?s "?cx []"] by simp
  have check: "check_scopes (up_rules ?p) (?cx ?s) (js_dedup scopes) = None \<longleftrightarrow>
      (\<forall>s\<in>set scopes. isResourceAuthorizedScope s \<or> allows (up_rules ?p) (?cx s) scope_stage)"
    by (simp add: check_scopes_None)
  have admin: "list_ex (\<lambda>s. s \<in> set ADMIN_SCOPES) (js_dedup scopes) \<longleftrightarrow>
      set scopes \<inter> set ADMIN_SCOPES \<noteq> {}"
    by (auto simp: list_ex_iff)
  show ?thesis
  proof (cases "resolvePermissionRules (up_rules ?p) (?cx []) base_stage")
    case (Allowed q)
    then have "allows (up_rules ?p) (?cx []) base_stage" by (simp add: allows_def)
    with Allowed assms show ?thesis
      unfolding evaluateUserTokenAccess_def Let_def base admin check [symmetric]
      by (auto split: option.splits)
  qed (use assms in \<open>simp_all add: evaluateUserTokenAccess_def Let_def base allows_def\<close>)
qed

section \<open>Consent\<close>

text \<open>Every stored scope string is a printed, non-empty list of scope words.\<close>

definition scope_text :: "string \<Rightarrow> bool" where
  "scope_text s = (\<exists>ws. ws \<noteq> [] \<and> (\<forall>w\<in>set ws. is_word w) \<and> s = serializeScopes ws)"

definition consents_wf :: "db \<Rightarrow> bool" where
  "consents_wf db = (\<forall>r\<in>set (t_consents db). scope_text (cs_scope r))"

lemma word_no_space: "is_word w \<Longrightarrow> CHR '' '' \<notin> set w"
  by (auto simp: is_word_def list_all_iff)

lemma merge_scopes_words:
  assumes "os \<noteq> []" "ns \<noteq> []" "\<forall>w\<in>set os. is_word w" "\<forall>w\<in>set ns. is_word w"
  shows "\<exists>ms. ms \<noteq> [] \<and> (\<forall>w\<in>set ms. is_word w) \<and> set ms = set os \<union> set ns \<and>
    merge_scopes (serializeScopes os) (serializeScopes ns) = serializeScopes ms"
proof -
  have s: "js_split (CHR '' '') (serializeScopes ws) = ws" if "ws \<noteq> []" "\<forall>w\<in>set ws. is_word w" for ws
    using that by (simp add: serializeScopes_def js_split_join word_no_space)
  let ?ms = "sort_key (merge_key os ns) (js_dedup (os @ ns))"
  have "set ?ms = set os \<union> set ns" by simp
  moreover from this assms have "?ms \<noteq> []" by (metis Un_empty list.set(1) set_empty)
  moreover have "merge_scopes (serializeScopes os) (serializeScopes ns) = serializeScopes ?ms"
    using assms by (simp add: merge_scopes_def Let_def s) (simp add: serializeScopes_def)
  ultimately show ?thesis
    using assms by (intro exI [of _ ?ms]) auto
qed

lemma merge_scopes_parse:
  assumes "scope_text a" "scope_text b"
  shows "scope_text (merge_scopes a b)"
    "set (parseScopeString (Some (merge_scopes a b))) =
       set (parseScopeString (Some a)) \<union> set (parseScopeString (Some b))"
proof -
  obtain os ns where w: "os \<noteq> []" "ns \<noteq> []" "\<forall>w\<in>set os. is_word w" "\<forall>w\<in>set ns. is_word w"
    and ab: "a = serializeScopes os" "b = serializeScopes ns"
    using assms by (auto simp: scope_text_def)
  obtain ms where ms: "ms \<noteq> []" "\<forall>w\<in>set ms. is_word w" "set ms = set os \<union> set ns"
    "merge_scopes a b = serializeScopes ms"
    using merge_scopes_words [OF w] ab by auto
  show "scope_text (merge_scopes a b)" using ms by (auto simp: scope_text_def)
  show "set (parseScopeString (Some (merge_scopes a b))) =
       set (parseScopeString (Some a)) \<union> set (parseScopeString (Some b))"
    using ms w by (simp add: ab parse_serialize_words)
qed

lemma saveConsent_wf:
  assumes "consents_wf db" and "scope_text (sc_scope input)"
  shows "consents_wf (saveConsent now i input db)"
  using assms
  by (auto simp: consents_wf_def saveConsent_def Let_def set_update_where merge_scopes_parse
      split: if_splits)

lemma find_consent_update:
  "find (\<lambda>r. cs_userId r = u \<and> cs_clientId r = c \<and> cs_resource r = res)
     (update_where (\<lambda>r. cs_userId r = u \<and> cs_clientId r = c \<and> cs_resource r = res)
       (\<lambda>r. r\<lparr>cs_scope := f r, cs_metadataFingerprint := fp, cs_updatedAt := now\<rparr>) t) =
   map_option (\<lambda>r. r\<lparr>cs_scope := f r, cs_metadataFingerprint := fp, cs_updatedAt := now\<rparr>)
     (find (\<lambda>r. cs_userId r = u \<and> cs_clientId r = c \<and> cs_resource r = res) t)"
  by (induction t) auto

lemma find_append: "find P (xs @ ys) = (case find P xs of None \<Rightarrow> find P ys | Some x \<Rightarrow> Some x)"
  by (induction xs) auto

lemma find_list_ex: "find P xs \<noteq> None \<longleftrightarrow> list_ex P xs"
  by (induction xs) auto

text \<open>What a consent store remembers for a user, a client and a resource under a fingerprint.\<close>

definition consented :: "db \<Rightarrow> string \<Rightarrow> string \<Rightarrow> string \<Rightarrow> string option \<Rightarrow> string set" where
  "consented db u c res fp =
     (case getConsent db u c res of
        None \<Rightarrow> {}
      | Some k \<Rightarrow> if cr_metadataFingerprint k = fp then set (parseScopeString (Some (cr_scope k))) else {})"

lemma consented_saveConsent:
  assumes wf: "consents_wf db" and new: "scope_text (sc_scope input)"
    and res: "sc_resource input = Some res"
  shows "consented (saveConsent now i input db) (sc_userId input) (sc_clientId input) res
      (sc_metadataFingerprint input) =
    consented db (sc_userId input) (sc_clientId input) res (sc_metadataFingerprint input) \<union>
    set (parseScopeString (Some (sc_scope input)))"
proof -
  let ?P = "\<lambda>r. cs_userId r = sc_userId input \<and> cs_clientId r = sc_clientId input \<and> cs_resource r = res"
  show ?thesis
  proof (cases "find ?P (t_consents db)")
    case None
    then have ex: "\<not> list_ex ?P (t_consents db)" using find_list_ex by blast
    with None res show ?thesis
      by (simp add: consented_def saveConsent_def Let_def getConsent_def find_append)
  next
    case (Some r)
    then have ex: "list_ex ?P (t_consents db)" using find_list_ex by (metis option.distinct(1))
    have "scope_text (cs_scope r)" using Some wf by (auto simp: consents_wf_def dest: find_Some_mem)
    with Some ex res new show ?thesis
      by (simp add: consented_def saveConsent_def Let_def getConsent_def find_consent_update
          merge_scopes_parse)
  qed
qed

lemma saved_consent_found:
  assumes "sc_resource input = Some res"
  shows "\<exists>k. getConsent (saveConsent now i input db) (sc_userId input) (sc_clientId input) res = Some k \<and>
    cr_metadataFingerprint k = sc_metadataFingerprint input"
proof -
  let ?P = "\<lambda>r. cs_userId r = sc_userId input \<and> cs_clientId r = sc_clientId input \<and> cs_resource r = res"
  show ?thesis
  proof (cases "find ?P (t_consents db)")
    case None
    then have "\<not> list_ex ?P (t_consents db)" using find_list_ex by blast
    with None assms show ?thesis by (simp add: saveConsent_def Let_def getConsent_def find_append)
  next
    case (Some r)
    then have "list_ex ?P (t_consents db)" using find_list_ex by (metis option.distinct(1))
    with Some assms show ?thesis by (simp add: saveConsent_def Let_def getConsent_def find_consent_update)
  qed
qed

lemma consentCoversScopes_iff:
  assumes "\<not> isYoloEnabled env"
  shows "consentCoversScopes env db u c res scopes fp \<longleftrightarrow>
    (\<exists>k. getConsent db u c res = Some k \<and> cr_metadataFingerprint k = fp) \<and>
    set scopes \<subseteq> consented db u c res fp"
  using assms
  by (auto simp: consentCoversScopes_def consented_def list_all_iff Let_def split: option.splits)

section \<open>Properties\<close>


definition demo_policy_db :: db where
  "demo_policy_db =
     \<lparr>t_users = [], t_sessions = [], t_refresh_tokens = [], t_consents = [],
      t_authorization_grants = [], t_devices = [], t_oauth_clients = [], t_oauth_resources = [],
      t_metadata_client_approvals = [], t_groups = [\<lparr>gp_id = ''g'', gp_name = ''staff'', gp_priority = 1, gp_description = None, gp_isPublic = True\<rparr>],
      t_user_groups = [\<lparr>um_userId = ''u'', um_groupId = ''g'', um_createdAt = 1\<rparr>], t_group_requests = [],
      t_permission_group_rules = [\<lparr>pr_id = ''p'', pr_groupId = ''g'', pr_effect = allow,
        pr_condition_json = Some (condition_json (SingleMatch field_application equals ''app'')),
        pr_position = 0\<rparr>],
      t_reauth_continuations = []\<rparr>"

lemma demo_policy_rules:
  "getUserPermissionRules demo_policy_db ''u'' =
     \<lparr>up_valid = True, up_adminMember = False,
      up_rules = [\<lparr>er_id = ''p'', er_effect = allow,
        er_condition = SingleMatch field_application equals ''app'', er_groupId = ''g'',
        er_groupName = ''staff'', er_priority = 1\<rparr>]\<rparr>"
proof -
  have c: "parse_condition (condition_json (SingleMatch field_application equals ''app'')) =
      Some (SingleMatch field_application equals ''app'')"
    by (rule parse_condition_json) (simp add: wf_value_def)
  have "revalidate allow (SingleMatch field_application equals ''app'')"
    using demo_rules_valid by (simp add: revalidate_def demo_rules_def del: condition_json.simps)
  with c show ?thesis
    by (simp add: getUserPermissionRules_def user_rule_rows_def demo_policy_db_def Let_def
        del: condition_json.simps)
qed


text \<open>
  Exactly when a resource and a scope set are granted, outside YOLO mode: the resource is the
  requested one or the client's default, is among the client's allowed resources, is registered
  and admits the client; every scope is allowed to the client; and every permission-controlled
  scope is in the catalogue of the resource.
\<close>

theorem resource_grant_exact:
  assumes "\<not> isYoloEnabled env"
  shows "resolveResourceForScopes parse_url env db client requested scopes = Inr uri \<longleftrightarrow>
    (\<exists>r. (case requested of Some u \<Rightarrow> Some u | None \<Rightarrow> oc_defaultResource client) = Some uri \<and>
       uri \<noteq> [] \<and> uri \<in> set (oc_allowedResources client) \<and>
       getResourceByUri db uri = Some r \<and> admits parse_url env db client requested r \<and>
       set scopes \<subseteq> set (oc_allowedScopes client) \<and>
       {s \<in> set scopes. isPermissionGroupControlledScope s} \<subseteq> set (rs_allowedScopes r))"
  by (rule resolveResourceForScopes_iff [OF assms])

theorem resource_grant_exact_witness:
  "let env = \<lparr>ENVIRONMENT = Some ''production'', YOLO_MODE = None, ISSUER = ''i''\<rparr>;
       r = \<lparr>rs_resourceUri = ''r'', rs_name = ''R'', rs_allowedScopes = [], rs_enabled = True,
            rs_mcpEnabled = False, rs_metadataClientPolicy = policy_disabled\<rparr>;
       cl = \<lparr>oc_clientId = ''c'', oc_name = ''C'', oc_type = public_client, oc_clientKind = application,
         oc_clientSecretHash = None, oc_redirectUris = [], oc_postLogoutRedirectUris = [],
         oc_allowedScopes = [''openid''], oc_allowedGrantTypes = [], oc_allowedResources = [''r''],
         oc_defaultResource = Some ''r'', oc_requirePkce = True, oc_enabled = True,
         oc_tokenEndpointAuthMethods = [], oc_introspectionAllowed = False,
         oc_registrationType = static, oc_metadataFingerprint = None, oc_metadataExpiresAt = None,
         oc_metadataJwksUri = None\<rparr>
   in resolveResourceForScopes (\<lambda>s. None) env (demo_policy_db\<lparr>t_oauth_resources := [r]\<rparr>) cl None
        [''openid''] = Inr ''r''"
  unfolding Let_def
  by (subst resource_grant_exact)
    (simp_all add: isYoloEnabled_def YOLO_ENVIRONMENT_def getResourceByUri_def admits_def
      isPermissionGroupControlledScope_def RESOURCE_AUTHORIZED_SCOPES_def USER_ONLY_SCOPES_def)

text \<open>
  Saving a consent adds to it: with stored scope strings well formed, the scopes remembered
  for a user, client and resource under the given metadata fingerprint become exactly the old
  ones under that fingerprint together with the new ones, the store stays well formed, and
  \<open>consentCoversScopes\<close> then accepts exactly the scope lists within that set. A changed
  fingerprint therefore discards the earlier consent.
\<close>

theorem saved_consent_accumulates:
  assumes "\<not> isYoloEnabled env" and "consents_wf db" and "scope_text (sc_scope input)"
    and "sc_resource input = Some res"
  shows "consents_wf (saveConsent now i input db) \<and>
    (consentCoversScopes env (saveConsent now i input db) (sc_userId input) (sc_clientId input) res
        scopes (sc_metadataFingerprint input) \<longleftrightarrow>
      set scopes \<subseteq>
        consented db (sc_userId input) (sc_clientId input) res (sc_metadataFingerprint input) \<union>
        set (parseScopeString (Some (sc_scope input))))"
proof -
  let ?db = "saveConsent now i input db"
  have "\<exists>k. getConsent ?db (sc_userId input) (sc_clientId input) res = Some k \<and>
      cr_metadataFingerprint k = sc_metadataFingerprint input"
    using saved_consent_found [OF assms(4)] by blast
  then show ?thesis
    using saveConsent_wf [OF assms(2,3)] consented_saveConsent [OF assms(2-4)]
    by (simp add: consentCoversScopes_iff [OF assms(1)])
qed

theorem saved_consent_accumulates_witness:
  "let env = \<lparr>ENVIRONMENT = Some ''production'', YOLO_MODE = None, ISSUER = ''i''\<rparr>;
       input = \<lparr>sc_userId = ''u'', sc_clientId = ''c'', sc_scope = ''openid'', sc_resource = Some ''r'',
         sc_metadataFingerprint = None\<rparr>
   in consentCoversScopes env (saveConsent 5 ''k'' input demo_policy_db) ''u'' ''c'' ''r'' [''openid''] None"
proof -
  let ?env = "\<lparr>ENVIRONMENT = Some ''production'', YOLO_MODE = None, ISSUER = ''i''\<rparr>"
  let ?in = "\<lparr>sc_userId = ''u'', sc_clientId = ''c'', sc_scope = ''openid'', sc_resource = Some ''r'',
         sc_metadataFingerprint = None\<rparr>"
  have w: "is_word ''openid''" by (simp add: is_word_def is_ws_def)
  then have "scope_text ''openid''"
    unfolding scope_text_def by (intro exI [of _ "[''openid'']"]) (simp add: serializeScopes_def)
  moreover have "parseScopeString (Some ''openid'') = [''openid'']"
    using parse_serialize_words [of "[''openid'']"] w by (simp add: serializeScopes_def)
  ultimately show ?thesis
    using saved_consent_accumulates [of ?env demo_policy_db ?in "''r''" 5 "''k''" "[''openid'']"]
    by (simp add: Let_def isYoloEnabled_def YOLO_ENVIRONMENT_def consents_wf_def demo_policy_db_def)
qed

end
