(* ===== verification/Capabilities.thy ===== *)
theory Capabilities
  imports KF_Prelude
begin

text \<open>
  The interfaces of the strongly consistent components. A Durable Object (or a guarded D1
  \<open>UPDATE\<close>) serializes its requests, so a component is a step function from a request and a
  state to an optional grant and the next state, and an execution is the run of a list of
  requests in the order in which they were admitted. The locales state what the callers rely
  on; the theories of the components interpret them.
\<close>

section \<open>Runs of a serialized component\<close>

fun run :: "('i \<Rightarrow> 's \<Rightarrow> 'r option \<times> 's) \<Rightarrow> 'i list \<Rightarrow> 's \<Rightarrow> 'r option list \<times> 's" where
  "run step [] s = ([], s)"
| "run step (i # is) s =
     (let (r, s') = step i s; (rs, s'') = run step is s' in (r # rs, s''))"

definition grants :: "'r option list \<Rightarrow> 'r list" where
  "grants rs = concat (map (\<lambda>r. case r of None \<Rightarrow> [] | Some x \<Rightarrow> [x]) rs)"

lemma grants_simps [simp]:
  "grants [] = []" "grants (None # rs) = grants rs" "grants (Some x # rs) = x # grants rs"
  by (simp_all add: grants_def)

lemma run_append:
  "run step (is @ js) s =
     (let (rs, s') = run step is s; (rs', s'') = run step js s' in (rs @ rs', s''))"
  by (induction "is" arbitrary: s) (auto simp: Let_def split: prod.splits)

lemma length_run [simp]: "length (fst (run step is s)) = length is"
  by (induction "is" arbitrary: s) (auto simp: Let_def case_prod_unfold)

text \<open>An invariant of every step is an invariant of every run.\<close>

lemma run_invariant:
  assumes "\<And>i s. I s \<Longrightarrow> i \<in> set is \<Longrightarrow> I (snd (step i s))" and "I s"
  shows "I (snd (run step is s))"
  using assms
proof (induction "is" arbitrary: s)
  case (Cons i "is")
  have "I (snd (step i s))" using Cons.prems by simp
  then have "I (snd (run step is (snd (step i s))))"
    using Cons.prems by (intro Cons.IH) auto
  then show ?case by (simp add: Let_def case_prod_unfold)
qed simp

text \<open>A step that refines another under an invariant refines it along every run.\<close>

lemma run_refines:
  assumes keeps: "\<And>i s. I s \<Longrightarrow> I (snd (step i s))"
    and refines: "\<And>i s. I s \<Longrightarrow> astep i (slot s) = map_prod id slot (step i s)"
    and "I s"
  shows "run astep is (slot s) = map_prod id slot (run step is s)"
  using \<open>I s\<close>
proof (induction "is" arbitrary: s)
  case (Cons i "is")
  obtain g s' where st: "step i s = (g, s')" by fastforce
  have "I s'" using keeps [OF Cons.prems, of i] st by simp
  from Cons.IH [OF this] refines [OF Cons.prems, of i] st show ?case
    by (auto simp: Let_def split: prod.splits)
qed simp

section \<open>Capabilities that die\<close>

text \<open>
  A capability with a dead state: a dead capability grants nothing and stays dead, whatever
  is asked of it. Revocation and expiry rest on this contract.
\<close>

locale mortal =
  fixes step :: "'i \<Rightarrow> 's \<Rightarrow> 'r option \<times> 's"
    and dead :: "'s \<Rightarrow> bool"
  assumes dead_refuses: "dead s \<Longrightarrow> fst (step i s) = None"
    and dead_stays: "dead s \<Longrightarrow> dead (snd (step i s))"
begin

lemma dead_run: "dead s \<Longrightarrow> grants (fst (run step is s)) = [] \<and> dead (snd (run step is s))"
proof (induction "is" arbitrary: s)
  case (Cons i "is")
  obtain r s' where st: "step i s = (r, s')" by fastforce
  with Cons.prems dead_refuses [of s i] dead_stays [of s i] have "r = None" "dead s'" by auto
  with Cons.IH [of s'] st show ?case by (auto simp: Let_def split: prod.splits)
qed simp

end

text \<open>
  A single-use capability dies with its first grant: however requests are interleaved, at most
  one of them is granted.
\<close>

locale single_use = mortal +
  assumes grant_kills: "step i s = (Some r, s') \<Longrightarrow> dead s'"
begin

lemma at_most_one_grant: "length (grants (fst (run step is s))) \<le> 1"
proof (induction "is" arbitrary: s)
  case (Cons i "is")
  obtain r s' where st: "step i s = (r, s')" by fastforce
  show ?case
  proof (cases r)
    case None
    with Cons.IH [of s'] st show ?thesis by (auto simp: Let_def split: prod.splits)
  next
    case (Some x)
    with st grant_kills have "dead s'" by blast
    with dead_run [of s' "is"] Some st show ?thesis by (auto simp: Let_def split: prod.splits)
  qed
qed simp

end

end
