(* ===== verification/Encoding.thy ===== *)
theory Encoding
  imports KF_Prelude
begin

text \<open>
  The codecs of \<open>src/utils/base64url.ts\<close> and the token shapes of \<open>src/security/ingress.ts\<close>,
  \<open>src/utils/random.ts\<close> and \<open>src/oauth/user-code.ts\<close>. \<open>btoa\<close>, \<open>atob\<close> and \<open>TextEncoder\<close> are
  modelled from their standards (on strings whose characters are below 256); random bytes are
  an argument of the functions that draw them.
\<close>

type_synonym byte = "8 word"

section \<open>btoa and atob\<close>

definition b64_alphabet :: string where
  "b64_alphabet = ''ABCDEFGHIJKLMNOPQRSTUVWXYZabcdefghijklmnopqrstuvwxyz0123456789+/''"

definition b64_char :: "nat \<Rightarrow> char" where
  "b64_char n = b64_alphabet ! n"

definition b64_value :: "char \<Rightarrow> nat option" where
  "b64_value c =
     (if is_upper c then Some (ccode c - 65)
      else if is_lower c then Some (ccode c - 71)
      else if is_digit c then Some (ccode c + 4)
      else if c = CHR ''+'' then Some 62
      else if c = CHR ''/'' then Some 63
      else None)"

text \<open>The characters of the encoding without padding, three bytes to four characters.\<close>

fun b64_body :: "byte list \<Rightarrow> string" where
  "b64_body [] = []"
| "b64_body [a] = [b64_char (unat a div 4), b64_char ((unat a mod 4) * 16)]"
| "b64_body [a, b] =
     [b64_char (unat a div 4), b64_char ((unat a mod 4) * 16 + unat b div 16),
      b64_char ((unat b mod 16) * 4)]"
| "b64_body (a # b # c # r) =
     b64_char (unat a div 4) # b64_char ((unat a mod 4) * 16 + unat b div 16) #
     b64_char ((unat b mod 16) * 4 + unat c div 64) # b64_char (unat c mod 64) # b64_body r"

text \<open>\<open>btoa\<close>: the body padded with \<open>=\<close> to a multiple of four characters.\<close>

definition btoa :: "byte list \<Rightarrow> string" where
  "btoa bs = b64_body bs @ replicate ((3 - length bs mod 3) mod 3) (CHR ''='')"

fun b64_groups :: "nat list \<Rightarrow> byte list" where
  "b64_groups (w # x # y # z # r) =
     word_of_nat (w * 4 + x div 16) # word_of_nat ((x mod 16) * 16 + y div 4) #
     word_of_nat ((y mod 4) * 64 + z) # b64_groups r"
| "b64_groups [w, x, y] =
     [word_of_nat (w * 4 + x div 16), word_of_nat ((x mod 16) * 16 + y div 4)]"
| "b64_groups [w, x] = [word_of_nat (w * 4 + x div 16)]"
| "b64_groups _ = []"

definition is_ascii_ws :: "char \<Rightarrow> bool" where
  "is_ascii_ws c = (ccode c \<in> {9, 10, 12, 13, 32})"

definition strip_padding :: "string \<Rightarrow> string" where
  "strip_padding d =
     (if length d mod 4 = 0 then
        (if drop (length d - 2) d = ''=='' \<and> 2 \<le> length d then take (length d - 2) d
         else if d \<noteq> [] \<and> last d = CHR ''='' then butlast d
         else d)
      else d)"

text \<open>\<open>atob\<close>: the forgiving base64 decode of the HTML standard; \<open>None\<close> when it throws.\<close>

definition atob :: "string \<Rightarrow> byte list option" where
  "atob s =
     (let d = strip_padding (filter (\<lambda>c. \<not> is_ascii_ws c) s)
      in if length d mod 4 = 1 \<or> list_ex (\<lambda>c. b64_value c = None) d then None
         else Some (b64_groups (map (\<lambda>c. the (b64_value c)) d)))"

section \<open>base64url.ts\<close>

definition to_url_char :: "char \<Rightarrow> char" where
  "to_url_char c =
     (if c = CHR ''+'' then CHR ''-'' else if c = CHR ''/'' then CHR ''_'' else c)"

definition from_url_char :: "char \<Rightarrow> char" where
  "from_url_char c =
     (if c = CHR ''-'' then CHR ''+'' else if c = CHR ''_'' then CHR ''/'' else c)"

text \<open>\<open>s.replace(/=+$/, "")\<close>.\<close>

definition drop_trailing_eq :: "string \<Rightarrow> string" where
  "drop_trailing_eq s = rev (dropWhile (\<lambda>c. c = CHR ''='') (rev s))"

definition base64UrlEncode :: "byte list \<Rightarrow> string" where
  "base64UrlEncode bytes = drop_trailing_eq (map to_url_char (btoa bytes))"

definition base64UrlDecode :: "string \<Rightarrow> byte list option" where
  "base64UrlDecode input =
     (let normalized = map from_url_char input;
          remainder = length normalized mod 4;
          padded = (if remainder = 0 then normalized
                    else normalized @ replicate (4 - remainder) (CHR ''=''))
      in atob padded)"

text \<open>\<open>new TextEncoder().encode(s)\<close>.\<close>

definition utf8_char :: "char \<Rightarrow> byte list" where
  "utf8_char c =
     (if ccode c < 128 then [word_of_nat (ccode c)]
      else [word_of_nat (192 + ccode c div 64), word_of_nat (128 + ccode c mod 64)])"

definition utf8_encode :: "string \<Rightarrow> byte list" where
  "utf8_encode s = concat (map utf8_char s)"

definition base64UrlEncodeString :: "string \<Rightarrow> string" where
  "base64UrlEncodeString value = base64UrlEncode (utf8_encode value)"

section \<open>ingress.ts: syntactic preflight of tokens\<close>

definition ACCESS_TOKEN_MAX_LENGTH :: nat where
  "ACCESS_TOKEN_MAX_LENGTH = 16 * 1024"

text \<open>\<open>Math.ceil((byteLength * 4) / 3)\<close> is \<open>(4 * byteLength + 2) div 3\<close>.\<close>

definition isOpaqueToken :: "string \<Rightarrow> nat \<Rightarrow> bool" where
  "isOpaqueToken value byteLength =
     (length value = (byteLength * 4 + 2) div 3 \<and> (value \<noteq> [] \<and> list_all is_b64url_char value))"

definition isAccountCapabilityToken :: "string \<Rightarrow> bool" where
  "isAccountCapabilityToken value = isOpaqueToken value 32"

definition isWebAuthnCeremonyId :: "string \<Rightarrow> bool" where
  "isWebAuthnCeremonyId value = isOpaqueToken value 16"

definition isPlausibleCompactJwt :: "string \<Rightarrow> bool" where
  "isPlausibleCompactJwt value =
     (length value \<le> ACCESS_TOKEN_MAX_LENGTH \<and>
      (case js_split (CHR ''.'') value of
         [h, p, s] \<Rightarrow> list_all (\<lambda>part. part \<noteq> [] \<and> list_all is_b64url_char part) [h, p, s]
       | _ \<Rightarrow> False))"

text \<open>\<open>randomToken(byteLength)\<close> on the bytes the CSPRNG returned.\<close>

definition randomToken :: "byte list \<Rightarrow> string" where
  "randomToken bytes = base64UrlEncode bytes"

section \<open>Round trips\<close>

lemma upt64: "[0..<64] = [0, 1, 2, 3, 4, 5, 6, 7, 8, 9, 10, 11, 12, 13, 14, 15, 16, 17, 18, 19, 20, 21, 22, 23, 24,
  25, 26, 27, 28, 29, 30, 31, 32, 33, 34, 35, 36, 37, 38, 39, 40, 41, 42, 43, 44, 45, 46, 47, 48, 49, 50, 51, 52,
  53, 54, 55, 56, 57, 58, 59, 60, 61, 62, 63]"
  by (simp add: upt_conv_Cons)

lemma b64_codes: "list_all (\<lambda>n. ccode (b64_char n) =
    (if n < 26 then 65 + n else if n < 52 then 71 + n else if n < 62 then n - 4 else if n = 62 then 43 else 47)) [0..<64]"
  unfolding upt64 by (simp add: b64_char_def b64_alphabet_def)

lemma char_eq_code: "c = d \<longleftrightarrow> ccode c = ccode d"
  by (metis of_char_eq_iff)

lemma b64_char_facts:
  assumes "n < 64"
  shows "b64_value (b64_char n) = Some n" "b64_char n \<noteq> CHR ''=''"
    "\<not> is_ascii_ws (b64_char n)" "from_url_char (to_url_char (b64_char n)) = b64_char n"
    "to_url_char (b64_char n) \<noteq> CHR ''=''" "is_b64url_char (to_url_char (b64_char n))"
proof -
  have c: "ccode (b64_char n) =
    (if n < 26 then 65 + n else if n < 52 then 71 + n else if n < 62 then n - 4 else if n = 62 then 43 else 47)"
    using b64_codes assms by (simp add: list_all_iff)
  show "b64_value (b64_char n) = Some n" "b64_char n \<noteq> CHR ''=''"
    "\<not> is_ascii_ws (b64_char n)" "from_url_char (to_url_char (b64_char n)) = b64_char n"
    "to_url_char (b64_char n) \<noteq> CHR ''=''" "is_b64url_char (to_url_char (b64_char n))"
    using c assms
    by (auto simp: b64_value_def is_upper_def is_lower_def is_digit_def is_ascii_ws_def from_url_char_def
      to_url_char_def is_b64url_char_def is_alnum_def char_eq_code split: if_splits)
qed

lemma byte_bound: "unat (a :: byte) < 256"
  using unsigned_less [of a, where ?'a = nat] by simp

text \<open>Every character of a body is the code of a sextet.\<close>

lemma b64_body_sextets: "\<exists>ns. b64_body bs = map b64_char ns \<and> list_all (\<lambda>n. n < 64) ns"
proof (induction bs rule: b64_body.induct)
  case (2 a)
  have "unat a div 4 < 64" using byte_bound [of a] by simp
  then show ?case by (intro exI [of _ "[unat a div 4, (unat a mod 4) * 16]"]) auto
next
  case (3 a b)
  have "unat a div 4 < 64" "(unat a mod 4) * 16 + unat b div 16 < 64" "(unat b mod 16) * 4 < 64"
    using byte_bound [of a] byte_bound [of b] by auto
  then show ?case
    by (intro exI [of _ "[unat a div 4, (unat a mod 4) * 16 + unat b div 16, (unat b mod 16) * 4]"])
      auto
next
  case (4 a b c r)
  then obtain ns where "b64_body r = map b64_char ns" "list_all (\<lambda>n. n < 64) ns" by auto
  moreover have "unat a div 4 < 64" "(unat a mod 4) * 16 + unat b div 16 < 64"
    "(unat b mod 16) * 4 + unat c div 64 < 64" "unat c mod 64 < 64"
    using byte_bound [of a] byte_bound [of b] byte_bound [of c] by auto
  ultimately show ?case
    by (intro exI [of _ "(unat a div 4) # ((unat a mod 4) * 16 + unat b div 16) #
          ((unat b mod 16) * 4 + unat c div 64) # (unat c mod 64) # ns"]) auto
qed simp

lemma b64_body_all:
  "(\<And>n. n < 64 \<Longrightarrow> P (b64_char n)) \<Longrightarrow> list_all P (b64_body bs)"
  using b64_body_sextets [of bs] by (auto simp: list_all_iff)

lemma length_b64_body: "length (b64_body bs) = (length bs * 4 + 2) div 3"
  by (induction bs rule: b64_body.induct) auto

lemma b64_body_mod:
  "length (b64_body bs) mod 4 = (if length bs mod 3 = 0 then 0 else Suc (length bs mod 3))"
proof (induction bs rule: b64_body.induct)
  case (4 a b c r)
  moreover have "length r mod 3 < 3" by simp
  ultimately show ?case by (auto simp: mod_Suc)
qed simp_all

lemma b64_body_decode:
  "b64_groups (map (\<lambda>c. the (b64_value c)) (b64_body bs)) = bs"
proof (induction bs rule: b64_body.induct)
  case (2 a)
  have "unat a div 4 < 64" "(unat a mod 4) * 16 < 64" "(unat a div 4) * 4 + unat a mod 4 = unat a"
    using byte_bound [of a] by auto
  then show ?case by (simp add: b64_char_facts)
next
  case (3 a b)
  have "unat a div 4 < 64" "(unat a mod 4) * 16 + unat b div 16 < 64" "(unat b mod 16) * 4 < 64"
    "((unat a mod 4) * 16 + unat b div 16) div 16 = unat a mod 4"
    "((unat a mod 4) * 16 + unat b div 16) mod 16 = unat b div 16"
    using byte_bound [of a] byte_bound [of b] by auto
  then show ?case by (simp add: b64_char_facts)
next
  case (4 a b c r)
  have "unat a div 4 < 64" "(unat a mod 4) * 16 + unat b div 16 < 64"
    "(unat b mod 16) * 4 + unat c div 64 < 64" "unat c mod 64 < 64"
    "((unat a mod 4) * 16 + unat b div 16) div 16 = unat a mod 4"
    "((unat a mod 4) * 16 + unat b div 16) mod 16 = unat b div 16"
    "((unat b mod 16) * 4 + unat c div 64) div 4 = unat b mod 16"
    "((unat b mod 16) * 4 + unat c div 64) mod 4 = unat c div 64"
    using byte_bound [of a] byte_bound [of b] byte_bound [of c] by auto
  with 4 show ?case by (simp add: b64_char_facts)
qed simp

lemma strip_padding_btoa: "strip_padding (btoa bs) = b64_body bs"
proof -
  have noeq: "list_all (\<lambda>c. c \<noteq> CHR ''='') (b64_body bs)"
    by (rule b64_body_all) (rule b64_char_facts(2))
  consider "length bs mod 3 = 0" | "length bs mod 3 = 1" | "length bs mod 3 = 2" by linarith
  then show ?thesis
  proof cases
    case 1
    then have *: "btoa bs = b64_body bs" by (simp add: btoa_def)
    show ?thesis
    proof (cases "b64_body bs" rule: rev_cases)
      case (snoc ys y)
      with noeq have y: "y \<noteq> CHR ''=''" by simp
      have "drop (length ys - 1) (ys @ [y]) \<noteq> ''==''"
      proof
        assume "drop (length ys - 1) (ys @ [y]) = ''==''"
        then have "last (drop (length ys - 1) (ys @ [y])) = CHR ''=''" by simp
        with y show False by (simp add: last_drop)
      qed
      with * snoc y show ?thesis by (simp add: strip_padding_def)
    qed (simp add: * strip_padding_def)
  next
    case 2
    then have "btoa bs = b64_body bs @ ''==''" by (simp add: btoa_def numeral_2_eq_2)
    moreover have "length (b64_body bs) mod 4 = 2" using 2 by (simp add: b64_body_mod)
    ultimately show ?thesis by (simp add: strip_padding_def mod_Suc)
  next
    case 3
    then have *: "btoa bs = b64_body bs @ ''=''" by (simp add: btoa_def)
    have l: "length (b64_body bs) mod 4 = 3" using 3 by (simp add: b64_body_mod)
    obtain ys y where ys: "b64_body bs = ys @ [y]" using l by (cases "b64_body bs" rule: rev_cases) auto
    with noeq have "y \<noteq> CHR ''=''" by simp
    with * l ys show ?thesis by (auto simp: strip_padding_def mod_Suc butlast_append)
  qed
qed

lemma atob_btoa: "atob (btoa bs) = Some bs"
proof -
  have "list_all (\<lambda>c. \<not> is_ascii_ws c) (b64_body bs)"
    by (rule b64_body_all) (rule b64_char_facts(3))
  then have f: "filter (\<lambda>c. \<not> is_ascii_ws c) (btoa bs) = btoa bs"
    by (auto simp: filter_id_conv list_all_iff btoa_def is_ascii_ws_def)
  have v: "list_all (\<lambda>c. b64_value c \<noteq> None) (b64_body bs)"
    by (rule b64_body_all) (simp add: b64_char_facts)
  have "length (b64_body bs) mod 4 \<noteq> 1" unfolding length_b64_body by presburger
  then show ?thesis
    using v by (simp add: atob_def Let_def f strip_padding_btoa b64_body_decode list_ex_iff list_all_iff)
qed

lemma drop_trailing_eq_append:
  "list_all (\<lambda>c. c \<noteq> CHR ''='') s \<Longrightarrow> drop_trailing_eq (s @ replicate k (CHR ''='')) = s"
  by (cases s rule: rev_cases)
    (auto simp: drop_trailing_eq_def dropWhile_append1 dropWhile_append)

lemma base64UrlEncode_body: "base64UrlEncode bs = map to_url_char (b64_body bs)"
proof -
  have "list_all (\<lambda>c. c \<noteq> CHR ''='') (map to_url_char (b64_body bs))"
    unfolding list.pred_map comp_def by (rule b64_body_all) (rule b64_char_facts(5))
  then show ?thesis
    by (simp add: base64UrlEncode_def btoa_def drop_trailing_eq_append to_url_char_def)
qed

lemma length_base64UrlEncode: "length (base64UrlEncode bs) = (length bs * 4 + 2) div 3"
  by (simp add: base64UrlEncode_body length_b64_body)

lemma base64UrlEncode_chars: "list_all is_b64url_char (base64UrlEncode bs)"
  unfolding base64UrlEncode_body list.pred_map comp_def
  by (rule b64_body_all) (rule b64_char_facts(6))

lemma base64Url_decode_encode: "base64UrlDecode (base64UrlEncode bs) = Some bs"
proof -
  have n: "map from_url_char (base64UrlEncode bs) = b64_body bs"
  proof -
    have "list_all (\<lambda>c. from_url_char (to_url_char c) = c) (b64_body bs)"
      by (rule b64_body_all) (rule b64_char_facts(4))
    then show ?thesis by (simp add: base64UrlEncode_body list_all_iff map_idI)
  qed
  have "(if length (b64_body bs) mod 4 = 0 then b64_body bs
         else b64_body bs @ replicate (4 - length (b64_body bs) mod 4) (CHR ''='')) = btoa bs"
  proof -
    consider "length bs mod 3 = 0" | "length bs mod 3 = 1" | "length bs mod 3 = 2" by linarith
    then have "length bs mod 3 = 0 \<and> length (b64_body bs) mod 4 = 0 \<or>
       length bs mod 3 = 1 \<and> length (b64_body bs) mod 4 = 2 \<or>
       length bs mod 3 = 2 \<and> length (b64_body bs) mod 4 = 3"
      by cases (simp_all add: b64_body_mod)
    then show ?thesis by (auto simp: btoa_def)
  qed
  then show ?thesis by (simp only: base64UrlDecode_def Let_def n atob_btoa)
qed

lemma base64UrlEncode_inject: "base64UrlEncode as = base64UrlEncode bs \<longleftrightarrow> as = bs"
  by (metis base64Url_decode_encode option.inject)

lemma utf8_char_unat:
  "map unat (utf8_char c) =
     (if ccode c < 128 then [ccode c] else [192 + ccode c div 64, 128 + ccode c mod 64])"
proof -
  have c: "ccode c < 256" by (rule code_bound)
  have w: "n < 256 \<Longrightarrow> unat (word_of_nat n :: byte) = n" for n
    by (simp add: unat_of_nat)
  have "ccode c div 64 < 4" using c by (simp add: less_mult_imp_div_less)
  then have "192 + ccode c div 64 < 256" by simp
  then show ?thesis
    using c by (simp del: of_nat_add add: utf8_char_def w)
qed

lemma utf8_char_prefix_free:
  assumes "utf8_char c @ X = utf8_char d @ Y"
  shows "c = d \<and> X = Y"
proof -
  have m: "map unat (utf8_char c) @ map unat X = map unat (utf8_char d) @ map unat Y"
    using assms by (metis map_append)
  have b: "ccode c < 256" "ccode d < 256" by (rule code_bound)+
  have "ccode c = ccode d"
    using m b
    by (auto simp: utf8_char_unat split: if_splits) (metis div_mult_mod_eq of_char_eq_iff)
  then have "c = d" by (rule of_char_eqI)
  with assms show ?thesis by simp
qed

lemma utf8_encode_inject: "utf8_encode s = utf8_encode t \<longleftrightarrow> s = t"
proof (induction s arbitrary: t)
  case Nil
  show ?case by (cases t) (auto simp: utf8_encode_def utf8_char_def)
next
  case (Cons c s)
  show ?case
  proof (cases t)
    case Nil
    then show ?thesis by (auto simp: utf8_encode_def utf8_char_def)
  next
    case (Cons d t')
    then show ?thesis using Cons.IH [of t'] utf8_char_prefix_free
      by (auto simp: utf8_encode_def)
  qed
qed

lemma length_utf8_encode: "length (utf8_encode s) = utf8_length s"
  by (induction s) (auto simp: utf8_encode_def utf8_length_def utf8_char_def utf8_char_length_def)

section \<open>Properties\<close>

text \<open>
  base64url round trip: decoding the encoding of any byte string gives it back, the encoding
  is injective, has the length the token checks compute, and uses only the URL-safe alphabet
  without padding.
\<close>

theorem base64url_roundtrip:
  "base64UrlDecode (base64UrlEncode bs) = Some bs \<and>
   (base64UrlEncode as = base64UrlEncode bs \<longleftrightarrow> as = bs) \<and>
   length (base64UrlEncode bs) = (length bs * 4 + 2) div 3 \<and>
   list_all is_b64url_char (base64UrlEncode bs)"
  using base64Url_decode_encode base64UrlEncode_inject length_base64UrlEncode base64UrlEncode_chars
  by simp

text \<open>
  The ingress checks accept every token the server mints: a token drawn from \<open>n\<close> random
  bytes passes \<open>isOpaqueToken\<close> for \<open>n\<close> and for no other number of bytes, so a
  preflight never rejects a genuine capability or ceremony id and never accepts one kind for
  the other.
\<close>

theorem minted_tokens_pass_ingress:
  assumes "bytes \<noteq> []"
  shows "isOpaqueToken (randomToken bytes) n \<longleftrightarrow> n = length bytes"
proof -
  have "randomToken bytes \<noteq> []"
    using assms length_base64UrlEncode [of bytes] by (cases bytes) (auto simp: randomToken_def)
  then show ?thesis
    using base64UrlEncode_chars [of bytes]
    by (auto simp: isOpaqueToken_def randomToken_def length_base64UrlEncode)
qed

theorem minted_tokens_pass_ingress_witness:
  "isOpaqueToken (randomToken (replicate 32 7)) 32 \<and> \<not> isOpaqueToken (randomToken (replicate 32 7)) 16"
  using minted_tokens_pass_ingress [of "replicate 32 7"] by simp

end
