(* ===== verification/Crypto.thy ===== *)
theory Crypto
  imports Config Encoding
begin

text \<open>
  \<open>src/security/crypto.ts\<close>, \<open>src/security/client-secret.ts\<close>, \<open>src/security/csrf.ts\<close>,
  \<open>src/oauth/pkce.ts\<close> and \<open>src/tokens/token-hash.ts\<close>. The WebCrypto SHA-256 digest and the
  hexadecimal printer of the noble library are the fields of the record \<open>crypto\<close>, an argument
  of every definition that uses them.
\<close>

unbundle bit_operations_syntax

record crypto =
  subtle_sha256 :: "byte list \<Rightarrow> byte list"
  bytesToHex :: "byte list \<Rightarrow> string"

section \<open>crypto.ts\<close>

definition sha256 :: "crypto \<Rightarrow> string \<Rightarrow> byte list" where
  "sha256 cr data = subtle_sha256 cr (utf8_encode data)"

definition sha256Hex :: "crypto \<Rightarrow> string \<Rightarrow> string" where
  "sha256Hex cr data = bytesToHex cr (sha256 cr data)"

text \<open>
  The loop of \<open>timingSafeEqual\<close>: \<open>diff |= (a[i] ?? 0) ^ (b[i] ?? 0)\<close> for every index of
  \<open>a\<close>, without an early exit.
\<close>

fun timing_diff :: "byte list \<Rightarrow> byte list \<Rightarrow> byte \<Rightarrow> byte" where
  "timing_diff [] bs diff = diff"
| "timing_diff (a # as) bs diff =
     timing_diff as (drop 1 bs) (diff OR (a XOR (case bs of [] \<Rightarrow> 0 | b # _ \<Rightarrow> b)))"

definition timingSafeEqual :: "byte list \<Rightarrow> byte list \<Rightarrow> bool" where
  "timingSafeEqual a b = (if length a \<noteq> length b then False else timing_diff a b 0 = 0)"

definition timingSafeEqualString :: "string \<Rightarrow> string \<Rightarrow> bool" where
  "timingSafeEqualString a b = timingSafeEqual (utf8_encode a) (utf8_encode b)"

section \<open>token-hash.ts and client-secret.ts\<close>

definition hashOpaqueToken :: "crypto \<Rightarrow> string \<Rightarrow> string" where
  "hashOpaqueToken cr token = sha256Hex cr token"

definition hashClientSecret :: "crypto \<Rightarrow> string \<Rightarrow> string" where
  "hashClientSecret cr secret = sha256Hex cr secret"

definition verifyClientSecret :: "crypto \<Rightarrow> string \<Rightarrow> string \<Rightarrow> bool" where
  "verifyClientSecret cr presented storedHash =
     timingSafeEqualString (sha256Hex cr presented) storedHash"

section \<open>pkce.ts\<close>

definition is_verifier_char :: "char \<Rightarrow> bool" where
  "is_verifier_char c = (is_alnum c \<or> c \<in> {CHR ''-'', CHR ''.'', CHR ''_'', CHR ''~''})"

definition isValidCodeVerifier :: "string \<Rightarrow> bool" where
  "isValidCodeVerifier verifier =
     (43 \<le> length verifier \<and> length verifier \<le> 128 \<and> list_all is_verifier_char verifier)"

definition isValidS256Challenge :: "string \<Rightarrow> bool" where
  "isValidS256Challenge challenge =
     (length challenge = 43 \<and> list_all is_b64url_char challenge)"

definition computeS256Challenge :: "crypto \<Rightarrow> string \<Rightarrow> string" where
  "computeS256Challenge cr verifier = base64UrlEncode (sha256 cr verifier)"

definition verifyPkce :: "crypto \<Rightarrow> string \<Rightarrow> string \<Rightarrow> bool" where
  "verifyPkce cr verifier challenge =
     (if \<not> isValidCodeVerifier verifier then False
      else timingSafeEqualString (computeS256Challenge cr verifier) challenge)"

section \<open>csrf.ts\<close>

text \<open>
  \<open>issueCsrfToken\<close> returns the token and the cookie it sets, if any; \<open>random\<close> are the 24
  bytes drawn for a new token.
\<close>

definition issueCsrfToken :: "string option \<Rightarrow> byte list \<Rightarrow> string \<times> string option" where
  "issueCsrfToken existing random =
     (case existing of
        Some t \<Rightarrow>
          (if 24 \<le> length t \<and> length t \<le> 128 \<and> list_all is_b64url_char t then (t, None)
           else (randomToken random, Some (randomToken random)))
      | None \<Rightarrow> (randomToken random, Some (randomToken random)))"

definition verifyCsrfToken :: "env \<Rightarrow> string option \<Rightarrow> string option \<Rightarrow> bool" where
  "verifyCsrfToken env cookie submitted =
     (if fst (yoloAllow env ''csrf'') then True
      else (case (cookie, submitted) of
              (Some ck, Some sub) \<Rightarrow> (if sub = [] then False else timingSafeEqualString ck sub)
            | _ \<Rightarrow> False))"

section \<open>Constant-time comparison decides equality\<close>

lemma timing_diff_mono: "timing_diff as bs diff = 0 \<Longrightarrow> diff = 0"
proof (induction as bs diff rule: timing_diff.induct)
  case (2 a as bs diff)
  then have "diff OR (a XOR (case bs of [] \<Rightarrow> 0 | b # _ \<Rightarrow> b)) = 0" by simp
  then show ?case by (simp add: bit_eq_iff bit_or_iff)
qed simp

lemma timing_diff_zero:
  "length as = length bs \<Longrightarrow> timing_diff as bs 0 = 0 \<longleftrightarrow> as = bs"
proof (induction as bs rule: list_induct2)
  case (Cons a as b bs)
  show ?case
  proof (cases "a = b")
    case False
    then have "a XOR b \<noteq> 0" by (simp add: bit_eq_iff bit_xor_iff)
    then have "timing_diff as bs (a XOR b) \<noteq> 0" using timing_diff_mono by blast
    with False show ?thesis by simp
  qed (simp add: Cons)
qed simp

lemma timingSafeEqual_eq [simp]: "timingSafeEqual a b \<longleftrightarrow> a = b"
  by (auto simp: timingSafeEqual_def timing_diff_zero)

lemma timingSafeEqualString_eq [simp]: "timingSafeEqualString a b \<longleftrightarrow> a = b"
  by (simp add: timingSafeEqualString_def utf8_encode_inject)

section \<open>PKCE\<close>

text \<open>
  The documented property of SHA-256 the PKCE code relies on: a digest has 32 bytes.
\<close>

definition digest_32 :: "crypto \<Rightarrow> bool" where
  "digest_32 cr = (\<forall>bs. length (subtle_sha256 cr bs) = 32)"

lemma challenge_valid: "digest_32 cr \<Longrightarrow> isValidS256Challenge (computeS256Challenge cr v)"
  by (simp add: isValidS256Challenge_def computeS256Challenge_def digest_32_def sha256_def
      base64UrlEncode_chars length_base64UrlEncode)

lemma verifyPkce_iff:
  "verifyPkce cr v ch \<longleftrightarrow> isValidCodeVerifier v \<and> ch = computeS256Challenge cr v"
  by (auto simp: verifyPkce_def)

section \<open>Properties\<close>

text \<open>
  The constant-time comparisons decide equality, and a PKCE verification succeeds exactly
  for a well-formed verifier whose S256 transform is the stored challenge; with a 32-byte digest
  every computed challenge passes the syntax check of the authorization endpoint.
\<close>

theorem pkce_verification_exact:
  assumes "digest_32 cr"
  shows "(verifyPkce cr verifier challenge \<longleftrightarrow>
       isValidCodeVerifier verifier \<and> challenge = computeS256Challenge cr verifier) \<and>
    isValidS256Challenge (computeS256Challenge cr verifier) \<and>
    (timingSafeEqualString a b \<longleftrightarrow> a = b)"
  using verifyPkce_iff challenge_valid [OF assms] by simp

theorem pkce_verification_exact_witness:
  "let cr = \<lparr>subtle_sha256 = (\<lambda>bs. replicate 32 0), bytesToHex = (\<lambda>bs. [])\<rparr>
   in isValidS256Challenge (computeS256Challenge cr ''v'')"
  using pkce_verification_exact [of "\<lparr>subtle_sha256 = (\<lambda>bs. replicate 32 0), bytesToHex = (\<lambda>bs. [])\<rparr>" "''v''"]
  by (simp add: digest_32_def Let_def)

end
