(* ===== verification/One_Time_Store.thy ===== *)
theory One_Time_Store
  imports Capabilities Crypto
begin

text \<open>
  \<open>src/do/base.ts\<close> and \<open>src/do/AuthorizationCodeDO.ts\<close>: the Durable Objects that hold one
  single-use value each (authorization codes, magic-link tokens, WebAuthn challenges). The
  storage of an object is the record \<open>one_time\<close>, one optional field per storage key; the input
  gate of the platform serializes the calls, so a call is one step.
\<close>

section \<open>OneTimeConsumeDO\<close>

record 'v one_time =
  ot_value :: "'v option"
  ot_expiresAt :: "int option"
  ot_consumed :: "bool option"
  ot_alarm :: "int option"

definition ot_empty :: "'v one_time" where
  "ot_empty = \<lparr>ot_value = None, ot_expiresAt = None, ot_consumed = None, ot_alarm = None\<rparr>"

definition ot_store :: "int \<Rightarrow> 'v \<Rightarrow> int \<Rightarrow> 'v one_time \<Rightarrow> 'v one_time" where
  "ot_store nowMs value ttlSeconds s =
     (let expiresAt = nowMs + ttlSeconds * 1000
      in s\<lparr>ot_value := Some value, ot_expiresAt := Some expiresAt, ot_consumed := Some False,
           ot_alarm := Some (expiresAt + 60000)\<rparr>)"

definition ot_consume :: "int \<Rightarrow> 'v one_time \<Rightarrow> 'v option \<times> 'v one_time" where
  "ot_consume nowMs s =
     (if ot_consumed s \<noteq> Some False then (None, s)
      else case ot_expiresAt s of
        None \<Rightarrow> (None, ot_empty)
      | Some expiresAt \<Rightarrow>
          if nowMs > expiresAt then (None, ot_empty)
          else (case ot_value s of
                  None \<Rightarrow> (None, s)
                | Some value \<Rightarrow> (Some value, s\<lparr>ot_consumed := Some True\<rparr>)))"

definition ot_peek :: "int \<Rightarrow> 'v one_time \<Rightarrow> 'v option" where
  "ot_peek nowMs s =
     (case (ot_expiresAt s, ot_value s) of
        (Some expiresAt, Some value) \<Rightarrow>
          if ot_consumed s \<noteq> Some False \<or> nowMs > expiresAt then None else Some value
      | _ \<Rightarrow> None)"

definition ot_alarm_fires :: "'v one_time \<Rightarrow> 'v one_time" where
  "ot_alarm_fires s = ot_empty"

section \<open>AuthorizationCodeDO\<close>

record consume_input =
  ci_issuer :: string
  ci_clientId :: string
  ci_redirectUri :: string
  ci_resource :: "string option"
  ci_metadataFingerprint :: "string option"
  ci_codeVerifier :: string

datatype consume_failure = not_found | binding | resource_mismatch | pkce_mismatch

text \<open>The bindings of a code, as the three guards of \<open>consumeIf\<close> test them.\<close>

definition binding_ok :: "AuthorizationCodePayload \<Rightarrow> consume_input \<Rightarrow> bool" where
  "binding_ok value input =
     (ac_issuer value = ci_issuer input \<and> ac_clientId value = ci_clientId input \<and>
      ac_redirectUri value = ci_redirectUri input \<and>
      ac_metadataFingerprint value = ci_metadataFingerprint input)"

definition resource_ok :: "AuthorizationCodePayload \<Rightarrow> consume_input \<Rightarrow> bool" where
  "resource_ok value input =
     (\<not> ((ac_resourceRequired value \<and> ci_resource input = None) \<or>
         (ci_resource input \<noteq> None \<and> Some (ac_resource value) \<noteq> ci_resource input)))"

definition consumeIf ::
  "env \<Rightarrow> crypto \<Rightarrow> int \<Rightarrow> consume_input \<Rightarrow> AuthorizationCodePayload one_time
   \<Rightarrow> (consume_failure, AuthorizationCodePayload) result \<times> AuthorizationCodePayload one_time" where
  "consumeIf env cr nowMs input s =
     (let yolo = isYoloEnabled env;
          computedChallenge =
            (if isValidCodeVerifier (ci_codeVerifier input)
             then Some (computeS256Challenge cr (ci_codeVerifier input)) else None)
      in case (ot_expiresAt s, ot_value s) of
           (Some expiresAt, Some value) \<Rightarrow>
             (if ot_consumed s \<noteq> Some False \<or> nowMs > expiresAt then (Inl not_found, s)
              else if \<not> yolo \<and> \<not> binding_ok value input then (Inl binding, s)
              else if \<not> yolo \<and> \<not> resource_ok value input then (Inl resource_mismatch, s)
              else if \<not> yolo \<and>
                (case computedChallenge of None \<Rightarrow> True
                 | Some ch \<Rightarrow> \<not> timingSafeEqualString ch (ac_codeChallenge value))
              then (Inl pkce_mismatch, s)
              else (Inr value, s\<lparr>ot_consumed := Some True\<rparr>))
         | _ \<Rightarrow> (Inl not_found, s))"

section \<open>The abstract slot\<close>

text \<open>
  What the class promises: a slot that is empty or holds one live value until an instant.
  Consuming a live slot yields the value and empties the slot.
\<close>

datatype 'v slot = Empty | Live 'v int

fun slot_consume :: "int \<Rightarrow> 'v slot \<Rightarrow> 'v option \<times> 'v slot" where
  "slot_consume nowMs Empty = (None, Empty)"
| "slot_consume nowMs (Live v e) = (if nowMs > e then (None, Empty) else (Some v, Empty))"

fun slot_peek :: "int \<Rightarrow> 'v slot \<Rightarrow> 'v option" where
  "slot_peek nowMs Empty = None"
| "slot_peek nowMs (Live v e) = (if nowMs > e then None else Some v)"

definition slot_of :: "'v one_time \<Rightarrow> 'v slot" where
  "slot_of s =
     (case (ot_consumed s, ot_expiresAt s, ot_value s) of
        (Some False, Some e, Some v) \<Rightarrow> Live v e
      | _ \<Rightarrow> Empty)"

lemma slot_of_empty [simp]: "slot_of ot_empty = Empty"
  by (simp add: slot_of_def ot_empty_def)

lemma slot_of_store [simp]:
  "slot_of (ot_store nowMs v ttl s) = Live v (nowMs + ttl * 1000)"
  by (simp add: slot_of_def ot_store_def Let_def)

lemma consume_refines:
  "map_prod id slot_of (ot_consume nowMs s) = slot_consume nowMs (slot_of s)"
  by (auto simp: ot_consume_def slot_of_def ot_empty_def split: option.splits bool.splits)

lemma peek_refines: "ot_peek nowMs s = slot_peek nowMs (slot_of s)"
  by (auto simp: ot_peek_def slot_of_def split: option.splits bool.splits)

lemma alarm_refines: "slot_of (ot_alarm_fires s) = Empty"
  by (simp add: ot_alarm_fires_def)

section \<open>Single use\<close>

text \<open>
  Every call a holder of the object can make after the value was stored. \<open>Alarm\<close> is the
  platform's timer; \<open>store\<close> is not among them, since it opens a new capability.
\<close>

datatype one_time_call = Consume int | Peek int | Alarm

fun one_time_step :: "one_time_call \<Rightarrow> 'v one_time \<Rightarrow> 'v option \<times> 'v one_time" where
  "one_time_step (Consume nowMs) s = ot_consume nowMs s"
| "one_time_step (Peek nowMs) s = (None, s)"
| "one_time_step Alarm s = (None, ot_alarm_fires s)"

datatype code_call =
    ConsumeIf env int consume_input
  | CodeConsume int
  | CodeAlarm

fun code_step ::
  "crypto \<Rightarrow> code_call \<Rightarrow> AuthorizationCodePayload one_time
   \<Rightarrow> AuthorizationCodePayload option \<times> AuthorizationCodePayload one_time" where
  "code_step cr (ConsumeIf env nowMs input) s =
     (case consumeIf env cr nowMs input s of
        (Inl _, s') \<Rightarrow> (None, s') | (Inr v, s') \<Rightarrow> (Some v, s'))"
| "code_step cr (CodeConsume nowMs) s = ot_consume nowMs s"
| "code_step cr CodeAlarm s = (None, ot_alarm_fires s)"

definition ot_spent :: "'v one_time \<Rightarrow> bool" where
  "ot_spent s = (ot_consumed s \<noteq> Some False)"

lemma ot_consume_spent:
  "ot_spent s \<Longrightarrow> ot_consume nowMs s = (None, s)"
  "ot_consume nowMs s = (Some v, s') \<Longrightarrow> ot_spent s'"
  by (auto simp: ot_spent_def ot_consume_def split: option.splits if_splits)

lemma consumeIf_spent: "ot_spent s \<Longrightarrow> consumeIf env cr nowMs input s = (Inl not_found, s)"
  by (auto simp: consumeIf_def ot_spent_def Let_def split: option.splits)

lemma consumeIf_success:
  assumes "consumeIf env cr nowMs input s = (Inr v, s')"
  shows "ot_consumed s = Some False" "ot_value s = Some v" "\<exists>e. ot_expiresAt s = Some e \<and> nowMs \<le> e"
    "s' = s\<lparr>ot_consumed := Some True\<rparr>"
    "isYoloEnabled env \<or> (binding_ok v input \<and> resource_ok v input \<and>
       verifyPkce cr (ci_codeVerifier input) (ac_codeChallenge v))"
  using assms
  by (auto simp: consumeIf_def Let_def verifyPkce_def not_less split: option.splits if_splits)

lemma consumeIf_failure: "consumeIf env cr nowMs input s = (Inl e, s') \<Longrightarrow> s' = s"
  by (auto simp: consumeIf_def Let_def split: option.splits if_splits)

interpretation ot: single_use "one_time_step :: one_time_call \<Rightarrow> 'v one_time \<Rightarrow> _" ot_spent
proof (unfold_locales, goal_cases)
  case (1 s i)
  then show ?case by (cases i) (auto simp: ot_consume_spent)
next
  case (2 s i)
  then show ?case by (cases i) (auto simp: ot_consume_spent ot_spent_def ot_alarm_fires_def ot_empty_def)
next
  case (3 i s r s')
  then show ?case by (cases i) (auto dest: ot_consume_spent)
qed

interpretation codes: single_use "code_step cr" ot_spent for cr
proof (unfold_locales, goal_cases)
  case (1 s i)
  then show ?case by (cases i) (auto simp: ot_consume_spent consumeIf_spent)
next
  case (2 s i)
  then show ?case
    by (cases i) (auto simp: ot_consume_spent consumeIf_spent ot_spent_def ot_alarm_fires_def ot_empty_def)
next
  case (3 i s r s')
  then show ?case
    by (cases i)
      (auto dest: ot_consume_spent consumeIf_success(4) split: prod.splits sum.splits simp: ot_spent_def)
qed

text \<open>A freshly stored value is really available: the first consumption in time obtains it.\<close>

lemma stored_value_consumable:
  "nowMs \<le> t + ttl * 1000 \<Longrightarrow> fst (ot_consume nowMs (ot_store t v ttl s)) = Some v"
  by (simp add: ot_consume_def ot_store_def Let_def)

section \<open>Properties\<close>

text \<open>
  C1. An authorization code is redeemed at most once: over every sequence of calls that reach
  its Durable Object after it was stored (redemptions with any parameters at any time,
  unconditional consumption, the clean-up alarm), at most one call obtains the payload.
\<close>

theorem authorization_code_single_use:
  "length (grants (fst (run (code_step cr) calls s))) \<le> 1"
  by (rule codes.at_most_one_grant)

text \<open>
  C7. Exactly when \<open>consumeIf\<close> yields a code, outside YOLO mode: the code is stored, unconsumed
  and not past its expiry; issuer, client, redirect URI and metadata fingerprint are the ones it
  was issued for; the resource is absent (and not required) or the bound one; and the verifier
  is well formed and hashes to the stored challenge. A success marks the code consumed; a
  failure leaves the storage as it was.
\<close>

theorem consumeIf_exact:
  assumes "\<not> isYoloEnabled env"
  shows "(consumeIf env cr nowMs input s = (Inr v, s') \<longleftrightarrow>
    (\<exists>e. slot_of s = Live v e \<and> nowMs \<le> e) \<and>
    ac_issuer v = ci_issuer input \<and> ac_clientId v = ci_clientId input \<and>
    ac_redirectUri v = ci_redirectUri input \<and>
    ac_metadataFingerprint v = ci_metadataFingerprint input \<and>
    (case ci_resource input of None \<Rightarrow> \<not> ac_resourceRequired v | Some r \<Rightarrow> r = ac_resource v) \<and>
    isValidCodeVerifier (ci_codeVerifier input) \<and>
    ac_codeChallenge v = computeS256Challenge cr (ci_codeVerifier input) \<and>
    s' = s\<lparr>ot_consumed := Some True\<rparr>) \<and>
   (consumeIf env cr nowMs input s = (Inl reason, s') \<longrightarrow> s' = s)"
  (is "(?call = _ \<longleftrightarrow> ?ok) \<and> _")
proof (rule conjI [OF iffI impI])
  assume ok: "?call = (Inr v, s')"
  have "slot_of s = Live v e" if "ot_expiresAt s = Some e" for e
    using consumeIf_success(1,2) [OF ok] that by (simp add: slot_of_def)
  then show ?ok
    using consumeIf_success [OF ok] assms
    by (auto simp: binding_ok_def resource_ok_def verifyPkce_iff split: option.splits)
next
  assume ?ok
  moreover from this obtain e where "ot_consumed s = Some False" "ot_expiresAt s = Some e"
    "ot_value s = Some v" "nowMs \<le> e"
    by (auto simp: slot_of_def split: option.splits bool.splits)
  ultimately show "?call = (Inr v, s')"
    using assms by (simp add: consumeIf_def Let_def binding_ok_def resource_ok_def split: option.splits)
next
  show "s' = s" if "?call = (Inl reason, s')" using that by (rule consumeIf_failure)
qed

theorem consumeIf_exact_witness:
  "let env = \<lparr>ENVIRONMENT = Some ''production'', YOLO_MODE = None, ISSUER = ''i''\<rparr>;
       cr = \<lparr>subtle_sha256 = (\<lambda>bs. []), bytesToHex = (\<lambda>bs. [])\<rparr>;
       v = \<lparr>ac_issuer = ''i'', ac_clientId = ''c'', ac_userId = ''u'', ac_redirectUri = ''cb'',
         ac_scope = ''s'', ac_resource = ''r'', ac_resourceRequired = True, ac_metadataFingerprint = None,
         ac_codeChallenge = [], ac_nonce = None, ac_authTime = 1, ac_sessionId = ''x''\<rparr>;
       input = \<lparr>ci_issuer = ''i'', ci_clientId = ''c'', ci_redirectUri = ''cb'', ci_resource = Some ''r'',
         ci_metadataFingerprint = None, ci_codeVerifier = replicate 43 (CHR ''a'')\<rparr>
   in \<exists>s'. consumeIf env cr 5 input (ot_store 0 v 60 ot_empty) = (Inr v, s')"
  unfolding Let_def
  by (subst consumeIf_exact [THEN conjunct1])
    (simp_all add: drop_trailing_eq_def isYoloEnabled_def YOLO_ENVIRONMENT_def isValidCodeVerifier_def list_all_iff
      is_verifier_char_def is_alnum_def is_lower_def computeS256Challenge_def sha256_def
      base64UrlEncode_def btoa_def)

text \<open>
  C22. The one-time Durable Object implements the abstract slot: storing makes a value live until
  its expiry, consuming yields a live value and empties the slot, peeking sees what consuming
  would yield, and the alarm empties the slot.
\<close>

theorem one_time_refines_slot:
  "map_prod id slot_of (ot_consume nowMs s) = slot_consume nowMs (slot_of s) \<and>
   ot_peek nowMs s = slot_peek nowMs (slot_of s) \<and>
   slot_of (ot_store nowMs v ttl s) = Live v (nowMs + ttl * 1000) \<and>
   slot_of (ot_alarm_fires s) = Empty"
  by (simp add: consume_refines peek_refines alarm_refines)

end
