(* ===== verification/Rate_Limit.thy ===== *)
theory Rate_Limit
  imports Config
begin

text \<open>
  \<open>src/do/RateLimitDO.ts\<close> and \<open>src/security/rate-limit.ts\<close>: the fixed-window limiter, one
  Durable Object per key. The storage has the keys \<open>windowStart\<close> and \<open>count\<close>; the platform
  serializes the calls on one object.
\<close>

record RateLimitResult =
  rl_allowed :: bool
  rl_remaining :: int
  rl_retryAfterSeconds :: int
  rl_firstDenied :: bool

record rate_limit =
  rl_windowStart :: "int option"
  rl_count :: "int option"
  rl_alarm :: "int option"

definition rl_empty :: rate_limit where
  "rl_empty = \<lparr>rl_windowStart = None, rl_count = None, rl_alarm = None\<rparr>"

text \<open>\<open>Math.ceil(x / 1000)\<close>.\<close>

definition ceil_seconds :: "int \<Rightarrow> int" where "ceil_seconds x = - ((- x) div 1000)"

definition rl_check :: "int \<Rightarrow> int \<Rightarrow> int \<Rightarrow> rate_limit \<Rightarrow> RateLimitResult \<times> rate_limit" where
  "rl_check now limit windowSeconds s =
     (let windowMs = windowSeconds * 1000;
          storedStart = (case rl_windowStart s of None \<Rightarrow> 0 | Some v \<Rightarrow> v);
          storedCount = (case rl_count s of None \<Rightarrow> 0 | Some v \<Rightarrow> v);
          newWindow = (now - storedStart \<ge> windowMs);
          windowStart = (if newWindow then now else storedStart);
          count = (if newWindow then 1 else min (storedCount + 1) (limit + 1));
          s' = (if newWindow
                then s\<lparr>rl_windowStart := Some windowStart, rl_count := Some count,
                       rl_alarm := Some (windowStart + windowMs + 1000)\<rparr>
                else if count \<noteq> storedCount then s\<lparr>rl_count := Some count\<rparr>
                else s);
          allowed = (count \<le> limit);
          firstDenied = (\<not> allowed \<and> (newWindow \<or> storedCount \<le> limit));
          retryAfterSeconds = (if allowed then 0 else ceil_seconds (windowStart + windowMs - now))
      in (\<lparr>rl_allowed = allowed, rl_remaining = max 0 (limit - count),
           rl_retryAfterSeconds = retryAfterSeconds, rl_firstDenied = firstDenied\<rparr>, s'))"

definition rl_reset :: "rate_limit \<Rightarrow> rate_limit" where "rl_reset s = rl_empty"

definition rl_alarm_fires :: "rate_limit \<Rightarrow> rate_limit" where "rl_alarm_fires s = rl_empty"

section \<open>rate-limit.ts\<close>

text \<open>\<open>Number.MAX_SAFE_INTEGER\<close> is 2^53 - 1.\<close>

definition YOLO_ALLOWED :: RateLimitResult where
  "YOLO_ALLOWED = \<lparr>rl_allowed = True, rl_remaining = 9007199254740991,
     rl_retryAfterSeconds = 0, rl_firstDenied = False\<rparr>"

definition shouldAuditRateLimit :: "RateLimitResult list \<Rightarrow> bool" where
  "shouldAuditRateLimit results = list_ex (\<lambda>r. \<not> rl_allowed r \<and> rl_firstDenied r) results"

text \<open>The limiters of all keys; an object that was never called has empty storage.\<close>

definition checkRateLimit ::
  "env \<Rightarrow> int \<Rightarrow> string \<Rightarrow> int \<Rightarrow> int \<Rightarrow> (string \<Rightarrow> rate_limit)
   \<Rightarrow> RateLimitResult \<times> (string \<Rightarrow> rate_limit)" where
  "checkRateLimit env now key limit windowSeconds limiters =
     (if isYoloEnabled env then (YOLO_ALLOWED, limiters)
      else (let (r, s') = rl_check now limit windowSeconds (limiters key)
            in (r, limiters(key := s'))))"

section \<open>Behaviour within one window\<close>

fun rl_run :: "int \<Rightarrow> int \<Rightarrow> int list \<Rightarrow> rate_limit \<Rightarrow> RateLimitResult list \<times> rate_limit" where
  "rl_run limit w [] s = ([], s)"
| "rl_run limit w (t # ts) s =
     (let (r, s') = rl_check t limit w s; (rs, s'') = rl_run limit w ts s' in (r # rs, s''))"

text \<open>The state after \<open>k\<close> hits in the window opened at \<open>t0\<close>.\<close>

definition in_window :: "int \<Rightarrow> int \<Rightarrow> nat \<Rightarrow> rate_limit \<Rightarrow> bool" where
  "in_window limit t0 k s =
     (rl_windowStart s = Some t0 \<and> rl_count s = Some (min (int k) (limit + 1)))"

text \<open>The verdict of the hit with index \<open>k\<close> (from 0) of a window.\<close>

definition verdict :: "int \<Rightarrow> nat \<Rightarrow> RateLimitResult \<Rightarrow> bool" where
  "verdict limit k r =
     (rl_allowed r = (int k < limit) \<and> rl_firstDenied r = (int k = limit) \<and>
      rl_remaining r = max 0 (limit - (int k + 1)))"

lemma check_opens_window:
  assumes "now - (case rl_windowStart s of None \<Rightarrow> 0 | Some v \<Rightarrow> v) \<ge> w * 1000" and "0 \<le> limit"
  shows "verdict limit 0 (fst (rl_check now limit w s)) \<and>
    in_window limit now 1 (snd (rl_check now limit w s))"
  using assms by (auto simp: rl_check_def Let_def verdict_def in_window_def)

lemma check_in_window:
  assumes "in_window limit t0 (Suc k) s" and "t < t0 + w * 1000" and "0 \<le> limit"
  shows "verdict limit (Suc k) (fst (rl_check t limit w s)) \<and>
    in_window limit t0 (Suc (Suc k)) (snd (rl_check t limit w s))"
  using assms by (auto simp: rl_check_def Let_def verdict_def in_window_def min_def)

lemma run_in_window:
  assumes "in_window limit t0 (Suc k) s" and "\<forall>t\<in>set ts. t < t0 + w * 1000" and "0 \<le> limit"
  shows "\<forall>i < length ts. verdict limit (Suc k + i) (fst (rl_run limit w ts s) ! i)"
  using assms
proof (induction ts arbitrary: k s)
  case (Cons t ts)
  let ?c = "rl_check t limit w s"
  have c: "verdict limit (Suc k) (fst ?c)" "in_window limit t0 (Suc (Suc k)) (snd ?c)"
    using check_in_window [OF Cons.prems(1)] Cons.prems by auto
  have "\<forall>i < length ts. verdict limit (Suc (Suc k) + i) (fst (rl_run limit w ts (snd ?c)) ! i)"
    using Cons.IH [OF c(2)] Cons.prems by simp
  with c(1) show ?case
    by (auto simp: Let_def case_prod_unfold nth_Cons split: nat.split)
qed simp

lemma length_rl_run [simp]: "length (fst (rl_run limit w ts s)) = length ts"
  by (induction ts arbitrary: s) (auto simp: Let_def case_prod_unfold)

text \<open>A saturated limiter performs no write until its window ends.\<close>

lemma saturated_no_write:
  assumes "rl_windowStart s = Some t0" and "rl_count s = Some (limit + 1)"
    and "now < t0 + windowSeconds * 1000"
  shows "snd (rl_check now limit windowSeconds s) = s \<and> \<not> rl_allowed (fst (rl_check now limit windowSeconds s))
    \<and> \<not> rl_firstDenied (fst (rl_check now limit windowSeconds s))"
  using assms by (auto simp: rl_check_def Let_def)

text \<open>A denial tells the caller to wait for a positive time that ends with the window.\<close>

lemma ceil_seconds_bounds: "ceil_seconds x * 1000 \<ge> x \<and> ceil_seconds x * 1000 < x + 1000"
proof -
  have "1000 * ((- x) div 1000) + (- x) mod 1000 = - x" by (rule mult_div_mod_eq)
  moreover have "0 \<le> (- x) mod 1000" "(- x) mod 1000 < 1000" by simp_all
  ultimately show ?thesis unfolding ceil_seconds_def by linarith
qed

section \<open>Properties\<close>

text \<open>
  The limiter is exact within a window: of the hits that fall into the window opened by the
  first one, the hit with index \<open>i\<close> (from 0) is allowed if and only if \<open>i < limit\<close>, reports
  the remaining budget, and is flagged as the first denial if and only if \<open>i = limit\<close>, so that a
  window produces at most one audit record.
\<close>

theorem rate_limit_window_exact:
  assumes "0 \<le> limit" and "rl_windowStart s = None" and "w * 1000 \<le> t0"
    and "\<forall>t\<in>set ts. t < t0 + w * 1000" and "i < Suc (length ts)"
  shows "verdict limit i (fst (rl_run limit w (t0 # ts) s) ! i)"
proof -
  have o: "verdict limit 0 (fst (rl_check t0 limit w s))"
    "in_window limit t0 (Suc 0) (snd (rl_check t0 limit w s))"
    using check_opens_window [of w t0 s limit] assms by auto
  then show ?thesis
    using run_in_window [OF o(2) assms(4,1)] assms(5)
    by (cases i) (auto simp: Let_def case_prod_unfold)
qed

theorem rate_limit_window_exact_witness:
  "verdict 2 2 (fst (rl_run 2 60 [100000, 100001, 100002] rl_empty) ! 2)"
  using rate_limit_window_exact [of 2 rl_empty 60 100000 "[100001, 100002]" 2]
  by (simp add: rl_empty_def)

text \<open>
  A denial is honest about the wait: within a window a denied caller is told a positive
  number of seconds, and a hit that comes after that time is allowed again.
\<close>

theorem retry_after_suffices:
  assumes "1 \<le> limit" and "rl_check now limit w s = (r, s')" and "\<not> rl_allowed r"
    and "now' \<ge> now + rl_retryAfterSeconds r * 1000"
  shows "0 < rl_retryAfterSeconds r \<and> rl_allowed (fst (rl_check now' limit w s'))"
proof -
  obtain t0 where t0: "(case rl_windowStart s of None \<Rightarrow> 0 | Some v \<Rightarrow> v) = t0" by blast
  have inw: "now - t0 < w * 1000" and ra: "rl_retryAfterSeconds r = ceil_seconds (t0 + w * 1000 - now)"
    and ws: "rl_windowStart s' = rl_windowStart s"
    using assms(1-3) t0 by (auto simp: rl_check_def Let_def split: if_splits)
  have c: "ceil_seconds (t0 + w * 1000 - now) * 1000 \<ge> t0 + w * 1000 - now"
    using ceil_seconds_bounds by blast
  then have "0 < ceil_seconds (t0 + w * 1000 - now)" using inw by linarith
  moreover have "now' - t0 \<ge> w * 1000" using c assms(4) ra by linarith
  then have "rl_allowed (fst (rl_check now' limit w s'))"
    using assms(1) t0 by (simp add: rl_check_def Let_def ws)
  ultimately show ?thesis using ra by simp
qed

theorem retry_after_suffices_witness:
  "let s = \<lparr>rl_windowStart = Some 100000, rl_count = Some 2, rl_alarm = None\<rparr>;
       (r, s') = rl_check 100500 2 60 s
   in 0 < rl_retryAfterSeconds r \<and> rl_allowed (fst (rl_check 160000 2 60 s'))"
  using retry_after_suffices [of 2 100500 60 "\<lparr>rl_windowStart = Some 100000, rl_count = Some 2, rl_alarm = None\<rparr>",
      OF _ prod.collapse [symmetric], of 160000]
  by (simp add: rl_check_def Let_def ceil_seconds_def)

end
