(* ===== verification/Refresh_Family.thy ===== *)
theory Refresh_Family
  imports Capabilities Config
begin

text \<open>
  \<open>src/do/RefreshTokenFamilyDO.ts\<close>: the Durable Object that serializes the rotation of one
  refresh-token family. Its storage has the keys \<open>meta\<close>, \<open>currentHash\<close>, the legacy list
  \<open>usedHashes\<close> and one key \<open>used:<hash>\<close> per rotated hash (the set \<open>fam_used\<close>).
\<close>

section \<open>State and operations\<close>

record RefreshFamilyInit =
  fi_userId :: string
  fi_clientId :: string
  fi_resource :: string
  fi_scope :: string
  fi_authTime :: int
  fi_currentTokenHash :: string
  fi_absoluteExpiresAt :: int

text \<open>
  \<open>authTime\<close> and \<open>lastRotatedAt\<close> are optional in storage: the code reads families written
  before these fields existed (\<open>meta.authTime ?? meta.createdAt\<close>).
\<close>

record RefreshFamilyMeta =
  fm_userId :: string
  fm_clientId :: string
  fm_resource :: string
  fm_scope :: string
  fm_authTime :: "int option"
  fm_absoluteExpiresAt :: int
  fm_createdAt :: int
  fm_generation :: int
  fm_revoked :: bool
  fm_lastRotatedAt :: "int option"

record family =
  fam_meta :: "RefreshFamilyMeta option"
  fam_currentHash :: "string option"
  fam_usedHashes :: "string list option"
  fam_used :: "string set"
  fam_alarm :: "int option"

definition fam_empty :: family where
  "fam_empty = \<lparr>fam_meta = None, fam_currentHash = None, fam_usedHashes = None,
     fam_used = {}, fam_alarm = None\<rparr>"

datatype RotateResult =
    Rotated RefreshFamilyMeta
  | ReuseDetected RefreshFamilyMeta
  | TooSoon int
  | GenerationLimit RefreshFamilyMeta
  | Revoked
  | Expired
  | Invalid

definition fam_init :: "int \<Rightarrow> RefreshFamilyInit \<Rightarrow> family \<Rightarrow> family" where
  "fam_init now data s =
     (let meta = \<lparr>fm_userId = fi_userId data, fm_clientId = fi_clientId data,
            fm_resource = fi_resource data, fm_scope = fi_scope data,
            fm_authTime = Some (fi_authTime data),
            fm_absoluteExpiresAt = fi_absoluteExpiresAt data, fm_createdAt = now,
            fm_generation = 0, fm_revoked = False, fm_lastRotatedAt = Some now\<rparr>;
          s' = (if fam_meta s \<noteq> None then s
                else s\<lparr>fam_meta := Some meta,
                       fam_currentHash := Some (fi_currentTokenHash data)\<rparr>)
      in s'\<lparr>fam_alarm := Some (fi_absoluteExpiresAt data * 1000 + 60000)\<rparr>)"

definition fam_rotate ::
  "int \<Rightarrow> string \<Rightarrow> string \<Rightarrow> string \<Rightarrow> string \<Rightarrow> family \<Rightarrow> RotateResult \<times> family" where
  "fam_rotate now presentedHash newTokenHash expectedClientId nextScope s =
     (case (fam_meta s, fam_currentHash s) of
        (Some meta, Some currentHash) \<Rightarrow>
          if fm_clientId meta \<noteq> expectedClientId then (Invalid, s)
          else if fm_revoked meta then (Revoked, s)
          else if now > fm_absoluteExpiresAt meta then (Expired, s)
          else if presentedHash = currentHash then
            (if fm_generation meta \<ge> maximumGeneration REFRESH_TOKEN_POLICY then
               (let burned = meta\<lparr>fm_revoked := True\<rparr>
                in (GenerationLimit burned, s\<lparr>fam_meta := Some burned\<rparr>))
             else
               (let lastRotatedAt =
                      (case fm_lastRotatedAt meta of Some t \<Rightarrow> t | None \<Rightarrow> fm_createdAt meta);
                    elapsed = max 0 (now - lastRotatedAt)
                in if fm_generation meta > 0 \<and>
                      elapsed < minimumRotationIntervalSeconds REFRESH_TOKEN_POLICY
                   then (TooSoon (minimumRotationIntervalSeconds REFRESH_TOKEN_POLICY - elapsed), s)
                   else
                     (let nextMeta = meta\<lparr>
                            fm_authTime := Some (case fm_authTime meta of
                               Some t \<Rightarrow> t | None \<Rightarrow> fm_createdAt meta),
                            fm_scope := nextScope,
                            fm_generation := fm_generation meta + 1,
                            fm_lastRotatedAt := Some now\<rparr>
                      in (Rotated nextMeta,
                          s\<lparr>fam_meta := Some nextMeta, fam_currentHash := Some newTokenHash,
                            fam_used := insert currentHash (fam_used s)\<rparr>))))
          else
            (let reused = ((case fam_usedHashes s of None \<Rightarrow> False
                            | Some hs \<Rightarrow> presentedHash \<in> set hs)
                           \<or> presentedHash \<in> fam_used s)
             in if reused then
                  (let burned = meta\<lparr>fm_revoked := True\<rparr>
                   in (ReuseDetected burned, s\<lparr>fam_meta := Some burned\<rparr>))
                else (Invalid, s))
      | _ \<Rightarrow> (Invalid, s))"

definition fam_revoke :: "family \<Rightarrow> family" where
  "fam_revoke s =
     (case fam_meta s of
        None \<Rightarrow> s
      | Some meta \<Rightarrow> s\<lparr>fam_meta := Some (meta\<lparr>fm_revoked := True\<rparr>)\<rparr>)"

definition fam_getState :: "family \<Rightarrow> RefreshFamilyMeta option" where
  "fam_getState s = fam_meta s"

definition fam_alarm_fires :: "family \<Rightarrow> family" where
  "fam_alarm_fires s = fam_empty"

section \<open>The family as a state machine\<close>

datatype family_call =
    Init int RefreshFamilyInit
  | Rotate int string string string string
  | Revoke
  | GetState
  | AlarmFires

fun family_step :: "family_call \<Rightarrow> family \<Rightarrow> RefreshFamilyMeta option \<times> family" where
  "family_step (Init now data) s = (None, fam_init now data s)"
| "family_step (Rotate now presented new client scope) s =
     (case fam_rotate now presented new client scope s of
        (Rotated meta, s') \<Rightarrow> (Some meta, s') | (_, s') \<Rightarrow> (None, s'))"
| "family_step Revoke s = (None, fam_revoke s)"
| "family_step GetState s = (None, s)"
| "family_step AlarmFires s = (None, fam_alarm_fires s)"

inductive fam_reachable :: "family \<Rightarrow> bool" where
  fresh: "fam_reachable fam_empty"
| call: "fam_reachable s \<Longrightarrow> fam_reachable (snd (family_step c s))"

text \<open>The calls a family sees after its creation: no second \<open>init\<close>.\<close>

fun no_init :: "family_call \<Rightarrow> bool" where
  "no_init (Init _ _) = False"
| "no_init _ = True"

fun after_creation :: "family_call \<Rightarrow> family \<Rightarrow> RefreshFamilyMeta option \<times> family" where
  "after_creation c s = (if no_init c then family_step c s else (None, s))"

definition fam_dead :: "family \<Rightarrow> bool" where
  "fam_dead s = (case fam_meta s of None \<Rightarrow> True | Some m \<Rightarrow> fm_revoked m)"

section \<open>Case analysis of a rotation\<close>

lemma rotate_Rotated:
  assumes "fam_rotate now h nh cl sc s = (Rotated m', s')"
  obtains m where "fam_meta s = Some m" "fam_currentHash s = Some h" "fm_clientId m = cl"
    "\<not> fm_revoked m" "now \<le> fm_absoluteExpiresAt m" "fm_generation m < 10000"
    "fm_generation m > 0 \<longrightarrow>
       now - (case fm_lastRotatedAt m of Some t \<Rightarrow> t | None \<Rightarrow> fm_createdAt m) \<ge> 10"
    "m' = m\<lparr>fm_authTime := Some (case fm_authTime m of Some t \<Rightarrow> t | None \<Rightarrow> fm_createdAt m),
        fm_scope := sc, fm_generation := fm_generation m + 1, fm_lastRotatedAt := Some now\<rparr>"
    "s' = s\<lparr>fam_meta := Some m', fam_currentHash := Some nh, fam_used := insert h (fam_used s)\<rparr>"
  using assms
  by (auto simp: fam_rotate_def Let_def policy_simps not_less max_def
      split: option.splits if_splits intro!: that)

lemma rotate_not_Rotated:
  assumes "fam_rotate now h nh cl sc s = (r, s')" and "\<forall>m. r \<noteq> Rotated m"
  shows "s' = s \<or> (\<exists>m. fam_meta s = Some m \<and> s' = s\<lparr>fam_meta := Some (m\<lparr>fm_revoked := True\<rparr>)\<rparr>)"
  using assms
  by (auto simp: fam_rotate_def Let_def split: option.splits if_splits)

lemma rotate_dead: "fam_dead s \<Longrightarrow>
    snd (fam_rotate now h nh cl sc s) = s \<and> (\<forall>m. fst (fam_rotate now h nh cl sc s) \<noteq> Rotated m)"
  by (auto simp: fam_rotate_def fam_dead_def split: option.splits)

lemma fam_dead_simps [simp]:
  "fam_dead fam_empty" "fam_dead (fam_revoke s)"
  by (auto simp: fam_dead_def fam_empty_def fam_revoke_def split: option.splits)

lemma fam_revoke_dead: "fam_dead s \<Longrightarrow> fam_dead (fam_revoke s)"
  by simp

text \<open>A revoked or erased family never rotates again: the contract of revocation.\<close>

interpretation fam: mortal after_creation fam_dead
proof (unfold_locales, goal_cases)
  case (1 s i)
  then show ?case
    by (cases i) (auto split: prod.splits RotateResult.splits dest: rotate_dead,
        metis fst_conv rotate_dead)
next
  case (2 s i)
  then show ?case
    by (cases i) (auto split: prod.splits RotateResult.splits simp: fam_alarm_fires_def,
        (metis snd_conv rotate_dead)+)
qed

section \<open>When a rotation is granted\<close>

definition last_rotation :: "RefreshFamilyMeta \<Rightarrow> int" where
  "last_rotation m = (case fm_lastRotatedAt m of Some t \<Rightarrow> t | None \<Rightarrow> fm_createdAt m)"

lemma last_rotation_revoked [simp]: "last_rotation (m\<lparr>fm_revoked := r\<rparr>) = last_rotation m"
  by (simp add: last_rotation_def split: option.split)

lemma rotate_granted_iff:
  "(\<exists>m'. fst (fam_rotate now h nh cl sc s) = Rotated m') \<longleftrightarrow>
     (\<exists>m. fam_meta s = Some m \<and> fam_currentHash s = Some h \<and> fm_clientId m = cl \<and>
        \<not> fm_revoked m \<and> now \<le> fm_absoluteExpiresAt m \<and> fm_generation m < 10000 \<and>
        (fm_generation m > 0 \<longrightarrow> now \<ge> last_rotation m + 10))"
  by (auto simp: fam_rotate_def Let_def policy_simps last_rotation_def
      split: option.splits if_splits)

section \<open>Invariant of reachable families\<close>

definition fam_inv :: "family \<Rightarrow> bool" where
  "fam_inv s =
     ((fam_meta s = None \<longleftrightarrow> fam_currentHash s = None) \<and> fam_usedHashes s = None \<and>
      finite (fam_used s) \<and>
      (case fam_meta s of
         None \<Rightarrow> fam_used s = {}
       | Some m \<Rightarrow> fm_authTime m \<noteq> None \<and> fm_lastRotatedAt m \<noteq> None \<and>
           int (card (fam_used s)) \<le> fm_generation m \<and> fm_generation m \<le> 10000))"

lemma fam_inv_empty [simp]: "fam_inv fam_empty"
  by (simp add: fam_inv_def fam_empty_def)

lemma fam_inv_init: "fam_inv s \<Longrightarrow> fam_inv (fam_init now data s)"
  by (auto simp: fam_inv_def fam_init_def Let_def)

lemma fam_inv_burn:
  "fam_inv s \<Longrightarrow> fam_meta s = Some m \<Longrightarrow> fam_inv (s\<lparr>fam_meta := Some (m\<lparr>fm_revoked := r\<rparr>)\<rparr>)"
  by (auto simp: fam_inv_def)

lemma fam_inv_revoke: "fam_inv s \<Longrightarrow> fam_inv (fam_revoke s)"
  by (auto simp: fam_revoke_def fam_inv_burn split: option.splits)

lemma fam_inv_rotate:
  assumes "fam_inv s"
  shows "fam_inv (snd (fam_rotate now h nh cl sc s))"
proof (cases "\<exists>m'. fst (fam_rotate now h nh cl sc s) = Rotated m'")
  case True
  then obtain m' s' where r: "fam_rotate now h nh cl sc s = (Rotated m', s')"
    by (metis prod.collapse)
  then show ?thesis
  proof (rule rotate_Rotated)
    fix m
    assume m: "fam_meta s = Some m" "fm_generation m < 10000"
      and m': "m' = m\<lparr>fm_authTime := Some (case fm_authTime m of Some t \<Rightarrow> t | None \<Rightarrow> fm_createdAt m),
        fm_scope := sc, fm_generation := fm_generation m + 1, fm_lastRotatedAt := Some now\<rparr>"
      and s': "s' = s\<lparr>fam_meta := Some m', fam_currentHash := Some nh,
        fam_used := insert h (fam_used s)\<rparr>"
    have "int (card (insert h (fam_used s))) \<le> fm_generation m + 1"
      using assms m by (auto simp: fam_inv_def card_insert_if)
    with assms m m' s' r show ?thesis by (auto simp: fam_inv_def)
  qed
next
  case False
  then have "\<forall>m. fst (fam_rotate now h nh cl sc s) \<noteq> Rotated m" by blast
  then show ?thesis
    using rotate_not_Rotated [of now h nh cl sc s] assms fam_inv_burn
    by (metis prod.collapse)
qed

lemma family_step_Rotate [simp]:
  "snd (family_step (Rotate now h nh cl sc) s) = snd (fam_rotate now h nh cl sc s)"
  by (auto split: prod.splits RotateResult.splits)

lemma fam_inv_step: "fam_inv s \<Longrightarrow> fam_inv (snd (family_step c s))"
proof (cases c)
  case (Rotate now h nh cl sc)
  assume "fam_inv s"
  then show ?thesis unfolding Rotate family_step_Rotate by (rule fam_inv_rotate)
qed (auto simp: fam_inv_init fam_inv_revoke fam_alarm_fires_def)

lemma fam_reachable_inv: "fam_reachable s \<Longrightarrow> fam_inv s"
  by (induction rule: fam_reachable.induct) (auto intro: fam_inv_step simp del: family_step.simps)

section \<open>Reuse detection\<close>

text \<open>Calls that neither erase the family nor install the hash \<open>h\<close> again.\<close>

fun keeps_used :: "string \<Rightarrow> family_call \<Rightarrow> bool" where
  "keeps_used h (Init _ _) = False"
| "keeps_used h (Rotate _ _ nh _ _) = (nh \<noteq> h)"
| "keeps_used h AlarmFires = False"
| "keeps_used h _ = True"

definition rotated_out :: "string \<Rightarrow> family \<Rightarrow> bool" where
  "rotated_out h s = (h \<in> fam_used s \<and> fam_currentHash s \<noteq> Some h)"

lemma rotated_out_step:
  assumes "rotated_out h s" and "keeps_used h c"
  shows "rotated_out h (snd (family_step c s))"
proof (cases c)
  case (Rotate now p nh cl sc)
  obtain r s' where r: "fam_rotate now p nh cl sc s = (r, s')" by fastforce
  have "rotated_out h s'"
  proof (cases "\<exists>m. r = Rotated m")
    case True
    with r obtain m where "fam_rotate now p nh cl sc s = (Rotated m, s')" by blast
    then show ?thesis
      by (rule rotate_Rotated) (use assms Rotate in \<open>auto simp: rotated_out_def\<close>)
  next
    case False
    with rotate_not_Rotated [OF r] assms show ?thesis by (auto simp: rotated_out_def)
  qed
  then show ?thesis unfolding Rotate family_step_Rotate r by simp
qed (use assms in \<open>auto simp: rotated_out_def fam_revoke_def split: option.splits\<close>)

lemma rotated_out_run:
  assumes "rotated_out h s" and "\<forall>c\<in>set cs. keeps_used h c"
  shows "rotated_out h (snd (run family_step cs s))"
  using assms by (intro run_invariant [where I = "rotated_out h"]) (auto intro: rotated_out_step)

lemma rotate_rotated_out:
  assumes "fam_rotate now h nh cl sc s = (Rotated m, s')" and "nh \<noteq> h"
  shows "rotated_out h s'"
  using assms by (auto simp: rotated_out_def elim!: rotate_Rotated)

lemma rotate_presenting_rotated_out:
  assumes "rotated_out h s" and "fam_rotate now h nh cl sc s = (r, s')"
  shows "(\<exists>m. r = ReuseDetected m \<and> fam_dead s') \<or> (r = Revoked \<and> fam_dead s') \<or>
     (r = Expired \<and> (\<exists>m. fam_meta s = Some m \<and> now > fm_absoluteExpiresAt m)) \<or>
     (r = Invalid \<and> (\<forall>m. fam_meta s = Some m \<longrightarrow> fm_clientId m \<noteq> cl \<or> fam_currentHash s = None))"
  using assms
  by (auto simp: fam_rotate_def rotated_out_def fam_dead_def Let_def split: option.splits if_splits)

section \<open>Rotations are spaced\<close>

fun call_time :: "family_call \<Rightarrow> int option" where
  "call_time (Init now _) = Some now"
| "call_time (Rotate now _ _ _ _) = Some now"
| "call_time _ = None"

text \<open>The clock never runs backwards between the calls.\<close>

fun clock_monotone :: "int \<Rightarrow> family_call list \<Rightarrow> bool" where
  "clock_monotone t [] = True"
| "clock_monotone t (c # cs) =
     (case call_time c of
        None \<Rightarrow> clock_monotone t cs
      | Some now \<Rightarrow> t \<le> now \<and> clock_monotone now cs)"

definition spaced :: "int \<Rightarrow> family \<Rightarrow> bool" where
  "spaced t s =
     (case fam_meta s of
        None \<Rightarrow> True
      | Some m \<Rightarrow> 0 \<le> fm_generation m \<and> fm_createdAt m \<le> last_rotation m \<and> last_rotation m \<le> t \<and>
          10 * (fm_generation m - 1) \<le> last_rotation m - fm_createdAt m)"

lemma spaced_mono: "spaced t s \<Longrightarrow> t \<le> t' \<Longrightarrow> spaced t' s"
  by (auto simp: spaced_def split: option.splits)

lemma spaced_rotate:
  assumes "spaced t s" and "t \<le> now"
  shows "spaced now (snd (fam_rotate now h nh cl sc s))"
proof (cases "\<exists>m'. fst (fam_rotate now h nh cl sc s) = Rotated m'")
  case True
  then obtain m' s' where r: "fam_rotate now h nh cl sc s = (Rotated m', s')"
    by (metis prod.collapse)
  then show ?thesis
    by (rule rotate_Rotated)
      (use assms r in \<open>auto simp: spaced_def last_rotation_def split: option.splits\<close>)
next
  case False
  then have "\<forall>m. fst (fam_rotate now h nh cl sc s) \<noteq> Rotated m" by blast
  with rotate_not_Rotated [of now h nh cl sc s]
  have "snd (fam_rotate now h nh cl sc s) = s \<or> (\<exists>m. fam_meta s = Some m \<and>
      snd (fam_rotate now h nh cl sc s) = s\<lparr>fam_meta := Some (m\<lparr>fm_revoked := True\<rparr>)\<rparr>)"
    by (metis prod.collapse)
  with spaced_mono [OF assms] show ?thesis
    by (auto simp: spaced_def)
qed

lemma spaced_step:
  assumes "spaced t s"
  shows "case call_time c of None \<Rightarrow> spaced t (snd (family_step c s))
     | Some now \<Rightarrow> t \<le> now \<longrightarrow> spaced now (snd (family_step c s))"
proof (cases c)
  case (Rotate now h nh cl sc)
  then show ?thesis using assms spaced_rotate by (simp del: family_step.simps add: Rotate)
next
  case (Init now data)
  have "t \<le> now \<Longrightarrow> spaced now s" using assms spaced_mono by blast
  then show ?thesis
    by (auto simp: Init fam_init_def Let_def spaced_def last_rotation_def split: option.splits)
qed (use assms in \<open>auto simp: spaced_def fam_revoke_def fam_alarm_fires_def
      fam_empty_def split: option.splits\<close>)

fun last_time :: "int \<Rightarrow> family_call list \<Rightarrow> int" where
  "last_time t [] = t"
| "last_time t (c # cs) = last_time (case call_time c of None \<Rightarrow> t | Some now \<Rightarrow> now) cs"

lemma spaced_run:
  assumes "spaced t s" and "clock_monotone t cs"
  shows "spaced (last_time t cs) (snd (run family_step cs s))"
  using assms
proof (induction cs arbitrary: t s)
  case (Cons c cs)
  let ?t = "case call_time c of None \<Rightarrow> t | Some now \<Rightarrow> now"
  have "spaced ?t (snd (family_step c s))" "clock_monotone ?t cs"
    using spaced_step [OF Cons.prems(1), of c] Cons.prems(2) by (auto split: option.splits)
  then show ?case using Cons.IH by (simp add: Let_def case_prod_unfold del: family_step.simps)
qed simp

section \<open>Properties\<close>

text \<open>
  Revocation is final: a family that is revoked (by \<open>revoke\<close>, by reuse detection, at the
  generation limit) or erased never rotates again, over every sequence of later calls.
\<close>

theorem revoked_family_never_rotates:
  assumes "fam_dead s"
  shows "grants (fst (run after_creation calls s)) = []"
  using fam.dead_run [OF assms] by blast

theorem revoked_family_never_rotates_witness:
  "grants (fst (run after_creation [Rotate 1 ''h'' ''n'' ''c'' ''s''] (fam_revoke fam_empty))) = []"
  by (rule revoked_family_never_rotates) simp

text \<open>
  C6. Reuse detection never misses: once the token hash \<open>h\<close> has been rotated out, presenting it
  again after any sequence of other calls (none of which installs \<open>h\<close> anew or erases the
  family) never rotates; from the family's own client within the family's lifetime it leaves
  the family dead.
\<close>

theorem replayed_hash_never_rotates:
  assumes "fam_rotate now h nh cl sc s = (Rotated m, s')" and "nh \<noteq> h"
    and "\<forall>c\<in>set calls. keeps_used h c"
    and "snd (run family_step calls s') = s''"
    and "fam_rotate now' h nh' cl' sc' s'' = (r, s3)"
  shows "(\<nexists>m'. r = Rotated m') \<and>
    (\<forall>m''. fam_meta s'' = Some m'' \<and> fam_currentHash s'' \<noteq> None \<and> fm_clientId m'' = cl' \<and>
       now' \<le> fm_absoluteExpiresAt m'' \<longrightarrow> fam_dead s3)"
proof -
  have "rotated_out h s''"
    using rotated_out_run [OF rotate_rotated_out [OF assms(1,2)] assms(3)] assms(4) by simp
  from rotate_presenting_rotated_out [OF this assms(5)] show ?thesis by auto
qed

theorem replayed_hash_never_rotates_witness:
  "let s = fam_init 0 \<lparr>fi_userId = ''u'', fi_clientId = ''c'', fi_resource = ''r'', fi_scope = ''s'',
           fi_authTime = 0, fi_currentTokenHash = ''h'', fi_absoluteExpiresAt = 100\<rparr> fam_empty;
       s' = snd (fam_rotate 1 ''h'' ''n'' ''c'' ''s'' s)
   in \<nexists>m. fst (fam_rotate 2 ''h'' ''n2'' ''c'' ''s'' s') = Rotated m"
proof -
  let ?s = "fam_init 0 \<lparr>fi_userId = ''u'', fi_clientId = ''c'', fi_resource = ''r'', fi_scope = ''s'',
           fi_authTime = 0, fi_currentTokenHash = ''h'', fi_absoluteExpiresAt = 100\<rparr> fam_empty"
  obtain m s' where r: "fam_rotate 1 ''h'' ''n'' ''c'' ''s'' ?s = (Rotated m, s')"
    by (simp add: fam_init_def fam_empty_def fam_rotate_def Let_def policy_simps)
  from replayed_hash_never_rotates [OF r _ _ _ prod.collapse [symmetric], of "[]" s' 2 "''n2''" "''c''" "''s''"] r
  show ?thesis by (simp add: Let_def)
qed

text \<open>
  Invariant of every reachable family: the metadata and the current hash exist together, the
  number of remembered hashes never exceeds the generation, and the generation never exceeds
  10000, which bounds the storage of a family.
\<close>

theorem family_storage_bounded:
  assumes "fam_reachable s"
  shows "(fam_meta s = None \<longleftrightarrow> fam_currentHash s = None) \<and> finite (fam_used s) \<and> card (fam_used s) \<le> 10000 \<and>
    (\<forall>m. fam_meta s = Some m \<longrightarrow> int (card (fam_used s)) \<le> fm_generation m \<and> fm_generation m \<le> 10000)"
  using fam_reachable_inv [OF assms] by (auto simp: fam_inv_def split: option.splits)

theorem family_storage_bounded_witness: "finite (fam_used fam_empty) \<and> card (fam_used fam_empty) \<le> 10000"
  using family_storage_bounded [OF fam_reachable.fresh] by blast

text \<open>
  Rotations are rate limited: with a clock that does not run backwards, a family created at
  \<open>t\<close> has performed at most one rotation plus one per ten seconds since its creation, over
  every sequence of calls.
\<close>

theorem rotations_spaced:
  assumes "clock_monotone t calls" and "fam_meta (snd (run family_step calls fam_empty)) = Some m"
  shows "10 * (fm_generation m - 1) \<le> last_time t calls - fm_createdAt m"
proof -
  have "spaced t fam_empty" by (simp add: spaced_def fam_empty_def)
  from spaced_run [OF this assms(1)] assms(2) show ?thesis by (auto simp: spaced_def)
qed

theorem rotations_spaced_witness:
  "let calls = [Init 0 \<lparr>fi_userId = ''u'', fi_clientId = ''c'', fi_resource = ''r'', fi_scope = ''s'',
           fi_authTime = 0, fi_currentTokenHash = ''h'', fi_absoluteExpiresAt = 100\<rparr>,
         Rotate 1 ''h'' ''n'' ''c'' ''s'']
   in \<exists>m. fam_meta (snd (run family_step calls fam_empty)) = Some m \<and>
        10 * (fm_generation m - 1) \<le> last_time 0 calls - fm_createdAt m"
proof -
  let ?calls = "[Init 0 \<lparr>fi_userId = ''u'', fi_clientId = ''c'', fi_resource = ''r'', fi_scope = ''s'',
           fi_authTime = 0, fi_currentTokenHash = ''h'', fi_absoluteExpiresAt = 100\<rparr>,
         Rotate 1 ''h'' ''n'' ''c'' ''s'']"
  obtain m where m: "fam_meta (snd (run family_step ?calls fam_empty)) = Some m"
    by (simp add: fam_init_def fam_empty_def fam_rotate_def Let_def policy_simps)
  from rotations_spaced [OF _ m, of 0] m show ?thesis by simp
qed

end
