(* ===== verification/Audit_Trail.thy ===== *)
theory Audit_Trail
  imports Json
begin

text \<open>
  \<open>src/security/audit-sanitize.ts\<close> and \<open>src/security/audit.ts\<close>: the bounded audit trail. The
  sanitizer turns application metadata into bounded JSON before it is queued; the queue
  consumer validates every message against the same bounds and rejects a whole batch when one
  message breaks them. Metadata are JSON trees, so the cycle check of the sources never fires.
  The queue and the \<open>audit_logs\<close> table are the two fields of \<open>audit_state\<close>.
\<close>

section \<open>audit-sanitize.ts: strings\<close>

definition AUDIT_DETAIL_MAX_BYTES :: nat where "AUDIT_DETAIL_MAX_BYTES = 1024"
definition AUDIT_METADATA_MAX_BYTES :: nat where "AUDIT_METADATA_MAX_BYTES = 4096"
definition AUDIT_METADATA_MAX_KEYS :: nat where "AUDIT_METADATA_MAX_KEYS = 32"
definition AUDIT_METADATA_KEY_MAX_BYTES :: nat where "AUDIT_METADATA_KEY_MAX_BYTES = 64"
definition AUDIT_METADATA_MAX_DEPTH :: nat where "AUDIT_METADATA_MAX_DEPTH = 4"
definition AUDIT_METADATA_MAX_ARRAY_ITEMS :: nat where "AUDIT_METADATA_MAX_ARRAY_ITEMS = 32"
definition AUDIT_METADATA_STRING_MAX_BYTES :: nat where "AUDIT_METADATA_STRING_MAX_BYTES = 512"
definition AUDIT_METADATA_MAX_NODES :: nat where "AUDIT_METADATA_MAX_NODES = 256"

lemmas audit_bounds = AUDIT_DETAIL_MAX_BYTES_def AUDIT_METADATA_MAX_BYTES_def
  AUDIT_METADATA_MAX_KEYS_def AUDIT_METADATA_KEY_MAX_BYTES_def AUDIT_METADATA_MAX_DEPTH_def
  AUDIT_METADATA_MAX_ARRAY_ITEMS_def AUDIT_METADATA_STRING_MAX_BYTES_def
  AUDIT_METADATA_MAX_NODES_def

definition FORBIDDEN_METADATA_KEYS :: "string list" where
  "FORBIDDEN_METADATA_KEYS = [''__proto__'', ''prototype'', ''constructor'']"

text \<open>The loop of \<open>truncateUtf8\<close>: whole characters while the budget lasts.\<close>

fun take_utf8 :: "string \<Rightarrow> nat \<Rightarrow> nat \<Rightarrow> string" where
  "take_utf8 [] bytes maximumBytes = []"
| "take_utf8 (c # cs) bytes maximumBytes =
     (if bytes + utf8_char_length c > maximumBytes then []
      else c # take_utf8 cs (bytes + utf8_char_length c) maximumBytes)"

definition truncateUtf8 :: "string \<Rightarrow> nat \<Rightarrow> string" where
  "truncateUtf8 value maximumBytes =
     (if utf8_length value \<le> maximumBytes then value else take_utf8 value 0 maximumBytes)"

definition sanitizeAuditDetail :: "string option \<Rightarrow> string option" where
  "sanitizeAuditDetail detail = map_option (\<lambda>d. truncateUtf8 d AUDIT_DETAIL_MAX_BYTES) detail"

definition isBoundedAuditDetail :: "string \<Rightarrow> bool" where
  "isBoundedAuditDetail value = (utf8_length value \<le> AUDIT_DETAIL_MAX_BYTES)"

section \<open>audit-sanitize.ts: metadata\<close>

record sanitize_state =
  st_nodesRemaining :: nat
  st_truncated :: bool

abbreviation mark :: "bool \<Rightarrow> sanitize_state \<Rightarrow> sanitize_state" where
  "mark b st \<equiv> st\<lparr>st_truncated := st_truncated st \<or> b\<rparr>"

text \<open>
  \<open>sanitizeItems\<close> is the \<open>map\<close> over the first 32 items of an array, \<open>sanitizeEntries\<close> the loop
  over the first 32 entries of an object, with the result object built so far.
\<close>

function (sequential)
  sanitizeValue :: "json \<Rightarrow> nat \<Rightarrow> sanitize_state \<Rightarrow> json \<times> sanitize_state" and
  sanitizeItems :: "json list \<Rightarrow> nat \<Rightarrow> sanitize_state \<Rightarrow> json list \<times> sanitize_state" and
  sanitizeEntries :: "(string \<times> json) list \<Rightarrow> (string \<times> json) list \<Rightarrow> nat \<Rightarrow> sanitize_state
    \<Rightarrow> (string \<times> json) list \<times> sanitize_state"
where
  "sanitizeValue JNull depth st = (JNull, st)"
| "sanitizeValue (JStr value) depth st =
     (let sanitized = truncateUtf8 value AUDIT_METADATA_STRING_MAX_BYTES
      in (JStr sanitized, mark (sanitized \<noteq> value) st))"
| "sanitizeValue (JBool b) depth st = (JBool b, st)"
| "sanitizeValue (JNum i) depth st = (JNum i, st)"
| "sanitizeValue (JArr items) depth st =
     (if depth \<ge> AUDIT_METADATA_MAX_DEPTH then (JStr ''[max_depth]'', mark True st)
      else if st_nodesRemaining st \<le> 0 then (JStr ''[truncated]'', mark True st)
      else let st' = mark (length items > AUDIT_METADATA_MAX_ARRAY_ITEMS)
                       (st\<lparr>st_nodesRemaining := st_nodesRemaining st - 1\<rparr>);
               (result, st'') = sanitizeItems (take AUDIT_METADATA_MAX_ARRAY_ITEMS items) (depth + 1) st'
           in (JArr result, st''))"
| "sanitizeValue (JObj entries) depth st =
     (if depth \<ge> AUDIT_METADATA_MAX_DEPTH then (JStr ''[max_depth]'', mark True st)
      else if st_nodesRemaining st \<le> 0 then (JStr ''[truncated]'', mark True st)
      else let st' = mark (length entries > AUDIT_METADATA_MAX_KEYS)
                       (st\<lparr>st_nodesRemaining := st_nodesRemaining st - 1\<rparr>);
               (result, st'') = sanitizeEntries (take AUDIT_METADATA_MAX_KEYS entries) [] (depth + 1) st'
           in (JObj result, st''))"
| "sanitizeItems [] depth st = ([], st)"
| "sanitizeItems (item # items) depth st =
     (let (v, st') = sanitizeValue item depth st; (vs, st'') = sanitizeItems items depth st'
      in (v # vs, st''))"
| "sanitizeEntries [] result depth st = (result, st)"
| "sanitizeEntries ((rawKey, item) # entries) result depth st =
     (let key = truncateUtf8 rawKey AUDIT_METADATA_KEY_MAX_BYTES;
          skip = (key = [] \<or> key \<in> set FORBIDDEN_METADATA_KEYS \<or> key \<in> set (map fst result));
          st' = mark (key \<noteq> rawKey \<or> skip) st
      in if skip then sanitizeEntries entries result depth st'
         else let (v, st'') = sanitizeValue item depth st'
              in sanitizeEntries entries (jset key v result) depth st'')"
  by pat_completeness auto
termination
  by (relation "measures
      [\<lambda>x. case x of Inl (_, d, _) \<Rightarrow> 5 - d | Inr (Inl (_, d, _)) \<Rightarrow> 5 - d
           | Inr (Inr (_, _, d, _)) \<Rightarrow> 5 - d,
       \<lambda>x. case x of Inl _ \<Rightarrow> 0 | Inr (Inl (xs, _)) \<Rightarrow> Suc (length xs)
           | Inr (Inr (es, _)) \<Rightarrow> Suc (length es)]")
    (auto simp: audit_bounds)

definition serializedLength :: "json \<Rightarrow> nat" where
  "serializedLength value = utf8_length (json_stringify value)"

text \<open>The loop that keeps an entry when the object still fits.\<close>

fun bound_entries ::
  "(string \<times> json) list \<Rightarrow> (string \<times> json) list \<Rightarrow> bool \<Rightarrow> (string \<times> json) list \<times> bool" where
  "bound_entries [] bounded truncated = (bounded, truncated)"
| "bound_entries ((key, value) # entries) bounded truncated =
     (if serializedLength (JObj (jset key value bounded)) \<le> AUDIT_METADATA_MAX_BYTES
      then bound_entries entries (jset key value bounded) truncated
      else bound_entries entries bounded True)"

text \<open>The loop that drops the last key until the marker fits.\<close>

function drop_last_keys :: "(string \<times> json) list \<Rightarrow> (string \<times> json) list" where
  "drop_last_keys bounded =
     (if length bounded \<ge> AUDIT_METADATA_MAX_KEYS \<or>
         serializedLength (JObj (jset ''_truncated'' (JBool True) bounded)) > AUDIT_METADATA_MAX_BYTES
      then if bounded = [] then bounded else drop_last_keys (butlast bounded)
      else bounded)"
  by pat_completeness auto
termination
  by (relation "measure length") auto

declare drop_last_keys.simps [simp del]

definition sanitizeAuditMetadata :: "json option \<Rightarrow> json option" where
  "sanitizeAuditMetadata metadata =
     (case metadata of
        None \<Rightarrow> None
      | Some JNull \<Rightarrow> Some JNull
      | Some m \<Rightarrow>
          (case sanitizeValue m 0 \<lparr>st_nodesRemaining = AUDIT_METADATA_MAX_NODES, st_truncated = False\<rparr> of
             (JObj sanitized, st) \<Rightarrow>
               (let (bounded, truncated) = bound_entries sanitized [] (st_truncated st)
                in Some (JObj (if truncated
                               then jset ''_truncated'' (JBool True) (drop_last_keys bounded)
                               else bounded)))
           | _ \<Rightarrow> Some (JObj [(''_truncated'', JBool True)])))"

function (sequential)
  isBoundedValue :: "json \<Rightarrow> nat \<Rightarrow> nat \<Rightarrow> bool \<times> nat" and
  isBoundedItems :: "json list \<Rightarrow> nat \<Rightarrow> nat \<Rightarrow> bool \<times> nat" and
  isBoundedEntries :: "(string \<times> json) list \<Rightarrow> nat \<Rightarrow> nat \<Rightarrow> bool \<times> nat"
where
  "isBoundedValue JNull depth nodes = (True, nodes)"
| "isBoundedValue (JBool b) depth nodes = (True, nodes)"
| "isBoundedValue (JStr s) depth nodes = (utf8_length s \<le> AUDIT_METADATA_STRING_MAX_BYTES, nodes)"
| "isBoundedValue (JNum i) depth nodes = (True, nodes)"
| "isBoundedValue (JArr items) depth nodes =
     (if depth \<ge> AUDIT_METADATA_MAX_DEPTH then (False, nodes)
      else if nodes + 1 > AUDIT_METADATA_MAX_NODES then (False, nodes + 1)
      else if length items > AUDIT_METADATA_MAX_ARRAY_ITEMS then (False, nodes + 1)
      else isBoundedItems items (depth + 1) (nodes + 1))"
| "isBoundedValue (JObj entries) depth nodes =
     (if depth \<ge> AUDIT_METADATA_MAX_DEPTH then (False, nodes)
      else if nodes + 1 > AUDIT_METADATA_MAX_NODES then (False, nodes + 1)
      else if length entries > AUDIT_METADATA_MAX_KEYS then (False, nodes + 1)
      else isBoundedEntries entries (depth + 1) (nodes + 1))"
| "isBoundedItems [] depth nodes = (True, nodes)"
| "isBoundedItems (item # items) depth nodes =
     (let (valid, nodes') = isBoundedValue item depth nodes
      in if valid then isBoundedItems items depth nodes' else (False, nodes'))"
| "isBoundedEntries [] depth nodes = (True, nodes)"
| "isBoundedEntries ((key, item) # entries) depth nodes =
     (if key = [] \<or> key \<in> set FORBIDDEN_METADATA_KEYS \<or>
         utf8_length key > AUDIT_METADATA_KEY_MAX_BYTES
      then (False, nodes)
      else let (valid, nodes') = isBoundedValue item depth nodes
           in if valid then isBoundedEntries entries depth nodes' else (False, nodes'))"
  by pat_completeness auto
termination
  by (relation "measures
      [\<lambda>x. case x of Inl (_, d, _) \<Rightarrow> 5 - d | Inr (Inl (_, d, _)) \<Rightarrow> 5 - d
           | Inr (Inr (_, d, _)) \<Rightarrow> 5 - d,
       \<lambda>x. case x of Inl _ \<Rightarrow> 0 | Inr (Inl (xs, _)) \<Rightarrow> Suc (length xs)
           | Inr (Inr (es, _)) \<Rightarrow> Suc (length es)]")
    (auto simp: audit_bounds)

definition isBoundedAuditMetadata :: "json \<Rightarrow> bool" where
  "isBoundedAuditMetadata value =
     (case value of
        JObj entries \<Rightarrow> serializedLength value \<le> AUDIT_METADATA_MAX_BYTES \<and>
                        fst (isBoundedValue value 0 0)
      | _ \<Rightarrow> False)"

section \<open>audit.ts\<close>

definition AUDIT_EVENTS :: "string list" where
  "AUDIT_EVENTS = [
    ''user.created'', ''user.login.password.success'', ''user.login.password.failure'',
    ''user.login.magic_link.requested'', ''user.login.magic_link.consumed'',
    ''user.login.passkey.success'', ''user.login.passkey.failure'',
    ''user.password.reset.requested'', ''user.password.reset.completed'',
    ''user.password.changed'', ''user.email.verification.requested'', ''user.email.verified'',
    ''user.email.change.requested'', ''user.email.changed'', ''user.profile.updated'',
    ''user.passkey.updated'', ''user.group_membership.requested'',
    ''user.group_membership.request_cancelled'', ''user.deleted'', ''user.logout'',
    ''oauth.authorize.started'', ''oauth.authorize.completed'', ''oauth.authorize.denied'',
    ''oauth.token.issued'', ''oauth.refresh.used'', ''oauth.refresh.reused'',
    ''oauth.token.revoked'', ''oauth.device.started'', ''oauth.device.approved'',
    ''oauth.device.denied'', ''oauth.device.pending'', ''oauth.device.slow_down'',
    ''oauth.device.consumed'', ''oauth.device.expired'', ''oauth.client_credentials.issued'',
    ''oauth.client_credentials.denied'', ''oauth.introspection.completed'',
    ''admin.client.created'', ''admin.client.updated'', ''admin.client.secret_rotated'',
    ''admin.client.disabled'', ''admin.client.enabled'', ''admin.client.deleted'',
    ''admin.metadata_client.approved'', ''admin.metadata_client.approval_revoked'',
    ''admin.user.updated'', ''admin.user.created'', ''admin.user.magic_link.generated'',
    ''admin.user.password_added'', ''admin.user.password_deleted'',
    ''admin.user.passkey_deleted'', ''admin.user.sessions_revoked'', ''admin.user.disabled'',
    ''admin.user.enabled'', ''admin.group.created'', ''admin.group.updated'',
    ''admin.group.deleted'', ''admin.group.access_updated'', ''admin.group.member_added'',
    ''admin.group.member_removed'', ''admin.group.membership_request_approved'',
    ''admin.group.membership_request_rejected'', ''admin.user.groups_updated'',
    ''admin.device.revoked'', ''admin.resource.created'', ''admin.resource.updated'',
    ''admin.resource.deleted'', ''security.rate_limited'', ''security.invalid_client'',
    ''security.invalid_redirect_uri'', ''security.invalid_pkce'']"

record AuditEvent =
  ae_type :: string
  ae_actorUserId :: "string option"
  ae_actorClientId :: "string option"
  ae_userId :: "string option"
  ae_clientId :: "string option"
  ae_resourceUri :: "string option"
  ae_requestId :: "string option"
  ae_ipHash :: "string option"
  ae_userAgentHash :: "string option"
  ae_scope :: "string option"
  ae_success :: "bool option"
  ae_detail :: "string option"
  ae_metadata :: "json option"

record AuditMessage = AuditEvent +
  am_id :: string
  am_createdAt :: int

text \<open>An event literal with only its type given; the callers update the other fields.\<close>

definition audit_event :: "string \<Rightarrow> AuditEvent" where
  "audit_event t = \<lparr>ae_type = t, ae_actorUserId = None, ae_actorClientId = None, ae_userId = None,
     ae_clientId = None, ae_resourceUri = None, ae_requestId = None, ae_ipHash = None,
     ae_userAgentHash = None, ae_scope = None, ae_success = None, ae_detail = None,
     ae_metadata = None\<rparr>"

text \<open>\<open>auditMessageSchema\<close> on a typed message.\<close>

definition audit_schema_ok :: "AuditMessage \<Rightarrow> bool" where
  "audit_schema_ok m =
     (ae_type m \<in> set AUDIT_EVENTS \<and>
      (case ae_detail m of None \<Rightarrow> True | Some d \<Rightarrow> isBoundedAuditDetail d) \<and>
      (case ae_metadata m of None \<Rightarrow> True | Some JNull \<Rightarrow> True | Some v \<Rightarrow> isBoundedAuditMetadata v))"

record audit_state =
  audit_queue :: "AuditMessage list"
  audit_logs :: "AuditMessage list"

text \<open>The two ways an audit write can fail: a rejected batch and an unavailable database.\<close>

datatype audit_failure = invalid_message | database_down

definition normalizeAuditMessage :: "AuditMessage \<Rightarrow> AuditMessage" where
  "normalizeAuditMessage m =
     m\<lparr>ae_detail := sanitizeAuditDetail (ae_detail m),
       ae_metadata := sanitizeAuditMetadata (ae_metadata m)\<rparr>"

text \<open>\<open>INSERT OR IGNORE\<close>: a row whose id exists is skipped.\<close>

fun insert_or_ignore :: "AuditMessage list \<Rightarrow> AuditMessage list \<Rightarrow> AuditMessage list" where
  "insert_or_ignore [] logs = logs"
| "insert_or_ignore (m # ms) logs =
     insert_or_ignore ms (if am_id m \<in> set (map am_id logs) then logs else logs @ [m])"

definition insertAuditBatch ::
  "bool \<Rightarrow> AuditMessage list \<Rightarrow> audit_state \<Rightarrow> (audit_failure, unit) result \<times> audit_state" where
  "insertAuditBatch d1_up rawMessages s =
     (let messages = map normalizeAuditMessage rawMessages
      in if \<not> list_all audit_schema_ok messages then (Inl invalid_message, s)
         else if messages = [] then (Inr (), s)
         else if \<not> d1_up then (Inl database_down, s)
         else (Inr (), s\<lparr>audit_logs := insert_or_ignore messages (audit_logs s)\<rparr>))"

text \<open>
  \<open>recordAudit\<close>: \<open>queue_up\<close> and \<open>d1_up\<close> say whether the queue and the database accept the
  write; the fresh id and the clock are arguments.
\<close>

definition recordAudit ::
  "bool \<Rightarrow> bool \<Rightarrow> string \<Rightarrow> int \<Rightarrow> AuditEvent \<Rightarrow> audit_state
   \<Rightarrow> (audit_failure, unit) result \<times> audit_state" where
  "recordAudit queue_up d1_up logId now event s =
     (let message = AuditEvent.extend
            (event\<lparr>ae_detail := sanitizeAuditDetail (ae_detail event),
                   ae_metadata := sanitizeAuditMetadata (ae_metadata event)\<rparr>)
            (AuditMessage.fields logId now)
      in if queue_up then (Inr (), s\<lparr>audit_queue := audit_queue s @ [message]\<rparr>)
         else insertAuditBatch d1_up [message] s)"

section \<open>The sanitizer establishes the bounds of the schema\<close>

lemma take_utf8_bound: "bytes \<le> n \<Longrightarrow> bytes + utf8_length (take_utf8 s bytes n) \<le> n"
  by (induction s bytes n rule: take_utf8.induct)
    (auto simp: utf8_length_def add.assoc)

lemma truncateUtf8_bound: "utf8_length (truncateUtf8 s n) \<le> n"
  using take_utf8_bound [of 0 n s] by (simp add: truncateUtf8_def)

lemma truncateUtf8_id: "utf8_length s \<le> n \<Longrightarrow> truncateUtf8 s n = s"
  by (simp add: truncateUtf8_def)

text \<open>The shape and the node count of a bounded value.\<close>

definition key_ok :: "string \<Rightarrow> bool" where
  "key_ok k = (k \<noteq> [] \<and> k \<notin> set FORBIDDEN_METADATA_KEYS \<and>
     utf8_length k \<le> AUDIT_METADATA_KEY_MAX_BYTES)"

fun json_nodes :: "json \<Rightarrow> nat" where
  "json_nodes (JArr vs) = Suc (sum_list (map json_nodes vs))"
| "json_nodes (JObj ps) = Suc (sum_list (map (\<lambda>p. json_nodes (snd p)) ps))"
| "json_nodes _ = 0"

fun json_shape :: "json \<Rightarrow> nat \<Rightarrow> bool" where
  "json_shape (JArr vs) d =
     (d < AUDIT_METADATA_MAX_DEPTH \<and> length vs \<le> AUDIT_METADATA_MAX_ARRAY_ITEMS \<and>
      (\<forall>v\<in>set vs. json_shape v (Suc d)))"
| "json_shape (JObj ps) d =
     (d < AUDIT_METADATA_MAX_DEPTH \<and> length ps \<le> AUDIT_METADATA_MAX_KEYS \<and>
      (\<forall>p\<in>set ps. key_ok (fst p) \<and> json_shape (snd p) (Suc d)))"
| "json_shape (JStr s) d = (utf8_length s \<le> AUDIT_METADATA_STRING_MAX_BYTES)"
| "json_shape _ d = True"

abbreviation entry_nodes :: "(string \<times> json) list \<Rightarrow> nat" where
  "entry_nodes ps \<equiv> sum_list (map (\<lambda>p. json_nodes (snd p)) ps)"

lemma isBounded_complete:
  "json_shape v d \<Longrightarrow> n + json_nodes v \<le> 256 \<Longrightarrow> isBoundedValue v d n = (True, n + json_nodes v)"
  "\<forall>v\<in>set vs. json_shape v d \<Longrightarrow> n + sum_list (map json_nodes vs) \<le> 256 \<Longrightarrow>
     isBoundedItems vs d n = (True, n + sum_list (map json_nodes vs))"
  "\<forall>p\<in>set ps. key_ok (fst p) \<and> json_shape (snd p) d \<Longrightarrow> n + entry_nodes ps \<le> 256 \<Longrightarrow>
     isBoundedEntries ps d n = (True, n + entry_nodes ps)"
  by (induction v d n and vs d n and ps d n rule: isBoundedValue_isBoundedItems_isBoundedEntries.induct)
    (auto simp: audit_bounds key_ok_def)

lemma jset_new: "k \<notin> set (map fst ps) \<Longrightarrow> jset k v ps = ps @ [(k, v)]"
  by (induction k v ps rule: jset.induct) auto

abbreviation entries_ok :: "nat \<Rightarrow> (string \<times> json) list \<Rightarrow> bool" where
  "entries_ok d ps \<equiv> distinct (map fst ps) \<and> (\<forall>p\<in>set ps. key_ok (fst p) \<and> json_shape (snd p) d)"

lemma placeholder_bounds [simp]:
  "utf8_length ''[max_depth]'' = 11" "utf8_length ''[truncated]'' = 11"
  by (simp_all add: utf8_length_def utf8_char_length_def)

lemma sanitize_shape:
  "sanitizeValue v d st = (v', st') \<Longrightarrow>
     json_shape v' d \<and> json_nodes v' + st_nodesRemaining st' \<le> st_nodesRemaining st"
  "sanitizeItems vs d st = (vs', st') \<Longrightarrow>
     length vs' = length vs \<and> (\<forall>v\<in>set vs'. json_shape v d) \<and>
     sum_list (map json_nodes vs') + st_nodesRemaining st' \<le> st_nodesRemaining st"
  "sanitizeEntries ps res d st = (res', st') \<Longrightarrow> entries_ok d res \<Longrightarrow>
     entries_ok d res' \<and> length res' \<le> length res + length ps \<and>
     entry_nodes res' + st_nodesRemaining st' \<le> entry_nodes res + st_nodesRemaining st"
proof (induction v d st and vs d st and ps res d st arbitrary: v' st' and vs' st' and res' st'
    rule: sanitizeValue_sanitizeItems_sanitizeEntries.induct)
  case (2 s depth st)
  then show ?case by (auto simp: Let_def truncateUtf8_bound)
next
  case (5 items depth st)
  show ?case
  proof (cases "depth \<ge> AUDIT_METADATA_MAX_DEPTH \<or> st_nodesRemaining st \<le> 0")
    case True
    with 5(2) show ?thesis by (auto simp: audit_bounds split: if_splits)
  next
    case False
    let ?st = "mark (length items > AUDIT_METADATA_MAX_ARRAY_ITEMS)
      (st\<lparr>st_nodesRemaining := st_nodesRemaining st - 1\<rparr>)"
    obtain r st2 where r: "sanitizeItems (take AUDIT_METADATA_MAX_ARRAY_ITEMS items) (depth + 1) ?st = (r, st2)"
      by fastforce
    from 5(1) [OF _ _ refl r] False have "length r \<le> AUDIT_METADATA_MAX_ARRAY_ITEMS \<and>
        (\<forall>v\<in>set r. json_shape v (Suc depth)) \<and>
        sum_list (map json_nodes r) + st_nodesRemaining st2 \<le> st_nodesRemaining st - 1"
      by simp
    moreover from 5(2) False r have "v' = JArr r" "st' = st2" by (simp_all add: Let_def)
    ultimately show ?thesis using False by auto
  qed
next
  case (6 entries depth st)
  show ?case
  proof (cases "depth \<ge> AUDIT_METADATA_MAX_DEPTH \<or> st_nodesRemaining st \<le> 0")
    case True
    with 6(2) show ?thesis by (auto simp: audit_bounds split: if_splits)
  next
    case False
    let ?st = "mark (length entries > AUDIT_METADATA_MAX_KEYS)
      (st\<lparr>st_nodesRemaining := st_nodesRemaining st - 1\<rparr>)"
    obtain r st2 where r: "sanitizeEntries (take AUDIT_METADATA_MAX_KEYS entries) [] (depth + 1) ?st = (r, st2)"
      by fastforce
    from 6(1) [OF _ _ refl r] False have "entries_ok (Suc depth) r \<and>
        length r \<le> AUDIT_METADATA_MAX_KEYS \<and>
        entry_nodes r + st_nodesRemaining st2 \<le> st_nodesRemaining st - 1"
      by auto
    moreover from 6(2) False r have "v' = JObj r" "st' = st2" by (simp_all add: Let_def)
    ultimately show ?thesis using False by auto
  qed
next
  case (8 item items depth st)
  obtain v1 st1 where v: "sanitizeValue item depth st = (v1, st1)" by fastforce
  obtain vs2 st2 where vs: "sanitizeItems items depth st1 = (vs2, st2)" by fastforce
  from 8(1) [OF v] 8(2) [OF v [symmetric] refl vs] 8(3) v vs show ?case
    by (auto simp: Let_def)
next
  case (10 rawKey item entries result depth st)
  let ?key = "truncateUtf8 rawKey AUDIT_METADATA_KEY_MAX_BYTES"
  let ?skip = "?key = [] \<or> ?key \<in> set FORBIDDEN_METADATA_KEYS \<or> ?key \<in> set (map fst result)"
  let ?st = "mark (?key \<noteq> rawKey \<or> ?skip) st"
  show ?case
  proof (cases ?skip)
    case True
    then have "sanitizeEntries entries result depth ?st = (res', st')"
      using 10(4) by (simp only: sanitizeEntries.simps Let_def if_True)
    from 10(1) [OF refl refl refl True this 10(5)] show ?thesis by simp
  next
    case False
    obtain v1 st1 where v: "sanitizeValue item depth ?st = (v1, st1)" by fastforce
    from False v 10(4) have e: "sanitizeEntries entries (jset ?key v1 result) depth st1 = (res', st')"
      by (simp only: sanitizeEntries.simps Let_def if_False prod.case)
    have j: "jset ?key v1 result = result @ [(?key, v1)]" using False by (simp add: jset_new)
    from 10(2) [OF refl refl refl False v]
    have s: "json_shape v1 depth" "json_nodes v1 + st_nodesRemaining st1 \<le> st_nodesRemaining st"
      by simp_all
    have k: "key_ok ?key" using False by (simp add: key_ok_def truncateUtf8_bound)
    have ok: "entries_ok depth (jset ?key v1 result)" using 10(5) False s k by (auto simp: j)
    from 10(3) [OF refl refl refl False v [symmetric] refl e ok] show ?thesis
      using s by (auto simp: j)
  qed
qed auto

lemma sanitized_distinct: "sanitizeValue m d st = (JObj es, st') \<Longrightarrow> distinct (map fst es)"
  using sanitize_shape(3)
  by (cases m) (fastforce simp: Let_def split: if_splits prod.splits)+

lemma bound_entries_ok:
  assumes "bound_entries es bs t = (bs', t')" and "distinct (map fst (bs @ es))"
    and "serializedLength (JObj bs) \<le> AUDIT_METADATA_MAX_BYTES"
  shows "serializedLength (JObj bs') \<le> AUDIT_METADATA_MAX_BYTES \<and> set bs' \<subseteq> set bs \<union> set es \<and>
    length bs' \<le> length bs + length es \<and> entry_nodes bs' \<le> entry_nodes bs + entry_nodes es"
  using assms
proof (induction es bs t rule: bound_entries.induct)
  case (2 key v es bs t)
  have j: "jset key v bs = bs @ [(key, v)]" using 2(4) by (intro jset_new) auto
  show ?case
  proof (cases "serializedLength (JObj (jset key v bs)) \<le> AUDIT_METADATA_MAX_BYTES")
    case True
    with 2(3) have "bound_entries es (jset key v bs) t = (bs', t')" by simp
    from 2(1) [OF True this] True 2(4) show ?thesis by (auto simp: j)
  next
    case False
    with 2(3) have "bound_entries es bs True = (bs', t')" by simp
    from 2(2) [OF False this] 2(4,5) show ?thesis by auto
  qed
qed auto

lemma marker_fits: "serializedLength (JObj (jset ''_truncated'' (JBool True) [])) \<le> AUDIT_METADATA_MAX_BYTES"
  by (simp add: serializedLength_def audit_bounds utf8_length_def utf8_char_length_def json_quote_def
      quote_char_def)

lemma drop_last_keys_fits:
  "length (drop_last_keys bs) < AUDIT_METADATA_MAX_KEYS \<and>
   serializedLength (JObj (jset ''_truncated'' (JBool True) (drop_last_keys bs))) \<le> AUDIT_METADATA_MAX_BYTES"
proof (induction bs rule: drop_last_keys.induct)
  case (1 bs)
  show ?case
  proof (cases "bs = []")
    case True
    have "drop_last_keys [] = []" by (subst drop_last_keys.simps) simp
    with True marker_fits show ?thesis by (simp add: audit_bounds)
  next
    case False
    with 1 show ?thesis by (subst (1 2) drop_last_keys.simps) (auto simp: not_le)
  qed
qed

lemma drop_last_keys_prefix: "\<exists>n. drop_last_keys bs = take n bs"
proof (induction bs rule: drop_last_keys.induct)
  case (1 bs)
  then obtain n where "bs \<noteq> [] \<longrightarrow> drop_last_keys bs = bs \<or> drop_last_keys bs = take n (butlast bs)"
    by (metis drop_last_keys.simps)
  then show ?case
    by (cases "bs = []")
      (auto simp: butlast_conv_take min_def drop_last_keys.simps [of "[]"] intro: exI [of _ "length bs"])
qed

lemma entry_nodes_take: "entry_nodes (take n ps) \<le> entry_nodes ps"
  by (metis append_take_drop_id le_add1 map_append sum_list_append)

lemma entry_nodes_jset: "entry_nodes (jset k (JBool b) ps) \<le> entry_nodes ps"
  by (induction k "JBool b" ps rule: jset.induct) auto

lemma sanitizeAuditMetadata_bounded:
  assumes "sanitizeAuditMetadata (Some m) = Some m'" and "m \<noteq> JNull"
  shows "isBoundedAuditMetadata m'"
proof -
  let ?st = "\<lparr>st_nodesRemaining = AUDIT_METADATA_MAX_NODES, st_truncated = False\<rparr>"
  obtain v st where v: "sanitizeValue m 0 ?st = (v, st)" by fastforce
  have marker: "json_shape (JObj [(''_truncated'', JBool True)]) 0"
    by (simp add: audit_bounds key_ok_def FORBIDDEN_METADATA_KEYS_def utf8_length_def utf8_char_length_def)
  have final: "isBoundedAuditMetadata (JObj ps)"
    if "json_shape (JObj ps) 0" "entry_nodes ps < 256"
      "serializedLength (JObj ps) \<le> AUDIT_METADATA_MAX_BYTES" for ps
    using isBounded_complete(1) [OF that(1), of 0] that by (simp add: isBoundedAuditMetadata_def)
  show ?thesis
  proof (cases "\<exists>es. v = JObj es")
    case False
    then have "m' = JObj [(''_truncated'', JBool True)]"
      using assms v by (cases m; cases v) (auto simp: sanitizeAuditMetadata_def)
    with final [OF marker] marker_fits show ?thesis by simp
  next
    case True
    then obtain es where es: "v = JObj es" by blast
    with sanitize_shape(1) [OF v] have shape: "json_shape (JObj es) 0" "entry_nodes es < 256"
      by (auto simp: AUDIT_METADATA_MAX_NODES_def)
    have dist: "distinct (map fst es)" using v es by (auto dest: sanitized_distinct)
    obtain bs t where b: "bound_entries es [] (st_truncated st) = (bs, t)" by fastforce
    have "serializedLength (JObj []) \<le> AUDIT_METADATA_MAX_BYTES"
      by (simp add: serializedLength_def utf8_length_def utf8_char_length_def audit_bounds)
    with bound_entries_ok [OF b] dist have bs: "serializedLength (JObj bs) \<le> AUDIT_METADATA_MAX_BYTES"
      "set bs \<subseteq> set es" "length bs \<le> length es" "entry_nodes bs \<le> entry_nodes es"
      by simp_all
    have m': "m' = JObj (if t then jset ''_truncated'' (JBool True) (drop_last_keys bs) else bs)"
      using assms v es b by (cases m) (auto simp: sanitizeAuditMetadata_def)
    obtain n where n: "drop_last_keys bs = take n bs" using drop_last_keys_prefix by blast
    have "json_shape (JObj (jset ''_truncated'' (JBool True) (take n bs))) 0"
      using shape bs marker drop_last_keys_fits [of bs] set_jset [of "''_truncated''" "JBool True" "take n bs"]
        set_take_subset [of n bs]
      by (fastforce simp: n length_jset)
    moreover have "entry_nodes (jset ''_truncated'' (JBool True) (take n bs)) < 256"
      using entry_nodes_jset [of "''_truncated''" True "take n bs"] entry_nodes_take [of n bs] bs shape by simp
    moreover have "json_shape (JObj bs) 0" using shape bs by auto
    ultimately show ?thesis
      using final [of bs] final [of "jset ''_truncated'' (JBool True) (take n bs)"] bs shape
        drop_last_keys_fits [of bs]
      by (auto simp: m' n)
  qed
qed

section \<open>No accepted event is lost\<close>

lemma sanitizeAuditMetadata_cases:
  "case sanitizeAuditMetadata md of None \<Rightarrow> True | Some JNull \<Rightarrow> True | Some v \<Rightarrow> isBoundedAuditMetadata v"
proof (cases md)
  case (Some m)
  show ?thesis
  proof (cases "sanitizeAuditMetadata md")
    case (Some m')
    with \<open>md = Some m\<close> have "m \<noteq> JNull \<Longrightarrow> isBoundedAuditMetadata m'"
      using sanitizeAuditMetadata_bounded by blast
    moreover have "m = JNull \<Longrightarrow> m' = JNull"
      using Some \<open>md = Some m\<close> by (simp add: sanitizeAuditMetadata_def)
    ultimately show ?thesis using Some by (cases "m = JNull") (auto split: json.split)
  qed simp
qed (simp add: sanitizeAuditMetadata_def)

lemma normalize_ok:
  "ae_type m \<in> set AUDIT_EVENTS \<Longrightarrow> audit_schema_ok (normalizeAuditMessage m)"
  using sanitizeAuditMetadata_cases [of "ae_metadata m"]
  by (auto simp: audit_schema_ok_def normalizeAuditMessage_def sanitizeAuditDetail_def
      isBoundedAuditDetail_def truncateUtf8_bound split: option.split)

lemma normalize_id [simp]: "am_id (normalizeAuditMessage m) = am_id m"
  by (simp add: normalizeAuditMessage_def)

lemma ids_insert_or_ignore:
  "am_id ` set (insert_or_ignore ms logs) = am_id ` set ms \<union> am_id ` set logs"
  by (induction ms logs rule: insert_or_ignore.induct) auto

lemma insert_known: "am_id ` set ms \<subseteq> am_id ` set logs \<Longrightarrow> insert_or_ignore ms logs = logs"
  by (induction ms) auto

lemma insert_or_ignore_twice:
  "insert_or_ignore ms (insert_or_ignore ms logs) = insert_or_ignore ms logs"
  by (rule insert_known) (auto simp: ids_insert_or_ignore)

lemma insertAuditBatch_ok:
  assumes "\<forall>m\<in>set ms. ae_type m \<in> set AUDIT_EVENTS"
  shows "insertAuditBatch True ms s =
    (Inr (), s\<lparr>audit_logs := insert_or_ignore (map normalizeAuditMessage ms) (audit_logs s)\<rparr>)"
  using assms by (cases ms) (auto simp: insertAuditBatch_def list_all_iff normalize_ok)

section \<open>Properties\<close>

text \<open>
  C21. The audit trail loses no event: whatever metadata and detail a caller passes, as long as
  the queue or the database is up, \<open>recordAudit\<close> succeeds and, once the consumer has drained the
  queue, the event's row is in \<open>audit_logs\<close>. In particular the consumer's schema never rejects
  a message that \<open>recordAudit\<close> queued, so one event cannot poison a batch.
\<close>

theorem audit_event_reaches_log:
  assumes "ae_type event \<in> set AUDIT_EVENTS" and "queue_up \<or> d1_up"
    and "\<forall>m\<in>set (audit_queue s). ae_type m \<in> set AUDIT_EVENTS"
    and "recordAudit queue_up d1_up logId now event s = (r, s')"
    and "insertAuditBatch True (audit_queue s') s' = (r', s'')"
  shows "r = Inr () \<and> r' = Inr () \<and> logId \<in> am_id ` set (audit_logs s'')"
proof -
  have "r = Inr () \<and> (\<forall>m\<in>set (audit_queue s'). ae_type m \<in> set AUDIT_EVENTS) \<and>
      (logId \<in> am_id ` set (audit_queue s') \<or> logId \<in> am_id ` set (audit_logs s'))"
    using assms(1-4)
    by (cases queue_up) (auto simp: recordAudit_def Let_def insertAuditBatch_ok AuditEvent.defs
        AuditMessage.defs split: if_splits)
  with assms(5) show ?thesis
    by (auto simp: insertAuditBatch_ok ids_insert_or_ignore image_image)
qed

theorem audit_event_reaches_log_witness:
  "let e = (audit_event ''oauth.token.issued'')\<lparr>ae_detail := Some ''ok''\<rparr>;
       s = \<lparr>audit_queue = [], audit_logs = []\<rparr>;
       (r, s') = recordAudit False True ''log_1'' 7 e s;
       (r', s'') = insertAuditBatch True (audit_queue s') s'
   in r = Inr () \<and> r' = Inr () \<and> ''log_1'' \<in> am_id ` set (audit_logs s'')"
  using audit_event_reaches_log [of "(audit_event ''oauth.token.issued'')\<lparr>ae_detail := Some ''ok''\<rparr>"
      False True "\<lparr>audit_queue = [], audit_logs = []\<rparr>" "''log_1''" 7]
  by (auto simp: audit_event_def AUDIT_EVENTS_def Let_def split: prod.split)

text \<open>
  Redelivery is harmless: the queue delivers at least once, and inserting a batch a second
  time leaves \<open>audit_logs\<close> as the first insertion left it.
\<close>

theorem audit_redelivery_idempotent:
  "snd (insertAuditBatch True ms (snd (insertAuditBatch True ms s))) = snd (insertAuditBatch True ms s)"
  by (auto simp: insertAuditBatch_def Let_def insert_or_ignore_twice)

end
