(* ===== verification/World.thy ===== *)
theory World
  imports Policy One_Time_Store Rate_Limit Refresh_Family Audit_Trail
begin

text \<open>
  The state a request handler sees and the platform it runs on. The world is the D1 database,
  the Durable Objects by name, the audit queue and log, and the replay table of client
  assertions. The platform record holds everything a request does not decide itself: the
  clock, the drawn identifiers and random bytes, the failures of D1 and of Durable Object
  calls, the JOSE library, and \<open>pf_others\<close>, the effect of concurrent requests that run at a
  named \<open>await\<close> of the handler. A handler is a function from the world to a result (\<open>Inl\<close> for a
  thrown error) and the next world, so that what was written before a throw stays written.
\<close>

section \<open>Worlds\<close>

record world =
  w_db :: db
  w_codes :: "string \<Rightarrow> AuthorizationCodePayload one_time"
  w_families :: "string \<Rightarrow> family"
  w_limiters :: "string \<Rightarrow> rate_limit"
  w_audit :: audit_state
  w_assertion_jtis :: "(string \<times> string \<times> int \<times> int) list"

datatype failure =
    OAuthFailure OAuthError
  | AppFailure nat string
  | DatabaseFailure
  | DurableObjectFailure
  | AuditFailure audit_failure
  | OtherFailure string

type_synonym 'a io = "world \<Rightarrow> (failure, 'a) result \<times> world"

text \<open>
  The claims of a JWT payload, by name. A signed token carries a header type, the claims, the
  issue and the expiry instant.
\<close>

record signed_jwt =
  jwt_typ :: string
  jwt_claims :: "(string \<times> json) list"
  jwt_iat :: int
  jwt_exp :: int

record jwt_verify_options =
  vo_issuer :: string
  vo_audience :: "string list option"
  vo_typ :: "string option"
  vo_currentDate :: "int option"

text \<open>
  A fetched response: its status and headers, the length it declares (which HTTP restricts to
  digits), and its body as the chunks the stream yields, after which it may break. The network is
  what \<open>fetch\<close> answers for a URL (\<open>None\<close> when it throws), what the DNS service answers for a host
  and a record type, how \<open>new URL(location, base)\<close> resolves, and \<open>JSON.parse\<close> of the decoded bytes.
\<close>

record http_response =
  hr_status :: nat
  hr_headers :: "(string \<times> string) list"
  hr_contentLength :: "nat option"
  hr_body :: "byte list list option"
  hr_broken :: bool

record network =
  nw_fetch :: "url \<Rightarrow> http_response option"
  nw_dns :: "string \<Rightarrow> int \<Rightarrow> http_response option"
  nw_relative :: "string \<Rightarrow> url \<Rightarrow> url option"
  nw_parseJson :: "byte list \<Rightarrow> json option"

text \<open>
  \<open>pf_jwtVerify\<close> is \<open>jwtVerify\<close> of the JOSE library against the published keys: the protected
  header type and the payload, or \<open>None\<close> when it throws; \<open>pf_decodeJwt\<close> is its \<open>decodeJwt\<close>.
  \<open>pf_clientJwtVerify\<close> verifies a client assertion against a fetched key set, with the expected
  issuer and subject, audience and clock tolerance. \<open>pf_hmac\<close> is HMAC-SHA-256 of WebCrypto.
\<close>

record platform =
  pf_env :: env
  pf_crypto :: crypto
  pf_url :: url_parser
  pf_nowMs :: int
  pf_requestId :: string
  pf_ulid :: "string \<Rightarrow> string"
  pf_random :: "string \<Rightarrow> byte list"
  pf_queue_up :: bool
  pf_d1_fails :: "string \<Rightarrow> bool"
  pf_do_rejects :: "nat \<Rightarrow> string \<Rightarrow> bool"
  pf_others :: "string \<Rightarrow> world \<Rightarrow> world"
  pf_sign :: "signed_jwt \<Rightarrow> string"
  pf_jwtVerify :: "string \<Rightarrow> jwt_verify_options \<Rightarrow> (string option \<times> (string \<times> json) list) option"
  pf_decodeJwt :: "string \<Rightarrow> (string \<times> json) list option"
  pf_network :: network
  pf_clientJwtVerify :: "string \<Rightarrow> json \<Rightarrow> string \<Rightarrow> string \<Rightarrow> int \<Rightarrow> (string \<times> json) list option"
  pf_requestHashSecret :: "string option"
  pf_hmac :: "byte list \<Rightarrow> byte list \<Rightarrow> byte list"

definition pf_now :: "platform \<Rightarrow> int" where "pf_now pf = nowSeconds (pf_nowMs pf)"

text \<open>\<open>generateId\<close> of \<open>src/utils/id.ts\<close>; the label names the call site.\<close>

definition generateId :: "platform \<Rightarrow> string \<Rightarrow> string \<Rightarrow> string" where
  "generateId pf prefix label = prefix @ ''_'' @ pf_ulid pf label"

section \<open>Sequencing\<close>

definition io_return :: "'a \<Rightarrow> 'a io" where "io_return x w = (Inr x, w)"
definition io_throw :: "failure \<Rightarrow> 'a io" where "io_throw e w = (Inl e, w)"

definition io_bind :: "'a io \<Rightarrow> ('a \<Rightarrow> 'b io) \<Rightarrow> 'b io" where
  "io_bind m f w = (case m w of (Inl e, w') \<Rightarrow> (Inl e, w') | (Inr x, w') \<Rightarrow> f x w')"

definition io_then :: "'a io \<Rightarrow> 'b io \<Rightarrow> 'b io" where "io_then m k = io_bind m (\<lambda>_. k)"

definition io_modify :: "(world \<Rightarrow> world) \<Rightarrow> unit io" where "io_modify f w = (Inr (), f w)"

definition io_lift :: "(OAuthError, 'a) result \<Rightarrow> 'a io" where
  "io_lift r w = (case r of Inl e \<Rightarrow> (Inl (OAuthFailure e), w) | Inr x \<Rightarrow> (Inr x, w))"

definition throw_oauth :: "OAuthErrorCode \<Rightarrow> string \<Rightarrow> string \<Rightarrow> 'a io" where
  "throw_oauth code description detail = io_throw (OAuthFailure (oauth_error code description detail))"

text \<open>\<open>throw new OAuthError(code, { status, description, detail })\<close>.\<close>

definition throw_oauth_status :: "OAuthErrorCode \<Rightarrow> nat \<Rightarrow> string \<Rightarrow> string \<Rightarrow> 'a io" where
  "throw_oauth_status code status description detail =
     io_throw (OAuthFailure (new_OAuthError code (Some description) (Some status) (Some detail)))"

definition io_audit :: "platform \<Rightarrow> string \<Rightarrow> AuditEvent \<Rightarrow> unit io" where
  "io_audit pf label event w =
     (case recordAudit (pf_queue_up pf) (\<not> pf_d1_fails pf label) (generateId pf ''log'' label)
             (pf_now pf) event (w_audit w) of
        (Inl e, a) \<Rightarrow> (Inl (AuditFailure e), w\<lparr>w_audit := a\<rparr>)
      | (Inr _, a) \<Rightarrow> (Inr (), w\<lparr>w_audit := a\<rparr>))"

lemma io_return_Inr [simp]: "io_return x w = (r, w') \<longleftrightarrow> r = Inr x \<and> w' = w"
  by (auto simp: io_return_def)

lemma io_throw_Inr [simp]: "io_throw e w \<noteq> (Inr x, w')"
  "throw_oauth c d dt w \<noteq> (Inr x, w')" "throw_oauth_status c st d dt w \<noteq> (Inr x, w')"
  by (simp_all add: io_throw_def throw_oauth_def throw_oauth_status_def)

lemma io_bind_Inr:
  "io_bind m f w = (Inr y, w') \<longleftrightarrow> (\<exists>x w1. m w = (Inr x, w1) \<and> f x w1 = (Inr y, w'))"
  by (auto simp: io_bind_def split: prod.splits sum.splits)

lemma io_then_Inr:
  "io_then m k w = (Inr y, w') \<longleftrightarrow> (\<exists>x w1. m w = (Inr x, w1) \<and> k w1 = (Inr y, w'))"
  by (simp add: io_then_def io_bind_Inr)

lemma io_lift_Inr [simp]: "io_lift r w = (Inr x, w') \<longleftrightarrow> r = Inr x \<and> w' = w"
  by (auto simp: io_lift_def split: sum.splits)

lemma io_modify_Inr [simp]: "io_modify f w = (r, w') \<longleftrightarrow> r = Inr () \<and> w' = f w"
  by (auto simp: io_modify_def)

lemma io_if_Inr:
  "(if b then m else k) w = (Inr x, w') \<longleftrightarrow> (b \<and> m w = (Inr x, w')) \<or> (\<not> b \<and> k w = (Inr x, w'))"
  by auto

lemmas io_success = io_bind_Inr io_then_Inr

text \<open>An audit write touches the audit trail alone.\<close>

lemma io_audit_frame:
  "io_audit pf l e w = (r, w') \<Longrightarrow>
     w_db w' = w_db w \<and> w_codes w' = w_codes w \<and> w_families w' = w_families w \<and>
     w_limiters w' = w_limiters w"
  by (auto simp: io_audit_def split: prod.splits sum.splits)

section \<open>A concrete platform\<close>

text \<open>
  Instances of the parameters for the witnesses: a padding digest, a printer of bytes as
  letter pairs, a URL parser that reads every string as an https URL with a path, a signer
  that prints the subject, and an empty database.
\<close>

definition demo_crypto :: crypto where
  "demo_crypto = \<lparr>subtle_sha256 = (\<lambda>bs. take 32 (bs @ replicate 32 0)),
     bytesToHex = (\<lambda>bs. concat (map (\<lambda>b. [char_of (65 + unat b div 16), char_of (65 + unat b mod 16)]) bs))\<rparr>"

definition demo_url :: url_parser where
  "demo_url s = Some \<lparr>url_protocol = ''https:'', url_username = [], url_password = [],
     url_hostname = ''host'', url_origin = ''https://host'', url_pathname = s, url_search = [], url_hash = [],
     url_prefix = ''https://host''\<rparr>"

definition demo_env :: env where
  "demo_env = \<lparr>ENVIRONMENT = Some ''production'', YOLO_MODE = None, ISSUER = ''https://id.test''\<rparr>"

definition demo_network :: network where
  "demo_network = \<lparr>nw_fetch = (\<lambda>u. None), nw_dns = (\<lambda>h t. None), nw_relative = (\<lambda>l u. None),
     nw_parseJson = (\<lambda>b. None)\<rparr>"

definition demo_pf :: platform where
  "demo_pf = \<lparr>pf_env = demo_env, pf_crypto = demo_crypto, pf_url = demo_url, pf_nowMs = 1000000,
     pf_requestId = ''req'', pf_ulid = (\<lambda>l. l), pf_random = (\<lambda>l. [1, 2, 3]), pf_queue_up = True,
     pf_d1_fails = (\<lambda>l. False), pf_do_rejects = (\<lambda>k i. False), pf_others = (\<lambda>l w. w),
     pf_sign = (\<lambda>j. jwt_typ j), pf_jwtVerify = (\<lambda>t opts. None),
     pf_decodeJwt = (\<lambda>t. None), pf_network = demo_network,
     pf_clientJwtVerify = (\<lambda>t k c a n. None), pf_requestHashSecret = None, pf_hmac = (\<lambda>k d. d)\<rparr>"

definition empty_db :: db where
  "empty_db = \<lparr>t_users = [], t_sessions = [], t_refresh_tokens = [], t_consents = [],
     t_authorization_grants = [], t_devices = [], t_oauth_clients = [], t_oauth_resources = [],
     t_metadata_client_approvals = [], t_groups = [], t_user_groups = [], t_group_requests = [], t_permission_group_rules = [],
     t_reauth_continuations = []\<rparr>"

definition demo_user :: user_row where
  "demo_user = \<lparr>u_id = ''u'', u_email = ''u@x'', u_alias = ''u'', u_emailVerified = True, u_name = None,
     u_picture = None, u_avatarKey = None, u_avatarContentType = None, u_avatarUpdatedAt = None,
     u_disabled = False, u_createdAt = 0, ur_securityVersion = 0, ur_updatedAt = 0\<rparr>"

definition demo_client :: OAuthClient where
  "demo_client = \<lparr>oc_clientId = ''c'', oc_name = ''C'', oc_type = public_client, oc_clientKind = application,
     oc_clientSecretHash = None, oc_redirectUris = [''https://app/cb''], oc_postLogoutRedirectUris = [],
     oc_allowedScopes = [''openid'', ''offline_access''],
     oc_allowedGrantTypes = [''authorization_code'', ''refresh_token''], oc_allowedResources = [''r''],
     oc_defaultResource = Some ''r'', oc_requirePkce = True, oc_enabled = True,
     oc_tokenEndpointAuthMethods = [auth_none], oc_introspectionAllowed = False,
     oc_registrationType = static, oc_metadataFingerprint = None, oc_metadataExpiresAt = None,
     oc_metadataJwksUri = None\<rparr>"

definition demo_world :: world where
  "demo_world = \<lparr>w_db = empty_db\<lparr>t_users := [demo_user], t_oauth_clients := [demo_client]\<rparr>,
     w_codes = (\<lambda>_. ot_empty), w_families = (\<lambda>_. fam_empty), w_limiters = (\<lambda>_. rl_empty),
     w_audit = \<lparr>audit_queue = [], audit_logs = []\<rparr>, w_assertion_jtis = []\<rparr>"

lemmas demo_defs = demo_crypto_def demo_url_def demo_env_def demo_network_def demo_pf_def empty_db_def demo_user_def
  demo_client_def demo_world_def

end
