(* ===== verification/Local_Paths.thy ===== *)
theory Local_Paths
  imports Encoding
begin

text \<open>
  \<open>src/security/return-to.ts\<close> and \<open>src/media/avatar.ts\<close>. Both resolve a path against an https
  base with the WHATWG URL parser, so the part of that parser they use is modelled first: the
  reference starts with one slash, hence keeps the origin of the base, and what remains is
  trimming, the split into path, query and fragment, the removal of dot segments and
  percent-encoding.
\<close>

section \<open>The URL parser on path-absolute references\<close>

definition upper_hex_digit :: "nat \<Rightarrow> char" where
  "upper_hex_digit n = (if n < 10 then char_of (48 + n) else char_of (55 + n))"

definition percent_byte :: "byte \<Rightarrow> string" where
  "percent_byte b = CHR ''%'' # [upper_hex_digit (unat b div 16), upper_hex_digit (unat b mod 16)]"

definition percent_encode :: "(char \<Rightarrow> bool) \<Rightarrow> string \<Rightarrow> string" where
  "percent_encode S s = concat (map (\<lambda>c. if S c then concat (map percent_byte (utf8_char c)) else [c]) s)"

definition c0_set :: "char \<Rightarrow> bool" where "c0_set c = (ccode c \<le> 31 \<or> ccode c > 126)"

definition fragment_set :: "char \<Rightarrow> bool" where
  "fragment_set c = (c0_set c \<or> c \<in> set '' \"<>`'')"

definition query_set :: "char \<Rightarrow> bool" where
  "query_set c = (c0_set c \<or> c \<in> set '' \"#<>'')"

text \<open>The query set of special schemes, https among them, has the apostrophe as well.\<close>

definition special_query_set :: "char \<Rightarrow> bool" where
  "special_query_set c = (query_set c \<or> ccode c = 39)"

definition path_set :: "char \<Rightarrow> bool" where
  "path_set c = (query_set c \<or> c \<in> set ''?^`{}'')"

definition ascii_lower :: "string \<Rightarrow> string" where
  "ascii_lower = map (\<lambda>c. if is_upper c then char_of (ccode c + 32) else c)"

definition single_dot :: "string \<Rightarrow> bool" where
  "single_dot s = (ascii_lower s \<in> {''.'', ''%2e''})"

definition double_dot :: "string \<Rightarrow> bool" where
  "double_dot s = (ascii_lower s \<in> {''..'', ''.%2e'', ''%2e.'', ''%2e%2e''})"

definition is_slash :: "char \<Rightarrow> bool" where
  "is_slash c = (c = CHR ''/'' \<or> ccode c = 92)"

fun split_slash :: "string \<Rightarrow> string list" where
  "split_slash [] = [[]]"
| "split_slash (c # cs) =
     (if is_slash c then [] # split_slash cs
      else (case split_slash cs of [] \<Rightarrow> [[c]] | p # ps \<Rightarrow> (c # p) # ps))"

text \<open>The path state: the segments read so far, and what each further segment does to them.\<close>

fun path_state :: "string list \<Rightarrow> string list \<Rightarrow> string list" where
  "path_state path [] = path"
| "path_state path [s] =
     (if double_dot s then butlast path @ [[]]
      else if single_dot s then path @ [[]]
      else path @ [percent_encode path_set s])"
| "path_state path (s # t # ss) =
     path_state (if double_dot s then butlast path
                 else if single_dot s then path
                 else path @ [percent_encode path_set s]) (t # ss)"

definition path_string :: "string list \<Rightarrow> string" where
  "path_string segs = concat (map (\<lambda>s. CHR ''/'' # s) segs)"

definition url_trim :: "string \<Rightarrow> string" where
  "url_trim s = filter (\<lambda>c. ccode c \<notin> {9, 10, 13})
     (rev (dropWhile (\<lambda>c. ccode c \<le> 32) (rev (dropWhile (\<lambda>c. ccode c \<le> 32) s))))"

definition before_char :: "char \<Rightarrow> string \<Rightarrow> string" where
  "before_char d s = takeWhile (\<lambda>c. c \<noteq> d) s"

definition from_char :: "char \<Rightarrow> string \<Rightarrow> string option" where
  "from_char d s = (case dropWhile (\<lambda>c. c \<noteq> d) s of [] \<Rightarrow> None | _ # r \<Rightarrow> Some r)"

definition component :: "char \<Rightarrow> (char \<Rightarrow> bool) \<Rightarrow> string option \<Rightarrow> string" where
  "component d S part =
     (case part of None \<Rightarrow> [] | Some t \<Rightarrow> if t = [] then [] else d # percent_encode S t)"

text \<open>
  The \<open>pathname\<close>, \<open>search\<close> and \<open>hash\<close> of a reference that starts with a slash that no second
  slash follows.
\<close>

definition parse_local :: "string \<Rightarrow> string \<times> string \<times> string" where
  "parse_local raw =
     (let s = url_trim raw; front = before_char (CHR ''#'') s
      in (path_string (path_state [] (split_slash (drop 1 (before_char (CHR ''?'') front)))),
          component (CHR ''?'') special_query_set (from_char (CHR ''?'') front),
          component (CHR ''#'') fragment_set (from_char (CHR ''#'') s)))"

section \<open>return-to.ts\<close>

definition refused_path :: "string \<Rightarrow> bool" where
  "refused_path raw =
     (\<not> starts_with ''/'' raw \<or> starts_with ''//'' raw \<or> list_ex (\<lambda>c. ccode c = 92) raw \<or>
      list_ex (\<lambda>c. ccode c \<le> 31 \<or> ccode c = 127) raw)"

definition safeLocalPath :: "string option \<Rightarrow> string" where
  "safeLocalPath raw =
     (case raw of
        None \<Rightarrow> ''/''
      | Some r \<Rightarrow> if refused_path r then ''/''
                  else let (pathname, search, hash) = parse_local r in pathname @ search @ hash)"

section \<open>avatar.ts\<close>

datatype AvatarContentType = image_png | image_jpeg | image_webp | image_gif

definition ALLOWED_AVATAR_TYPES :: "AvatarContentType list" where
  "ALLOWED_AVATAR_TYPES = [image_png, image_jpeg, image_webp, image_gif]"

definition MAX_AVATAR_BYTES :: nat where "MAX_AVATAR_BYTES = 3 * 1024 * 1024"
definition AVATAR_UPLOAD_MAX_BODY_BYTES :: nat where
  "AVATAR_UPLOAD_MAX_BODY_BYTES = MAX_AVATAR_BYTES + 64 * 1024"

fun avatar_extension :: "AvatarContentType \<Rightarrow> string" where
  "avatar_extension image_png = ''png''"
| "avatar_extension image_jpeg = ''jpg''"
| "avatar_extension image_webp = ''webp''"
| "avatar_extension image_gif = ''gif''"

text \<open>\<open>bytes[offset + index] === byte\<close>: a missing byte is \<open>undefined\<close> and equals nothing.\<close>

definition startsWith :: "byte list \<Rightarrow> byte list \<Rightarrow> nat \<Rightarrow> bool" where
  "startsWith bytes signature offset =
     list_all (\<lambda>i. offset + i < length bytes \<and> bytes ! (offset + i) = signature ! i)
       [0..<length signature]"

definition sniffAvatarType :: "byte list \<Rightarrow> AvatarContentType option" where
  "sniffAvatarType bytes =
     (if startsWith bytes [0x89, 0x50, 0x4e, 0x47, 0x0d, 0x0a, 0x1a, 0x0a] 0 then Some image_png
      else if startsWith bytes [0xff, 0xd8, 0xff] 0 then Some image_jpeg
      else if startsWith bytes [0x47, 0x49, 0x46, 0x38] 0 then Some image_gif
      else if startsWith bytes [0x52, 0x49, 0x46, 0x46] 0 \<and> startsWith bytes [0x57, 0x45, 0x42, 0x50] 8
      then Some image_webp
      else None)"

datatype AvatarRejection = too_large | unsupported | empty_upload

definition validateAvatarBytes ::
  "byte list \<Rightarrow> (AvatarRejection, byte list \<times> AvatarContentType) result" where
  "validateAvatarBytes bytes =
     (if length bytes = 0 then Inl empty_upload
      else if length bytes > MAX_AVATAR_BYTES then Inl too_large
      else case sniffAvatarType bytes of
             None \<Rightarrow> Inl unsupported
           | Some t \<Rightarrow> Inr (bytes, t))"

definition generateAvatarKey :: "byte list \<Rightarrow> AvatarContentType \<Rightarrow> string" where
  "generateAvatarKey random contentType = randomToken random @ ''.'' @ avatar_extension contentType"

definition avatarPath :: "string \<Rightarrow> string" where "avatarPath key = ''/avatars/'' @ key"

text \<open>\<open>new URL(avatarPath(key), issuer)\<close>; \<open>origin\<close> is the origin of the issuer.\<close>

definition avatarUrl :: "string \<Rightarrow> string \<Rightarrow> string" where
  "avatarUrl origin key =
     (let (pathname, search, hash) = parse_local (avatarPath key) in origin @ pathname @ search @ hash)"

definition isAvatarKey :: "string \<Rightarrow> bool" where
  "isAvatarKey key =
     (list_all is_b64url_char (take 43 key) \<and> length key > 43 \<and> key ! 43 = CHR ''.'' \<and>
      drop 44 key \<in> {''png'', ''jpg'', ''webp'', ''gif''})"

text \<open>
  The R2 bucket of avatars, by key. A deletion that fails leaves the object; the error is
  swallowed.
\<close>

type_synonym r2_bucket = "string \<Rightarrow> (byte list \<times> AvatarContentType) option"

definition putAvatar :: "string \<Rightarrow> byte list \<Rightarrow> AvatarContentType \<Rightarrow> r2_bucket \<Rightarrow> r2_bucket" where
  "putAvatar key bytes contentType bucket = bucket(key \<mapsto> (bytes, contentType))"

definition getAvatarObject :: "string \<Rightarrow> r2_bucket \<Rightarrow> (byte list \<times> AvatarContentType) option" where
  "getAvatarObject key bucket = (if isAvatarKey key then bucket key else None)"

definition deleteAvatarObject :: "bool \<Rightarrow> string option \<Rightarrow> r2_bucket \<Rightarrow> r2_bucket" where
  "deleteAvatarObject delete_fails key bucket =
     (case key of None \<Rightarrow> bucket | Some k \<Rightarrow> if delete_fails then bucket else bucket(k := None))"

section \<open>Percent-encoding\<close>

abbreviation printable :: "char \<Rightarrow> bool" where "printable c \<equiv> 32 < ccode c \<and> ccode c < 127"

lemma upper_hex_printable: "n < 16 \<Longrightarrow> printable (upper_hex_digit n)"
  by (auto simp: upper_hex_digit_def)

lemma percent_byte_printable: "list_all printable (percent_byte b)"
proof -
  have "unat b < 256" using unsigned_less [of b] by simp
  then show ?thesis
    using upper_hex_printable by (auto simp: percent_byte_def div_less_iff_less_mult)
qed

lemma percent_encode_simps [simp]:
  "percent_encode S [] = []"
  "percent_encode S (c # s) =
     (if S c then concat (map percent_byte (utf8_char c)) else [c]) @ percent_encode S s"
  by (simp_all add: percent_encode_def)

lemma percent_encode_printable:
  assumes "\<And>c. \<not> S c \<Longrightarrow> printable c"
  shows "list_all printable (percent_encode S s)"
proof (induction s)
  case (Cons c s)
  have "list_all printable (concat (map percent_byte bs))" for bs
    by (induction bs) (simp_all add: percent_byte_printable)
  with Cons assms [of c] show ?case by simp
qed simp

lemma percent_encode_empty_iff [simp]: "percent_encode S s = [] \<longleftrightarrow> s = []"
  by (cases s) (auto simp: utf8_char_def percent_byte_def)

lemma percent_encode_id: "list_all (\<lambda>c. \<not> S c) s \<Longrightarrow> percent_encode S s = s"
  by (induction s) auto

lemma encode_sets_printable:
  "\<not> path_set c \<Longrightarrow> printable c" "\<not> special_query_set c \<Longrightarrow> printable c" "\<not> fragment_set c \<Longrightarrow> printable c"
proof -
  have p: "printable c" if "\<not> c0_set c" "c \<noteq> CHR '' ''"
  proof -
    have "ccode c \<noteq> 32" using that(2) using char_eq_code [of c "CHR '' ''"] by auto
    then show ?thesis using that(1) by (auto simp: c0_set_def)
  qed
  show "\<not> path_set c \<Longrightarrow> printable c" "\<not> special_query_set c \<Longrightarrow> printable c" "\<not> fragment_set c \<Longrightarrow> printable c"
    using p by (auto simp: path_set_def special_query_set_def query_set_def fragment_set_def)
qed

section \<open>The path state\<close>

lemma path_state_nonempty: "ss \<noteq> [] \<Longrightarrow> path_state path ss \<noteq> []"
  by (induction path ss rule: path_state.induct) auto

lemma path_state_elems:
  "x \<in> set (path_state path ss) \<Longrightarrow>
     x \<in> set path \<or> x = [] \<or> (\<exists>s\<in>set ss. x = percent_encode path_set s)"
proof (induction path ss rule: path_state.induct)
  case (3 path s t ss)
  then show ?case by (auto split: if_splits dest: in_set_butlastD)
qed (auto split: if_splits dest: in_set_butlastD)

text \<open>Without empty inner segments only the last segment of the result can be empty.\<close>

lemma path_state_inner:
  "[] \<notin> set path \<Longrightarrow> [] \<notin> set (butlast ss) \<Longrightarrow> [] \<notin> set (butlast (path_state path ss))"
proof (induction path ss rule: path_state.induct)
  case (3 path s t ss)
  have "[] \<notin> set (if double_dot s then butlast path else if single_dot s then path
      else path @ [percent_encode path_set s])"
    using 3(2,3) by (auto dest: in_set_butlastD simp: eq_commute [of "[]"])
  from 3(1) [OF this] 3(3) show ?case by simp
qed (auto dest: in_set_butlastD)

lemma split_slash_nonempty [simp]: "split_slash s \<noteq> []"
  by (induction s) (auto split: list.splits)

lemma split_slash_no_slash: "x \<in> set (split_slash s) \<Longrightarrow> CHR ''/'' \<notin> set x"
  by (induction s arbitrary: x) (auto simp: is_slash_def split: list.splits if_splits)

lemma percent_encode_no_slash: "CHR ''/'' \<notin> set s \<Longrightarrow> CHR ''/'' \<notin> set (percent_encode S s)"
proof -
  have h: "upper_hex_digit n \<noteq> CHR ''/''" if "n < 16" for n
  proof
    assume "upper_hex_digit n = CHR ''/''"
    then have "ccode (upper_hex_digit n) = 47" by simp
    with that show False by (auto simp: upper_hex_digit_def split: if_splits)
  qed
  have "CHR ''/'' \<notin> set (percent_byte b)" for b
  proof -
    have "unat b < 256" using unsigned_less [of b] by simp
    then have "unat b div 16 < 16" "unat b mod 16 < 16" by (simp_all add: div_less_iff_less_mult)
    with h [THEN not_sym] show ?thesis by (simp add: percent_byte_def)
  qed
  then show "CHR ''/'' \<notin> set s \<Longrightarrow> CHR ''/'' \<notin> set (percent_encode S s)"
    by (induction s) auto
qed

lemma path_string_local:
  assumes "segs \<noteq> []" "[] \<notin> set (butlast segs)" "\<forall>s\<in>set segs. CHR ''/'' \<notin> set s"
    and "rest = [] \<or> hd rest \<noteq> CHR ''/''"
  shows "\<not> starts_with ''//'' (path_string segs @ rest)"
proof -
  obtain s ss where segs: "segs = s # ss" using assms(1) by (cases segs) auto
  show ?thesis
  proof (cases s)
    case Nil
    with assms(2) segs have "ss = []" by (cases ss) auto
    with Nil segs assms(4) show ?thesis
      by (cases rest) (auto simp: starts_with_def path_string_def)
  next
    case (Cons c cs)
    with assms(3) segs show ?thesis by (auto simp: starts_with_def path_string_def)
  qed
qed

section \<open>Accepted return paths\<close>

fun has_double_slash :: "string \<Rightarrow> bool" where
  "has_double_slash (a # b # s) = ((a = CHR ''/'' \<and> b = CHR ''/'') \<or> has_double_slash (b # s))"
| "has_double_slash s = False"

definition path_part :: "string \<Rightarrow> string" where
  "path_part s = before_char (CHR ''?'') (before_char (CHR ''#'') s)"

lemma has_double_slash_append: "has_double_slash s \<Longrightarrow> has_double_slash (s @ t)"
  by (induction s rule: has_double_slash.induct) auto

lemma takeWhile_prefix: "\<exists>u. takeWhile P (s @ t) = takeWhile P s @ u"
  by (induction s) auto

lemma path_part_prefix: "\<exists>u. path_part (s @ t) = path_part s @ u"
  unfolding path_part_def before_char_def by (metis takeWhile_prefix)

lemma dropWhile_append_slash:
  "dropWhile (\<lambda>c. ccode c \<le> 32) (s @ [CHR ''/'']) = dropWhile (\<lambda>c. ccode c \<le> 32) s @ [CHR ''/'']"
  by (induction s) auto

lemma url_trim_prefix:
  assumes "starts_with ''/'' raw" "\<not> list_ex (\<lambda>c. ccode c \<le> 31 \<or> ccode c = 127) raw"
  shows "\<exists>t. raw = url_trim raw @ t" "starts_with ''/'' (url_trim raw)"
proof -
  let ?P = "\<lambda>c :: char. ccode c \<le> 32"
  obtain r where r: "raw = CHR ''/'' # r" using assms(1) by (auto simp: starts_with_iff)
  let ?t = "rev (dropWhile ?P (rev raw))"
  have "raw = ?t @ rev (takeWhile ?P (rev raw))"
    by (metis rev_append rev_rev_ident takeWhile_dropWhile_id)
  moreover from this have "filter (\<lambda>c. ccode c \<notin> {9, 10, 13}) ?t = ?t"
  proof -
    have "\<forall>c\<in>set ?t. c \<in> set raw" by (auto dest: set_dropWhileD)
    with assms(2) show ?thesis by (fastforce simp: filter_id_conv list_ex_iff)
  qed
  moreover have "dropWhile ?P raw = raw" by (simp add: r)
  ultimately show "\<exists>t. raw = url_trim raw @ t" by (metis url_trim_def)
  have "dropWhile ?P (rev r @ [CHR ''/'']) = dropWhile ?P (rev r) @ [CHR ''/'']"
    by (rule dropWhile_append_slash)
  then have "url_trim raw = filter (\<lambda>c. ccode c \<notin> {9, 10, 13}) (CHR ''/'' # rev (dropWhile ?P (rev r)))"
    by (simp add: url_trim_def r)
  then show "starts_with ''/'' (url_trim raw)" by (simp add: starts_with_def)
qed

lemma split_slash_shape:
  "\<not> has_double_slash s \<Longrightarrow> list_all (\<lambda>c. ccode c \<noteq> 92) s \<Longrightarrow>
     \<exists>p ps. split_slash s = p # ps \<and> [] \<notin> set (butlast ps) \<and>
       (p = [] \<longrightarrow> s = [] \<or> hd s = CHR ''/'')"
proof (induction s)
  case (Cons c s)
  then obtain p ps where IH: "split_slash s = p # ps" "[] \<notin> set (butlast ps)"
    "p = [] \<longrightarrow> s = [] \<or> hd s = CHR ''/''"
    by (cases s) auto
  show ?case
  proof (cases "c = CHR ''/''")
    case True
    have "p = [] \<Longrightarrow> ps = []" using IH True Cons.prems by (cases s) auto
    with True IH show ?thesis by (auto simp: is_slash_def)
  next
    case False
    with Cons.prems IH show ?thesis by (simp add: is_slash_def)
  qed
qed simp

lemma split_slash_inner:
  "\<not> has_double_slash (CHR ''/'' # s) \<Longrightarrow> list_all (\<lambda>c. ccode c \<noteq> 92) s \<Longrightarrow>
     [] \<notin> set (butlast (split_slash s))"
  using split_slash_shape [of "CHR ''/'' # s"] by (auto simp: is_slash_def)

text \<open>What the parser makes of an accepted path: the parts of the result.\<close>

lemma accepted_path:
  assumes "\<not> refused_path raw"
  obtains segs rest where "safeLocalPath (Some raw) = path_string segs @ rest" "segs \<noteq> []"
    "\<forall>s\<in>set segs. CHR ''/'' \<notin> set s \<and> list_all printable s"
    "rest = [] \<or> hd rest \<noteq> CHR ''/''" "list_all printable rest"
    "\<not> has_double_slash (path_part raw) \<Longrightarrow> [] \<notin> set (butlast segs)"
proof -
  let ?s = "url_trim raw"
  let ?ss = "split_slash (drop 1 (path_part ?s))"
  let ?segs = "path_state [] ?ss"
  let ?q = "component (CHR ''?'') special_query_set (from_char (CHR ''?'') (before_char (CHR ''#'') ?s))"
  let ?h = "component (CHR ''#'') fragment_set (from_char (CHR ''#'') ?s)"
  have eq: "safeLocalPath (Some raw) = path_string ?segs @ (?q @ ?h)"
    using assms by (simp add: safeLocalPath_def parse_local_def Let_def path_part_def)
  have trim: "\<exists>t. raw = ?s @ t" "starts_with ''/'' ?s"
    using assms url_trim_prefix by (auto simp: refused_path_def)
  have segs: "CHR ''/'' \<notin> set s \<and> list_all printable s" if "s \<in> set ?segs" for s
    using path_state_elems [OF that] split_slash_no_slash percent_encode_no_slash
      percent_encode_printable [OF encode_sets_printable(1)] by auto
  have comp: "component d S p = [] \<or> hd (component d S p) = d" for d S p
    by (auto simp: component_def split: option.splits)
  have "q @ h = [] \<or> hd (q @ h) \<noteq> CHR ''/''"
    if "q = [] \<or> hd q = CHR ''?''" "h = [] \<or> hd h = CHR ''#''" for q h :: string
    using that by (cases q; cases h) auto
  note rest = this [OF comp comp]
  have printable_comp: "list_all printable (component d S p)"
    if "printable d" "\<And>c. \<not> S c \<Longrightarrow> printable c" for d S p
    using that percent_encode_printable [of S] by (auto simp: component_def split: option.splits)
  have "list_all printable (?q @ ?h)"
    using printable_comp [OF _ encode_sets_printable(2)] printable_comp [OF _ encode_sets_printable(3)]
    by simp
  moreover have "[] \<notin> set (butlast ?segs)" if "\<not> has_double_slash (path_part raw)"
  proof (rule path_state_inner)
    obtain t where t: "?s = CHR ''/'' # t" using trim(2) by (auto simp: starts_with_iff)
    have pp: "path_part ?s = CHR ''/'' # drop 1 (path_part ?s)"
      by (simp add: t path_part_def before_char_def)
    obtain u where "path_part raw = path_part ?s @ u" using trim(1) path_part_prefix by metis
    with that has_double_slash_append pp have "\<not> has_double_slash (CHR ''/'' # drop 1 (path_part ?s))"
      by metis
    moreover have "set (path_part ?s) \<subseteq> set raw"
      using trim(1) by (auto simp: path_part_def before_char_def dest!: set_takeWhileD)
         (metis Un_iff set_append)
    then have "list_all (\<lambda>c. ccode c \<noteq> 92) (drop 1 (path_part ?s))"
      using assms by (auto simp: refused_path_def list_ex_iff list_all_iff dest!: in_set_dropD)
    ultimately show "[] \<notin> set (butlast ?ss)" by (rule split_slash_inner)
  qed simp
  ultimately show ?thesis
    using that [of ?segs "?q @ ?h"] eq segs rest path_state_nonempty [of ?ss "[]"] by simp
qed

text \<open>The reference \<open>/.//evil.test\<close> passes the guard and resolves to a network-path reference.\<close>

lemma safeLocalPath_network_path: "safeLocalPath (Some ''/.//evil.test'') = ''//evil.test''"
  by (simp add: safeLocalPath_def refused_path_def parse_local_def url_trim_def starts_with_def
      before_char_def from_char_def component_def is_slash_def double_dot_def single_dot_def
      ascii_lower_def is_upper_def path_string_def path_set_def query_set_def c0_set_def)

section \<open>Avatar keys\<close>

lemma avatar_key_chars:
  "is_b64url_char c \<or> c = CHR ''.'' \<Longrightarrow>
     \<not> path_set c \<and> ccode c > 32 \<and> \<not> is_slash c \<and> c \<noteq> CHR ''?'' \<and> c \<noteq> CHR ''#''"
  by (auto simp: is_b64url_char_def is_alnum_def is_upper_def is_lower_def is_digit_def path_set_def
      query_set_def c0_set_def is_slash_def char_eq_code)

lemma split_slash_word: "list_all (\<lambda>c. \<not> is_slash c) s \<Longrightarrow> split_slash s = [s]"
  by (induction s) auto

text \<open>A segment longer than any dot segment resolves to itself.\<close>

lemma parse_avatar_path:
  assumes key: "list_all (\<lambda>c. is_b64url_char c \<or> c = CHR ''.'') key" "length key > 6"
  shows "parse_local (avatarPath key) = (avatarPath key, [], [])"
proof -
  have c: "\<forall>c\<in>set key. \<not> path_set c \<and> ccode c > 32 \<and> \<not> is_slash c \<and> c \<noteq> CHR ''?'' \<and> c \<noteq> CHR ''#''"
    using key(1) avatar_key_chars by (auto simp: list_all_iff)
  let ?s = "''/avatars/'' @ key"
  have "dropWhile (\<lambda>c. ccode c \<le> 32) (rev ?s) = rev ?s"
    using c key(2) by (cases key rule: rev_cases) auto
  moreover have "filter (\<lambda>c. ccode c \<notin> {9, 10, 13}) ?s = ?s"
  proof (rule filter_True)
    have "\<forall>c\<in>set key. ccode c > 32" using c by blast
    then have "\<forall>c\<in>set ?s. ccode c > 32" by simp
    then show "\<forall>c\<in>set ?s. ccode c \<notin> {9, 10, 13}" by fastforce
  qed
  ultimately have "url_trim ?s = ?s" by (simp add: url_trim_def)
  note trim = this [simplified]
  have tw: "takeWhile (\<lambda>x. x \<noteq> CHR ''#'') key = key" "takeWhile (\<lambda>x. x \<noteq> CHR ''?'') key = key"
    "dropWhile (\<lambda>x. x \<noteq> CHR ''#'') key = []" "dropWhile (\<lambda>x. x \<noteq> CHR ''?'') key = []"
    using c by (auto simp: takeWhile_eq_all_conv dropWhile_eq_Nil_conv)
  have "split_slash key = [key]" using c by (simp add: split_slash_word list_all_iff)
  moreover have "\<not> double_dot key" "\<not> single_dot key"
    using key(2) by (auto simp: double_dot_def single_dot_def ascii_lower_def dest!: arg_cong [where f = length])
  moreover have "percent_encode path_set key = key"
    using c by (intro percent_encode_id) (simp add: list_all_iff)
  moreover have "\<not> double_dot ''avatars''" "\<not> single_dot ''avatars''"
    by (simp_all add: double_dot_def single_dot_def ascii_lower_def is_upper_def)
  moreover have "\<forall>c\<in>set ''avatars''. \<not> path_set c"
    by (simp add: path_set_def query_set_def c0_set_def)
  ultimately show ?thesis
    by (simp add: parse_local_def avatarPath_def trim Let_def before_char_def from_char_def tw
        component_def path_string_def is_slash_def)
qed

lemma generated_key:
  assumes "length bs = 32"
  shows "isAvatarKey (generateAvatarKey bs t)"
    "list_all (\<lambda>c. is_b64url_char c \<or> c = CHR ''.'') (generateAvatarKey bs t)"
    "length (generateAvatarKey bs t) > 6"
proof -
  have r: "length (randomToken bs) = 43" "list_all is_b64url_char (randomToken bs)"
    using base64UrlEncode_chars [of bs] length_base64UrlEncode [of bs] assms
    by (simp_all add: randomToken_def)
  show "isAvatarKey (generateAvatarKey bs t)" using r
    by (cases t) (simp_all add: isAvatarKey_def generateAvatarKey_def nth_append)
  have "list_all is_b64url_char (avatar_extension t)"
    by (cases t) (simp_all add: is_b64url_char_def is_alnum_def is_upper_def is_lower_def is_digit_def)
  with r show "list_all (\<lambda>c. is_b64url_char c \<or> c = CHR ''.'') (generateAvatarKey bs t)"
    by (auto simp: generateAvatarKey_def list_all_iff)
  show "length (generateAvatarKey bs t) > 6" using r by (simp add: generateAvatarKey_def)
qed

section \<open>Properties\<close>



text \<open>
  An uploaded avatar is served back: an upload that passes validation is not empty and not
  over the limit, the key generated for it from 32 random bytes is one the server accepts, its
  URL is the issuer's origin followed by the key's path without any rewriting, and fetching the
  key after the upload returns the stored bytes with the sniffed type.
\<close>

theorem avatar_roundtrip:
  assumes "validateAvatarBytes bytes = Inr (stored, t)" and "length random = 32"
    and "key = generateAvatarKey random t"
  shows "stored = bytes \<and> 0 < length bytes \<and> length bytes \<le> MAX_AVATAR_BYTES \<and>
    isAvatarKey key \<and> avatarUrl origin key = origin @ ''/avatars/'' @ key \<and>
    getAvatarObject key (putAvatar key stored t bucket) = Some (bytes, t)"
proof -
  note key = generated_key [OF assms(2), of t]
  have "avatarUrl origin key = origin @ ''/avatars/'' @ key"
    using parse_avatar_path [OF key(2,3)] by (simp add: avatarUrl_def assms(3) avatarPath_def)
  with assms(1) key(1) show ?thesis
    by (auto simp: validateAvatarBytes_def assms(3) getAvatarObject_def putAvatar_def
        split: if_splits option.splits)
qed

theorem avatar_roundtrip_witness:
  "let key = generateAvatarKey (replicate 32 0) image_gif
   in getAvatarObject key (putAvatar key [0x47, 0x49, 0x46, 0x38] image_gif (\<lambda>_. None)) =
        Some ([0x47, 0x49, 0x46, 0x38], image_gif)"
proof -
  have "validateAvatarBytes [0x47, 0x49, 0x46, 0x38] = Inr ([0x47, 0x49, 0x46, 0x38], image_gif)"
    by (simp add: validateAvatarBytes_def MAX_AVATAR_BYTES_def sniffAvatarType_def startsWith_def upt_rec)
  from avatar_roundtrip [OF this _ refl, of "replicate 32 0"] show ?thesis by (simp add: Let_def)
qed

end
