(* ===== verification/Http.thy ===== *)
theory Http
  imports World Local_Paths
begin

text \<open>
  What the handlers see of HTTP: a parsed form or query, the request headers, the response with
  its status, its headers and its body (JSON, or a page named by the function that renders it
  and the texts it is given), \<open>encodeURIComponent\<close> and the serializer of \<open>URLSearchParams\<close>.
\<close>

section \<open>Forms\<close>

type_synonym form = "(string \<times> string) list"

text \<open>\<open>form.get(name)\<close>: the first value, and \<open>readFormField\<close> of \<open>src/utils/form.ts\<close>.\<close>

definition form_get :: "form \<Rightarrow> string \<Rightarrow> string option" where
  "form_get form name = map_of form name"

definition form_has :: "form \<Rightarrow> string \<Rightarrow> bool" where
  "form_has form name = (form_get form name \<noteq> None)"

definition readFormField :: "form \<Rightarrow> string \<Rightarrow> string" where
  "readFormField form name = (case form_get form name of None \<Rightarrow> [] | Some v \<Rightarrow> v)"

text \<open>\<open>value || undefined\<close> on a string.\<close>

definition non_empty :: "string \<Rightarrow> string option" where
  "non_empty s = (if s = [] then None else Some s)"

section \<open>Requests and responses\<close>

record request =
  rq_headers :: "(string \<times> string) list"
  rq_url :: string

definition rq_header :: "request \<Rightarrow> string \<Rightarrow> string option" where
  "rq_header rq name = map_of (rq_headers rq) name"

datatype body = EmptyBody | JsonBody json | Page string "string list"

record response =
  re_status :: nat
  re_headers :: "(string \<times> string) list"
  re_body :: body

definition json_response :: "nat \<Rightarrow> (string \<times> string) list \<Rightarrow> json \<Rightarrow> response" where
  "json_response status headers j = \<lparr>re_status = status, re_headers = headers, re_body = JsonBody j\<rparr>"

definition html_response :: "nat \<Rightarrow> string \<Rightarrow> string list \<Rightarrow> response" where
  "html_response status page texts = \<lparr>re_status = status, re_headers = [], re_body = Page page texts\<rparr>"

definition redirect_response :: "nat \<Rightarrow> string \<Rightarrow> response" where
  "redirect_response status location =
     \<lparr>re_status = status, re_headers = [(''location'', location)], re_body = EmptyBody\<rparr>"

definition no_store :: "(string \<times> string) list" where
  "no_store = [(''cache-control'', ''no-store'')]"

definition no_store_pragma :: "(string \<times> string) list" where
  "no_store_pragma = [(''cache-control'', ''no-store''), (''pragma'', ''no-cache'')]"

section \<open>URI components\<close>

definition encodeURIComponent :: "string \<Rightarrow> string" where
  "encodeURIComponent =
     percent_encode (\<lambda>c. \<not> (is_alnum c \<or> c \<in> set ''-_.!~*()'' \<or> ccode c = 39))"

definition form_encode :: "string \<Rightarrow> string" where
  "form_encode s = concat (map (\<lambda>c.
     if c = CHR '' '' then ''+''
     else percent_encode (\<lambda>c. \<not> (is_alnum c \<or> c \<in> set ''*-._'')) [c]) s)"

definition search_params :: "form \<Rightarrow> string" where
  "search_params ps = js_join ''&'' (map (\<lambda>(k, v). form_encode k @ ''='' @ form_encode v) ps)"

end
