(* ===== verification/Addresses.thy ===== *)
theory Addresses
  imports Local_Paths Json
begin

text \<open>
  The IP address part of \<open>src/oauth/client-id-metadata.ts\<close>: the parsers of IPv4 and IPv6
  literals, the CIDR tests, and \<open>isPublicInternetAddress\<close>, which keeps the server from fetching a
  document from a special-use address. IPv4 values are 32-bit words, as the bitwise operators of
  JavaScript make them; IPv6 values are unbounded integers (\<open>BigInt\<close>).
\<close>

unbundle bit_operations_syntax

definition all_digits :: "string \<Rightarrow> bool" where
  "all_digits s = (s \<noteq> [] \<and> list_all is_digit s)"

definition digits_value :: "string \<Rightarrow> nat" where
  "digits_value s = foldl (\<lambda>n c. n * 10 + (ccode c - 48)) 0 s"

section \<open>IPv4\<close>

text \<open>The loop over the parts; \<open>/^\d{1,3}$/\<close> and the bound 255 on every one.\<close>

fun ipv4_value :: "nat \<Rightarrow> string list \<Rightarrow> nat option" where
  "ipv4_value v [] = Some v"
| "ipv4_value v (part # parts) =
     (if \<not> (all_digits part \<and> length part \<le> 3) then None
      else if digits_value part > 255 then None
      else ipv4_value (v * 256 + digits_value part) parts)"

definition parseIpv4 :: "string \<Rightarrow> 32 word option" where
  "parseIpv4 raw =
     (let parts = js_split (CHR ''.'') raw
      in if length parts \<noteq> 4 then None else map_option word_of_nat (ipv4_value 0 parts))"

definition ipv4InCidr :: "32 word \<Rightarrow> 32 word \<Rightarrow> nat \<Rightarrow> bool" where
  "ipv4InCidr v base prefix =
     (let mask = (if prefix = 0 then 0 else push_bit (32 - prefix) 0xffffffff)
      in (v AND mask) = (base AND mask))"

definition SPECIAL_IPV4_RANGES :: "(string \<times> nat) list" where
  "SPECIAL_IPV4_RANGES =
     [(''0.0.0.0'', 8), (''10.0.0.0'', 8), (''100.64.0.0'', 10), (''127.0.0.0'', 8), (''169.254.0.0'', 16),
      (''172.16.0.0'', 12), (''192.0.0.0'', 24), (''192.0.2.0'', 24), (''192.168.0.0'', 16), (''198.18.0.0'', 15),
      (''198.51.100.0'', 24), (''203.0.113.0'', 24), (''224.0.0.0'', 4), (''240.0.0.0'', 4)]"

section \<open>IPv6\<close>

text \<open>\<open>input.split("::")\<close>: the text between the occurrences, found from the left.\<close>

fun split_colons :: "string \<Rightarrow> string list" where
  "split_colons (a # b # cs) =
     (if a = CHR '':'' \<and> b = CHR '':'' then [] # split_colons cs
      else (case split_colons (b # cs) of [] \<Rightarrow> [[a]] | p # ps \<Rightarrow> (a # p) # ps))"
| "split_colons s = [s]"

definition is_lower_hex :: "char \<Rightarrow> bool" where
  "is_lower_hex c = (is_digit c \<or> (97 \<le> ccode c \<and> ccode c \<le> 102))"

definition lower_hex_value :: "string \<Rightarrow> nat" where
  "lower_hex_value s = foldl (\<lambda>n c. n * 16 + (if is_digit c then ccode c - 48 else ccode c - 87)) 0 s"

fun half_words :: "string list \<Rightarrow> nat list option" where
  "half_words [] = Some []"
| "half_words (piece # pieces) =
     (case parseIpv4 piece of
        Some ipv4 \<Rightarrow> map_option (\<lambda>ws. unat (drop_bit 16 ipv4 AND 0xffff) # unat (ipv4 AND 0xffff) # ws) (half_words pieces)
      | None \<Rightarrow>
          if 1 \<le> length piece \<and> length piece \<le> 4 \<and> list_all is_lower_hex piece
          then map_option (\<lambda>ws. lower_hex_value piece # ws) (half_words pieces) else None)"

definition parseHalf :: "string \<Rightarrow> nat list option" where
  "parseHalf half = (if half = [] then Some [] else half_words (js_split (CHR '':'') half))"

definition words_value :: "nat list \<Rightarrow> nat" where
  "words_value words = foldl (\<lambda>v w. push_bit 16 v OR w) 0 words"

definition parseIpv6 :: "string \<Rightarrow> nat option" where
  "parseIpv6 raw =
     (let input = takeWhile (\<lambda>c. c \<noteq> CHR ''%'') (ascii_lower raw); halves = split_colons input
      in if input = [] \<or> length halves > 2 then None
         else case (parseHalf (halves ! 0), parseHalf (if length halves = 2 then halves ! 1 else [])) of
           (Some left, Some right) \<Rightarrow>
             (let used = length left + length right; words = left @ replicate (8 - used) 0 @ right
              in if (length halves = 1 \<and> used \<noteq> 8) \<or> (length halves = 2 \<and> used > 7) \<or> length words \<noteq> 8 then None
                 else Some (words_value words))
         | _ \<Rightarrow> None)"

definition ipv6InCidr :: "nat \<Rightarrow> nat \<Rightarrow> nat \<Rightarrow> bool" where
  "ipv6InCidr v base prefix = (drop_bit (128 - prefix) v = drop_bit (128 - prefix) base)"

definition SPECIAL_IPV6_RANGES :: "(string \<times> nat) list" where
  "SPECIAL_IPV6_RANGES =
     [(''::'', 128), (''::1'', 128), (''::ffff:0:0'', 96), (''64:ff9b::'', 96), (''64:ff9b:1::'', 48), (''100::'', 64),
      (''2001::'', 23), (''2001:db8::'', 32), (''2002::'', 16), (''fc00::'', 7), (''fe80::'', 10), (''ff00::'', 8)]"

text \<open>\<open>raw.replace(/^\[|\]$/g, "")\<close>.\<close>

definition strip_brackets :: "string \<Rightarrow> string" where
  "strip_brackets raw =
     (let s = (case raw of c # cs \<Rightarrow> if c = CHR ''['' then cs else raw | [] \<Rightarrow> [])
      in if s \<noteq> [] \<and> last s = CHR '']'' then butlast s else s)"

definition isPublicInternetAddress :: "string \<Rightarrow> bool" where
  "isPublicInternetAddress raw =
     (case parseIpv4 raw of
        Some ipv4 \<Rightarrow>
          \<not> list_ex (\<lambda>(base, prefix). case parseIpv4 base of None \<Rightarrow> False | Some b \<Rightarrow> ipv4InCidr ipv4 b prefix)
              SPECIAL_IPV4_RANGES
      | None \<Rightarrow>
          (case parseIpv6 (strip_brackets raw) of
             None \<Rightarrow> False
           | Some ipv6 \<Rightarrow>
               \<not> list_ex (\<lambda>(base, prefix). case parseIpv6 base of None \<Rightarrow> False | Some b \<Rightarrow> ipv6InCidr ipv6 b prefix)
                   SPECIAL_IPV6_RANGES))"

section \<open>CIDR tests are tests of leading bits\<close>

lemma drop_bit_eq_iff:
  "drop_bit n v = drop_bit n b \<longleftrightarrow> (\<forall>i < 32. n \<le> i \<longrightarrow> (bit v i \<longleftrightarrow> bit b i))" for v b :: "32 word"
proof
  assume e: "drop_bit n v = drop_bit n b"
  show "\<forall>i < 32. n \<le> i \<longrightarrow> (bit v i \<longleftrightarrow> bit b i)"
  proof (intro allI impI)
    fix i assume "n \<le> i"
    then have "bit v i \<longleftrightarrow> bit (drop_bit n v) (i - n)" "bit b i \<longleftrightarrow> bit (drop_bit n b) (i - n)"
      by (simp_all add: bit_drop_bit_eq)
    with e show "bit v i \<longleftrightarrow> bit b i" by simp
  qed
next
  assume a: "\<forall>i < 32. n \<le> i \<longrightarrow> (bit v i \<longleftrightarrow> bit b i)"
  have "bit v (n + k) \<longleftrightarrow> bit b (n + k)" for k
    using a bit_imp_le_length [of v "n + k"] bit_imp_le_length [of b "n + k"] by (cases "n + k < 32") auto
  then show "drop_bit n v = drop_bit n b" by (auto intro!: bit_word_eqI simp: bit_drop_bit_eq)
qed

lemma cidr_div:
  assumes "p \<le> 32"
  shows "ipv4InCidr v b p \<longleftrightarrow> unat v div 2 ^ (32 - p) = unat b div 2 ^ (32 - p)"
proof -
  have "ipv4InCidr v b p \<longleftrightarrow> (\<forall>i < 32. 32 - p \<le> i \<longrightarrow> (bit v i \<longleftrightarrow> bit b i))"
  proof (cases "p = 0")
    case False
    have m: "bit (push_bit (32 - p) (0xffffffff :: 32 word)) i \<longleftrightarrow> 32 - p \<le> i \<and> i < 32" for i
    proof -
      have e: "(0xffffffff :: 32 word) = - 1" by simp
      show ?thesis unfolding e by (auto simp: bit_push_bit_iff bit_not_iff bit_mask_iff)
    qed
    with False show ?thesis by (auto simp: ipv4InCidr_def Let_def bit_eq_iff bit_and_iff m)
  qed (simp add: ipv4InCidr_def)
  also have "\<dots> \<longleftrightarrow> drop_bit (32 - p) v = drop_bit (32 - p) b" by (rule drop_bit_eq_iff [symmetric])
  also have "\<dots> \<longleftrightarrow> unat (drop_bit (32 - p) v) = unat (drop_bit (32 - p) b)" by (simp add: word_unat_eq_iff)
  finally have "ipv4InCidr v b p \<longleftrightarrow> unat (drop_bit (32 - p) v) = unat (drop_bit (32 - p) b)" .
  moreover have "unat (drop_bit k x) = unat x div 2 ^ k" for k and x :: "32 word"
    by (subst unat_drop_bit_eq) (rule drop_bit_eq_div)
  ultimately show ?thesis by simp
qed

section \<open>Dotted quads\<close>

definition dotted :: "nat \<Rightarrow> nat \<Rightarrow> nat \<Rightarrow> nat \<Rightarrow> string" where
  "dotted a b c d = nat_string a @ ''.'' @ nat_string b @ ''.'' @ nat_string c @ ''.'' @ nat_string d"

lemma digit_char: "n < 10 \<Longrightarrow> is_digit (char_of (48 + n)) \<and> ccode (char_of (48 + n)) = 48 + n"
  by (simp add: is_digit_def)

lemma nat_string_digits: "all_digits (nat_string n) \<and> digits_value (nat_string n) = n"
proof (induction n rule: nat_string.induct)
  case (1 n)
  show ?case
  proof (cases "n < 10")
    case True
    then show ?thesis by (simp add: nat_string.simps [of n] all_digits_def digits_value_def digit_char)
  next
    case False
    with 1 have "all_digits (nat_string (n div 10))" "digits_value (nat_string (n div 10)) = n div 10" by simp_all
    with False show ?thesis
      by (simp add: nat_string.simps [of n] all_digits_def digits_value_def digit_char)
  qed
qed

lemma nat_string_length: "n < 256 \<Longrightarrow> length (nat_string n) \<le> 3"
  by (simp add: nat_string.simps [of n] nat_string.simps [of "n div 10"] nat_string.simps [of "n div 10 div 10"])

lemma nat_string_no_dot: "CHR ''.'' \<notin> set (nat_string n)"
  using nat_string_digits [of n] by (auto simp: all_digits_def list_all_iff is_digit_def)

lemma js_split_first: "c \<notin> set s \<Longrightarrow> js_split c (s @ c # t) = s # js_split c t"
  by (induction s) auto

lemma js_split_none: "c \<notin> set s \<Longrightarrow> js_split c s = [s]"
  by (induction s) auto

lemma split_dotted: "js_split (CHR ''.'') (dotted a b c d) = [nat_string a, nat_string b, nat_string c, nat_string d]"
  by (simp add: dotted_def js_split_first js_split_none nat_string_no_dot)

lemma parse_dotted:
  assumes "a < 256" "b < 256" "c < 256" "d < 256"
  shows "parseIpv4 (dotted a b c d) = Some (word_of_nat (((a * 256 + b) * 256 + c) * 256 + d))"
  using assms by (simp add: parseIpv4_def split_dotted nat_string_digits nat_string_length not_less)

lemma unat_of_nat_32: "n < 4294967296 \<Longrightarrow> unat (word_of_nat n :: 32 word) = n"
  by (simp add: unat_of_nat)

text \<open>The leading bits of a dotted quad.\<close>

lemma quad_bits:
  assumes "a < 256" "b < 256" "c < 256" "d < (256 :: nat)" "n = ((a * 256 + b) * 256 + c) * 256 + d"
  shows "n < 4294967296" "n div 256 = (a * 256 + b) * 256 + c" "n div 65536 = a * 256 + b" "n div 16777216 = a"
    "n div 131072 = a * 128 + b div 2" "n div 1048576 = a * 16 + b div 16" "n div 4194304 = a * 4 + b div 64"
    "n div 268435456 = a div 16"
  using assms by auto

lemma special_bases:
  "map (\<lambda>(base, p). (map_option unat (parseIpv4 base), p)) SPECIAL_IPV4_RANGES =
     [(Some 0, 8), (Some (10 * 2 ^ 24), 8), (Some (100 * 2 ^ 24 + 64 * 2 ^ 16), 10), (Some (127 * 2 ^ 24), 8),
      (Some (169 * 2 ^ 24 + 254 * 2 ^ 16), 16), (Some (172 * 2 ^ 24 + 16 * 2 ^ 16), 12), (Some (192 * 2 ^ 24), 24),
      (Some (192 * 2 ^ 24 + 2 * 2 ^ 8), 24), (Some (192 * 2 ^ 24 + 168 * 2 ^ 16), 16), (Some (198 * 2 ^ 24 + 18 * 2 ^ 16), 15),
      (Some (198 * 2 ^ 24 + 51 * 2 ^ 16 + 100 * 2 ^ 8), 24), (Some (203 * 2 ^ 24 + 113 * 2 ^ 8), 24),
      (Some (224 * 2 ^ 24), 4), (Some (240 * 2 ^ 24), 4)]"
  by (simp add: SPECIAL_IPV4_RANGES_def parseIpv4_def all_digits_def digits_value_def is_digit_def)

lemma public_ipv4:
  assumes "parseIpv4 raw = Some v"
  shows "isPublicInternetAddress raw \<longleftrightarrow>
    (\<forall>(base, p) \<in> set (map (\<lambda>(base, p). (map_option unat (parseIpv4 base), p)) SPECIAL_IPV4_RANGES).
       \<forall>n. base = Some n \<longrightarrow> unat v div 2 ^ (32 - p) \<noteq> n div 2 ^ (32 - p))"
proof -
  have p: "snd r \<le> 32" if "r \<in> set SPECIAL_IPV4_RANGES" for r using that by (auto simp: SPECIAL_IPV4_RANGES_def)
  have "isPublicInternetAddress raw \<longleftrightarrow>
    (\<forall>r \<in> set SPECIAL_IPV4_RANGES. \<forall>b. parseIpv4 (fst r) = Some b \<longrightarrow> \<not> ipv4InCidr v b (snd r))"
    using assms by (force simp: isPublicInternetAddress_def list_ex_iff split: option.splits)
  also have "\<dots> \<longleftrightarrow> (\<forall>r \<in> set SPECIAL_IPV4_RANGES. \<forall>b. parseIpv4 (fst r) = Some b \<longrightarrow>
      unat v div 2 ^ (32 - snd r) \<noteq> unat b div 2 ^ (32 - snd r))"
    using cidr_div p by blast
  finally show ?thesis by (simp add: split_beta)  blast
qed

text \<open>The special-use blocks of IPv4, as the registry lists them, octet by octet.\<close>

definition reserved_ipv4 :: "nat \<Rightarrow> nat \<Rightarrow> nat \<Rightarrow> bool" where
  "reserved_ipv4 a b c =
     (a \<in> {0, 10, 127} \<or> (a = 100 \<and> 64 \<le> b \<and> b < 128) \<or> (a = 169 \<and> b = 254) \<or> (a = 172 \<and> 16 \<le> b \<and> b < 32) \<or>
      (a = 192 \<and> (b = 168 \<or> (b = 0 \<and> (c = 0 \<or> c = 2)))) \<or> (a = 198 \<and> (b = 18 \<or> b = 19 \<or> (b = 51 \<and> c = 100))) \<or>
      (a = 203 \<and> b = 0 \<and> c = 113) \<or> a \<ge> 224)"

lemma digit_eq: "x < k \<Longrightarrow> y < k \<Longrightarrow> a * k + x = m * k + y \<longleftrightarrow> a = m \<and> x = y" for x y a m k :: nat
proof
  assume l: "x < k" "y < k" and e: "a * k + x = m * k + y"
  have "a = (a * k + x) div k" "x = (a * k + x) mod k" using l(1) by simp_all
  moreover have "(m * k + y) div k = m" "(m * k + y) mod k = y" using l(2) by simp_all
  ultimately show "a = m \<and> x = y" using e by metis
qed simp

lemma special_tests:
  "(\<forall>(base, p) \<in> set (map (\<lambda>(base, p). (map_option unat (parseIpv4 base), p)) SPECIAL_IPV4_RANGES).
       \<forall>m. base = Some m \<longrightarrow> n div 2 ^ (32 - p) \<noteq> m div 2 ^ (32 - p)) \<longleftrightarrow>
   n div 16777216 \<noteq> 0 \<and> n div 16777216 \<noteq> 10 \<and> n div 4194304 \<noteq> 401 \<and> n div 16777216 \<noteq> 127 \<and>
   n div 65536 \<noteq> 43518 \<and> n div 1048576 \<noteq> 2753 \<and> n div 256 \<noteq> 12582912 \<and> n div 256 \<noteq> 12582914 \<and>
   n div 65536 \<noteq> 49320 \<and> n div 131072 \<noteq> 25353 \<and> n div 256 \<noteq> 12989284 \<and> n div 256 \<noteq> 13303921 \<and>
   n div 268435456 \<noteq> 14 \<and> n div 268435456 \<noteq> 15"
  unfolding special_bases by simp

lemma public_dotted:
  assumes "a < 256" "b < 256" "c < 256" "d < 256"
  shows "isPublicInternetAddress (dotted a b c d) \<longleftrightarrow> \<not> reserved_ipv4 a b c"
proof -
  obtain n where n: "n = ((a * 256 + b) * 256 + c) * 256 + d" by blast
  note q = quad_bits [OF assms n]
  have p: "parseIpv4 (dotted a b c d) = Some (word_of_nat n)" unfolding n by (rule parse_dotted [OF assms])
  have "isPublicInternetAddress (dotted a b c d) \<longleftrightarrow>
    a \<noteq> 0 \<and> a \<noteq> 10 \<and> a * 4 + b div 64 \<noteq> 401 \<and> a \<noteq> 127 \<and> a * 256 + b \<noteq> 43518 \<and>
    a * 16 + b div 16 \<noteq> 2753 \<and> (a * 256 + b) * 256 + c \<noteq> 12582912 \<and> (a * 256 + b) * 256 + c \<noteq> 12582914 \<and>
    a * 256 + b \<noteq> 49320 \<and> a * 128 + b div 2 \<noteq> 25353 \<and>
    (a * 256 + b) * 256 + c \<noteq> 12989284 \<and> (a * 256 + b) * 256 + c \<noteq> 13303921 \<and>
    a div 16 \<noteq> 14 \<and> a div 16 \<noteq> 15"
    unfolding public_ipv4 [OF p] unat_of_nat_32 [OF q(1)] special_tests q(2-8) ..
  also have "\<dots> \<longleftrightarrow> \<not> reserved_ipv4 a b c"
  proof -
    have d: "b div 64 < 4" "b div 16 < 16" "b div 2 < 128" using assms(2) by linarith+
    have two: "a * 256 + b = m * 256 + y \<longleftrightarrow> a = m \<and> b = y" if "y < 256" for m y
      using digit_eq [of b 256 y a m] assms that by simp
    have three: "(a * 256 + b) * 256 + c = (m * 256 + y) * 256 + z \<longleftrightarrow> a = m \<and> b = y \<and> c = z"
      if "y < 256" "z < 256" for m y z
      using digit_eq [of c 256 z "a * 256 + b" "m * 256 + y"] two [of y m] assms that by simp
    have e: "a * 4 + b div 64 = 401 \<longleftrightarrow> a = 100 \<and> b div 64 = 1" "a * 16 + b div 16 = 2753 \<longleftrightarrow> a = 172 \<and> b div 16 = 1"
      "a * 128 + b div 2 = 25353 \<longleftrightarrow> a = 198 \<and> b div 2 = 9" "a * 256 + b = 43518 \<longleftrightarrow> a = 169 \<and> b = 254"
      "a * 256 + b = 49320 \<longleftrightarrow> a = 192 \<and> b = 168"
      using digit_eq [of "b div 64" 4 1 a 100] digit_eq [of "b div 16" 16 1 a 172] digit_eq [of "b div 2" 128 9 a 198]
        d two [of 254 169] two [of 168 192] by simp_all
    have t: "(a * 256 + b) * 256 + c = 12582912 \<longleftrightarrow> a = 192 \<and> b = 0 \<and> c = 0"
      "(a * 256 + b) * 256 + c = 12582914 \<longleftrightarrow> a = 192 \<and> b = 0 \<and> c = 2"
      "(a * 256 + b) * 256 + c = 12989284 \<longleftrightarrow> a = 198 \<and> b = 51 \<and> c = 100"
      "(a * 256 + b) * 256 + c = 13303921 \<longleftrightarrow> a = 203 \<and> b = 0 \<and> c = 113"
      using three [of 0 0 192] three [of 0 2 192] three [of 51 100 198] three [of 0 113 203] by simp_all
    have r: "b div 64 = 1 \<longleftrightarrow> 64 \<le> b \<and> b < 128" "b div 16 = 1 \<longleftrightarrow> 16 \<le> b \<and> b < 32" "b div 2 = 9 \<longleftrightarrow> b = 18 \<or> b = 19"
      "a div 16 \<noteq> 14 \<and> a div 16 \<noteq> 15 \<longleftrightarrow> \<not> 224 \<le> a" using assms(1,2) by linarith+
    show ?thesis unfolding reserved_ipv4_def e t r insert_iff empty_iff by argo
  qed
  finally show ?thesis .
qed

section \<open>IPv6 literals\<close>

lemma replicate_small: "replicate 2 x = [x, x]" "replicate 3 x = [x, x, x]" "replicate 4 x = [x, x, x, x]"
  "replicate 5 x = [x, x, x, x, x]" "replicate 6 x = [x, x, x, x, x, x]" "replicate 7 x = [x, x, x, x, x, x, x]"
  "replicate 8 x = [x, x, x, x, x, x, x, x]"
  by (simp_all add: numeral_eq_Suc)

lemmas ipv6_eval = parseIpv6_def Let_def parseHalf_def ascii_lower_def is_upper_def parseIpv4_def is_lower_hex_def
  is_digit_def lower_hex_value_def words_value_def replicate_small push_bit_eq_mult

lemma special_ipv6_values:
  "map (\<lambda>(base, p). (parseIpv6 base, p)) SPECIAL_IPV6_RANGES =
     [(Some 0, 128), (Some 1, 128), (Some (0xffff * 2 ^ 32), 96), (Some (0x64ff9b * 2 ^ 96), 96),
      (Some (0x64ff9b * 2 ^ 96 + 2 ^ 80), 48), (Some (0x100 * 2 ^ 112), 64), (Some (0x2001 * 2 ^ 112), 23),
      (Some (0x20010db8 * 2 ^ 96), 32), (Some (0x2002 * 2 ^ 112), 16), (Some (0xfc00 * 2 ^ 112), 7),
      (Some (0xfe80 * 2 ^ 112), 10), (Some (0xff00 * 2 ^ 112), 8)]"
  by (simp add: SPECIAL_IPV6_RANGES_def ipv6_eval)

text \<open>The special-use blocks of IPv6 by their leading bits, in the order of the source.\<close>

definition reserved_ipv6 :: "nat \<Rightarrow> bool" where
  "reserved_ipv6 v =
     (v = 0 \<or> v = 1 \<or> v div 2 ^ 32 = 0xffff \<or> v div 2 ^ 32 = 0x64ff9b * 2 ^ 64 \<or> v div 2 ^ 80 = 0x64ff9b * 2 ^ 16 + 1 \<or>
      v div 2 ^ 64 = 0x100 * 2 ^ 48 \<or> v div 2 ^ 105 = 0x2001 * 2 ^ 7 \<or> v div 2 ^ 96 = 0x20010db8 \<or>
      v div 2 ^ 112 = 0x2002 \<or> v div 2 ^ 121 = 126 \<or> v div 2 ^ 118 = 0x3fa \<or> v div 2 ^ 120 = 0xff)"

lemma list_ex_option:
  "list_ex (\<lambda>(base, p). case f base of None \<Rightarrow> False | Some b \<Rightarrow> Q b p) rs =
   list_ex (\<lambda>(o', p). case o' of None \<Rightarrow> False | Some b \<Rightarrow> Q b p) (map (\<lambda>(base, p). (f base, p)) rs)"
  by (induction rs) auto

lemma public_ipv6:
  assumes "parseIpv4 raw = None" "parseIpv6 (strip_brackets raw) = Some v"
  shows "isPublicInternetAddress raw \<longleftrightarrow> \<not> reserved_ipv6 v"
proof -
  have "isPublicInternetAddress raw \<longleftrightarrow>
    \<not> list_ex (\<lambda>(base, p). case parseIpv6 base of None \<Rightarrow> False | Some b \<Rightarrow> ipv6InCidr v b p) SPECIAL_IPV6_RANGES"
    using assms by (simp add: isPublicInternetAddress_def)
  also have "\<dots> \<longleftrightarrow> \<not> list_ex (\<lambda>(o', p). case o' of None \<Rightarrow> False | Some b \<Rightarrow> ipv6InCidr v b p)
      (map (\<lambda>(base, p). (parseIpv6 base, p)) SPECIAL_IPV6_RANGES)"
    by (subst list_ex_option) (rule refl)
  finally show ?thesis
    unfolding special_ipv6_values reserved_ipv6_def by (simp add: ipv6InCidr_def drop_bit_eq_div)
qed

section \<open>Properties\<close>

text \<open>
  \<open>isPublicInternetAddress\<close> refuses exactly the special-use addresses: a dotted quad is public
  unless its octets lie in one of the reserved IPv4 blocks, an IPv6 literal (bracketed or not) is
  public unless its leading bits are those of a reserved block, the mapped IPv4 addresses among
  them, and whatever is neither literal is not public. The 32-bit mask arithmetic thus agrees with
  the division of the address by a power of two.
\<close>

theorem public_address_exact:
  "(a < 256 \<and> b < 256 \<and> c < 256 \<and> d < 256 \<longrightarrow>
      (isPublicInternetAddress (dotted a b c d) \<longleftrightarrow> \<not> reserved_ipv4 a b c)) \<and>
   (parseIpv4 raw = None \<longrightarrow>
      (isPublicInternetAddress raw \<longleftrightarrow>
         (case parseIpv6 (strip_brackets raw) of None \<Rightarrow> False | Some v \<Rightarrow> \<not> reserved_ipv6 v)))"
  using public_dotted public_ipv6 [of raw] by (auto simp: isPublicInternetAddress_def split: option.split)

theorem public_address_exact_witness:
  "isPublicInternetAddress (dotted 8 8 8 8) \<and> \<not> isPublicInternetAddress (dotted 172 31 0 9) \<and>
   \<not> isPublicInternetAddress ''[::1]''"
proof -
  have "parseIpv4 ''[::1]'' = None" "parseIpv6 (strip_brackets ''[::1]'') = Some 1"
    by (simp_all add: strip_brackets_def ipv6_eval)
  then show ?thesis
    using public_address_exact [of 8 8 8 8 "''[::1]''"] public_address_exact [of 172 31 0 9 "''[::1]''"]
    by (simp add: reserved_ipv4_def reserved_ipv6_def)
qed

end
