(* ===== verification/Public_Fetch.thy ===== *)
theory Public_Fetch
  imports Http Addresses
begin

text \<open>
  The fetching part of \<open>src/oauth/client-id-metadata.ts\<close>: host resolution over DNS-over-HTTPS,
  the bounded reading of a JSON body, and \<open>fetchPublicJson\<close>, which follows redirects by hand and
  checks every target before it is contacted. The function returns, beside its result, the URLs it
  contacted, in order.
\<close>

definition CLIENT_METADATA_MAX_BYTES :: nat where "CLIENT_METADATA_MAX_BYTES = 5 * 1024"
definition DNS_RESPONSE_MAX_BYTES :: nat where "DNS_RESPONSE_MAX_BYTES = 16 * 1024"
definition CLIENT_METADATA_MAX_REDIRECTS :: nat where "CLIENT_METADATA_MAX_REDIRECTS = 3"

datatype fetch_error = ClientIdMetadataError string | FetchFailure string

definition hr_header :: "http_response \<Rightarrow> string \<Rightarrow> string option" where
  "hr_header r name = map_of (hr_headers r) name"

section \<open>readBoundedJson\<close>

text \<open>The loop over the chunks; \<open>None\<close> when the running length passes the maximum.\<close>

fun read_chunks :: "nat \<Rightarrow> nat \<Rightarrow> byte list list \<Rightarrow> byte list option" where
  "read_chunks maximumBytes length' [] = Some []"
| "read_chunks maximumBytes length' (value' # rest) =
     (let n = length' + length value'
      in if n > maximumBytes then None else map_option (\<lambda>bytes. value' @ bytes) (read_chunks maximumBytes n rest))"

definition readBoundedJson :: "network \<Rightarrow> http_response \<Rightarrow> nat \<Rightarrow> (fetch_error, json) result" where
  "readBoundedJson nw response maximumBytes =
     (if (case hr_contentLength response of None \<Rightarrow> False | Some n \<Rightarrow> n > maximumBytes) then
        Inl (ClientIdMetadataError ''Client metadata document is too large'')
      else case hr_body response of
        None \<Rightarrow> Inl (ClientIdMetadataError ''Client metadata document is empty'')
      | Some chunks \<Rightarrow>
          (case read_chunks maximumBytes 0 chunks of
             None \<Rightarrow> Inl (ClientIdMetadataError ''Client metadata document is too large'')
           | Some bytes \<Rightarrow>
               if hr_broken response then Inl (FetchFailure ''body stream failed'')
               else case nw_parseJson nw bytes of
                      None \<Rightarrow> Inl (ClientIdMetadataError ''Client metadata document is not valid JSON'')
                    | Some json \<Rightarrow> Inr json))"

section \<open>resolvePublicHost\<close>

definition dns_answer :: "json \<Rightarrow> (int \<times> string) option" where
  "dns_answer j =
     (case j of
        JObj ps \<Rightarrow> (case (jget ps ''type'', jget ps ''data'') of
                     (Some (JNum t), Some (JStr d)) \<Rightarrow> Some (t, d) | _ \<Rightarrow> None)
      | _ \<Rightarrow> None)"

fun all_some :: "'a option list \<Rightarrow> 'a list option" where
  "all_some [] = Some []"
| "all_some (x # xs) = Option.bind x (\<lambda>v. map_option (\<lambda>vs. v # vs) (all_some xs))"

text \<open>The schema of a DNS answer: its status and its records.\<close>

definition dnsResponseSchema :: "json \<Rightarrow> (int \<times> (int \<times> string) list) option" where
  "dnsResponseSchema j =
     (case j of
        JObj ps \<Rightarrow>
          (case jget ps ''Status'' of
             Some (JNum status) \<Rightarrow>
               (case jget ps ''Answer'' of
                  None \<Rightarrow> Some (status, [])
                | Some (JArr answers) \<Rightarrow> map_option (\<lambda>as. (status, as)) (all_some (map dns_answer answers))
                | _ \<Rightarrow> None)
           | _ \<Rightarrow> None)
      | _ \<Rightarrow> None)"

definition dns_query :: "network \<Rightarrow> string \<Rightarrow> int \<Rightarrow> (fetch_error, string list) result" where
  "dns_query nw hostname type =
     (case nw_dns nw hostname type of
        None \<Rightarrow> Inl (FetchFailure ''fetch failed'')
      | Some response \<Rightarrow>
          if \<not> (200 \<le> hr_status response \<and> hr_status response \<le> 299) then Inr []
          else case readBoundedJson nw response DNS_RESPONSE_MAX_BYTES of
                 Inl e \<Rightarrow> Inl e
               | Inr json \<Rightarrow>
                   (case dnsResponseSchema json of
                      Some (status, answers) \<Rightarrow>
                        Inr (if status = 0 then map snd (filter (\<lambda>a. fst a = type) answers) else [])
                    | None \<Rightarrow> Inr []))"

definition resolvePublicHost :: "network \<Rightarrow> string \<Rightarrow> (fetch_error, string list) result" where
  "resolvePublicHost nw hostname =
     (let literal = strip_brackets hostname
      in if parseIpv4 literal \<noteq> None \<or> parseIpv6 literal \<noteq> None then Inr [literal]
         else case (dns_query nw hostname 1, dns_query nw hostname 28) of
                (Inl e, _) \<Rightarrow> Inl e
              | (_, Inl e) \<Rightarrow> Inl e
              | (Inr a, Inr aaaa) \<Rightarrow>
                  (if a @ aaaa = [] then Inl (ClientIdMetadataError ''Client metadata host did not resolve'')
                   else Inr (a @ aaaa)))"

section \<open>fetchPublicJson\<close>

definition isSafePublicFetchUrl :: "url \<Rightarrow> bool" where
  "isSafePublicFetchUrl url =
     (url_protocol url = ''https:'' \<and> url_hostname url \<noteq> [] \<and> url_username url = [] \<and> url_password url = [] \<and>
      url_hash url = [])"

text \<open>The checks before a URL is contacted.\<close>

definition check_target :: "network \<Rightarrow> string list \<Rightarrow> url \<Rightarrow> (fetch_error, unit) result" where
  "check_target nw visited url =
     (if \<not> isSafePublicFetchUrl url \<or> url_href url \<in> set visited then
        Inl (ClientIdMetadataError ''Client metadata target URL is unsafe'')
      else case resolvePublicHost nw (url_hostname url) of
        Inl (ClientIdMetadataError m) \<Rightarrow> Inl (ClientIdMetadataError m)
      | Inl (FetchFailure _) \<Rightarrow> Inl (ClientIdMetadataError ''Client metadata host could not be resolved'')
      | Inr addresses \<Rightarrow>
          if addresses = [] \<or> list_ex (\<lambda>address. \<not> isPublicInternetAddress address) addresses then
            Inl (ClientIdMetadataError ''Client metadata host resolved to a special-use address'')
          else Inr ())"

text \<open>\<open>/^application\/[a-z0-9!#$&^_.+-]+\+json$/i\<close> and the plain type.\<close>

definition is_json_type :: "string \<Rightarrow> bool" where
  "is_json_type contentType =
     (contentType = ''application/json'' \<or>
      (let l = ascii_lower contentType; sub = drop 12 l; middle = take (length sub - 5) sub
       in take 12 l = ''application/'' \<and> length sub > 5 \<and> drop (length sub - 5) sub = ''+json'' \<and>
          list_all (\<lambda>c. is_lower c \<or> is_digit c \<or> c \<in> set ''!#$&^_.+-'') middle))"

definition content_type :: "http_response \<Rightarrow> string" where
  "content_type response =
     (case hr_header response ''content-type'' of
        None \<Rightarrow> [] | Some h \<Rightarrow> js_trim (takeWhile (\<lambda>c. c \<noteq> CHR '';'') h))"

text \<open>
  The loop of \<open>fetchPublicJson\<close>: \<open>left\<close> counts the redirects that may still be followed, so it is
  \<open>CLIENT_METADATA_MAX_REDIRECTS - redirects\<close>.
\<close>

fun fetch_loop ::
  "network \<Rightarrow> nat \<Rightarrow> nat \<Rightarrow> string list \<Rightarrow> url \<Rightarrow> (fetch_error, json \<times> http_response) result \<times> url list" where
  "fetch_loop nw maximumBytes left visited url =
     (case check_target nw visited url of
        Inl e \<Rightarrow> (Inl e, [])
      | Inr _ \<Rightarrow>
          (case nw_fetch nw url of
             None \<Rightarrow> (Inl (ClientIdMetadataError ''Client metadata document could not be fetched''), [url])
           | Some response \<Rightarrow>
               if hr_status response \<in> {301, 302, 303, 307, 308} then
                 (case (hr_header response ''location'', left) of
                    (Some location, Suc left') \<Rightarrow>
                      (case nw_relative nw location url of
                         None \<Rightarrow> (Inl (ClientIdMetadataError ''Client metadata redirect URL is invalid''), [url])
                       | Some next \<Rightarrow>
                           (let (r, urls) = fetch_loop nw maximumBytes left' (url_href url # visited) next
                            in (r, url # urls)))
                  | _ \<Rightarrow> (Inl (ClientIdMetadataError ''Client metadata redirect could not be followed safely''), [url]))
               else if hr_status response \<noteq> 200 then
                 (Inl (ClientIdMetadataError ''Client metadata endpoint did not return 200''), [url])
               else if \<not> is_json_type (content_type response) then
                 (Inl (ClientIdMetadataError ''Client metadata endpoint did not return JSON''), [url])
               else (map_sum id (\<lambda>json. (json, response)) (readBoundedJson nw response maximumBytes), [url])))"

definition fetchPublicJson ::
  "network \<Rightarrow> url \<Rightarrow> nat \<Rightarrow> (fetch_error, json \<times> http_response) result \<times> url list" where
  "fetchPublicJson nw initialUrl maximumBytes =
     fetch_loop nw maximumBytes CLIENT_METADATA_MAX_REDIRECTS [] initialUrl"

declare fetch_loop.simps [simp del]

section \<open>Laws\<close>

text \<open>A URL that may be contacted: https without credentials, every address of its host public.\<close>

definition public_target :: "network \<Rightarrow> url \<Rightarrow> bool" where
  "public_target nw url =
     (isSafePublicFetchUrl url \<and>
      (case resolvePublicHost nw (url_hostname url) of
         Inl _ \<Rightarrow> False
       | Inr addresses \<Rightarrow> addresses \<noteq> [] \<and> list_all isPublicInternetAddress addresses))"

lemma check_target_ok:
  "check_target nw visited url = Inr u \<longleftrightarrow> public_target nw url \<and> url_href url \<notin> set visited"
  by (auto simp: check_target_def public_target_def list_ex_iff list_all_iff split: sum.splits fetch_error.splits)

lemma read_chunks_bound: "read_chunks m n cs = Some bytes \<Longrightarrow> n \<le> m \<Longrightarrow> n + length bytes \<le> m"
proof (induction cs arbitrary: n bytes)
  case (Cons c cs)
  then obtain bs where "read_chunks m (n + length c) cs = Some bs" "bytes = c @ bs" "n + length c \<le> m"
    by (auto simp: Let_def split: if_splits)
  with Cons.IH [of "n + length c" bs] show ?case by simp
qed simp

text \<open>The URLs a run contacted: public targets, few, pairwise distinct and not visited before.\<close>

definition good_trace :: "network \<Rightarrow> nat \<Rightarrow> string list \<Rightarrow> url list \<Rightarrow> bool" where
  "good_trace nw n visited urls =
     (list_all (public_target nw) urls \<and> length urls \<le> n \<and> distinct (map url_href urls) \<and>
      set visited \<inter> url_href ` set urls = {})"

lemma fetch_loop_targets: "fetch_loop nw m left visited url = (r, urls) \<Longrightarrow> good_trace nw (Suc left) visited urls"
proof (induction nw m left visited url arbitrary: r urls rule: fetch_loop.induct)
  case (1 nw m left visited url)
  show ?case
  proof (cases "check_target nw visited url")
    case (Inl e)
    with 1(2) show ?thesis by (simp add: fetch_loop.simps [of nw m left visited url] good_trace_def)
  next
    case (Inr u)
    then have t: "public_target nw url" "url_href url \<notin> set visited" by (simp_all add: check_target_ok)
    show ?thesis
    proof (cases "urls = [url]")
      case True
      with t show ?thesis by (simp add: good_trace_def)
    next
      case False
      then obtain response location left' next' urls' where n: "nw_fetch nw url = Some response"
        "hr_status response \<in> {301, 302, 303, 307, 308}" "hr_header response ''location'' = Some location" "left = Suc left'"
        "nw_relative nw location url = Some next'" "fetch_loop nw m left' (url_href url # visited) next' = (r, urls')"
        "urls = url # urls'"
        using 1(2) Inr
        by (auto simp: fetch_loop.simps [of nw m left visited url] split: option.splits if_splits nat.splits prod.splits)
      from 1(1) [OF Inr n(1,2) refl n(3,4,5,6)] n(4,7) t show ?thesis by (auto simp: good_trace_def)
    qed
  qed
qed

definition document_ok :: "nat \<Rightarrow> http_response \<Rightarrow> bool" where
  "document_ok m response =
     (hr_status response = 200 \<and> is_json_type (content_type response) \<and>
      (\<exists>chunks. hr_body response = Some chunks \<and> length (concat chunks) \<le> m))"

lemma read_chunks_concat: "read_chunks m n cs = Some bytes \<Longrightarrow> bytes = concat cs"
  by (induction cs arbitrary: n bytes) (auto simp: Let_def split: if_splits)

lemma readBoundedJson_bound:
  assumes "readBoundedJson nw response m = Inr json"
  shows "\<exists>chunks. hr_body response = Some chunks \<and> length (concat chunks) \<le> m"
  using assms read_chunks_bound [of m 0] read_chunks_concat [of m 0]
  by (fastforce simp: readBoundedJson_def split: option.splits if_splits)

lemma fetch_loop_document:
  "fetch_loop nw m left visited url = (Inr (json, response), urls) \<Longrightarrow> document_ok m response"
proof (induction nw m left visited url arbitrary: urls rule: fetch_loop.induct)
  case (1 nw m left visited url)
  then obtain u answer where c: "check_target nw visited url = Inr u" "nw_fetch nw url = Some answer"
    by (auto simp: fetch_loop.simps [of nw m left visited url] split: sum.splits option.splits)
  show ?case
  proof (cases "hr_status answer \<in> {301, 302, 303, 307, 308}")
    case True
    with 1(2) c obtain location left' next' urls' where n: "hr_header answer ''location'' = Some location" "left = Suc left'"
      "nw_relative nw location url = Some next'"
      "fetch_loop nw m left' (url_href url # visited) next' = (Inr (json, response), urls')"
      by (auto simp: fetch_loop.simps [of nw m left visited url] split: option.splits if_splits nat.splits prod.splits)
    from 1(1) [OF c True refl n(1,2,3,4)] show ?thesis .
  next
    case False
    with 1(2) c have "hr_status answer = 200" "is_json_type (content_type answer)"
      "readBoundedJson nw answer m = Inr json" "response = answer"
      by (auto simp: fetch_loop.simps [of nw m left visited url] map_sum_def split: if_splits sum.splits)
    with readBoundedJson_bound show ?thesis by (simp add: document_ok_def)
  qed
qed

section \<open>A concrete fetch\<close>

definition demo_fetch_url :: url where
  "demo_fetch_url = \<lparr>url_protocol = ''https:'', url_username = [], url_password = [], url_hostname = ''8.8.8.8'',
     url_origin = ''https://8.8.8.8'', url_pathname = ''/c'', url_search = [], url_hash = [],
     url_prefix = ''https://8.8.8.8''\<rparr>"

definition demo_fetch_network :: "json \<Rightarrow> network" where
  "demo_fetch_network document = demo_network\<lparr>
     nw_fetch := (\<lambda>u. Some \<lparr>hr_status = 200, hr_headers = [(''content-type'', ''application/json; charset=utf-8'')],
       hr_contentLength = None, hr_body = Some [[123], [125]], hr_broken = False\<rparr>),
     nw_parseJson := (\<lambda>b. Some document)\<rparr>"

lemma demo_public_host: "isPublicInternetAddress ''8.8.8.8''" "parseIpv4 ''8.8.8.8'' \<noteq> None"
proof -
  have "dotted 8 8 8 8 = ''8.8.8.8''" by (simp add: dotted_def nat_string.simps char_eq_code)
  with public_dotted [of 8 8 8 8] parse_dotted [of 8 8 8 8]
  show "isPublicInternetAddress ''8.8.8.8''" "parseIpv4 ''8.8.8.8'' \<noteq> None" by (simp_all add: reserved_ipv4_def)
qed

lemma demo_fetch:
  assumes "2 \<le> m"
  shows "\<exists>response. fetchPublicJson (demo_fetch_network document) demo_fetch_url m = (Inr (document, response), [demo_fetch_url])"
  using demo_public_host assms
  by (simp add: fetchPublicJson_def fetch_loop.simps check_target_def isSafePublicFetchUrl_def demo_fetch_url_def
      resolvePublicHost_def strip_brackets_def Let_def demo_fetch_network_def is_json_type_def content_type_def hr_header_def
      js_trim_def is_ws_def readBoundedJson_def)

section \<open>Properties\<close>

text \<open>
  C19. \<open>fetchPublicJson\<close> contacts public targets only: every URL it sends a request to, the redirect
  targets included, is an https URL without credentials and fragment whose host resolved to at
  least one address and to public addresses alone; there are at most four requests, never two to
  the same URL; and a document it returns came with status 200 and a JSON type in at most the given
  number of bytes.
\<close>

theorem public_fetch_confined:
  assumes "fetchPublicJson nw initialUrl maximumBytes = (r, urls)"
  shows "list_all (public_target nw) urls \<and> length urls \<le> 4 \<and> distinct (map url_href urls) \<and>
    (case r of Inl _ \<Rightarrow> True
     | Inr (json, response) \<Rightarrow>
         hr_status response = 200 \<and> is_json_type (content_type response) \<and>
         (\<exists>chunks. hr_body response = Some chunks \<and> length (concat chunks) \<le> maximumBytes))"
proof -
  have "good_trace nw 4 [] urls"
    using fetch_loop_targets assms by (fastforce simp: fetchPublicJson_def CLIENT_METADATA_MAX_REDIRECTS_def)
  moreover have "case r of Inl _ \<Rightarrow> True | Inr (json, response) \<Rightarrow> document_ok maximumBytes response"
    using fetch_loop_document assms by (cases r) (auto simp: fetchPublicJson_def)
  ultimately show ?thesis by (auto simp: good_trace_def document_ok_def split: sum.splits)
qed

theorem public_fetch_confined_witness: "public_target (demo_fetch_network JNull) demo_fetch_url"
proof -
  obtain response where "fetchPublicJson (demo_fetch_network JNull) demo_fetch_url 5120 =
      (Inr (JNull, response), [demo_fetch_url])" using demo_fetch [of 5120 JNull] by auto
  from public_fetch_confined [OF this] show ?thesis by simp
qed

end
