(* ===== verification/Client_Auth.thy ===== *)
theory Client_Auth
  imports Public_Fetch
begin

text \<open>
  \<open>src/oauth/client-identifier.ts\<close>, \<open>src/oauth/request-limits.ts\<close>,
  \<open>src/oauth/private-key-jwt.ts\<close> and \<open>src/oauth/clients.ts\<close>: the syntax and bounds of OAuth
  parameters, and how a client proves its identity.
\<close>

section \<open>client-identifier.ts\<close>

definition CLIENT_IDENTIFIER_URL_MAX_BYTES :: nat where "CLIENT_IDENTIFIER_URL_MAX_BYTES = 2048"

definition STATIC_CLIENT_ID_PATTERN :: "string \<Rightarrow> bool" where
  "STATIC_CLIENT_ID_PATTERN raw =
     (case raw of
        [] \<Rightarrow> False
      | c # cs \<Rightarrow> is_alnum c \<and> length cs \<le> 127 \<and> list_all (\<lambda>d. is_alnum d \<or> d \<in> set ''._~-'') cs)"

fun contains :: "string \<Rightarrow> string \<Rightarrow> bool" where
  "contains p [] = (p = [])"
| "contains p (c # s) = (starts_with p (c # s) \<or> contains p s)"

text \<open>The path of the text itself: from the first slash at or after position 8 (\<open>https://\<close>).\<close>

definition raw_path :: "string \<Rightarrow> string" where
  "raw_path raw =
     (let front = takeWhile (\<lambda>c. c \<noteq> CHR ''?'' \<and> c \<noteq> CHR ''#'') raw
      in dropWhile (\<lambda>c. c \<noteq> CHR ''/'') (drop 8 front))"

definition has_dot_segment :: "string \<Rightarrow> bool" where
  "has_dot_segment path = list_ex (\<lambda>s. single_dot s \<or> double_dot s) (js_split (CHR ''/'') path)"

definition parseClientIdentifierUrl :: "url_parser \<Rightarrow> string \<Rightarrow> url option" where
  "parseClientIdentifierUrl parse_url raw =
     (if utf8_length raw > CLIENT_IDENTIFIER_URL_MAX_BYTES then None
      else if CHR ''?'' \<in> set raw \<or> CHR ''#'' \<in> set raw \<or> CHR ''*'' \<in> set raw \<or>
        contains ''%2a'' (ascii_lower raw) then None
      else case parse_url raw of
        None \<Rightarrow> None
      | Some url \<Rightarrow>
          if url_protocol url \<noteq> ''https:'' \<or> url_hostname url = [] \<or> url_username url \<noteq> [] \<or>
             url_password url \<noteq> [] \<or> url_hash url \<noteq> [] \<or> url_pathname url = [] \<or>
             url_pathname url = ''/'' \<or> url_search url \<noteq> [] then None
          else if list_ex (\<lambda>s. s = ''.'' \<or> s = ''..'') (js_split (CHR ''/'') (url_pathname url)) then None
          else if has_dot_segment (raw_path raw) then None
          else Some url)"

definition isValidOAuthClientId :: "url_parser \<Rightarrow> string \<Rightarrow> bool" where
  "isValidOAuthClientId parse_url raw =
     (STATIC_CLIENT_ID_PATTERN raw \<or> parseClientIdentifierUrl parse_url raw \<noteq> None)"

section \<open>request-limits.ts\<close>

definition OAUTH_FORM_MAX_PARAMETERS :: nat where "OAUTH_FORM_MAX_PARAMETERS = 32"
definition OAUTH_FORM_MAX_BODY_BYTES :: nat where "OAUTH_FORM_MAX_BODY_BYTES = 64 * 1024"
definition OAUTH_PARAMETER_NAME_MAX_BYTES :: nat where "OAUTH_PARAMETER_NAME_MAX_BYTES = 64"
definition OAUTH_PARAMETER_DEFAULT_MAX_BYTES :: nat where "OAUTH_PARAMETER_DEFAULT_MAX_BYTES = 2048"
definition OAUTH_STATIC_CLIENT_ID_MAX_BYTES :: nat where "OAUTH_STATIC_CLIENT_ID_MAX_BYTES = 128"
definition OAUTH_CLIENT_SECRET_MAX_BYTES :: nat where "OAUTH_CLIENT_SECRET_MAX_BYTES = 512"

definition OAUTH_PARAMETER_MAX_BYTES :: "(string \<times> nat) list" where
  "OAUTH_PARAMETER_MAX_BYTES =
     [(''client_id'', CLIENT_IDENTIFIER_URL_MAX_BYTES), (''client_secret'', OAUTH_CLIENT_SECRET_MAX_BYTES),
      (''grant_type'', 128), (''client_assertion_type'', 128), (''client_assertion'', 16 * 1024),
      (''code'', 512), (''redirect_uri'', 2048), (''code_verifier'', 128), (''refresh_token'', 512),
      (''device_code'', 512), (''scope'', 4096), (''resource'', 2048), (''token'', 16 * 1024),
      (''token_type_hint'', 64), (''response_type'', 64), (''state'', 2048), (''nonce'', 512),
      (''code_challenge'', 128), (''code_challenge_method'', 64), (''prompt'', 128), (''max_age'', 20),
      (''id_token_hint'', 16 * 1024), (''post_logout_redirect_uri'', 2048), (''_keyforge_reauth'', 32)]"

definition OAUTH_BASIC_CREDENTIALS_MAX_ENCODED_BYTES :: nat where
  "OAUTH_BASIC_CREDENTIALS_MAX_ENCODED_BYTES =
     4 * ((OAUTH_STATIC_CLIENT_ID_MAX_BYTES + 1 + OAUTH_CLIENT_SECRET_MAX_BYTES + 2) div 3)"

definition OAUTH_PARAMETER_NAME :: "string \<Rightarrow> bool" where
  "OAUTH_PARAMETER_NAME name = (name \<noteq> [] \<and> list_all (\<lambda>c. is_alnum c \<or> c \<in> set ''._-'') name)"

definition REAUTH_CONTINUATION_PATTERN :: "string \<Rightarrow> bool" where
  "REAUTH_CONTINUATION_PATTERN v = (length v = 32 \<and> list_all is_b64url_char v)"

datatype OAuthParameterLimitFailure = invalid_name | invalid_value | value_too_long

text \<open>
  \<open>OAUTH_PARAMETER_MAX_BYTES[name]\<close> also finds what the object inherits from \<open>Object.prototype\<close>:
  a function or an object, which is no bound (\<open>length <= f\<close> is false).
\<close>

definition INHERITED_NAMES :: "string list" where
  "INHERITED_NAMES = [''constructor'', ''__defineGetter__'', ''__defineSetter__'', ''hasOwnProperty'', ''__lookupGetter__'',
     ''__lookupSetter__'', ''isPrototypeOf'', ''propertyIsEnumerable'', ''toString'', ''valueOf'', ''__proto__'',
     ''toLocaleString'']"

datatype parameter_maximum = Bytes nat | Inherited

definition oauthParameterMaximumBytes :: "string \<Rightarrow> parameter_maximum" where
  "oauthParameterMaximumBytes name =
     (case map_of OAUTH_PARAMETER_MAX_BYTES name of
        Some n \<Rightarrow> Bytes n
      | None \<Rightarrow> if name \<in> set INHERITED_NAMES then Inherited else Bytes OAUTH_PARAMETER_DEFAULT_MAX_BYTES)"

definition validateOAuthParameter ::
  "url_parser \<Rightarrow> string \<Rightarrow> string \<Rightarrow> OAuthParameterLimitFailure option" where
  "validateOAuthParameter parse_url name val =
     (if name = [] \<or> utf8_length name > OAUTH_PARAMETER_NAME_MAX_BYTES \<or> \<not> OAUTH_PARAMETER_NAME name
      then Some invalid_name
      else if name = ''client_id'' \<and> \<not> isValidOAuthClientId parse_url val then Some invalid_value
      else if name = ''_keyforge_reauth'' \<and> \<not> REAUTH_CONTINUATION_PATTERN val then Some invalid_value
      else case oauthParameterMaximumBytes name of
             Bytes maximum \<Rightarrow> if utf8_length val \<le> maximum then None else Some value_too_long
           | Inherited \<Rightarrow> Some value_too_long)"

datatype OAuthParameterSetFailure = too_many_parameters | parameter_failure OAuthParameterLimitFailure

fun validate_params ::
  "url_parser \<Rightarrow> nat \<Rightarrow> form \<Rightarrow> OAuthParameterSetFailure option" where
  "validate_params parse_url count [] = None"
| "validate_params parse_url count ((name, val) # ps) =
     (if count + 1 > OAUTH_FORM_MAX_PARAMETERS then Some too_many_parameters
      else case validateOAuthParameter parse_url name val of
             Some failure \<Rightarrow> Some (parameter_failure failure)
           | None \<Rightarrow> validate_params parse_url (count + 1) ps)"

definition validateOAuthParameterSet :: "url_parser \<Rightarrow> form \<Rightarrow> OAuthParameterSetFailure option" where
  "validateOAuthParameterSet parse_url parameters = validate_params parse_url 0 parameters"

section \<open>private-key-jwt.ts\<close>

definition CLIENT_ASSERTION_MAX_LIFETIME_SECONDS :: int where "CLIENT_ASSERTION_MAX_LIFETIME_SECONDS = 5 * 60"
definition CLIENT_ASSERTION_CLOCK_TOLERANCE_SECONDS :: int where "CLIENT_ASSERTION_CLOCK_TOLERANCE_SECONDS = 5"
definition CLIENT_JWKS_MAX_BYTES :: nat where "CLIENT_JWKS_MAX_BYTES = 16 * 1024"
definition CLIENT_JWKS_MAX_KEYS :: nat where "CLIENT_JWKS_MAX_KEYS = 16"
definition CLIENT_ASSERTION_ALGORITHMS :: "string list" where
  "CLIENT_ASSERTION_ALGORITHMS = [''RS256'', ''PS256'', ''ES256'', ''EdDSA'']"
definition PRIVATE_JWK_FIELDS :: "string list" where
  "PRIVATE_JWK_FIELDS = [''d'', ''p'', ''q'', ''dp'', ''dq'', ''qi'', ''oth'', ''k'']"
definition JWT_BEARER_CLIENT_ASSERTION_TYPE :: string where
  "JWT_BEARER_CLIENT_ASSERTION_TYPE = ''urn:ietf:params:oauth:client-assertion-type:jwt-bearer''"

definition json_string_in :: "string list \<Rightarrow> json option \<Rightarrow> bool" where
  "json_string_in vs v = (case v of Some (JStr s) \<Rightarrow> s \<in> set vs | _ \<Rightarrow> False)"

definition json_strings :: "json \<Rightarrow> string list option" where
  "json_strings v =
     (case v of
        JArr xs \<Rightarrow> (if list_all (\<lambda>x. case x of JStr _ \<Rightarrow> True | _ \<Rightarrow> False) xs
                    then Some (map (\<lambda>x. case x of JStr s \<Rightarrow> s | _ \<Rightarrow> []) xs) else None)
      | _ \<Rightarrow> None)"

definition publicJwkSchema :: "json \<Rightarrow> bool" where
  "publicJwkSchema key =
     (case key of
        JObj ps \<Rightarrow>
          json_string_in [''RSA'', ''EC'', ''OKP''] (jget ps ''kty'') \<and>
          (case jget ps ''kid'' of Some (JStr kid) \<Rightarrow> 1 \<le> length kid \<and> length kid \<le> 256 | _ \<Rightarrow> False) \<and>
          (jget ps ''use'' = None \<or> jget ps ''use'' = Some (JStr ''sig'')) \<and>
          (jget ps ''alg'' = None \<or> json_string_in CLIENT_ASSERTION_ALGORITHMS (jget ps ''alg'')) \<and>
          (case jget ps ''key_ops'' of None \<Rightarrow> True
           | Some v \<Rightarrow> (case json_strings v of None \<Rightarrow> False | Some ops \<Rightarrow> ''verify'' \<in> set ops)) \<and>
          \<not> list_ex (\<lambda>f. jget ps f \<noteq> None) PRIVATE_JWK_FIELDS
      | _ \<Rightarrow> False)"

definition jwk_kid :: "json \<Rightarrow> string option" where
  "jwk_kid key =
     (case key of JObj ps \<Rightarrow> (case jget ps ''kid'' of Some (JStr kid) \<Rightarrow> Some kid | _ \<Rightarrow> None) | _ \<Rightarrow> None)"

definition jwksSchema :: "json \<Rightarrow> bool" where
  "jwksSchema document =
     (case document of
        JObj ps \<Rightarrow>
          list_all (\<lambda>p. fst p = ''keys'') ps \<and>
          (case jget ps ''keys'' of
             Some (JArr keys) \<Rightarrow>
               1 \<le> length keys \<and> length keys \<le> CLIENT_JWKS_MAX_KEYS \<and> list_all publicJwkSchema keys \<and>
               length (js_dedup (map jwk_kid keys)) = length keys
           | _ \<Rightarrow> False)
      | _ \<Rightarrow> False)"

datatype assertion_error = PrivateKeyJwtError string | AssertionFailure failure

text \<open>The lifetime and replay-id checks on a verified assertion.\<close>

definition assertion_claims_ok :: "int \<Rightarrow> (string \<times> json) list \<Rightarrow> (string \<times> int) option" where
  "assertion_claims_ok now payload =
     (case (jget payload ''iat'', jget payload ''exp'', jget payload ''jti'') of
        (Some (JNum iat), Some (JNum exp), Some (JStr jti)) \<Rightarrow>
          (if iat < now - CLIENT_ASSERTION_MAX_LIFETIME_SECONDS \<or>
              iat > now + CLIENT_ASSERTION_CLOCK_TOLERANCE_SECONDS \<or>
              exp \<le> now - CLIENT_ASSERTION_CLOCK_TOLERANCE_SECONDS \<or>
              exp > now + CLIENT_ASSERTION_MAX_LIFETIME_SECONDS \<or> length jti < 1 \<or> length jti > 256
           then None else Some (jti, exp))
      | _ \<Rightarrow> None)"

definition jti_hash :: "platform \<Rightarrow> string \<Rightarrow> string \<Rightarrow> string" where
  "jti_hash pf clientId jti = sha256Hex (pf_crypto pf) (clientId @ [CHR 0x00] @ jti)"

text \<open>The fetch of the client's key set, with the errors it is turned into.\<close>

definition fetch_client_jwks :: "platform \<Rightarrow> string \<Rightarrow> (assertion_error, json) result" where
  "fetch_client_jwks pf jwksUri =
     (case pf_url pf jwksUri of
        None \<Rightarrow> Inl (AssertionFailure (OtherFailure ''Invalid URL''))
      | Some url \<Rightarrow>
          (case fst (fetchPublicJson (pf_network pf) url CLIENT_JWKS_MAX_BYTES) of
             Inl (ClientIdMetadataError _) \<Rightarrow> Inl (PrivateKeyJwtError ''Client JWKS could not be fetched safely'')
           | Inl (FetchFailure m) \<Rightarrow> Inl (AssertionFailure (OtherFailure m))
           | Inr (document, _) \<Rightarrow> Inr document))"

definition verifyPrivateKeyJwt ::
  "platform \<Rightarrow> OAuthClient \<Rightarrow> string \<Rightarrow> string \<Rightarrow> world \<Rightarrow> (assertion_error, unit) result \<times> world" where
  "verifyPrivateKeyJwt pf client assertion audience w =
     (case oc_metadataJwksUri client of
        Some jwksUri \<Rightarrow>
          if oc_registrationType client \<noteq> client_id_metadata \<or>
             private_key_jwt \<notin> set (oc_tokenEndpointAuthMethods client) then
            (Inl (PrivateKeyJwtError ''Client is not configured for private_key_jwt''), w)
          else case fetch_client_jwks pf jwksUri of
            Inl e \<Rightarrow> (Inl e, w)
          | Inr document \<Rightarrow>
              if \<not> jwksSchema document then
                (Inl (PrivateKeyJwtError ''Client JWKS is malformed or unsafe''), w)
              else case pf_clientJwtVerify pf assertion document (oc_clientId client) audience
                          CLIENT_ASSERTION_CLOCK_TOLERANCE_SECONDS of
                None \<Rightarrow> (Inl (PrivateKeyJwtError ''Client assertion signature or claims are invalid''), w)
              | Some payload \<Rightarrow>
                  (case assertion_claims_ok (pf_now pf) payload of
                     None \<Rightarrow> (Inl (PrivateKeyJwtError ''Client assertion lifetime or jti is invalid''), w)
                   | Some (jti, exp) \<Rightarrow>
                       (let h = jti_hash pf (oc_clientId client) jti
                        in if pf_d1_fails pf ''assertion-jti'' then (Inl (AssertionFailure DatabaseFailure), w)
                           else if h \<in> fst ` set (w_assertion_jtis w) then
                             (Inl (PrivateKeyJwtError ''Client assertion was already used''), w)
                           else (Inr (), w\<lparr>w_assertion_jtis := w_assertion_jtis w @
                                  [(h, oc_clientId client, exp, pf_now pf)]\<rparr>)))
      | None \<Rightarrow> (Inl (PrivateKeyJwtError ''Client is not configured for private_key_jwt''), w))"

section \<open>clients.ts\<close>

text \<open>
  \<open>new TextDecoder().decode(bytes)\<close> on the encodings of Latin-1 text; \<open>None\<close> stands for a text
  outside of the modelled alphabet, which \<open>decodeBasic\<close> treats here as a failed decode.
\<close>

fun utf8_decode :: "byte list \<Rightarrow> string option" where
  "utf8_decode [] = Some []"
| "utf8_decode (b # bs) =
     (if unat b < 128 then map_option (\<lambda>s. char_of (unat b) # s) (utf8_decode bs)
      else (case bs of
              [] \<Rightarrow> None
            | c # cs \<Rightarrow>
                if (unat b = 194 \<or> unat b = 195) \<and> 128 \<le> unat c \<and> unat c < 192
                then map_option (\<lambda>s. char_of ((unat b - 192) * 64 + (unat c - 128)) # s) (utf8_decode cs)
                else None))"

text \<open>\<open>/^[A-Za-z0-9+/]*={0,2}$/\<close>.\<close>

definition base64_pattern :: "string \<Rightarrow> bool" where
  "base64_pattern s = (dropWhile (\<lambda>c. is_alnum c \<or> c \<in> set ''+/'') s \<in> {[], ''='', ''==''})"

definition decodeBasic :: "url_parser \<Rightarrow> string \<Rightarrow> (string \<times> string) option" where
  "decodeBasic parse_url header =
     (let encoded = js_trim (drop 6 header)
      in if encoded = [] \<or> length encoded > OAUTH_BASIC_CREDENTIALS_MAX_ENCODED_BYTES \<or> \<not> base64_pattern encoded
         then None
         else case Option.bind (atob encoded) utf8_decode of
           None \<Rightarrow> None
         | Some decoded \<Rightarrow>
             (case js_index_of (CHR '':'') decoded of
                None \<Rightarrow> None
              | Some separator \<Rightarrow>
                  (let clientId = take separator decoded; clientSecret = drop (separator + 1) decoded
                   in if validateOAuthParameter parse_url ''client_id'' clientId \<noteq> None \<or>
                         validateOAuthParameter parse_url ''client_secret'' clientSecret \<noteq> None
                      then None else Some (clientId, clientSecret))))"

record PresentedCredentials =
  pc_clientId :: string
  pc_clientSecret :: "string option"
  pc_method :: TokenEndpointAuthMethod
  pc_clientAssertion :: "string option"

text \<open>\<open>/^Basic /i\<close>.\<close>

definition is_basic :: "string \<Rightarrow> bool" where
  "is_basic header = (ascii_lower (take 6 header) = ''basic '')"

text \<open>The part of \<open>extractCredentials\<close> that reads the body.\<close>

definition form_credentials :: "url_parser \<Rightarrow> form \<Rightarrow> PresentedCredentials option" where
  "form_credentials parse_url form =
     (case form_get form ''client_id'' of
        None \<Rightarrow> None
      | Some formClientId \<Rightarrow>
          (let formSecret = form_get form ''client_secret'';
               assertion = form_get form ''client_assertion'';
               assertionType = form_get form ''client_assertion_type''
           in if validateOAuthParameter parse_url ''client_id'' formClientId \<noteq> None \<or>
                 (case formSecret of None \<Rightarrow> False
                  | Some s \<Rightarrow> validateOAuthParameter parse_url ''client_secret'' s \<noteq> None) then None
              else if assertion \<noteq> None \<or> assertionType \<noteq> None then
                (if assertion = None \<or> assertionType \<noteq> Some JWT_BEARER_CLIENT_ASSERTION_TYPE \<or> formSecret \<noteq> None
                 then None
                 else Some \<lparr>pc_clientId = formClientId, pc_clientSecret = None, pc_method = private_key_jwt,
                        pc_clientAssertion = assertion\<rparr>)
              else Some \<lparr>pc_clientId = formClientId, pc_clientSecret = formSecret,
                     pc_method = (if formSecret = None then auth_none else client_secret_post),
                     pc_clientAssertion = None\<rparr>))"

definition extractCredentials :: "url_parser \<Rightarrow> request \<Rightarrow> form \<Rightarrow> PresentedCredentials option" where
  "extractCredentials parse_url rq form =
     (case rq_header rq ''authorization'' of
        None \<Rightarrow> form_credentials parse_url form
      | Some authHeader \<Rightarrow>
          if is_basic authHeader then
            map_option (\<lambda>(clientId, clientSecret). \<lparr>pc_clientId = clientId, pc_clientSecret = Some clientSecret,
              pc_method = client_secret_basic, pc_clientAssertion = None\<rparr>) (decodeBasic parse_url authHeader)
          else form_credentials parse_url form)"

definition client_failed :: "string \<Rightarrow> 'a io" where
  "client_failed detail = throw_oauth_status invalid_client 401 ''Client authentication failed'' detail"

fun auth_method_name :: "TokenEndpointAuthMethod \<Rightarrow> string" where
  "auth_method_name client_secret_basic = ''client_secret_basic''"
| "auth_method_name client_secret_post = ''client_secret_post''"
| "auth_method_name auth_none = ''none''"
| "auth_method_name private_key_jwt = ''private_key_jwt''"

text \<open>The proof of identity, after the client and its method are settled and outside of YOLO mode.\<close>

definition prove_client ::
  "platform \<Rightarrow> request \<Rightarrow> PresentedCredentials \<Rightarrow> OAuthClient \<Rightarrow> unit io" where
  "prove_client pf rq credentials client w =
     (let clientId = pc_clientId credentials
      in if pc_method credentials = private_key_jwt then
           (case pc_clientAssertion credentials of
              None \<Rightarrow> client_failed ''private_key_jwt assertion missing after credential parsing'' w
            | Some assertion \<Rightarrow>
                (case pf_url pf (rq_url rq) of
                   None \<Rightarrow> io_throw (OtherFailure ''Invalid URL'') w
                 | Some requestUrl \<Rightarrow>
                     (case verifyPrivateKeyJwt pf client assertion
                             (url_origin requestUrl @ url_pathname requestUrl) w of
                        (Inr _, w1) \<Rightarrow> (Inr (), w1)
                      | (Inl (AssertionFailure e), w1) \<Rightarrow> io_throw e w1
                      | (Inl (PrivateKeyJwtError _), w1) \<Rightarrow>
                          client_failed (''private_key_jwt verification failed for '' @ clientId) w1)))
         else if oc_type client = confidential then
           (case (pc_clientSecret credentials, oc_clientSecretHash client) of
              (Some secret, Some stored) \<Rightarrow>
                (if verifyClientSecret (pf_crypto pf) secret stored then io_return ()
                 else client_failed (''invalid secret for confidential client '' @ clientId)) w
            | _ \<Rightarrow> client_failed (''invalid secret for confidential client '' @ clientId) w)
         else if pc_method credentials \<noteq> auth_none \<or> pc_clientSecret credentials \<noteq> None then
           client_failed (''public client '' @ clientId @ '' must use token endpoint auth method none'') w
         else io_return () w)"

definition authenticateClient ::
  "platform \<Rightarrow> request \<Rightarrow> form \<Rightarrow> (OAuthClient \<times> TokenEndpointAuthMethod) io" where
  "authenticateClient pf rq form w =
     (let authHeader = rq_header rq ''authorization'';
          basic = (case authHeader of None \<Rightarrow> False | Some h \<Rightarrow> is_basic h)
      in if authHeader \<noteq> None \<and> \<not> basic then
           client_failed ''unsupported Authorization scheme on a client-authenticated endpoint'' w
         else if basic \<and> (form_has form ''client_id'' \<or> form_has form ''client_secret'' \<or>
                 form_has form ''client_assertion'' \<or> form_has form ''client_assertion_type'') then
           client_failed ''multiple client authentication methods were presented'' w
         else case extractCredentials (pf_url pf) rq form of
           None \<Rightarrow> throw_oauth_status invalid_client 401 ''Client authentication required''
                     ''no client credentials in Authorization header or request body'' w
         | Some credentials \<Rightarrow>
             (let unknown = client_failed (''client '' @ pc_clientId credentials @ '' not found or disabled'')
              in case getClientById (w_db w) (pc_clientId credentials) of
                   None \<Rightarrow> unknown w
                 | Some client \<Rightarrow>
                     if \<not> oc_enabled client then unknown w
                     else if pc_method credentials \<notin> set (oc_tokenEndpointAuthMethods client) then
                       client_failed (''client '' @ pc_clientId credentials @ '' does not allow '' @
                         auth_method_name (pc_method credentials)) w
                     else if isYoloEnabled (pf_env pf) then io_return (client, pc_method credentials) w
                     else io_then (prove_client pf rq credentials client)
                            (io_return (client, pc_method credentials)) w))"

section \<open>Laws of the credentials\<close>

lemma unat_of_nat_byte: "n < 256 \<Longrightarrow> unat (word_of_nat n :: byte) = n"
  by (simp add: unat_of_nat)

lemma utf8_decode_encode: "utf8_decode (utf8_encode s) = Some s"
proof (induction s)
  case (Cons c s)
  show ?case
  proof (cases "ccode c < 128")
    case True
    with Cons show ?thesis by (simp add: utf8_encode_def utf8_char_def unat_of_nat)
  next
    case False
    let ?d = "ccode c div 64" and ?m = "ccode c mod 64"
    have d: "?d = 2 \<or> ?d = 3" using False code_bound [of c] by linarith
    have m: "?m < 64" "?d * 64 + ?m = ccode c" by simp_all
    have "unat (word_of_nat (192 + ?d) :: byte) = 192 + ?d" "unat (word_of_nat (128 + ?m) :: byte) = 128 + ?m"
      using d m(1) by (auto intro!: unat_of_nat_byte simp del: of_nat_add)
    with d m False Cons.IH show ?thesis by (auto simp: utf8_encode_def utf8_char_def simp del: of_nat_add)
  qed
qed (simp add: utf8_encode_def)

lemma length_btoa: "length (btoa bs) = 4 * ((length bs + 2) div 3)"
proof (induction bs rule: b64_body.induct)
  case (4 a b c r)
  have "length (btoa (a # b # c # r)) = 4 + length (btoa r)" by (simp add: btoa_def)
  moreover have "(length (a # b # c # r) + 2) div 3 = Suc ((length r + 2) div 3)"
    using div_add_self2 [of 3 "length r + 2"] by simp
  ultimately show ?case using 4 by simp
qed (simp_all add: btoa_def)

lemma b64_char_class:
  assumes "n < 64" shows "is_alnum (b64_char n) \<or> b64_char n \<in> set ''+/''" "\<not> is_ws (b64_char n)"
proof -
  have c: "ccode (b64_char n) =
    (if n < 26 then 65 + n else if n < 52 then 71 + n else if n < 62 then n - 4 else if n = 62 then 43 else 47)"
    using b64_codes assms by (simp add: list_all_iff)
  show "is_alnum (b64_char n) \<or> b64_char n \<in> set ''+/''" "\<not> is_ws (b64_char n)"
    using c assms
    by (auto simp: is_upper_def is_lower_def is_digit_def is_ws_def is_alnum_def char_eq_code split: if_splits)
qed

lemma base64_pattern_btoa: "base64_pattern (btoa bs)"
proof -
  have body: "list_all (\<lambda>c. is_alnum c \<or> c \<in> set ''+/'') (b64_body bs)"
    by (rule b64_body_all) (rule b64_char_class)
  then have "dropWhile (\<lambda>c. is_alnum c \<or> c \<in> set ''+/'') (btoa bs) =
      replicate ((3 - length bs mod 3) mod 3) (CHR ''='')"
    by (auto simp: btoa_def list_all_iff dropWhile_append dropWhile_eq_Nil_conv is_alnum_def is_upper_def
        is_lower_def is_digit_def)
  moreover have "(3 - length bs mod 3) mod 3 \<in> {0, 1, 2::nat}" by auto
  ultimately show ?thesis by (auto simp: base64_pattern_def numeral_2_eq_2)
qed

lemma js_trim_btoa: "js_trim (btoa bs) = btoa bs"
proof -
  have "list_all (\<lambda>c. \<not> is_ws c) (b64_body bs)"
    by (rule b64_body_all) (rule b64_char_class)
  then have "\<forall>c\<in>set (btoa bs). \<not> is_ws c"
    by (auto simp: btoa_def list_all_iff is_ws_def)
  then have "dropWhile is_ws (btoa bs) = btoa bs" "dropWhile is_ws (rev (btoa bs)) = rev (btoa bs)"
    by (auto simp: dropWhile_eq_self_iff hd_in_set hd_rev)
  then show ?thesis by (simp add: js_trim_def)
qed

lemma js_index_of_append: "c \<notin> set s \<Longrightarrow> js_index_of c (s @ c # t) = Some (length s)"
  by (induction s) auto

text \<open>A static identifier has no colon, so the first colon separates it from the secret.\<close>

lemma static_id_chars: "STATIC_CLIENT_ID_PATTERN i \<Longrightarrow> CHR '':'' \<notin> set i \<and> length i \<le> 128 \<and> utf8_length i = length i"
proof -
  assume "STATIC_CLIENT_ID_PATTERN i"
  then have c: "\<forall>c\<in>set i. ccode c < 128 \<and> c \<noteq> CHR '':''" "length i \<le> 128"
    by (auto simp: STATIC_CLIENT_ID_PATTERN_def list_all_iff is_alnum_def is_upper_def is_lower_def is_digit_def
        split: list.splits)
  then have "utf8_length i = length i"
    by (induction i) (auto simp: utf8_length_def utf8_char_length_def)
  with c show ?thesis by blast
qed

lemma static_id_valid: "STATIC_CLIENT_ID_PATTERN i \<Longrightarrow> validateOAuthParameter u ''client_id'' i = None"
  using static_id_chars [of i]
  by (simp add: validateOAuthParameter_def isValidOAuthClientId_def OAUTH_PARAMETER_NAME_def is_alnum_def is_lower_def
      utf8_length_def utf8_char_length_def OAUTH_PARAMETER_NAME_MAX_BYTES_def oauthParameterMaximumBytes_def
      OAUTH_PARAMETER_MAX_BYTES_def CLIENT_IDENTIFIER_URL_MAX_BYTES_def)

lemma secret_valid:
  "validateOAuthParameter u ''client_secret'' s = None \<longleftrightarrow> utf8_length s \<le> OAUTH_CLIENT_SECRET_MAX_BYTES"
  by (simp add: validateOAuthParameter_def OAUTH_PARAMETER_NAME_def is_alnum_def is_lower_def
      utf8_length_def utf8_char_length_def OAUTH_PARAMETER_NAME_MAX_BYTES_def oauthParameterMaximumBytes_def
      OAUTH_PARAMETER_MAX_BYTES_def)

section \<open>Laws of the proof of identity\<close>

text \<open>What a client that authenticated outside of YOLO mode has shown.\<close>

definition secret_presented :: "url_parser \<Rightarrow> request \<Rightarrow> form \<Rightarrow> string \<Rightarrow> string \<Rightarrow> bool" where
  "secret_presented u rq form clientId secret =
     (case rq_header rq ''authorization'' of
        Some h \<Rightarrow> is_basic h \<and> decodeBasic u h = Some (clientId, secret)
      | None \<Rightarrow> form_get form ''client_id'' = Some clientId \<and> form_get form ''client_secret'' = Some secret)"

definition secret_proof :: "platform \<Rightarrow> request \<Rightarrow> form \<Rightarrow> OAuthClient \<Rightarrow> bool" where
  "secret_proof pf rq form client =
     (oc_type client = confidential \<and>
      (\<exists>secret. secret_presented (pf_url pf) rq form (oc_clientId client) secret \<and>
         oc_clientSecretHash client = Some (sha256Hex (pf_crypto pf) secret)))"

definition public_proof :: "request \<Rightarrow> form \<Rightarrow> OAuthClient \<Rightarrow> bool" where
  "public_proof rq form client =
     (oc_type client = public_client \<and> rq_header rq ''authorization'' = None \<and>
      form_get form ''client_id'' = Some (oc_clientId client) \<and> form_get form ''client_secret'' = None)"

text \<open>An assertion verified against the client's published keys, within its lifetime.\<close>

definition valid_assertion ::
  "platform \<Rightarrow> OAuthClient \<Rightarrow> string \<Rightarrow> string \<Rightarrow> string \<Rightarrow> int \<Rightarrow> bool" where
  "valid_assertion pf client assertion audience jti exp =
     (oc_registrationType client = client_id_metadata \<and>
      private_key_jwt \<in> set (oc_tokenEndpointAuthMethods client) \<and>
      (case oc_metadataJwksUri client of
         None \<Rightarrow> False
       | Some uri \<Rightarrow>
           (case fetch_client_jwks pf uri of
              Inl _ \<Rightarrow> False
            | Inr document \<Rightarrow> jwksSchema document \<and>
                (case pf_clientJwtVerify pf assertion document (oc_clientId client) audience
                        CLIENT_ASSERTION_CLOCK_TOLERANCE_SECONDS of
                   None \<Rightarrow> False
                 | Some payload \<Rightarrow> assertion_claims_ok (pf_now pf) payload = Some (jti, exp)))))"

lemma fetch_client_jwks_clock [simp]: "fetch_client_jwks (pf\<lparr>pf_nowMs := t\<rparr>) uri = fetch_client_jwks pf uri"
  by (simp add: fetch_client_jwks_def split: option.split)

lemma valid_assertion_payload:
  assumes "valid_assertion pf client assertion audience jti exp"
  shows "\<exists>uri document payload. oc_metadataJwksUri client = Some uri \<and> fetch_client_jwks pf uri = Inr document \<and>
    pf_clientJwtVerify pf assertion document (oc_clientId client) audience
      CLIENT_ASSERTION_CLOCK_TOLERANCE_SECONDS = Some payload \<and> jget payload ''jti'' = Some (JStr jti)"
proof -
  have "jget payload ''jti'' = Some (JStr jti)" if "assertion_claims_ok now payload = Some (jti, exp)" for now payload
    using that by (auto simp: assertion_claims_ok_def split: option.splits json.splits if_splits)
  with assms show ?thesis by (auto simp: valid_assertion_def split: option.splits sum.splits)
qed

definition used_jtis :: "world \<Rightarrow> string set" where
  "used_jtis w = fst ` set (w_assertion_jtis w)"

lemma assertion_verified:
  assumes "verifyPrivateKeyJwt pf client assertion audience w = (Inr (), w')"
  shows "\<exists>jti exp. valid_assertion pf client assertion audience jti exp \<and>
    jti_hash pf (oc_clientId client) jti \<notin> used_jtis w \<and>
    w' = w\<lparr>w_assertion_jtis := w_assertion_jtis w @
      [(jti_hash pf (oc_clientId client) jti, oc_clientId client, exp, pf_now pf)]\<rparr>"
  using assms
  by (fastforce simp: verifyPrivateKeyJwt_def valid_assertion_def used_jtis_def Let_def split: option.splits if_splits prod.splits sum.splits)

text \<open>The credentials name the source they were read from.\<close>

lemma extractCredentials_source:
  assumes "extractCredentials u rq form = Some cr"
    "rq_header rq ''authorization'' = None \<or> (\<exists>h. rq_header rq ''authorization'' = Some h \<and> is_basic h)"
  shows "pc_clientSecret cr = Some secret \<Longrightarrow> secret_presented u rq form (pc_clientId cr) secret"
    "pc_method cr = auth_none \<Longrightarrow> rq_header rq ''authorization'' = None \<and>
      form_get form ''client_id'' = Some (pc_clientId cr) \<and> form_get form ''client_secret'' = None"
    "pc_method cr = private_key_jwt \<Longrightarrow> rq_header rq ''authorization'' = None \<and>
      form_get form ''client_id'' = Some (pc_clientId cr) \<and> form_get form ''client_assertion'' = pc_clientAssertion cr"
  using assms
  by (auto simp: extractCredentials_def form_credentials_def secret_presented_def Let_def
      split: option.splits if_splits prod.splits)

lemma prove_client_sound:
  assumes "prove_client pf rq cr client w = (Inr (), w')"
  shows "(pc_method cr = private_key_jwt \<and>
      (\<exists>assertion url. pc_clientAssertion cr = Some assertion \<and> pf_url pf (rq_url rq) = Some url \<and>
         verifyPrivateKeyJwt pf client assertion (url_origin url @ url_pathname url) w = (Inr (), w'))) \<or>
    (w' = w \<and> oc_type client = confidential \<and> (\<exists>secret. pc_clientSecret cr = Some secret \<and>
       oc_clientSecretHash client = Some (sha256Hex (pf_crypto pf) secret))) \<or>
    (w' = w \<and> oc_type client = public_client \<and> pc_method cr = auth_none)"
  using assms
  by (cases "oc_type client")
    (auto simp: prove_client_def Let_def client_failed_def verifyClientSecret_def
      split: if_splits option.splits prod.splits sum.splits assertion_error.splits)

lemma authenticateClient_Inr:
  assumes "authenticateClient pf rq form w = (Inr (client, method), w')" "\<not> isYoloEnabled (pf_env pf)"
  obtains cr where "extractCredentials (pf_url pf) rq form = Some cr" "pc_method cr = method"
    "rq_header rq ''authorization'' = None \<or> (\<exists>h. rq_header rq ''authorization'' = Some h \<and> is_basic h)"
    "getClientById (w_db w) (pc_clientId cr) = Some client" "oc_enabled client"
    "method \<in> set (oc_tokenEndpointAuthMethods client)" "prove_client pf rq cr client w = (Inr (), w')"
  using assms
  by (auto simp: authenticateClient_def Let_def client_failed_def io_then_Inr split: if_splits option.splits)

text \<open>What one of the three kinds of proof has shown when it led from \<open>w\<close> to \<open>w'\<close>.\<close>

definition assertion_proof :: "platform \<Rightarrow> request \<Rightarrow> form \<Rightarrow> OAuthClient \<Rightarrow> world \<Rightarrow> world \<Rightarrow> bool" where
  "assertion_proof pf rq form client w w' =
     (\<exists>assertion url jti exp.
        form_get form ''client_id'' = Some (oc_clientId client) \<and> form_get form ''client_assertion'' = Some assertion \<and>
        pf_url pf (rq_url rq) = Some url \<and>
        valid_assertion pf client assertion (url_origin url @ url_pathname url) jti exp \<and>
        jti_hash pf (oc_clientId client) jti \<notin> used_jtis w \<and>
        jti_hash pf (oc_clientId client) jti \<in> used_jtis w')"

definition client_proved ::
  "platform \<Rightarrow> request \<Rightarrow> form \<Rightarrow> OAuthClient \<Rightarrow> TokenEndpointAuthMethod \<Rightarrow> world \<Rightarrow> world \<Rightarrow> bool" where
  "client_proved pf rq form client method w w' =
     ((secret_proof pf rq form client \<and> w' = w) \<or> (public_proof rq form client \<and> w' = w) \<or>
      (method = private_key_jwt \<and> assertion_proof pf rq form client w w'))"

lemma authenticate_proves:
  assumes "\<not> isYoloEnabled (pf_env pf)" and "authenticateClient pf rq form w = (Inr (client, method), w')"
  shows "getClientById (w_db w) (oc_clientId client) = Some client \<and> oc_enabled client \<and>
    method \<in> set (oc_tokenEndpointAuthMethods client) \<and> client_proved pf rq form client method w w' \<and>
    w' = w\<lparr>w_assertion_jtis := w_assertion_jtis w'\<rparr>"
proof -
  obtain cr where cr: "extractCredentials (pf_url pf) rq form = Some cr" "pc_method cr = method"
    "rq_header rq ''authorization'' = None \<or> (\<exists>h. rq_header rq ''authorization'' = Some h \<and> is_basic h)"
    "getClientById (w_db w) (pc_clientId cr) = Some client" "oc_enabled client"
    "method \<in> set (oc_tokenEndpointAuthMethods client)" "prove_client pf rq cr client w = (Inr (), w')"
    using authenticateClient_Inr [OF assms(2,1)] by blast
  note id = getClientById_id [OF cr(4)] and source = extractCredentials_source [OF cr(1,3)]
  from prove_client_sound [OF cr(7)] show ?thesis
  proof (elim disjE conjE exE)
    fix assertion url
    assume p: "pc_method cr = private_key_jwt" "pc_clientAssertion cr = Some assertion" "pf_url pf (rq_url rq) = Some url"
      and v: "verifyPrivateKeyJwt pf client assertion (url_origin url @ url_pathname url) w = (Inr (), w')"
    from assertion_verified [OF v] p source(3) [OF p(1)] cr(2,4-6) id show ?thesis
      by (auto simp: client_proved_def assertion_proof_def used_jtis_def)
  next
    fix secret
    assume "w' = w" "oc_type client = confidential" "pc_clientSecret cr = Some secret"
      "oc_clientSecretHash client = Some (sha256Hex (pf_crypto pf) secret)"
    with source(1) cr(4-6) id show ?thesis by (auto simp: client_proved_def secret_proof_def)
  next
    assume "w' = w" "oc_type client = public_client" "pc_method cr = auth_none"
    with source(2) cr(4-6) id show ?thesis by (auto simp: client_proved_def public_proof_def)
  qed
qed

section \<open>A concrete assertion\<close>

definition demo_jwks :: json where
  "demo_jwks = JObj [(''keys'', JArr [JObj [(''kty'', JStr ''EC''), (''kid'', JStr ''k'')]])]"

definition demo_jwt_pf :: platform where
  "demo_jwt_pf = demo_pf\<lparr>pf_url := (\<lambda>s. Some demo_fetch_url), pf_network := demo_fetch_network demo_jwks,
     pf_clientJwtVerify := (\<lambda>t k c a n. Some [(''iat'', JNum 990), (''exp'', JNum 1100), (''jti'', JStr t)])\<rparr>"

definition demo_jwt_client :: OAuthClient where
  "demo_jwt_client = demo_client\<lparr>oc_registrationType := client_id_metadata, oc_metadataJwksUri := Some ''https://app/keys'',
     oc_tokenEndpointAuthMethods := [private_key_jwt]\<rparr>"

lemma demo_jwks_fetched: "fetch_client_jwks demo_jwt_pf uri = Inr demo_jwks"
  using demo_fetch [of CLIENT_JWKS_MAX_BYTES demo_jwks]
  by (auto simp: fetch_client_jwks_def demo_jwt_pf_def CLIENT_JWKS_MAX_BYTES_def)

lemma demo_assertion: "\<exists>w1. verifyPrivateKeyJwt demo_jwt_pf demo_jwt_client ''a'' ''aud'' demo_world = (Inr (), w1)"
proof -
  have "jwksSchema demo_jwks"
    by (simp add: demo_jwks_def jwksSchema_def publicJwkSchema_def json_string_in_def jget_def PRIVATE_JWK_FIELDS_def
        CLIENT_JWKS_MAX_KEYS_def)
  moreover have "assertion_claims_ok (pf_now demo_jwt_pf) [(''iat'', JNum 990), (''exp'', JNum 1100), (''jti'', JStr ''a'')] =
      Some (''a'', 1100)"
    by (simp add: demo_jwt_pf_def demo_pf_def jget_def assertion_claims_ok_def pf_now_def nowSeconds_def
        CLIENT_ASSERTION_MAX_LIFETIME_SECONDS_def CLIENT_ASSERTION_CLOCK_TOLERANCE_SECONDS_def)
  moreover have "pf_clientJwtVerify demo_jwt_pf = (\<lambda>t k c a n. Some [(''iat'', JNum 990), (''exp'', JNum 1100), (''jti'', JStr t)])"
    "\<not> pf_d1_fails demo_jwt_pf l" "w_assertion_jtis demo_world = []" for l
    by (simp_all add: demo_jwt_pf_def demo_pf_def demo_world_def)
  ultimately show ?thesis
    by (simp add: verifyPrivateKeyJwt_def demo_jwks_fetched demo_jwt_client_def Let_def)
qed

section \<open>Properties\<close>

text \<open>
  C4. Outside of YOLO mode \<open>authenticateClient\<close> authenticates only a registered, enabled client by
  a method its registration allows, and changes nothing but the record of used assertions. A confidential client has
  presented, in the Basic header or in the body, a secret whose digest is the stored one; a public
  client has named itself in the body with neither a header nor a secret; and a client using
  \<open>private_key_jwt\<close> has presented an assertion addressed to this endpoint, verified against its
  published keys, within its lifetime, whose identifier was never used before and is now recorded.
\<close>

theorem client_authentication_sound:
  assumes "\<not> isYoloEnabled (pf_env pf)" and "authenticateClient pf rq form w = (Inr (client, method), w')"
  shows "getClientById (w_db w) (oc_clientId client) = Some client \<and> oc_enabled client \<and>
    method \<in> set (oc_tokenEndpointAuthMethods client) \<and> client_proved pf rq form client method w w' \<and>
    w' = w\<lparr>w_assertion_jtis := w_assertion_jtis w'\<rparr>"
  by (rule authenticate_proves [OF assms])

theorem client_authentication_sound_witness:
  "public_proof \<lparr>rq_headers = [], rq_url = ''u''\<rparr> [(''client_id'', ''c'')] demo_client"
proof -
  have y: "\<not> isYoloEnabled (pf_env demo_pf)" by (simp add: demo_pf_def demo_env_def isYoloEnabled_def YOLO_ENVIRONMENT_def)
  have id: "STATIC_CLIENT_ID_PATTERN ''c''" by (simp add: STATIC_CLIENT_ID_PATTERN_def is_alnum_def is_lower_def)
  have "authenticateClient demo_pf \<lparr>rq_headers = [], rq_url = ''u''\<rparr> [(''client_id'', ''c'')] demo_world =
      (Inr (demo_client, auth_none), demo_world)"
    using y by (simp add: authenticateClient_def rq_header_def extractCredentials_def form_credentials_def form_get_def
      static_id_valid [OF id] getClientById_def demo_world_def demo_client_def prove_client_def io_then_def
      io_bind_def io_return_def)
  from client_authentication_sound [OF y this] show ?thesis
    by (auto simp: client_proved_def secret_proof_def demo_client_def)
qed

text \<open>
  C15. A client assertion is good for one request. Once \<open>verifyPrivateKeyJwt\<close> has accepted an
  assertion, presenting it again, at any later time at which it still verifies to the same
  identifier, is refused, and refused without effect, as long as the identifier stays recorded.
\<close>

theorem client_assertion_single_use:
  assumes "verifyPrivateKeyJwt pf client assertion audience w = (Inr (), w1)"
    and "used_jtis w1 \<subseteq> used_jtis w2" and "pf' = pf\<lparr>pf_nowMs := later\<rparr>"
  shows "\<exists>e. verifyPrivateKeyJwt pf' client assertion audience w2 = (Inl e, w2)"
proof -
  obtain jti exp where v: "valid_assertion pf client assertion audience jti exp"
    and w1: "w1 = w\<lparr>w_assertion_jtis := w_assertion_jtis w @
      [(jti_hash pf (oc_clientId client) jti, oc_clientId client, exp, pf_now pf)]\<rparr>"
    using assertion_verified [OF assms(1)] by blast
  have used: "jti_hash pf (oc_clientId client) jti \<in> used_jtis w2"
    using w1 assms(2) by (auto simp: used_jtis_def)
  have same: "jti'' = jti" if "valid_assertion pf' client assertion audience jti'' exp''" for jti'' exp''
    using valid_assertion_payload [OF that] valid_assertion_payload [OF v] assms(3) by auto
  show ?thesis
  proof (cases "verifyPrivateKeyJwt pf' client assertion audience w2")
    case (Pair r w3)
    then show ?thesis
    proof (cases r)
      case (Inl e)
      with Pair show ?thesis
        by (auto simp: verifyPrivateKeyJwt_def Let_def split: option.splits if_splits prod.splits sum.splits)
    next
      case (Inr x)
      with Pair have "verifyPrivateKeyJwt pf' client assertion audience w2 = (Inr (), w3)" by simp
      from assertion_verified [OF this] same used assms(3) show ?thesis by (auto simp: jti_hash_def)
    qed
  qed
qed

theorem client_assertion_single_use_witness:
  "\<exists>w1. (\<exists>x. verifyPrivateKeyJwt demo_jwt_pf demo_jwt_client ''a'' ''aud'' demo_world = (Inr x, w1)) \<and>
     (\<exists>e. verifyPrivateKeyJwt (demo_jwt_pf\<lparr>pf_nowMs := 1004000\<rparr>) demo_jwt_client ''a'' ''aud'' w1 = (Inl e, w1))"
proof -
  obtain w1 where "verifyPrivateKeyJwt demo_jwt_pf demo_jwt_client ''a'' ''aud'' demo_world = (Inr (), w1)"
    using demo_assertion by blast
  from client_assertion_single_use [OF this subset_refl refl] this show ?thesis by blast
qed

text \<open>
  Basic credentials survive the trip: for every static client identifier and every secret of
  at most 512 bytes, \<open>decodeBasic\<close> recovers both from the base64 of \<open>id:secret\<close> (the secret may
  contain further colons), whatever the case of the scheme name.
\<close>

theorem basic_credentials_roundtrip:
  assumes "STATIC_CLIENT_ID_PATTERN clientId" and "utf8_length secret \<le> 512" and "length scheme = 6"
  shows "decodeBasic parse_url (scheme @ btoa (utf8_encode (clientId @ '':'' @ secret))) = Some (clientId, secret)"
proof -
  let ?bs = "utf8_encode (clientId @ '':'' @ secret)"
  have len: "length ?bs = utf8_length clientId + 1 + utf8_length secret"
    by (simp add: length_utf8_encode utf8_length_def utf8_char_length_def)
  have "length ?bs + 2 \<le> 643" using len static_id_chars [OF assms(1)] assms(2) by linarith
  then have "(length ?bs + 2) div 3 \<le> 214" using div_le_mono [of "length ?bs + 2" 643 3] by simp
  then have "length (btoa ?bs) \<le> OAUTH_BASIC_CREDENTIALS_MAX_ENCODED_BYTES"
    by (simp add: length_btoa OAUTH_BASIC_CREDENTIALS_MAX_ENCODED_BYTES_def OAUTH_STATIC_CLIENT_ID_MAX_BYTES_def
        OAUTH_CLIENT_SECRET_MAX_BYTES_def)
  moreover have "btoa ?bs \<noteq> []" using len length_btoa [of ?bs] by auto
  moreover have "validateOAuthParameter parse_url ''client_secret'' secret = None"
    using assms(2) by (simp add: secret_valid OAUTH_CLIENT_SECRET_MAX_BYTES_def)
  moreover have "js_index_of (CHR '':'') (clientId @ '':'' @ secret) = Some (length clientId)"
    using static_id_chars [OF assms(1)] js_index_of_append [of "CHR '':''" clientId secret] by simp
  ultimately show ?thesis
    using assms(3) static_id_valid [OF assms(1)]
    by (simp add: decodeBasic_def js_trim_btoa base64_pattern_btoa atob_btoa utf8_decode_encode Let_def)
qed

theorem basic_credentials_roundtrip_witness:
  "decodeBasic demo_url (''Basic '' @ btoa (utf8_encode (''app'' @ '':'' @ ''s:1''))) = Some (''app'', ''s:1'')"
  by (rule basic_credentials_roundtrip)
    (simp_all add: STATIC_CLIENT_ID_PATTERN_def is_alnum_def is_lower_def utf8_length_def utf8_char_length_def)

end
