(* ===== verification/Refresh_Tokens.thy ===== *)
theory Refresh_Tokens
  imports World
begin

text \<open>
  \<open>src/tokens/refresh-token.ts\<close>, \<open>src/tokens/refresh-token-revocation.ts\<close> and the revocation
  of device families in \<open>src/db/queries/tokens.ts\<close>: refresh-token families live twice, in a
  Durable Object that serializes rotation and in a D1 row that is the revocation authority.
  Between the two writes of an operation other requests may run (\<open>pf_others\<close>).
\<close>

section \<open>Durable Object revocation\<close>

definition map_family :: "(family \<Rightarrow> family) \<Rightarrow> string \<Rightarrow> world \<Rightarrow> world" where
  "map_family f i w = w\<lparr>w_families := (w_families w)(i := f (w_families w i))\<rparr>"

definition revoke_families :: "string list \<Rightarrow> world \<Rightarrow> world" where
  "revoke_families ids w = fold (map_family fam_revoke) ids w"

text \<open>
  The bounded retry: attempt \<open>k\<close> calls every pending object; the ones whose call is rejected
  stay pending. Returns the ids logged as failed.
\<close>

fun revoke_attempts ::
  "platform \<Rightarrow> nat \<Rightarrow> nat \<Rightarrow> string list \<Rightarrow> world \<Rightarrow> string list \<times> world" where
  "revoke_attempts pf attempt 0 ids w = (ids, w)"
| "revoke_attempts pf attempt (Suc n) ids w =
     (if ids = [] then ([], w)
      else revoke_attempts pf (Suc attempt) n (filter (pf_do_rejects pf attempt) ids)
             (revoke_families (filter (\<lambda>i. \<not> pf_do_rejects pf attempt i) ids) w))"

definition revokeRefreshFamilyDurableObjects ::
  "platform \<Rightarrow> string list \<Rightarrow> world \<Rightarrow> string list \<times> world" where
  "revokeRefreshFamilyDurableObjects pf familyIds w = revoke_attempts pf 0 2 (js_dedup familyIds) w"

section \<open>Mass revocation\<close>

abbreviation upd_refresh :: "(refresh_row list \<Rightarrow> refresh_row list) \<Rightarrow> world \<Rightarrow> world" where
  "upd_refresh f w \<equiv> w\<lparr>w_db := (w_db w)\<lparr>t_refresh_tokens := f (t_refresh_tokens (w_db w))\<rparr>\<rparr>"

abbreviation set_revoked :: "int \<Rightarrow> refresh_row \<Rightarrow> refresh_row" where
  "set_revoked now r \<equiv> r\<lparr>rt_revokedAt := Some now\<rparr>"

text \<open>
  \<open>UPDATE refresh_tokens SET revoked_at = ? WHERE ... RETURNING id\<close>, then the Durable Objects of
  the returned ids.
\<close>

definition revokeMatchingFamilies ::
  "platform \<Rightarrow> (refresh_row \<Rightarrow> bool) \<Rightarrow> world \<Rightarrow> nat \<times> world" where
  "revokeMatchingFamilies pf P w =
     (let hit = (\<lambda>r. P r \<and> rt_revokedAt r = None);
          familyIds = map rt_id (filter hit (t_refresh_tokens (w_db w)));
          w1 = upd_refresh (update_where hit (set_revoked (pf_now pf))) w;
          (failed, w2) = revokeRefreshFamilyDurableObjects pf familyIds w1
      in (length familyIds, w2))"

definition revokeRefreshFamiliesByUserClient ::
  "platform \<Rightarrow> string \<Rightarrow> string \<Rightarrow> world \<Rightarrow> nat \<times> world" where
  "revokeRefreshFamiliesByUserClient pf userId clientId =
     revokeMatchingFamilies pf (\<lambda>r. rt_userId r = userId \<and> rt_clientId r = clientId)"

definition revokeRefreshFamiliesBySessionId :: "platform \<Rightarrow> string \<Rightarrow> world \<Rightarrow> nat \<times> world" where
  "revokeRefreshFamiliesBySessionId pf sessionId =
     revokeMatchingFamilies pf (\<lambda>r. rt_sessionId r = Some sessionId)"

definition revokeRefreshFamiliesForUser :: "platform \<Rightarrow> string \<Rightarrow> world \<Rightarrow> nat \<times> world" where
  "revokeRefreshFamiliesForUser pf userId = revokeMatchingFamilies pf (\<lambda>r. rt_userId r = userId)"

definition revokeRefreshFamiliesForOtherUserSessions ::
  "platform \<Rightarrow> string \<Rightarrow> string \<Rightarrow> world \<Rightarrow> nat \<times> world" where
  "revokeRefreshFamiliesForOtherUserSessions pf userId keepSessionId =
     revokeMatchingFamilies pf (\<lambda>r. rt_userId r = userId \<and>
       (rt_sessionId r = None \<or> rt_sessionId r \<noteq> Some keepSessionId))"

text \<open>\<open>revokeDeviceRefreshFamily\<close> of \<open>src/db/queries/tokens.ts\<close>.\<close>

definition revokeDeviceRefreshFamily ::
  "platform \<Rightarrow> string \<Rightarrow> string \<Rightarrow> world \<Rightarrow> (failure, bool) result \<times> world" where
  "revokeDeviceRefreshFamily pf familyId userId w =
     (let hit = (\<lambda>r. rt_id r = familyId \<and> rt_userId r = userId \<and> rt_sessionId r = None \<and>
                     rt_revokedAt r = None);
          w1 = upd_refresh (update_where hit (set_revoked (pf_now pf))) w
      in if changes hit (t_refresh_tokens (w_db w)) \<noteq> 1 then (Inr False, w1)
         else if pf_do_rejects pf 0 familyId then (Inl DurableObjectFailure, w1)
         else (Inr True, map_family fam_revoke familyId w1))"

section \<open>Issuing a family\<close>

record IssueRefreshInput =
  ir_userId :: string
  ir_clientId :: string
  ir_sessionId :: "string option"
  ir_resource :: string
  ir_scope :: string
  ir_authTime :: int
  ir_rememberMe :: bool

record IssuedRefreshToken =
  irt_token :: string
  irt_familyId :: string
  irt_expiresAt :: int

text \<open>The \<open>WHERE EXISTS\<close> guard of the insert.\<close>

definition sessionGuard :: "int \<Rightarrow> IssueRefreshInput \<Rightarrow> db \<Rightarrow> bool" where
  "sessionGuard now input db =
     (case ir_sessionId input of
        None \<Rightarrow> list_ex (\<lambda>u. u_id u = ir_userId input \<and> \<not> u_disabled u) (t_users db)
      | Some sid \<Rightarrow>
          list_ex (\<lambda>s. sr_id s = sid \<and> sr_userId s = ir_userId input \<and> se_revokedAt s = None \<and>
                       sr_expiresAt s > now \<and>
                       list_ex (\<lambda>u. u_id u = sr_userId s \<and> \<not> u_disabled u) (t_users db))
            (t_sessions db))"

definition active_for :: "int \<Rightarrow> string \<Rightarrow> string \<Rightarrow> refresh_row \<Rightarrow> bool" where
  "active_for now userId clientId r =
     (rt_userId r = userId \<and> rt_clientId r = clientId \<and> rt_revokedAt r = None \<and> rt_expiresAt r > now)"

text \<open>
  The ids the prune statement selects: the oldest active families of the pair other than the
  new one, as many as the pair exceeds the cap by.
\<close>

definition prune_ids :: "int \<Rightarrow> string \<Rightarrow> string \<Rightarrow> string \<Rightarrow> refresh_row list \<Rightarrow> string list" where
  "prune_ids now userId clientId familyId t =
     (let active = filter (active_for now userId clientId) t;
          excess = length active - maximumActiveFamiliesPerUserClient REFRESH_TOKEN_POLICY;
          candidates = sort_key (\<lambda>r. (rt_createdAt r, rt_id r)) (filter (\<lambda>r. rt_id r \<noteq> familyId) active)
      in map rt_id (take excess candidates))"

definition pruneStatement ::
  "int \<Rightarrow> string \<Rightarrow> string \<Rightarrow> string \<Rightarrow> refresh_row list \<Rightarrow> string list \<times> refresh_row list" where
  "pruneStatement now userId clientId familyId t =
     (let ids = prune_ids now userId clientId familyId t;
          hit = (\<lambda>r. rt_id r \<in> set ids \<and>
                     list_ex (\<lambda>i. rt_id i = familyId \<and> rt_revokedAt i = None) t)
      in (map rt_id (filter hit t), update_where hit (set_revoked now) t))"

definition new_refresh_row ::
  "int \<Rightarrow> int \<Rightarrow> string \<Rightarrow> string \<Rightarrow> IssueRefreshInput \<Rightarrow> refresh_row" where
  "new_refresh_row now expiresAt familyId tokenHash input =
     \<lparr>rt_id = familyId, rt_tokenHash = tokenHash, rt_userId = ir_userId input,
      rt_clientId = ir_clientId input, rt_sessionId = ir_sessionId input,
      rt_resource = ir_resource input, rt_scope = ir_scope input, rt_generation = 0,
      rt_rememberMe = ir_rememberMe input, rt_createdAt = now, rt_lastRotatedAt = now,
      rt_expiresAt = expiresAt, rt_authTime = ir_authTime input, rt_revokedAt = None\<rparr>"

text \<open>
  The insert throws on a violated constraint: a used primary key or token hash, or a client
  that is not in \<open>oauth_clients\<close>.
\<close>

definition insert_violates :: "string \<Rightarrow> string \<Rightarrow> string \<Rightarrow> db \<Rightarrow> bool" where
  "insert_violates familyId tokenHash clientId db =
     (list_ex (\<lambda>r. rt_id r = familyId \<or> rt_tokenHash r = tokenHash) (t_refresh_tokens db) \<or>
      getClientById db clientId = None)"

text \<open>
  \<open>issueRefreshToken\<close> in its three parts: the identifiers drawn for the new family, the
  initialization of its Durable Object, and the D1 batch with its outcomes.
\<close>

definition new_family :: "platform \<Rightarrow> IssueRefreshInput \<Rightarrow> IssuedRefreshToken" where
  "new_family pf input =
     (let familyId = generateId pf ''rtf'' ''family'';
          ttl = (if ir_rememberMe input then ttl_refreshTokenRememberMe TOKEN_TTL
                 else ttl_refreshToken TOKEN_TTL)
      in \<lparr>irt_token = familyId @ ''.'' @ randomToken (pf_random pf ''refresh''),
          irt_familyId = familyId, irt_expiresAt = pf_now pf + ttl\<rparr>)"

definition init_family :: "platform \<Rightarrow> IssueRefreshInput \<Rightarrow> IssuedRefreshToken \<Rightarrow> world \<Rightarrow> world" where
  "init_family pf input tok =
     map_family (fam_init (pf_now pf) \<lparr>fi_userId = ir_userId input, fi_clientId = ir_clientId input,
         fi_resource = ir_resource input, fi_scope = ir_scope input, fi_authTime = ir_authTime input,
         fi_currentTokenHash = hashOpaqueToken (pf_crypto pf) (irt_token tok),
         fi_absoluteExpiresAt = irt_expiresAt tok\<rparr>) (irt_familyId tok)"

definition commit_family ::
  "platform \<Rightarrow> IssueRefreshInput \<Rightarrow> IssuedRefreshToken \<Rightarrow> IssuedRefreshToken io" where
  "commit_family pf input tok w =
     (let tokenHash = hashOpaqueToken (pf_crypto pf) (irt_token tok);
          guard = sessionGuard (pf_now pf) input (w_db w);
          row = new_refresh_row (pf_now pf) (irt_expiresAt tok) (irt_familyId tok) tokenHash input;
          (prunedIds, t') = pruneStatement (pf_now pf) (ir_userId input) (ir_clientId input)
             (irt_familyId tok)
             (if guard then t_refresh_tokens (w_db w) @ [row] else t_refresh_tokens (w_db w));
          w' = upd_refresh (\<lambda>_. t') w
      in if pf_d1_fails pf ''issue:batch'' \<or>
            (guard \<and> insert_violates (irt_familyId tok) tokenHash (ir_clientId input) (w_db w))
         then (Inl DatabaseFailure, map_family fam_revoke (irt_familyId tok) w)
         else if \<not> guard
         then (Inl (OAuthFailure (oauth_error invalid_grant
                 ''The authorization session is no longer active''
                 ''session or user changed while creating the refresh token family'')),
               map_family fam_revoke (irt_familyId tok) w')
         else (Inr tok, snd (revokeRefreshFamilyDurableObjects pf prunedIds w')))"

definition issueRefreshToken :: "platform \<Rightarrow> IssueRefreshInput \<Rightarrow> IssuedRefreshToken io" where
  "issueRefreshToken pf input w =
     (let tok = new_family pf input
      in commit_family pf input tok (pf_others pf ''issue:batch'' (init_family pf input tok w)))"

section \<open>Rotating a family\<close>

datatype RotateOutcome =
    RO_rotated string string string string string int
  | RO_reuse_detected string
  | RO_too_soon int
  | RO_reauthorization_required string
  | RO_invalid

text \<open>\<open>RO_rotated\<close> carries the token, user, client, resource, scope and authentication time.\<close>

definition rotateRefreshToken ::
  "platform \<Rightarrow> string \<Rightarrow> string \<Rightarrow> string \<Rightarrow> RotateOutcome io" where
  "rotateRefreshToken pf presentedToken expectedClientId nextScope w =
     (let familyId = hd (js_split (CHR ''.'') presentedToken);
          presentedHash = hashOpaqueToken (pf_crypto pf) presentedToken;
          newToken = familyId @ ''.'' @ randomToken (pf_random pf ''rotate'');
          newHash = hashOpaqueToken (pf_crypto pf) newToken;
          now = pf_now pf;
          (result, fam') = fam_rotate now presentedHash newHash expectedClientId nextScope
                             (w_families w familyId);
          w1 = w\<lparr>w_families := (w_families w)(familyId := fam')\<rparr>
      in case result of
           Rotated meta \<Rightarrow>
             (let w2 = pf_others pf ''rotate:mirror'' w1;
                  t = t_refresh_tokens (w_db w2);
                  hit = (\<lambda>r. rt_id r = familyId \<and> rt_revokedAt r = None);
                  violates = list_ex hit t \<and>
                    list_ex (\<lambda>r. rt_tokenHash r = newHash \<and> rt_id r \<noteq> familyId) t
              in if pf_d1_fails pf ''rotate:mirror'' \<or> violates
                 then (Inl DatabaseFailure, map_family fam_revoke familyId w2)
                 else
                   (let w3 = upd_refresh (update_where hit
                          (\<lambda>r. r\<lparr>rt_tokenHash := newHash, rt_scope := fm_scope meta,
                                 rt_generation := fm_generation meta, rt_lastRotatedAt := now\<rparr>)) w2
                    in if changes hit t \<noteq> 1
                       then (Inr RO_invalid, map_family fam_revoke familyId w3)
                       else (Inr (RO_rotated newToken (fm_userId meta) (fm_clientId meta)
                                   (fm_resource meta) (fm_scope meta)
                                   (case fm_authTime meta of Some t \<Rightarrow> t | None \<Rightarrow> fm_createdAt meta)),
                             w3)))
         | ReuseDetected meta \<Rightarrow>
             (Inr (RO_reuse_detected familyId),
              upd_refresh (update_where (\<lambda>r. rt_id r = familyId) (set_revoked now)) w1)
         | TooSoon retryAfterSeconds \<Rightarrow> (Inr (RO_too_soon retryAfterSeconds), w1)
         | GenerationLimit meta \<Rightarrow>
             (Inr (RO_reauthorization_required familyId),
              w1\<lparr>w_db := markRefreshTokenRevoked now familyId (w_db w1)\<rparr>)
         | Revoked \<Rightarrow> (Inr RO_invalid, w1)
         | Expired \<Rightarrow> (Inr RO_invalid, w1)
         | Invalid \<Rightarrow> (Inr RO_invalid, w1))"

section \<open>Durable Object revocation: laws\<close>

lemma fam_revoke_idem [simp]: "fam_revoke (fam_revoke f) = fam_revoke f"
  by (simp add: fam_revoke_def split: option.split)

lemma map_family_simps [simp]:
  "w_families (map_family f i w) j = (if j = i then f (w_families w i) else w_families w j)"
  "w_db (map_family f i w) = w_db w" "w_codes (map_family f i w) = w_codes w"
  "w_audit (map_family f i w) = w_audit w" "w_limiters (map_family f i w) = w_limiters w"
  "w_assertion_jtis (map_family f i w) = w_assertion_jtis w"
  by (simp_all add: map_family_def)

lemma revoke_families_simps [simp]:
  "w_families (revoke_families ids w) i =
     (if i \<in> set ids then fam_revoke (w_families w i) else w_families w i)"
  "w_db (revoke_families ids w) = w_db w" "w_codes (revoke_families ids w) = w_codes w"
  "w_audit (revoke_families ids w) = w_audit w" "w_limiters (revoke_families ids w) = w_limiters w"
  by (induction ids arbitrary: w) (auto simp: revoke_families_def)

lemma revoke_attempts_frame [simp]:
  "w_db (snd (revoke_attempts pf k n ids w)) = w_db w"
  "w_codes (snd (revoke_attempts pf k n ids w)) = w_codes w"
  by (induction n arbitrary: k ids w) auto

lemma revoke_attempts_subset: "revoke_attempts pf k n ids w = (failed, w') \<Longrightarrow> set failed \<subseteq> set ids"
  by (induction n arbitrary: k ids w) (fastforce split: if_splits)+

text \<open>An object is revoked unless every attempt at it was rejected, and then it is reported.\<close>

lemma revoke_attempts_family:
  "revoke_attempts pf k n ids w = (failed, w') \<Longrightarrow>
     w_families w' i = (if i \<in> set ids \<and> i \<notin> set failed then fam_revoke (w_families w i)
                        else w_families w i)"
  using revoke_attempts_subset
  by (induction n arbitrary: k ids w) (fastforce split: if_splits)+

lemma revoke_attempts_failed:
  "revoke_attempts pf k n ids w = (failed, w') \<Longrightarrow>
     set failed = {i \<in> set ids. \<forall>a. k \<le> a \<and> a < k + n \<longrightarrow> pf_do_rejects pf a i}"
proof (induction n arbitrary: k ids w)
  case (Suc n)
  show ?case
  proof (cases "ids = []")
    case False
    with Suc.prems obtain w1 where
      "revoke_attempts pf (Suc k) n (filter (pf_do_rejects pf k) ids) w1 = (failed, w')" by auto
    from Suc.IH [OF this] show ?thesis
      by (auto simp: Suc_le_eq) (metis less_antisym not_less_eq le_eq_less_or_eq)
  qed (use Suc.prems in auto)
qed auto

lemma revoke_dos:
  assumes "revokeRefreshFamilyDurableObjects pf ids w = (failed, w')"
  shows "w_db w' = w_db w" "w_codes w' = w_codes w"
    "set failed = {i \<in> set ids. pf_do_rejects pf 0 i \<and> pf_do_rejects pf 1 i}"
    "w_families w' i = (if i \<in> set ids \<and> i \<notin> set failed then fam_revoke (w_families w i)
                        else w_families w i)"
proof -
  let ?a = "revoke_attempts pf 0 2 (js_dedup ids) w"
  have a: "?a = (failed, w')" using assms by (simp add: revokeRefreshFamilyDurableObjects_def)
  show "w_db w' = w_db w" "w_codes w' = w_codes w"
    using revoke_attempts_frame [of pf 0 2 "js_dedup ids" w] a by simp_all
  have "(\<forall>b. 0 \<le> b \<and> b < 0 + (2 :: nat) \<longrightarrow> pf_do_rejects pf b i) \<longleftrightarrow>
      pf_do_rejects pf 0 i \<and> pf_do_rejects pf 1 i" for i
    by (auto simp: less_Suc_eq numeral_2_eq_2)
  then show "set failed = {i \<in> set ids. pf_do_rejects pf 0 i \<and> pf_do_rejects pf 1 i}"
    using revoke_attempts_failed [OF a] by simp
  show "w_families w' i = (if i \<in> set ids \<and> i \<notin> set failed then fam_revoke (w_families w i)
                        else w_families w i)"
    using revoke_attempts_family [OF a] by simp
qed

section \<open>Mass revocation: laws\<close>

lemma revokeMatching_laws:
  assumes "revokeMatchingFamilies pf P w = (n, w')" and "\<And>r t. P (r\<lparr>rt_revokedAt := t\<rparr>) = P r"
  shows "\<forall>r\<in>set (t_refresh_tokens (w_db w')). P r \<longrightarrow> rt_revokedAt r \<noteq> None"
    and "filter (\<lambda>r. \<not> P r) (t_refresh_tokens (w_db w')) = filter (\<lambda>r. \<not> P r) (t_refresh_tokens (w_db w))"
    and "n = length (filter (\<lambda>r. P r \<and> rt_revokedAt r = None) (t_refresh_tokens (w_db w)))"
    and "r \<in> set (t_refresh_tokens (w_db w)) \<Longrightarrow> P r \<Longrightarrow> rt_revokedAt r = None \<Longrightarrow>
       \<not> (pf_do_rejects pf 0 (rt_id r) \<and> pf_do_rejects pf 1 (rt_id r)) \<Longrightarrow>
       fam_dead (w_families w' (rt_id r))"
proof -
  let ?hit = "\<lambda>r. P r \<and> rt_revokedAt r = None"
  let ?t = "t_refresh_tokens (w_db w)"
  let ?w1 = "upd_refresh (update_where ?hit (set_revoked (pf_now pf))) w"
  obtain failed where d: "revokeRefreshFamilyDurableObjects pf (map rt_id (filter ?hit ?t)) ?w1 = (failed, w')"
    and n: "n = length (filter ?hit ?t)"
    using assms(1) by (auto simp: revokeMatchingFamilies_def Let_def split: prod.splits)
  have t: "t_refresh_tokens (w_db w') = update_where ?hit (set_revoked (pf_now pf)) ?t"
    using revoke_dos(1) [OF d] by simp
  show "\<forall>r\<in>set (t_refresh_tokens (w_db w')). P r \<longrightarrow> rt_revokedAt r \<noteq> None"
    by (auto simp: t set_update_where assms(2) split: if_splits)
  show "filter (\<lambda>r. \<not> P r) (t_refresh_tokens (w_db w')) = filter (\<lambda>r. \<not> P r) ?t"
    unfolding t by (rule filter_update_untouched) (simp add: assms(2))
  show "n = length (filter ?hit ?t)" by (rule n)
  show "fam_dead (w_families w' (rt_id r))"
    if "r \<in> set ?t" "P r" "rt_revokedAt r = None"
      "\<not> (pf_do_rejects pf 0 (rt_id r) \<and> pf_do_rejects pf 1 (rt_id r))"
    using that revoke_dos(3) [OF d] revoke_dos(4) [OF d, of "rt_id r"] by auto
qed

section \<open>The cap on active families\<close>

definition refresh_keys :: "db \<Rightarrow> bool" where
  "refresh_keys db = distinct (map rt_id (t_refresh_tokens db))"

lemma length_filter_mem_ids:
  assumes "distinct (map f xs)" "distinct ids" "set ids \<subseteq> f ` set xs"
  shows "length (filter (\<lambda>x. f x \<in> set ids) xs) = length ids"
proof -
  have "map f (filter (\<lambda>x. f x \<in> set ids) xs) = filter (\<lambda>y. y \<in> set ids) (map f xs)"
    by (simp add: filter_map comp_def)
  then have "length (filter (\<lambda>x. f x \<in> set ids) xs) = length (filter (\<lambda>y. y \<in> set ids) (map f xs))"
    by (metis length_map)
  also have "\<dots> = card (set (filter (\<lambda>y. y \<in> set ids) (map f xs)))"
    using assms(1) by (metis distinct_card distinct_filter)
  also have "set (filter (\<lambda>y. y \<in> set ids) (map f xs)) = set ids" using assms(3) by auto
  finally show ?thesis using assms(2) by (simp add: distinct_card)
qed

lemma prune_caps:
  assumes keys: "distinct (map rt_id t)" and row: "i \<in> set t" "rt_id i = fid" "active_for now u c i"
    and p: "pruneStatement now u c fid t = (ids, t')"
  shows "length (filter (active_for now u c) t') \<le> 20" "i \<in> set t'" "map rt_id t' = map rt_id t"
proof -
  let ?A = "active_for now u c"
  let ?act = "filter ?A t"
  let ?cand = "sort_key (\<lambda>r. (rt_createdAt r, rt_id r)) (filter (\<lambda>r. rt_id r \<noteq> fid) ?act)"
  let ?sel = "take (length ?act - 20) ?cand"
  let ?hit = "\<lambda>r. rt_id r \<in> set (map rt_id ?sel)"
  have live: "list_ex (\<lambda>j. rt_id j = fid \<and> rt_revokedAt j = None) t"
    using row by (auto simp: list_ex_iff active_for_def)
  have t': "t' = update_where ?hit (set_revoked now) t"
    using p live by (simp add: pruneStatement_def prune_ids_def Let_def policy_simps)
  show "map rt_id t' = map rt_id t" unfolding t' by (rule map_update_where) simp
  have dk: "distinct (map rt_id ?act)" using keys by (simp add: distinct_map_filter)
  have in_cand: "set ?cand \<subseteq> set ?act" by auto
  have "\<not> ?hit i" using row(2) by (auto dest!: in_set_takeD)
  then show "i \<in> set t'" using row(1) by (force simp: t' set_update_where)
  have cand: "length ?cand = length ?act - 1"
  proof -
    have "length (filter (\<lambda>r. rt_id r \<in> set [fid]) ?act) = length [fid]"
      using row by (intro length_filter_mem_ids [OF dk]) auto
    then show ?thesis using sum_length_filter_compl [of "\<lambda>r. rt_id r = fid" ?act] by simp
  qed
  have "distinct (map rt_id (filter (\<lambda>r. rt_id r \<noteq> fid) ?act))" using dk by (rule distinct_map_filter)
  then have "distinct (map rt_id ?cand)" by (simp add: distinct_map)
  then have ds: "distinct (map rt_id ?sel)" by (simp only: take_map [symmetric] distinct_take)
  have sub: "set (map rt_id ?sel) \<subseteq> rt_id ` set ?act" using in_cand by (auto dest!: in_set_takeD)
  have hits: "length (filter ?hit ?act) = length ?sel"
    using length_filter_mem_ids [OF dk ds sub] by simp
  have "filter ?A t' = filter (\<lambda>r. \<not> ?hit r) ?act"
    unfolding t' by (rule filter_update_removed) (simp add: active_for_def)
  then have "length (filter ?A t') = length (filter (\<lambda>r. \<not> ?hit r) ?act)" by (simp only:)
  then have "length (filter ?A t') = length ?act - length ?sel"
    using sum_length_filter_compl [of ?hit ?act] hits by linarith
  moreover have "length ?sel = length ?act - 20" using cand by simp
  ultimately show "length (filter ?A t') \<le> 20" by simp
qed

section \<open>Issuing: laws\<close>

definition others_keep_keys :: "platform \<Rightarrow> bool" where
  "others_keep_keys pf =
     (\<forall>l w. refresh_keys (w_db w) \<longrightarrow> refresh_keys (w_db (pf_others pf l w)))"

lemma commit_success:
  assumes "commit_family pf input tok w = (Inr tok', w')"
  shows "tok' = tok" "sessionGuard (pf_now pf) input (w_db w)"
    "\<not> insert_violates (irt_familyId tok) (hashOpaqueToken (pf_crypto pf) (irt_token tok))
       (ir_clientId input) (w_db w)"
    "w_db w' = (w_db w)\<lparr>t_refresh_tokens := snd (pruneStatement (pf_now pf) (ir_userId input)
       (ir_clientId input) (irt_familyId tok) (t_refresh_tokens (w_db w) @
         [new_refresh_row (pf_now pf) (irt_expiresAt tok) (irt_familyId tok)
           (hashOpaqueToken (pf_crypto pf) (irt_token tok)) input]))\<rparr>"
    "w_codes w' = w_codes w"
  using assms revoke_dos(1,2) [OF prod.collapse [symmetric]]
  by (auto simp: commit_family_def Let_def case_prod_unfold split: if_splits)

lemma commit_failure:
  "commit_family pf input tok w = (Inl e, w') \<Longrightarrow> fam_dead (w_families w' (irt_familyId tok))"
  by (auto simp: commit_family_def Let_def case_prod_unfold split: if_splits)

lemma issue_success:
  assumes "issueRefreshToken pf input w = (Inr tok, w')"
  obtains w2 where "w2 = pf_others pf ''issue:batch'' (init_family pf input tok w)"
    "tok = new_family pf input" "commit_family pf input tok w2 = (Inr tok, w')"
  using assms commit_success(1) unfolding issueRefreshToken_def Let_def by metis

lemma new_family_expires: "irt_expiresAt (new_family pf input) > pf_now pf"
  by (simp add: new_family_def Let_def policy_simps)

lemma issue_caps:
  assumes ok: "issueRefreshToken pf input w = (Inr tok, w')"
    and keys: "refresh_keys (w_db w)" "others_keep_keys pf"
  shows "length (filter (active_for (pf_now pf) (ir_userId input) (ir_clientId input))
           (t_refresh_tokens (w_db w'))) \<le> 20"
    and "new_refresh_row (pf_now pf) (irt_expiresAt tok) (irt_familyId tok)
       (hashOpaqueToken (pf_crypto pf) (irt_token tok)) input \<in> set (t_refresh_tokens (w_db w'))"
    and "refresh_keys (w_db w')"
proof -
  obtain w2 where w2: "w2 = pf_others pf ''issue:batch'' (init_family pf input tok w)"
    and tok: "tok = new_family pf input" and c: "commit_family pf input tok w2 = (Inr tok, w')"
    using issue_success [OF ok] .
  let ?row = "new_refresh_row (pf_now pf) (irt_expiresAt tok) (irt_familyId tok)
    (hashOpaqueToken (pf_crypto pf) (irt_token tok)) input"
  let ?t = "t_refresh_tokens (w_db w2) @ [?row]"
  have "refresh_keys (w_db w2)"
    using keys by (simp add: w2 others_keep_keys_def init_family_def)
  then have k: "distinct (map rt_id ?t)"
    using commit_success(3) [OF c]
    by (auto simp: refresh_keys_def insert_violates_def list_ex_iff new_refresh_row_def)
  have row: "?row \<in> set ?t" "rt_id ?row = irt_familyId tok"
    "active_for (pf_now pf) (ir_userId input) (ir_clientId input) ?row"
    using new_family_expires [of pf input] by (auto simp: new_refresh_row_def active_for_def tok)
  obtain ids t' where p: "pruneStatement (pf_now pf) (ir_userId input) (ir_clientId input)
      (irt_familyId tok) ?t = (ids, t')" by fastforce
  have t': "t_refresh_tokens (w_db w') = t'" using commit_success(4) [OF c] p by simp
  show "length (filter (active_for (pf_now pf) (ir_userId input) (ir_clientId input))
           (t_refresh_tokens (w_db w'))) \<le> 20" "?row \<in> set (t_refresh_tokens (w_db w'))"
    using prune_caps(1,2) [OF k row p] by (simp_all add: t')
  show "refresh_keys (w_db w')"
    using prune_caps(3) [OF k row p] k unfolding t' refresh_keys_def by (simp only:)
qed

section \<open>Rotation: laws\<close>

lemma rotate_family_fate:
  assumes "fam_rotate now h nh cl sc f = (r, f')" and "\<forall>m. r \<noteq> Rotated m"
  shows "f' = f \<or> fam_dead f'"
  using rotate_not_Rotated [OF assms] by (auto simp: fam_dead_def)

lemma rotated_outcome:
  assumes "rotateRefreshToken pf tok cl sc w = (Inr (RO_rotated nt u c res scp a), w')"
    and fid: "fid = hd (js_split (CHR ''.'') tok)"
  shows "\<exists>m f' w2. fam_rotate (pf_now pf) (hashOpaqueToken (pf_crypto pf) tok)
        (hashOpaqueToken (pf_crypto pf) nt) cl sc (w_families w fid) = (Rotated m, f') \<and>
      w2 = pf_others pf ''rotate:mirror'' (w\<lparr>w_families := (w_families w)(fid := f')\<rparr>) \<and>
      changes (\<lambda>r. rt_id r = fid \<and> rt_revokedAt r = None) (t_refresh_tokens (w_db w2)) = 1 \<and>
      w' = upd_refresh (update_where (\<lambda>r. rt_id r = fid \<and> rt_revokedAt r = None)
             (\<lambda>r. r\<lparr>rt_tokenHash := hashOpaqueToken (pf_crypto pf) nt, rt_scope := fm_scope m,
                rt_generation := fm_generation m, rt_lastRotatedAt := pf_now pf\<rparr>)) w2 \<and>
      u = fm_userId m \<and> c = fm_clientId m \<and> res = fm_resource m \<and> scp = fm_scope m"
  using assms
  by (auto simp: rotateRefreshToken_def Let_def split: prod.splits RotateResult.splits if_splits)

section \<open>Properties\<close>

text \<open>
  C16. The cap on refresh-token families: after a successful \<open>issueRefreshToken\<close> a user and a
  client share at most 20 active families, the new family is one of them under the hash of the
  returned token, and primary keys stay distinct, whatever other requests did between the
  initialization of the Durable Object and the D1 batch.
\<close>

theorem issue_caps_active_families:
  assumes "issueRefreshToken pf input w = (Inr tok, w')"
    and "refresh_keys (w_db w)" and "others_keep_keys pf"
  shows "length (filter (active_for (pf_now pf) (ir_userId input) (ir_clientId input))
           (t_refresh_tokens (w_db w'))) \<le> 20 \<and>
    (\<exists>r\<in>set (t_refresh_tokens (w_db w')). rt_id r = irt_familyId tok \<and>
       active_for (pf_now pf) (ir_userId input) (ir_clientId input) r \<and>
       rt_tokenHash r = hashOpaqueToken (pf_crypto pf) (irt_token tok)) \<and>
    refresh_keys (w_db w')"
proof -
  have "irt_expiresAt tok > pf_now pf"
    using issue_success [OF assms(1)] new_family_expires by metis
  then show ?thesis
    using issue_caps [OF assms]
    by (intro conjI bexI [of _ "new_refresh_row (pf_now pf) (irt_expiresAt tok) (irt_familyId tok)
         (hashOpaqueToken (pf_crypto pf) (irt_token tok)) input"])
      (auto simp: new_refresh_row_def active_for_def)
qed

definition demo_issue :: IssueRefreshInput where
  "demo_issue = \<lparr>ir_userId = ''u'', ir_clientId = ''c'', ir_sessionId = None, ir_resource = ''r'',
     ir_scope = ''openid offline_access'', ir_authTime = 900, ir_rememberMe = False\<rparr>"

lemma demo_issue_succeeds:
  "\<exists>w'. issueRefreshToken demo_pf demo_issue demo_world = (Inr (new_family demo_pf demo_issue), w')"
  by (simp add: issueRefreshToken_def commit_family_def Let_def case_prod_unfold sessionGuard_def
      init_family_def insert_violates_def demo_issue_def demo_defs getClientById_def)

theorem issue_caps_active_families_witness:
  "\<exists>tok w'. issueRefreshToken demo_pf demo_issue demo_world = (Inr tok, w') \<and>
     length (filter (active_for (pf_now demo_pf) ''u'' ''c'') (t_refresh_tokens (w_db w'))) \<le> 20"
proof -
  obtain w' where w': "issueRefreshToken demo_pf demo_issue demo_world =
      (Inr (new_family demo_pf demo_issue), w')" using demo_issue_succeeds by blast
  have "refresh_keys (w_db demo_world)" "others_keep_keys demo_pf"
    by (simp_all add: refresh_keys_def others_keep_keys_def demo_defs)
  from issue_caps_active_families [OF w' this] w' show ?thesis
    by (auto simp: demo_issue_def)
qed





text \<open>
  Replay of a rotated-out refresh token burns the family in both stores: presented in time
  by the family's own client to a live family, the token is reported as reused, the Durable
  Object is dead afterwards and every D1 row of the family is revoked.
\<close>

theorem replay_burns_both_stores:
  assumes "w_families w (hd (js_split (CHR ''.'') tok)) = f"
    and "fam_meta f = Some m" and "fam_currentHash f \<noteq> None" and "\<not> fm_revoked m"
    and "rotated_out (hashOpaqueToken (pf_crypto pf) tok) f"
    and "pf_now pf \<le> fm_absoluteExpiresAt m" and "fm_clientId m = cl"
    and "rotateRefreshToken pf tok cl sc w = (out, w')"
  shows "out = Inr (RO_reuse_detected (hd (js_split (CHR ''.'') tok))) \<and>
    fam_dead (w_families w' (hd (js_split (CHR ''.'') tok))) \<and>
    (\<forall>r\<in>set (t_refresh_tokens (w_db w')).
       rt_id r = hd (js_split (CHR ''.'') tok) \<longrightarrow> rt_revokedAt r \<noteq> None)"
proof -
  let ?nh = "hashOpaqueToken (pf_crypto pf)
    (hd (js_split (CHR ''.'') tok) @ ''.'' @ randomToken (pf_random pf ''rotate''))"
  obtain r f' where r: "fam_rotate (pf_now pf) (hashOpaqueToken (pf_crypto pf) tok) ?nh cl sc f = (r, f')"
    by fastforce
  have "\<exists>m. r = ReuseDetected m \<and> fam_dead f'"
    using assms(2-7) r by (auto simp: fam_rotate_def rotated_out_def fam_dead_def Let_def)
  with assms(1,8) r show ?thesis
    by (auto simp: rotateRefreshToken_def Let_def set_update_where)
qed

theorem replay_burns_both_stores_witness:
  "let m = \<lparr>fm_userId = ''u'', fm_clientId = ''c'', fm_resource = ''r'', fm_scope = ''s'',
         fm_authTime = Some 1, fm_absoluteExpiresAt = 5000, fm_createdAt = 1, fm_generation = 1,
         fm_revoked = False, fm_lastRotatedAt = Some 1\<rparr>;
       f = \<lparr>fam_meta = Some m, fam_currentHash = Some ''new'', fam_usedHashes = None,
         fam_used = {hashOpaqueToken demo_crypto ''f.old''}, fam_alarm = None\<rparr>;
       w = demo_world\<lparr>w_families := (\<lambda>_. f)\<rparr>
   in fst (rotateRefreshToken demo_pf ''f.old'' ''c'' ''s'' w) = Inr (RO_reuse_detected ''f'')"
proof -
  let ?m = "\<lparr>fm_userId = ''u'', fm_clientId = ''c'', fm_resource = ''r'', fm_scope = ''s'',
         fm_authTime = Some 1, fm_absoluteExpiresAt = 5000, fm_createdAt = 1, fm_generation = 1,
         fm_revoked = False, fm_lastRotatedAt = Some 1\<rparr>"
  let ?f = "\<lparr>fam_meta = Some ?m, fam_currentHash = Some ''new'', fam_usedHashes = None,
         fam_used = {hashOpaqueToken demo_crypto ''f.old''}, fam_alarm = None\<rparr>"
  have "hashOpaqueToken demo_crypto ''f.old'' \<noteq> ''new''"
    by (simp add: hashOpaqueToken_def sha256Hex_def sha256_def demo_crypto_def utf8_encode_def
        utf8_char_def)
  then show ?thesis
    using replay_burns_both_stores [of "demo_world\<lparr>w_families := (\<lambda>_. ?f)\<rparr>" "''f.old''" ?f ?m demo_pf "''c''" "''s''",
        OF _ _ _ _ _ _ _ prod.collapse [symmetric]]
    by (simp add: rotated_out_def demo_pf_def pf_now_def nowSeconds_def)
qed

text \<open>
  \<open>revokeRefreshFamiliesForUser\<close> (the revocation behind a password reset) leaves no live
  row of the user in D1, touches no other user's row, returns how many families it revoked,
  and kills the Durable Object of each of them unless both attempts at that object were
  rejected.
\<close>

theorem user_revocation_complete:
  assumes "revokeRefreshFamiliesForUser pf userId w = (n, w')"
  shows "(\<forall>r\<in>set (t_refresh_tokens (w_db w')). rt_userId r = userId \<longrightarrow> rt_revokedAt r \<noteq> None) \<and>
    filter (\<lambda>r. rt_userId r \<noteq> userId) (t_refresh_tokens (w_db w')) =
      filter (\<lambda>r. rt_userId r \<noteq> userId) (t_refresh_tokens (w_db w)) \<and>
    n = length (filter (\<lambda>r. rt_userId r = userId \<and> rt_revokedAt r = None) (t_refresh_tokens (w_db w))) \<and>
    (\<forall>r\<in>set (t_refresh_tokens (w_db w)). rt_userId r = userId \<and> rt_revokedAt r = None \<and>
       \<not> (pf_do_rejects pf 0 (rt_id r) \<and> pf_do_rejects pf 1 (rt_id r)) \<longrightarrow>
       fam_dead (w_families w' (rt_id r)))"
  using revokeMatching_laws [of pf "\<lambda>r. rt_userId r = userId" w n w'] assms
  by (auto simp: revokeRefreshFamiliesForUser_def)

theorem user_revocation_complete_witness:
  "let w = snd (issueRefreshToken demo_pf demo_issue demo_world);
       w' = snd (revokeRefreshFamiliesForUser demo_pf ''u'' w)
   in \<forall>r\<in>set (t_refresh_tokens (w_db w')). rt_userId r = ''u'' \<longrightarrow> rt_revokedAt r \<noteq> None"
  using user_revocation_complete [OF prod.collapse [symmetric], of demo_pf "''u''"
      "snd (issueRefreshToken demo_pf demo_issue demo_world)"]
  by (simp add: Let_def)

end
