(* ===== verification/Client_Metadata.thy ===== *)
theory Client_Metadata
  imports Client_Auth Refresh_Tokens
begin

text \<open>
  The document part of \<open>src/oauth/client-id-metadata.ts\<close> and \<open>upsertMetadataClient\<close> of
  \<open>src/db/queries/clients.ts\<close>: a client whose identifier is an https URL publishes a metadata
  document there, which is fetched, validated and kept as a client row of its own registration type.
\<close>

definition CLIENT_METADATA_DEFAULT_TTL_SECONDS :: nat where "CLIENT_METADATA_DEFAULT_TTL_SECONDS = 60 * 60"
definition CLIENT_METADATA_MAX_TTL_SECONDS :: nat where "CLIENT_METADATA_MAX_TTL_SECONDS = 24 * 60 * 60"
definition CLIENT_METADATA_MAX_REDIRECT_URIS :: nat where "CLIENT_METADATA_MAX_REDIRECT_URIS = 16"

section \<open>The schema\<close>

record metadata_document =
  md_client_id :: string
  md_client_name :: string
  md_redirect_uris :: "string list"
  md_grant_types :: "string list"
  md_response_types :: "string list"
  md_methods_supported :: "TokenEndpointAuthMethod list option"
  md_method :: "TokenEndpointAuthMethod option"
  md_jwks_uri :: "string option"

definition bounded_string :: "nat \<Rightarrow> json option \<Rightarrow> string option" where
  "bounded_string n v = (case v of Some (JStr s) \<Rightarrow> if length s \<le> n then Some s else None | _ \<Rightarrow> None)"

text \<open>\<open>z.array(z.string().max(n)).min(1).max(m)\<close>.\<close>

definition string_array :: "nat \<Rightarrow> nat \<Rightarrow> json option \<Rightarrow> string list option" where
  "string_array n m v =
     (case v of
        Some (JArr xs) \<Rightarrow>
          (if 1 \<le> length xs \<and> length xs \<le> m then all_some (map (\<lambda>x. bounded_string n (Some x)) xs) else None)
      | _ \<Rightarrow> None)"

definition parse_method :: "json \<Rightarrow> TokenEndpointAuthMethod option" where
  "parse_method v =
     (if v = JStr ''none'' then Some auth_none
      else if v = JStr ''private_key_jwt'' then Some private_key_jwt else None)"

definition method_array :: "json \<Rightarrow> TokenEndpointAuthMethod list option" where
  "method_array v =
     (case v of JArr xs \<Rightarrow> (if 1 \<le> length xs \<and> length xs \<le> 2 then all_some (map parse_method xs) else None) | _ \<Rightarrow> None)"

text \<open>An optional property: absent is fine, present must decode.\<close>

definition optional :: "(json \<Rightarrow> 'a option) \<Rightarrow> json option \<Rightarrow> 'a option option" where
  "optional f v = (case v of None \<Rightarrow> Some None | Some j \<Rightarrow> map_option Some (f j))"

definition with_default :: "'a \<Rightarrow> (json option \<Rightarrow> 'a option) \<Rightarrow> json option \<Rightarrow> 'a option" where
  "with_default d f v = (if v = None then Some d else f v)"

definition client_name_field :: "json option \<Rightarrow> string option" where
  "client_name_field v =
     (case v of
        Some (JStr s) \<Rightarrow> (let t = js_trim s in if 1 \<le> length t \<and> length t \<le> 120 then Some t else None)
      | _ \<Rightarrow> None)"

definition metadataSchema :: "json \<Rightarrow> metadata_document option" where
  "metadataSchema raw =
     (case raw of
        JObj ps \<Rightarrow>
          (case (bounded_string 2048 (jget ps ''client_id''), client_name_field (jget ps ''client_name''),
                 string_array 2048 CLIENT_METADATA_MAX_REDIRECT_URIS (jget ps ''redirect_uris''),
                 with_default [''authorization_code''] (string_array 128 2) (jget ps ''grant_types''),
                 with_default [''code''] (string_array 64 1) (jget ps ''response_types''),
                 optional method_array (jget ps ''token_endpoint_auth_methods_supported''),
                 optional parse_method (jget ps ''token_endpoint_auth_method''),
                 optional (\<lambda>v. bounded_string 2048 (Some v)) (jget ps ''jwks_uri'')) of
             (Some client_id, Some client_name, Some redirect_uris, Some grant_types, Some response_types,
              Some methods, Some method, Some jwks_uri) \<Rightarrow>
               Some \<lparr>md_client_id = client_id, md_client_name = client_name, md_redirect_uris = redirect_uris,
                 md_grant_types = grant_types, md_response_types = response_types, md_methods_supported = methods,
                 md_method = method, md_jwks_uri = jwks_uri\<rparr>
           | _ \<Rightarrow> None)
      | _ \<Rightarrow> None)"

section \<open>The checks of a document\<close>

definition isSafeRedirectUri :: "url_parser \<Rightarrow> string \<Rightarrow> bool" where
  "isSafeRedirectUri parse_url raw =
     (if CHR ''#'' \<in> set raw \<or> CHR ''*'' \<in> set raw \<or> contains ''%2a'' (ascii_lower raw) then False
      else case parse_url raw of
        None \<Rightarrow> False
      | Some url \<Rightarrow>
          if url_hash url \<noteq> [] \<or> url_username url \<noteq> [] \<or> url_password url \<noteq> [] then False
          else if url_protocol url = ''https:'' then url_hostname url \<noteq> [] \<and> CHR ''*'' \<notin> set (url_hostname url)
          else url_protocol url = ''http:'' \<and>
            (url_hostname url = ''localhost'' \<or> url_hostname url = ''127.0.0.1'' \<or> url_hostname url = ''[::1]''))"

text \<open>
  \<open>metadataTtl\<close>. Both patterns start at the beginning or after a comma, and neither crosses a
  comma, so they are tests of the pieces between commas.
\<close>

definition strip_left :: "string \<Rightarrow> string" where "strip_left s = dropWhile is_ws s"

definition forbids_caching :: "string \<Rightarrow> bool" where
  "forbids_caching piece =
     (let p = strip_left piece; rest = strip_left (drop 8 p)
      in (take 8 p = ''no-store'' \<or> take 8 p = ''no-cache'') \<and> (rest = [] \<or> hd rest = CHR ''=''))"

definition max_age_of :: "string \<Rightarrow> nat option" where
  "max_age_of piece =
     (let p = strip_left piece;
          n = (if take 8 p = ''s-maxage'' then Some 8 else if take 7 p = ''max-age'' then Some 7 else None)
      in case n of
           None \<Rightarrow> None
         | Some k \<Rightarrow>
             (case strip_left (drop k p) of
                c # cs \<Rightarrow>
                  (let v = strip_left cs; u = (if v \<noteq> [] \<and> ccode (hd v) = 34 then tl v else v);
                       digits = takeWhile is_digit u
                   in if c \<noteq> CHR ''='' \<or> digits = [] then None else Some (digits_value digits))
              | [] \<Rightarrow> None))"

definition first_some :: "'a option list \<Rightarrow> 'a option" where
  "first_some xs = (case find (\<lambda>x. x \<noteq> None) xs of None \<Rightarrow> None | Some x \<Rightarrow> x)"

definition metadataTtl :: "http_response \<Rightarrow> nat" where
  "metadataTtl response =
     (let cacheControl = (case hr_header response ''cache-control'' of None \<Rightarrow> [] | Some h \<Rightarrow> ascii_lower h);
          pieces = js_split (CHR '','') cacheControl
      in if list_ex forbids_caching pieces then 0
         else case first_some (map max_age_of pieces) of
                None \<Rightarrow> CLIENT_METADATA_DEFAULT_TTL_SECONDS
              | Some n \<Rightarrow> min n CLIENT_METADATA_MAX_TTL_SECONDS)"

section \<open>fetchClientIdMetadata\<close>

record ClientIdMetadata =
  cm_clientId :: string
  cm_clientName :: string
  cm_redirectUris :: "string list"
  cm_allowedGrantTypes :: "string list"
  cm_tokenEndpointAuthMethods :: "TokenEndpointAuthMethod list"
  cm_jwksUri :: "string option"
  cm_fingerprint :: string
  cm_expiresAt :: int

abbreviation metadata_error :: "string \<Rightarrow> (fetch_error, 'a) result" where
  "metadata_error m \<equiv> Inl (ClientIdMetadataError m)"

definition check_jwks_uri :: "url_parser \<Rightarrow> url \<Rightarrow> string option \<Rightarrow> (fetch_error, string option) result" where
  "check_jwks_uri parse_url url jwks_uri =
     (case jwks_uri of
        None \<Rightarrow> Inr None
      | Some raw \<Rightarrow>
          (case parse_url raw of
             None \<Rightarrow> metadata_error ''Client metadata JWKS URI is invalid''
           | Some jwksUrl \<Rightarrow>
               if \<not> isSafePublicFetchUrl jwksUrl \<or> url_origin jwksUrl \<noteq> url_origin url \<or> url_search jwksUrl \<noteq> [] \<or>
                  url_pathname jwksUrl = ''/'' then metadata_error ''Client metadata JWKS URI is invalid''
               else Inr (Some (url_href jwksUrl))))"

definition metadata_fingerprint ::
  "crypto \<Rightarrow> string \<Rightarrow> string \<Rightarrow> string list \<Rightarrow> string list \<Rightarrow> TokenEndpointAuthMethod list \<Rightarrow> string option \<Rightarrow> string" where
  "metadata_fingerprint cr clientId name uris grantTypes methods jwksUri =
     sha256Hex cr (json_stringify (JObj
       [(''client_id'', JStr clientId), (''client_name'', JStr name), (''redirect_uris'', JArr (map JStr uris)),
        (''grant_types'', JArr (map JStr grantTypes)), (''response_types'', JArr [JStr ''code'']),
        (''token_endpoint_auth_methods_supported'', JArr (map (\<lambda>m. JStr (auth_method_name m)) methods)),
        (''jwks_uri'', case jwksUri of None \<Rightarrow> JNull | Some u \<Rightarrow> JStr u)]))"

text \<open>The validation of a parsed document.\<close>

definition validate_document ::
  "platform \<Rightarrow> string \<Rightarrow> url \<Rightarrow> http_response \<Rightarrow> metadata_document \<Rightarrow> (fetch_error, ClientIdMetadata) result" where
  "validate_document pf clientId url response d =
     (let methods = js_dedup (case md_methods_supported d of
            Some ms \<Rightarrow> ms | None \<Rightarrow> [case md_method d of Some m \<Rightarrow> m | None \<Rightarrow> auth_none])
      in if \<not> distinct (md_redirect_uris d) \<or> list_ex (\<lambda>u. \<not> isSafeRedirectUri (pf_url pf) u) (md_redirect_uris d) \<or>
            md_response_types d \<noteq> [''code''] then
           metadata_error ''Client metadata requests unsupported or unsafe OAuth behavior''
         else if \<not> distinct (md_grant_types d) \<or> ''authorization_code'' \<notin> set (md_grant_types d) \<or>
            list_ex (\<lambda>g. g \<noteq> ''authorization_code'' \<and> g \<noteq> ''refresh_token'') (md_grant_types d) then
           metadata_error ''Client metadata declares unsupported grant types''
         else if (case md_methods_supported d of None \<Rightarrow> False | Some ms \<Rightarrow> \<not> distinct ms) then
           metadata_error ''Client metadata authentication methods must be unique''
         else if (case md_method d of None \<Rightarrow> False | Some m \<Rightarrow> m \<notin> set methods) then
           metadata_error ''Client metadata authentication preference is inconsistent''
         else case check_jwks_uri (pf_url pf) url (md_jwks_uri d) of
           Inl e \<Rightarrow> Inl e
         | Inr jwksUri \<Rightarrow>
             if private_key_jwt \<in> set methods \<and> jwksUri = None then
               metadata_error ''private_key_jwt metadata requires a same-origin JWKS URI''
             else Inr \<lparr>cm_clientId = clientId, cm_clientName = md_client_name d, cm_redirectUris = md_redirect_uris d,
                    cm_allowedGrantTypes = md_grant_types d, cm_tokenEndpointAuthMethods = methods, cm_jwksUri = jwksUri,
                    cm_fingerprint = metadata_fingerprint (pf_crypto pf) clientId (md_client_name d) (md_redirect_uris d)
                      (md_grant_types d) methods jwksUri,
                    cm_expiresAt = pf_now pf + int (metadataTtl response)\<rparr>)"

definition has_shared_secret :: "json \<Rightarrow> bool" where
  "has_shared_secret raw =
     (case raw of JObj ps \<Rightarrow> jget ps ''client_secret'' \<noteq> None \<or> jget ps ''client_secret_expires_at'' \<noteq> None | _ \<Rightarrow> False)"

definition fetchClientIdMetadata :: "platform \<Rightarrow> string \<Rightarrow> (fetch_error, ClientIdMetadata) result" where
  "fetchClientIdMetadata pf clientId =
     (case parseClientIdentifierUrl (pf_url pf) clientId of
        None \<Rightarrow> metadata_error ''Invalid Client Identifier URL''
      | Some url \<Rightarrow>
          (case fst (fetchPublicJson (pf_network pf) url CLIENT_METADATA_MAX_BYTES) of
             Inl e \<Rightarrow> Inl e
           | Inr (raw, response) \<Rightarrow>
               if has_shared_secret raw then metadata_error ''Client metadata must not contain shared secrets''
               else case metadataSchema raw of
                 None \<Rightarrow> metadata_error ''Client metadata document is malformed or has a mismatched client_id''
               | Some d \<Rightarrow>
                   if md_client_id d \<noteq> clientId then
                     metadata_error ''Client metadata document is malformed or has a mismatched client_id''
                   else validate_document pf clientId url response d))"

section \<open>upsertMetadataClient\<close>

definition MAX_METADATA_CLIENT_RECORDS :: nat where "MAX_METADATA_CLIENT_RECORDS = 10000"

record UpsertMetadataClientInput =
  um_clientId :: string
  um_name :: string
  um_redirectUris :: "string list"
  um_allowedGrantTypes :: "string list"
  um_tokenEndpointAuthMethods :: "TokenEndpointAuthMethod list"
  um_metadataJwksUri :: "string option"
  um_metadataFingerprint :: string
  um_resourceUri :: string
  um_allowedScopes :: "string list"
  um_metadataExpiresAt :: int

definition metadata_client_type :: "UpsertMetadataClientInput \<Rightarrow> ClientType" where
  "metadata_client_type input =
     (if auth_none \<in> set (um_tokenEndpointAuthMethods input) then public_client else confidential)"

definition new_metadata_client :: "UpsertMetadataClientInput \<Rightarrow> OAuthClient" where
  "new_metadata_client input =
     \<lparr>oc_clientId = um_clientId input, oc_name = um_name input, oc_type = metadata_client_type input,
      oc_clientKind = application, oc_clientSecretHash = None, oc_redirectUris = um_redirectUris input,
      oc_postLogoutRedirectUris = [], oc_allowedScopes = um_allowedScopes input,
      oc_allowedGrantTypes = um_allowedGrantTypes input, oc_allowedResources = [um_resourceUri input],
      oc_defaultResource = None, oc_requirePkce = True, oc_enabled = True,
      oc_tokenEndpointAuthMethods = um_tokenEndpointAuthMethods input, oc_introspectionAllowed = False,
      oc_registrationType = client_id_metadata, oc_metadataFingerprint = Some (um_metadataFingerprint input),
      oc_metadataExpiresAt = Some (um_metadataExpiresAt input), oc_metadataJwksUri = um_metadataJwksUri input\<rparr>"

text \<open>The \<open>UPDATE\<close> of the row; the scopes and resources accumulate, \<open>enabled\<close> is not touched.\<close>

definition refresh_metadata_client ::
  "UpsertMetadataClientInput \<Rightarrow> string list \<Rightarrow> string list \<Rightarrow> OAuthClient \<Rightarrow> OAuthClient" where
  "refresh_metadata_client input allowedScopes allowedResources c =
     c\<lparr>oc_name := um_name input, oc_type := metadata_client_type input, oc_redirectUris := um_redirectUris input,
       oc_allowedScopes := allowedScopes, oc_allowedGrantTypes := um_allowedGrantTypes input,
       oc_allowedResources := allowedResources, oc_metadataExpiresAt := Some (um_metadataExpiresAt input),
       oc_metadataFingerprint := Some (um_metadataFingerprint input),
       oc_tokenEndpointAuthMethods := um_tokenEndpointAuthMethods input,
       oc_metadataJwksUri := um_metadataJwksUri input\<rparr>"

definition metadata_batch ::
  "int \<Rightarrow> UpsertMetadataClientInput \<Rightarrow> OAuthClient \<Rightarrow> db \<Rightarrow> db" where
  "metadata_batch now input current db =
     (let allowedResources = js_dedup (oc_allowedResources current @ [um_resourceUri input]);
          allowedScopes = js_dedup (oc_allowedScopes current @ um_allowedScopes input);
          metadataChanged = (oc_metadataFingerprint current \<noteq> Some (um_metadataFingerprint input));
          db1 = db\<lparr>t_oauth_clients := update_where
                  (\<lambda>c. oc_clientId c = um_clientId input \<and> oc_registrationType c = client_id_metadata)
                  (refresh_metadata_client input allowedScopes allowedResources) (t_oauth_clients db)\<rparr>
      in if metadataChanged then
           db1\<lparr>t_refresh_tokens := update_where (\<lambda>r. rt_clientId r = um_clientId input \<and> rt_revokedAt r = None)
                 (\<lambda>r. r\<lparr>rt_revokedAt := Some now\<rparr>) (t_refresh_tokens db1),
               t_authorization_grants := update_where (\<lambda>g. gr_clientId g = um_clientId input \<and> gr_revokedAt g = None)
                 (\<lambda>g. g\<lparr>gr_revokedAt := Some now\<rparr>) (t_authorization_grants db1)\<rparr>
         else db1)"

definition insert_metadata_client :: "UpsertMetadataClientInput \<Rightarrow> db \<Rightarrow> db" where
  "insert_metadata_client input db =
     (if getClientById db (um_clientId input) \<noteq> None then db
      else db\<lparr>t_oauth_clients := t_oauth_clients db @ [new_metadata_client input]\<rparr>)"

definition upsertMetadataClient :: "platform \<Rightarrow> UpsertMetadataClientInput \<Rightarrow> OAuthClient io" where
  "upsertMetadataClient pf input w =
     (let existing = getClientById (w_db w) (um_clientId input);
          count = length (filter (\<lambda>c. oc_registrationType c = client_id_metadata) (t_oauth_clients (w_db w)))
      in if (case existing of None \<Rightarrow> False | Some c \<Rightarrow> oc_registrationType c \<noteq> client_id_metadata) then
           io_throw (OtherFailure ''Client Identifier URL conflicts with a static client registration'') w
         else if existing = None \<and> count \<ge> MAX_METADATA_CLIENT_RECORDS then
           io_throw (OtherFailure ''Metadata client record capacity reached'') w
         else if pf_d1_fails pf ''metadata:insert'' then io_throw DatabaseFailure w
         else
           (let w1 = pf_others pf ''metadata:inserted'' (w\<lparr>w_db := insert_metadata_client input (w_db w)\<rparr>)
            in case getClientById (w_db w1) (um_clientId input) of
                 None \<Rightarrow> io_throw (OtherFailure ''Metadata client could not be persisted'') w1
               | Some current \<Rightarrow>
                   if oc_registrationType current \<noteq> client_id_metadata then
                     io_throw (OtherFailure ''Metadata client could not be persisted'') w1
                   else if pf_d1_fails pf ''metadata:update'' then io_throw DatabaseFailure w1
                   else
                     (let w2 = w1\<lparr>w_db := metadata_batch (pf_now pf) input current (w_db w1)\<rparr>
                      in case getClientById (w_db w2) (um_clientId input) of
                           None \<Rightarrow> io_throw (OtherFailure ''Metadata client disappeared after registration'') w2
                         | Some updated \<Rightarrow> io_return updated w2)))"

section \<open>resolveAuthorizationClient\<close>

definition cached_input :: "OAuthClient \<Rightarrow> string \<Rightarrow> string list \<Rightarrow> int \<Rightarrow> string \<Rightarrow> UpsertMetadataClientInput" where
  "cached_input current resourceUri allowedScopes now fingerprint =
     \<lparr>um_clientId = oc_clientId current, um_name = oc_name current, um_redirectUris = oc_redirectUris current,
      um_allowedGrantTypes = oc_allowedGrantTypes current,
      um_tokenEndpointAuthMethods = oc_tokenEndpointAuthMethods current,
      um_metadataJwksUri = oc_metadataJwksUri current, um_metadataFingerprint = fingerprint,
      um_resourceUri = resourceUri, um_allowedScopes = allowedScopes,
      um_metadataExpiresAt = (case oc_metadataExpiresAt current of Some t \<Rightarrow> t | None \<Rightarrow> now)\<rparr>"

definition fetched_input :: "ClientIdMetadata \<Rightarrow> string \<Rightarrow> string list \<Rightarrow> UpsertMetadataClientInput" where
  "fetched_input m resourceUri allowedScopes =
     \<lparr>um_clientId = cm_clientId m, um_name = cm_clientName m, um_redirectUris = cm_redirectUris m,
      um_allowedGrantTypes = cm_allowedGrantTypes m, um_tokenEndpointAuthMethods = cm_tokenEndpointAuthMethods m,
      um_metadataJwksUri = cm_jwksUri m, um_metadataFingerprint = cm_fingerprint m,
      um_resourceUri = resourceUri, um_allowedScopes = allowedScopes, um_metadataExpiresAt = cm_expiresAt m\<rparr>"

text \<open>The input of the upsert: the cached row while it is fresh, else the fetched document.\<close>

definition metadata_input ::
  "platform \<Rightarrow> OAuthClient option \<Rightarrow> string \<Rightarrow> string \<Rightarrow> string list \<Rightarrow> (fetch_error, UpsertMetadataClientInput) result" where
  "metadata_input pf current clientId resourceUri allowedScopes =
     (case current of
        Some c \<Rightarrow>
          (case oc_metadataFingerprint c of
             Some fingerprint \<Rightarrow>
               if (case oc_metadataExpiresAt c of Some t \<Rightarrow> t | None \<Rightarrow> 0) > pf_now pf
               then Inr (cached_input c resourceUri allowedScopes (pf_now pf) fingerprint)
               else map_sum id (\<lambda>m. fetched_input m resourceUri allowedScopes) (fetchClientIdMetadata pf clientId)
           | None \<Rightarrow> map_sum id (\<lambda>m. fetched_input m resourceUri allowedScopes) (fetchClientIdMetadata pf clientId))
      | None \<Rightarrow> map_sum id (\<lambda>m. fetched_input m resourceUri allowedScopes) (fetchClientIdMetadata pf clientId))"

definition resolveAuthorizationClient ::
  "platform \<Rightarrow> string \<Rightarrow> string option \<Rightarrow> world \<Rightarrow> (fetch_error, OAuthClient option) result \<times> world" where
  "resolveAuthorizationClient pf clientId resourceUri w =
     (let current = getClientById (w_db w) clientId
      in if (case current of None \<Rightarrow> False | Some c \<Rightarrow> oc_registrationType c = static) then (Inr current, w)
         else case (parseClientIdentifierUrl (pf_url pf) clientId, resourceUri) of
           (Some url, Some uri) \<Rightarrow>
             (case getResourceByUri (w_db w) uri of
                None \<Rightarrow> (Inr None, w)
              | Some resource \<Rightarrow>
                  if \<not> rs_enabled resource \<or> \<not> rs_mcpEnabled resource \<or> rs_metadataClientPolicy resource = policy_disabled
                  then (Inr None, w)
                  else
                    (let allowedScopes = js_dedup (rs_allowedScopes resource @ RESOURCE_AUTHORIZED_SCOPES)
                     in case metadata_input pf current clientId uri allowedScopes of
                          Inl (ClientIdMetadataError m) \<Rightarrow> (metadata_error m, w)
                        | Inl (FetchFailure _) \<Rightarrow> (metadata_error ''Client metadata could not be persisted'', w)
                        | Inr input \<Rightarrow>
                            (case upsertMetadataClient pf input (pf_others pf ''metadata:fetched'' w) of
                               (Inl _, w1) \<Rightarrow> (metadata_error ''Client metadata could not be persisted'', w1)
                             | (Inr resolved, w1) \<Rightarrow>
                                 if rs_metadataClientPolicy resource = admin_approved \<and>
                                    \<not> isMetadataClientApproved (w_db w1) clientId uri
                                 then (Inr None, w1) else (Inr (Some resolved), w1))))
         | _ \<Rightarrow> (Inr None, w))"

section \<open>Laws\<close>

lemma all_some_length: "all_some xs = Some ys \<Longrightarrow> length ys = length xs"
  by (induction xs arbitrary: ys) (auto simp: bind_eq_Some_conv)

lemma all_some_mem: "all_some xs = Some ys \<Longrightarrow> y \<in> set ys \<Longrightarrow> Some y \<in> set xs"
  by (induction xs arbitrary: ys) (auto simp: bind_eq_Some_conv)

lemma string_array_length: "string_array n m v = Some xs \<Longrightarrow> 1 \<le> length xs \<and> length xs \<le> m"
  by (auto simp: string_array_def dest: all_some_length split: option.splits json.splits if_splits)

lemma method_array_methods:
  assumes "method_array v = Some ms"
  shows "ms \<noteq> [] \<and> set ms \<subseteq> {auth_none, private_key_jwt}"
proof -
  obtain xs where xs: "1 \<le> length xs" "all_some (map parse_method xs) = Some ms"
    using assms by (auto simp: method_array_def split: json.splits if_splits)
  have "m \<in> {auth_none, private_key_jwt}" if "m \<in> set ms" for m
    using all_some_mem [OF xs(2) that] by (auto simp: parse_method_def split: if_splits)
  with all_some_length [OF xs(2)] xs(1) show ?thesis by auto
qed

lemma metadataSchema_facts:
  assumes "metadataSchema raw = Some d"
  shows "1 \<le> length (md_redirect_uris d)" "length (md_redirect_uris d) \<le> 16"
    "md_methods_supported d = Some ms \<Longrightarrow> ms \<noteq> [] \<and> set ms \<subseteq> {auth_none, private_key_jwt}"
    "md_method d = Some m \<Longrightarrow> m \<in> {auth_none, private_key_jwt}"
proof -
  obtain ps where raw: "raw = JObj ps" using assms by (auto simp: metadataSchema_def split: json.splits)
  have f: "string_array 2048 16 (jget ps ''redirect_uris'') = Some (md_redirect_uris d)"
    "optional method_array (jget ps ''token_endpoint_auth_methods_supported'') = Some (md_methods_supported d)"
    "optional parse_method (jget ps ''token_endpoint_auth_method'') = Some (md_method d)"
    using assms unfolding raw
    by (auto simp: metadataSchema_def CLIENT_METADATA_MAX_REDIRECT_URIS_def split: option.splits)
  show "1 \<le> length (md_redirect_uris d)" "length (md_redirect_uris d) \<le> 16"
    using string_array_length [OF f(1)] by simp_all
  show "md_methods_supported d = Some ms \<Longrightarrow> ms \<noteq> [] \<and> set ms \<subseteq> {auth_none, private_key_jwt}"
    using f(2) method_array_methods by (auto simp: optional_def split: option.splits)
  show "md_method d = Some m \<Longrightarrow> m \<in> {auth_none, private_key_jwt}"
    using f(3) by (auto simp: optional_def parse_method_def split: option.splits if_splits)
qed

text \<open>What a document must promise before a client is made of it.\<close>

definition sound_metadata :: "platform \<Rightarrow> string \<Rightarrow> ClientIdMetadata \<Rightarrow> bool" where
  "sound_metadata pf clientId m =
     (cm_clientId m = clientId \<and> cm_redirectUris m \<noteq> [] \<and> length (cm_redirectUris m) \<le> 16 \<and> distinct (cm_redirectUris m) \<and>
      list_all (isSafeRedirectUri (pf_url pf)) (cm_redirectUris m) \<and>
      set (cm_allowedGrantTypes m) \<subseteq> {''authorization_code'', ''refresh_token''} \<and>
      ''authorization_code'' \<in> set (cm_allowedGrantTypes m) \<and> cm_tokenEndpointAuthMethods m \<noteq> [] \<and>
      set (cm_tokenEndpointAuthMethods m) \<subseteq> {auth_none, private_key_jwt} \<and>
      (private_key_jwt \<in> set (cm_tokenEndpointAuthMethods m) \<longrightarrow> cm_jwksUri m \<noteq> None) \<and>
      pf_now pf \<le> cm_expiresAt m \<and> cm_expiresAt m \<le> pf_now pf + 86400)"

lemma metadataTtl_bound: "metadataTtl response \<le> 86400"
  by (auto simp: metadataTtl_def Let_def CLIENT_METADATA_DEFAULT_TTL_SECONDS_def CLIENT_METADATA_MAX_TTL_SECONDS_def
      split: option.splits)

lemma fetched_metadata_sound:
  assumes "fetchClientIdMetadata pf clientId = Inr m"
  shows "sound_metadata pf clientId m"
proof -
  obtain url raw response d where d: "metadataSchema raw = Some d" "validate_document pf clientId url response d = Inr m"
    using assms by (auto simp: fetchClientIdMetadata_def split: option.splits sum.splits if_splits)
  note f = metadataSchema_facts [OF d(1)]
  have "cm_redirectUris m \<noteq> [] \<and> length (cm_redirectUris m) \<le> 16"
    using f(1,2) d(2) by (auto simp: validate_document_def Let_def split: if_splits sum.splits)
  moreover have "cm_tokenEndpointAuthMethods m \<noteq> [] \<and> set (cm_tokenEndpointAuthMethods m) \<subseteq> {auth_none, private_key_jwt}"
    using f(3,4) d(2)
    by (cases "md_methods_supported d"; cases "md_method d")
      (auto simp: validate_document_def Let_def split: if_splits sum.splits dest!: arg_cong [where f = set])
  ultimately show ?thesis
    using d(2) metadataTtl_bound [of response]
    by (auto simp: sound_metadata_def validate_document_def Let_def list_ex_iff list_all_iff split: if_splits sum.splits)
qed

lemma getClientById_update:
  "(\<And>c. oc_clientId (f c) = oc_clientId c) \<Longrightarrow>
     getClientById (db\<lparr>t_oauth_clients := update_where P f (t_oauth_clients db)\<rparr>) i =
       map_option (\<lambda>c. if P c then f c else c) (getClientById db i)"
  by (simp add: getClientById_def find_update_where)

lemma metadata_batch_client:
  assumes "getClientById db (um_clientId input) = Some current" "oc_registrationType current = client_id_metadata"
  shows "getClientById (metadata_batch now input current db) (um_clientId input) =
    Some (refresh_metadata_client input (js_dedup (oc_allowedScopes current @ um_allowedScopes input))
      (js_dedup (oc_allowedResources current @ [um_resourceUri input])) current)"
proof -
  let ?f = "refresh_metadata_client input (js_dedup (oc_allowedScopes current @ um_allowedScopes input))
      (js_dedup (oc_allowedResources current @ [um_resourceUri input]))"
  have "getClientById (metadata_batch now input current db) i =
    getClientById (db\<lparr>t_oauth_clients := update_where
      (\<lambda>c. oc_clientId c = um_clientId input \<and> oc_registrationType c = client_id_metadata) ?f (t_oauth_clients db)\<rparr>) i" for i
    by (simp add: metadata_batch_def Let_def getClientById_def)
  then show ?thesis
    using assms getClientById_id [OF assms(1)]
    by (simp add: getClientById_update refresh_metadata_client_def)
qed

lemma upsert_success:
  assumes "upsertMetadataClient pf input w = (Inr client, w')"
  obtains w1 current where "w1 = pf_others pf ''metadata:inserted'' (w\<lparr>w_db := insert_metadata_client input (w_db w)\<rparr>)"
    "getClientById (w_db w1) (um_clientId input) = Some current" "oc_registrationType current = client_id_metadata"
    "w' = w1\<lparr>w_db := metadata_batch (pf_now pf) input current (w_db w1)\<rparr>"
    "getClientById (w_db w') (um_clientId input) = Some client"
    "client = refresh_metadata_client input (js_dedup (oc_allowedScopes current @ um_allowedScopes input))
      (js_dedup (oc_allowedResources current @ [um_resourceUri input])) current"
proof -
  obtain w1 current where c: "w1 = pf_others pf ''metadata:inserted'' (w\<lparr>w_db := insert_metadata_client input (w_db w)\<rparr>)"
    "getClientById (w_db w1) (um_clientId input) = Some current" "oc_registrationType current = client_id_metadata"
    "w' = w1\<lparr>w_db := metadata_batch (pf_now pf) input current (w_db w1)\<rparr>"
    "getClientById (w_db w') (um_clientId input) = Some client"
    using assms by (auto simp: upsertMetadataClient_def Let_def split: if_splits option.splits)
  with metadata_batch_client [OF c(2,3)] show ?thesis by (intro that [of w1 current]) simp_all
qed

lemma metadata_input_cases:
  assumes "metadata_input pf current clientId uri scopes = Inr input" "current = None \<or> oc_clientId (the current) = clientId"
  shows "um_clientId input = clientId \<and> um_resourceUri input = uri \<and>
    ((\<exists>m. fetchClientIdMetadata pf clientId = Inr m \<and> um_redirectUris input = cm_redirectUris m) \<or>
     (\<exists>c t. current = Some c \<and> oc_metadataExpiresAt c = Some t \<and> pf_now pf < t \<and> um_redirectUris input = oc_redirectUris c) \<or>
     pf_now pf < 0)"
  using assms fetched_metadata_sound [of pf clientId]
  by (auto simp: metadata_input_def cached_input_def fetched_input_def map_sum_def sound_metadata_def
      split: option.splits sum.splits if_splits)

text \<open>How the redirect URIs of a client row were obtained: from the document, or from the fresh row.\<close>

definition redirects_from ::
  "platform \<Rightarrow> world \<Rightarrow> string \<Rightarrow> string list \<Rightarrow> bool" where
  "redirects_from pf w clientId uris =
     ((\<exists>m. fetchClientIdMetadata pf clientId = Inr m \<and> sound_metadata pf clientId m \<and> uris = cm_redirectUris m) \<or>
      (\<exists>c t. getClientById (w_db w) clientId = Some c \<and> oc_metadataExpiresAt c = Some t \<and> pf_now pf < t \<and>
         uris = oc_redirectUris c))"

lemma resolve_success:
  assumes "resolveAuthorizationClient pf clientId resourceUri w = (Inr (Some client), w')"
    "oc_registrationType client \<noteq> static \<or> w' \<noteq> w" "0 \<le> pf_now pf"
  obtains uri resource input where "parseClientIdentifierUrl (pf_url pf) clientId \<noteq> None" "resourceUri = Some uri"
    "getResourceByUri (w_db w) uri = Some resource" "rs_enabled resource" "rs_mcpEnabled resource"
    "rs_metadataClientPolicy resource \<noteq> policy_disabled"
    "rs_metadataClientPolicy resource = admin_approved \<Longrightarrow> isMetadataClientApproved (w_db w') clientId uri"
    "um_clientId input = clientId" "um_resourceUri input = uri" "redirects_from pf w clientId (um_redirectUris input)"
    "upsertMetadataClient pf input (pf_others pf ''metadata:fetched'' w) = (Inr client, w')"
proof -
  obtain url uri resource input where r: "parseClientIdentifierUrl (pf_url pf) clientId = Some url" "resourceUri = Some uri"
    "getResourceByUri (w_db w) uri = Some resource" "rs_enabled resource" "rs_mcpEnabled resource"
    "rs_metadataClientPolicy resource \<noteq> policy_disabled"
    "rs_metadataClientPolicy resource = admin_approved \<Longrightarrow> isMetadataClientApproved (w_db w') clientId uri"
    "metadata_input pf (getClientById (w_db w) clientId) clientId uri
       (js_dedup (rs_allowedScopes resource @ RESOURCE_AUTHORIZED_SCOPES)) = Inr input"
    "upsertMetadataClient pf input (pf_others pf ''metadata:fetched'' w) = (Inr client, w')"
    using assms(1,2)
    by (auto simp: resolveAuthorizationClient_def Let_def split: if_splits option.splits sum.splits prod.splits
        fetch_error.splits)
  have "getClientById (w_db w) clientId = None \<or> oc_clientId (the (getClientById (w_db w) clientId)) = clientId"
    using getClientById_id [of "w_db w" clientId] by (cases "getClientById (w_db w) clientId") auto
  from metadata_input_cases [OF r(8) this] fetched_metadata_sound [of pf clientId] assms(3)
  have "um_clientId input = clientId" "um_resourceUri input = uri" "redirects_from pf w clientId (um_redirectUris input)"
    by (auto simp: redirects_from_def)
  with r show ?thesis by (intro that [of uri resource input]) simp_all
qed

section \<open>A concrete metadata client\<close>

definition demo_meta_client :: OAuthClient where
  "demo_meta_client = demo_client\<lparr>oc_clientId := ''https://a/c'', oc_registrationType := client_id_metadata,
     oc_metadataFingerprint := Some ''f'', oc_metadataExpiresAt := Some 2000, oc_allowedResources := []\<rparr>"

definition demo_meta_world :: world where
  "demo_meta_world = demo_world\<lparr>w_db := empty_db\<lparr>t_oauth_clients := [demo_meta_client],
     t_oauth_resources := [\<lparr>rs_resourceUri = ''m'', rs_name = ''M'', rs_allowedScopes = [''api''], rs_enabled = True,
        rs_mcpEnabled = True, rs_metadataClientPolicy = consent_required_policy\<rparr>]\<rparr>\<rparr>"

lemma demo_meta_upsert:
  assumes "um_clientId input = ''https://a/c''"
  shows "\<exists>client w'. upsertMetadataClient demo_pf input demo_meta_world = (Inr client, w')"
proof -
  have c: "getClientById (w_db demo_meta_world) ''https://a/c'' = Some demo_meta_client"
    "oc_registrationType demo_meta_client = client_id_metadata"
    by (simp_all add: demo_meta_world_def demo_meta_client_def getClientById_def)
  have "insert_metadata_client input (w_db demo_meta_world) = w_db demo_meta_world"
    using c assms by (simp add: insert_metadata_client_def)
  moreover have "pf_others demo_pf = (\<lambda>l w. w)" "\<not> pf_d1_fails demo_pf l" for l by (simp_all add: demo_pf_def)
  ultimately show ?thesis
    using c assms metadata_batch_client [of "w_db demo_meta_world" input demo_meta_client]
    by (simp add: upsertMetadataClient_def Let_def)
qed

lemma demo_meta_id: "parseClientIdentifierUrl demo_url ''https://a/c'' \<noteq> None"
  by (simp add: parseClientIdentifierUrl_def demo_url_def utf8_length_def utf8_char_length_def
      CLIENT_IDENTIFIER_URL_MAX_BYTES_def ascii_lower_def is_upper_def starts_with_def has_dot_segment_def raw_path_def
      single_dot_def double_dot_def)

section \<open>Properties\<close>



text \<open>
  A changed document ends what was granted under the old one: when \<open>upsertMetadataClient\<close> stores
  a fingerprint other than the one on the row, then afterwards no refresh token row and no
  authorization grant of that client is live, while the rows of every other client are as before.
\<close>

theorem metadata_change_revokes:
  assumes "pf_others pf = (\<lambda>l w. w)" and "upsertMetadataClient pf input w = (Inr client, w')"
    and "getClientById (w_db w) (um_clientId input) = Some before"
    and "oc_metadataFingerprint before \<noteq> Some (um_metadataFingerprint input)"
  shows "list_all (\<lambda>r. rt_clientId r = um_clientId input \<longrightarrow> rt_revokedAt r \<noteq> None) (t_refresh_tokens (w_db w')) \<and>
    list_all (\<lambda>g. gr_clientId g = um_clientId input \<longrightarrow> gr_revokedAt g \<noteq> None) (t_authorization_grants (w_db w')) \<and>
    filter (\<lambda>r. rt_clientId r \<noteq> um_clientId input) (t_refresh_tokens (w_db w')) =
      filter (\<lambda>r. rt_clientId r \<noteq> um_clientId input) (t_refresh_tokens (w_db w)) \<and>
    filter (\<lambda>g. gr_clientId g \<noteq> um_clientId input) (t_authorization_grants (w_db w')) =
      filter (\<lambda>g. gr_clientId g \<noteq> um_clientId input) (t_authorization_grants (w_db w))"
  using assms(2)
proof (rule upsert_success)
  fix w1 current
  assume c: "w1 = pf_others pf ''metadata:inserted'' (w\<lparr>w_db := insert_metadata_client input (w_db w)\<rparr>)"
    "getClientById (w_db w1) (um_clientId input) = Some current"
    "w' = w1\<lparr>w_db := metadata_batch (pf_now pf) input current (w_db w1)\<rparr>"
  then have w1: "w1 = w" "current = before" using assms(1,3) by (simp_all add: insert_metadata_client_def)
  with c(3) assms(4)
  have t: "t_refresh_tokens (w_db w') = update_where (\<lambda>r. rt_clientId r = um_clientId input \<and> rt_revokedAt r = None)
      (\<lambda>r. r\<lparr>rt_revokedAt := Some (pf_now pf)\<rparr>) (t_refresh_tokens (w_db w))"
    "t_authorization_grants (w_db w') = update_where (\<lambda>g. gr_clientId g = um_clientId input \<and> gr_revokedAt g = None)
      (\<lambda>g. g\<lparr>gr_revokedAt := Some (pf_now pf)\<rparr>) (t_authorization_grants (w_db w))"
    by (simp_all add: metadata_batch_def Let_def)
  show ?thesis unfolding t
    by (auto simp: list_all_iff set_update_where intro!: filter_update_untouched)
qed

theorem metadata_change_revokes_witness:
  "\<exists>w' :: world. list_all (\<lambda>r. rt_clientId r = ''https://a/c'' \<longrightarrow> rt_revokedAt r \<noteq> None) (t_refresh_tokens (w_db w'))"
proof -
  let ?input = "(cached_input demo_meta_client ''m'' [] 1000 ''g'')"
  have i: "um_clientId ?input = ''https://a/c''" "um_metadataFingerprint ?input = ''g''"
    by (simp_all add: cached_input_def demo_meta_client_def)
  obtain client w' where u: "upsertMetadataClient demo_pf ?input demo_meta_world = (Inr client, w')"
    using demo_meta_upsert [OF i(1)] by blast
  have o: "pf_others demo_pf = (\<lambda>l w. w)" by (simp add: demo_pf_def)
  have "getClientById (w_db demo_meta_world) (um_clientId ?input) = Some demo_meta_client"
    "oc_metadataFingerprint demo_meta_client \<noteq> Some (um_metadataFingerprint ?input)"
    unfolding i by (simp_all add: demo_meta_world_def demo_meta_client_def getClientById_def)
  from metadata_change_revokes [OF o u this] show ?thesis unfolding i by blast
qed

end
