(* ===== verification/Tokens.thy ===== *)
theory Tokens
  imports World Local_Paths
begin

text \<open>
  \<open>src/tokens/access-token.ts\<close>, \<open>src/tokens/id-token.ts\<close>, \<open>src/tokens/jwt.ts\<close> and
  \<open>src/oidc/claims.ts\<close>: the claims of the tokens the server signs and what it accepts as an
  access token. Signing and verifying are the JOSE library (\<open>pf_sign\<close>, \<open>pf_jwtVerify\<close>); loading
  the active signing key may fail (\<open>pf_d1_fails\<close> at \<open>signing-key\<close>).
\<close>

section \<open>config.ts\<close>

definition JWT_TYP_idToken :: string where "JWT_TYP_idToken = ''JWT''"
definition JWT_TYP_accessToken :: string where "JWT_TYP_accessToken = ''at+jwt''"

section \<open>claims.ts\<close>

type_synonym claims = "(string \<times> json) list"

definition effectivePictureUrl :: "platform \<Rightarrow> User \<Rightarrow> (failure, string option) result" where
  "effectivePictureUrl pf user =
     (case u_avatarKey user of
        Some key \<Rightarrow>
          (case pf_url pf (ISSUER (pf_env pf)) of
             None \<Rightarrow> Inl (OtherFailure ''Invalid URL'')
           | Some u \<Rightarrow> Inr (Some (avatarUrl (url_origin u) key)))
      | None \<Rightarrow> Inr (u_picture user))"

definition opt_claim :: "string \<Rightarrow> string option \<Rightarrow> claims" where
  "opt_claim k v = (case v of None \<Rightarrow> [] | Some s \<Rightarrow> [(k, JStr s)])"

definition buildUserClaims :: "platform \<Rightarrow> User \<Rightarrow> string list \<Rightarrow> (failure, claims) result" where
  "buildUserClaims pf user scopes =
     (let email = (if ''email'' \<in> set scopes
                   then [(''email'', JStr (u_email user)), (''email_verified'', JBool (u_emailVerified user))]
                   else [])
      in if ''profile'' \<notin> set scopes then Inr email
         else case effectivePictureUrl pf user of
                Inl e \<Rightarrow> Inl e
              | Inr picture \<Rightarrow>
                  Inr (email @ [(''preferred_username'', JStr (u_alias user))] @
                       opt_claim ''name'' (u_name user) @ opt_claim ''picture'' picture))"

section \<open>jwt.ts: signing\<close>

definition signJwt :: "platform \<Rightarrow> claims \<Rightarrow> string \<Rightarrow> int \<Rightarrow> (failure, string) result" where
  "signJwt pf cl typ expiresInSeconds =
     (if pf_d1_fails pf ''signing-key'' then Inl (OtherFailure ''No active signing key'')
      else Inr (pf_sign pf \<lparr>jwt_typ = typ, jwt_claims = cl, jwt_iat = pf_now pf,
                  jwt_exp = pf_now pf + expiresInSeconds\<rparr>))"

section \<open>access-token.ts\<close>

record IssuedToken =
  it_token :: string
  it_expiresIn :: int
  it_jti :: string

definition service_claims :: "platform \<Rightarrow> string \<Rightarrow> string \<Rightarrow> string \<Rightarrow> claims" where
  "service_claims pf clientId resource scope =
     [(''iss'', JStr (ISSUER (pf_env pf))), (''sub'', JStr (''client:'' @ clientId)),
      (''aud'', JStr resource), (''azp'', JStr clientId), (''client_id'', JStr clientId),
      (''scope'', JStr scope), (''actor_type'', JStr ''service''),
      (''token_use'', JStr ''access_token''), (''jti'', JStr (generateId pf ''atk'' ''access''))]"

definition issueServiceAccessToken ::
  "platform \<Rightarrow> string \<Rightarrow> string \<Rightarrow> string \<Rightarrow> (failure, IssuedToken) result" where
  "issueServiceAccessToken pf clientId resource scope =
     map_sum id (\<lambda>token. \<lparr>it_token = token, it_expiresIn = ttl_serviceAccessToken TOKEN_TTL,
         it_jti = generateId pf ''atk'' ''access''\<rparr>)
       (signJwt pf (service_claims pf clientId resource scope) JWT_TYP_accessToken
          (ttl_serviceAccessToken TOKEN_TTL))"

record UserAccessTokenParams =
  ua_userId :: string
  ua_clientId :: string
  ua_resource :: string
  ua_scope :: string
  ua_authTime :: int

definition user_claims :: "platform \<Rightarrow> UserAccessTokenParams \<Rightarrow> claims" where
  "user_claims pf params =
     [(''iss'', JStr (ISSUER (pf_env pf))), (''sub'', JStr (ua_userId params)),
      (''aud'', JStr (ua_resource params)), (''azp'', JStr (ua_clientId params)),
      (''client_id'', JStr (ua_clientId params)), (''scope'', JStr (ua_scope params)),
      (''auth_time'', JNum (ua_authTime params)), (''token_use'', JStr ''access_token''),
      (''jti'', JStr (generateId pf ''atk'' ''access''))]"

definition issueUserAccessToken ::
  "platform \<Rightarrow> UserAccessTokenParams \<Rightarrow> (failure, IssuedToken) result" where
  "issueUserAccessToken pf params =
     map_sum id (\<lambda>token. \<lparr>it_token = token, it_expiresIn = ttl_userAccessToken TOKEN_TTL,
         it_jti = generateId pf ''atk'' ''access''\<rparr>)
       (signJwt pf (user_claims pf params) JWT_TYP_accessToken (ttl_userAccessToken TOKEN_TTL))"

section \<open>id-token.ts\<close>

record IdTokenParams =
  id_user :: User
  id_clientId :: string
  id_scopes :: "string list"
  id_authTime :: int
  id_nonce :: "string option"

definition id_claims :: "platform \<Rightarrow> IdTokenParams \<Rightarrow> (failure, claims) result" where
  "id_claims pf params =
     map_sum id (\<lambda>uc. [(''iss'', JStr (ISSUER (pf_env pf))), (''sub'', JStr (u_id (id_user params))),
         (''aud'', JStr (id_clientId params)), (''auth_time'', JNum (id_authTime params))] @ uc @
         opt_claim ''nonce'' (id_nonce params))
       (buildUserClaims pf (id_user params) (id_scopes params))"

definition issueIdToken :: "platform \<Rightarrow> IdTokenParams \<Rightarrow> (failure, string) result" where
  "issueIdToken pf params =
     (case id_claims pf params of
        Inl e \<Rightarrow> Inl e
      | Inr cl \<Rightarrow> signJwt pf cl JWT_TYP_idToken (ttl_idToken TOKEN_TTL))"

section \<open>jwt.ts: verifying\<close>

definition verifyJwt :: "platform \<Rightarrow> string \<Rightarrow> string option \<Rightarrow> string option \<Rightarrow> claims option" where
  "verifyJwt pf token issuer audience =
     map_option snd (pf_jwtVerify pf token
       \<lparr>vo_issuer = (case issuer of Some i \<Rightarrow> i | None \<Rightarrow> ISSUER (pf_env pf)),
        vo_audience = map_option (\<lambda>a. [a]) audience, vo_typ = None, vo_currentDate = None\<rparr>)"

text \<open>\<open>Number.isSafeInteger\<close>: below \<open>2^53\<close> in absolute value.\<close>

definition verifyHistoricalJwt :: "platform \<Rightarrow> string \<Rightarrow> claims option" where
  "verifyHistoricalJwt pf token =
     (case pf_decodeJwt pf token of
        None \<Rightarrow> None
      | Some unverified \<Rightarrow>
          (case jget unverified ''iat'' of
             Some (JNum iat) \<Rightarrow>
               (if \<bar>iat\<bar> \<ge> 2 ^ 53 then None
                else map_option snd (pf_jwtVerify pf token
                  \<lparr>vo_issuer = ISSUER (pf_env pf), vo_audience = None, vo_typ = None,
                   vo_currentDate = Some (iat * 1000)\<rparr>))
           | _ \<Rightarrow> None))"

datatype AccessTokenActor = actor_user | actor_service | actor_any

text \<open>
  The shape tests of \<open>verifyAccessToken\<close>. An element of an audience list counts when it is a
  non-empty string or list; any other JSON value makes the call throw or fail the test.
\<close>

definition valid_audience :: "json option \<Rightarrow> bool" where
  "valid_audience aud =
     (case aud of
        Some (JStr s) \<Rightarrow> length s > 0
      | Some (JArr as) \<Rightarrow>
          as \<noteq> [] \<and> list_all (\<lambda>a. case a of JStr s \<Rightarrow> s \<noteq> [] | JArr l \<Rightarrow> l \<noteq> [] | _ \<Rightarrow> False) as
      | _ \<Rightarrow> False)"

definition is_str :: "json option \<Rightarrow> bool" where
  "is_str v = (case v of Some (JStr s) \<Rightarrow> True | _ \<Rightarrow> False)"

definition sub_has_client_prefix :: "claims \<Rightarrow> bool" where
  "sub_has_client_prefix payload =
     (case jget payload ''sub'' of Some (JStr s) \<Rightarrow> starts_with ''client:'' s | _ \<Rightarrow> False)"

definition verifyAccessToken ::
  "platform \<Rightarrow> string \<Rightarrow> string list option \<Rightarrow> AccessTokenActor \<Rightarrow> claims option" where
  "verifyAccessToken pf token audience actor =
     (case pf_jwtVerify pf token
        \<lparr>vo_issuer = ISSUER (pf_env pf), vo_audience = audience,
         vo_typ = Some JWT_TYP_accessToken, vo_currentDate = None\<rparr> of
        None \<Rightarrow> None
      | Some (typ, payload) \<Rightarrow>
          (if typ \<noteq> Some JWT_TYP_accessToken then None
           else if jget payload ''token_use'' \<noteq> Some (JStr ''access_token'') then None
           else if \<not> valid_audience (jget payload ''aud'') then None
           else if \<not> is_str (jget payload ''sub'') \<or> jget payload ''sub'' = Some (JStr []) \<or>
             \<not> is_str (jget payload ''client_id'') \<or> \<not> is_str (jget payload ''scope'') then None
           else (let isService = (jget payload ''actor_type'' = Some (JStr ''service'') \<and>
                                  sub_has_client_prefix payload)
                 in if actor = actor_user \<and> (isService \<or> sub_has_client_prefix payload) then None
                    else if actor = actor_service \<and> \<not> isService then None
                    else Some payload)))"

section \<open>Laws\<close>

lemma opt_claim_get [simp]:
  "jget (opt_claim k v @ rest) k' = (if k' = k \<and> v \<noteq> None then map_option JStr v else jget rest k')"
  by (cases v) (auto simp: opt_claim_def jget_def)

lemma signJwt_Inr:
  "signJwt pf cl typ ttl = Inr t \<Longrightarrow>
     t = pf_sign pf \<lparr>jwt_typ = typ, jwt_claims = cl, jwt_iat = pf_now pf, jwt_exp = pf_now pf + ttl\<rparr>"
  by (simp add: signJwt_def split: if_splits)

text \<open>Every claim about a user is released by the scope that authorizes it.\<close>

lemma buildUserClaims_gated:
  assumes "buildUserClaims pf user scopes = Inr cl"
  shows "set (map fst cl) \<subseteq> (if ''email'' \<in> set scopes then {''email'', ''email_verified''} else {}) \<union>
    (if ''profile'' \<in> set scopes then {''preferred_username'', ''name'', ''picture''} else {})"
  using assms
  by (auto simp: buildUserClaims_def Let_def opt_claim_def split: if_splits sum.splits option.splits)

lemma access_token_shape:
  assumes "verifyAccessToken pf token audience actor = Some payload"
  shows "pf_jwtVerify pf token \<lparr>vo_issuer = ISSUER (pf_env pf), vo_audience = audience,
         vo_typ = Some JWT_TYP_accessToken, vo_currentDate = None\<rparr> = Some (Some JWT_TYP_accessToken, payload)"
    "jget payload ''token_use'' = Some (JStr ''access_token'')"
    "is_str (jget payload ''client_id'')" "is_str (jget payload ''scope'')" "is_str (jget payload ''sub'')"
    "actor = actor_user \<Longrightarrow> \<not> sub_has_client_prefix payload"
    "actor = actor_service \<Longrightarrow> sub_has_client_prefix payload"
  using assms by (auto simp: verifyAccessToken_def Let_def split: option.splits if_splits)

section \<open>Properties\<close>

text \<open>
  The documented behaviour of the JOSE library on a token signed here: verification throws, or
  returns the header type and the claims that were signed, with the two instants added.
\<close>

definition jose_faithful :: "platform \<Rightarrow> platform \<Rightarrow> signed_jwt \<Rightarrow> bool" where
  "jose_faithful pf pf' j =
     (\<forall>opts. pf_jwtVerify pf' (pf_sign pf j) opts \<in>
        {None, Some (Some (jwt_typ j), jwt_claims j @ [(''iat'', JNum (jwt_iat j)), (''exp'', JNum (jwt_exp j))])})"

abbreviation minted :: "platform \<Rightarrow> claims \<Rightarrow> string \<Rightarrow> int \<Rightarrow> signed_jwt" where
  "minted pf cl typ ttl \<equiv>
     \<lparr>jwt_typ = typ, jwt_claims = cl, jwt_iat = pf_now pf, jwt_exp = pf_now pf + ttl\<rparr>"

definition jose_access :: "platform \<Rightarrow> string \<Rightarrow> string list option \<Rightarrow> claims option" where
  "jose_access pf token audience =
     map_option snd (pf_jwtVerify pf token \<lparr>vo_issuer = ISSUER (pf_env pf), vo_audience = audience,
        vo_typ = Some JWT_TYP_accessToken, vo_currentDate = None\<rparr>)"

text \<open>
  The actor of an access token is unambiguous: of the tokens minted here, a user token (of a
  user whose id is not empty and has no \<open>client:\<close> prefix, for a named resource) verifies as a user
  token and never as a service token, a service token verifies as a service token and never as a
  user token, and an ID token never verifies as an access token; apart from that the verdict is
  that of the signature library.
\<close>

theorem token_actor_unambiguous:
  assumes "jose_faithful pf pf' (minted pf (user_claims pf params) JWT_TYP_accessToken (ttl_userAccessToken TOKEN_TTL))"
    and "jose_faithful pf pf' (minted pf (service_claims pf clientId resource scope) JWT_TYP_accessToken
           (ttl_serviceAccessToken TOKEN_TTL))"
    and "\<forall>cl. id_claims pf idp = Inr cl \<longrightarrow> jose_faithful pf pf' (minted pf cl JWT_TYP_idToken (ttl_idToken TOKEN_TTL))"
    and "issueUserAccessToken pf params = Inr ut"
    and "issueServiceAccessToken pf clientId resource scope = Inr st"
    and "issueIdToken pf idp = Inr it"
    and "\<not> starts_with ''client:'' (ua_userId params)" and "ua_userId params \<noteq> []"
    and "ua_resource params \<noteq> []" and "resource \<noteq> []"
  shows "verifyAccessToken pf' (it_token ut) aud actor =
      (if actor = actor_service then None else jose_access pf' (it_token ut) aud) \<and>
    verifyAccessToken pf' (it_token st) aud actor =
      (if actor = actor_user then None else jose_access pf' (it_token st) aud) \<and>
    verifyAccessToken pf' it aud actor = None"
proof (intro conjI)
  let ?opts = "\<lparr>vo_issuer = ISSUER (pf_env pf'), vo_audience = aud,
     vo_typ = Some JWT_TYP_accessToken, vo_currentDate = None\<rparr>"
  have ut: "it_token ut = pf_sign pf (minted pf (user_claims pf params) JWT_TYP_accessToken (ttl_userAccessToken TOKEN_TTL))"
    using assms(4) by (auto simp: issueUserAccessToken_def signJwt_def split: if_splits)
  have st: "it_token st = pf_sign pf (minted pf (service_claims pf clientId resource scope)
      JWT_TYP_accessToken (ttl_serviceAccessToken TOKEN_TTL))"
    using assms(5) by (auto simp: issueServiceAccessToken_def signJwt_def split: if_splits)
  show "verifyAccessToken pf' (it_token ut) aud actor =
      (if actor = actor_service then None else jose_access pf' (it_token ut) aud)"
    using assms(1) [unfolded jose_faithful_def, rule_format, of ?opts] assms(7-9)
    by (auto simp: verifyAccessToken_def jose_access_def ut user_claims_def jget_def valid_audience_def
        is_str_def sub_has_client_prefix_def Let_def)
  show "verifyAccessToken pf' (it_token st) aud actor =
      (if actor = actor_user then None else jose_access pf' (it_token st) aud)"
    using assms(2) [unfolded jose_faithful_def, rule_format, of ?opts] assms(10)
    by (cases actor) (auto simp: verifyAccessToken_def jose_access_def st service_claims_def jget_def
        valid_audience_def is_str_def sub_has_client_prefix_def starts_with_def Let_def)
  obtain cl where cl: "id_claims pf idp = Inr cl" "it = pf_sign pf (minted pf cl JWT_TYP_idToken (ttl_idToken TOKEN_TTL))"
    using assms(6) by (auto simp: issueIdToken_def signJwt_def split: sum.splits if_splits)
  show "verifyAccessToken pf' it aud actor = None"
    using assms(3) [rule_format, OF cl(1), unfolded jose_faithful_def, rule_format, of ?opts]
    by (auto simp: verifyAccessToken_def cl(2) JWT_TYP_idToken_def JWT_TYP_accessToken_def)
qed

definition demo_sign :: "signed_jwt \<Rightarrow> string" where
  "demo_sign j = (if jwt_typ j = ''JWT'' then ''id'' else if jget (jwt_claims j) ''actor_type'' = None then ''user''
     else ''service'')"

definition demo_params :: UserAccessTokenParams where
  "demo_params = \<lparr>ua_userId = ''u'', ua_clientId = ''c'', ua_resource = ''r'', ua_scope = ''openid'', ua_authTime = 1\<rparr>"

definition demo_jose :: platform where
  "demo_jose = demo_pf\<lparr>pf_sign := demo_sign,
     pf_jwtVerify := (\<lambda>t opts. if t = ''user'' then Some (Some JWT_TYP_accessToken,
        user_claims demo_pf demo_params @ [(''iat'', JNum 1000), (''exp'', JNum 1900)]) else None)\<rparr>"

theorem token_actor_unambiguous_witness:
  "verifyAccessToken demo_jose ''user'' None actor_user \<noteq> None \<and>
   verifyAccessToken demo_jose ''user'' None actor_service = None"
proof -
  have now: "pf_now demo_jose = 1000" by (simp add: demo_jose_def demo_pf_def pf_now_def nowSeconds_def)
  have uc: "user_claims demo_jose demo_params = user_claims demo_pf demo_params"
    by (simp add: user_claims_def demo_jose_def demo_pf_def generateId_def)
  let ?idp = "\<lparr>id_user = User.truncate demo_user, id_clientId = ''c'', id_scopes = [], id_authTime = 1, id_nonce = None\<rparr>"
  have u: "issueUserAccessToken demo_jose demo_params = Inr \<lparr>it_token = ''user'',
      it_expiresIn = 900, it_jti = generateId demo_jose ''atk'' ''access''\<rparr>"
    by (simp add: issueUserAccessToken_def signJwt_def demo_jose_def demo_pf_def demo_sign_def
        user_claims_def jget_def JWT_TYP_accessToken_def policy_simps)
  have s: "issueServiceAccessToken demo_jose ''c'' ''r'' ''x'' = Inr \<lparr>it_token = ''service'',
      it_expiresIn = 600, it_jti = generateId demo_jose ''atk'' ''access''\<rparr>"
    by (simp add: issueServiceAccessToken_def signJwt_def demo_jose_def demo_pf_def demo_sign_def
        service_claims_def jget_def JWT_TYP_accessToken_def policy_simps)
  have i: "issueIdToken demo_jose ?idp = Inr ''id''"
    by (simp add: issueIdToken_def id_claims_def buildUserClaims_def signJwt_def demo_jose_def demo_pf_def
        demo_sign_def JWT_TYP_idToken_def)
  have "verifyAccessToken demo_jose (it_token \<lparr>it_token = ''user'', it_expiresIn = 900,
        it_jti = generateId demo_jose ''atk'' ''access''\<rparr>) None actor =
      (if actor = actor_service then None else jose_access demo_jose (it_token \<lparr>it_token = ''user'',
        it_expiresIn = 900, it_jti = generateId demo_jose ''atk'' ''access''\<rparr>) None)" for actor
    by (rule token_actor_unambiguous [OF _ _ _ u s i, THEN conjunct1])
      (auto simp: jose_faithful_def now uc generateId_def pf_now_def nowSeconds_def demo_pf_def demo_jose_def demo_sign_def jget_def user_claims_def
        service_claims_def JWT_TYP_accessToken_def JWT_TYP_idToken_def policy_simps demo_params_def starts_with_def)
  then show ?thesis by (simp add: jose_access_def demo_jose_def)
qed

end
