(* ===== verification/Sessions.thy ===== *)
theory Sessions
  imports Refresh_Tokens
begin

text \<open>
  \<open>src/auth/session.ts\<close> and \<open>src/middleware/session.ts\<close>: browser sessions. A session is a D1
  row found by the hash of its cookie token. Ending a session revokes, in the same D1 batch,
  the refresh-token families that were created from it, and then their Durable Objects.
\<close>

section \<open>Creating sessions\<close>

record CreateSessionInput =
  nsi_userId :: string
  nsi_authMethod :: AuthMethod
  nsi_ttlSeconds :: int
  nsi_passkeyAuthenticated :: "bool option"
  nsi_ipHash :: "string option"
  nsi_userAgentHash :: "string option"

record CreatedSession =
  crs_sessionId :: string
  crs_token :: string
  crs_expiresAt :: int

fun auth_method_string :: "AuthMethod \<Rightarrow> string" where
  "auth_method_string password = ''password''"
| "auth_method_string magic_link = ''magic_link''"
| "auth_method_string passkey = ''passkey''"

definition new_session_row ::
  "platform \<Rightarrow> CreateSessionInput \<Rightarrow> CreatedSession \<Rightarrow> user_row \<Rightarrow> session_row" where
  "new_session_row pf input s u =
     \<lparr>sr_id = crs_sessionId s, sr_userId = u_id u, sr_authMethod = nsi_authMethod input,
      sr_authTime = pf_now pf, sr_passkeyAuthenticated = (nsi_passkeyAuthenticated input = Some True),
      sr_createdAt = pf_now pf, sr_lastSeenAt = pf_now pf, sr_expiresAt = crs_expiresAt s,
      se_tokenHash = hashOpaqueToken (pf_crypto pf) (crs_token s),
      se_amrJson = json_stringify (JArr [JStr (auth_method_string (nsi_authMethod input))]),
      se_ipHash = nsi_ipHash input, se_userAgentHash = nsi_userAgentHash input, se_revokedAt = None\<rparr>"

definition fresh_session :: "platform \<Rightarrow> CreateSessionInput \<Rightarrow> CreatedSession" where
  "fresh_session pf input =
     \<lparr>crs_sessionId = generateId pf ''sess'' ''session'',
      crs_token = randomToken (pf_random pf ''session''),
      crs_expiresAt = pf_now pf + nsi_ttlSeconds input\<rparr>"

abbreviation upd_sessions :: "(session_row list \<Rightarrow> session_row list) \<Rightarrow> world \<Rightarrow> world" where
  "upd_sessions f w \<equiv> w\<lparr>w_db := (w_db w)\<lparr>t_sessions := f (t_sessions (w_db w))\<rparr>\<rparr>"

text \<open>
  \<open>INSERT INTO sessions ... SELECT ... FROM users WHERE guard\<close>: the number of inserted rows, or a
  failure when the primary key or the token hash is taken.
\<close>

definition insert_session ::
  "platform \<Rightarrow> CreateSessionInput \<Rightarrow> (user_row \<Rightarrow> bool) \<Rightarrow> nat io" where
  "insert_session pf input guard w =
     (let s = fresh_session pf input;
          rows = map (new_session_row pf input s) (filter guard (t_users (w_db w)));
          taken = list_ex (\<lambda>r. sr_id r = crs_sessionId s \<or>
                     se_tokenHash r = hashOpaqueToken (pf_crypto pf) (crs_token s)) (t_sessions (w_db w))
      in if rows \<noteq> [] \<and> (taken \<or> length rows > 1) then (Inl DatabaseFailure, w)
         else (Inr (length rows), upd_sessions (\<lambda>t. t @ rows) w))"

definition createSession :: "platform \<Rightarrow> CreateSessionInput \<Rightarrow> CreatedSession io" where
  "createSession pf input =
     io_bind (insert_session pf input (\<lambda>u. u_id u = nsi_userId input \<and> \<not> u_disabled u))
       (\<lambda>changed. if changed \<noteq> 1 then io_throw (AppFailure 403 ''This account is unavailable'')
                  else io_return (fresh_session pf input))"

definition createSessionAtSecurityVersion ::
  "platform \<Rightarrow> CreateSessionInput \<Rightarrow> int \<Rightarrow> CreatedSession option io" where
  "createSessionAtSecurityVersion pf input expectedSecurityVersion =
     io_bind (insert_session pf input (\<lambda>u. u_id u = nsi_userId input \<and> \<not> u_disabled u \<and>
                ur_securityVersion u = expectedSecurityVersion))
       (\<lambda>changed. io_return (if changed = 1 then Some (fresh_session pf input) else None))"

section \<open>Finding sessions\<close>

record AuthenticatedSession =
  as_session :: SessionRecord
  as_user :: User

definition live_session :: "int \<Rightarrow> session_row option \<Rightarrow> SessionRecord option" where
  "live_session now row =
     (case row of
        None \<Rightarrow> None
      | Some r \<Rightarrow> if se_revokedAt r \<noteq> None \<or> now \<ge> sr_expiresAt r then None
                  else Some (SessionRecord.truncate r))"

definition getAuthenticatedSessionByToken ::
  "platform \<Rightarrow> db \<Rightarrow> string \<Rightarrow> AuthenticatedSession option" where
  "getAuthenticatedSessionByToken pf db token =
     (case find (\<lambda>r. se_tokenHash r = hashOpaqueToken (pf_crypto pf) token \<and>
                     getUserById db (sr_userId r) \<noteq> None) (t_sessions db) of
        None \<Rightarrow> None
      | Some r \<Rightarrow>
          (case getUserById db (sr_userId r) of
             None \<Rightarrow> None
           | Some user \<Rightarrow>
               if se_revokedAt r \<noteq> None \<or> pf_now pf \<ge> sr_expiresAt r \<or> u_disabled user then None
               else Some \<lparr>as_session = SessionRecord.truncate r, as_user = user\<rparr>))"

definition getSessionByToken :: "platform \<Rightarrow> db \<Rightarrow> string \<Rightarrow> SessionRecord option" where
  "getSessionByToken pf db token =
     live_session (pf_now pf)
       (find (\<lambda>r. se_tokenHash r = hashOpaqueToken (pf_crypto pf) token) (t_sessions db))"

definition getSessionById :: "int \<Rightarrow> db \<Rightarrow> string \<Rightarrow> SessionRecord option" where
  "getSessionById now db sessionId =
     live_session now (find (\<lambda>r. sr_id r = sessionId) (t_sessions db))"

definition touchSession :: "string \<Rightarrow> int \<Rightarrow> world \<Rightarrow> world" where
  "touchSession sessionId seenAt =
     upd_sessions (update_where
       (\<lambda>r. sr_id r = sessionId \<and> se_revokedAt r = None \<and> sr_lastSeenAt r < seenAt)
       (\<lambda>r. r\<lparr>sr_lastSeenAt := seenAt\<rparr>))"

record SessionSummary =
  ss_id :: string
  ss_authMethod :: AuthMethod
  ss_passkeyAuthenticated :: bool
  ss_createdAt :: int
  ss_lastSeenAt :: int
  ss_expiresAt :: int

definition listSessionsByUser :: "platform \<Rightarrow> db \<Rightarrow> string \<Rightarrow> SessionSummary list" where
  "listSessionsByUser pf db userId =
     map (\<lambda>r. \<lparr>ss_id = sr_id r, ss_authMethod = sr_authMethod r,
            ss_passkeyAuthenticated = sr_passkeyAuthenticated r, ss_createdAt = sr_createdAt r,
            ss_lastSeenAt = sr_lastSeenAt r, ss_expiresAt = sr_expiresAt r\<rparr>)
       (sort_key (\<lambda>r. - sr_lastSeenAt r)
         (filter (\<lambda>r. sr_userId r = userId \<and> se_revokedAt r = None \<and> sr_expiresAt r > pf_now pf)
           (t_sessions db)))"

section \<open>Ending sessions\<close>

text \<open>
  The batch of two updates every revocation runs: the sessions that match, then the refresh
  families that match (evaluated after the first update), with the ids of the latter; and the
  Durable Objects of those ids.
\<close>

definition end_sessions ::
  "platform \<Rightarrow> (session_row \<Rightarrow> bool) \<Rightarrow> (db \<Rightarrow> refresh_row \<Rightarrow> bool) \<Rightarrow> world \<Rightarrow> nat \<times> world" where
  "end_sessions pf S R w =
     (let hit = (\<lambda>s. S s \<and> se_revokedAt s = None);
          w1 = upd_sessions (update_where hit (\<lambda>s. s\<lparr>se_revokedAt := Some (pf_now pf)\<rparr>)) w
      in (changes hit (t_sessions (w_db w)), snd (revokeMatchingFamilies pf (R (w_db w1)) w1)))"

definition revokeSessionByToken :: "platform \<Rightarrow> string \<Rightarrow> world \<Rightarrow> world" where
  "revokeSessionByToken pf token w =
     (let tokenHash = hashOpaqueToken (pf_crypto pf) token
      in snd (end_sessions pf (\<lambda>s. se_tokenHash s = tokenHash)
           (\<lambda>db r. list_ex (\<lambda>s. se_tokenHash s = tokenHash \<and> rt_sessionId r = Some (sr_id s)) (t_sessions db)) w))"

definition revokeAllUserSessions :: "platform \<Rightarrow> string \<Rightarrow> world \<Rightarrow> world" where
  "revokeAllUserSessions pf userId w =
     snd (end_sessions pf (\<lambda>s. sr_userId s = userId) (\<lambda>db r. rt_userId r = userId) w)"

definition revokeSessionById ::
  "platform \<Rightarrow> string \<Rightarrow> string \<Rightarrow> string \<Rightarrow> bool io" where
  "revokeSessionById pf label sessionId userId w =
     (if pf_d1_fails pf label then (Inl DatabaseFailure, w)
      else let (n, w') = end_sessions pf (\<lambda>s. sr_id s = sessionId \<and> sr_userId s = userId)
                 (\<lambda>db r. rt_sessionId r = Some sessionId \<and>
                    list_ex (\<lambda>s. sr_id s = sessionId \<and> sr_userId s = userId) (t_sessions db)) w
           in (Inr (n = 1), w'))"

text \<open>
  \<open>replaceReauthenticatedSession\<close>: when the old session cannot be revoked, the new one is
  revoked instead (a second failure is only logged) and the first error is thrown on.
\<close>

definition replaceReauthenticatedSession ::
  "platform \<Rightarrow> SessionRecord option \<Rightarrow> CreatedSession \<Rightarrow> string \<Rightarrow> unit io" where
  "replaceReauthenticatedSession pf previous next nextUserId w =
     (case previous of
        None \<Rightarrow> (Inr (), w)
      | Some p \<Rightarrow>
          (case revokeSessionById pf ''reauth:previous'' (sr_id p) (sr_userId p) w of
             (Inr _, w') \<Rightarrow> (Inr (), w')
           | (Inl e, w') \<Rightarrow>
               (Inl e, snd (revokeSessionById pf ''reauth:cleanup'' (crs_sessionId next) nextUserId w'))))"

definition revokeOtherUserSessions :: "platform \<Rightarrow> string \<Rightarrow> string \<Rightarrow> world \<Rightarrow> nat \<times> world" where
  "revokeOtherUserSessions pf userId keepSessionId =
     end_sessions pf (\<lambda>s. sr_userId s = userId \<and> sr_id s \<noteq> keepSessionId)
       (\<lambda>db r. rt_userId r = userId \<and> (rt_sessionId r = None \<or> rt_sessionId r \<noteq> Some keepSessionId))"

section \<open>middleware/session.ts\<close>

definition SESSIONLESS_OAUTH_PATHS :: "string list" where
  "SESSIONLESS_OAUTH_PATHS = [''/oauth/token'', ''/oauth/userinfo'', ''/oauth/device_authorization'',
     ''/oauth/revoke'', ''/oauth/introspect'']"

definition isSessionlessPath :: "string \<Rightarrow> bool" where
  "isSessionlessPath path =
     (path = ''/health'' \<or> starts_with ''/health/'' path \<or> path = ''/language'' \<or>
      path = ''/setup/bootstrap'' \<or> starts_with ''/assets/'' path \<or> starts_with ''/avatars/'' path \<or>
      starts_with ''/.well-known/'' path \<or> path \<in> set SESSIONLESS_OAUTH_PATHS)"

text \<open>The session and user the middleware attaches to the request, and its touch of the row.\<close>

definition sessionMiddleware ::
  "platform \<Rightarrow> string \<Rightarrow> string option \<Rightarrow> world \<Rightarrow> AuthenticatedSession option \<times> world" where
  "sessionMiddleware pf path cookie w =
     (if isSessionlessPath path then (None, w)
      else case cookie of
        None \<Rightarrow> (None, w)
      | Some token \<Rightarrow>
          (case getAuthenticatedSessionByToken pf (w_db w) token of
             None \<Rightarrow> (None, w)
           | Some a \<Rightarrow>
               (Some a, if pf_now pf - sr_lastSeenAt (as_session a) \<ge> 5 * 60
                        then touchSession (sr_id (as_session a)) (pf_now pf) w else w)))"

section \<open>Ending sessions: laws\<close>

lemma revokeMatching_sessions [simp]:
  "t_sessions (w_db (snd (revokeMatchingFamilies pf P w))) = t_sessions (w_db w)"
  "t_users (w_db (snd (revokeMatchingFamilies pf P w))) = t_users (w_db w)"
  using revoke_dos(1) [OF prod.collapse [symmetric]]
  by (simp_all add: revokeMatchingFamilies_def Let_def case_prod_unfold)

lemma end_sessions_tables:
  assumes "end_sessions pf S R w = (n, w')"
  shows "t_sessions (w_db w') = update_where (\<lambda>s. S s \<and> se_revokedAt s = None)
           (\<lambda>s. s\<lparr>se_revokedAt := Some (pf_now pf)\<rparr>) (t_sessions (w_db w))"
    "t_users (w_db w') = t_users (w_db w)"
    "n = changes (\<lambda>s. S s \<and> se_revokedAt s = None) (t_sessions (w_db w))"
  using assms by (auto simp: end_sessions_def Let_def)

text \<open>The matching sessions are revoked and the others keep their rows.\<close>

lemma end_sessions_sessions:
  assumes "end_sessions pf S R w = (n, w')" and "\<And>s t. S (s\<lparr>se_revokedAt := t\<rparr>) = S s"
  shows "\<forall>s\<in>set (t_sessions (w_db w')). S s \<longrightarrow> se_revokedAt s \<noteq> None"
    "filter (\<lambda>s. \<not> S s) (t_sessions (w_db w')) = filter (\<lambda>s. \<not> S s) (t_sessions (w_db w))"
proof -
  note t = end_sessions_tables(1) [OF assms(1)]
  show "\<forall>s\<in>set (t_sessions (w_db w')). S s \<longrightarrow> se_revokedAt s \<noteq> None"
    by (auto simp: t set_update_where assms(2) split: if_splits)
  show "filter (\<lambda>s. \<not> S s) (t_sessions (w_db w')) = filter (\<lambda>s. \<not> S s) (t_sessions (w_db w))"
    unfolding t by (rule filter_update_untouched) (simp add: assms(2))
qed

text \<open>The families of the matching rows die with the sessions.\<close>

lemma end_sessions_families:
  assumes "end_sessions pf S (\<lambda>_. P) w = (n, w')" and "\<And>r t. P (r\<lparr>rt_revokedAt := t\<rparr>) = P r"
  shows "\<forall>r\<in>set (t_refresh_tokens (w_db w')). P r \<longrightarrow> rt_revokedAt r \<noteq> None"
    "r \<in> set (t_refresh_tokens (w_db w)) \<Longrightarrow> P r \<Longrightarrow> rt_revokedAt r = None \<Longrightarrow>
       \<not> (pf_do_rejects pf 0 (rt_id r) \<and> pf_do_rejects pf 1 (rt_id r)) \<Longrightarrow>
       fam_dead (w_families w' (rt_id r))"
proof -
  let ?w1 = "upd_sessions (update_where (\<lambda>s. S s \<and> se_revokedAt s = None)
    (\<lambda>s. s\<lparr>se_revokedAt := Some (pf_now pf)\<rparr>)) w"
  obtain m where m: "revokeMatchingFamilies pf P ?w1 = (m, w')"
    using assms(1) by (metis (no_types, lifting) end_sessions_def prod.collapse snd_conv)
  note laws = revokeMatching_laws [OF m, OF assms(2)]
  show "\<forall>r\<in>set (t_refresh_tokens (w_db w')). P r \<longrightarrow> rt_revokedAt r \<noteq> None" by (rule laws(1))
  show "r \<in> set (t_refresh_tokens (w_db w)) \<Longrightarrow> P r \<Longrightarrow> rt_revokedAt r = None \<Longrightarrow>
       \<not> (pf_do_rejects pf 0 (rt_id r) \<and> pf_do_rejects pf 1 (rt_id r)) \<Longrightarrow>
       fam_dead (w_families w' (rt_id r))" by (rule laws(4)) simp
qed

text \<open>A token authenticates only through a live row of an enabled user.\<close>

lemma authenticated_row:
  assumes "getAuthenticatedSessionByToken pf db token = Some a"
  obtains r where "r \<in> set (t_sessions db)" "se_revokedAt r = None" "pf_now pf < sr_expiresAt r"
    "se_tokenHash r = hashOpaqueToken (pf_crypto pf) token"
    "as_session a = SessionRecord.truncate r" "getUserById db (sr_userId r) = Some (as_user a)"
    "\<not> u_disabled (as_user a)" "u_id (as_user a) = sr_userId r"
  using assms getUserById_id
  by (fastforce simp: getAuthenticatedSessionByToken_def split: option.splits if_splits
      dest: find_Some_mem)

section \<open>Creating sessions: laws\<close>

definition user_keys :: "db \<Rightarrow> bool" where
  "user_keys db = distinct (map u_id (t_users db))"

lemma inserted_session_authenticates:
  assumes ins: "insert_session pf input guard w = (Inr 1, w')" and keys: "user_keys (w_db w)"
    and guard: "\<And>u. guard u \<Longrightarrow> u_id u = nsi_userId input \<and> \<not> u_disabled u"
    and pf': "pf_crypto pf' = pf_crypto pf" "pf_now pf' < crs_expiresAt (fresh_session pf input)"
  obtains u a where "u \<in> set (t_users (w_db w))" "guard u"
    "getAuthenticatedSessionByToken pf' (w_db w') (crs_token (fresh_session pf input)) = Some a"
    "as_user a = User.truncate u"
    "as_session a = SessionRecord.truncate (new_session_row pf input (fresh_session pf input) u)"
proof -
  let ?s = "fresh_session pf input"
  let ?h = "hashOpaqueToken (pf_crypto pf) (crs_token ?s)"
  obtain u where u: "filter guard (t_users (w_db w)) = [u]"
    and new: "\<not> list_ex (\<lambda>r. sr_id r = crs_sessionId ?s \<or> se_tokenHash r = ?h) (t_sessions (w_db w))"
    and w': "w' = upd_sessions (\<lambda>t. t @ [new_session_row pf input ?s u]) w"
    using ins by (auto simp: insert_session_def Let_def length_Suc_conv split: if_splits)
  have um: "u \<in> set (t_users (w_db w))" "guard u"
    using filter_is_subset [of guard "t_users (w_db w)"] filter_set [of guard "t_users (w_db w)"] u
    by auto
  have old: "find (\<lambda>r. se_tokenHash r = ?h \<and> Q r) (t_sessions (w_db w)) = None" for Q
    using new by (auto simp: find_None_iff list_ex_iff)
  have user: "getUserById (w_db w') (u_id u) = Some (User.truncate u)"
    using find_by_key [of u_id "t_users (w_db w)" u] um keys by (simp add: getUserById_def w' user_keys_def)
  have "find (\<lambda>r. se_tokenHash r = ?h \<and> getUserById (w_db w') (sr_userId r) \<noteq> None)
      (t_sessions (w_db w')) = Some (new_session_row pf input ?s u)"
    using old user by (simp add: w' find_append_None new_session_row_def)
  moreover have "\<not> u_disabled (User.truncate u)" using guard [OF um(2)] by (simp add: User.defs)
  ultimately have "getAuthenticatedSessionByToken pf' (w_db w') (crs_token ?s) =
      Some \<lparr>as_session = SessionRecord.truncate (new_session_row pf input ?s u), as_user = User.truncate u\<rparr>"
    using user pf' by (simp add: getAuthenticatedSessionByToken_def new_session_row_def)
  then show ?thesis using that um by simp
qed

section \<open>Properties\<close>

text \<open>
  \<open>revokeAllUserSessions\<close> signs a user out everywhere: afterwards no cookie token
  authenticates as the user at any time, no refresh-token row of the user is live, the Durable
  Object of each family that was live is dead unless both attempts at it were rejected, and the
  sessions of other users are untouched.
\<close>

theorem sign_out_everywhere:
  assumes "w' = revokeAllUserSessions pf userId w"
  shows "(\<forall>pf' token a. getAuthenticatedSessionByToken pf' (w_db w') token = Some a \<longrightarrow>
       u_id (as_user a) \<noteq> userId) \<and>
    (\<forall>r\<in>set (t_refresh_tokens (w_db w')). rt_userId r = userId \<longrightarrow> rt_revokedAt r \<noteq> None) \<and>
    (\<forall>r\<in>set (t_refresh_tokens (w_db w)). rt_userId r = userId \<and> rt_revokedAt r = None \<and>
       \<not> (pf_do_rejects pf 0 (rt_id r) \<and> pf_do_rejects pf 1 (rt_id r)) \<longrightarrow>
       fam_dead (w_families w' (rt_id r))) \<and>
    filter (\<lambda>s. sr_userId s \<noteq> userId) (t_sessions (w_db w')) =
      filter (\<lambda>s. sr_userId s \<noteq> userId) (t_sessions (w_db w))"
proof -
  obtain n where e: "end_sessions pf (\<lambda>s. sr_userId s = userId) (\<lambda>_ r. rt_userId r = userId) w = (n, w')"
    using assms by (metis prod.collapse revokeAllUserSessions_def)
  show ?thesis
    using end_sessions_sessions [OF e] end_sessions_families [OF e]
    by (auto elim!: authenticated_row)
qed

theorem sign_out_everywhere_witness:
  "\<forall>token. getAuthenticatedSessionByToken demo_pf
     (w_db (revokeAllUserSessions demo_pf ''u'' demo_world)) token = None"
proof
  fix token
  have only: "t_users (w_db (revokeAllUserSessions demo_pf ''u'' demo_world)) = [demo_user]"
    using end_sessions_tables(2) [OF prod.collapse [symmetric]]
    by (simp add: revokeAllUserSessions_def demo_world_def empty_db_def)
  show "getAuthenticatedSessionByToken demo_pf
     (w_db (revokeAllUserSessions demo_pf ''u'' demo_world)) token = None"
  proof (rule ccontr)
    assume "\<not> ?thesis"
    then obtain a where a: "getAuthenticatedSessionByToken demo_pf
       (w_db (revokeAllUserSessions demo_pf ''u'' demo_world)) token = Some a" by auto
    then have "u_id (as_user a) = ''u''"
      by (rule authenticated_row) (auto simp: getUserById_def only demo_user_def User.defs split: if_splits)
    with a sign_out_everywhere [OF refl, of demo_pf "''u''" demo_world] show False by blast
  qed
qed

text \<open>
  A sign-in that completes at a known security version: \<open>createSessionAtSecurityVersion\<close>
  returns a session exactly if the insert found the user enabled and still at that version, the
  returned token then authenticates as that user until the session expires, and otherwise
  nothing is written.
\<close>

theorem session_at_security_version:
  assumes "createSessionAtSecurityVersion pf input v w = (Inr out, w')" and "user_keys (w_db w)"
  shows "(out = None \<longrightarrow> w' = w \<and> (\<nexists>u. u \<in> set (t_users (w_db w)) \<and> u_id u = nsi_userId input \<and>
            \<not> u_disabled u \<and> ur_securityVersion u = v)) \<and>
    (\<forall>s. out = Some s \<longrightarrow>
       (\<exists>u\<in>set (t_users (w_db w)). u_id u = nsi_userId input \<and> \<not> u_disabled u \<and>
          ur_securityVersion u = v \<and>
          (\<forall>pf'. pf_crypto pf' = pf_crypto pf \<and> pf_now pf' < pf_now pf + nsi_ttlSeconds input \<longrightarrow>
             (\<exists>a. getAuthenticatedSessionByToken pf' (w_db w') (crs_token s) = Some a \<and>
                as_user a = User.truncate u \<and> sr_id (as_session a) = crs_sessionId s))))"
proof -
  let ?guard = "\<lambda>u. u_id u = nsi_userId input \<and> \<not> u_disabled u \<and> ur_securityVersion u = v"
  obtain n where n: "insert_session pf input ?guard w = (Inr n, w')"
    "out = (if n = 1 then Some (fresh_session pf input) else None)"
    using assms(1) by (auto simp: createSessionAtSecurityVersion_def io_bind_Inr)
  have le: "n \<le> 1 \<and> n = length (filter ?guard (t_users (w_db w)))"
    using n(1) by (auto simp: insert_session_def Let_def split: if_splits)
  show ?thesis
  proof (cases "n = 1")
    case False
    with le have "length (filter ?guard (t_users (w_db w))) = 0" by linarith
    then have "filter ?guard (t_users (w_db w)) = []" by simp
    with False n show ?thesis by (auto simp: insert_session_def filter_empty_conv)
  next
    case True
    with n(1) have ins: "insert_session pf input ?guard w = (Inr 1, w')" by simp
    from le True have "length (filter ?guard (t_users (w_db w))) = Suc 0" by linarith
    then obtain u where u: "filter ?guard (t_users (w_db w)) = [u]"
      by (auto simp: length_Suc_conv)
    then have um: "u \<in> set (t_users (w_db w))" "?guard u"
      using filter_is_subset [of ?guard "t_users (w_db w)"] filter_set [of ?guard "t_users (w_db w)"]
      by auto
    have uniq: "u' = u" if "u' \<in> set (t_users (w_db w))" "?guard u'" for u'
    proof -
      from that have "u' \<in> set (filter ?guard (t_users (w_db w)))" by simp
      then show ?thesis unfolding u by simp
    qed
    have "\<exists>a. getAuthenticatedSessionByToken pf' (w_db w') (crs_token (fresh_session pf input)) = Some a \<and>
        as_user a = User.truncate u \<and> sr_id (as_session a) = crs_sessionId (fresh_session pf input)"
      if "pf_crypto pf' = pf_crypto pf" "pf_now pf' < pf_now pf + nsi_ttlSeconds input" for pf'
      by (rule inserted_session_authenticates [OF ins assms(2), of pf'])
        (use that uniq in \<open>auto simp: fresh_session_def new_session_row_def SessionRecord.defs\<close>)
    with True n um show ?thesis by auto
  qed
qed

theorem session_at_security_version_witness:
  "let input = \<lparr>nsi_userId = ''u'', nsi_authMethod = magic_link, nsi_ttlSeconds = 60,
         nsi_passkeyAuthenticated = None, nsi_ipHash = None, nsi_userAgentHash = None\<rparr>
   in \<exists>s w' a. createSessionAtSecurityVersion demo_pf input 0 demo_world = (Inr (Some s), w') \<and>
        getAuthenticatedSessionByToken demo_pf (w_db w') (crs_token s) = Some a \<and>
        u_id (as_user a) = ''u''"
proof -
  let ?in = "\<lparr>nsi_userId = ''u'', nsi_authMethod = magic_link, nsi_ttlSeconds = 60,
         nsi_passkeyAuthenticated = None, nsi_ipHash = None, nsi_userAgentHash = None\<rparr>"
  obtain s w' where c: "createSessionAtSecurityVersion demo_pf ?in 0 demo_world = (Inr (Some s), w')"
    by (simp add: createSessionAtSecurityVersion_def io_bind_def insert_session_def Let_def
        demo_world_def empty_db_def demo_user_def io_return_def)
  have "user_keys (w_db demo_world)" by (simp add: user_keys_def demo_world_def empty_db_def)
  from session_at_security_version [OF c this] obtain u a where "u \<in> set (t_users (w_db demo_world))"
    "getAuthenticatedSessionByToken demo_pf (w_db w') (crs_token s) = Some a" "as_user a = User.truncate u"
    by fastforce
  with c show ?thesis by (auto simp: Let_def demo_world_def empty_db_def demo_user_def User.defs)
qed

end
