(* ===== verification/User_Code.thy ===== *)
theory User_Code
  imports Encoding
begin

text \<open>
  \<open>generateUserCode\<close> of \<open>src/utils/random.ts\<close> and \<open>normalizeUserCode\<close> of
  \<open>src/oauth/user-code.ts\<close>: the code a person types to approve a device. The generator samples
  by rejection, so its loop ends only when the random source cooperates: the draws are an
  argument (\<open>draws k\<close> is the result of the k-th call of \<open>randomBytes\<close>), and the loop is a
  partial function that is \<open>None\<close> when it never ends.
\<close>

section \<open>Generation\<close>

definition USER_CODE_ALPHABET :: string where
  "USER_CODE_ALPHABET = ''ABCDEFGHJKLMNPQRSTVWXYZ23456789''"

definition alphabetLen :: nat where "alphabetLen = length USER_CODE_ALPHABET"

definition max_byte :: nat where "max_byte = 256 div alphabetLen * alphabetLen"

definition user_code_char :: "byte \<Rightarrow> char" where
  "user_code_char b = USER_CODE_ALPHABET ! (unat b mod alphabetLen)"

text \<open>The \<open>for\<close> loop over one draw; \<open>chars\<close> are the characters produced so far.\<close>

fun take_bytes :: "nat \<Rightarrow> byte list \<Rightarrow> string \<Rightarrow> string" where
  "take_bytes size_total [] chars = chars"
| "take_bytes size_total (b # bs) chars =
     (if length chars \<ge> size_total then chars
      else if unat b < max_byte then take_bytes size_total bs (chars @ [user_code_char b])
      else take_bytes size_total bs chars)"

partial_function (option) draw_loop :: "nat \<Rightarrow> (nat \<Rightarrow> byte list) \<Rightarrow> nat \<Rightarrow> string \<Rightarrow> string option" where
  "draw_loop size_total draws k chars =
     (if length chars < size_total then draw_loop size_total draws (Suc k) (take_bytes size_total (draws k) chars)
      else Some chars)"

definition user_code_segments :: "nat \<Rightarrow> nat \<Rightarrow> string \<Rightarrow> string list" where
  "user_code_segments groups groupSize chars =
     map (\<lambda>i. take groupSize (drop (i * groupSize) chars)) [0..<groups]"

definition generateUserCode :: "nat \<Rightarrow> nat \<Rightarrow> (nat \<Rightarrow> byte list) \<Rightarrow> string option" where
  "generateUserCode groups groupSize draws =
     map_option (\<lambda>chars. js_join ''-'' (user_code_segments groups groupSize chars))
       (draw_loop (groups * groupSize) draws 0 [])"

section \<open>Normalization\<close>

text \<open>
  \<open>toUpperCase\<close> of one character. Two Latin-1 characters have a capital outside Latin-1
  (\<open>\<mu>\<close> and y with diaeresis); they are kept as they are, since the filter drops both forms.
\<close>

definition js_upper :: "char \<Rightarrow> string" where
  "js_upper c =
     (if is_lower c then [char_of (ccode c - 32)]
      else if ccode c = 223 then ''SS''
      else if 224 \<le> ccode c \<and> ccode c \<le> 254 \<and> ccode c \<noteq> 247 then [char_of (ccode c - 32)]
      else [c])"

definition normalizeUserCode :: "string \<Rightarrow> string" where
  "normalizeUserCode input =
     filter (\<lambda>c. is_upper c \<or> is_digit c) (concat (map js_upper input))"

section \<open>The loop\<close>

definition accepted :: "(nat \<Rightarrow> byte list) \<Rightarrow> nat \<Rightarrow> nat \<Rightarrow> byte list" where
  "accepted draws k n = filter (\<lambda>b. unat b < max_byte) (concat (map draws [k..<k + n]))"

lemma accepted_Suc:
  "accepted draws k (Suc n) = filter (\<lambda>b. unat b < max_byte) (draws k) @ accepted draws (Suc k) n"
  by (simp add: accepted_def upt_conv_Cons del: upt_Suc)

lemma take_bytes_eq:
  "length chars \<le> size_total \<Longrightarrow>
   take_bytes size_total bs chars =
     take size_total (chars @ map user_code_char (filter (\<lambda>b. unat b < max_byte) bs))"
  by (induction size_total bs chars rule: take_bytes.induct) auto

text \<open>As soon as the draws hold enough acceptable bytes the loop returns their images.\<close>

lemma draw_loop_returns:
  assumes "length chars \<le> size_total" "size_total \<le> length chars + length (accepted draws k n)"
  shows "draw_loop size_total draws k chars =
    Some (take size_total (chars @ map user_code_char (accepted draws k n)))"
  using assms
proof (induction n arbitrary: k chars)
  case 0
  then show ?case by (subst draw_loop.simps) (simp add: accepted_def)
next
  case (Suc n)
  show ?case
  proof (cases "length chars < size_total")
    case True
    let ?new = "take_bytes size_total (draws k) chars"
    let ?ok = "filter (\<lambda>b. unat b < max_byte) (draws k)"
    have new: "?new = take size_total (chars @ map user_code_char ?ok)"
      using Suc.prems(1) by (rule take_bytes_eq)
    have "draw_loop size_total draws (Suc k) ?new =
        Some (take size_total (?new @ map user_code_char (accepted draws (Suc k) n)))"
      by (rule Suc.IH) (use Suc.prems in \<open>auto simp: new accepted_Suc\<close>)
    moreover have "take size_total (?new @ map user_code_char (accepted draws (Suc k) n)) =
        take size_total (chars @ map user_code_char (accepted draws k (Suc n)))"
      by (simp add: new accepted_Suc take_Cons' min_def)
    ultimately show ?thesis using True by (subst draw_loop.simps) simp
  next
    case False
    with Suc.prems show ?thesis by (subst draw_loop.simps) simp
  qed
qed

text \<open>Conversely a result needs enough acceptable bytes in finitely many draws.\<close>

lemma draw_loop_step:
  assumes "length chars < size_total" "length chars \<le> size_total"
    "size_total \<le> length (take_bytes size_total (draws k) chars) + length (accepted draws (Suc k) n)"
  shows "size_total \<le> length chars + length (accepted draws k (Suc n))"
  using assms by (auto simp: take_bytes_eq accepted_Suc)

lemma draw_loop_result_imp:
  assumes "draw_loop size_total draws k chars = Some r"
  shows "length chars \<le> size_total \<longrightarrow> (\<exists>n. size_total \<le> length chars + length (accepted draws k n))"
proof (rule draw_loop.raw_induct [OF _ assms])
  fix loop size_total draws k chars r
  assume IH: "\<And>size_total draws k chars r. loop size_total draws k chars = Some r \<Longrightarrow>
      length chars \<le> size_total \<longrightarrow> (\<exists>n. size_total \<le> length chars + length (accepted draws k n))"
    and body: "(if length chars < size_total
      then loop size_total draws (Suc k) (take_bytes size_total (draws k) chars) else Some chars) = Some r"
  show "length chars \<le> size_total \<longrightarrow> (\<exists>n. size_total \<le> length chars + length (accepted draws k n))"
  proof (cases "length chars < size_total")
    case True
    then have "\<exists>n. size_total \<le> length (take_bytes size_total (draws k) chars) + length (accepted draws (Suc k) n)"
      using IH [of size_total draws "Suc k" "take_bytes size_total (draws k) chars" r] body
      by (simp add: take_bytes_eq)
    with True draw_loop_step show ?thesis by (metis less_imp_le)
  next
    case False
    then show ?thesis by (auto intro: exI [of _ 0])
  qed
qed

lemmas draw_loop_result = draw_loop_result_imp [rule_format]

lemma alphabet_simps: "alphabetLen = 31" "max_byte = 248"
  by (simp_all add: alphabetLen_def max_byte_def USER_CODE_ALPHABET_def)

lemma distinct_alphabet: "distinct USER_CODE_ALPHABET"
  by (simp add: USER_CODE_ALPHABET_def)

lemma alphabet_class: "c \<in> set USER_CODE_ALPHABET \<Longrightarrow> is_upper c \<or> is_digit c"
  by (auto simp: USER_CODE_ALPHABET_def is_upper_def is_digit_def)

lemma user_code_char_mem: "user_code_char b \<in> set USER_CODE_ALPHABET"
  unfolding user_code_char_def alphabetLen_def
  by (rule nth_mem) (simp add: USER_CODE_ALPHABET_def)

section \<open>Normalization of a generated code\<close>

lemma normalize_append: "normalizeUserCode (s @ t) = normalizeUserCode s @ normalizeUserCode t"
  by (simp add: normalizeUserCode_def)

lemma js_upper_plain: "is_upper c \<or> is_digit c \<Longrightarrow> js_upper c = [c]"
  by (auto simp: js_upper_def is_upper_def is_digit_def is_lower_def)

lemma normalize_plain: "list_all (\<lambda>c. is_upper c \<or> is_digit c) s \<Longrightarrow> normalizeUserCode s = s"
  by (induction s) (auto simp: normalizeUserCode_def js_upper_plain)

lemma normalize_join:
  "\<forall>s\<in>set segs. list_all (\<lambda>c. is_upper c \<or> is_digit c) s \<Longrightarrow>
     normalizeUserCode (js_join ''-'' segs) = concat segs"
proof (induction "''-''" segs rule: js_join.induct)
  case (3 x y xs)
  have "normalizeUserCode ''-'' = []"
    by (simp add: normalizeUserCode_def js_upper_def is_lower_def is_upper_def is_digit_def)
  then have "normalizeUserCode (CHR ''-'' # t) = normalizeUserCode t" for t
    using normalize_append [of "''-''" t] by simp
  with 3 show ?case by (simp add: normalize_append normalize_plain)
qed (use normalize_plain [of "[]"] in \<open>simp_all add: normalize_plain\<close>)

lemma concat_segments:
  "length chars = groups * groupSize \<Longrightarrow> concat (user_code_segments groups groupSize chars) = chars"
proof (induction groups arbitrary: chars)
  case (Suc groups)
  have "concat (user_code_segments groups groupSize (take (groups * groupSize) chars)) =
      take (groups * groupSize) chars"
    using Suc.prems by (intro Suc.IH) simp
  moreover have "user_code_segments groups groupSize (take (groups * groupSize) chars) =
      user_code_segments groups groupSize chars"
  proof -
    have "take groupSize (drop (i * groupSize) (take (groups * groupSize) chars)) =
        take groupSize (drop (i * groupSize) chars)" if "i < groups" for i
    proof -
      have "Suc i * groupSize \<le> groups * groupSize" using that by (intro mult_le_mono1) simp
      then have "groupSize \<le> groups * groupSize - i * groupSize" by simp
      then show ?thesis by (simp add: drop_take min_absorb1)
    qed
    then show ?thesis by (simp add: user_code_segments_def)
  qed
  moreover have "take groupSize (drop (groups * groupSize) chars) = drop (groups * groupSize) chars"
    using Suc.prems by simp
  moreover have "concat (user_code_segments (Suc groups) groupSize chars) =
      concat (user_code_segments groups groupSize chars) @ take groupSize (drop (groups * groupSize) chars)"
    by (simp add: user_code_segments_def)
  ultimately show ?case by simp
qed (simp add: user_code_segments_def)

lemma segments_class:
  assumes "list_all P chars"
  shows "\<forall>s\<in>set (user_code_segments groups groupSize chars). list_all P s"
  using assms by (auto simp: user_code_segments_def list_all_iff dest!: in_set_takeD in_set_dropD)

section \<open>No modulo bias\<close>

lemma user_code_char_preimage:
  "i < 31 \<Longrightarrow> {b. unat b < max_byte \<and> user_code_char b = USER_CODE_ALPHABET ! i} =
     (\<lambda>q. of_nat (31 * q + i)) ` {0..<8}"
proof (intro set_eqI iffI)
  fix b :: byte
  assume i: "i < 31"
  assume "b \<in> {b. unat b < max_byte \<and> user_code_char b = USER_CODE_ALPHABET ! i}"
  then have b: "unat b < 248" "USER_CODE_ALPHABET ! (unat b mod 31) = USER_CODE_ALPHABET ! i"
    by (simp_all add: alphabet_simps user_code_char_def)
  have "length USER_CODE_ALPHABET = 31" using alphabet_simps(1) by (simp add: alphabetLen_def)
  with b(2) i have "unat b mod 31 = i" by (simp add: nth_eq_iff_index_eq [OF distinct_alphabet])
  then have "unat b = 31 * (unat b div 31) + i" by (metis mult_div_mod_eq)
  then have "of_nat (31 * (unat b div 31) + i) = (of_nat (unat b) :: byte)" by (rule arg_cong [OF sym])
  then have "b = of_nat (31 * (unat b div 31) + i)" by simp
  moreover have "unat b div 31 < 8" using b(1) by (simp add: div_less_iff_less_mult)
  ultimately show "b \<in> (\<lambda>q. of_nat (31 * q + i)) ` {0..<8}" by force
next
  fix b :: byte
  assume i: "i < 31"
  assume "b \<in> (\<lambda>q. of_nat (31 * q + i)) ` {0..<8}"
  then obtain q where q: "q < 8" "b = of_nat (31 * q + i)" by auto
  then have "unat b = 31 * q + i"
    using i unat_of_nat [where 'a = 8, of "31 * q + i"] by simp
  then show "b \<in> {b. unat b < max_byte \<and> user_code_char b = USER_CODE_ALPHABET ! i}"
    using q i by (simp add: alphabet_simps user_code_char_def)
qed

lemma inj_preimage: "i < 31 \<Longrightarrow> inj_on (\<lambda>q. of_nat (31 * q + i) :: byte) {0..<8}"
proof (rule inj_onI)
  fix q r :: nat
  assume i: "i < 31" and qr: "q \<in> {0..<8}" "r \<in> {0..<8}"
  assume "(of_nat (31 * q + i) :: byte) = of_nat (31 * r + i)"
  then have "unat (of_nat (31 * q + i) :: byte) = unat (of_nat (31 * r + i) :: byte)" by simp
  moreover have "unat (of_nat (31 * p + i) :: byte) = 31 * p + i" if "p < 8" for p
    using i that unat_of_nat [where 'a = 8, of "31 * p + i"] by simp
  ultimately show "q = r" using qr by simp
qed

section \<open>Properties\<close>

text \<open>
  C25. \<open>generateUserCode\<close> ends exactly if the random source yields, in finitely many draws, as
  many bytes below 248 as the code has characters. In particular it ends for every source that
  keeps producing such bytes, and it runs forever for a source that does not.
\<close>

theorem user_code_terminates_iff:
  "(\<exists>code. generateUserCode groups groupSize draws = Some code) \<longleftrightarrow>
   (\<exists>n. groups * groupSize \<le> length (filter (\<lambda>b. unat b < 248) (concat (map draws [0..<n]))))"
proof
  assume "\<exists>code. generateUserCode groups groupSize draws = Some code"
  then obtain r where "draw_loop (groups * groupSize) draws 0 [] = Some r"
    by (auto simp: generateUserCode_def)
  from draw_loop_result [OF this]
  show "\<exists>n. groups * groupSize \<le> length (filter (\<lambda>b. unat b < 248) (concat (map draws [0..<n])))"
    by (simp add: accepted_def alphabet_simps)
next
  assume "\<exists>n. groups * groupSize \<le> length (filter (\<lambda>b. unat b < 248) (concat (map draws [0..<n])))"
  then show "\<exists>code. generateUserCode groups groupSize draws = Some code"
    using draw_loop_returns [of "[]" "groups * groupSize" draws 0]
    by (auto simp: generateUserCode_def accepted_def alphabet_simps)
qed

text \<open>
  A generated user code survives typing: normalizing it gives back its characters, which
  are the images of the first accepted bytes, and every letter of the alphabet is the image of
  exactly eight of the 248 accepted bytes, so that no letter is favoured.
\<close>

theorem user_code_roundtrip_unbiased:
  assumes "generateUserCode groups groupSize draws = Some code"
  shows "(\<exists>n. normalizeUserCode code =
      map user_code_char (take (groups * groupSize)
        (filter (\<lambda>b. unat b < 248) (concat (map draws [0..<n]))))) \<and>
    length (normalizeUserCode code) = groups * groupSize \<and>
    (\<forall>c\<in>set USER_CODE_ALPHABET. card {b. unat b < 248 \<and> user_code_char b = c} = 8)"
proof -
  let ?t = "groups * groupSize"
  obtain chars where chars: "draw_loop ?t draws 0 [] = Some chars"
    and code: "code = js_join ''-'' (user_code_segments groups groupSize chars)"
    using assms by (auto simp: generateUserCode_def)
  obtain n where n: "?t \<le> length (accepted draws 0 n)" using draw_loop_result [OF chars] by auto
  have eq: "chars = map user_code_char (take ?t (accepted draws 0 n))"
    using draw_loop_returns [of "[]" ?t draws 0 n] n chars by (simp add: take_map)
  have "list_all (\<lambda>c. is_upper c \<or> is_digit c) chars"
    using user_code_char_mem alphabet_class by (auto simp: eq list_all_iff)
  then have norm: "normalizeUserCode code = chars"
    using n by (simp add: code normalize_join segments_class concat_segments eq)
  have len: "length USER_CODE_ALPHABET = 31" using alphabet_simps(1) by (simp add: alphabetLen_def)
  have "card {b. unat b < 248 \<and> user_code_char b = c} = 8" if "c \<in> set USER_CODE_ALPHABET" for c
  proof -
    have "\<exists>i<31. c = USER_CODE_ALPHABET ! i"
      by (rule in_set_conv_nth [THEN iffD1, OF that, THEN exE]) (use len in auto)
    then obtain i where i: "i < 31" "c = USER_CODE_ALPHABET ! i" by blast
    show ?thesis
      using user_code_char_preimage [OF i(1)] card_image [OF inj_preimage [OF i(1)]]
      by (simp add: i(2) alphabet_simps)
  qed
  moreover have "length chars = ?t" using n by (simp add: eq)
  moreover have "\<exists>n. chars = map user_code_char (take ?t
      (filter (\<lambda>b. unat b < 248) (concat (map draws [0..<n]))))"
    using eq by (auto simp: accepted_def alphabet_simps)
  ultimately show ?thesis by (simp add: norm)
qed

theorem user_code_roundtrip_unbiased_witness:
  "\<exists>code. generateUserCode 2 4 (\<lambda>k. [255, 0, 1, 2, 3, 4, 5, 6]) = Some code \<and>
     length (normalizeUserCode code) = 8"
proof -
  let ?d = "\<lambda>k :: nat. [255, 0, 1, 2, 3, 4, 5, 6 :: byte]"
  have "draw_loop 8 ?d 0 [] \<noteq> None"
    using draw_loop_returns [of "[]" 8 ?d 0 2] by (simp add: accepted_def alphabet_simps upt_rec)
  then obtain code where c: "generateUserCode 2 4 ?d = Some code" by (auto simp: generateUserCode_def)
  from user_code_roundtrip_unbiased [OF c] c show ?thesis by simp
qed

end
