(* ===== verification/Device_Flow.thy ===== *)
theory Device_Flow
  imports Http Sessions User_Code
begin

text \<open>
  \<open>src/db/queries/devices.ts\<close>, \<open>src/oauth/device-authorization.ts\<close> and
  \<open>src/routes/device.ts\<close>: a device asks for a code, a signed-in user approves or denies it in a
  browser, and the device polls the token endpoint. The row of a request moves through the
  states of \<open>DeviceStatus\<close> by guarded updates.
\<close>

section \<open>devices.ts\<close>

record DeviceSession =
  ds_id :: string
  ds_clientId :: string
  ds_resourceUri :: "string option"
  ds_scope :: string
  ds_status :: DeviceStatus
  ds_userId :: "string option"
  ds_expiresAt :: int
  ds_lastPolledAt :: "int option"
  ds_pollIntervalSeconds :: int
  ds_sessionId :: "string option"
  ds_authTime :: "int option"

definition mapDevice :: "device_row \<Rightarrow> DeviceSession" where
  "mapDevice r = \<lparr>ds_id = dv_id r, ds_clientId = dv_clientId r, ds_resourceUri = dv_resourceUri r,
     ds_scope = dv_scope r, ds_status = dv_status r, ds_userId = dv_userId r, ds_expiresAt = dv_expiresAt r,
     ds_lastPolledAt = dv_lastPolledAt r, ds_pollIntervalSeconds = dv_pollIntervalSeconds r,
     ds_sessionId = dv_sessionId r, ds_authTime = dv_authTime r\<rparr>"

record CreateDeviceSessionInput =
  cd_deviceCodeHash :: string
  cd_userCodeHash :: string
  cd_clientId :: string
  cd_resourceUri :: "string option"
  cd_scope :: string
  cd_expiresAt :: int
  cd_pollIntervalSeconds :: int
  cd_maxActiveSessions :: nat

definition new_device_row :: "platform \<Rightarrow> CreateDeviceSessionInput \<Rightarrow> device_row" where
  "new_device_row pf input =
     \<lparr>dv_id = generateId pf ''dev'' ''device'', dv_deviceCodeHash = cd_deviceCodeHash input,
      dv_userCodeHash = cd_userCodeHash input, dv_clientId = cd_clientId input,
      dv_resourceUri = cd_resourceUri input, dv_scope = cd_scope input, dv_status = pending,
      dv_userId = None, dv_expiresAt = cd_expiresAt input, dv_approvedAt = None, dv_deniedAt = None,
      dv_lastPolledAt = None, dv_pollIntervalSeconds = cd_pollIntervalSeconds input, dv_pollCount = 0,
      dv_createdAt = pf_now pf, dv_sessionId = None, dv_authTime = None\<rparr>"

abbreviation upd_devices :: "(device_row list \<Rightarrow> device_row list) \<Rightarrow> world \<Rightarrow> world" where
  "upd_devices f w \<equiv> w\<lparr>w_db := (w_db w)\<lparr>t_devices := f (t_devices (w_db w))\<rparr>\<rparr>"

definition active_device :: "int \<Rightarrow> string \<Rightarrow> device_row \<Rightarrow> bool" where
  "active_device now clientId r =
     (dv_clientId r = clientId \<and> dv_status r \<in> {pending, approved} \<and> dv_expiresAt r > now)"

text \<open>
  The conditional insert: nothing when the client has too many active requests, a failure when
  the id or one of the hashes is taken or the client is unknown.
\<close>

definition createDeviceSession :: "platform \<Rightarrow> CreateDeviceSessionInput \<Rightarrow> bool io" where
  "createDeviceSession pf input w =
     (let row = new_device_row pf input; t = t_devices (w_db w)
      in if \<not> length (filter (active_device (pf_now pf) (cd_clientId input)) t) < cd_maxActiveSessions input
         then (Inr False, w)
         else if list_ex (\<lambda>r. dv_id r = dv_id row \<or> dv_deviceCodeHash r = cd_deviceCodeHash input \<or>
                  dv_userCodeHash r = cd_userCodeHash input) t \<or> getClientById (w_db w) (cd_clientId input) = None
         then (Inl DatabaseFailure, w)
         else (Inr True, upd_devices (\<lambda>t. t @ [row]) w))"

definition getDeviceByUserCodeHash :: "db \<Rightarrow> string \<Rightarrow> DeviceSession option" where
  "getDeviceByUserCodeHash db hash =
     map_option mapDevice (find (\<lambda>r. dv_userCodeHash r = hash) (t_devices db))"

definition getDeviceByDeviceCodeHash :: "db \<Rightarrow> string \<Rightarrow> DeviceSession option" where
  "getDeviceByDeviceCodeHash db hash =
     map_option mapDevice (find (\<lambda>r. dv_deviceCodeHash r = hash) (t_devices db))"

text \<open>An \<open>UPDATE\<close> of the device table: whether it changed one row, and the table.\<close>

definition device_update ::
  "(device_row \<Rightarrow> bool) \<Rightarrow> (device_row \<Rightarrow> device_row) \<Rightarrow> device_row list \<Rightarrow> bool \<times> device_row list" where
  "device_update P f t = (changes P t = 1, update_where P f t)"

definition approve_row :: "int \<Rightarrow> string \<Rightarrow> string \<Rightarrow> int \<Rightarrow> device_row \<Rightarrow> device_row" where
  "approve_row now userId sessionId authTime r =
     r\<lparr>dv_status := approved, dv_userId := Some userId, dv_sessionId := Some sessionId,
       dv_authTime := Some authTime, dv_approvedAt := Some now\<rparr>"

definition approveDevice ::
  "int \<Rightarrow> string \<Rightarrow> string \<Rightarrow> string \<Rightarrow> int \<Rightarrow> device_row list \<Rightarrow> bool \<times> device_row list" where
  "approveDevice now i userId sessionId authTime =
     device_update (\<lambda>r. dv_id r = i \<and> dv_status r = pending) (approve_row now userId sessionId authTime)"

definition denyDevice :: "int \<Rightarrow> string \<Rightarrow> device_row list \<Rightarrow> bool \<times> device_row list" where
  "denyDevice now i =
     device_update (\<lambda>r. dv_id r = i \<and> dv_status r = pending)
       (\<lambda>r. r\<lparr>dv_status := denied, dv_deniedAt := Some now\<rparr>)"

definition consumeApprovedDevice :: "string \<Rightarrow> device_row list \<Rightarrow> bool \<times> device_row list" where
  "consumeApprovedDevice i =
     device_update (\<lambda>r. dv_id r = i \<and> dv_status r = approved) (\<lambda>r. r\<lparr>dv_status := consumed\<rparr>)"

definition markDeviceExpired :: "string \<Rightarrow> device_row list \<Rightarrow> device_row list" where
  "markDeviceExpired i t =
     snd (device_update (\<lambda>r. dv_id r = i \<and> dv_status r \<in> {pending, approved})
       (\<lambda>r. r\<lparr>dv_status := expired\<rparr>) t)"

definition recordDevicePoll :: "int \<Rightarrow> string \<Rightarrow> device_row list \<Rightarrow> device_row list" where
  "recordDevicePoll now i t =
     snd (device_update (\<lambda>r. dv_id r = i)
       (\<lambda>r. r\<lparr>dv_lastPolledAt := Some now, dv_pollCount := dv_pollCount r + 1\<rparr>) t)"

definition recordDeviceSlowPoll :: "int \<Rightarrow> string \<Rightarrow> device_row list \<Rightarrow> device_row list" where
  "recordDeviceSlowPoll now i t =
     snd (device_update (\<lambda>r. dv_id r = i)
       (\<lambda>r. r\<lparr>dv_lastPolledAt := Some now, dv_pollCount := dv_pollCount r + 1,
              dv_pollIntervalSeconds := dv_pollIntervalSeconds r + 5\<rparr>) t)"

record ApproveDeviceInput =
  ad_id :: string
  ad_userId :: string
  ad_sessionId :: string
  ad_authTime :: int
  ad_clientId :: string
  ad_scope :: string
  ad_resource :: string

text \<open>The consent upsert of the approval: scopes are merged and the fingerprint is left alone.\<close>

definition device_consent :: "platform \<Rightarrow> ApproveDeviceInput \<Rightarrow> db \<Rightarrow> db" where
  "device_consent pf input db =
     (let conflict = (\<lambda>r. cs_userId r = ad_userId input \<and> cs_clientId r = ad_clientId input \<and>
                          cs_resource r = ad_resource input)
      in if list_ex conflict (t_consents db)
         then db\<lparr>t_consents := update_where conflict
                (\<lambda>r. r\<lparr>cs_scope := merge_scopes (cs_scope r) (ad_scope input), cs_updatedAt := pf_now pf\<rparr>)
                (t_consents db)\<rparr>
         else db\<lparr>t_consents := t_consents db @
                [\<lparr>cs_id = generateId pf ''cnst'' ''device-consent'', cs_userId = ad_userId input,
                  cs_clientId = ad_clientId input, cs_scope = ad_scope input, cs_resource = ad_resource input,
                  cs_metadataFingerprint = None, cs_createdAt = pf_now pf, cs_updatedAt = pf_now pf\<rparr>]\<rparr>)"

definition approveDeviceWithConsent :: "platform \<Rightarrow> ApproveDeviceInput \<Rightarrow> world \<Rightarrow> bool \<times> world" where
  "approveDeviceWithConsent pf input w =
     (let db1 = (if list_ex (\<lambda>r. dv_id r = ad_id input \<and> dv_status r = pending) (t_devices (w_db w))
                 then device_consent pf input (w_db w) else w_db w);
          (ok, t) = approveDevice (pf_now pf) (ad_id input) (ad_userId input) (ad_sessionId input)
                      (ad_authTime input) (t_devices db1)
      in (ok, w\<lparr>w_db := db1\<lparr>t_devices := t\<rparr>\<rparr>))"

section \<open>device-authorization.ts\<close>

text \<open>
  The bytes drawn for the user code. When the generator never ends the request gets no answer;
  that outcome is the failure \<open>no response\<close>.
\<close>

definition user_code_draws :: "platform \<Rightarrow> nat \<Rightarrow> byte list" where
  "user_code_draws pf k = pf_random pf (''user-code:'' @ nat_string k)"

definition device_response :: "platform \<Rightarrow> string \<Rightarrow> string \<Rightarrow> response" where
  "device_response pf deviceCode userCode =
     (let verificationUri = ISSUER (pf_env pf) @ ''/device''
      in json_response 200 no_store (JObj
           [(''device_code'', JStr deviceCode), (''user_code'', JStr userCode),
            (''verification_uri'', JStr verificationUri),
            (''verification_uri_complete'',
               JStr (verificationUri @ ''?user_code='' @ encodeURIComponent userCode)),
            (''expires_in'', JNum (ttl_deviceCode TOKEN_TTL)),
            (''interval'', JNum DEVICE_POLL_INTERVAL_SECONDS)]))"

definition device_session_input ::
  "platform \<Rightarrow> OAuthClient \<Rightarrow> string \<Rightarrow> string \<Rightarrow> string \<Rightarrow> string \<Rightarrow> CreateDeviceSessionInput" where
  "device_session_input pf client deviceCode userCode resource scope =
     \<lparr>cd_deviceCodeHash = hashOpaqueToken (pf_crypto pf) deviceCode,
      cd_userCodeHash = hashOpaqueToken (pf_crypto pf) (normalizeUserCode userCode),
      cd_clientId = oc_clientId client, cd_resourceUri = Some resource, cd_scope = scope,
      cd_expiresAt = pf_now pf + ttl_deviceCode TOKEN_TTL,
      cd_pollIntervalSeconds = DEVICE_POLL_INTERVAL_SECONDS,
      cd_maxActiveSessions = (if oc_type client = confidential then 250 else 1000)\<rparr>"

definition handleDeviceAuthorization :: "platform \<Rightarrow> OAuthClient \<Rightarrow> form \<Rightarrow> response io" where
  "handleDeviceAuthorization pf client form w =
     (if DEVICE_CODE_GRANT \<notin> set (oc_allowedGrantTypes client) then
        throw_oauth unauthorized_client ''Client may not use the device flow''
          (''device_code grant not allowed for '' @ oc_clientId client) w
      else
        (let requested = parseScopeString (form_get form ''scope'')
         in io_bind (io_lift (if length requested > 0
                              then validateRequestedScopes requested (oc_allowedScopes client)
                              else Inr (oc_allowedScopes client))) (\<lambda>scopes.
            io_bind (io_lift (resolveResourceForScopes (pf_url pf) (pf_env pf) (w_db w) client
                       (form_get form ''resource'') scopes)) (\<lambda>resource.
              (let scope = serializeScopes scopes;
                   deviceCode = randomToken (pf_random pf ''device-code'')
               in case generateUserCode 2 4 (user_code_draws pf) of
                    None \<Rightarrow> io_throw (OtherFailure ''no response'')
                  | Some userCode \<Rightarrow>
                      io_bind (createDeviceSession pf
                                 (device_session_input pf client deviceCode userCode resource scope)) (\<lambda>created.
                        if \<not> created then
                          throw_oauth_status temporarily_unavailable 429
                            ''Too many active device authorization requests''
                            (''active device authorization cap exceeded for '' @ oc_clientId client)
                        else io_then (io_audit pf ''device-started''
                               ((audit_event ''oauth.device.started'')\<lparr>ae_clientId := Some (oc_clientId client),
                                  ae_resourceUri := Some resource, ae_scope := Some scope,
                                  ae_requestId := Some (pf_requestId pf), ae_success := Some True\<rparr>))
                             (io_return (device_response pf deviceCode userCode))))))) w)"

section \<open>routes/device.ts\<close>

definition currentDeviceClient :: "platform \<Rightarrow> db \<Rightarrow> DeviceSession \<Rightarrow> OAuthClient option" where
  "currentDeviceClient pf db session =
     (case (getClientById db (ds_clientId session), ds_resourceUri session) of
        (Some client, Some uri) \<Rightarrow>
          (if \<not> oc_enabled client \<or> DEVICE_CODE_GRANT \<notin> set (oc_allowedGrantTypes client) then None
           else case resolveResourceForScopes (pf_url pf) (pf_env pf) db client (Some uri)
                       (parseScopeString (Some (ds_scope session))) of
                  Inl _ \<Rightarrow> None
                | Inr resource \<Rightarrow> if resource = uri then Some client else None)
      | _ \<Rightarrow> None)"

text \<open>The signed-in browser of a request, or the redirect to the login page.\<close>

definition deviceBrowserContext ::
  "platform \<Rightarrow> AuthenticatedSession option \<Rightarrow> string \<Rightarrow> (response, AuthenticatedSession) result" where
  "deviceBrowserContext pf browser normalizedUserCode =
     (let returnTo = (if normalizedUserCode = [] then ''/device''
                      else ''/device?user_code='' @ encodeURIComponent normalizedUserCode)
      in case browser of
           None \<Rightarrow> Inl (redirect_response 302 (''/login?return_to='' @ encodeURIComponent returnTo))
         | Some b \<Rightarrow>
             if \<not> hasRecentAuthentication (Some (as_session b)) (pf_now pf) then
               Inl (redirect_response 302 (''/login?'' @ search_params
                 [(''reauth'', ''1''), (''hint'', ''authorize_device''), (''return_to'', returnTo)]))
             else Inr b)"

definition device_entry_page :: "nat \<Rightarrow> string \<Rightarrow> string \<Rightarrow> response" where
  "device_entry_page status message userCode = html_response status ''DeviceCodeEntry'' [message, userCode]"

text \<open>What both handlers check of the typed code: the pending request and its client.\<close>

definition lookup_device ::
  "platform \<Rightarrow> db \<Rightarrow> AuthenticatedSession \<Rightarrow> string \<Rightarrow> (response, DeviceSession \<times> OAuthClient) result" where
  "lookup_device pf db browser userCode =
     (case getDeviceByUserCodeHash db (hashOpaqueToken (pf_crypto pf) userCode) of
        None \<Rightarrow> Inl (device_entry_page 400 ''That code is invalid or has expired.'' userCode)
      | Some session \<Rightarrow>
          if ds_status session \<noteq> pending \<or> isExpired (pf_now pf) (ds_expiresAt session) then
            Inl (device_entry_page 400 ''That code is invalid or has expired.'' userCode)
          else case currentDeviceClient pf db session of
                 None \<Rightarrow> Inl (device_entry_page 400 ''That authorization request is no longer available.'' userCode)
               | Some client \<Rightarrow>
                   (case evaluateUserTokenAccess (pf_env pf) db (u_id (as_user browser)) (oc_clientId client)
                           (case ds_resourceUri session of None \<Rightarrow> [] | Some u \<Rightarrow> u)
                           (parseScopeString (Some (ds_scope session))) of
                      Inl _ \<Rightarrow> Inl (device_entry_page 403 ''This account cannot grant the requested access.'' userCode)
                    | Inr _ \<Rightarrow> Inr (session, client)))"

text \<open>\<open>GET /device\<close>; \<open>csrf\<close> is the token issued to the page.\<close>

definition get_device ::
  "platform \<Rightarrow> AuthenticatedSession option \<Rightarrow> string option \<Rightarrow> string \<Rightarrow> world \<Rightarrow> response" where
  "get_device pf browser query csrf w =
     (let userCode = normalizeUserCode (case query of None \<Rightarrow> [] | Some q \<Rightarrow> q)
      in case deviceBrowserContext pf browser userCode of
           Inl r \<Rightarrow> r
         | Inr b \<Rightarrow>
             if userCode = [] then html_response 200 ''DeviceCodeEntry'' []
             else case lookup_device pf (w_db w) b userCode of
                    Inl r \<Rightarrow> r
                  | Inr (session, client) \<Rightarrow>
                      html_response 200 ''DeviceConfirm'' [csrf, userCode, oc_name client, ds_scope session,
                        (case ds_resourceUri session of None \<Rightarrow> [] | Some u \<Rightarrow> u)])"

definition device_decision_audit :: "platform \<Rightarrow> string \<Rightarrow> string \<Rightarrow> string \<Rightarrow> bool \<Rightarrow> AuditEvent" where
  "device_decision_audit pf type userId clientId success =
     (audit_event type)\<lparr>ae_userId := Some userId, ae_clientId := Some clientId,
        ae_requestId := Some (pf_requestId pf), ae_success := Some success\<rparr>"

text \<open>\<open>POST /device/confirm\<close>; \<open>cookie\<close> is the CSRF cookie.\<close>

definition post_device_confirm ::
  "platform \<Rightarrow> AuthenticatedSession option \<Rightarrow> string option \<Rightarrow> form \<Rightarrow> response io" where
  "post_device_confirm pf browser cookie form w =
     (let userCode = normalizeUserCode (readFormField form ''user_code'')
      in case deviceBrowserContext pf browser userCode of
           Inl r \<Rightarrow> io_return r w
         | Inr b \<Rightarrow>
             if \<not> verifyCsrfToken (pf_env pf) cookie (non_empty (readFormField form ''csrf_token'')) then
               io_return (device_entry_page 403 ''Your session expired. Please try again.'' userCode) w
             else case lookup_device pf (w_db w) b userCode of
               Inl r \<Rightarrow> io_return r w
             | Inr (session, client) \<Rightarrow>
                 (let handled = io_return (device_entry_page 409 ''That request was already handled.'' userCode);
                      w1 = pf_others pf ''device-confirm'' w
                  in if readFormField form ''decision'' = ''approve'' then
                       (case ds_resourceUri session of
                          None \<Rightarrow> io_return (device_entry_page 400 ''That request has no valid resource.'' userCode) w1
                        | Some uri \<Rightarrow>
                            (let (ok, w2) = approveDeviceWithConsent pf
                                   \<lparr>ad_id = ds_id session, ad_userId = u_id (as_user b),
                                    ad_sessionId = sr_id (as_session b), ad_authTime = sr_authTime (as_session b),
                                    ad_clientId = ds_clientId session, ad_scope = ds_scope session,
                                    ad_resource = uri\<rparr> w1
                             in if \<not> ok then handled w2
                                else io_then (io_audit pf ''device-approved''
                                       (device_decision_audit pf ''oauth.device.approved'' (u_id (as_user b))
                                          (ds_clientId session) True))
                                     (io_return (html_response 200 ''DeviceResult'' [''approved''])) w2))
                     else
                       (let (ok, t) = denyDevice (pf_now pf) (ds_id session) (t_devices (w_db w1));
                            w2 = upd_devices (\<lambda>_. t) w1
                        in if \<not> ok then handled w2
                           else io_then (io_audit pf ''device-denied''
                                  (device_decision_audit pf ''oauth.device.denied'' (u_id (as_user b))
                                     (ds_clientId session) False))
                                (io_return (html_response 200 ''DeviceResult'' [''denied''])) w2)))"

section \<open>The statements that touch a request\<close>

text \<open>
  Every statement on the device table as an operation, and the effect of an operation on the
  table. A run is any interleaving of them; the grant watched is the consumption of request \<open>i\<close>.
\<close>

datatype device_op =
    Op_create device_row
  | Op_approve int string string string int
  | Op_deny int string
  | Op_consume string
  | Op_expire string
  | Op_poll int string
  | Op_slow_poll int string

fun device_step :: "string \<Rightarrow> device_op \<Rightarrow> device_row list \<Rightarrow> unit option \<times> device_row list" where
  "device_step i (Op_create row) t =
     (None, if list_ex (\<lambda>r. dv_id r = dv_id row) t then t else t @ [row])"
| "device_step i (Op_approve now j userId sessionId authTime) t =
     (None, snd (approveDevice now j userId sessionId authTime t))"
| "device_step i (Op_deny now j) t = (None, snd (denyDevice now j t))"
| "device_step i (Op_consume j) t =
     (let (ok, t') = consumeApprovedDevice j t in (if ok \<and> j = i then Some () else None, t'))"
| "device_step i (Op_expire j) t = (None, markDeviceExpired j t)"
| "device_step i (Op_poll now j) t = (None, recordDevicePoll now j t)"
| "device_step i (Op_slow_poll now j) t = (None, recordDeviceSlowPoll now j t)"

text \<open>The same operations on the one row of request \<open>i\<close>, if it exists.\<close>

fun row_effect :: "device_op \<Rightarrow> device_row \<Rightarrow> device_row" where
  "row_effect (Op_create row) r = r"
| "row_effect (Op_approve now j userId sessionId authTime) r =
     (if dv_id r = j \<and> dv_status r = pending then approve_row now userId sessionId authTime r else r)"
| "row_effect (Op_deny now j) r =
     (if dv_id r = j \<and> dv_status r = pending then r\<lparr>dv_status := denied, dv_deniedAt := Some now\<rparr> else r)"
| "row_effect (Op_consume j) r =
     (if dv_id r = j \<and> dv_status r = approved then r\<lparr>dv_status := consumed\<rparr> else r)"
| "row_effect (Op_expire j) r =
     (if dv_id r = j \<and> dv_status r \<in> {pending, approved} then r\<lparr>dv_status := expired\<rparr> else r)"
| "row_effect (Op_poll now j) r =
     (if dv_id r = j then r\<lparr>dv_lastPolledAt := Some now, dv_pollCount := dv_pollCount r + 1\<rparr> else r)"
| "row_effect (Op_slow_poll now j) r =
     (if dv_id r = j then r\<lparr>dv_lastPolledAt := Some now, dv_pollCount := dv_pollCount r + 1,
        dv_pollIntervalSeconds := dv_pollIntervalSeconds r + 5\<rparr> else r)"

fun slot_step :: "string \<Rightarrow> device_op \<Rightarrow> device_row option \<Rightarrow> unit option \<times> device_row option" where
  "slot_step i op None =
     (None, case op of Op_create row \<Rightarrow> if dv_id row = i then Some row else None | _ \<Rightarrow> None)"
| "slot_step i op (Some r) =
     (if op = Op_consume i \<and> dv_id r = i \<and> dv_status r = approved then Some () else None,
      Some (row_effect op r))"

definition final_status :: "DeviceStatus \<Rightarrow> bool" where
  "final_status s = (s \<in> {denied, expired, consumed})"

definition spent_slot :: "device_row option \<Rightarrow> bool" where
  "spent_slot s = (case s of None \<Rightarrow> False | Some r \<Rightarrow> final_status (dv_status r))"

lemma row_effect_final: "final_status (dv_status r) \<Longrightarrow> dv_status (row_effect op r) = dv_status r"
  by (cases op) (auto simp: final_status_def)

lemma row_effect_id [simp]: "dv_id (row_effect op r) = dv_id r"
  by (cases op) (auto simp: approve_row_def)

interpretation device_slot: single_use "slot_step i" spent_slot for i
proof unfold_locales
  fix s and op
  show "spent_slot s \<Longrightarrow> fst (slot_step i op s) = None"
    by (cases s) (auto simp: spent_slot_def final_status_def)
  show "spent_slot s \<Longrightarrow> spent_slot (snd (slot_step i op s))"
    by (cases s) (auto simp: spent_slot_def row_effect_final)
next
  fix s op r s'
  show "slot_step i op s = (Some r, s') \<Longrightarrow> spent_slot s'"
    by (cases s) (auto simp: spent_slot_def final_status_def split: if_splits)
qed

section \<open>The table refines the slot\<close>

definition device_keys :: "device_row list \<Rightarrow> bool" where
  "device_keys t = distinct (map dv_id t)"

definition device_slot_of :: "string \<Rightarrow> device_row list \<Rightarrow> device_row option" where
  "device_slot_of i t = find (\<lambda>r. dv_id r = i) t"

lemma device_step_table:
  "snd (device_step i op t) =
     (case op of Op_create row \<Rightarrow> if list_ex (\<lambda>r. dv_id r = dv_id row) t then t else t @ [row]
      | _ \<Rightarrow> map (row_effect op) t)"
  by (cases op) (auto simp: approveDevice_def denyDevice_def consumeApprovedDevice_def markDeviceExpired_def
      recordDevicePoll_def recordDeviceSlowPoll_def device_update_def update_where_def)

lemma find_map_row: "find (\<lambda>r. dv_id r = i) (map (row_effect op) t) = map_option (row_effect op) (find (\<lambda>r. dv_id r = i) t)"
  by (induction t) auto

lemma changes_by_key:
  "device_keys t \<Longrightarrow> changes (\<lambda>r. dv_id r = j \<and> P r) t = 1 \<longleftrightarrow>
     (\<exists>r. find (\<lambda>r. dv_id r = j) t = Some r \<and> P r)"
proof (induction t)
  case (Cons x t)
  have "filter (\<lambda>r. dv_id r = j \<and> P r) t = []" if "dv_id x = j"
    using Cons.prems that by (auto simp: device_keys_def filter_empty_conv image_iff)
  with Cons show ?case by (auto simp: changes_def device_keys_def)
qed (simp add: changes_def)

lemma device_step_keys: "device_keys t \<Longrightarrow> device_keys (snd (device_step i op t))"
  by (cases op) (auto simp: device_step_table device_keys_def list_ex_iff comp_def image_iff
      simp del: device_step.simps row_effect.simps)

lemma device_step_refines:
  assumes "device_keys t"
  shows "slot_step i op (device_slot_of i t) = map_prod id (device_slot_of i) (device_step i op t)"
proof -
  have grant: "fst (device_step i op t) =
      (if op = Op_consume i \<and> (\<exists>r. device_slot_of i t = Some r \<and> dv_status r = approved) then Some () else None)"
    using changes_by_key [OF assms, of i "\<lambda>r. dv_status r = approved"]
    by (cases op) (auto simp: consumeApprovedDevice_def device_update_def device_slot_of_def)
  have table: "device_slot_of i (snd (device_step i op t)) = snd (slot_step i op (device_slot_of i t))"
  proof (cases "\<exists>row. op = Op_create row")
    case True
    then obtain row where op: "op = Op_create row" by blast
    show ?thesis
    proof (cases "device_slot_of i t")
      case None
      then have "\<forall>r\<in>set t. dv_id r \<noteq> i" by (auto simp: device_slot_of_def find_None_iff)
      with None show ?thesis
        by (auto simp: op device_slot_of_def list_ex_iff find_append)
    qed (simp_all add: op device_slot_of_def find_append)
  next
    case False
    then have "snd (device_step i op t) = map (row_effect op) t"
      unfolding device_step_table by (cases op) auto
    then show ?thesis
      using False by (cases "device_slot_of i t"; cases op) (auto simp: device_slot_of_def find_map_row simp del: row_effect.simps)
  qed
  have id: "dv_id r = i" if "device_slot_of i t = Some r" for r
    using find_Some_mem [OF that [unfolded device_slot_of_def]] by simp
  show ?thesis
  proof (cases "device_slot_of i t")
    case None
    with grant table show ?thesis by (auto simp: prod_eq_iff map_prod_def case_prod_unfold)
  next
    case (Some r)
    with grant table id [OF Some] show ?thesis
      by (auto simp: prod_eq_iff map_prod_def case_prod_unfold)
  qed
qed

lemma device_run_refines:
  "device_keys t \<Longrightarrow>
     run (slot_step i) ops (device_slot_of i t) = map_prod id (device_slot_of i) (run (device_step i) ops t)"
  by (rule run_refines [where I = device_keys]) (simp_all add: device_step_keys device_step_refines)

section \<open>The life of a request\<close>

inductive device_moves :: "DeviceStatus \<Rightarrow> DeviceStatus \<Rightarrow> bool" where
  approve: "device_moves pending approved"
| deny: "device_moves pending denied"
| consume: "device_moves approved consumed"
| expire_pending: "device_moves pending expired"
| expire_approved: "device_moves approved expired"

inductive_cases device_moves_from_final: "device_moves s s'"

lemma row_effect_moves:
  "dv_status (row_effect op r) = dv_status r \<or> device_moves (dv_status r) (dv_status (row_effect op r))"
  by (cases op) (auto simp: approve_row_def intro: device_moves.intros)

text \<open>An approved or consumed request names its user, the approving session and its time.\<close>

definition device_wf :: "device_row \<Rightarrow> bool" where
  "device_wf r = (dv_status r \<in> {approved, consumed} \<longrightarrow>
     dv_userId r \<noteq> None \<and> dv_sessionId r \<noteq> None \<and> dv_authTime r \<noteq> None)"

lemma row_effect_wf: "device_wf r \<Longrightarrow> device_wf (row_effect op r)"
  by (cases op) (auto simp: device_wf_def approve_row_def)

lemma slot_run_moves:
  "\<exists>r'. snd (run (slot_step i) ops (Some r)) = Some r' \<and>
     device_moves\<^sup>*\<^sup>* (dv_status r) (dv_status r') \<and> (device_wf r \<longrightarrow> device_wf r')"
proof (induction ops arbitrary: r)
  case (Cons op ops)
  from Cons.IH [of "row_effect op r"] row_effect_moves [of op r] row_effect_wf [of r op] show ?case
    by (auto simp: Let_def case_prod_unfold intro: converse_rtranclp_into_rtranclp)
qed simp

text \<open>The cap on active requests of a client.\<close>

lemma device_cap:
  assumes "createDeviceSession pf input w = (Inr created, w')"
    and "length (filter (active_device (pf_now pf) (cd_clientId input)) (t_devices (w_db w))) \<le> cd_maxActiveSessions input"
  shows "length (filter (active_device (pf_now pf) (cd_clientId input)) (t_devices (w_db w'))) \<le> cd_maxActiveSessions input"
  using assms by (auto simp: createDeviceSession_def Let_def new_device_row_def active_device_def split: if_splits)

section \<open>Properties\<close>

text \<open>
  C10. A device code is exchanged at most once: in any interleaving of creations, approvals,
  denials, expirations, polls and consumptions, at most one call of \<open>consumeApprovedDevice\<close>
  for a request succeeds, and after a success every later one fails.
\<close>

theorem device_code_single_use:
  assumes "device_keys t"
  shows "length (grants (fst (run (device_step i) ops t))) \<le> 1"
  using device_slot.at_most_one_grant [of i ops "device_slot_of i t"] device_run_refines [OF assms, of i ops]
  by (simp add: map_prod_def case_prod_unfold)

theorem device_code_single_use_witness:
  "length (grants (fst (run (device_step ''d'') [Op_consume ''d'', Op_consume ''d'']
     [(new_device_row demo_pf (device_session_input demo_pf demo_client ''a'' ''b'' ''r'' ''s''))\<lparr>dv_id := ''d'', dv_status := approved\<rparr>]))) \<le> 1"
  by (rule device_code_single_use) (simp add: device_keys_def)



end
