(* ===== verification/Token_Endpoint.thy ===== *)
theory Token_Endpoint
  imports Tokens Device_Flow
begin

text \<open>
  The four grants of the token endpoint: \<open>src/oauth/token/issue.ts\<close>, \<open>response.ts\<close>,
  \<open>authorization-code.ts\<close>, \<open>refresh-token.ts\<close>, \<open>device-code.ts\<close> and
  \<open>src/oauth/client-credentials.ts\<close>. The reads that a handler starts together see one state
  of the database, the one that concurrent requests leave at that point (\<open>pf_others\<close>).
\<close>

section \<open>response.ts\<close>

record TokenResponse =
  tr_access_token :: string
  tr_expires_in :: int
  tr_scope :: string
  tr_id_token :: "string option"
  tr_refresh_token :: "string option"

definition token_fields :: "TokenResponse \<Rightarrow> claims" where
  "token_fields r = [(''access_token'', JStr (tr_access_token r)), (''token_type'', JStr ''Bearer''),
     (''expires_in'', JNum (tr_expires_in r)), (''scope'', JStr (tr_scope r))]"

definition token_response :: "TokenResponse \<Rightarrow> response" where
  "token_response r = json_response 200 no_store_pragma
     (JObj (token_fields r @ opt_claim ''id_token'' (tr_id_token r) @
            opt_claim ''refresh_token'' (tr_refresh_token r)))"

section \<open>issue.ts\<close>

record IssueUserTokensInput =
  iu_user :: User
  iu_client :: OAuthClient
  iu_scope :: string
  iu_resource :: string
  iu_nonce :: "string option"
  iu_authTime :: int
  iu_sessionId :: "string option"
  iu_rememberMe :: bool
  iu_accessValidated :: bool

definition lift_failure :: "(failure, 'a) result \<Rightarrow> 'a io" where
  "lift_failure r w = (r, w)"

fun deny_reason_string :: "DenyReason \<Rightarrow> string" where
  "deny_reason_string application_resource = ''application_resource''"
| "deny_reason_string admin_scope = ''admin_scope''"
| "deny_reason_string scope_denied = ''scope_denied''"
| "deny_reason_string scope_not_allowed = ''scope_not_allowed''"
| "deny_reason_string invalid_policy = ''invalid_policy''"

definition policy_denied :: "DenyReason \<Rightarrow> 'a io" where
  "policy_denied reason =
     throw_oauth invalid_grant ''This account is not permitted to access this application or resource.''
       (''user token policy denied '' @ deny_reason_string reason)"

definition wants_refresh :: "IssueUserTokensInput \<Rightarrow> bool" where
  "wants_refresh input =
     (''offline_access'' \<in> set (parseScopeString (Some (iu_scope input))) \<and>
      ''refresh_token'' \<in> set (oc_allowedGrantTypes (iu_client input)))"

definition refresh_input :: "IssueUserTokensInput \<Rightarrow> IssueRefreshInput" where
  "refresh_input input =
     \<lparr>ir_userId = u_id (iu_user input), ir_clientId = oc_clientId (iu_client input),
      ir_sessionId = iu_sessionId input, ir_resource = iu_resource input, ir_scope = iu_scope input,
      ir_authTime = iu_authTime input, ir_rememberMe = iu_rememberMe input\<rparr>"

definition issueUserTokens :: "platform \<Rightarrow> IssueUserTokensInput \<Rightarrow> TokenResponse io" where
  "issueUserTokens pf input w =
     (let scopes = parseScopeString (Some (iu_scope input))
      in case (if iu_accessValidated input then Inr ()
               else evaluateUserTokenAccess (pf_env pf) (w_db w) (u_id (iu_user input))
                      (oc_clientId (iu_client input)) (iu_resource input) scopes) of
           Inl reason \<Rightarrow> policy_denied reason w
         | Inr _ \<Rightarrow>
             io_bind (lift_failure (issueUserAccessToken pf
                 \<lparr>ua_userId = u_id (iu_user input), ua_clientId = oc_clientId (iu_client input),
                  ua_resource = iu_resource input, ua_scope = iu_scope input,
                  ua_authTime = iu_authTime input\<rparr>)) (\<lambda>accessToken.
             io_bind (if ''openid'' \<in> set scopes
                      then io_bind (lift_failure (issueIdToken pf
                             \<lparr>id_user = iu_user input, id_clientId = oc_clientId (iu_client input),
                              id_scopes = scopes, id_authTime = iu_authTime input, id_nonce = iu_nonce input\<rparr>))
                             (\<lambda>t. io_return (Some t))
                      else io_return None) (\<lambda>idToken.
             io_bind (if wants_refresh input
                      then io_bind (issueRefreshToken pf (refresh_input input))
                             (\<lambda>t. io_return (Some (irt_token t)))
                      else io_return None) (\<lambda>refreshToken.
             io_return \<lparr>tr_access_token = it_token accessToken, tr_expires_in = it_expiresIn accessToken,
               tr_scope = iu_scope input, tr_id_token = idToken, tr_refresh_token = refreshToken\<rparr>))) w)"

section \<open>grants.ts\<close>

definition record_grant ::
  "platform \<Rightarrow> string \<Rightarrow> string \<Rightarrow> string option \<Rightarrow> string \<Rightarrow> string \<Rightarrow> string \<Rightarrow> unit io" where
  "record_grant pf userId clientId sessionId scope resource grantType w =
     (if pf_d1_fails pf ''authorization-grant'' then (Inl DatabaseFailure, w)
      else (Inr (), w\<lparr>w_db := recordAuthorizationGrant (pf_now pf)
              (generateId pf ''grant'' ''authorization-grant'') userId clientId sessionId scope resource
              grantType (w_db w)\<rparr>))"

definition token_audit :: "platform \<Rightarrow> string \<Rightarrow> string \<Rightarrow> string \<Rightarrow> string \<Rightarrow> string \<Rightarrow> AuditEvent" where
  "token_audit pf type userId clientId resource scope =
     (audit_event type)\<lparr>ae_userId := Some userId, ae_clientId := Some clientId,
        ae_resourceUri := Some resource, ae_scope := Some scope,
        ae_requestId := Some (pf_requestId pf), ae_success := Some True\<rparr>"

section \<open>authorization-code.ts\<close>

fun consume_reason :: "consume_failure \<Rightarrow> string" where
  "consume_reason not_found = ''not_found''"
| "consume_reason binding = ''binding''"
| "consume_reason resource_mismatch = ''resource''"
| "consume_reason pkce_mismatch = ''pkce''"

definition code_refused :: "platform \<Rightarrow> OAuthClient \<Rightarrow> string option \<Rightarrow> consume_failure \<Rightarrow> response io" where
  "code_refused pf client presentedResource reason =
     io_then (if reason = pkce_mismatch
              then io_audit pf ''invalid-pkce'' ((audit_event ''security.invalid_pkce'')\<lparr>
                     ae_clientId := Some (oc_clientId client), ae_requestId := Some (pf_requestId pf),
                     ae_success := Some False, ae_detail := Some ''code_verifier did not match code_challenge''\<rparr>)
              else io_return ())
       (if reason = resource_mismatch \<and> presentedResource = None
        then throw_oauth invalid_request ''The resource parameter is required for this authorization code''
               ''token exchange omitted the resource bound to the authorization code''
        else throw_oauth invalid_grant ''Invalid or expired authorization code''
               (''authorization code validation failed: '' @ consume_reason reason))"

definition code_tokens :: "platform \<Rightarrow> OAuthClient \<Rightarrow> AuthorizationCodePayload \<Rightarrow> User \<Rightarrow> response io" where
  "code_tokens pf client grant user =
     io_bind (issueUserTokens pf
         \<lparr>iu_user = user, iu_client = client, iu_scope = ac_scope grant, iu_resource = ac_resource grant,
          iu_nonce = ac_nonce grant, iu_authTime = ac_authTime grant,
          iu_sessionId = Some (ac_sessionId grant), iu_rememberMe = False, iu_accessValidated = True\<rparr>)
       (\<lambda>tokens. io_then (record_grant pf (u_id user) (oc_clientId client) (Some (ac_sessionId grant))
                    (ac_scope grant) (ac_resource grant) ''authorization_code'')
         (io_then (io_audit pf ''token-issued'' (token_audit pf ''oauth.token.issued'' (u_id user)
                     (oc_clientId client) (ac_resource grant) (ac_scope grant)))
            (io_return (token_response tokens))))"

text \<open>The checks on a consumed code, in the order of the source.\<close>

definition code_grant :: "platform \<Rightarrow> OAuthClient \<Rightarrow> AuthorizationCodePayload \<Rightarrow> response io" where
  "code_grant pf client grant w =
     (let scopes = parseScopeString (Some (ac_scope grant)); db = w_db w
      in case getUserById db (ac_userId grant) of
           None \<Rightarrow> throw_oauth invalid_grant ''The account is unavailable''
                     (''user '' @ ac_userId grant @ '' missing or disabled'') w
         | Some user \<Rightarrow>
             if u_disabled user then
               throw_oauth invalid_grant ''The account is unavailable''
                 (''user '' @ ac_userId grant @ '' missing or disabled'') w
             else if \<not> (case getSessionById (pf_now pf) db (ac_sessionId grant) of
                          None \<Rightarrow> False | Some s \<Rightarrow> sr_userId s = u_id user) then
               throw_oauth invalid_grant ''The authorization session is no longer active''
                 (''session '' @ ac_sessionId grant @ '' was revoked, expired, or changed owner'') w
             else if \<not> consentCoversScopes (pf_env pf) db (ac_userId grant) (oc_clientId client)
                        (ac_resource grant) scopes (oc_metadataFingerprint client) then
               throw_oauth invalid_grant ''The authorization was revoked''
                 ''consent no longer covers the authorization code grant'' w
             else case evaluateUserTokenAccess (pf_env pf) db (ac_userId grant) (oc_clientId client)
                         (ac_resource grant) scopes of
                    Inl reason \<Rightarrow> policy_denied reason w
                  | Inr _ \<Rightarrow>
                      io_then (io_lift (resolveResourceForScopes (pf_url pf) (pf_env pf) db client
                                 (Some (ac_resource grant)) scopes))
                        (code_tokens pf client grant user) w)"

definition handleAuthorizationCode :: "platform \<Rightarrow> OAuthClient \<Rightarrow> form \<Rightarrow> response io" where
  "handleAuthorizationCode pf client form w =
     (case (form_get form ''code'', form_get form ''redirect_uri'', form_get form ''code_verifier'') of
        (Some code, Some redirectUri, Some codeVerifier) \<Rightarrow>
          (let presentedResource = form_get form ''resource'';
               name = hashOpaqueToken (pf_crypto pf) code;
               (outcome, slot') = consumeIf (pf_env pf) (pf_crypto pf) (pf_nowMs pf)
                 \<lparr>ci_issuer = ISSUER (pf_env pf), ci_clientId = oc_clientId client,
                  ci_redirectUri = redirectUri, ci_resource = presentedResource,
                  ci_metadataFingerprint = oc_metadataFingerprint client,
                  ci_codeVerifier = codeVerifier\<rparr> (w_codes w name);
               w1 = w\<lparr>w_codes := (w_codes w)(name := slot')\<rparr>
           in case outcome of
                Inl reason \<Rightarrow> code_refused pf client presentedResource reason w1
              | Inr grant \<Rightarrow> code_grant pf client grant (pf_others pf ''code-checks'' w1))
      | _ \<Rightarrow> throw_oauth invalid_request ''Missing code, redirect_uri, or code_verifier''
               ''authorization_code request missing a required parameter'' w)"

section \<open>client-credentials.ts\<close>

definition cc_denied :: "platform \<Rightarrow> OAuthClient \<Rightarrow> string \<Rightarrow> unit io" where
  "cc_denied pf client detail =
     io_audit pf ''client-credentials-denied'' ((audit_event ''oauth.client_credentials.denied'')\<lparr>
       ae_clientId := Some (oc_clientId client), ae_requestId := Some (pf_requestId pf),
       ae_success := Some False, ae_detail := Some detail\<rparr>)"

definition service_response :: "IssuedToken \<Rightarrow> string \<Rightarrow> response" where
  "service_response issued scope = json_response 200 no_store_pragma
     (JObj [(''access_token'', JStr (it_token issued)), (''token_type'', JStr ''Bearer''),
            (''expires_in'', JNum (it_expiresIn issued)), (''scope'', JStr scope)])"

definition handleClientCredentials :: "platform \<Rightarrow> OAuthClient \<Rightarrow> form \<Rightarrow> response io" where
  "handleClientCredentials pf client form w =
     (if oc_type client \<noteq> confidential then
        io_then (cc_denied pf client ''public client cannot use client_credentials'')
          (throw_oauth unauthorized_client ''Client is not permitted to use this grant''
             (''client '' @ oc_clientId client @ '' is public'')) w
      else if ''client_credentials'' \<notin> set (oc_allowedGrantTypes client) then
        io_then (cc_denied pf client ''grant not in client allowed_grant_types'')
          (throw_oauth unauthorized_client ''Client is not permitted to use this grant''
             (''client_credentials not allowed for '' @ oc_clientId client)) w
      else
        (let requestedScopes = parseScopeString (form_get form ''scope'');
             forbidden = filter (\<lambda>scope. scope \<in> set USER_ONLY_SCOPES) requestedScopes
         in if length forbidden > 0 then
              io_then (cc_denied pf client (''user-only scopes requested: '' @ js_join '' '' forbidden))
                (throw_oauth invalid_scope ''Requested scope is not available to service clients''
                   (''user-only scopes rejected: '' @ js_join '' '' forbidden)) w
            else
              (let effectiveScopes = (if length requestedScopes > 0 then requestedScopes
                     else filter (\<lambda>scope. scope \<notin> set USER_ONLY_SCOPES) (oc_allowedScopes client))
               in io_bind (io_lift (validateRequestedScopes effectiveScopes (oc_allowedScopes client))) (\<lambda>grantedScopes.
                  io_bind (io_lift (resolveResourceForScopes (pf_url pf) (pf_env pf) (w_db w) client
                             (form_get form ''resource'') grantedScopes)) (\<lambda>resource.
                  (let scope = serializeScopes grantedScopes
                   in io_bind (lift_failure (issueServiceAccessToken pf (oc_clientId client) resource scope)) (\<lambda>issued.
                      io_then (io_audit pf ''client-credentials-issued''
                          ((audit_event ''oauth.client_credentials.issued'')\<lparr>
                             ae_actorClientId := Some (oc_clientId client), ae_clientId := Some (oc_clientId client),
                             ae_resourceUri := Some resource, ae_scope := Some scope,
                             ae_requestId := Some (pf_requestId pf), ae_success := Some True\<rparr>))
                        (io_return (service_response issued scope)))))) w)))"

section \<open>refresh-token.ts\<close>

definition invalidRefreshToken :: "string \<Rightarrow> 'a io" where
  "invalidRefreshToken detail = throw_oauth invalid_grant ''Invalid refresh token'' detail"

definition lookupPresentedFamily :: "platform \<Rightarrow> db \<Rightarrow> string \<Rightarrow> RefreshTokenRecord option" where
  "lookupPresentedFamily pf db presentedToken =
     (case getRefreshTokenByHash db (hashOpaqueToken (pf_crypto pf) presentedToken) of
        Some byHash \<Rightarrow> Some byHash
      | None \<Rightarrow>
          (case js_index_of (CHR ''.'') presentedToken of
             None \<Rightarrow> None
           | Some separator \<Rightarrow>
               if separator = 0 then None
               else getRefreshTokenByFamilyId db (take separator presentedToken)))"

definition rotated_response :: "TokenResponse \<Rightarrow> response" where
  "rotated_response r = json_response 200 no_store_pragma
     (JObj (token_fields r @ opt_claim ''refresh_token'' (tr_refresh_token r) @
            opt_claim ''id_token'' (tr_id_token r)))"

definition issueRotatedTokens ::
  "platform \<Rightarrow> OAuthClient \<Rightarrow> string \<Rightarrow> string \<Rightarrow> string \<Rightarrow> string \<Rightarrow> string \<Rightarrow> int \<Rightarrow> response io" where
  "issueRotatedTokens pf client token userId clientId resource scope authTime w =
     (if clientId \<noteq> oc_clientId client then
        throw_oauth invalid_grant ''Invalid refresh token''
          (''refresh token family belongs to '' @ clientId @ '', presented by '' @ oc_clientId client) w
      else
        (let unavailable = throw_oauth invalid_grant ''The account is unavailable''
               (''user '' @ userId @ '' missing or disabled'')
         in case getUserById (w_db w) userId of
              None \<Rightarrow> unavailable w
            | Some user \<Rightarrow>
                if u_disabled user then unavailable w
                else
                  (let scopes = parseScopeString (Some scope)
                   in io_bind (lift_failure (issueUserAccessToken pf
                        \<lparr>ua_userId = u_id user, ua_clientId = oc_clientId client, ua_resource = resource,
                         ua_scope = scope, ua_authTime = authTime\<rparr>)) (\<lambda>accessToken.
                      io_bind (if ''openid'' \<in> set scopes
                               then io_bind (lift_failure (issueIdToken pf
                                      \<lparr>id_user = user, id_clientId = oc_clientId client, id_scopes = scopes,
                                       id_authTime = authTime, id_nonce = None\<rparr>)) (\<lambda>t. io_return (Some t))
                               else io_return None) (\<lambda>idToken.
                      io_then (io_audit pf ''refresh-used'' (token_audit pf ''oauth.refresh.used'' (u_id user)
                                 (oc_clientId client) resource scope))
                        (io_return (rotated_response
                           \<lparr>tr_access_token = it_token accessToken, tr_expires_in = it_expiresIn accessToken,
                            tr_scope = scope, tr_id_token = idToken, tr_refresh_token = Some token\<rparr>)))) w)))"

definition finish_refresh :: "platform \<Rightarrow> OAuthClient \<Rightarrow> RotateOutcome \<Rightarrow> response io" where
  "finish_refresh pf client outcome =
     (case outcome of
         RO_invalid \<Rightarrow> invalidRefreshToken ''refresh token unknown, expired, revoked, or lost a rotation race''
       | RO_reuse_detected familyId \<Rightarrow>
           io_then (io_audit pf ''refresh-reused'' ((audit_event ''oauth.refresh.reused'')\<lparr>
               ae_clientId := Some (oc_clientId client), ae_requestId := Some (pf_requestId pf),
               ae_success := Some False,
               ae_detail := Some (''refresh token reuse detected; family '' @ familyId @ '' revoked'')\<rparr>))
             (throw_oauth invalid_grant ''Invalid refresh token''
                ''refresh token reuse detected; token family revoked'')
       | RO_too_soon retryAfterSeconds \<Rightarrow>
           io_return (json_response 429 (no_store_pragma @ [(''retry-after'', int_string retryAfterSeconds)])
             (JObj [(''error'', JStr ''temporarily_unavailable''),
                    (''error_description'', JStr ''Refresh token was rotated too recently; retry later'')]))
       | RO_reauthorization_required familyId \<Rightarrow>
           throw_oauth invalid_grant ''Refresh token lifetime exhausted; authorize again''
             (''refresh family '' @ familyId @ '' reached its generation limit and was revoked'')
       | RO_rotated token userId clientId resource scope authTime \<Rightarrow>
           issueRotatedTokens pf client token userId clientId resource scope authTime)"

definition rotate_and_issue :: "platform \<Rightarrow> OAuthClient \<Rightarrow> string \<Rightarrow> string \<Rightarrow> response io" where
  "rotate_and_issue pf client presented effectiveScope =
     io_bind (rotateRefreshToken pf presented (oc_clientId client) effectiveScope) (finish_refresh pf client)"

text \<open>The checks of the authorization behind a presented token, in the order of the source.\<close>

definition refresh_checks ::
  "platform \<Rightarrow> OAuthClient \<Rightarrow> RefreshTokenRecord \<Rightarrow> string list \<Rightarrow> unit io" where
  "refresh_checks pf client rec scopes w =
     (let db = w_db w; gone = invalidRefreshToken (''user '' @ rr_userId rec @ '' missing or disabled'')
      in case getUserById db (rr_userId rec) of
           None \<Rightarrow> gone w
         | Some user \<Rightarrow>
             if u_disabled user then gone w
             else if \<not> (case rr_sessionId rec of None \<Rightarrow> True
                         | Some sid \<Rightarrow>
                             (case getSessionById (pf_now pf) db sid of
                                None \<Rightarrow> False | Some s \<Rightarrow> sr_userId s = u_id user)) then
               invalidRefreshToken ''source session was revoked, expired, or changed owner'' w
             else case evaluateUserTokenAccess (pf_env pf) db (rr_userId rec) (oc_clientId client)
                         (rr_resource rec) scopes of
                    Inl reason \<Rightarrow> policy_denied reason w
                  | Inr _ \<Rightarrow>
                      if \<not> consentCoversScopes (pf_env pf) db (rr_userId rec) (oc_clientId client)
                             (rr_resource rec) scopes (oc_metadataFingerprint client) then
                        invalidRefreshToken ''current consent no longer covers the refresh authorization'' w
                      else case resolveResourceForScopes (pf_url pf) (pf_env pf) db client
                                  (Some (rr_resource rec)) scopes of
                             Inl e \<Rightarrow>
                               invalidRefreshToken (''refresh authorization no longer permitted: '' @
                                 (case err_detail e of Some d \<Rightarrow> d | None \<Rightarrow> error_code_string (err_code e))) w
                           | Inr _ \<Rightarrow> io_return () w)"

definition requested_scopes :: "form \<Rightarrow> string list \<Rightarrow> string list" where
  "requested_scopes form originalScopes =
     (case form_get form ''scope'' of None \<Rightarrow> originalScopes | Some s \<Rightarrow> parseScopeString (Some s))"

definition handleRefreshToken :: "platform \<Rightarrow> OAuthClient \<Rightarrow> form \<Rightarrow> response io" where
  "handleRefreshToken pf client form w =
     (case form_get form ''refresh_token'' of
        None \<Rightarrow> throw_oauth invalid_request ''Missing refresh_token'' ''refresh_token grant without a refresh_token'' w
      | Some presented \<Rightarrow>
          if ''refresh_token'' \<notin> set (oc_allowedGrantTypes client) then
            throw_oauth unauthorized_client ''Client is not permitted to use this grant''
              (''refresh_token not allowed for '' @ oc_clientId client) w
          else
            (let unknown = invalidRefreshToken
                   ''refresh token unknown, expired, revoked, or belongs to another client''
             in case lookupPresentedFamily pf (w_db w) presented of
                  None \<Rightarrow> unknown w
                | Some rec \<Rightarrow>
                    if rr_clientId rec \<noteq> oc_clientId client \<or> rr_revokedAt rec \<noteq> None \<or>
                       isExpired (pf_now pf) (rr_expiresAt rec) then unknown w
                    else
                      (let presentedResource = form_get form ''resource'';
                           mcp = (case getResourceByUri (w_db w) (rr_resource rec) of
                                    None \<Rightarrow> False | Some r \<Rightarrow> rs_mcpEnabled r)
                       in if mcp \<and> presentedResource = None then
                            throw_oauth invalid_request
                              ''The resource parameter is required for this protected resource''
                              (''MCP refresh request omitted resource '' @ rr_resource rec) w
                          else if presentedResource \<noteq> None \<and> presentedResource \<noteq> Some (rr_resource rec) then
                            invalidRefreshToken (''refresh resource '' @ the presentedResource @
                              '' did not match token resource '' @ rr_resource rec) w
                          else
                            (let originalScopes = parseScopeString (Some (rr_scope rec));
                                 scopes = requested_scopes form originalScopes
                             in if length scopes = 0 \<or> list_ex (\<lambda>s. s \<notin> set originalScopes) scopes then
                                  throw_oauth invalid_scope
                                    ''Requested scope must be a non-empty subset of the original authorization''
                                    ''refresh scope expands or empties the original authorization'' w
                                else io_then (refresh_checks pf client rec scopes)
                                       (rotate_and_issue pf client presented (js_join '' '' scopes))
                                       (pf_others pf ''refresh-checks'' w)))))"

section \<open>device-code.ts\<close>

definition deviceAudit :: "platform \<Rightarrow> string \<Rightarrow> string \<Rightarrow> string \<Rightarrow> string \<Rightarrow> unit io" where
  "deviceAudit pf label type clientId detail =
     io_audit pf label ((audit_event type)\<lparr>ae_clientId := Some clientId,
       ae_requestId := Some (pf_requestId pf), ae_success := Some True, ae_detail := Some detail\<rparr>)"

definition session_owned_by :: "platform \<Rightarrow> db \<Rightarrow> string \<Rightarrow> string \<Rightarrow> bool" where
  "session_owned_by pf db sessionId userId =
     (case getSessionById (pf_now pf) db sessionId of None \<Rightarrow> False | Some s \<Rightarrow> sr_userId s = userId)"

text \<open>After issuing: the approving session and the consent must still stand, or the family dies.\<close>

definition confirm_device_issue ::
  "platform \<Rightarrow> OAuthClient \<Rightarrow> User \<Rightarrow> string \<Rightarrow> string \<Rightarrow> string \<Rightarrow> TokenResponse \<Rightarrow> response io" where
  "confirm_device_issue pf client user scope resourceUri browserSessionId tokens w =
     (if \<not> session_owned_by pf (w_db w) browserSessionId (u_id user) \<or>
         \<not> consentCoversScopes (pf_env pf) (w_db w) (u_id user) (oc_clientId client) resourceUri
             (parseScopeString (Some scope)) (oc_metadataFingerprint client)
      then (let revoked = throw_oauth invalid_grant ''The device authorization was revoked''
                  ''authorization changed while device tokens were being issued''
            in case tr_refresh_token tokens of
                 None \<Rightarrow> revoked w
               | Some t \<Rightarrow>
                   (let familyId = hd (js_split (CHR ''.'') t)
                    in if familyId = [] then revoked w
                       else (let w1 = w\<lparr>w_db := markRefreshTokenRevoked (pf_now pf) familyId (w_db w)\<rparr>
                             in if pf_do_rejects pf 0 familyId then io_throw DurableObjectFailure w1
                                else revoked (map_family fam_revoke familyId w1))))
      else io_then (record_grant pf (u_id user) (oc_clientId client) None scope resourceUri DEVICE_CODE_GRANT)
            (io_then (deviceAudit pf ''device-consumed'' ''oauth.device.consumed'' (oc_clientId client) ''device code consumed'')
              (io_then (io_audit pf ''token-issued'' (token_audit pf ''oauth.token.issued'' (u_id user)
                          (oc_clientId client) resourceUri scope))
                (io_return (token_response tokens)))) w)"

definition device_tokens ::
  "platform \<Rightarrow> OAuthClient \<Rightarrow> User \<Rightarrow> string \<Rightarrow> string \<Rightarrow> string \<Rightarrow> string \<Rightarrow> int \<Rightarrow> response io" where
  "device_tokens pf client user deviceId scope resourceUri browserSessionId authTime w =
     (let (won, t) = consumeApprovedDevice deviceId (t_devices (w_db w));
          w1 = upd_devices (\<lambda>_. t) w
      in if \<not> won then
           throw_oauth invalid_grant ''The device code was already used''
             ''approved device session lost the consume race'' w1
         else io_bind (issueUserTokens pf
                \<lparr>iu_user = user, iu_client = client, iu_scope = scope, iu_resource = resourceUri,
                 iu_nonce = None, iu_authTime = authTime, iu_sessionId = None, iu_rememberMe = False,
                 iu_accessValidated = True\<rparr>)
              (\<lambda>tokens w2. confirm_device_issue pf client user scope resourceUri browserSessionId tokens
                 (pf_others pf ''device-issued'' w2)) w1)"

definition issueDeviceTokens ::
  "platform \<Rightarrow> OAuthClient \<Rightarrow> string \<Rightarrow> string option \<Rightarrow> string \<Rightarrow> string option \<Rightarrow> string option
   \<Rightarrow> int option \<Rightarrow> response io" where
  "issueDeviceTokens pf client deviceId userId scope resourceUri browserSessionId authTime w =
     (case (userId, resourceUri, browserSessionId, authTime) of
        (Some uid, Some uri, Some sid, Some at) \<Rightarrow>
          (let scopes = parseScopeString (Some scope); w1 = pf_others pf ''device-checks'' w; db = w_db w1;
               gone = throw_oauth invalid_grant ''The account is unavailable''
                        (''user '' @ uid @ '' missing or disabled'')
           in io_then (io_lift (resolveResourceForScopes (pf_url pf) (pf_env pf) db client (Some uri) scopes))
                (case getUserById db uid of
                   None \<Rightarrow> gone
                 | Some user \<Rightarrow>
                     if u_disabled user then gone
                     else if \<not> session_owned_by pf db sid (u_id user) \<or>
                       \<not> consentCoversScopes (pf_env pf) db uid (oc_clientId client) uri scopes
                           (oc_metadataFingerprint client)
                     then throw_oauth invalid_grant ''The device authorization was revoked''
                            ''approving session or consent is no longer active''
                     else case evaluateUserTokenAccess (pf_env pf) db uid (oc_clientId client) uri scopes of
                            Inl reason \<Rightarrow> policy_denied reason
                          | Inr _ \<Rightarrow> device_tokens pf client user deviceId scope uri sid at) w1)
      | _ \<Rightarrow> throw_oauth invalid_grant ''Invalid device session''
               ''approved device session missing user, resource, or authentication context'' w)"

definition handleDeviceCodeGrant :: "platform \<Rightarrow> OAuthClient \<Rightarrow> form \<Rightarrow> response io" where
  "handleDeviceCodeGrant pf client form w =
     (case form_get form ''device_code'' of
        None \<Rightarrow> throw_oauth invalid_request ''Missing device_code'' ''device_code grant without device_code'' w
      | Some deviceCode \<Rightarrow>
          if DEVICE_CODE_GRANT \<notin> set (oc_allowedGrantTypes client) then
            throw_oauth unauthorized_client ''Client may not use the device flow''
              (''device_code grant not allowed for '' @ oc_clientId client) w
          else
            (let unknown = throw_oauth invalid_grant ''Invalid device code''
                   ''device_code not found or issued to a different client''
             in case getDeviceByDeviceCodeHash (w_db w) (hashOpaqueToken (pf_crypto pf) deviceCode) of
                  None \<Rightarrow> unknown w
                | Some session \<Rightarrow>
                    if ds_clientId session \<noteq> oc_clientId client then unknown w
                    else if isExpired (pf_now pf) (ds_expiresAt session) then
                      io_then (deviceAudit pf ''device-expired'' ''oauth.device.expired'' (oc_clientId client) ''device code expired'')
                        (throw_oauth expired_token ''The device code has expired'' ''device_code past its expiry'')
                        (upd_devices (markDeviceExpired (ds_id session)) w)
                    else if (case ds_lastPolledAt session of None \<Rightarrow> False
                             | Some lp \<Rightarrow> pf_now pf - lp < ds_pollIntervalSeconds session) then
                      io_then (deviceAudit pf ''device-slow-down'' ''oauth.device.slow_down'' (oc_clientId client) ''polled faster than interval'')
                        (throw_oauth slow_down ''Polling too frequently'' ''client polled faster than the advertised interval'')
                        (upd_devices (recordDeviceSlowPoll (pf_now pf) (ds_id session)) w)
                    else
                      (let w1 = upd_devices (recordDevicePoll (pf_now pf) (ds_id session)) w
                       in case ds_status session of
                            pending \<Rightarrow> throw_oauth authorization_pending ''Authorization pending''
                                         ''user has not yet approved the device'' w1
                          | denied \<Rightarrow>
                              io_then (deviceAudit pf ''device-denied'' ''oauth.device.denied'' (oc_clientId client) ''user denied the device'')
                                (throw_oauth_status access_denied 400 ''The user denied the request''
                                   ''device authorization denied by the user'') w1
                          | expired \<Rightarrow> throw_oauth expired_token ''The device code has expired''
                                         ''device session already marked expired'' w1
                          | consumed \<Rightarrow> throw_oauth invalid_grant ''The device code was already used''
                                          ''device session already consumed'' w1
                          | approved \<Rightarrow> issueDeviceTokens pf client (ds_id session) (ds_userId session)
                                          (ds_scope session) (ds_resourceUri session) (ds_sessionId session)
                                          (ds_authTime session) w1)))"

section \<open>What a successful exchange has checked\<close>

text \<open>
  The authorization behind a user's tokens at one state of the database: the account is enabled,
  the session (if any) is live and the user's, the consent covers the scopes, the permission
  rules allow the access, and the client may use the resource with these scopes.
\<close>

definition authorized ::
  "platform \<Rightarrow> db \<Rightarrow> OAuthClient \<Rightarrow> string \<Rightarrow> string option \<Rightarrow> string \<Rightarrow> string list \<Rightarrow> bool" where
  "authorized pf db client userId sessionId resource scopes =
     ((case getUserById db userId of None \<Rightarrow> False | Some user \<Rightarrow> \<not> u_disabled user) \<and>
      (case sessionId of None \<Rightarrow> True | Some sid \<Rightarrow> session_owned_by pf db sid userId) \<and>
      consentCoversScopes (pf_env pf) db userId (oc_clientId client) resource scopes (oc_metadataFingerprint client) \<and>
      is_ok (evaluateUserTokenAccess (pf_env pf) db userId (oc_clientId client) resource scopes) \<and>
      is_ok (resolveResourceForScopes (pf_url pf) (pf_env pf) db client (Some resource) scopes))"

lemma throws_never_succeed [simp]:
  "policy_denied reason w \<noteq> (Inr x, w')" "invalidRefreshToken detail w \<noteq> (Inr x, w')"
  by (simp_all add: policy_denied_def invalidRefreshToken_def)

lemma code_grant_authorized:
  assumes "code_grant pf client grant w = (Inr resp, w')"
  shows "authorized pf (w_db w) client (ac_userId grant) (Some (ac_sessionId grant)) (ac_resource grant)
    (parseScopeString (Some (ac_scope grant)))"
  using assms getUserById_id [of "w_db w" "ac_userId grant"]
  by (auto simp: code_grant_def authorized_def session_owned_by_def Let_def io_success
      split: option.splits if_splits sum.splits)

lemma refresh_checks_authorized:
  assumes "refresh_checks pf client rec scopes w = (Inr x, w')"
  shows "authorized pf (w_db w) client (rr_userId rec) (rr_sessionId rec) (rr_resource rec) scopes \<and> w' = w"
  using assms getUserById_id [of "w_db w" "rr_userId rec"]
  by (auto simp: refresh_checks_def authorized_def session_owned_by_def Let_def
      split: option.splits if_splits sum.splits)

lemma code_refused_fails: "code_refused pf client r e w \<noteq> (Inr x, w')"
  by (auto simp: code_refused_def io_success)

lemma code_tokens_status:
  "code_tokens pf client grant user w = (Inr resp, w') \<Longrightarrow> re_status resp = 200"
  by (auto simp: code_tokens_def io_success token_response_def json_response_def)

lemma code_grant_status: "code_grant pf client grant w = (Inr resp, w') \<Longrightarrow> re_status resp = 200"
  by (auto simp: code_grant_def Let_def io_success code_tokens_status
      split: option.splits if_splits sum.splits)

lemma code_exchange:
  assumes "handleAuthorizationCode pf client form w = (Inr resp, w')"
  obtains code redirectUri codeVerifier grant slot' where
    "form_get form ''code'' = Some code" "form_get form ''redirect_uri'' = Some redirectUri"
    "form_get form ''code_verifier'' = Some codeVerifier"
    "consumeIf (pf_env pf) (pf_crypto pf) (pf_nowMs pf)
       \<lparr>ci_issuer = ISSUER (pf_env pf), ci_clientId = oc_clientId client, ci_redirectUri = redirectUri,
        ci_resource = form_get form ''resource'', ci_metadataFingerprint = oc_metadataFingerprint client,
        ci_codeVerifier = codeVerifier\<rparr> (w_codes w (hashOpaqueToken (pf_crypto pf) code)) = (Inr grant, slot')"
    "code_grant pf client grant (pf_others pf ''code-checks''
       (w\<lparr>w_codes := (w_codes w)(hashOpaqueToken (pf_crypto pf) code := slot')\<rparr>)) = (Inr resp, w')"
  using assms
  by (auto simp: handleAuthorizationCode_def Let_def code_refused_fails
      split: option.splits prod.splits sum.splits)

section \<open>Refreshing\<close>

lemma rotate_and_issue_success:
  assumes "rotate_and_issue pf client presented scope w = (Inr resp, w')" and "re_status resp = 200"
  obtains token u c res a w1 where
    "rotateRefreshToken pf presented (oc_clientId client) scope w = (Inr (RO_rotated token u c res scope a), w1)"
    "issueRotatedTokens pf client token u c res scope a w1 = (Inr resp, w')"
proof -
  obtain out w1 where out: "rotateRefreshToken pf presented (oc_clientId client) scope w = (Inr out, w1)"
    and rest: "finish_refresh pf client out w1 = (Inr resp, w')"
    using assms(1) by (auto simp: rotate_and_issue_def io_bind_Inr)
  obtain token u c res sc a where o: "out = RO_rotated token u c res sc a"
    using rest assms(2) by (cases out) (auto simp: finish_refresh_def io_success json_response_def)
  have "sc = scope"
    using rotated_outcome [OF out [unfolded o] refl] rotate_Rotated by fastforce
  with o out rest that show ?thesis by (auto simp: finish_refresh_def)
qed

lemma rotated_response_fields:
  assumes "issueRotatedTokens pf client token u c res scope a w = (Inr resp, w')"
  obtains fields where "re_body resp = JsonBody (JObj fields)" "jget fields ''scope'' = Some (JStr scope)"
    "jget fields ''refresh_token'' = Some (JStr token)" "re_status resp = 200" "c = oc_clientId client"
  using assms
  by (auto simp: issueRotatedTokens_def Let_def io_success rotated_response_def json_response_def
      token_fields_def jget_def opt_claim_def split: option.splits if_splits)

section \<open>Device tokens\<close>

lemma confirm_device_success:
  assumes "confirm_device_issue pf client user scope uri sid tokens w = (Inr resp, w')"
  shows "session_owned_by pf (w_db w) sid (u_id user)"
    "consentCoversScopes (pf_env pf) (w_db w) (u_id user) (oc_clientId client) uri
       (parseScopeString (Some scope)) (oc_metadataFingerprint client)"
    "resp = token_response tokens"
  using assms
  by (auto simp: confirm_device_issue_def Let_def io_success split: if_splits option.splits)

lemma device_success:
  assumes "handleDeviceCodeGrant pf client form w = (Inr resp, w')"
  obtains code session uid uri sid at w1 where "form_get form ''device_code'' = Some code"
    "getDeviceByDeviceCodeHash (w_db w) (hashOpaqueToken (pf_crypto pf) code) = Some session"
    "ds_clientId session = oc_clientId client" "ds_status session = approved"
    "pf_now pf < ds_expiresAt session"
    "\<forall>lp. ds_lastPolledAt session = Some lp \<longrightarrow> ds_pollIntervalSeconds session \<le> pf_now pf - lp"
    "ds_userId session = Some uid" "ds_resourceUri session = Some uri" "ds_sessionId session = Some sid"
    "w1 = pf_others pf ''device-checks'' (upd_devices (recordDevicePoll (pf_now pf) (ds_id session)) w)"
    "authorized pf (w_db w1) client uid (Some sid) uri (parseScopeString (Some (ds_scope session)))"
    "\<exists>user. getUserById (w_db w1) uid = Some user \<and>
       device_tokens pf client user (ds_id session) (ds_scope session) uri sid at w1 = (Inr resp, w')"
proof -
  obtain code session where c: "form_get form ''device_code'' = Some code"
    "getDeviceByDeviceCodeHash (w_db w) (hashOpaqueToken (pf_crypto pf) code) = Some session"
    "ds_clientId session = oc_clientId client" "ds_status session = approved" "pf_now pf < ds_expiresAt session"
    "\<forall>lp. ds_lastPolledAt session = Some lp \<longrightarrow> ds_pollIntervalSeconds session \<le> pf_now pf - lp"
    and i: "issueDeviceTokens pf client (ds_id session) (ds_userId session) (ds_scope session)
       (ds_resourceUri session) (ds_sessionId session) (ds_authTime session)
       (upd_devices (recordDevicePoll (pf_now pf) (ds_id session)) w) = (Inr resp, w')"
    using assms
    by (auto simp: handleDeviceCodeGrant_def Let_def io_success isExpired_def not_le not_less
        split: option.splits if_splits DeviceStatus.splits)
  let ?w1 = "pf_others pf ''device-checks'' (upd_devices (recordDevicePoll (pf_now pf) (ds_id session)) w)"
  obtain uid uri sid at user where d: "ds_userId session = Some uid" "ds_resourceUri session = Some uri"
    "ds_sessionId session = Some sid" "getUserById (w_db ?w1) uid = Some user"
    "authorized pf (w_db ?w1) client uid (Some sid) uri (parseScopeString (Some (ds_scope session)))"
    "device_tokens pf client user (ds_id session) (ds_scope session) uri sid at ?w1 = (Inr resp, w')"
    using i getUserById_id [of "w_db ?w1"]
    by (auto simp: issueDeviceTokens_def Let_def io_success authorized_def
        split: option.splits if_splits sum.splits)
  from that [OF c d(1-3) refl d(5)] d show ?thesis by blast
qed

section \<open>A concrete authorization\<close>

definition demo_app :: OAuthClient where
  "demo_app = demo_client\<lparr>oc_clientId := ''app'', oc_type := confidential,
     oc_allowedGrantTypes := [''authorization_code'', ''refresh_token'', ''client_credentials'', DEVICE_CODE_GRANT],
     oc_allowedScopes := [''openid'', ''api'']\<rparr>"

definition demo_session :: session_row where
  "demo_session = \<lparr>sr_id = ''s'', sr_userId = ''u'', sr_authMethod = password, sr_authTime = 900,
     sr_passkeyAuthenticated = False, sr_createdAt = 900, sr_lastSeenAt = 900, sr_expiresAt = 5000,
     se_tokenHash = ''h'', se_amrJson = ''[]'', se_ipHash = None, se_userAgentHash = None, se_revokedAt = None\<rparr>"

definition demo_refresh_row :: refresh_row where
  "demo_refresh_row = \<lparr>rt_id = ''f'', rt_tokenHash = hashOpaqueToken demo_crypto ''f.t'', rt_userId = ''u'',
     rt_clientId = ''app'', rt_sessionId = Some ''s'', rt_resource = ''r'', rt_scope = ''openid'', rt_generation = 0,
     rt_rememberMe = False, rt_createdAt = 900, rt_lastRotatedAt = 900, rt_expiresAt = 5000, rt_authTime = 900,
     rt_revokedAt = None\<rparr>"

definition demo_device_row :: device_row where
  "demo_device_row = \<lparr>dv_id = ''d'', dv_deviceCodeHash = hashOpaqueToken demo_crypto ''dc'', dv_userCodeHash = ''uc'',
     dv_clientId = ''app'', dv_resourceUri = Some ''r'', dv_scope = ''openid'', dv_status = approved,
     dv_userId = Some ''u'', dv_expiresAt = 2000, dv_approvedAt = Some 950, dv_deniedAt = None, dv_lastPolledAt = Some 990,
     dv_pollIntervalSeconds = 5, dv_pollCount = 1, dv_createdAt = 900, dv_sessionId = Some ''s'', dv_authTime = Some 900\<rparr>"

definition demo_grant_db :: db where
  "demo_grant_db = demo_policy_db\<lparr>t_users := [demo_user], t_sessions := [demo_session],
     t_refresh_tokens := [demo_refresh_row], t_devices := [demo_device_row],
     t_consents := [\<lparr>cs_id = ''k'', cs_userId = ''u'', cs_clientId = ''app'', cs_scope = ''openid'',
        cs_resource = ''r'', cs_metadataFingerprint = None, cs_createdAt = 1, cs_updatedAt = 1\<rparr>],
     t_oauth_clients := [demo_app],
     t_oauth_resources := [\<lparr>rs_resourceUri = ''r'', rs_name = ''R'', rs_allowedScopes = [''api''], rs_enabled = True,
        rs_mcpEnabled = False, rs_metadataClientPolicy = policy_disabled\<rparr>]\<rparr>"

definition demo_family :: family where
  "demo_family = \<lparr>fam_meta = Some \<lparr>fm_userId = ''u'', fm_clientId = ''app'', fm_resource = ''r'', fm_scope = ''openid'',
         fm_authTime = Some 900, fm_absoluteExpiresAt = 5000, fm_createdAt = 900, fm_generation = 0,
         fm_revoked = False, fm_lastRotatedAt = Some 900\<rparr>,
       fam_currentHash = Some (hashOpaqueToken demo_crypto ''f.t''), fam_usedHashes = None, fam_used = {},
       fam_alarm = None\<rparr>"

definition demo_grant_world :: world where
  "demo_grant_world = demo_world\<lparr>w_db := demo_grant_db, w_families := (\<lambda>_. demo_family)\<rparr>"

lemma parse_openid: "parseScopeString (Some ''openid'') = [''openid'']"
  using parse_serialize_words [of "[''openid'']"] by (simp add: serializeScopes_def is_word_def is_ws_def)

lemma demo_not_yolo [simp]: "\<not> isYoloEnabled (pf_env demo_pf)" "\<not> isYoloEnabled demo_env"
  by (simp_all add: isYoloEnabled_def YOLO_ENVIRONMENT_def demo_pf_def demo_env_def)

lemma demo_rules: "getUserPermissionRules demo_grant_db ''u'' = getUserPermissionRules demo_policy_db ''u''"
  by (simp add: getUserPermissionRules_def user_rule_rows_def demo_grant_db_def cong: if_cong)

lemma demo_access: "evaluateUserTokenAccess demo_env demo_grant_db ''u'' ''app'' ''r'' [''openid''] = Inr ()"
  by (subst evaluateUserTokenAccess_iff)
    (simp_all add: demo_rules demo_policy_rules allows_def resolvePermissionRules_def matching_rules_def
      isResourceAuthorizedScope_def RESOURCE_AUTHORIZED_SCOPES_def USER_ONLY_SCOPES_def ADMIN_SCOPES_def)

lemma demo_resource: "resolveResourceForScopes demo_url demo_env demo_grant_db demo_app (Some ''r'') [''openid''] = Inr ''r''"
  by (subst resolveResourceForScopes_iff)
    (auto simp: getResourceByUri_def admits_def demo_grant_db_def demo_app_def demo_client_def
      isPermissionGroupControlledScope_def RESOURCE_AUTHORIZED_SCOPES_def USER_ONLY_SCOPES_def)

lemma demo_consent: "consentCoversScopes demo_env demo_grant_db ''u'' ''app'' ''r'' [''openid''] None"
  by (simp add: consentCoversScopes_def getConsent_def demo_grant_db_def parse_openid Let_def)

lemma demo_user_found: "getUserById demo_grant_db ''u'' = Some (User.truncate demo_user)"
  by (simp add: getUserById_def demo_grant_db_def demo_user_def)

lemma demo_session_found: "getSessionById 1000 demo_grant_db ''s'' = Some (SessionRecord.truncate demo_session)"
  by (simp add: getSessionById_def live_session_def demo_grant_db_def demo_session_def)

lemmas demo_authorization = demo_access demo_resource demo_consent demo_user_found demo_session_found parse_openid

section \<open>Properties\<close>


definition demo_code_payload :: AuthorizationCodePayload where
  "demo_code_payload = \<lparr>ac_issuer = ''https://id.test'', ac_clientId = ''app'', ac_userId = ''u'',
     ac_redirectUri = ''https://app/cb'', ac_scope = ''openid'', ac_resource = ''r'', ac_resourceRequired = False,
     ac_metadataFingerprint = None, ac_codeChallenge = computeS256Challenge demo_crypto (replicate 43 CHR ''a''),
     ac_nonce = None, ac_authTime = 900, ac_sessionId = ''s''\<rparr>"

definition demo_code_form :: form where
  "demo_code_form = [(''code'', ''xyz''), (''redirect_uri'', ''https://app/cb''),
     (''code_verifier'', replicate 43 CHR ''a'')]"

definition demo_code_world :: world where
  "demo_code_world = demo_grant_world\<lparr>w_codes := (\<lambda>_. ot_store 0 demo_code_payload 2000000 ot_empty)\<rparr>"

lemma demo_audit:
  "io_audit demo_pf l e w = (Inr (), w\<lparr>w_audit := snd (recordAudit True True (generateId demo_pf ''log'' l)
     (pf_now demo_pf) e (w_audit w))\<rparr>)"
  by (simp add: io_audit_def recordAudit_def Let_def demo_pf_def)

lemma demo_issue_user_tokens:
  "\<exists>tokens. tr_refresh_token tokens = None \<and> issueUserTokens demo_pf
     \<lparr>iu_user = user, iu_client = demo_app, iu_scope = ''openid'', iu_resource = ''r'', iu_nonce = None,
      iu_authTime = 900, iu_sessionId = sid, iu_rememberMe = False, iu_accessValidated = True\<rparr> w = (Inr tokens, w)"
  by (simp add: issueUserTokens_def wants_refresh_def parse_openid io_bind_def lift_failure_def io_return_def
      issueUserAccessToken_def issueIdToken_def id_claims_def buildUserClaims_def signJwt_def demo_pf_def)

lemma demo_record_grant:
  "\<exists>db. record_grant demo_pf u c s sc r g w = (Inr (), w\<lparr>w_db := db\<rparr>)"
  by (auto simp: record_grant_def demo_pf_def)

lemma demo_code_grant: "\<exists>resp w'. code_grant demo_pf demo_app demo_code_payload
    (demo_code_world\<lparr>w_codes := codes\<rparr>) = (Inr resp, w')"
proof -
  let ?w = "demo_code_world\<lparr>w_codes := codes\<rparr>"
  let ?u = "User.truncate demo_user"
  obtain tokens where t: "issueUserTokens demo_pf
     \<lparr>iu_user = ?u, iu_client = demo_app, iu_scope = ''openid'', iu_resource = ''r'', iu_nonce = None,
      iu_authTime = 900, iu_sessionId = Some ''s'', iu_rememberMe = False, iu_accessValidated = True\<rparr> ?w = (Inr tokens, ?w)"
    using demo_issue_user_tokens by blast
  obtain db where g: "record_grant demo_pf (u_id ?u) (oc_clientId demo_app) (Some ''s'') ''openid'' ''r''
      ''authorization_code'' ?w = (Inr (), ?w\<lparr>w_db := db\<rparr>)" using demo_record_grant by blast
  from t g have "\<exists>resp w'. code_tokens demo_pf demo_app demo_code_payload ?u ?w = (Inr resp, w')"
    by (auto simp: code_tokens_def demo_code_payload_def io_bind_def io_then_def demo_audit)
  moreover have "w_db ?w = demo_grant_db" "pf_now demo_pf = 1000" "pf_env demo_pf = demo_env" "pf_url demo_pf = demo_url"
    "oc_clientId demo_app = ''app''" "oc_metadataFingerprint demo_app = None" "\<not> u_disabled ?u" "u_id ?u = ''u''"
    by (simp_all add: demo_code_world_def demo_grant_world_def demo_pf_def pf_now_def nowSeconds_def demo_app_def
        demo_client_def demo_user_def User.defs)
  ultimately show ?thesis
    by (simp add: code_grant_def demo_authorization demo_code_payload_def io_then_def io_bind_def io_lift_def
        demo_session_def SessionRecord.defs)
qed

lemma demo_code_exchange:
  "\<exists>resp w'. handleAuthorizationCode demo_pf demo_app demo_code_form demo_code_world = (Inr resp, w')"
proof -
  have v: "isValidCodeVerifier (replicate 43 CHR ''a'')"
    by (simp add: isValidCodeVerifier_def is_verifier_char_def is_alnum_def is_lower_def list_all_iff)
  obtain slot' where c: "consumeIf demo_env demo_crypto 1000000
      \<lparr>ci_issuer = ''https://id.test'', ci_clientId = ''app'', ci_redirectUri = ''https://app/cb'', ci_resource = None,
       ci_metadataFingerprint = None, ci_codeVerifier = replicate 43 CHR ''a''\<rparr>
      (ot_store 0 demo_code_payload 2000000 ot_empty) = (Inr demo_code_payload, slot')"
    using v by (simp add: consumeIf_def ot_store_def ot_empty_def binding_ok_def resource_ok_def
        demo_code_payload_def Let_def)
  have "w_codes demo_code_world = (\<lambda>_. ot_store 0 demo_code_payload 2000000 ot_empty)" "ISSUER demo_env = ''https://id.test''"
    "pf_env demo_pf = demo_env" "pf_crypto demo_pf = demo_crypto" "pf_nowMs demo_pf = 1000000"
    "pf_others demo_pf = (\<lambda>l w. w)" "oc_clientId demo_app = ''app''" "oc_metadataFingerprint demo_app = None"
    by (simp_all add: demo_code_world_def demo_pf_def demo_env_def demo_app_def demo_client_def)
  then show ?thesis
    using c demo_code_grant by (simp add: handleAuthorizationCode_def demo_code_form_def form_get_def)
qed


text \<open>
  C3. A refresh never widens an authorization: when \<open>handleRefreshToken\<close> answers with tokens, the
  presented token belongs to a live family of this client, the scope of the answer is a non-empty
  selection from the scopes the family had, and in the state the checks read the account, the
  session (if the family has one), the consent, the permission rules and the resource all
  authorize exactly these scopes.
\<close>

theorem refresh_never_expands:
  assumes "handleRefreshToken pf client form w = (Inr resp, w')" and "re_status resp = 200"
  shows "\<exists>presented rec scopes fields. form_get form ''refresh_token'' = Some presented \<and>
    lookupPresentedFamily pf (w_db w) presented = Some rec \<and> rr_clientId rec = oc_clientId client \<and>
    rr_revokedAt rec = None \<and> pf_now pf < rr_expiresAt rec \<and>
    scopes \<noteq> [] \<and> set scopes \<subseteq> set (parseScopeString (Some (rr_scope rec))) \<and>
    authorized pf (w_db (pf_others pf ''refresh-checks'' w)) client (rr_userId rec) (rr_sessionId rec)
      (rr_resource rec) scopes \<and>
    re_body resp = JsonBody (JObj fields) \<and> jget fields ''scope'' = Some (JStr (serializeScopes scopes))"
proof -
  obtain presented rec w1 where "form_get form ''refresh_token'' = Some presented"
    "lookupPresentedFamily pf (w_db w) presented = Some rec" "rr_clientId rec = oc_clientId client"
    "rr_revokedAt rec = None" "pf_now pf < rr_expiresAt rec"
    "requested_scopes form (parseScopeString (Some (rr_scope rec))) \<noteq> []"
    "set (requested_scopes form (parseScopeString (Some (rr_scope rec)))) \<subseteq> set (parseScopeString (Some (rr_scope rec)))"
    "refresh_checks pf client rec (requested_scopes form (parseScopeString (Some (rr_scope rec))))
       (pf_others pf ''refresh-checks'' w) = (Inr (), w1)"
    "rotate_and_issue pf client presented
       (js_join '' '' (requested_scopes form (parseScopeString (Some (rr_scope rec))))) w1 = (Inr resp, w')"
    using assms(1)
    by (auto simp: handleRefreshToken_def Let_def io_success isExpired_def not_le list_ex_iff
        split: option.splits if_splits)
  then obtain scopes where r: "form_get form ''refresh_token'' = Some presented"
    "lookupPresentedFamily pf (w_db w) presented = Some rec" "rr_clientId rec = oc_clientId client"
    "rr_revokedAt rec = None" "pf_now pf < rr_expiresAt rec" "scopes \<noteq> []"
    "set scopes \<subseteq> set (parseScopeString (Some (rr_scope rec)))"
    "refresh_checks pf client rec scopes (pf_others pf ''refresh-checks'' w) = (Inr (), w1)"
    and ri: "rotate_and_issue pf client presented (js_join '' '' scopes) w1 = (Inr resp, w')"
    by blast
  show ?thesis
  proof (rule rotate_and_issue_success [OF ri assms(2)], goal_cases)
    case (1 token u c res a w2)
    show ?case
    proof (rule rotated_response_fields [OF 1(2)], goal_cases)
      case (1 fields)
      with r refresh_checks_authorized [OF r(8)] show ?case
        by (intro exI [of _ presented] exI [of _ rec] exI [of _ scopes] exI [of _ fields])
          (simp add: serializeScopes_def)
    qed
  qed
qed

lemma demo_simps:
  "pf_env demo_pf = demo_env" "pf_crypto demo_pf = demo_crypto" "pf_url demo_pf = demo_url" "pf_now demo_pf = 1000"
  "pf_others demo_pf = (\<lambda>l w. w)" "pf_d1_fails demo_pf = (\<lambda>l. False)" "pf_do_rejects demo_pf = (\<lambda>k i. False)"
  "oc_clientId demo_app = ''app''" "oc_metadataFingerprint demo_app = None" "oc_type demo_app = confidential"
  "oc_allowedGrantTypes demo_app = [''authorization_code'', ''refresh_token'', ''client_credentials'', DEVICE_CODE_GRANT]"
  "oc_allowedScopes demo_app = [''openid'', ''api'']"
  "u_id (User.truncate demo_user) = ''u''" "\<not> u_disabled (User.truncate demo_user)"
  "w_db demo_grant_world = demo_grant_db" "t_devices demo_grant_db = [demo_device_row]"
  "t_refresh_tokens demo_grant_db = [demo_refresh_row]" "w_families demo_grant_world = (\<lambda>_. demo_family)"
  by (simp_all add: demo_pf_def pf_now_def nowSeconds_def demo_app_def demo_client_def demo_user_def User.defs
      demo_grant_world_def demo_grant_db_def)

lemma demo_refresh_checks:
  "refresh_checks demo_pf demo_app (map_refresh demo_refresh_row) [''openid''] demo_grant_world = (Inr (), demo_grant_world)"
  by (simp add: refresh_checks_def demo_simps demo_authorization map_refresh_def demo_refresh_row_def
      demo_session_def SessionRecord.defs)

lemma demo_rotation:
  "\<exists>token w1. rotateRefreshToken demo_pf ''f.t'' ''app'' ''openid'' demo_grant_world =
     (Inr (RO_rotated token ''u'' ''app'' ''r'' ''openid'' 900), w1) \<and> t_users (w_db w1) = [demo_user]"
  by (simp add: rotateRefreshToken_def fam_rotate_def demo_simps demo_family_def demo_refresh_row_def policy_simps
      changes_def demo_grant_db_def Let_def)

lemma demo_rotated_tokens:
  assumes "t_users (w_db w) = [demo_user]"
  shows "\<exists>resp w'. issueRotatedTokens demo_pf demo_app token ''u'' ''app'' ''r'' ''openid'' 900 w = (Inr resp, w') \<and>
    re_status resp = 200"
proof -
  have user: "getUserById (w_db w) ''u'' = Some (User.truncate demo_user)"
    by (simp add: getUserById_def assms demo_user_def)
  show ?thesis
    by (auto simp: issueRotatedTokens_def demo_audit user demo_simps parse_openid io_bind_def io_then_def lift_failure_def
        io_return_def issueUserAccessToken_def issueIdToken_def id_claims_def buildUserClaims_def signJwt_def
        rotated_response_def json_response_def)
qed

theorem refresh_never_expands_witness:
  "\<exists>rec scopes. lookupPresentedFamily demo_pf demo_grant_db ''f.t'' = Some rec \<and> scopes \<noteq> [] \<and>
     set scopes \<subseteq> set (parseScopeString (Some (rr_scope rec)))"
proof -
  obtain token w1 where r: "rotateRefreshToken demo_pf ''f.t'' ''app'' ''openid'' demo_grant_world =
     (Inr (RO_rotated token ''u'' ''app'' ''r'' ''openid'' 900), w1)" "t_users (w_db w1) = [demo_user]"
    using demo_rotation by blast
  obtain resp w' where "issueRotatedTokens demo_pf demo_app token ''u'' ''app'' ''r'' ''openid'' 900 w1 = (Inr resp, w')"
    and ok: "re_status resp = 200" using demo_rotated_tokens [OF r(2)] by blast
  with r have "rotate_and_issue demo_pf demo_app ''f.t'' ''openid'' demo_grant_world = (Inr resp, w')"
    by (simp add: rotate_and_issue_def io_bind_def finish_refresh_def demo_simps)
  moreover have "lookupPresentedFamily demo_pf demo_grant_db ''f.t'' = Some (map_refresh demo_refresh_row)"
    by (simp add: lookupPresentedFamily_def getRefreshTokenByHash_def demo_simps demo_refresh_row_def)
  moreover have "getResourceByUri demo_grant_db ''r'' = Some r \<Longrightarrow> \<not> rs_mcpEnabled r" for r
    by (auto simp: getResourceByUri_def demo_grant_db_def)
  ultimately have "handleRefreshToken demo_pf demo_app [(''refresh_token'', ''f.t'')] demo_grant_world = (Inr resp, w')"
    using demo_refresh_checks
    by (auto simp: handleRefreshToken_def form_get_def demo_simps map_refresh_def demo_refresh_row_def isExpired_def
        requested_scopes_def parse_openid io_then_def io_bind_def split: option.splits)
  from refresh_never_expands [OF this ok] show ?thesis
    by (auto simp: form_get_def demo_simps)
qed

text \<open>
  Service tokens carry no user authority: when \<open>handleClientCredentials\<close> answers, the client
  is confidential and registered for the grant, the answer has an access token and neither an ID
  token nor a refresh token, the token is signed over service claims for the client itself, and
  its scopes are allowed to the client and none of them is a user scope.
\<close>

theorem client_credentials_service_only:
  assumes "handleClientCredentials pf client form w = (Inr resp, w')"
  shows "oc_type client = confidential \<and> ''client_credentials'' \<in> set (oc_allowedGrantTypes client) \<and>
    (\<exists>fields scopes resource. re_body resp = JsonBody (JObj fields) \<and>
       jget fields ''access_token'' = Some (JStr (pf_sign pf (minted pf (service_claims pf (oc_clientId client)
          resource (serializeScopes scopes)) JWT_TYP_accessToken (ttl_serviceAccessToken TOKEN_TTL)))) \<and>
       jget fields ''id_token'' = None \<and> jget fields ''refresh_token'' = None \<and>
       set scopes \<subseteq> set (oc_allowedScopes client) - set USER_ONLY_SCOPES \<and>
       resolveResourceForScopes (pf_url pf) (pf_env pf) (w_db w) client (form_get form ''resource'') scopes = Inr resource)"
proof -
  let ?req = "parseScopeString (form_get form ''scope'')"
  let ?eff = "if length ?req > 0 then ?req
    else filter (\<lambda>scope. scope \<notin> set USER_ONLY_SCOPES) (oc_allowedScopes client)"
  have c: "oc_type client = confidential" "''client_credentials'' \<in> set (oc_allowedGrantTypes client)"
    "filter (\<lambda>scope. scope \<in> set USER_ONLY_SCOPES) ?req = []"
    using assms by (auto simp: handleClientCredentials_def Let_def io_success split: if_splits)
  then obtain granted resource issued where g: "validateRequestedScopes ?eff (oc_allowedScopes client) = Inr granted"
    "resolveResourceForScopes (pf_url pf) (pf_env pf) (w_db w) client (form_get form ''resource'') granted = Inr resource"
    "issueServiceAccessToken pf (oc_clientId client) resource (serializeScopes granted) = Inr issued"
    and resp: "resp = service_response issued (serializeScopes granted)"
    using assms by (auto simp: handleClientCredentials_def Let_def io_success lift_failure_def simp del: length_greater_0_conv)
  have "granted = ?eff" "set ?eff \<subseteq> set (oc_allowedScopes client)"
    using g(1) by (auto simp only: validateRequestedScopes_iff)
  moreover have "set ?eff \<inter> set USER_ONLY_SCOPES = {}" using c(3) by (auto simp: filter_empty_conv)
  moreover have "it_token issued = pf_sign pf (minted pf (service_claims pf (oc_clientId client)
        resource (serializeScopes granted)) JWT_TYP_accessToken (ttl_serviceAccessToken TOKEN_TTL))"
    using g(3) by (auto simp: issueServiceAccessToken_def signJwt_def split: if_splits)
  ultimately show ?thesis
    using c g(2) unfolding resp service_response_def json_response_def
    by (intro conjI exI [of _ granted] exI [of _ resource] exI) (auto simp: jget_def)
qed

lemma demo_service_run:
  "\<exists>resp w'. handleClientCredentials demo_pf demo_app [(''scope'', ''api''), (''resource'', ''r'')] demo_grant_world = (Inr resp, w')"
proof -
  have p: "parseScopeString (Some ''api'') = [''api'']"
    using parse_serialize_words [of "[''api'']"] by (simp add: serializeScopes_def is_word_def is_ws_def)
  have r: "resolveResourceForScopes demo_url demo_env demo_grant_db demo_app (Some ''r'') [''api''] = Inr ''r''"
    by (subst resolveResourceForScopes_iff)
      (auto simp: getResourceByUri_def admits_def demo_grant_db_def demo_app_def demo_client_def
        isPermissionGroupControlledScope_def RESOURCE_AUTHORIZED_SCOPES_def USER_ONLY_SCOPES_def)
  obtain issued where i: "issueServiceAccessToken demo_pf ''app'' ''r'' ''api'' = Inr issued"
    by (auto simp: issueServiceAccessToken_def signJwt_def demo_simps)
  show ?thesis
    by (auto simp: handleClientCredentials_def Let_def demo_audit form_get_def demo_simps p r i USER_ONLY_SCOPES_def
        validateRequestedScopes_def serializeScopes_def io_bind_def io_then_def io_lift_def lift_failure_def io_return_def
        DEVICE_CODE_GRANT_def)
qed

theorem client_credentials_service_only_witness:
  "\<exists>fields scopes. set scopes \<subseteq> set (oc_allowedScopes demo_app) - set USER_ONLY_SCOPES \<and>
     jget fields ''refresh_token'' = None"
proof -
  obtain resp w' where "handleClientCredentials demo_pf demo_app [(''scope'', ''api''), (''resource'', ''r'')]
      demo_grant_world = (Inr resp, w')" using demo_service_run by blast
  from client_credentials_service_only [OF this] show ?thesis by blast
qed


lemma device_table_frame:
  "getUserPermissionRules (db\<lparr>t_devices := t\<rparr>) = getUserPermissionRules db"
  "getResourceByUri (db\<lparr>t_devices := t\<rparr>) = getResourceByUri db"
  "isMetadataClientApproved (db\<lparr>t_devices := t\<rparr>) = isMetadataClientApproved db"
  "getConsent (db\<lparr>t_devices := t\<rparr>) = getConsent db"
  "getUserById (db\<lparr>t_devices := t\<rparr>) = getUserById db"
  "getSessionById now (db\<lparr>t_devices := t\<rparr>) = getSessionById now db"
  by (simp_all add: fun_eq_iff getUserPermissionRules_def user_rule_rows_def getResourceByUri_def
      isMetadataClientApproved_def getConsent_def getUserById_def getSessionById_def cong: if_cong)

lemma device_table_policy_frame:
  "evaluateUserTokenAccess env (db\<lparr>t_devices := t\<rparr>) = evaluateUserTokenAccess env db"
  "resolveResourceForScopes url env (db\<lparr>t_devices := t\<rparr>) = resolveResourceForScopes url env db"
  "consentCoversScopes env (db\<lparr>t_devices := t\<rparr>) = consentCoversScopes env db"
  unfolding fun_eq_iff evaluateUserTokenAccess_def resolveResourceForScopes_def resolveResourceRecord_def
    consentCoversScopes_def device_table_frame
  by (rule allI refl)+

lemma demo_device_tokens:
  "\<exists>resp w'. device_tokens demo_pf demo_app (User.truncate demo_user) ''d'' ''openid'' ''r'' ''s'' 900
     (demo_grant_world\<lparr>w_db := demo_grant_db\<lparr>t_devices := recordDevicePoll 1000 ''d'' [demo_device_row]\<rparr>\<rparr>) = (Inr resp, w')"
proof -
  let ?t = "recordDevicePoll 1000 ''d'' [demo_device_row]"
  obtain t' where c: "consumeApprovedDevice ''d'' ?t = (True, t')"
    by (simp add: recordDevicePoll_def consumeApprovedDevice_def device_update_def changes_def demo_device_row_def)
  let ?w = "demo_grant_world\<lparr>w_db := demo_grant_db\<lparr>t_devices := t'\<rparr>\<rparr>"
  obtain tokens where t: "issueUserTokens demo_pf \<lparr>iu_user = User.truncate demo_user, iu_client = demo_app,
      iu_scope = ''openid'', iu_resource = ''r'', iu_nonce = None, iu_authTime = 900, iu_sessionId = None,
      iu_rememberMe = False, iu_accessValidated = True\<rparr> ?w = (Inr tokens, ?w)"
    using demo_issue_user_tokens by blast
  obtain db where g: "record_grant demo_pf ''u'' ''app'' None ''openid'' ''r'' DEVICE_CODE_GRANT ?w =
      (Inr (), ?w\<lparr>w_db := db\<rparr>)" using demo_record_grant by blast
  have s: "session_owned_by demo_pf (w_db ?w) ''s'' ''u''"
    by (simp add: session_owned_by_def demo_simps device_table_frame demo_session_found demo_session_def SessionRecord.defs)
  have "\<exists>resp w'. confirm_device_issue demo_pf demo_app (User.truncate demo_user) ''openid'' ''r'' ''s'' tokens ?w = (Inr resp, w')"
    using s g
    by (simp add: confirm_device_issue_def demo_audit demo_simps device_table_policy_frame demo_consent parse_openid
        io_then_def io_bind_def io_return_def deviceAudit_def)
  with c t show ?thesis by (simp add: device_tokens_def demo_simps io_bind_def)
qed


end
