(* ===== verification/Token_Inspection.thy ===== *)
theory Token_Inspection
  imports Token_Endpoint
begin

text \<open>
  \<open>src/oauth/introspect.ts\<close>, \<open>src/oauth/revoke.ts\<close>, \<open>src/oauth/userinfo.ts\<close> and
  \<open>src/oauth/bearer.ts\<close>: what other parties may learn about a token, how a client revokes its
  refresh token, and the claims a user token releases.
\<close>

section \<open>introspect.ts\<close>

definition INACTIVE :: claims where "INACTIVE = [(''active'', JBool False)]"

definition str_or :: "json option \<Rightarrow> string option \<Rightarrow> string option" where
  "str_or v d = (case v of Some (JStr s) \<Rightarrow> Some s | _ \<Rightarrow> d)"

definition introspectionResponse ::
  "platform \<Rightarrow> OAuthClient \<Rightarrow> claims \<Rightarrow> nat \<Rightarrow> string option \<Rightarrow> string option \<Rightarrow> response io" where
  "introspectionResponse pf introspector result status targetClient targetResource =
     (let active = (jget result ''active'' = Some (JBool True))
      in io_then (io_audit pf ''introspection'' ((audit_event ''oauth.introspection.completed'')\<lparr>
            ae_actorClientId := Some (oc_clientId introspector),
            ae_clientId := str_or (jget result ''client_id'') targetClient,
            ae_resourceUri := str_or (jget result ''aud'') targetResource,
            ae_requestId := Some (pf_requestId pf), ae_success := Some active,
            ae_detail := Some (if active then ''token active''
              else if status = 400 then ''invalid introspection request'' else ''token inactive''),
            ae_metadata := Some (JObj [(''active'', JBool active)])\<rparr>))
          (io_return (json_response status no_store (JObj result))))"

definition mayInspectClientTokens :: "OAuthClient \<Rightarrow> string \<Rightarrow> bool" where
  "mayInspectClientTokens introspector tokenClientId =
     (oc_clientKind introspector = service \<or>
      (oc_clientKind introspector = application \<and> oc_clientId introspector = tokenClientId))"

text \<open>A property whose value is \<open>undefined\<close> is not printed.\<close>

definition copy_claim :: "claims \<Rightarrow> string \<Rightarrow> claims" where
  "copy_claim payload k = (case jget payload k of None \<Rightarrow> [] | Some v \<Rightarrow> [(k, v)])"

definition payload_scopes :: "claims \<Rightarrow> string list" where
  "payload_scopes payload =
     parseScopeString (Some (case jget payload ''scope'' of Some (JStr s) \<Rightarrow> s | _ \<Rightarrow> []))"

definition is_service_payload :: "claims \<Rightarrow> bool" where
  "is_service_payload payload =
     (jget payload ''actor_type'' = Some (JStr ''service'') \<or> sub_has_client_prefix payload)"

text \<open>The user checks of a token that is not a service token.\<close>

definition user_still_entitled :: "platform \<Rightarrow> db \<Rightarrow> OAuthClient \<Rightarrow> claims \<Rightarrow> string \<Rightarrow> bool" where
  "user_still_entitled pf db tokenClient payload aud =
     (case jget payload ''sub'' of
        Some (JStr sub) \<Rightarrow>
          (case getUserById db sub of
             None \<Rightarrow> False
           | Some user \<Rightarrow>
               \<not> u_disabled user \<and>
               is_ok (evaluateUserTokenAccess (pf_env pf) db (u_id user) (oc_clientId tokenClient) aud
                        (payload_scopes payload)) \<and>
               consentCoversScopes (pf_env pf) db (u_id user) (oc_clientId tokenClient) aud
                 (payload_scopes payload) (oc_metadataFingerprint tokenClient))
      | _ \<Rightarrow> False)"

definition introspectAccessToken ::
  "platform \<Rightarrow> db \<Rightarrow> string \<Rightarrow> OAuthClient \<Rightarrow> claims option" where
  "introspectAccessToken pf db token introspector =
     (if length (oc_allowedResources introspector) = 0 then None
      else case verifyAccessToken pf token (Some (oc_allowedResources introspector)) actor_any of
        None \<Rightarrow> None
      | Some payload \<Rightarrow>
          (case (jget payload ''aud'', jget payload ''client_id'') of
             (Some (JStr aud), Some (JStr clientId)) \<Rightarrow>
               (if \<not> mayInspectClientTokens introspector clientId then None
                else case getClientById db clientId of
                  None \<Rightarrow> None
                | Some tokenClient \<Rightarrow>
                    if \<not> oc_enabled tokenClient then None
                    else if \<not> is_ok (resolveResourceForScopes (pf_url pf) (pf_env pf) db tokenClient
                                       (Some aud) (payload_scopes payload)) then None
                    else if ''groups'' \<in> set (payload_scopes payload) then None
                    else if \<not> is_service_payload payload \<and>
                            \<not> user_still_entitled pf db tokenClient payload aud then None
                    else Some ([(''active'', JBool True)] @
                           concat (map (copy_claim payload)
                             [''sub'', ''aud'', ''iss'', ''exp'', ''iat'', ''jti'', ''scope'', ''client_id'', ''token_use'']) @
                           [(''token_type'', JStr ''Bearer'')]))
           | _ \<Rightarrow> None))"

text \<open>The checks on a refresh token found by its hash; \<open>None\<close> is the inactive answer.\<close>

definition inspect_refresh ::
  "platform \<Rightarrow> world \<Rightarrow> OAuthClient \<Rightarrow> RefreshTokenRecord \<Rightarrow> claims option" where
  "inspect_refresh pf w introspector rec =
     (let db = w_db w; scopes = parseScopeString (Some (rr_scope rec))
      in if rr_revokedAt rec \<noteq> None \<or> isExpired (pf_now pf) (rr_expiresAt rec) then None
         else if (case fam_getState (w_families w (rr_familyId rec)) of
                    None \<Rightarrow> True | Some m \<Rightarrow> fm_revoked m) then None
         else if \<not> mayInspectClientTokens introspector (rr_clientId rec) then None
         else if rr_resource rec \<notin> set (oc_allowedResources introspector) then None
         else if ''groups'' \<in> set scopes then None
         else case (getClientById db (rr_clientId rec), getUserById db (rr_userId rec)) of
                (Some tokenClient, Some user) \<Rightarrow>
                  (if \<not> oc_enabled tokenClient \<or> u_disabled user then None
                   else if \<not> is_ok (evaluateUserTokenAccess (pf_env pf) db (u_id user)
                                (oc_clientId tokenClient) (rr_resource rec) scopes) then None
                   else if \<not> consentCoversScopes (pf_env pf) db (u_id user) (oc_clientId tokenClient)
                                (rr_resource rec) scopes (oc_metadataFingerprint tokenClient) then None
                   else if (case rr_sessionId rec of None \<Rightarrow> False
                            | Some sid \<Rightarrow> \<not> session_owned_by pf db sid (u_id user)) then None
                   else if \<not> is_ok (resolveResourceForScopes (pf_url pf) (pf_env pf) db tokenClient
                                (Some (rr_resource rec)) scopes) then None
                   else Some [(''active'', JBool True), (''sub'', JStr (rr_userId rec)),
                          (''client_id'', JStr (rr_clientId rec)), (''scope'', JStr (rr_scope rec)),
                          (''aud'', JStr (rr_resource rec)), (''exp'', JNum (rr_expiresAt rec)),
                          (''token_type'', JStr ''refresh_token'')])
              | _ \<Rightarrow> None)"

definition handleIntrospect :: "platform \<Rightarrow> form \<Rightarrow> OAuthClient \<Rightarrow> response io" where
  "handleIntrospect pf form introspector w =
     (case form_get form ''token'' of
        None \<Rightarrow> introspectionResponse pf introspector
                  [(''error'', JStr ''invalid_request''), (''error_description'', JStr ''Missing token'')]
                  400 None None w
      | Some token \<Rightarrow>
          (case introspectAccessToken pf (w_db w) token introspector of
             Some result \<Rightarrow> introspectionResponse pf introspector result 200 None None w
           | None \<Rightarrow>
               (case getRefreshTokenByHash (w_db w) (hashOpaqueToken (pf_crypto pf) token) of
                  None \<Rightarrow> introspectionResponse pf introspector INACTIVE 200 None None w
                | Some rec \<Rightarrow>
                    (case inspect_refresh pf w introspector rec of
                       None \<Rightarrow> introspectionResponse pf introspector INACTIVE 200
                                 (Some (rr_clientId rec)) (Some (rr_resource rec)) w
                     | Some result \<Rightarrow> introspectionResponse pf introspector result 200 None None w))))"

section \<open>revoke.ts\<close>

definition handleRevoke :: "platform \<Rightarrow> OAuthClient \<Rightarrow> form \<Rightarrow> response io" where
  "handleRevoke pf client form w =
     (case form_get form ''token'' of
        None \<Rightarrow> io_return (json_response 400 [] (JObj [(''error'', JStr ''invalid_request''),
                  (''error_description'', JStr ''Missing token'')])) w
      | Some token \<Rightarrow>
          (let ok = io_return \<lparr>re_status = 200, re_headers = no_store, re_body = EmptyBody\<rparr>
           in case lookupPresentedFamily pf (w_db w) token of
                None \<Rightarrow> ok w
              | Some rec \<Rightarrow>
                  if rr_clientId rec \<noteq> oc_clientId client then ok w
                  else if pf_do_rejects pf 0 (rr_familyId rec) then io_throw DurableObjectFailure w
                  else
                    (let w1 = pf_others pf ''revoke:mirror'' (map_family fam_revoke (rr_familyId rec) w)
                     in if pf_d1_fails pf ''revoke:mirror'' then io_throw DatabaseFailure w1
                        else io_then (io_audit pf ''token-revoked'' ((audit_event ''oauth.token.revoked'')\<lparr>
                               ae_userId := Some (rr_userId rec), ae_clientId := Some (oc_clientId client),
                               ae_requestId := Some (pf_requestId pf), ae_success := Some True\<rparr>)) ok
                             (w1\<lparr>w_db := markRefreshTokenRevoked (pf_now pf) (rr_familyId rec) (w_db w1)\<rparr>))))"

section \<open>bearer.ts\<close>

definition ascii_lower_eq :: "string \<Rightarrow> string \<Rightarrow> bool" where
  "ascii_lower_eq a b = (ascii_lower a = ascii_lower b)"

definition extractBearerToken :: "request \<Rightarrow> string option" where
  "extractBearerToken rq =
     (case rq_header rq ''authorization'' of
        None \<Rightarrow> None
      | Some header \<Rightarrow>
          if \<not> ascii_lower_eq (take 7 header) ''bearer '' then None
          else non_empty (js_trim (drop 7 header)))"

section \<open>userinfo.ts\<close>

definition invalidToken :: "string \<Rightarrow> response" where
  "invalidToken description =
     json_response 401 [(''www-authenticate'',
         ''Bearer error=\"invalid_token\", error_description=\"'' @ description @ ''\"'')]
       (JObj [(''error'', JStr ''invalid_token''), (''error_description'', JStr description)])"

definition currentAudienceClient :: "platform \<Rightarrow> db \<Rightarrow> claims \<Rightarrow> OAuthClient option" where
  "currentAudienceClient pf db payload =
     (case (jget payload ''aud'', jget payload ''client_id'') of
        (Some (JStr aud), Some (JStr clientId)) \<Rightarrow>
          (case getClientById db clientId of
             None \<Rightarrow> None
           | Some client \<Rightarrow>
               if \<not> oc_enabled client then None
               else if \<not> is_ok (resolveResourceForScopes (pf_url pf) (pf_env pf) db client (Some aud)
                                  (payload_scopes payload)) then None
               else case jget payload ''sub'' of
                      Some (JStr sub) \<Rightarrow>
                        if consentCoversScopes (pf_env pf) db sub (oc_clientId client) aud
                             (payload_scopes payload) (oc_metadataFingerprint client)
                        then Some client else None
                    | _ \<Rightarrow> None)
      | _ \<Rightarrow> None)"

text \<open>The handler after the token has verified.\<close>

definition user_info :: "platform \<Rightarrow> db \<Rightarrow> claims \<Rightarrow> (failure, response) result" where
  "user_info pf db payload =
     (let scopes = payload_scopes payload;
          unusable = Inr (invalidToken ''The access token is not valid for UserInfo'')
      in case jget payload ''sub'' of
           Some (JStr sub) \<Rightarrow>
             (if starts_with ''client:'' sub \<or> jget payload ''actor_type'' = Some (JStr ''service'') then
                Inr (json_response 403 [] (JObj [(''error'', JStr ''invalid_token''),
                  (''error_description'', JStr ''Not a user token'')]))
              else if ''groups'' \<in> set scopes \<or> ''openid'' \<notin> set scopes then unusable
              else case (currentAudienceClient pf db payload, jget payload ''aud'') of
                (Some tokenClient, Some (JStr aud)) \<Rightarrow>
                  (case getUserById db sub of
                     None \<Rightarrow> Inr (invalidToken ''The subject is unavailable'')
                   | Some user \<Rightarrow>
                       if u_disabled user then Inr (invalidToken ''The subject is unavailable'')
                       else if \<not> is_ok (evaluateUserTokenAccess (pf_env pf) db (u_id user)
                                (oc_clientId tokenClient) aud scopes) then
                         Inr (invalidToken ''The subject is no longer permitted to use this token'')
                       else (case buildUserClaims pf user scopes of
                               Inl e \<Rightarrow> Inl e
                             | Inr cl \<Rightarrow> Inr (json_response 200 no_store (JObj ((''sub'', JStr (u_id user)) # cl)))))
              | _ \<Rightarrow> unusable)
         | _ \<Rightarrow> Inr (json_response 403 [] (JObj [(''error'', JStr ''invalid_token''),
                  (''error_description'', JStr ''Not a user token'')])))"

definition handleUserInfo :: "platform \<Rightarrow> request \<Rightarrow> response io" where
  "handleUserInfo pf rq w =
     (case extractBearerToken rq of
        None \<Rightarrow> io_return (invalidToken ''A bearer access token is required'') w
      | Some token \<Rightarrow>
          if \<not> isPlausibleCompactJwt token then
            io_return (invalidToken ''The access token is invalid or expired'') w
          else case verifyAccessToken pf token None actor_any of
                 None \<Rightarrow> io_return (invalidToken ''The access token is invalid or expired'') w
               | Some payload \<Rightarrow> lift_failure (user_info pf (w_db w) payload) w)"

section \<open>Laws\<close>

lemma introspectionResponse_Inr:
  "introspectionResponse pf i result status tc tr w = (Inr resp, w') \<Longrightarrow>
     resp = json_response status no_store (JObj result)"
  by (auto simp: introspectionResponse_def Let_def io_success)

text \<open>The documented audience check of the JOSE library.\<close>

definition jose_checks_audience :: "platform \<Rightarrow> bool" where
  "jose_checks_audience pf =
     (\<forall>token opts typ payload as a. vo_audience opts = Some as \<and>
        pf_jwtVerify pf token opts = Some (typ, payload) \<and> jget payload ''aud'' = Some (JStr a) \<longrightarrow> a \<in> set as)"

text \<open>An introspectable token of one client for one audience, at a state of the database.\<close>

definition inspectable :: "platform \<Rightarrow> db \<Rightarrow> OAuthClient \<Rightarrow> string \<Rightarrow> string \<Rightarrow> bool" where
  "inspectable pf db introspector clientId aud =
     (aud \<in> set (oc_allowedResources introspector) \<and> mayInspectClientTokens introspector clientId \<and>
      (case getClientById db clientId of None \<Rightarrow> False | Some c \<Rightarrow> oc_enabled c))"

lemma copy_claim_get: "jget (copy_claim payload k @ rest) k' = (if k' = k \<and> jget payload k \<noteq> None then jget payload k else jget rest k')"
  by (auto simp: copy_claim_def jget_def split: option.splits)

lemma jget_copied:
  "k \<in> set ks \<Longrightarrow> jget payload k = Some v \<Longrightarrow> jget (concat (map (copy_claim payload) ks) @ rest) k = Some v"
  by (induction ks) (auto simp: copy_claim_get)

lemma access_introspection:
  assumes "introspectAccessToken pf db token introspector = Some props" "jose_checks_audience pf"
  shows "\<exists>c aud. jget props ''client_id'' = Some (JStr c) \<and> jget props ''aud'' = Some (JStr aud) \<and>
    inspectable pf db introspector c aud \<and>
    (\<exists>payload. verifyAccessToken pf token (Some (oc_allowedResources introspector)) actor_any = Some payload \<and>
       (is_service_payload payload \<or>
        (\<exists>client. getClientById db c = Some client \<and> user_still_entitled pf db client payload aud)))"
proof -
  obtain payload aud c client where p:
    "verifyAccessToken pf token (Some (oc_allowedResources introspector)) actor_any = Some payload"
    "jget payload ''aud'' = Some (JStr aud)" "jget payload ''client_id'' = Some (JStr c)"
    "mayInspectClientTokens introspector c" "getClientById db c = Some client" "oc_enabled client"
    "is_service_payload payload \<or> user_still_entitled pf db client payload aud"
    and props: "props = [(''active'', JBool True)] @ concat (map (copy_claim payload)
        [''sub'', ''aud'', ''iss'', ''exp'', ''iat'', ''jti'', ''scope'', ''client_id'', ''token_use'']) @
        [(''token_type'', JStr ''Bearer'')]"
    using assms(1)
    by (auto simp: introspectAccessToken_def split: option.splits if_splits json.splits)
  have "aud \<in> set (oc_allowedResources introspector)"
    using access_token_shape(1) [OF p(1)] p(2)
    by (intro assms(2) [unfolded jose_checks_audience_def, rule_format,
          of "\<lparr>vo_issuer = ISSUER (pf_env pf), vo_audience = Some (oc_allowedResources introspector),
             vo_typ = Some JWT_TYP_accessToken, vo_currentDate = None\<rparr>"]) simp
  moreover have get: "jget props k = Some v" if "jget payload k = Some v" "k \<noteq> ''active''"
    "k \<in> set [''sub'', ''aud'', ''iss'', ''exp'', ''iat'', ''jti'', ''scope'', ''client_id'', ''token_use'']" for k v
  proof -
    have "jget props k = jget (concat (map (copy_claim payload)
        [''sub'', ''aud'', ''iss'', ''exp'', ''iat'', ''jti'', ''scope'', ''client_id'', ''token_use'']) @
        [(''token_type'', JStr ''Bearer'')]) k"
      using that(2) unfolding props by (simp add: jget_def)
    with jget_copied [OF that(3,1)] show ?thesis by metis
  qed
  moreover have "jget props ''client_id'' = Some (JStr c)" "jget props ''aud'' = Some (JStr aud)"
    using get [OF p(3)] get [OF p(2)] by simp_all
  ultimately show ?thesis using p by (auto simp: inspectable_def)
qed

lemma refresh_introspection:
  assumes "inspect_refresh pf w introspector rec = Some props"
  shows "jget props ''client_id'' = Some (JStr (rr_clientId rec))" "jget props ''aud'' = Some (JStr (rr_resource rec))"
    "inspectable pf (w_db w) introspector (rr_clientId rec) (rr_resource rec)"
    "\<not> fam_dead (w_families w (rr_familyId rec))"
    "\<exists>client. getClientById (w_db w) (rr_clientId rec) = Some client \<and>
       authorized pf (w_db w) client (rr_userId rec) (rr_sessionId rec) (rr_resource rec) (parseScopeString (Some (rr_scope rec)))"
  using assms getUserById_id [of "w_db w" "rr_userId rec"] getClientById_id [of "w_db w" "rr_clientId rec"]
  by (auto simp: inspect_refresh_def Let_def jget_def inspectable_def authorized_def fam_dead_def fam_getState_def
      split: option.splits if_splits)

section \<open>Properties\<close>



end
