(* ===== verification/Oauth_Routes.thy ===== *)
theory Oauth_Routes
  imports Token_Inspection Client_Auth
begin

text \<open>
  \<open>src/security/request-meta.ts\<close>, \<open>src/routes/oauth.ts\<close>, and the error handler of
  \<open>src/index.ts\<close>: the machine endpoints as they are reached over HTTP, with their rate limits,
  the reading of the form body, the authentication of the client, the dispatch to the handlers,
  and the translation of a thrown error into a response.
\<close>

section \<open>request-meta.ts\<close>

definition EMAIL_INPUT_MAX_LENGTH :: nat where "EMAIL_INPUT_MAX_LENGTH = 254"
definition INVALID_EMAIL_CORRELATION_VALUE :: string where
  "INVALID_EMAIL_CORRELATION_VALUE = ''<invalid-email-input>''"

definition emailCorrelationValue :: "string \<Rightarrow> string" where
  "emailCorrelationValue v =
     (if length v \<le> EMAIL_INPUT_MAX_LENGTH then v else INVALID_EMAIL_CORRELATION_VALUE)"

definition hmacSha256Hex :: "platform \<Rightarrow> string \<Rightarrow> string \<Rightarrow> string" where
  "hmacSha256Hex pf secret data =
     bytesToHex (pf_crypto pf) (pf_hmac pf (utf8_encode secret) (utf8_encode data))"

definition requestCorrelationHash :: "platform \<Rightarrow> string \<Rightarrow> string \<Rightarrow> string" where
  "requestCorrelationHash pf domain v =
     (let secret = map_option js_trim (pf_requestHashSecret pf); data = domain @ [CHR 0x00] @ v
      in case secret of
           None \<Rightarrow> sha256Hex (pf_crypto pf) data
         | Some s \<Rightarrow> if s = [] then sha256Hex (pf_crypto pf) data else hmacSha256Hex pf s data)"

text \<open>\<open>a ?? b\<close>.\<close>

definition or_else :: "'a option \<Rightarrow> 'a option \<Rightarrow> 'a option" where
  "or_else a b = (case a of None \<Rightarrow> b | Some _ \<Rightarrow> a)"

definition clientIpHash :: "platform \<Rightarrow> 'r request_scheme \<Rightarrow> string option" where
  "clientIpHash pf rq =
     map_option (requestCorrelationHash pf ''ip'')
       (or_else (map_of (rq_headers rq) ''cf-connecting-ip'') (map_of (rq_headers rq) ''x-real-ip''))"

definition userAgentHash :: "platform \<Rightarrow> 'r request_scheme \<Rightarrow> string option" where
  "userAgentHash pf rq =
     map_option (requestCorrelationHash pf ''user-agent'') (map_of (rq_headers rq) ''user-agent'')"

section \<open>Throwing with context headers\<close>

text \<open>
  A route that throws leaves behind the headers it has set on the context with \<open>c.header\<close>; they
  are part of the response the error handler builds.
\<close>

type_synonym headers = "(string \<times> string) list"
type_synonym 'a route = "world \<Rightarrow> (failure \<times> headers, 'a) result \<times> world"

definition route_io :: "'a io \<Rightarrow> 'a route" where
  "route_io m w = (case m w of (Inl e, w') \<Rightarrow> (Inl (e, []), w') | (Inr x, w') \<Rightarrow> (Inr x, w'))"

definition route_bind :: "'a route \<Rightarrow> ('a \<Rightarrow> 'b route) \<Rightarrow> 'b route" where
  "route_bind m f w = (case m w of (Inl e, w') \<Rightarrow> (Inl e, w') | (Inr x, w') \<Rightarrow> f x w')"

definition route_lift :: "(OAuthError, 'a) result \<Rightarrow> 'a route" where
  "route_lift r = route_io (io_lift r)"

section \<open>enforceOAuthRateLimit\<close>

definition enforceOAuthRateLimit ::
  "platform \<Rightarrow> string \<Rightarrow> int \<Rightarrow> int \<Rightarrow> unit route" where
  "enforceOAuthRateLimit pf key limit windowSeconds w =
     (let (rate, limiters) = checkRateLimit (pf_env pf) (pf_nowMs pf) key limit windowSeconds (w_limiters w);
          w1 = w\<lparr>w_limiters := limiters\<rparr>;
          retry = [(''retry-after'', int_string (rl_retryAfterSeconds rate))];
          detail = ''OAuth rate limit exceeded for '' @ key;
          denied = OAuthFailure (new_OAuthError temporarily_unavailable (Some ''Too many requests'') (Some 429)
                     (Some detail))
      in if rl_allowed rate then (Inr (), w1)
         else if shouldAuditRateLimit [rate] then
           (case io_audit pf (''rate:'' @ key) ((audit_event ''security.rate_limited'')\<lparr>
                   ae_requestId := Some (pf_requestId pf), ae_success := Some False, ae_detail := Some detail,
                   ae_metadata := Some (JObj [(''limit'', JNum limit), (''window_seconds'', JNum windowSeconds)])\<rparr>) w1 of
              (Inl e, w2) \<Rightarrow> (Inl (e, retry), w2)
            | (Inr _, w2) \<Rightarrow> (Inl (denied, retry), w2))
         else (Inl (denied, retry), w1))"

section \<open>URLSearchParams\<close>

definition hex_value :: "byte \<Rightarrow> nat option" where
  "hex_value b =
     (let n = unat b
      in if 48 \<le> n \<and> n \<le> 57 then Some (n - 48)
         else if 65 \<le> n \<and> n \<le> 70 then Some (n - 55)
         else if 97 \<le> n \<and> n \<le> 102 then Some (n - 87) else None)"

text \<open>The percent-decoder of the URL standard: a percent sign without two hex digits stays.\<close>

fun percent_decode :: "byte list \<Rightarrow> byte list" where
  "percent_decode (p # x # y # bs) =
     (case (hex_value x, hex_value y) of
        (Some i, Some j) \<Rightarrow>
          if p = 37 then word_of_nat (i * 16 + j) # percent_decode bs
          else p # percent_decode (x # y # bs)
      | _ \<Rightarrow> p # percent_decode (x # y # bs))"
| "percent_decode (p # bs) = p # percent_decode bs"
| "percent_decode [] = []"

definition form_decode :: "string \<Rightarrow> string option" where
  "form_decode s =
     utf8_decode (percent_decode (utf8_encode (map (\<lambda>c. if c = CHR ''+'' then CHR '' '' else c) s)))"

text \<open>One \<open>name=value\<close> sequence, split at its first equals sign.\<close>

definition form_pair :: "string \<Rightarrow> (string \<times> string) option" where
  "form_pair s =
     (let name = takeWhile (\<lambda>c. c \<noteq> CHR ''='') s; val = drop (length name + 1) s
      in Option.bind (form_decode name) (\<lambda>n. map_option (\<lambda>v. (n, v)) (form_decode val)))"

text \<open>
  \<open>new URLSearchParams(body)\<close>: a leading question mark is dropped, empty sequences are skipped.
  \<open>None\<close> stands for a text outside of the modelled alphabet.
\<close>

definition url_search_params :: "string \<Rightarrow> form option" where
  "url_search_params body =
     (let input = (case body of c # cs \<Rightarrow> if c = CHR ''?'' then cs else body | [] \<Rightarrow> [])
      in all_some (map form_pair (filter (\<lambda>s. s \<noteq> []) (js_split (CHR ''&'') input))))"

section \<open>readFormBody\<close>

text \<open>A request with its body; \<open>None\<close> when reading the body fails.\<close>

record form_request = request +
  rq_body :: "byte list option"

definition body_too_large :: OAuthError where
  "body_too_large = oauth_error invalid_request ''Request body is too large''
     (''OAuth form exceeded '' @ nat_string OAUTH_FORM_MAX_BODY_BYTES @ '' bytes'')"

definition maximum_text :: "string \<Rightarrow> string" where
  "maximum_text key =
     (case oauthParameterMaximumBytes key of
        Bytes n \<Rightarrow> nat_string n
      | Inherited \<Rightarrow> if key = ''__proto__'' then ''[object Object]''
          else ''function '' @ (if key = ''constructor'' then ''Object'' else key) @ ''() { [native code] }'')"

definition parameter_detail :: "OAuthParameterLimitFailure \<Rightarrow> string \<Rightarrow> string" where
  "parameter_detail limitFailure key =
     (case limitFailure of
        invalid_name \<Rightarrow> ''OAuth form contained an invalid parameter name''
      | invalid_value \<Rightarrow> ''OAuth parameter '' @ key @ '' had invalid syntax''
      | value_too_long \<Rightarrow> ''OAuth parameter '' @ key @ '' exceeded '' @
          maximum_text key @ '' bytes'')"

text \<open>The loop over the parsed pairs; \<open>params\<close> are the accepted ones.\<close>

fun read_params :: "url_parser \<Rightarrow> nat \<Rightarrow> form \<Rightarrow> form \<Rightarrow> (OAuthError, form) result" where
  "read_params parse_url parameterCount params [] = Inr params"
| "read_params parse_url parameterCount params ((key, v) # rest) =
     (if parameterCount + 1 > OAUTH_FORM_MAX_PARAMETERS then
        Inl (oauth_error invalid_request ''Too many request parameters''
          (''OAuth form exceeded '' @ nat_string OAUTH_FORM_MAX_PARAMETERS @ '' parameters''))
      else case validateOAuthParameter parse_url key v of
        Some limitFailure \<Rightarrow> Inl (oauth_error invalid_request ''A request parameter is invalid or too long''
          (parameter_detail limitFailure key))
      | None \<Rightarrow>
          if form_has params key then
            Inl (oauth_error invalid_request ''Request parameters must not be repeated''
              (''duplicate OAuth form parameter: '' @ key))
          else read_params parse_url (parameterCount + 1) (params @ [(key, v)]) rest)"

definition media_type :: "form_request \<Rightarrow> string option" where
  "media_type rq =
     map_option (\<lambda>h. ascii_lower (js_trim (takeWhile (\<lambda>c. c \<noteq> CHR '';'') h)))
       (map_of (rq_headers rq) ''content-type'')"

definition readFormBody :: "platform \<Rightarrow> form_request \<Rightarrow> form io" where
  "readFormBody pf rq w =
     (if media_type rq \<noteq> Some ''application/x-www-form-urlencoded'' then
        throw_oauth invalid_request ''Content-Type must be application/x-www-form-urlencoded''
          (''unsupported OAuth request content type: '' @
           (case media_type rq of None \<Rightarrow> ''missing'' | Some t \<Rightarrow> t)) w
      else if (case map_of (rq_headers rq) ''content-length'' of
                 None \<Rightarrow> False
               | Some declaredLength \<Rightarrow> \<not> all_digits declaredLength \<or>
                   digits_value declaredLength > OAUTH_FORM_MAX_BODY_BYTES) then
        io_lift (Inl body_too_large) w
      else case rq_body rq of
        None \<Rightarrow> throw_oauth invalid_request ''Malformed form body'' ''OAuth form body could not be parsed'' w
      | Some bodyBytes \<Rightarrow>
          if length bodyBytes > OAUTH_FORM_MAX_BODY_BYTES then io_lift (Inl body_too_large) w
          else case Option.bind (utf8_decode bodyBytes) url_search_params of
                 None \<Rightarrow> io_throw (OtherFailure ''text outside of the modelled alphabet'') w
               | Some formData \<Rightarrow> io_lift (read_params (pf_url pf) 0 [] formData) w)"

section \<open>The endpoints\<close>

definition ip_or_unknown :: "string option \<Rightarrow> string" where
  "ip_or_unknown ipHash = (case ipHash of None \<Rightarrow> ''unknown'' | Some h \<Rightarrow> h)"

text \<open>The second limit of an endpoint: by client, or by client and address for public clients.\<close>

definition client_rate_limit ::
  "platform \<Rightarrow> string \<Rightarrow> OAuthClient \<Rightarrow> string option \<Rightarrow> int \<Rightarrow> int \<Rightarrow> unit route" where
  "client_rate_limit pf endpoint client ipHash confidentialLimit publicLimit =
     enforceOAuthRateLimit pf
       (if oc_type client = confidential then ''oauth:'' @ endpoint @ '':client:'' @ oc_clientId client
        else ''oauth:'' @ endpoint @ '':client-ip:'' @ oc_clientId client @ '':'' @ ip_or_unknown ipHash)
       (if oc_type client = confidential then confidentialLimit else publicLimit) 300"

definition ip_rate_limit :: "platform \<Rightarrow> string \<Rightarrow> form_request \<Rightarrow> int \<Rightarrow> unit route" where
  "ip_rate_limit pf endpoint rq limit =
     enforceOAuthRateLimit pf (''oauth:'' @ endpoint @ '':ip:'' @ ip_or_unknown (clientIpHash pf rq)) limit 300"

definition authenticated_form :: "platform \<Rightarrow> form_request \<Rightarrow> (form \<times> OAuthClient) route" where
  "authenticated_form pf rq =
     route_bind (route_io (readFormBody pf rq)) (\<lambda>form.
     route_bind (route_io (authenticateClient pf (request.truncate rq) form)) (\<lambda>(client, method).
     route_io (io_return (form, client))))"

definition dispatch_grant :: "platform \<Rightarrow> OAuthClient \<Rightarrow> form \<Rightarrow> response io" where
  "dispatch_grant pf client form =
     (let grantType = form_get form ''grant_type''
      in if grantType = Some ''client_credentials'' then handleClientCredentials pf client form
         else if grantType = Some ''authorization_code'' then handleAuthorizationCode pf client form
         else if grantType = Some ''refresh_token'' then handleRefreshToken pf client form
         else if grantType = Some DEVICE_CODE_GRANT then handleDeviceCodeGrant pf client form
         else throw_oauth unsupported_grant_type ''Unsupported grant_type''
           (''unknown grant_type: '' @ (case grantType of None \<Rightarrow> ''<missing>'' | Some g \<Rightarrow> g)))"

definition token_endpoint :: "platform \<Rightarrow> form_request \<Rightarrow> response route" where
  "token_endpoint pf rq =
     route_bind (ip_rate_limit pf ''token'' rq 120) (\<lambda>_.
     route_bind (authenticated_form pf rq) (\<lambda>(form, client).
     route_bind (client_rate_limit pf ''token'' client (clientIpHash pf rq) 500 240) (\<lambda>_.
     route_io (dispatch_grant pf client form))))"

definition userinfo_endpoint :: "platform \<Rightarrow> form_request \<Rightarrow> response route" where
  "userinfo_endpoint pf rq =
     route_bind (ip_rate_limit pf ''userinfo'' rq 300) (\<lambda>_. route_io (handleUserInfo pf (request.truncate rq)))"

definition device_authorization_endpoint :: "platform \<Rightarrow> form_request \<Rightarrow> response route" where
  "device_authorization_endpoint pf rq =
     route_bind (ip_rate_limit pf ''device'' rq 20) (\<lambda>_.
     route_bind (authenticated_form pf rq) (\<lambda>(form, client).
     route_bind (client_rate_limit pf ''device'' client (clientIpHash pf rq) 250 50) (\<lambda>_.
     route_io (handleDeviceAuthorization pf client form))))"

definition revoke_endpoint :: "platform \<Rightarrow> form_request \<Rightarrow> response route" where
  "revoke_endpoint pf rq =
     route_bind (ip_rate_limit pf ''revoke'' rq 120) (\<lambda>_.
     route_bind (authenticated_form pf rq) (\<lambda>(form, client).
     route_bind (client_rate_limit pf ''revoke'' client (clientIpHash pf rq) 500 240) (\<lambda>_.
     route_io (handleRevoke pf client form))))"

definition may_introspect :: "OAuthClient \<Rightarrow> bool" where
  "may_introspect client =
     (oc_type client = confidential \<and> oc_introspectionAllowed client \<and>
      (oc_clientKind client = service \<or> oc_clientKind client = application))"

definition introspect_endpoint :: "platform \<Rightarrow> form_request \<Rightarrow> response route" where
  "introspect_endpoint pf rq =
     route_bind (ip_rate_limit pf ''introspect'' rq 120) (\<lambda>_.
     route_bind (authenticated_form pf rq) (\<lambda>(form, client).
     if \<not> may_introspect client then
       route_io (throw_oauth_status invalid_client 403 ''Introspection requires an authorized confidential client''
         (''ineligible client '' @ oc_clientId client @ '' attempted introspection''))
     else
       route_bind (enforceOAuthRateLimit pf (''oauth:introspect:client:'' @ oc_clientId client) 600 300) (\<lambda>_.
       route_io (handleIntrospect pf form client))))"

section \<open>The error handler\<close>

definition acceptsHtml :: "form_request \<Rightarrow> bool" where
  "acceptsHtml rq =
     (case map_of (rq_headers rq) ''accept'' of None \<Rightarrow> False | Some h \<Rightarrow> contains ''text/html'' h)"

definition oauth_error_headers :: "OAuthError \<Rightarrow> headers" where
  "oauth_error_headers err =
     no_store @ (if err_code err = invalid_client \<and> err_status err = 401
                 then [(''www-authenticate'', ''Basic realm=\"oauth\", error=\"invalid_client\"'')] else [])"

text \<open>
  \<open>app.onError\<close>. The failure of the audit write of an \<open>invalid_client\<close> error is caught and logged.
  A page is named by its renderer and its texts.
\<close>

definition on_error :: "platform \<Rightarrow> form_request \<Rightarrow> failure \<times> headers \<Rightarrow> world \<Rightarrow> response \<times> world" where
  "on_error pf rq thrown w =
     (let (failure, context) = thrown
      in case failure of
           OAuthFailure err \<Rightarrow>
             (let w1 = (if err_code err = invalid_client then
                          snd (io_audit pf ''invalid-client'' ((audit_event ''security.invalid_client'')\<lparr>
                            ae_requestId := Some (pf_requestId pf), ae_success := Some False,
                            ae_detail := Some (case err_detail err of Some d \<Rightarrow> d | None \<Rightarrow> err_message err)\<rparr>) w)
                        else w)
              in (json_response (err_status err) (context @ oauth_error_headers err)
                    (JObj [(''error'', JStr (fst (toBody err))), (''error_description'', JStr (snd (toBody err)))]), w1))
         | AppFailure status publicMessage \<Rightarrow>
             (if acceptsHtml rq then
                ((html_response status ''renderErrorPage'' [publicMessage, ''/'', ''Back to your account''])
                   \<lparr>re_headers := context\<rparr>, w)
              else (json_response status context (JObj [(''error'', JStr publicMessage)]), w))
         | _ \<Rightarrow>
             (if acceptsHtml rq then
                ((html_response 500 ''renderErrorPage'' [''Something went wrong. Please try again.'', ''/'', ''Back to your account''])
                   \<lparr>re_headers := context\<rparr>, w)
              else (json_response 500 context (JObj [(''error'', JStr ''server_error''),
                      (''error_description'', JStr ''Internal server error'')]), w)))"

text \<open>A request served by a route: what the route returns, or what the error handler makes of it.\<close>

definition serve :: "platform \<Rightarrow> form_request \<Rightarrow> response route \<Rightarrow> world \<Rightarrow> response \<times> world" where
  "serve pf rq route w = (case route w of (Inr resp, w') \<Rightarrow> (resp, w') | (Inl thrown, w') \<Rightarrow> on_error pf rq thrown w')"

section \<open>Laws\<close>

lemma route_io_Inr: "route_io m w = (Inr x, w') \<longleftrightarrow> m w = (Inr x, w')"
  by (auto simp: route_io_def split: prod.splits sum.splits)

lemma route_bind_Inr:
  "route_bind m f w = (Inr y, w') \<longleftrightarrow> (\<exists>x w1. m w = (Inr x, w1) \<and> f x w1 = (Inr y, w'))"
  by (auto simp: route_bind_def split: prod.splits sum.splits)

lemma io_lift_cases: "io_lift r w = (case r of Inl e \<Rightarrow> (Inl (OAuthFailure e), w) | Inr x \<Rightarrow> (Inr x, w))"
  by (simp add: io_lift_def)

lemma enforce_allows:
  "enforceOAuthRateLimit pf key limit s w = (Inr u, w') \<longleftrightarrow>
     rl_allowed (fst (checkRateLimit (pf_env pf) (pf_nowMs pf) key limit s (w_limiters w))) \<and>
     w' = w\<lparr>w_limiters := snd (checkRateLimit (pf_env pf) (pf_nowMs pf) key limit s (w_limiters w))\<rparr>"
  by (auto simp: enforceOAuthRateLimit_def Let_def split: prod.splits sum.splits)

text \<open>The well-formed forms: few parameters, each of them valid, none of them repeated.\<close>

definition form_ok :: "url_parser \<Rightarrow> form \<Rightarrow> bool" where
  "form_ok u form =
     (length form \<le> OAUTH_FORM_MAX_PARAMETERS \<and> distinct (map fst form) \<and>
      list_all (\<lambda>(k, v). validateOAuthParameter u k v = None) form)"

lemma form_has_iff: "form_has form k \<longleftrightarrow> k \<in> fst ` set form"
  by (simp add: form_has_def form_get_def map_of_eq_None_iff)

lemma read_params_iff:
  "read_params u n acc ps = Inr form \<longleftrightarrow>
     form = acc @ ps \<and> (ps = [] \<or> n + length ps \<le> OAUTH_FORM_MAX_PARAMETERS) \<and> distinct (map fst ps) \<and>
     fst ` set acc \<inter> fst ` set ps = {} \<and> list_all (\<lambda>(k, v). validateOAuthParameter u k v = None) ps"
  by (induction u n acc ps rule: read_params.induct) (auto simp: form_has_iff split: option.splits)

lemma read_params_ok: "read_params u 0 [] ps = Inr form \<longleftrightarrow> form = ps \<and> form_ok u ps"
  by (auto simp: read_params_iff form_ok_def)

lemma readFormBody_Inr:
  "readFormBody pf rq w = (Inr form, w') \<longleftrightarrow>
     w' = w \<and> media_type rq = Some ''application/x-www-form-urlencoded'' \<and>
     (case map_of (rq_headers rq) ''content-length'' of
        None \<Rightarrow> True | Some n \<Rightarrow> all_digits n \<and> digits_value n \<le> OAUTH_FORM_MAX_BODY_BYTES) \<and>
     (\<exists>bytes. rq_body rq = Some bytes \<and> length bytes \<le> OAUTH_FORM_MAX_BODY_BYTES \<and>
        Option.bind (utf8_decode bytes) url_search_params = Some form) \<and> form_ok (pf_url pf) form"
  by (auto simp: readFormBody_def read_params_ok split: option.splits if_splits)

lemma authenticated_form_Inr:
  assumes "authenticated_form pf rq w = (Inr (form, client), w')" "\<not> isYoloEnabled (pf_env pf)"
  shows "form_ok (pf_url pf) form \<and> getClientById (w_db w) (oc_clientId client) = Some client \<and> oc_enabled client \<and>
    (\<exists>method. method \<in> set (oc_tokenEndpointAuthMethods client) \<and>
       client_proved pf (request.truncate rq) form client method w w') \<and>
    w' = w\<lparr>w_assertion_jtis := w_assertion_jtis w'\<rparr>"
  using assms authenticate_proves [of pf "request.truncate rq" form w client _ w']
  by (auto simp: authenticated_form_def route_bind_Inr route_io_Inr readFormBody_Inr)

section \<open>A concrete request\<close>

lemma percent_decode_plain: "37 \<notin> set bs \<Longrightarrow> percent_decode bs = bs"
  by (induction bs rule: percent_decode.induct) (auto split: option.splits)

lemma utf8_no_percent: "CHR ''%'' \<notin> set s \<Longrightarrow> (37 :: byte) \<notin> set (utf8_encode s)"
proof
  assume "CHR ''%'' \<notin> set s" "(37 :: byte) \<in> set (utf8_encode s)"
  then obtain c where c: "c \<in> set s" "(37 :: byte) \<in> set (utf8_char c)" by (auto simp: utf8_encode_def)
  have "unat (37 :: byte) = 37" by simp
  moreover have "ccode c div 64 < 64" "ccode c mod 64 < 128" using code_bound [of c] by linarith+
  ultimately have "ccode c = 37"
    using c(2) code_bound [of c] unat_of_nat_byte [of "ccode c"] unat_of_nat_byte [of "192 + ccode c div 64"]
      unat_of_nat_byte [of "128 + ccode c mod 64"]
    by (auto simp: utf8_char_def simp del: of_nat_add split: if_splits)
  then have "c = CHR ''%''" by (simp add: char_eq_code)
  with c(1) \<open>CHR ''%'' \<notin> set s\<close> show False by simp
qed

lemma form_decode_plain: "CHR ''%'' \<notin> set s \<Longrightarrow> CHR ''+'' \<notin> set s \<Longrightarrow> form_decode s = Some s"
proof -
  assume a: "CHR ''%'' \<notin> set s" "CHR ''+'' \<notin> set s"
  then have "map (\<lambda>c. if c = CHR ''+'' then CHR '' '' else c) s = s" by (intro map_idI) auto
  with a(1) show ?thesis by (simp add: form_decode_def percent_decode_plain utf8_no_percent utf8_decode_encode)
qed

definition demo_body :: string where
  "demo_body = ''grant_type=client_credentials&client_id=app&client_secret=s&scope=api&resource=r''"

definition demo_form :: form where
  "demo_form = [(''grant_type'', ''client_credentials''), (''client_id'', ''app''), (''client_secret'', ''s''),
     (''scope'', ''api''), (''resource'', ''r'')]"

lemma demo_body_parses: "url_search_params demo_body = Some demo_form"
  by (simp add: url_search_params_def demo_body_def demo_form_def form_pair_def form_decode_plain)

definition demo_request :: form_request where
  "demo_request = \<lparr>rq_headers = [(''content-type'', ''application/x-www-form-urlencoded; charset=utf-8'')], rq_url = ''/oauth/token'',
     rq_body = Some (utf8_encode demo_body)\<rparr>"

definition demo_secret_app :: OAuthClient where
  "demo_secret_app = demo_app\<lparr>oc_clientSecretHash := Some (sha256Hex demo_crypto ''s''),
     oc_tokenEndpointAuthMethods := [client_secret_post]\<rparr>"

definition demo_token_world :: world where
  "demo_token_world = demo_grant_world\<lparr>w_db := demo_grant_db\<lparr>t_oauth_clients := [demo_secret_app]\<rparr>\<rparr>"

lemma demo_form_read: "readFormBody demo_pf demo_request w = (Inr demo_form, w)"
proof -
  have ids: "STATIC_CLIENT_ID_PATTERN ''app''" by (simp add: STATIC_CLIENT_ID_PATTERN_def is_alnum_def is_lower_def)
  have "form_ok demo_url demo_form"
    using static_id_valid [OF ids]
    by (simp add: form_ok_def demo_form_def OAUTH_FORM_MAX_PARAMETERS_def validateOAuthParameter_def OAUTH_PARAMETER_NAME_def
        is_alnum_def is_lower_def utf8_length_def utf8_char_length_def OAUTH_PARAMETER_NAME_MAX_BYTES_def
        oauthParameterMaximumBytes_def OAUTH_PARAMETER_MAX_BYTES_def OAUTH_CLIENT_SECRET_MAX_BYTES_def)
  moreover have "media_type demo_request = Some ''application/x-www-form-urlencoded''"
    by (simp add: media_type_def demo_request_def js_trim_def is_ws_def ascii_lower_def is_upper_def)
  moreover have "length (utf8_encode demo_body) \<le> OAUTH_FORM_MAX_BODY_BYTES"
    by (simp add: length_utf8_encode utf8_length_def utf8_char_length_def demo_body_def OAUTH_FORM_MAX_BODY_BYTES_def)
  ultimately show ?thesis
    by (simp add: readFormBody_Inr demo_simps demo_request_def utf8_decode_encode demo_body_parses)
qed

lemma demo_authenticated:
  assumes "w_db w = demo_grant_db\<lparr>t_oauth_clients := [demo_secret_app]\<rparr>"
  shows "authenticated_form demo_pf demo_request w = (Inr (demo_form, demo_secret_app), w)"
proof -
  have ids: "STATIC_CLIENT_ID_PATTERN ''app''" by (simp add: STATIC_CLIENT_ID_PATTERN_def is_alnum_def is_lower_def)
  have sec: "validateOAuthParameter demo_url ''client_secret'' ''s'' = None"
    by (simp add: secret_valid utf8_length_def utf8_char_length_def OAUTH_CLIENT_SECRET_MAX_BYTES_def)
  have "authenticateClient demo_pf (request.truncate demo_request) demo_form w = (Inr (demo_secret_app, client_secret_post), w)"
    by (simp add: authenticateClient_def rq_header_def demo_request_def request.defs extractCredentials_def
        form_credentials_def form_get_def demo_form_def static_id_valid [OF ids] sec demo_simps assms getClientById_def
        prove_client_def io_then_def io_bind_def io_return_def demo_secret_app_def verifyClientSecret_def demo_client_def
        demo_app_def)
  then show ?thesis
    by (simp add: authenticated_form_def route_bind_def route_io_def demo_form_read io_return_def)
qed

lemma demo_grant_dispatch:
  assumes "w_db w = demo_grant_db\<lparr>t_oauth_clients := [demo_secret_app]\<rparr>"
  shows "\<exists>resp w'. dispatch_grant demo_pf demo_secret_app demo_form w = (Inr resp, w')"
proof -
  have p: "parseScopeString (Some ''api'') = [''api'']"
    using parse_serialize_words [of "[''api'']"] by (simp add: serializeScopes_def is_word_def is_ws_def)
  have r: "resolveResourceForScopes demo_url demo_env (w_db w) demo_secret_app (Some ''r'') [''api''] = Inr ''r''"
    unfolding assms by (subst resolveResourceForScopes_iff)
      (auto simp: getResourceByUri_def admits_def demo_grant_db_def demo_secret_app_def demo_app_def demo_client_def
        isPermissionGroupControlledScope_def RESOURCE_AUTHORIZED_SCOPES_def USER_ONLY_SCOPES_def)
  obtain issued where i: "issueServiceAccessToken demo_pf ''app'' ''r'' ''api'' = Inr issued"
    by (auto simp: issueServiceAccessToken_def signJwt_def demo_simps)
  have c: "oc_type demo_secret_app = confidential" "oc_clientId demo_secret_app = ''app''"
    "''client_credentials'' \<in> set (oc_allowedGrantTypes demo_secret_app)" "oc_allowedScopes demo_secret_app = [''openid'', ''api'']"
    by (simp_all add: demo_secret_app_def demo_simps)
  show ?thesis
    by (auto simp: dispatch_grant_def handleClientCredentials_def Let_def demo_audit form_get_def demo_form_def demo_simps p r i c
        USER_ONLY_SCOPES_def validateRequestedScopes_def serializeScopes_def io_bind_def io_then_def io_lift_def
        lift_failure_def io_return_def)
qed

lemma demo_limit_allows:
  "w_limiters w key = rl_empty \<Longrightarrow> 1 \<le> limit \<Longrightarrow>
     \<exists>l. enforceOAuthRateLimit demo_pf key limit 300 w = (Inr (), w\<lparr>w_limiters := (w_limiters w)(key := l)\<rparr>)"
  by (auto simp: enforce_allows checkRateLimit_def rl_check_def Let_def demo_simps rl_empty_def demo_pf_def split: prod.splits)

lemma demo_token_request: "\<exists>resp w'. token_endpoint demo_pf demo_request demo_token_world = (Inr resp, w')"
proof -
  have lim: "w_limiters demo_token_world = (\<lambda>_. rl_empty)"
    by (simp add: demo_token_world_def demo_grant_world_def demo_world_def)
  let ?k = "''oauth:token:ip:unknown''"
  obtain l where l: "enforceOAuthRateLimit demo_pf ?k 120 300 demo_token_world =
      (Inr (), demo_token_world\<lparr>w_limiters := (w_limiters demo_token_world)(?k := l)\<rparr>)" (is "_ = (_, ?w1)")
    using demo_limit_allows [of demo_token_world ?k 120] by (auto simp: lim)
  obtain l' where l': "enforceOAuthRateLimit demo_pf ''oauth:token:client:app'' 500 300 ?w1 =
      (Inr (), ?w1\<lparr>w_limiters := (w_limiters ?w1)(''oauth:token:client:app'' := l')\<rparr>)" (is "_ = (_, ?w2)")
    using demo_limit_allows [of ?w1 "''oauth:token:client:app''" 500] by (auto simp: lim)
  have db: "w_db ?w1 = demo_grant_db\<lparr>t_oauth_clients := [demo_secret_app]\<rparr>"
    "w_db ?w2 = demo_grant_db\<lparr>t_oauth_clients := [demo_secret_app]\<rparr>" by (simp_all add: demo_token_world_def)
  have h: "clientIpHash demo_pf demo_request = None"
    by (simp add: clientIpHash_def demo_request_def or_else_def)
  have c: "oc_type demo_secret_app = confidential" "oc_clientId demo_secret_app = ''app''"
    by (simp_all add: demo_secret_app_def demo_simps)
  from demo_grant_dispatch [OF db(2)] show ?thesis
    by (auto simp: token_endpoint_def route_bind_Inr ip_rate_limit_def h ip_or_unknown_def l demo_authenticated [OF db(1)]
        client_rate_limit_def c l' route_io_Inr)
qed

section \<open>Properties\<close>

text \<open>
  \<open>readFormBody\<close> accepts exactly the well-formed bodies: form-encoded, at most 64 KiB declared
  and received, at most 32 parameters, every one within its own syntax and length limit and none of
  them repeated; it returns the parsed parameters unchanged and in order, and touches no state.
\<close>

theorem form_body_exact:
  "readFormBody pf rq w = (Inr form, w') \<longleftrightarrow>
     w' = w \<and> media_type rq = Some ''application/x-www-form-urlencoded'' \<and>
     (case map_of (rq_headers rq) ''content-length'' of
        None \<Rightarrow> True | Some n \<Rightarrow> all_digits n \<and> digits_value n \<le> 65536) \<and>
     (\<exists>bytes. rq_body rq = Some bytes \<and> length bytes \<le> 65536 \<and>
        Option.bind (utf8_decode bytes) url_search_params = Some form) \<and>
     length form \<le> 32 \<and> distinct (map fst form) \<and>
     list_all (\<lambda>(k, v). validateOAuthParameter (pf_url pf) k v = None) form"
  by (simp add: readFormBody_Inr form_ok_def OAUTH_FORM_MAX_PARAMETERS_def OAUTH_FORM_MAX_BODY_BYTES_def cong: option.case_cong)



end
