(* ===== verification/Query_Strings.thy ===== *)
theory Query_Strings
  imports Oauth_Routes
begin

text \<open>
  The operations of \<open>URLSearchParams\<close> that change a query, and that a printed query is read back as
  the list of pairs it was printed from. A query is a list of name and value pairs.
\<close>

section \<open>Changing a query\<close>

definition params_count :: "form \<Rightarrow> string \<Rightarrow> nat" where
  "params_count q name = length (filter (\<lambda>p. fst p = name) q)"

definition params_delete :: "string \<Rightarrow> form \<Rightarrow> form" where
  "params_delete name q = filter (\<lambda>p. fst p \<noteq> name) q"

text \<open>\<open>set\<close>: the first pair of that name gets the value and the others go, or a pair is appended.\<close>

fun params_set :: "string \<Rightarrow> string \<Rightarrow> form \<Rightarrow> form" where
  "params_set name v [] = [(name, v)]"
| "params_set name v (p # q) =
     (if fst p = name then (name, v) # params_delete name q else p # params_set name v q)"

text \<open>The \<open>search\<close> of a URL after its parameters were changed.\<close>

definition search_of :: "form \<Rightarrow> string" where
  "search_of q = (if search_params q = [] then [] else ''?'' @ search_params q)"

section \<open>Reading a printed component\<close>

lemma percent_decode_step: "b \<noteq> 37 \<Longrightarrow> percent_decode (b # bs) = b # percent_decode bs"
  by (cases "(b # bs)" rule: percent_decode.cases) (auto split: option.splits)

lemma percent_decode_hex:
  "hex_value x = Some i \<Longrightarrow> hex_value y = Some j \<Longrightarrow>
     percent_decode (37 # x # y # bs) = word_of_nat (i * 16 + j) # percent_decode bs"
  by simp

lemma upper_hex_code: "n < 16 \<Longrightarrow> ccode (upper_hex_digit n) = (if n < 10 then 48 + n else 55 + n)"
  by (simp add: upper_hex_digit_def)

lemma utf8_upper_hex:
  assumes "n < 16"
  shows "utf8_char (upper_hex_digit n) = [word_of_nat (if n < 10 then 48 + n else 55 + n)]"
    "hex_value (word_of_nat (if n < 10 then 48 + n else 55 + n)) = Some n"
proof -
  show "utf8_char (upper_hex_digit n) = [word_of_nat (if n < 10 then 48 + n else 55 + n)]"
    using assms by (simp add: utf8_char_def upper_hex_code)
  have "unat (word_of_nat (if n < 10 then 48 + n else 55 + n) :: byte) = (if n < 10 then 48 + n else 55 + n)"
    using assms by (simp add: unat_of_nat)
  then show "hex_value (word_of_nat (if n < 10 then 48 + n else 55 + n)) = Some n"
    using assms by (simp add: hex_value_def Let_def)
qed

lemma percent_decode_byte: "percent_decode (utf8_encode (percent_byte b) @ bs) = b # percent_decode bs"
proof -
  let ?d = "\<lambda>n. word_of_nat (if n < 10 then 48 + n else 55 + n) :: byte"
  have lt: "unat b div 16 < 16" "unat b mod 16 < 16"
    using byte_bound [of b] by auto
  have "utf8_char (CHR ''%'') = [37]" by (simp add: utf8_char_def)
  then have "utf8_encode (percent_byte b) = [37, ?d (unat b div 16), ?d (unat b mod 16)]"
    using lt by (simp add: utf8_encode_def percent_byte_def utf8_upper_hex(1))
  then have "percent_decode (utf8_encode (percent_byte b) @ bs) =
      word_of_nat (unat b div 16 * 16 + unat b mod 16) # percent_decode bs"
    using percent_decode_hex [OF utf8_upper_hex(2) [OF lt(1)] utf8_upper_hex(2) [OF lt(2)]] by simp
  then show ?thesis by simp
qed

lemma utf8_encode_append: "utf8_encode (s @ t) = utf8_encode s @ utf8_encode t"
  by (simp add: utf8_encode_def)

lemma percent_decode_bytes:
  "percent_decode (utf8_encode (concat (map percent_byte cs)) @ bs) = cs @ percent_decode bs"
  by (induction cs) (simp_all add: utf8_encode_append percent_decode_byte, simp add: utf8_encode_def)

abbreviation unplus :: "string \<Rightarrow> string" where
  "unplus s \<equiv> map (\<lambda>c. if c = CHR ''+'' then CHR '' '' else c) s"

definition form_safe :: "char \<Rightarrow> bool" where
  "form_safe c = (is_alnum c \<or> c \<in> set ''*-._'')"

lemma form_safe_facts:
  assumes "form_safe c"
  shows "ccode c < 128" "ccode c \<noteq> 37" "c \<notin> set '' +%&=?#\"<>''" "ccode c \<noteq> 39" "ccode c > 32" "ccode c \<noteq> 127"
  using assms by (auto simp: form_safe_def is_alnum_def is_digit_def is_lower_def is_upper_def char_eq_code)

lemma form_encode_simps [simp]:
  "form_encode [] = []"
  "form_encode (c # s) =
     (if c = CHR '' '' then ''+'' else if form_safe c then [c] else concat (map percent_byte (utf8_char c))) @ form_encode s"
  by (auto simp: form_encode_def form_safe_def)

lemma percent_byte_chars: "c \<in> set (percent_byte b) \<Longrightarrow> c = CHR ''%'' \<or> is_alnum c"
  using byte_bound [of b]
  by (auto simp: percent_byte_def upper_hex_digit_def is_alnum_def is_digit_def is_upper_def is_lower_def
      split: if_splits)

lemma form_encode_chars: "c \<in> set (form_encode s) \<Longrightarrow> form_safe c \<or> c = CHR ''+'' \<or> c = CHR ''%''"
  by (induction s) (auto simp: form_safe_def dest: percent_byte_chars split: if_splits)

lemma unplus_percent: "unplus (concat (map percent_byte cs)) = concat (map percent_byte cs)"
proof (rule map_idI)
  fix c assume "c \<in> set (concat (map percent_byte cs))"
  then have "c = CHR ''%'' \<or> is_alnum c" by (auto dest: percent_byte_chars)
  then show "(if c = CHR ''+'' then CHR '' '' else c) = c"
    by (auto simp: is_alnum_def is_digit_def is_lower_def is_upper_def)
qed

lemma percent_decode_form: "percent_decode (utf8_encode (unplus (form_encode s))) = utf8_encode s"
proof (induction s)
  case (Cons c s)
  have "percent_decode (utf8_encode (unplus (if c = CHR '' '' then ''+'' else if form_safe c then [c]
      else concat (map percent_byte (utf8_char c)))) @ bs) = utf8_char c @ percent_decode bs" for bs
  proof (cases "c = CHR '' ''")
    case True
    then show ?thesis by (simp add: utf8_encode_def utf8_char_def percent_decode_step)
  next
    case False
    show ?thesis
    proof (cases "form_safe c")
      case True
      note f = form_safe_facts [OF True]
      have "unat (word_of_nat (ccode c) :: byte) = ccode c" using unat_of_nat_byte [of "ccode c"] code_bound [of c] by simp
      with f(2) have "(word_of_nat (ccode c) :: byte) \<noteq> 37" by auto
      with f False True show ?thesis by (simp add: utf8_encode_def utf8_char_def percent_decode_step)
    next
      case False
      with \<open>c \<noteq> CHR '' ''\<close> show ?thesis
        by (simp only: if_False unplus_percent percent_decode_bytes)
    qed
  qed
  with Cons show ?case by (simp add: utf8_encode_append) (simp add: utf8_encode_def)
qed (simp add: utf8_encode_def)

lemma form_decode_encode: "form_decode (form_encode s) = Some s"
  by (simp add: form_decode_def percent_decode_form utf8_decode_encode)

section \<open>Reading a printed query\<close>

abbreviation print_pair :: "string \<times> string \<Rightarrow> string" where
  "print_pair \<equiv> \<lambda>(k, v). form_encode k @ ''='' @ form_encode v"

lemma form_encode_avoids: "c \<in> set ''&=?#'' \<or> c \<in> set '' \"<>'' \<or> ccode c = 39 \<Longrightarrow> c \<notin> set (form_encode s)"
  by (auto dest!: form_encode_chars dest: form_safe_facts)

lemma form_pair_print: "form_pair (print_pair p) = Some p"
proof (cases p)
  case (Pair k v)
  have "takeWhile (\<lambda>c. c \<noteq> CHR ''='') (form_encode k @ ''='' @ form_encode v) = form_encode k"
    using form_encode_avoids [of "CHR ''=''" k] by (subst takeWhile_append2) auto
  with Pair show ?thesis by (simp add: form_pair_def form_decode_encode)
qed

lemma all_some_map: "(\<And>x. x \<in> set xs \<Longrightarrow> f (g x) = Some x) \<Longrightarrow> all_some (map f (map g xs)) = Some xs"
  by (induction xs) auto

lemma search_params_Cons_nonempty: "search_params (p # q) \<noteq> []"
  by (cases q) (auto simp: search_params_def split: prod.splits)

lemma search_params_empty [simp]: "search_params q = [] \<longleftrightarrow> q = []"
  by (cases q) (auto simp: search_params_Cons_nonempty, simp add: search_params_def)

lemma in_js_join: "c \<in> set (js_join sep xs) \<Longrightarrow> c \<in> set sep \<or> (\<exists>x\<in>set xs. c \<in> set x)"
  by (induction sep xs rule: js_join.induct) auto

lemma search_params_chars:
  "c \<in> set (search_params q) \<Longrightarrow> c = CHR ''&'' \<or> c = CHR ''='' \<or> form_safe c \<or> c = CHR ''+'' \<or> c = CHR ''%''"
  using form_encode_chars by (fastforce simp: search_params_def dest!: in_js_join)

lemma search_params_avoids: "c \<in> set ''?#'' \<or> c \<in> set '' \"<>'' \<or> ccode c = 39 \<Longrightarrow> c \<notin> set (search_params q)"
  by (auto dest!: search_params_chars dest: form_safe_facts)

text \<open>\<open>new URLSearchParams(params.toString())\<close> has the pairs of \<open>params\<close>.\<close>

lemma parse_search_params: "url_search_params (search_params q) = Some q"
proof (cases "q = []")
  case False
  have "CHR ''?'' \<notin> set (search_params q)" by (rule search_params_avoids) simp
  then have drop: "(case search_params q of c # cs \<Rightarrow> if c = CHR ''?'' then cs else search_params q | [] \<Rightarrow> []) = search_params q"
    using False by (auto split: list.splits)
  have "js_split (CHR ''&'') (search_params q) = map print_pair q"
    unfolding search_params_def using False form_encode_avoids [of "CHR ''&''"] by (subst js_split_join) auto
  moreover have "filter (\<lambda>s. s \<noteq> []) (map print_pair q) = map print_pair q" by (auto simp: filter_id_conv)
  ultimately show ?thesis
    by (simp only: url_search_params_def Let_def drop) (rule all_some_map, simp only: form_pair_print)
qed (simp add: url_search_params_def search_params_def)

lemma parse_search_of [simp]: "url_search_params (search_of q) = Some q"
proof (cases "q = []")
  case False
  have "url_search_params (CHR ''?'' # search_params q) = url_search_params (search_params q)" if "q \<noteq> []"
    using that search_params_avoids [of "CHR ''?''" q]
    by (cases "search_params q") (auto simp: url_search_params_def)
  with False show ?thesis by (simp add: search_of_def parse_search_params)
qed (simp add: search_of_def url_search_params_def)

section \<open>Laws of the operations\<close>

lemma form_get_delete [simp]: "form_get (params_delete k q) k' = (if k' = k then None else form_get q k')"
  by (induction q) (auto simp: form_get_def params_delete_def)

lemma form_get_set [simp]: "form_get (params_set k v q) k' = (if k' = k then Some v else form_get q k')"
proof (induction q)
  case (Cons p q)
  have "map_of (params_delete k q) k' = map_of q k'" if "k' \<noteq> k" using form_get_delete [of k q k'] that by (simp add: form_get_def)
  with Cons show ?case by (cases p) (auto simp: form_get_def)
qed (simp add: form_get_def)

lemma params_count_delete [simp]: "params_count (params_delete k q) k' = (if k' = k then 0 else params_count q k')"
  by (induction q) (auto simp: params_count_def params_delete_def)

lemma params_count_set [simp]: "params_count (params_set k v q) k' = (if k' = k then 1 else params_count q k')"
  using params_count_delete [of k]
  by (induction q) (auto simp: params_count_def split: if_splits)

lemma params_delete_idem [simp]: "params_delete k (params_delete k q) = params_delete k q"
  by (simp add: params_delete_def)

lemma params_delete_set [simp]: "params_delete k (params_set k v q) = params_delete k q"
  by (induction q) (auto simp: params_delete_def)

end
