(* ===== verification/Authorize.thy ===== *)
theory Authorize
  imports Client_Metadata Query_Strings
begin

text \<open>
  \<open>src/oauth/redirect.ts\<close>, \<open>src/oauth/post-logout.ts\<close> and \<open>src/oauth/authorize.ts\<close>: which redirect
  URIs are honoured, the validation of an authorization request, and the issue of a code.
\<close>

section \<open>redirect.ts\<close>

definition isLoopbackIpRedirectUri :: "url_parser \<Rightarrow> string \<Rightarrow> url option" where
  "isLoopbackIpRedirectUri parse_url raw =
     (case parse_url raw of
        None \<Rightarrow> None
      | Some url \<Rightarrow>
          if url_protocol url \<noteq> ''http:'' then None
          else if url_hostname url = ''127.0.0.1'' \<or> url_hostname url = ''[::1]'' then Some url else None)"

definition matchesLoopbackRedirectExceptPort :: "url_parser \<Rightarrow> string \<Rightarrow> string \<Rightarrow> bool" where
  "matchesLoopbackRedirectExceptPort parse_url registered presented =
     (case (isLoopbackIpRedirectUri parse_url registered, isLoopbackIpRedirectUri parse_url presented) of
        (Some registeredUrl, Some presentedUrl) \<Rightarrow>
          url_hostname registeredUrl = url_hostname presentedUrl \<and> url_username registeredUrl = url_username presentedUrl \<and>
          url_password registeredUrl = url_password presentedUrl \<and> url_pathname registeredUrl = url_pathname presentedUrl \<and>
          url_search registeredUrl = url_search presentedUrl \<and> url_hash registeredUrl = url_hash presentedUrl
      | _ \<Rightarrow> False)"

definition isRegisteredRedirectUri :: "url_parser \<Rightarrow> OAuthClient \<Rightarrow> string \<Rightarrow> bool" where
  "isRegisteredRedirectUri parse_url client redirectUri =
     (if redirectUri \<in> set (oc_redirectUris client) then True
      else oc_registrationType client = client_id_metadata \<and>
        list_ex (\<lambda>registered. matchesLoopbackRedirectExceptPort parse_url registered redirectUri) (oc_redirectUris client))"

definition invalid_url :: failure where "invalid_url = OtherFailure ''Invalid URL''"

definition formActionSource :: "url_parser \<Rightarrow> string \<Rightarrow> (failure, string) result" where
  "formActionSource parse_url redirectUri =
     (case parse_url redirectUri of
        None \<Rightarrow> Inl invalid_url
      | Some url \<Rightarrow> Inr (if url_origin url = ''null'' then url_protocol url else url_origin url))"

definition outside_alphabet :: failure where
  "outside_alphabet = OtherFailure ''text outside of the modelled alphabet''"

definition buildRedirectUrl :: "url_parser \<Rightarrow> string \<Rightarrow> form \<Rightarrow> (failure, string) result" where
  "buildRedirectUrl parse_url redirectUri params =
     (case parse_url redirectUri of
        None \<Rightarrow> Inl invalid_url
      | Some url \<Rightarrow>
          if params = [] then Inr (url_href url)
          else case url_search_params (url_search url) of
                 None \<Rightarrow> Inl outside_alphabet
               | Some q \<Rightarrow>
                   Inr (url_href (url\<lparr>url_search := search_of (fold (\<lambda>(k, v). params_set k v) params q)\<rparr>)))"

section \<open>post-logout.ts\<close>

definition isSafePostLogoutRedirectUri :: "url_parser \<Rightarrow> string \<Rightarrow> bool" where
  "isSafePostLogoutRedirectUri parse_url v =
     (case parse_url v of
        None \<Rightarrow> False
      | Some url \<Rightarrow>
          if url_username url \<noteq> [] \<or> url_password url \<noteq> [] \<or> url_hash url \<noteq> [] then False
          else url_protocol url = ''https:'' \<or>
            (url_protocol url = ''http:'' \<and>
             (url_hostname url = ''localhost'' \<or> url_hostname url = ''127.0.0.1'' \<or> url_hostname url = ''[::1]'')))"

section \<open>authorize.ts: the request\<close>

datatype AuthorizePrompt = prompt_none | prompt_login | prompt_consent

record AuthorizeParams =
  ap_clientId :: string
  ap_client :: OAuthClient
  ap_redirectUri :: string
  ap_scopes :: "string list"
  ap_resource :: string
  ap_state :: "string option"
  ap_nonce :: "string option"
  ap_codeChallenge :: string
  ap_prompts :: "AuthorizePrompt list"
  ap_maxAge :: "nat option"

datatype page_reason = page_invalid_request | page_invalid_client | page_invalid_redirect_uri

datatype AuthorizeValidation =
    invalid_request_page string page_reason "string option"
  | error_redirect string "string option" OAuthErrorCode string
  | validated AuthorizeParams

definition parse_prompt :: "string \<Rightarrow> AuthorizePrompt option" where
  "parse_prompt s =
     (if s = ''none'' then Some prompt_none else if s = ''login'' then Some prompt_login
      else if s = ''consent'' then Some prompt_consent else None)"

definition parsePrompts :: "string option \<Rightarrow> AuthorizePrompt list option" where
  "parsePrompts raw =
     (case raw of
        None \<Rightarrow> Some []
      | Some r \<Rightarrow>
          (let values = js_dedup (filter (\<lambda>v. v \<noteq> []) (split_ws (js_trim r)))
           in if values = [] \<or> list_ex (\<lambda>v. parse_prompt v = None) values \<or>
                 (''none'' \<in> set values \<and> length values \<noteq> 1) then None
              else all_some (map parse_prompt values)))"

text \<open>\<open>None\<close> is \<open>undefined\<close> (a malformed value), \<open>Some None\<close> is \<open>null\<close> (no value).\<close>

definition parseMaxAge :: "string option \<Rightarrow> nat option option" where
  "parseMaxAge raw =
     (case raw of
        None \<Rightarrow> Some None
      | Some r \<Rightarrow>
          if \<not> (r = ''0'' \<or> (all_digits r \<and> hd r \<noteq> CHR ''0'')) then None
          else if digits_value r \<le> 9007199254740991 then Some (Some (digits_value r)) else None)"

definition SINGLE_PARAMETERS :: "string list" where
  "SINGLE_PARAMETERS = [''response_type'', ''scope'', ''state'', ''nonce'', ''code_challenge'', ''code_challenge_method'',
     ''resource'', ''prompt'', ''max_age'']"

text \<open>The part of \<open>validateAuthorizeRequest\<close> after the redirect URI is proven registered.\<close>

definition validate_details ::
  "platform \<Rightarrow> db \<Rightarrow> form \<Rightarrow> string \<Rightarrow> OAuthClient \<Rightarrow> string \<Rightarrow> AuthorizeValidation" where
  "validate_details pf db query clientId client redirectUri =
     (let yolo = isYoloEnabled (pf_env pf); state = form_get query ''state'';
          codeChallenge = form_get query ''code_challenge'';
          scopes = parseScopeString (form_get query ''scope'')
      in case find (\<lambda>name. params_count query name > 1) SINGLE_PARAMETERS of
           Some name \<Rightarrow> error_redirect redirectUri None invalid_request (name @ '' must not appear more than once'')
         | None \<Rightarrow>
             if \<not> yolo \<and> ''authorization_code'' \<notin> set (oc_allowedGrantTypes client) then
               error_redirect redirectUri state unauthorized_client ''Flow not permitted for client''
             else if \<not> yolo \<and> form_get query ''response_type'' \<noteq> Some ''code'' then
               error_redirect redirectUri state unsupported_response_type ''response_type must be code''
             else if \<not> yolo \<and> ((case codeChallenge of None \<Rightarrow> True | Some ch \<Rightarrow> \<not> isValidS256Challenge ch) \<or>
                 form_get query ''code_challenge_method'' \<noteq> Some ''S256'') then
               error_redirect redirectUri state invalid_request ''PKCE with S256 is required''
             else if \<not> yolo \<and> length scopes = 0 then
               error_redirect redirectUri state invalid_scope ''At least one scope is required''
             else case parsePrompts (form_get query ''prompt'') of
               None \<Rightarrow> error_redirect redirectUri state invalid_request
                         ''prompt must contain only none, login, or consent; none cannot be combined''
             | Some prompts \<Rightarrow>
                 (case parseMaxAge (form_get query ''max_age'') of
                    None \<Rightarrow> error_redirect redirectUri state invalid_request ''max_age must be a non-negative integer''
                  | Some maxAge \<Rightarrow>
                      (case validateRequestedScopes scopes (oc_allowedScopes client) of
                         Inl e \<Rightarrow> error_redirect redirectUri state (err_code e) (err_message e)
                       | Inr validatedScopes \<Rightarrow>
                           (case resolveResourceForScopes (pf_url pf) (pf_env pf) db client
                                   (form_get query ''resource'') validatedScopes of
                              Inl e \<Rightarrow> error_redirect redirectUri state (err_code e) (err_message e)
                            | Inr resource \<Rightarrow>
                                validated \<lparr>ap_clientId = clientId, ap_client = client, ap_redirectUri = redirectUri,
                                  ap_scopes = validatedScopes, ap_resource = resource, ap_state = state,
                                  ap_nonce = form_get query ''nonce'',
                                  ap_codeChallenge = (case codeChallenge of Some ch \<Rightarrow> ch | None \<Rightarrow> []),
                                  ap_prompts = prompts, ap_maxAge = maxAge\<rparr>))))"

definition validateAuthorizeRequest :: "platform \<Rightarrow> form \<Rightarrow> AuthorizeValidation io" where
  "validateAuthorizeRequest pf query w =
     (let yolo = isYoloEnabled (pf_env pf)
      in if \<not> yolo \<and> validateOAuthParameterSet (pf_url pf) query \<noteq> None then
           io_return (invalid_request_page ''The authorization request contains invalid or oversized parameters.''
             page_invalid_request None) w
         else if params_count query ''client_id'' \<noteq> 1 then
           io_return (invalid_request_page ''client_id must appear exactly once.'' page_invalid_request None) w
         else case form_get query ''client_id'' of
           None \<Rightarrow> io_return (invalid_request_page ''Missing client_id.'' page_invalid_request None) w
         | Some clientId \<Rightarrow>
             (case resolveAuthorizationClient pf clientId
                     (if params_count query ''resource'' = 1 then form_get query ''resource'' else None) w of
                (Inl (FetchFailure m), w1) \<Rightarrow> io_throw (OtherFailure m) w1
              | (Inl (ClientIdMetadataError _), w1) \<Rightarrow>
                  io_return (invalid_request_page ''The client metadata document could not be validated.''
                    page_invalid_client (Some clientId)) w1
              | (Inr None, w1) \<Rightarrow>
                  io_return (invalid_request_page ''Unknown client.'' page_invalid_client (Some clientId)) w1
              | (Inr (Some client), w1) \<Rightarrow>
                  if \<not> oc_enabled client then
                    io_return (invalid_request_page ''Unknown client.'' page_invalid_client (Some clientId)) w1
                  else if params_count query ''redirect_uri'' \<noteq> 1 then
                    io_return (invalid_request_page ''redirect_uri must appear exactly once.'' page_invalid_redirect_uri
                      (Some clientId)) w1
                  else
                    (case form_get query ''redirect_uri'' of
                       None \<Rightarrow> io_return (invalid_request_page ''Invalid redirect_uri.'' page_invalid_redirect_uri
                                 (Some clientId)) w1
                     | Some redirectUri \<Rightarrow>
                         if \<not> yolo \<and> \<not> isRegisteredRedirectUri (pf_url pf) client redirectUri then
                           io_return (invalid_request_page ''Invalid redirect_uri.'' page_invalid_redirect_uri
                             (Some clientId)) w1
                         else io_return (validate_details pf (w_db w1) query clientId client redirectUri) w1)))"

section \<open>authorize.ts: the code\<close>

definition code_payload ::
  "platform \<Rightarrow> db \<Rightarrow> AuthorizeParams \<Rightarrow> AuthenticatedSession \<Rightarrow> AuthorizationCodePayload" where
  "code_payload pf db params subject =
     \<lparr>ac_issuer = ISSUER (pf_env pf), ac_clientId = ap_clientId params, ac_userId = u_id (as_user subject),
      ac_redirectUri = ap_redirectUri params, ac_scope = serializeScopes (ap_scopes params),
      ac_resource = ap_resource params,
      ac_resourceRequired = (case getResourceByUri db (ap_resource params) of None \<Rightarrow> False | Some r \<Rightarrow> rs_mcpEnabled r),
      ac_metadataFingerprint = oc_metadataFingerprint (ap_client params),
      ac_codeChallenge = ap_codeChallenge params, ac_nonce = ap_nonce params,
      ac_authTime = sr_authTime (as_session subject), ac_sessionId = sr_id (as_session subject)\<rparr>"

definition issueAuthorizationCode :: "platform \<Rightarrow> AuthorizeParams \<Rightarrow> AuthenticatedSession \<Rightarrow> string io" where
  "issueAuthorizationCode pf params subject w =
     (let code = randomToken (pf_random pf ''authorization-code''); name = hashOpaqueToken (pf_crypto pf) code;
          payload = code_payload pf (w_db w) params subject
      in if pf_do_rejects pf 0 name then io_throw DurableObjectFailure w
         else io_return code (w\<lparr>w_codes := (w_codes w)(name :=
                ot_store (pf_nowMs pf) payload (ttl_authorizationCode TOKEN_TTL) (w_codes w name))\<rparr>))"

section \<open>Exactly which requests are valid\<close>

text \<open>What a request must say, and what its client must allow, with YOLO mode off.\<close>

definition request_valid :: "platform \<Rightarrow> db \<Rightarrow> form \<Rightarrow> AuthorizeParams \<Rightarrow> bool" where
  "request_valid pf db query params =
     (let client = ap_client params
      in oc_enabled client \<and> isRegisteredRedirectUri (pf_url pf) client (ap_redirectUri params) \<and>
         ''authorization_code'' \<in> set (oc_allowedGrantTypes client) \<and>
         list_all (\<lambda>name. params_count query name \<le> 1) SINGLE_PARAMETERS \<and>
         params_count query ''client_id'' = 1 \<and> form_get query ''client_id'' = Some (ap_clientId params) \<and>
         params_count query ''redirect_uri'' = 1 \<and> form_get query ''redirect_uri'' = Some (ap_redirectUri params) \<and>
         form_get query ''response_type'' = Some ''code'' \<and>
         form_get query ''code_challenge'' = Some (ap_codeChallenge params) \<and>
         isValidS256Challenge (ap_codeChallenge params) \<and> form_get query ''code_challenge_method'' = Some ''S256'' \<and>
         ap_scopes params = parseScopeString (form_get query ''scope'') \<and> ap_scopes params \<noteq> [] \<and>
         set (ap_scopes params) \<subseteq> set (oc_allowedScopes client) \<and>
         resolveResourceForScopes (pf_url pf) (pf_env pf) db client (form_get query ''resource'') (ap_scopes params) =
           Inr (ap_resource params) \<and>
         parsePrompts (form_get query ''prompt'') = Some (ap_prompts params) \<and>
         parseMaxAge (form_get query ''max_age'') = Some (ap_maxAge params) \<and>
         ap_state params = form_get query ''state'' \<and> ap_nonce params = form_get query ''nonce'')"

lemma find_count_None:
  "find (\<lambda>name. params_count query name > 1) names = None \<longleftrightarrow> list_all (\<lambda>name. params_count query name \<le> 1) names"
  by (auto simp: find_None_iff list_all_iff not_less)

lemma validate_details_validated:
  assumes "\<not> isYoloEnabled (pf_env pf)"
  shows "validate_details pf db query clientId client redirectUri = validated params \<longleftrightarrow>
    ap_client params = client \<and> ap_clientId params = clientId \<and> ap_redirectUri params = redirectUri \<and>
    ''authorization_code'' \<in> set (oc_allowedGrantTypes client) \<and>
    list_all (\<lambda>name. params_count query name \<le> 1) SINGLE_PARAMETERS \<and>
    form_get query ''response_type'' = Some ''code'' \<and>
    form_get query ''code_challenge'' = Some (ap_codeChallenge params) \<and>
    isValidS256Challenge (ap_codeChallenge params) \<and> form_get query ''code_challenge_method'' = Some ''S256'' \<and>
    ap_scopes params = parseScopeString (form_get query ''scope'') \<and> ap_scopes params \<noteq> [] \<and>
    set (ap_scopes params) \<subseteq> set (oc_allowedScopes client) \<and>
    resolveResourceForScopes (pf_url pf) (pf_env pf) db client (form_get query ''resource'') (ap_scopes params) =
      Inr (ap_resource params) \<and>
    parsePrompts (form_get query ''prompt'') = Some (ap_prompts params) \<and>
    parseMaxAge (form_get query ''max_age'') = Some (ap_maxAge params) \<and>
    ap_state params = form_get query ''state'' \<and> ap_nonce params = form_get query ''nonce''"
    (is "?run \<longleftrightarrow> ?spec")
proof
  assume ?run
  then show ?spec
    using assms
    by (auto simp: validate_details_def Let_def find_count_None [simplified] validateRequestedScopes_iff
        split: option.splits if_splits sum.splits)
next
  assume spec: ?spec
  then have "validateRequestedScopes (parseScopeString (form_get query ''scope'')) (oc_allowedScopes client) =
      Inr (ap_scopes params)"
    by (auto simp: validateRequestedScopes_iff)
  moreover from spec have "find (\<lambda>name. params_count query name > 1) SINGLE_PARAMETERS = None"
    by (simp add: find_count_None [simplified])
  ultimately show ?run
    using spec assms by (cases params) (auto simp: validate_details_def Let_def)
qed

text \<open>The resource parameter the client is resolved with.\<close>

definition single_resource :: "form \<Rightarrow> string option" where
  "single_resource query = (if params_count query ''resource'' = 1 then form_get query ''resource'' else None)"

lemma validate_past_client:
  assumes "\<not> isYoloEnabled (pf_env pf)" "validateAuthorizeRequest pf query w = (Inr v, w')"
    "\<not> (\<exists>d r c. v = invalid_request_page d r c)"
  obtains clientId client redirectUri where "validateOAuthParameterSet (pf_url pf) query = None"
    "params_count query ''client_id'' = 1" "form_get query ''client_id'' = Some clientId"
    "resolveAuthorizationClient pf clientId (single_resource query) w = (Inr (Some client), w')"
    "oc_enabled client" "params_count query ''redirect_uri'' = 1" "form_get query ''redirect_uri'' = Some redirectUri"
    "isRegisteredRedirectUri (pf_url pf) client redirectUri"
    "v = validate_details pf (w_db w') query clientId client redirectUri"
proof -
  have "\<exists>clientId client redirectUri. validateOAuthParameterSet (pf_url pf) query = None \<and>
    params_count query ''client_id'' = 1 \<and> form_get query ''client_id'' = Some clientId \<and>
    resolveAuthorizationClient pf clientId (single_resource query) w = (Inr (Some client), w') \<and>
    oc_enabled client \<and> params_count query ''redirect_uri'' = 1 \<and> form_get query ''redirect_uri'' = Some redirectUri \<and>
    isRegisteredRedirectUri (pf_url pf) client redirectUri \<and>
    v = validate_details pf (w_db w') query clientId client redirectUri"
    using assms unfolding validateAuthorizeRequest_def single_resource_def [symmetric]
    by (auto simp: Let_def split: option.splits if_splits sum.splits prod.splits fetch_error.splits)
  with that show ?thesis by blast
qed

lemma validate_validated:
  assumes "\<not> isYoloEnabled (pf_env pf)"
  shows "validateAuthorizeRequest pf query w = (Inr (validated params), w') \<longleftrightarrow>
    validateOAuthParameterSet (pf_url pf) query = None \<and>
    resolveAuthorizationClient pf (ap_clientId params) (single_resource query) w = (Inr (Some (ap_client params)), w') \<and>
    request_valid pf (w_db w') query params"
proof
  assume run: "validateAuthorizeRequest pf query w = (Inr (validated params), w')"
  obtain clientId client redirectUri where v: "validateOAuthParameterSet (pf_url pf) query = None"
    "params_count query ''client_id'' = 1" "form_get query ''client_id'' = Some clientId"
    "resolveAuthorizationClient pf clientId (single_resource query) w = (Inr (Some client), w')"
    "oc_enabled client" "params_count query ''redirect_uri'' = 1" "form_get query ''redirect_uri'' = Some redirectUri"
    "isRegisteredRedirectUri (pf_url pf) client redirectUri"
    "validated params = validate_details pf (w_db w') query clientId client redirectUri"
    using validate_past_client [OF assms run] by blast
  from v(9) [symmetric] show "validateOAuthParameterSet (pf_url pf) query = None \<and>
    resolveAuthorizationClient pf (ap_clientId params) (single_resource query) w = (Inr (Some (ap_client params)), w') \<and>
    request_valid pf (w_db w') query params"
    unfolding validate_details_validated [OF assms] request_valid_def Let_def using v(1-8) by auto
next
  assume spec: "validateOAuthParameterSet (pf_url pf) query = None \<and>
    resolveAuthorizationClient pf (ap_clientId params) (single_resource query) w = (Inr (Some (ap_client params)), w') \<and>
    request_valid pf (w_db w') query params"
  then have "validate_details pf (w_db w') query (ap_clientId params) (ap_client params) (ap_redirectUri params) = validated params"
    unfolding validate_details_validated [OF assms] by (auto simp: request_valid_def Let_def)
  with spec show "validateAuthorizeRequest pf query w = (Inr (validated params), w')"
    unfolding validateAuthorizeRequest_def single_resource_def [symmetric]
    by (simp add: request_valid_def Let_def)
qed

text \<open>An error is sent to a redirect URI only when it is registered for an enabled client.\<close>

lemma validate_error_redirect:
  assumes "\<not> isYoloEnabled (pf_env pf)" "validateAuthorizeRequest pf query w = (Inr (error_redirect uri state err d), w')"
  shows "\<exists>clientId client. resolveAuthorizationClient pf clientId (single_resource query) w = (Inr (Some client), w') \<and>
    oc_enabled client \<and> isRegisteredRedirectUri (pf_url pf) client uri"
proof -
  obtain clientId client redirectUri where
    "resolveAuthorizationClient pf clientId (single_resource query) w = (Inr (Some client), w')" "oc_enabled client"
    "isRegisteredRedirectUri (pf_url pf) client redirectUri"
    "error_redirect uri state err d = validate_details pf (w_db w') query clientId client redirectUri"
    using validate_past_client [OF assms] by blast
  moreover from this(4) have "uri = redirectUri"
    by (auto simp: validate_details_def Let_def split: option.splits if_splits sum.splits)
  ultimately show ?thesis by blast
qed

section \<open>What a redirect carries\<close>

lemma form_get_Cons: "form_get ((a, b) # q) k = (if k = a then Some b else form_get q k)"
  by (simp add: form_get_def)

lemma form_get_fold_set:
  "distinct (map fst ps) \<Longrightarrow>
     form_get (fold (\<lambda>(k, v). params_set k v) ps q) k = (case form_get ps k of Some v \<Rightarrow> Some v | None \<Rightarrow> form_get q k)"
proof (induction ps arbitrary: q)
  case (Cons p ps)
  have "form_get ps (fst p) = None" using Cons.prems by (auto simp: form_get_def map_of_eq_None_iff)
  with Cons show ?case by (cases p) (auto simp: form_get_Cons split: option.splits)
qed (simp add: form_get_def)

lemma params_count_fold_set:
  "params_count (fold (\<lambda>(k, v). params_set k v) ps q) k = (if k \<in> fst ` set ps then 1 else params_count q k)"
  by (induction ps arbitrary: q) (auto split: prod.splits)

section \<open>Properties\<close>

text \<open>
  C13. An authorization request is accepted exactly when it should be. Outside of YOLO mode the
  validation accepts a query if and only if its parameters are within the limits, the client
  resolves and is enabled, the redirect URI appears once and is registered for the client, no
  parameter is repeated, the response type is \<open>code\<close> and the client may use the flow, an S256
  challenge is given, at least one scope is asked for and all are allowed to the client and by the
  resource, and \<open>prompt\<close> and \<open>max_age\<close> are well formed; the accepted parameters are those of the query.
\<close>

theorem authorize_request_exact:
  assumes "\<not> isYoloEnabled (pf_env pf)"
  shows "validateAuthorizeRequest pf query w = (Inr (validated params), w') \<longleftrightarrow>
    validateOAuthParameterSet (pf_url pf) query = None \<and>
    resolveAuthorizationClient pf (ap_clientId params) (single_resource query) w = (Inr (Some (ap_client params)), w') \<and>
    request_valid pf (w_db w') query params"
  using assms by (rule validate_validated)

definition demo_query :: form where
  "demo_query = [(''client_id'', ''app''), (''redirect_uri'', ''https://app/cb''), (''response_type'', ''code''),
     (''scope'', ''openid''), (''state'', ''x''), (''code_challenge'', replicate 43 CHR ''a''),
     (''code_challenge_method'', ''S256''), (''resource'', ''r'')]"

definition demo_authorize :: AuthorizeParams where
  "demo_authorize = \<lparr>ap_clientId = ''app'', ap_client = demo_app, ap_redirectUri = ''https://app/cb'',
     ap_scopes = [''openid''], ap_resource = ''r'', ap_state = Some ''x'', ap_nonce = None,
     ap_codeChallenge = replicate 43 CHR ''a'', ap_prompts = [], ap_maxAge = None\<rparr>"

lemma demo_query_limits: "validateOAuthParameterSet u demo_query = None"
  using utf8_length_ascii [of "replicate 43 CHR ''a''"]
  by (simp add: list_all_iff validateOAuthParameterSet_def demo_query_def OAUTH_FORM_MAX_PARAMETERS_def validateOAuthParameter_def
      OAUTH_PARAMETER_NAME_MAX_BYTES_def OAUTH_PARAMETER_NAME_def isValidOAuthClientId_def STATIC_CLIENT_ID_PATTERN_def
      oauthParameterMaximumBytes_def OAUTH_PARAMETER_MAX_BYTES_def is_alnum_def is_digit_def is_lower_def is_upper_def
      utf8_length_ascii CLIENT_IDENTIFIER_URL_MAX_BYTES_def)

lemma demo_client_resolved:
  "w_db w = demo_grant_db \<Longrightarrow>
     resolveAuthorizationClient pf ''app'' (single_resource demo_query) w = (Inr (Some demo_app), w)"
proof -
  assume "w_db w = demo_grant_db"
  then have "getClientById (w_db w) ''app'' = Some demo_app"
    by (simp add: getClientById_def demo_grant_db_def demo_app_def demo_client_def)
  then show ?thesis by (simp add: resolveAuthorizationClient_def demo_app_def demo_client_def)
qed

lemma demo_request_valid:
  assumes "pf_env pf = demo_env"
  shows "request_valid pf demo_grant_db demo_query demo_authorize"
proof -
  have "isValidS256Challenge (replicate 43 CHR ''a'')"
    by (simp add: isValidS256Challenge_def list_all_iff is_b64url_char_def is_alnum_def is_lower_def)
  moreover have "resolveResourceForScopes u demo_env demo_grant_db demo_app (Some ''r'') [''openid''] = Inr ''r''" for u
    by (subst resolveResourceForScopes_iff)
      (auto simp: getResourceByUri_def admits_def demo_grant_db_def demo_app_def demo_client_def
        isPermissionGroupControlledScope_def RESOURCE_AUTHORIZED_SCOPES_def USER_ONLY_SCOPES_def)
  ultimately show ?thesis
    by (simp add: request_valid_def Let_def demo_authorize_def demo_query_def form_get_def params_count_def
        SINGLE_PARAMETERS_def parse_openid parsePrompts_def parseMaxAge_def isRegisteredRedirectUri_def assms)
      (simp add: demo_app_def demo_client_def)
qed

theorem authorize_request_exact_witness:
  "validateAuthorizeRequest demo_pf demo_query demo_grant_world = (Inr (validated demo_authorize), demo_grant_world)"
proof -
  have "w_db demo_grant_world = demo_grant_db" "ap_clientId demo_authorize = ''app''" "ap_client demo_authorize = demo_app"
    "pf_env demo_pf = demo_env"
    by (simp_all add: demo_grant_world_def demo_authorize_def demo_pf_def)
  with demo_client_resolved demo_request_valid demo_query_limits show ?thesis
    by (simp add: authorize_request_exact [OF demo_not_yolo(1)])
qed

text \<open>
  The authorization response reaches the client unchanged. The URL built from a redirect URI is
  that URI with only its query changed; a client that parses the query finds every response
  parameter exactly once with the very value that was sent, and its own parameters untouched.
\<close>

theorem redirect_carries_response:
  assumes "buildRedirectUrl parse_url redirectUri ps = Inr location" "distinct (map fst ps)" "ps \<noteq> []"
  shows "\<exists>url own received. parse_url redirectUri = Some url \<and> url_search_params (url_search url) = Some own \<and>
    location = url_prefix url @ url_pathname url @ search_of received @ url_hash url \<and>
    url_search_params (search_of received) = Some received \<and>
    (\<forall>k. form_get received k = (case form_get ps k of Some v \<Rightarrow> Some v | None \<Rightarrow> form_get own k) \<and>
         params_count received k = (if k \<in> fst ` set ps then 1 else params_count own k))"
proof -
  obtain url own where u: "parse_url redirectUri = Some url" "url_search_params (url_search url) = Some own"
    "location = url_href (url\<lparr>url_search := search_of (fold (\<lambda>(k, v). params_set k v) ps own)\<rparr>)"
    using assms(1,3) by (auto simp: buildRedirectUrl_def split: option.splits)
  show ?thesis
    using u form_get_fold_set [OF assms(2), of own] params_count_fold_set [of ps own]
    by (intro exI [of _ url] exI [of _ own] exI [of _ "fold (\<lambda>(k, v). params_set k v) ps own"])
      (simp add: url_href_def)
qed

theorem redirect_carries_response_witness:
  "\<exists>location received. buildRedirectUrl demo_url ''/cb'' [(''code'', ''a b&c''), (''state'', ''x=y'')] = Inr location \<and>
    location = ''https://host/cb'' @ search_of received \<and> url_search_params (search_of received) = Some received \<and>
    form_get received ''code'' = Some ''a b&c'' \<and> form_get received ''state'' = Some ''x=y''"
proof -
  let ?ps = "[(''code'', ''a b&c''), (''state'', ''x=y'')]"
  obtain location where loc: "buildRedirectUrl demo_url ''/cb'' ?ps = Inr location"
    by (simp add: buildRedirectUrl_def demo_url_def url_search_params_def)
  have ps: "distinct (map fst ?ps)" "?ps \<noteq> []" by simp_all
  obtain url own received where r: "demo_url ''/cb'' = Some url"
    "location = url_prefix url @ url_pathname url @ search_of received @ url_hash url"
    "\<forall>k. form_get received k = (case form_get ?ps k of Some v \<Rightarrow> Some v | None \<Rightarrow> form_get own k)"
    using redirect_carries_response [OF loc ps] by blast
  have "form_get received ''code'' = Some ''a b&c''" "form_get received ''state'' = Some ''x=y''"
    using r(3) by (simp_all add: form_get_Cons)
  with loc r(1,2) show ?thesis by (intro exI [of _ location] exI [of _ received]) (auto simp: demo_url_def)
qed

end
