(* ===== verification/Reauthentication.thy ===== *)
theory Reauthentication
  imports Authorize
begin

text \<open>
  \<open>src/security/reauth-continuation.ts\<close>: the proof that a new session has just authenticated for
  one authorization request. It is minted by the login completion, bound to the session and to
  the canonical request, and consumed once by the authorization endpoint, which then drops the
  interaction requirements that the login has satisfied.
\<close>

section \<open>Definitions\<close>

definition REAUTH_PROOF_PARAM :: string where "REAUTH_PROOF_PARAM = ''_keyforge_reauth''"
definition REAUTH_PROOF_TTL_SECONDS :: int where "REAUTH_PROOF_TTL_SECONDS = 5 * 60"

text \<open>
  \<open>new URL(ref, \"https://keyforge.invalid\")\<close> on a reference that starts with a slash: its path and
  query. A reference with two slashes names a host of its own.
\<close>

definition local_url :: "url_parser \<Rightarrow> string \<Rightarrow> (string \<times> string) option" where
  "local_url parse_url ref =
     (if starts_with ''//'' ref
      then map_option (\<lambda>u. (url_pathname u, url_search u)) (parse_url (''https:'' @ ref))
      else (let (pathname, search, hash) = parse_local ref in Some (pathname, search)))"

definition canonicalReturnTo :: "url_parser \<Rightarrow> string \<Rightarrow> (failure, string) result" where
  "canonicalReturnTo parse_url raw =
     (case local_url parse_url (safeLocalPath (Some raw)) of
        None \<Rightarrow> Inl invalid_url
      | Some (pathname, search) \<Rightarrow>
          (case url_search_params search of
             None \<Rightarrow> Inl outside_alphabet
           | Some q \<Rightarrow> Inr (pathname @ search_of (params_delete REAUTH_PROOF_PARAM q))))"

definition reauth_row_for :: "platform \<Rightarrow> string \<Rightarrow> string \<Rightarrow> string \<Rightarrow> reauth_row" where
  "reauth_row_for pf token sessionId returnTo =
     \<lparr>ra_tokenHash = hashOpaqueToken (pf_crypto pf) token, ra_sessionId = sessionId,
      ra_requestHash = sha256Hex (pf_crypto pf) returnTo, ra_expiresAt = pf_now pf + REAUTH_PROOF_TTL_SECONDS,
      ra_createdAt = pf_now pf, ra_consumedAt = None\<rparr>"

definition insert_reauth :: "reauth_row \<Rightarrow> unit io" where
  "insert_reauth row w =
     (if list_ex (\<lambda>r. ra_tokenHash r = ra_tokenHash row) (t_reauth_continuations (w_db w)) \<or>
         \<not> list_ex (\<lambda>s. sr_id s = ra_sessionId row) (t_sessions (w_db w))
      then (Inl DatabaseFailure, w)
      else (Inr (), w\<lparr>w_db := (w_db w)\<lparr>t_reauth_continuations := t_reauth_continuations (w_db w) @ [row]\<rparr>\<rparr>))"

definition createReauthContinuation :: "platform \<Rightarrow> string \<Rightarrow> string \<Rightarrow> string io" where
  "createReauthContinuation pf sessionId rawReturnTo w =
     (case canonicalReturnTo (pf_url pf) rawReturnTo of
        Inl e \<Rightarrow> io_throw e w
      | Inr returnTo \<Rightarrow>
          (case local_url (pf_url pf) returnTo of
             None \<Rightarrow> io_throw invalid_url w
           | Some (pathname, search) \<Rightarrow>
               if pathname \<noteq> ''/oauth/authorize'' then io_return returnTo w
               else (let token = randomToken (pf_random pf ''reauth-proof'')
                     in case url_search_params search of
                          None \<Rightarrow> io_throw outside_alphabet w
                        | Some q \<Rightarrow>
                            io_then (insert_reauth (reauth_row_for pf token sessionId returnTo))
                              (io_return (pathname @ search_of (params_set REAUTH_PROOF_PARAM token q))) w)))"

text \<open>The guarded \<open>UPDATE \<dots> RETURNING\<close>: whether a row was hit, and the table.\<close>

definition reauth_hit :: "int \<Rightarrow> string \<Rightarrow> string \<Rightarrow> string \<Rightarrow> reauth_row \<Rightarrow> bool" where
  "reauth_hit now tokenHash sessionId requestHash r =
     (ra_tokenHash r = tokenHash \<and> ra_sessionId r = sessionId \<and> ra_requestHash r = requestHash \<and>
      ra_consumedAt r = None \<and> ra_expiresAt r > now)"

definition consume_reauth ::
  "int \<Rightarrow> string \<Rightarrow> string \<Rightarrow> string \<Rightarrow> reauth_row list \<Rightarrow> bool \<times> reauth_row list" where
  "consume_reauth now tokenHash sessionId requestHash t =
     (list_ex (reauth_hit now tokenHash sessionId requestHash) t,
      update_where (reauth_hit now tokenHash sessionId requestHash) (\<lambda>r. r\<lparr>ra_consumedAt := Some now\<rparr>) t)"

text \<open>The interaction requirements a fresh login satisfies: \<open>prompt=login\<close> and \<open>max_age\<close>.\<close>

definition drop_interaction :: "form \<Rightarrow> form" where
  "drop_interaction q =
     (let prompts = filter (\<lambda>p. p \<noteq> [] \<and> p \<noteq> ''login'')
                      (split_ws (js_trim (case form_get q ''prompt'' of None \<Rightarrow> [] | Some p \<Rightarrow> p)));
          q1 = (if length prompts = 0 then params_delete ''prompt'' q
                else params_set ''prompt'' (js_join '' '' prompts) q)
      in params_delete ''max_age'' q1)"

text \<open>The request URL is given by its path and its parameters; the result are the parameters left.\<close>

definition consumeReauthContinuation :: "platform \<Rightarrow> string option \<Rightarrow> string \<Rightarrow> form \<Rightarrow> world \<Rightarrow> form \<times> world" where
  "consumeReauthContinuation pf sessionId pathname query w =
     (let sanitized = params_delete REAUTH_PROOF_PARAM query
      in case (form_get query REAUTH_PROOF_PARAM, sessionId) of
           (Some token, Some sid) \<Rightarrow>
             if token = [] then (sanitized, w)
             else (let canonical = pathname @ search_of sanitized;
                       (hit, t) = consume_reauth (pf_now pf) (hashOpaqueToken (pf_crypto pf) token) sid
                          (sha256Hex (pf_crypto pf) canonical) (t_reauth_continuations (w_db w));
                       w1 = w\<lparr>w_db := (w_db w)\<lparr>t_reauth_continuations := t\<rparr>\<rparr>
                   in if \<not> hit then (sanitized, w1) else (drop_interaction sanitized, w1))
         | _ \<Rightarrow> (sanitized, w))"

section \<open>The canonical request\<close>

lemma url_trim_plain: "(\<And>c. c \<in> set s \<Longrightarrow> ccode c > 32) \<Longrightarrow> url_trim s = s"
proof -
  assume a: "\<And>c. c \<in> set s \<Longrightarrow> ccode c > 32"
  then have "dropWhile (\<lambda>c. ccode c \<le> 32) s = s" "dropWhile (\<lambda>c. ccode c \<le> 32) (rev s) = rev s"
    by (metis dropWhile_eq_self_iff list.set_sel(1) not_less set_rev)+
  moreover have "filter (\<lambda>c. ccode c \<notin> {9, 10, 13}) s = s"
    using a by (fastforce simp: filter_id_conv)
  ultimately show ?thesis by (simp add: url_trim_def)
qed

lemma search_of_chars: "c \<in> set (search_of q) \<Longrightarrow> ccode c > 32 \<and> ccode c < 127 \<and> c \<noteq> CHR ''#''"
proof -
  assume "c \<in> set (search_of q)"
  then have "c \<in> set ''?&=+%'' \<or> form_safe c"
    by (auto simp: search_of_def dest!: search_params_chars split: if_splits)
  then show ?thesis
    by (auto simp: form_safe_def is_alnum_def is_digit_def is_upper_def is_lower_def)
qed

lemma component_search:
  "component (CHR ''?'') special_query_set (from_char (CHR ''?'') (p @ search_of q)) = search_of q"
  if "CHR ''?'' \<notin> set p"
proof (cases "q = []")
  case True
  from that have "dropWhile (\<lambda>c. c \<noteq> CHR ''?'') p = []" by (auto simp: dropWhile_eq_Nil_conv)
  with True show ?thesis
    by (simp only: search_of_def from_char_def component_def append_Nil2 search_params_empty list.case option.case
        if_True refl)
next
  case False
  have "c \<in> set (search_params q) \<Longrightarrow> \<not> special_query_set c" for c
    using search_of_chars [of c q] search_params_avoids [of c q] False
    by (auto simp: special_query_set_def query_set_def c0_set_def search_of_def)
  then have "percent_encode special_query_set (search_params q) = search_params q"
    by (intro percent_encode_id) (auto simp: list_all_iff)
  moreover have "dropWhile (\<lambda>c. c \<noteq> CHR ''?'') (p @ ''?'' @ search_params q) = ''?'' @ search_params q"
    using that by (subst dropWhile_append2) auto
  ultimately show ?thesis using False by (simp add: search_of_def from_char_def component_def)
qed

lemma authorize_path: "path_string (path_state [] (split_slash ''oauth/authorize'')) = ''/oauth/authorize''"
  by (simp add: is_slash_def double_dot_def single_dot_def ascii_lower_def path_string_def path_set_def
      query_set_def c0_set_def is_upper_def)

lemma from_char_None: "d \<notin> set s \<Longrightarrow> from_char d s = None"
  by (induction s) (auto simp: from_char_def)

lemma parse_local_authorize:
  "parse_local (''/oauth/authorize'' @ search_of q) = (''/oauth/authorize'', search_of q, [])"
proof -
  let ?p = "''/oauth/authorize''"
  have hash: "CHR ''#'' \<notin> set (?p @ search_of q)" by (auto dest: search_of_chars)
  have trim: "url_trim (?p @ search_of q) = ?p @ search_of q"
    by (rule url_trim_plain) (auto dest: search_of_chars)
  have front: "before_char (CHR ''#'') (?p @ search_of q) = ?p @ search_of q"
    using hash by (auto simp: before_char_def takeWhile_eq_all_conv)
  have path: "before_char (CHR ''?'') (?p @ search_of q) = ?p"
    by (simp add: before_char_def search_of_def)
  have "from_char (CHR ''#'') (?p @ search_of q) = None"
    using hash by (rule from_char_None)
  with component_search [of ?p q] authorize_path show ?thesis
    by (simp only: parse_local_def Let_def trim front path) (simp add: component_def)
qed

lemma local_url_authorize [simp]:
  "local_url parse_url (''/oauth/authorize'' @ search_of q) = Some (''/oauth/authorize'', search_of q)"
  unfolding local_url_def parse_local_authorize by (simp add: starts_with_def)

lemma safeLocalPath_authorize:
  "safeLocalPath (Some (''/oauth/authorize'' @ search_of q)) = ''/oauth/authorize'' @ search_of q"
proof -
  have "c \<in> set (search_of q) \<Longrightarrow> ccode c \<noteq> 92" for c
    by (auto simp: search_of_def form_safe_def is_alnum_def is_digit_def is_upper_def is_lower_def
        dest!: search_params_chars split: if_splits)
  then have "\<not> refused_path (''/oauth/authorize'' @ search_of q)"
    by (auto simp: refused_path_def starts_with_def list_ex_iff dest: search_of_chars)
  then show ?thesis unfolding safeLocalPath_def option.case parse_local_authorize by (simp only: if_False Let_def prod.case append_Nil2)
qed

lemma canonical_authorize:
  "canonicalReturnTo parse_url (''/oauth/authorize'' @ search_of q) =
     Inr (''/oauth/authorize'' @ search_of (params_delete REAUTH_PROOF_PARAM q))"
  unfolding canonicalReturnTo_def safeLocalPath_authorize local_url_authorize option.case prod.case parse_search_of by (rule refl)

section \<open>Consuming a proof\<close>

text \<open>What is left of a request's interaction requirements after a fresh login.\<close>

lemma drop_interaction_get:
  "form_get (drop_interaction q) k =
     (if k = ''max_age'' then None
      else if k = ''prompt'' then
        (let ps = filter (\<lambda>p. p \<noteq> [] \<and> p \<noteq> ''login'') (split_ws (js_trim (case form_get q ''prompt'' of None \<Rightarrow> [] | Some p \<Rightarrow> p)))
         in if ps = [] then None else Some (js_join '' '' ps))
      else form_get q k)"
  by (simp add: drop_interaction_def Let_def)

text \<open>The unconsumed, unexpired proof a request presents.\<close>

definition valid_proof :: "platform \<Rightarrow> string option \<Rightarrow> string \<Rightarrow> form \<Rightarrow> world \<Rightarrow> bool" where
  "valid_proof pf sid pathname query w =
     (\<exists>token s r. form_get query REAUTH_PROOF_PARAM = Some token \<and> token \<noteq> [] \<and> sid = Some s \<and>
        r \<in> set (t_reauth_continuations (w_db w)) \<and>
        reauth_hit (pf_now pf) (hashOpaqueToken (pf_crypto pf) token) s
          (sha256Hex (pf_crypto pf) (pathname @ search_of (params_delete REAUTH_PROOF_PARAM query))) r)"

lemma valid_proof_simps:
  "valid_proof pf None pathname query w = False"
  "form_get query REAUTH_PROOF_PARAM = Some token \<Longrightarrow> token \<noteq> [] \<Longrightarrow>
     valid_proof pf (Some s) pathname query w = (\<exists>r\<in>set (t_reauth_continuations (w_db w)).
        reauth_hit (pf_now pf) (hashOpaqueToken (pf_crypto pf) token) s
          (sha256Hex (pf_crypto pf) (pathname @ search_of (params_delete REAUTH_PROOF_PARAM query))) r)"
  by (auto simp: valid_proof_def)

lemma consume_query:
  "fst (consumeReauthContinuation pf sid pathname query w) =
     (if valid_proof pf sid pathname query w then drop_interaction (params_delete REAUTH_PROOF_PARAM query)
      else params_delete REAUTH_PROOF_PARAM query)"
  by (auto simp: consumeReauthContinuation_def valid_proof_def consume_reauth_def Let_def list_ex_iff
      split: option.splits)

lemma consume_frame:
  "consumeReauthContinuation pf sid pathname query w = (q, w') \<Longrightarrow>
     (\<exists>t. w' = w\<lparr>w_db := (w_db w)\<lparr>t_reauth_continuations := t\<rparr>\<rparr>)"
  by (auto simp: consumeReauthContinuation_def Let_def consume_reauth_def split: option.splits if_splits
      intro: exI [of _ "t_reauth_continuations (w_db w)"])

section \<open>A proof is used once\<close>

text \<open>
  The statements on the table of proofs, and their effect on the table. A run is any interleaving
  of them; the grant watched is the consumption of the proof with token hash \<open>h\<close>.
\<close>

datatype reauth_op = Op_mint reauth_row | Op_present int string string string

fun reauth_step :: "string \<Rightarrow> reauth_op \<Rightarrow> reauth_row list \<Rightarrow> unit option \<times> reauth_row list" where
  "reauth_step h (Op_mint row) t =
     (None, if list_ex (\<lambda>r. ra_tokenHash r = ra_tokenHash row) t then t else t @ [row])"
| "reauth_step h (Op_present now tokenHash sid req) t =
     (let (hit, t') = consume_reauth now tokenHash sid req t in (if hit \<and> tokenHash = h then Some () else None, t'))"

text \<open>The same on the one row of that hash, if it exists.\<close>

fun proof_step :: "string \<Rightarrow> reauth_op \<Rightarrow> reauth_row option \<Rightarrow> unit option \<times> reauth_row option" where
  "proof_step h (Op_mint row) s = (None, if s = None \<and> ra_tokenHash row = h then Some row else s)"
| "proof_step h (Op_present now tokenHash sid req) s =
     (case s of
        None \<Rightarrow> (None, None)
      | Some r \<Rightarrow> if tokenHash = h \<and> reauth_hit now h sid req r then (Some (), Some (r\<lparr>ra_consumedAt := Some now\<rparr>))
                  else (None, s))"

definition proof_spent :: "reauth_row option \<Rightarrow> bool" where
  "proof_spent s = (\<exists>r. s = Some r \<and> ra_consumedAt r \<noteq> None)"

interpretation reauth_proof: single_use "proof_step h" proof_spent for h
proof unfold_locales
  fix s op
  show "proof_spent s \<Longrightarrow> fst (proof_step h op s) = None" "proof_spent s \<Longrightarrow> proof_spent (snd (proof_step h op s))"
    by (cases op; auto simp: proof_spent_def reauth_hit_def)+
next
  fix s op r s'
  show "proof_step h op s = (Some r, s') \<Longrightarrow> proof_spent s'"
    by (cases op) (auto simp: proof_spent_def split: option.splits if_splits)
qed

definition proof_keys :: "reauth_row list \<Rightarrow> bool" where
  "proof_keys t = distinct (map ra_tokenHash t)"

definition proof_of :: "string \<Rightarrow> reauth_row list \<Rightarrow> reauth_row option" where
  "proof_of h t = find (\<lambda>r. ra_tokenHash r = h) t"

lemma proof_step_keys: "proof_keys t \<Longrightarrow> proof_keys (snd (reauth_step h op t))"
proof (cases op)
  case (Op_present now tokenHash sid req)
  then have "map ra_tokenHash (snd (reauth_step h op t)) = map ra_tokenHash t"
    by (auto simp: consume_reauth_def update_where_def)
  then show "proof_keys t \<Longrightarrow> ?thesis" by (simp add: proof_keys_def)
qed (auto simp: proof_keys_def list_ex_iff)

lemma proof_of_update:
  "proof_of h (update_where (reauth_hit now h' sid req) (\<lambda>r. r\<lparr>ra_consumedAt := Some now\<rparr>) t) =
     map_option (\<lambda>r. if reauth_hit now h' sid req r then r\<lparr>ra_consumedAt := Some now\<rparr> else r) (proof_of h t)"
  by (induction t) (auto simp: proof_of_def)

lemma hit_by_key:
  assumes "proof_keys t"
  shows "list_ex (reauth_hit now h sid req) t \<longleftrightarrow> (\<exists>r. proof_of h t = Some r \<and> reauth_hit now h sid req r)"
proof
  assume "list_ex (reauth_hit now h sid req) t"
  then obtain r where r: "r \<in> set t" "reauth_hit now h sid req r" by (auto simp: list_ex_iff)
  moreover from r(2) have "ra_tokenHash r = h" by (simp add: reauth_hit_def)
  ultimately have "proof_of h t = Some r"
    using assms by (induction t) (auto simp: proof_of_def proof_keys_def)
  with r(2) show "\<exists>r. proof_of h t = Some r \<and> reauth_hit now h sid req r" by blast
qed (auto simp: proof_of_def list_ex_iff dest: find_Some_mem)

lemma proof_step_refines:
  assumes "proof_keys t"
  shows "proof_step h op (proof_of h t) = map_prod id (proof_of h) (reauth_step h op t)"
proof (cases op)
  case (Op_mint row)
  show ?thesis
  proof (cases "proof_of h t")
    case None
    then have "\<forall>r\<in>set t. ra_tokenHash r \<noteq> h" by (auto simp: proof_of_def find_None_iff)
    with None Op_mint show ?thesis by (auto simp: proof_of_def find_append list_ex_iff)
  qed (simp add: Op_mint proof_of_def find_append)
next
  case (Op_present now tokenHash sid req)
  have other: "proof_of h t = Some r \<Longrightarrow> tokenHash \<noteq> h \<Longrightarrow> \<not> reauth_hit now tokenHash sid req r" for r
    by (auto simp: proof_of_def reauth_hit_def dest: find_Some_mem)
  show ?thesis
    using hit_by_key [OF assms, of now h sid req] other
    by (cases "proof_of h t") (auto simp: Op_present consume_reauth_def proof_of_update)
qed

lemma proof_runs_once:
  "proof_keys t \<Longrightarrow> length (grants (fst (run (reauth_step h) ops t))) \<le> 1"
  using run_refines [where I = proof_keys and step = "reauth_step h" and astep = "proof_step h" and slot = "proof_of h",
      OF proof_step_keys proof_step_refines, of t ops]
    reauth_proof.at_most_one_grant [of h ops "proof_of h t"]
  by (simp add: map_prod_def case_prod_unfold)

section \<open>Properties\<close>

text \<open>The tokens a request may carry as its proof.\<close>

lemma minted_hit:
  assumes "insert_reauth (reauth_row_for pf token sid returnTo) w = (Inr (), w')"
  shows "(\<exists>r\<in>set (t_reauth_continuations (w_db w')).
      reauth_hit (pf_now pf') (hashOpaqueToken (pf_crypto pf) token) s req r) \<longleftrightarrow>
    s = sid \<and> req = sha256Hex (pf_crypto pf) returnTo \<and> pf_now pf' < pf_now pf + REAUTH_PROOF_TTL_SECONDS"
  using assms
  by (auto simp: insert_reauth_def reauth_hit_def reauth_row_for_def list_ex_iff split: if_splits)


definition demo_login_world :: world where
  "demo_login_world = demo_world\<lparr>w_db := (w_db demo_world)\<lparr>t_sessions := [demo_session]\<rparr>\<rparr>"

definition demo_prompt :: form where "demo_prompt = [(''prompt'', ''login''), (''max_age'', ''0'')]"

lemma demo_reauth_created:
  "\<exists>url w'. createReauthContinuation demo_pf ''s'' (''/oauth/authorize'' @ search_of demo_prompt) demo_login_world = (Inr url, w')"
proof -
  have "\<exists>w'. insert_reauth (reauth_row_for demo_pf token ''s'' r) demo_login_world = (Inr (), w')" for token r
    by (simp add: insert_reauth_def reauth_row_for_def demo_login_world_def demo_world_def empty_db_def demo_session_def)
  then show ?thesis
    unfolding createReauthContinuation_def canonical_authorize local_url_authorize sum.case option.case prod.case
      parse_search_of Let_def by (force simp: io_then_Inr)
qed

lemma demo_proof_token: "randomToken (pf_random demo_pf ''reauth-proof'') \<noteq> []"
  using length_base64UrlEncode [of "[1, 2, 3]"] by (auto simp: demo_pf_def randomToken_def)

lemma demo_prompt_dropped: "drop_interaction demo_prompt = []"
  by (simp add: drop_interaction_def demo_prompt_def form_get_def params_delete_def js_trim_id split_ws_word is_ws_def)


text \<open>
  A reauthentication proof counts once. However the minting of proofs and their presentations
  (by any session, for any request, at any time) are interleaved on the table, at most one
  presentation of a given proof is accepted.
\<close>

theorem reauth_proof_single_use:
  assumes "proof_keys t"
  shows "length (grants (fst (run (reauth_step h) ops t))) \<le> 1"
  using assms by (rule proof_runs_once)

theorem reauth_proof_single_use_witness:
  "proof_keys [] \<and>
   length (grants (fst (run (reauth_step ''h'')
     [Op_mint \<lparr>ra_tokenHash = ''h'', ra_sessionId = ''s'', ra_requestHash = ''q'', ra_expiresAt = 300,
                ra_createdAt = 0, ra_consumedAt = None\<rparr>,
      Op_present 10 ''h'' ''s'' ''q'', Op_present 11 ''h'' ''s'' ''q''] []))) \<le> 1"
proof -
  have "proof_keys []" by (simp add: proof_keys_def)
  from reauth_proof_single_use [OF this] this show ?thesis by blast
qed

end
