(* ===== verification/Authorize_Routes.thy ===== *)
theory Authorize_Routes
  imports Reauthentication
begin

text \<open>
  \<open>src/routes/authorize.ts\<close> and \<open>checkIpRateLimit\<close> of \<open>src/security/ingress.ts\<close>: the
  authorization endpoint and the consent decision. The signed-in browser is the session and the
  user the middleware has put on the context, or \<open>None\<close>. Other requests may run at the named
  awaits (\<open>pf_others\<close>).
\<close>

section \<open>Parameters\<close>

definition AUTHORIZE_PARAM_KEYS :: "string list" where
  "AUTHORIZE_PARAM_KEYS = [''client_id'', ''redirect_uri'', ''response_type'', ''scope'', ''state'', ''nonce'',
     ''code_challenge'', ''code_challenge_method'', ''resource'', ''prompt'', ''max_age'']"

definition METADATA_AUTHORIZE_RATE_LIMIT :: int where "METADATA_AUTHORIZE_RATE_LIMIT = 120"
definition METADATA_AUTHORIZE_RATE_WINDOW_SECONDS :: int where "METADATA_AUTHORIZE_RATE_WINDOW_SECONDS = 5 * 60"

definition withState :: "form \<Rightarrow> string option \<Rightarrow> form" where
  "withState params state = (case state of None \<Rightarrow> params | Some s \<Rightarrow> params @ [(''state'', s)])"

definition authorizationResponseParams :: "platform \<Rightarrow> form \<Rightarrow> string option \<Rightarrow> form" where
  "authorizationResponseParams pf params state = withState (params @ [(''iss'', ISSUER (pf_env pf))]) state"

text \<open>The hidden fields of the consent form: the known parameters of the request, in the fixed order.\<close>

definition collectHiddenFields :: "form \<Rightarrow> form" where
  "collectHiddenFields query =
     concat (map (\<lambda>key. case form_get query key of None \<Rightarrow> [] | Some v \<Rightarrow> [(key, v)]) AUTHORIZE_PARAM_KEYS)"

definition authorizationReturnTo :: "form \<Rightarrow> string" where
  "authorizationReturnTo hiddenFields =
     (let query = fold (\<lambda>key q. case form_get hiddenFields key of None \<Rightarrow> q | Some v \<Rightarrow> params_set key v q)
                    AUTHORIZE_PARAM_KEYS [];
          serialized = search_params query
      in ''/oauth/authorize'' @ (if serialized = [] then [] else ''?'' @ serialized))"

definition error_page :: "nat \<Rightarrow> string \<Rightarrow> string \<Rightarrow> string \<Rightarrow> response" where
  "error_page status message backTo backLabel = html_response status ''renderErrorPage'' [message, backTo, backLabel]"

definition oversized_page :: response where
  "oversized_page = error_page 400 ''The authorization request contains invalid or oversized parameters.'' ''/''
     ''Back to your account''"

section \<open>Rate limit of metadata clients\<close>

definition checkIpRateLimit ::
  "platform \<Rightarrow> 'r request_scheme \<Rightarrow> string \<Rightarrow> int \<Rightarrow> int \<Rightarrow> world \<Rightarrow> RateLimitResult \<times> world" where
  "checkIpRateLimit pf rq namespace limit windowSeconds w =
     (let (rate, limiters) = checkRateLimit (pf_env pf) (pf_nowMs pf)
            (namespace @ '':ip:'' @ ip_or_unknown (clientIpHash pf rq)) limit windowSeconds (w_limiters w)
      in (rate, w\<lparr>w_limiters := limiters\<rparr>))"

definition enforceMetadataAuthorizeRate :: "platform \<Rightarrow> request \<Rightarrow> form \<Rightarrow> response option route" where
  "enforceMetadataAuthorizeRate pf rq query w =
     (if params_count query ''client_id'' \<noteq> 1 then (Inr None, w)
      else case form_get query ''client_id'' of
        None \<Rightarrow> (Inr None, w)
      | Some clientId \<Rightarrow>
          if parseClientIdentifierUrl (pf_url pf) clientId = None then (Inr None, w)
          else
            (let (rate, w1) = checkIpRateLimit pf rq ''oauth:authorize-metadata'' METADATA_AUTHORIZE_RATE_LIMIT
                                METADATA_AUTHORIZE_RATE_WINDOW_SECONDS w;
                 retry = [(''retry-after'', int_string (rl_retryAfterSeconds rate))];
                 page = (error_page 429 ''Too many authorization requests. Please wait and try again.'' ''/''
                          ''Back to your account'')\<lparr>re_headers := retry\<rparr>
             in if rl_allowed rate then (Inr None, w1)
                else if shouldAuditRateLimit [rate] then
                  (case io_audit pf ''authorize:rate'' ((audit_event ''security.rate_limited'')\<lparr>
                          ae_clientId := Some clientId, ae_requestId := Some (pf_requestId pf), ae_success := Some False,
                          ae_detail := Some ''Client ID Metadata authorization rate limit exceeded'',
                          ae_metadata := Some (JObj [(''limit'', JNum METADATA_AUTHORIZE_RATE_LIMIT),
                            (''window_seconds'', JNum METADATA_AUTHORIZE_RATE_WINDOW_SECONDS)])\<rparr>) w1 of
                     (Inl e, w2) \<Rightarrow> (Inl (e, retry), w2)
                   | (Inr _, w2) \<Rightarrow> (Inr (Some page), w2))
                else (Inr (Some page), w1)))"

section \<open>Answers\<close>

text \<open>\<open>c.redirect(buildRedirectUrl(\<dots>))\<close>.\<close>

definition redirect_back :: "platform \<Rightarrow> string \<Rightarrow> form \<Rightarrow> response io" where
  "redirect_back pf redirectUri params w =
     (case buildRedirectUrl (pf_url pf) redirectUri params of
        Inl e \<Rightarrow> io_throw e w
      | Inr url \<Rightarrow> io_return (redirect_response 302 url) w)"

definition errorRedirect ::
  "platform \<Rightarrow> string \<Rightarrow> string option \<Rightarrow> OAuthErrorCode \<Rightarrow> string \<Rightarrow> response io" where
  "errorRedirect pf redirectUri state err description =
     io_then (io_audit pf ''authorize:error'' ((audit_event ''oauth.authorize.denied'')\<lparr>
         ae_requestId := Some (pf_requestId pf), ae_success := Some False,
         ae_detail := Some (error_code_string err @ '': '' @ description)\<rparr>))
       (redirect_back pf redirectUri
          (authorizationResponseParams pf [(''error'', error_code_string err), (''error_description'', description)] state))"

text \<open>
  \<open>redirectToLogin\<close> on the URL of the request, given by its path and parameters. The search is
  printed from the parameters after the deletion.
\<close>

definition redirectToLogin :: "string \<Rightarrow> form \<Rightarrow> bool \<Rightarrow> response" where
  "redirectToLogin pathname query forceReauthentication =
     (let returnTo = pathname @ search_of (params_delete ''_keyforge_reauth'' query);
          loginParams = [(''return_to'', returnTo)] @
            (if forceReauthentication then [(''reauth'', ''1''), (''hint'', ''oauth_request'')] else [])
      in redirect_response 302 (''/login?'' @ search_params loginParams))"

definition params_audit :: "platform \<Rightarrow> string \<Rightarrow> string option \<Rightarrow> AuthorizeParams \<Rightarrow> bool \<Rightarrow> AuditEvent" where
  "params_audit pf type userId params success =
     (audit_event type)\<lparr>ae_userId := userId, ae_clientId := Some (ap_clientId params),
        ae_resourceUri := Some (ap_resource params), ae_scope := Some (serializeScopes (ap_scopes params)),
        ae_requestId := Some (pf_requestId pf), ae_success := Some success\<rparr>"

definition interactionError ::
  "platform \<Rightarrow> AuthenticatedSession option \<Rightarrow> AuthorizeParams \<Rightarrow> string \<Rightarrow> string \<Rightarrow> string option \<Rightarrow> response io" where
  "interactionError pf browser params err description internalDetail =
     io_then (io_audit pf ''authorize:interaction''
         ((params_audit pf ''oauth.authorize.denied'' (map_option (\<lambda>b. u_id (as_user b)) browser) params False)\<lparr>
            ae_detail := Some (err @ '': '' @ (case internalDetail of None \<Rightarrow> description | Some d \<Rightarrow> d))\<rparr>))
       (redirect_back pf (ap_redirectUri params)
          (authorizationResponseParams pf [(''error'', err), (''error_description'', description)] (ap_state params)))"

definition completeAuthorization :: "platform \<Rightarrow> AuthorizeParams \<Rightarrow> AuthenticatedSession \<Rightarrow> response io" where
  "completeAuthorization pf params ctx =
     io_bind (issueAuthorizationCode pf params ctx) (\<lambda>code.
     io_then (io_audit pf ''authorize:completed''
         (params_audit pf ''oauth.authorize.completed'' (Some (u_id (as_user ctx))) params True))
       (redirect_back pf (ap_redirectUri params) (authorizationResponseParams pf [(''code'', code)] (ap_state params))))"

definition denyAuthorization :: "platform \<Rightarrow> AuthorizeParams \<Rightarrow> AuthenticatedSession \<Rightarrow> response io" where
  "denyAuthorization pf params ctx =
     io_then (io_audit pf ''authorize:denied'' ((audit_event ''oauth.authorize.denied'')\<lparr>
         ae_userId := Some (u_id (as_user ctx)), ae_clientId := Some (ap_clientId params),
         ae_requestId := Some (pf_requestId pf), ae_success := Some False, ae_detail := Some ''user denied consent''\<rparr>))
       (redirect_back pf (ap_redirectUri params) (authorizationResponseParams pf
          [(''error'', ''access_denied''), (''error_description'', ''The user denied the request'')] (ap_state params)))"

section \<open>A validated request\<close>

definition sessionTooOld :: "platform \<Rightarrow> AuthorizeParams \<Rightarrow> AuthenticatedSession \<Rightarrow> bool" where
  "sessionTooOld pf params b =
     (case ap_maxAge params of
        None \<Rightarrow> False
      | Some maxAge \<Rightarrow> maxAge = 0 \<or> max 0 (pf_now pf - sr_authTime (as_session b)) > int maxAge)"

datatype consent_mode = consent_first | consent_metadata_changed | consent_forced | consent_step_up

fun consent_mode_string :: "consent_mode \<Rightarrow> string" where
  "consent_mode_string consent_first = ''first''"
| "consent_mode_string consent_metadata_changed = ''metadata_changed''"
| "consent_mode_string consent_forced = ''forced''"
| "consent_mode_string consent_step_up = ''step_up''"

definition consentMode :: "ConsentRecord option \<Rightarrow> string option \<Rightarrow> bool \<Rightarrow> consent_mode" where
  "consentMode priorConsent fingerprint hasConsent =
     (case priorConsent of
        None \<Rightarrow> consent_first
      | Some c \<Rightarrow> if cr_metadataFingerprint c \<noteq> fingerprint then consent_metadata_changed
                  else if hasConsent then consent_forced else consent_step_up)"

definition elevatedScopes :: "ConsentRecord option \<Rightarrow> string option \<Rightarrow> string list \<Rightarrow> string list" where
  "elevatedScopes priorConsent fingerprint scopes =
     (let priorScopes = (case priorConsent of
            None \<Rightarrow> []
          | Some c \<Rightarrow> if cr_metadataFingerprint c = fingerprint then parseScopeString (Some (cr_scope c)) else [])
      in filter (\<lambda>scope. scope \<notin> set priorScopes) scopes)"

definition has_consent :: "platform \<Rightarrow> db \<Rightarrow> AuthorizeParams \<Rightarrow> AuthenticatedSession \<Rightarrow> bool" where
  "has_consent pf db params b =
     consentCoversScopes (pf_env pf) db (u_id (as_user b)) (ap_clientId params) (ap_resource params) (ap_scopes params)
       (oc_metadataFingerprint (ap_client params))"

definition consent_page ::
  "db \<Rightarrow> AuthorizeParams \<Rightarrow> AuthenticatedSession \<Rightarrow> bool \<Rightarrow> form \<Rightarrow> string \<Rightarrow> string \<Rightarrow> response" where
  "consent_page db params b hasConsent hiddenFields csrf formAction =
     (let fingerprint = oc_metadataFingerprint (ap_client params);
          prior = getConsent db (u_id (as_user b)) (ap_clientId params) (ap_resource params)
      in html_response 200 ''renderConsentPage''
           [csrf, oc_name (ap_client params), ap_clientId params,
            (if oc_registrationType (ap_client params) = client_id_metadata then ''metadata'' else []),
            ap_redirectUri params, serializeScopes (ap_scopes params),
            (case getResourceByUri db (ap_resource params) of None \<Rightarrow> ap_resource params | Some r \<Rightarrow> rs_name r),
            consent_mode_string (consentMode prior fingerprint hasConsent),
            serializeScopes (elevatedScopes prior fingerprint (ap_scopes params)), ap_resource params,
            u_id (as_user b), authorizationReturnTo hiddenFields, search_params hiddenFields, formAction])"

definition access_denied_error ::
  "platform \<Rightarrow> AuthenticatedSession option \<Rightarrow> AuthorizeParams \<Rightarrow> DenyReason \<Rightarrow> response io" where
  "access_denied_error pf browser params reason =
     interactionError pf browser params ''access_denied''
       ''This account is not permitted to access this application or resource.''
       (Some (''user token policy denied '' @ deny_reason_string reason))"

definition access_of :: "platform \<Rightarrow> db \<Rightarrow> AuthorizeParams \<Rightarrow> AuthenticatedSession \<Rightarrow> (DenyReason, unit) result" where
  "access_of pf db params b =
     evaluateUserTokenAccess (pf_env pf) db (u_id (as_user b)) (ap_clientId params) (ap_resource params) (ap_scopes params)"

text \<open>
  \<open>pathname\<close> and \<open>query\<close> are the URL of the request as it came in; \<open>csrf\<close> is the token issued to
  the consent page.
\<close>

definition handleAuthorized ::
  "platform \<Rightarrow> AuthenticatedSession option \<Rightarrow> string \<Rightarrow> string \<Rightarrow> form \<Rightarrow> AuthorizeParams \<Rightarrow> form \<Rightarrow> response io" where
  "handleAuthorized pf browser csrf pathname query params hiddenFields w =
     (let noInteraction = (prompt_none \<in> set (ap_prompts params))
      in case browser of
           None \<Rightarrow>
             if noInteraction then
               interactionError pf browser params ''login_required'' ''User authentication is required'' None w
             else io_return (redirectToLogin pathname query
                    (prompt_login \<in> set (ap_prompts params) \<or> ap_maxAge params \<noteq> None)) w
         | Some b \<Rightarrow>
             if prompt_login \<in> set (ap_prompts params) \<or> sessionTooOld pf params b then
               (if noInteraction then
                  interactionError pf browser params ''login_required'' ''Fresh user authentication is required'' None w
                else io_return (redirectToLogin pathname query True) w)
             else
               (let w1 = pf_others pf ''authorize:access'' w
                in case access_of pf (w_db w1) params b of
                     Inl reason \<Rightarrow> access_denied_error pf browser params reason w1
                   | Inr _ \<Rightarrow>
                       io_then (io_audit pf ''authorize:started''
                         (params_audit pf ''oauth.authorize.started'' (Some (u_id (as_user b))) params True))
                       (\<lambda>w2. let w3 = pf_others pf ''authorize:consent'' w2; hasConsent = has_consent pf (w_db w3) params b
                             in if hasConsent \<and> prompt_consent \<notin> set (ap_prompts params)
                                then completeAuthorization pf params b w3
                                else if noInteraction then
                                  interactionError pf browser params ''consent_required'' ''User consent is required'' None w3
                                else (case formActionSource (pf_url pf) (ap_redirectUri params) of
                                        Inl e \<Rightarrow> io_throw e w3
                                      | Inr formAction \<Rightarrow>
                                          io_return (consent_page (w_db w3) params b hasConsent hiddenFields csrf
                                            formAction) w3)) w1))"

definition dispatchValidation ::
  "platform \<Rightarrow> AuthenticatedSession option \<Rightarrow> string \<Rightarrow> string \<Rightarrow> form \<Rightarrow> AuthorizeValidation \<Rightarrow> form \<Rightarrow> response io" where
  "dispatchValidation pf browser csrf pathname query validation hiddenFields =
     (case validation of
        invalid_request_page description reason clientId \<Rightarrow>
          io_then (if reason = page_invalid_client \<or> reason = page_invalid_redirect_uri
                   then io_audit pf ''authorize:invalid'' ((audit_event
                          (if reason = page_invalid_client then ''security.invalid_client''
                           else ''security.invalid_redirect_uri''))\<lparr>ae_clientId := clientId,
                            ae_requestId := Some (pf_requestId pf), ae_success := Some False,
                            ae_detail := Some description\<rparr>)
                   else io_return ())
            (io_return (error_page 400 description ''/'' ''Back to your account''))
      | error_redirect redirectUri state err description \<Rightarrow> errorRedirect pf redirectUri state err description
      | validated params \<Rightarrow> handleAuthorized pf browser csrf pathname query params hiddenFields)"

section \<open>GET /oauth/authorize\<close>

text \<open>\<open>new URL(c.req.url)\<close>: the path and the parameters of the request.\<close>

definition request_query :: "platform \<Rightarrow> request \<Rightarrow> (failure, string \<times> form) result" where
  "request_query pf rq =
     (case pf_url pf (rq_url rq) of
        None \<Rightarrow> Inl invalid_url
      | Some url \<Rightarrow>
          (case url_search_params (url_search url) of
             None \<Rightarrow> Inl outside_alphabet
           | Some q \<Rightarrow> Inr (url_pathname url, q)))"

text \<open>A gate that may answer the request by itself.\<close>

definition route_gate :: "response option route \<Rightarrow> response route \<Rightarrow> response route" where
  "route_gate gate rest = route_bind gate (\<lambda>answer. case answer of Some resp \<Rightarrow> (\<lambda>w. (Inr resp, w)) | None \<Rightarrow> rest)"

definition get_authorize :: "platform \<Rightarrow> AuthenticatedSession option \<Rightarrow> string \<Rightarrow> request \<Rightarrow> response route" where
  "get_authorize pf browser csrf rq w =
     (case request_query pf rq of
        Inl e \<Rightarrow> (Inl (e, []), w)
      | Inr (pathname, query) \<Rightarrow>
          if validateOAuthParameterSet (pf_url pf) query \<noteq> None then (Inr oversized_page, w)
          else route_gate (enforceMetadataAuthorizeRate pf rq query)
            (\<lambda>w1. let (q, w2) = consumeReauthContinuation pf (map_option (\<lambda>b. sr_id (as_session b)) browser) pathname query
                                 (pf_others pf ''authorize:reauth'' w1)
                  in route_io (io_bind (validateAuthorizeRequest pf q)
                       (\<lambda>validation. dispatchValidation pf browser csrf pathname query validation
                          (collectHiddenFields q))) w2) w)"

section \<open>POST /oauth/authorize/decision\<close>

definition decision_query :: "form \<Rightarrow> form" where
  "decision_query form =
     fold (\<lambda>key q. if form_has form key then params_set key (readFormField form key) q else q) AUTHORIZE_PARAM_KEYS []"

definition save_decision :: "platform \<Rightarrow> AuthorizeParams \<Rightarrow> AuthenticatedSession \<Rightarrow> unit io" where
  "save_decision pf params b w =
     (if pf_d1_fails pf ''authorize:consent'' then (Inl DatabaseFailure, w)
      else (Inr (), w\<lparr>w_db := saveConsent (pf_now pf) (generateId pf ''cnst'' ''consent'')
              \<lparr>sc_userId = u_id (as_user b), sc_clientId = ap_clientId params,
               sc_scope = serializeScopes (ap_scopes params), sc_resource = Some (ap_resource params),
               sc_metadataFingerprint = oc_metadataFingerprint (ap_client params)\<rparr> (w_db w)\<rparr>))"

definition decide :: "platform \<Rightarrow> AuthenticatedSession \<Rightarrow> form \<Rightarrow> AuthorizeParams \<Rightarrow> response io" where
  "decide pf b form params w =
     (if prompt_login \<in> set (ap_prompts params) \<or> sessionTooOld pf params b then
        interactionError pf (Some b) params ''login_required'' ''Fresh user authentication is required'' None w
      else
        (let w1 = pf_others pf ''authorize:access'' w
         in case access_of pf (w_db w1) params b of
              Inl reason \<Rightarrow> access_denied_error pf (Some b) params reason w1
            | Inr _ \<Rightarrow>
                if prompt_none \<in> set (ap_prompts params) then
                  interactionError pf (Some b) params ''consent_required'' ''Interactive consent is required'' None w1
                else if readFormField form ''decision'' \<noteq> ''approve'' then denyAuthorization pf params b w1
                else if ''mcp.tools.execute'' \<in> set (ap_scopes params) \<and> readFormField form ''confirm_elevated'' \<noteq> ''yes'' then
                  interactionError pf (Some b) params ''access_denied''
                    ''Elevated MCP execution permission was not explicitly confirmed.'' None w1
                else io_then (save_decision pf params b) (completeAuthorization pf params b) w1))"

text \<open>\<open>cookie\<close> is the CSRF cookie; the URL of the request is not an authorization URL.\<close>

definition post_decision ::
  "platform \<Rightarrow> AuthenticatedSession option \<Rightarrow> string option \<Rightarrow> request \<Rightarrow> form \<Rightarrow> response route" where
  "post_decision pf browser cookie rq form w =
     (let query = decision_query form; hiddenFields = collectHiddenFields query;
          authorizeReturnTo = authorizationReturnTo hiddenFields
      in if validateOAuthParameterSet (pf_url pf) query \<noteq> None then (Inr oversized_page, w)
         else case browser of
           None \<Rightarrow> (Inr (redirect_response 302 (''/login?return_to='' @ encodeURIComponent authorizeReturnTo)), w)
         | Some b \<Rightarrow>
             if \<not> verifyCsrfToken (pf_env pf) cookie (non_empty (readFormField form ''csrf_token'')) then
               (Inr (error_page 403 ''Your session expired. Please try again.'' authorizeReturnTo ''Back''), w)
             else route_gate (enforceMetadataAuthorizeRate pf rq query)
               (route_io (io_bind (validateAuthorizeRequest pf query)
                  (\<lambda>validation. case validation of
                     validated params \<Rightarrow> decide pf b form params
                   | _ \<Rightarrow> dispatchValidation pf browser [] [] [] validation hiddenFields))) w)"

section \<open>Where an answer leads\<close>

text \<open>A page carries no location; a redirect is \<open>redirect_response 302\<close>.\<close>

definition is_page :: "response \<Rightarrow> bool" where
  "is_page resp = (map_of (re_headers resp) ''location'' = None)"

definition sent_to_login :: "response \<Rightarrow> bool" where
  "sent_to_login resp = (\<exists>q. resp = redirect_response 302 (''/login?'' @ q))"

text \<open>The response goes back to a redirect URI with these parameters.\<close>

definition sent_back :: "platform \<Rightarrow> string \<Rightarrow> form \<Rightarrow> response \<Rightarrow> bool" where
  "sent_back pf uri ps resp =
     (\<exists>url. buildRedirectUrl (pf_url pf) uri ps = Inr url \<and> resp = redirect_response 302 url)"

lemma redirect_back_Inr: "redirect_back pf uri ps w = (Inr resp, w') \<longleftrightarrow> sent_back pf uri ps resp \<and> w' = w"
  by (auto simp: redirect_back_def sent_back_def io_throw_def split: sum.splits)

lemma response_params_get:
  "form_get (authorizationResponseParams pf ps state) ''code'' = form_get ps ''code''"
  by (auto simp: authorizationResponseParams_def withState_def form_get_def map_add_def split: option.splits)

text \<open>An error sent back: no code among the parameters.\<close>

definition error_sent :: "platform \<Rightarrow> string \<Rightarrow> response \<Rightarrow> bool" where
  "error_sent pf uri resp = (\<exists>ps. sent_back pf uri ps resp \<and> form_get ps ''code'' = None)"

lemma error_sentI:
  "sent_back pf uri (authorizationResponseParams pf [(''error'', e), (''error_description'', d)] state) resp \<Longrightarrow>
     error_sent pf uri resp"
  unfolding error_sent_def by (rule exI, rule conjI, assumption, subst response_params_get) (simp add: form_get_def)

lemma interactionError_Inr:
  "interactionError pf browser params e d det w = (Inr resp, w') \<Longrightarrow> error_sent pf (ap_redirectUri params) resp"
  by (auto simp: interactionError_def io_then_Inr redirect_back_Inr intro: error_sentI)

lemma errorRedirect_Inr: "errorRedirect pf uri state e d w = (Inr resp, w') \<Longrightarrow> error_sent pf uri resp"
  by (auto simp: errorRedirect_def io_then_Inr redirect_back_Inr intro: error_sentI)

lemma denyAuthorization_Inr:
  "denyAuthorization pf params b w = (Inr resp, w') \<Longrightarrow> error_sent pf (ap_redirectUri params) resp"
  by (auto simp: denyAuthorization_def io_then_Inr redirect_back_Inr intro: error_sentI)

text \<open>
  A code sent back: the slot of the code holds the payload bound to the request, the session and
  the user, as read from the database at the time of the issue.
\<close>

definition code_sent :: "platform \<Rightarrow> AuthorizeParams \<Rightarrow> AuthenticatedSession \<Rightarrow> world \<Rightarrow> response \<Rightarrow> world \<Rightarrow> bool" where
  "code_sent pf params b w resp w' =
     (\<exists>code. sent_back pf (ap_redirectUri params) (authorizationResponseParams pf [(''code'', code)] (ap_state params)) resp \<and>
        w_codes w' (hashOpaqueToken (pf_crypto pf) code) =
          ot_store (pf_nowMs pf) (code_payload pf (w_db w) params b) (ttl_authorizationCode TOKEN_TTL)
            (w_codes w (hashOpaqueToken (pf_crypto pf) code)))"

lemma completeAuthorization_Inr:
  assumes "completeAuthorization pf params b w = (Inr resp, w')"
  shows "code_sent pf params b w resp w'"
proof -
  obtain code w1 w2 u where r: "issueAuthorizationCode pf params b w = (Inr code, w1)"
    "io_audit pf ''authorize:completed'' (params_audit pf ''oauth.authorize.completed'' (Some (u_id (as_user b))) params True) w1 = (Inr u, w2)"
    "sent_back pf (ap_redirectUri params) (authorizationResponseParams pf [(''code'', code)] (ap_state params)) resp" "w' = w2"
    using assms by (auto simp: completeAuthorization_def io_bind_Inr io_then_Inr redirect_back_Inr)
  have "w_codes w' = w_codes w1" using io_audit_frame [OF r(2)] r(4) by simp
  moreover have "w_codes w1 (hashOpaqueToken (pf_crypto pf) code) =
      ot_store (pf_nowMs pf) (code_payload pf (w_db w) params b) (ttl_authorizationCode TOKEN_TTL)
        (w_codes w (hashOpaqueToken (pf_crypto pf) code))"
    using r(1) by (auto simp: issueAuthorizationCode_def Let_def split: if_splits)
  ultimately show ?thesis unfolding code_sent_def using r(3) by auto
qed

section \<open>The GET handler\<close>

text \<open>What the browser's session and user must satisfy for a code without a prompt.\<close>

definition silently_entitled ::
  "platform \<Rightarrow> AuthenticatedSession \<Rightarrow> AuthorizeParams \<Rightarrow> world \<Rightarrow> world \<Rightarrow> bool" where
  "silently_entitled pf b params wa wc =
     (prompt_login \<notin> set (ap_prompts params) \<and> prompt_consent \<notin> set (ap_prompts params) \<and>
      \<not> sessionTooOld pf params b \<and> access_of pf (w_db wa) params b = Inr () \<and> has_consent pf (w_db wc) params b)"

lemma is_page_html [simp]: "is_page (html_response st p ts)" "is_page (error_page st m t l)"
  by (simp_all add: is_page_def html_response_def error_page_def)

lemma login_redirect [simp]: "sent_to_login (redirectToLogin p q f)"
  by (auto simp: sent_to_login_def redirectToLogin_def Let_def)

lemma handleAuthorized_Inr:
  assumes "handleAuthorized pf browser csrf p q params hidden w = (Inr resp, w')"
  shows "is_page resp \<or> sent_to_login resp \<or> error_sent pf (ap_redirectUri params) resp \<or>
    (\<exists>b wc. browser = Some b \<and> silently_entitled pf b params (pf_others pf ''authorize:access'' w) wc \<and>
       code_sent pf params b wc resp w')"
proof (cases browser)
  case None
  with assms show ?thesis
    by (auto simp: handleAuthorized_def Let_def dest: interactionError_Inr split: if_splits)
next
  case (Some b)
  show ?thesis
  proof (cases "prompt_login \<in> set (ap_prompts params) \<or> sessionTooOld pf params b")
    case True
    with assms Some show ?thesis
      by (auto simp: handleAuthorized_def Let_def dest: interactionError_Inr split: if_splits)
  next
    case fresh: False
    let ?w1 = "pf_others pf ''authorize:access'' w"
    show ?thesis
    proof (cases "access_of pf (w_db ?w1) params b")
      case (Inl reason)
      with assms Some fresh show ?thesis
        by (auto simp: handleAuthorized_def Let_def access_denied_error_def dest: interactionError_Inr)
    next
      case (Inr u)
      then obtain w2 where "(let w3 = pf_others pf ''authorize:consent'' w2; hasConsent = has_consent pf (w_db w3) params b
          in if hasConsent \<and> prompt_consent \<notin> set (ap_prompts params) then completeAuthorization pf params b w3
             else if prompt_none \<in> set (ap_prompts params) then
               interactionError pf browser params ''consent_required'' ''User consent is required'' None w3
             else (case formActionSource (pf_url pf) (ap_redirectUri params) of
                     Inl e \<Rightarrow> io_throw e w3
                   | Inr formAction \<Rightarrow> io_return (consent_page (w_db w3) params b hasConsent hidden csrf formAction) w3)) =
          (Inr resp, w')"
        using assms Some fresh by (auto simp: handleAuthorized_def Let_def io_then_Inr)
      then show ?thesis
        using fresh Inr Some
        by (auto simp: Let_def silently_entitled_def consent_page_def io_throw_def dest: interactionError_Inr
            completeAuthorization_Inr split: if_splits sum.splits)
    qed
  qed
qed

section \<open>The whole endpoint\<close>

lemma rate_gate:
  assumes "enforceMetadataAuthorizeRate pf rq query w = (Inr answer, w')"
  shows "w_db w' = w_db w \<and> w_codes w' = w_codes w \<and> (\<forall>page. answer = Some page \<longrightarrow> is_page page)"
proof -
  have page: "is_page (r\<lparr>re_headers := [(''retry-after'', x)]\<rparr>)" for r :: response and x by (simp add: is_page_def)
  have audit: "io_audit pf l e wi = (r, wo) \<Longrightarrow> w_db wo = w_db wi \<and> w_codes wo = w_codes wi" for l e wi r wo
    using io_audit_frame by blast
  show ?thesis
    using assms
    by (auto simp: enforceMetadataAuthorizeRate_def checkIpRateLimit_def Let_def page
        split: if_splits option.splits prod.splits sum.splits dest: audit)
qed

text \<open>What the validation of a query lets the endpoint send back, and on behalf of which client.\<close>

definition registered_target :: "platform \<Rightarrow> form \<Rightarrow> world \<Rightarrow> world \<Rightarrow> string \<Rightarrow> bool" where
  "registered_target pf q w w' uri =
     (\<exists>clientId client. resolveAuthorizationClient pf clientId (single_resource q) w = (Inr (Some client), w') \<and>
        oc_enabled client \<and> isRegisteredRedirectUri (pf_url pf) client uri)"

lemma validated_target:
  assumes "\<not> isYoloEnabled (pf_env pf)" "validateAuthorizeRequest pf q w = (Inr (validated params), w')"
  shows "request_valid pf (w_db w') q params" "registered_target pf q w w' (ap_redirectUri params)"
  using assms(2) unfolding validate_validated [OF assms(1)] registered_target_def request_valid_def Let_def by auto

lemma dispatch_Inr:
  assumes "\<not> isYoloEnabled (pf_env pf)" "validateAuthorizeRequest pf q w = (Inr v, wv)"
    "dispatchValidation pf browser csrf pathname query v hidden wv = (Inr resp, w')"
  shows "is_page resp \<or> sent_to_login resp \<or> (\<exists>uri. registered_target pf q w wv uri \<and> error_sent pf uri resp) \<or>
    (\<exists>params b wc. v = validated params \<and> browser = Some b \<and>
       silently_entitled pf b params (pf_others pf ''authorize:access'' wv) wc \<and> code_sent pf params b wc resp w')"
proof (cases v)
  case (invalid_request_page d r c)
  with assms(3) show ?thesis by (auto simp: dispatchValidation_def io_then_Inr io_if_Inr)
next
  case (error_redirect uri state err d)
  have "registered_target pf q w wv uri"
    using validate_error_redirect [OF assms(1) assms(2) [unfolded error_redirect]] by (simp add: registered_target_def)
  moreover have "error_sent pf uri resp" using assms(3) error_redirect by (simp add: dispatchValidation_def errorRedirect_Inr)
  ultimately show ?thesis by blast
next
  case (validated params)
  with validated_target [OF assms(1) assms(2) [unfolded validated]] assms(3) show ?thesis
    using handleAuthorized_Inr [of pf browser csrf pathname query params hidden wv resp w']
    by (simp add: dispatchValidation_def) blast
qed

section \<open>The decision\<close>

text \<open>What the submitted decision and the account must satisfy for a code after the consent page.\<close>

definition expressly_entitled :: "platform \<Rightarrow> AuthenticatedSession \<Rightarrow> form \<Rightarrow> AuthorizeParams \<Rightarrow> world \<Rightarrow> bool" where
  "expressly_entitled pf b form params wa =
     (prompt_login \<notin> set (ap_prompts params) \<and> prompt_none \<notin> set (ap_prompts params) \<and>
      \<not> sessionTooOld pf params b \<and> access_of pf (w_db wa) params b = Inr () \<and>
      readFormField form ''decision'' = ''approve'' \<and>
      (''mcp.tools.execute'' \<in> set (ap_scopes params) \<longrightarrow> readFormField form ''confirm_elevated'' = ''yes''))"

lemma decide_Inr:
  assumes "decide pf b form params w = (Inr resp, w')"
  shows "error_sent pf (ap_redirectUri params) resp \<or>
    (\<exists>wd. expressly_entitled pf b form params (pf_others pf ''authorize:access'' w) \<and>
       save_decision pf params b (pf_others pf ''authorize:access'' w) = (Inr (), wd) \<and> code_sent pf params b wd resp w')"
proof (cases "prompt_login \<in> set (ap_prompts params) \<or> sessionTooOld pf params b")
  case True
  with assms show ?thesis by (auto simp: decide_def dest: interactionError_Inr split: if_splits)
next
  case fresh: False
  let ?w1 = "pf_others pf ''authorize:access'' w"
  show ?thesis
  proof (cases "access_of pf (w_db ?w1) params b")
    case (Inl reason)
    with assms fresh show ?thesis
      by (auto simp: decide_def Let_def access_denied_error_def dest: interactionError_Inr)
  next
    case (Inr u)
    with assms fresh show ?thesis
      by (auto simp: decide_def Let_def expressly_entitled_def io_then_Inr dest: interactionError_Inr
          denyAuthorization_Inr completeAuthorization_Inr split: if_splits)
  qed
qed

lemma post_decision_Inr:
  assumes "post_decision pf browser cookie rq form w = (Inr resp, w')"
  obtains "is_page resp" | "sent_to_login resp"
  | b w0 v wv where "browser = Some b" "verifyCsrfToken (pf_env pf) cookie (non_empty (readFormField form ''csrf_token''))"
      "w_db w0 = w_db w" "w_codes w0 = w_codes w" "validateAuthorizeRequest pf (decision_query form) w0 = (Inr v, wv)"
      "(case v of validated params \<Rightarrow> decide pf b form params
        | _ \<Rightarrow> dispatchValidation pf browser [] [] [] v (collectHiddenFields (decision_query form))) wv = (Inr resp, w')"
proof (cases "validateOAuthParameterSet (pf_url pf) (decision_query form) = None \<and> browser \<noteq> None \<and>
    verifyCsrfToken (pf_env pf) cookie (non_empty (readFormField form ''csrf_token''))")
  case False
  with assms have "is_page resp \<or> sent_to_login resp"
    by (auto simp: post_decision_def Let_def oversized_page_def sent_to_login_def split: if_splits option.splits)
  with that show ?thesis by blast
next
  case True
  then obtain b where b: "browser = Some b" by blast
  with True assms obtain answer w0 where
    gate: "enforceMetadataAuthorizeRate pf rq (decision_query form) w = (Inr answer, w0)"
    and rest: "(case answer of Some page \<Rightarrow> (Inr page, w0) | None \<Rightarrow>
      route_io (io_bind (validateAuthorizeRequest pf (decision_query form))
        (\<lambda>validation. case validation of
           validated params \<Rightarrow> decide pf b form params
         | _ \<Rightarrow> dispatchValidation pf browser [] [] [] validation (collectHiddenFields (decision_query form)))) w0) =
      (Inr resp, w')"
    by (auto simp: post_decision_def Let_def route_gate_def route_bind_Inr split: option.splits)
  note g = rate_gate [OF gate]
  show ?thesis
  proof (cases answer)
    case (Some page)
    with g rest that(1) show ?thesis by auto
  next
    case None
    with rest obtain v wv where "validateAuthorizeRequest pf (decision_query form) w0 = (Inr v, wv)"
      "(case v of validated params \<Rightarrow> decide pf b form params
        | _ \<Rightarrow> dispatchValidation pf browser [] [] [] v (collectHiddenFields (decision_query form))) wv = (Inr resp, w')"
      by (auto simp: route_io_Inr io_bind_Inr)
    with that(3) b True g show ?thesis by blast
  qed
qed

section \<open>A concrete request\<close>

text \<open>
  A parser that knows the URL of the request and the redirect URI, and the browser of the demo
  user: her request is granted silently, and her decision is honoured.
\<close>

definition demo_auth_url :: url_parser where
  "demo_auth_url s =
     (if s = ''req'' then Some \<lparr>url_protocol = ''https:'', url_username = [], url_password = [], url_hostname = ''id.test'',
        url_origin = ''https://id.test'', url_pathname = ''/oauth/authorize'', url_search = search_of demo_query,
        url_hash = [], url_prefix = ''https://id.test''\<rparr>
      else if s = ''https://app/cb'' then demo_url ''/cb'' else None)"

definition demo_auth_pf :: platform where "demo_auth_pf = demo_pf\<lparr>pf_url := demo_auth_url\<rparr>"

definition demo_browser :: AuthenticatedSession where
  "demo_browser = \<lparr>as_session = SessionRecord.truncate demo_session, as_user = User.truncate demo_user\<rparr>"

definition demo_rq :: request where "demo_rq = \<lparr>rq_headers = [], rq_url = ''req''\<rparr>"

lemma demo_auth_simps [simp]:
  "pf_env demo_auth_pf = demo_env" "pf_url demo_auth_pf = demo_auth_url" "pf_others demo_auth_pf = (\<lambda>l w. w)"
  "pf_do_rejects demo_auth_pf = (\<lambda>k i. False)" "pf_d1_fails demo_auth_pf = (\<lambda>l. False)" "pf_queue_up demo_auth_pf = True"
  by (simp_all add: demo_auth_pf_def demo_pf_def)

lemma demo_auth_audit: "\<exists>a. io_audit demo_auth_pf l e w = (Inr (), w\<lparr>w_audit := a\<rparr>)"
  by (auto simp: io_audit_def recordAudit_def Let_def)

lemma demo_auth_redirect: "\<exists>resp. redirect_back demo_auth_pf ''https://app/cb'' ps w = (Inr resp, w)"
  by (auto simp: redirect_back_def buildRedirectUrl_def demo_auth_url_def demo_url_def url_search_params_def)

lemma demo_auth_completes: "\<exists>resp w'. completeAuthorization demo_auth_pf demo_authorize b w = (Inr resp, w')"
proof -
  obtain code w1 where i: "issueAuthorizationCode demo_auth_pf demo_authorize b w = (Inr code, w1)"
    by (simp add: issueAuthorizationCode_def Let_def)
  let ?e = "params_audit demo_auth_pf ''oauth.authorize.completed'' (Some (u_id (as_user b))) demo_authorize True"
  obtain a where a: "io_audit demo_auth_pf ''authorize:completed'' ?e w1 = (Inr (), w1\<lparr>w_audit := a\<rparr>)"
    using demo_auth_audit by blast
  have uri: "ap_redirectUri demo_authorize = ''https://app/cb''" by (simp add: demo_authorize_def)
  obtain resp where "redirect_back demo_auth_pf ''https://app/cb''
      (authorizationResponseParams demo_auth_pf [(''code'', code)] (ap_state demo_authorize)) (w1\<lparr>w_audit := a\<rparr>) =
      (Inr resp, w1\<lparr>w_audit := a\<rparr>)" using demo_auth_redirect by blast
  with i a uri show ?thesis by (simp add: completeAuthorization_def io_bind_def io_then_def)
qed

lemma demo_auth_validated:
  "w_db w = demo_grant_db \<Longrightarrow> validateAuthorizeRequest demo_auth_pf demo_query w = (Inr (validated demo_authorize), w)"
  using demo_client_resolved [of w] demo_request_valid [of demo_auth_pf] demo_query_limits
  by (subst validate_validated) (simp_all add: demo_authorize_def)

lemma demo_auth_access: "w_db w = demo_grant_db \<Longrightarrow> access_of demo_auth_pf (w_db w) demo_authorize demo_browser = Inr ()"
  using demo_access by (simp add: access_of_def demo_authorize_def demo_browser_def User.defs demo_user_def)

lemma demo_rate_passes:
  "enforceMetadataAuthorizeRate demo_auth_pf demo_rq q w = (Inr None, w)" if "form_get q ''client_id'' = Some ''app''"
  using that by (simp add: enforceMetadataAuthorizeRate_def parseClientIdentifierUrl_def demo_auth_url_def)

lemma demo_get_authorize:
  "\<exists>resp w'. get_authorize demo_auth_pf (Some demo_browser) ''csrf'' demo_rq demo_grant_world = (Inr resp, w')"
proof -
  have q: "request_query demo_auth_pf demo_rq = Inr (''/oauth/authorize'', demo_query)"
    by (simp add: request_query_def demo_rq_def demo_auth_url_def)
  have "params_delete REAUTH_PROOF_PARAM demo_query = demo_query" "form_get demo_query REAUTH_PROOF_PARAM = None"
    by (simp_all add: params_delete_def demo_query_def REAUTH_PROOF_PARAM_def form_get_def)
  then have c: "consumeReauthContinuation demo_auth_pf sid p demo_query w = (demo_query, w)" for sid p w
    by (simp add: consumeReauthContinuation_def)
  have id: "form_get demo_query ''client_id'' = Some ''app''" by (simp add: demo_query_def form_get_def)
  have db: "w_db demo_grant_world = demo_grant_db" by (simp add: demo_grant_world_def)
  have consent: "has_consent demo_auth_pf demo_grant_db demo_authorize demo_browser"
    using demo_consent
    by (simp add: has_consent_def demo_authorize_def demo_browser_def User.defs demo_user_def demo_app_def demo_client_def)
  obtain a where a: "io_audit demo_auth_pf ''authorize:started''
      (params_audit demo_auth_pf ''oauth.authorize.started'' (Some (u_id (as_user demo_browser))) demo_authorize True) demo_grant_world =
      (Inr (), demo_grant_world\<lparr>w_audit := a\<rparr>)" using demo_auth_audit by blast
  have p: "ap_prompts demo_authorize = []" "\<not> sessionTooOld demo_auth_pf demo_authorize demo_browser"
    by (simp_all add: demo_authorize_def sessionTooOld_def)
  have "handleAuthorized demo_auth_pf (Some demo_browser) ''csrf'' pn qq demo_authorize h demo_grant_world =
      completeAuthorization demo_auth_pf demo_authorize demo_browser (demo_grant_world\<lparr>w_audit := a\<rparr>)" for pn qq h
    using demo_auth_access [OF db] db consent a p
    by (simp add: handleAuthorized_def Let_def io_then_def io_bind_def)
  moreover obtain resp w' where "completeAuthorization demo_auth_pf demo_authorize demo_browser
      (demo_grant_world\<lparr>w_audit := a\<rparr>) = (Inr resp, w')" using demo_auth_completes by blast
  ultimately show ?thesis
    by (simp add: get_authorize_def q demo_query_limits route_gate_def route_bind_def demo_rate_passes [OF id] c route_io_def
        io_bind_def demo_auth_validated [OF db] dispatchValidation_def)
qed

section \<open>Properties\<close>




definition demo_decision :: form where
  "demo_decision = demo_query @ [(''csrf_token'', ''t''), (''decision'', ''approve'')]"

lemma demo_decision_query: "decision_query demo_decision =
   [(''client_id'', ''app''), (''redirect_uri'', ''https://app/cb''), (''response_type'', ''code''), (''scope'', ''openid''),
    (''state'', ''x''), (''code_challenge'', replicate 43 CHR ''a''), (''code_challenge_method'', ''S256''), (''resource'', ''r'')]"
  by (simp add: decision_query_def demo_decision_def demo_query_def AUTHORIZE_PARAM_KEYS_def form_has_def form_get_def
      readFormField_def)

lemma demo_post_decision:
  "\<exists>resp w'. post_decision demo_auth_pf (Some demo_browser) (Some ''t'') demo_rq demo_decision demo_grant_world = (Inr resp, w')"
proof -
  have q: "decision_query demo_decision = demo_query" by (simp add: demo_decision_query) (simp add: demo_query_def)
  have csrf: "verifyCsrfToken demo_env (Some ''t'') (non_empty (readFormField demo_decision ''csrf_token''))"
    by (simp add: verifyCsrfToken_def readFormField_def form_get_def demo_decision_def demo_query_def non_empty_def
        timingSafeEqualString_eq)
  have id: "form_get demo_query ''client_id'' = Some ''app''" by (simp add: demo_query_def form_get_def)
  have db: "w_db demo_grant_world = demo_grant_db" by (simp add: demo_grant_world_def)
  obtain w1 where s: "save_decision demo_auth_pf demo_authorize demo_browser demo_grant_world = (Inr (), w1)"
    by (simp add: save_decision_def)
  obtain resp w' where c: "completeAuthorization demo_auth_pf demo_authorize demo_browser w1 = (Inr resp, w')"
    using demo_auth_completes by blast
  have f: "readFormField demo_decision ''decision'' = ''approve''"
    by (simp add: readFormField_def form_get_def demo_decision_def demo_query_def)
  have p: "ap_prompts demo_authorize = []" "\<not> sessionTooOld demo_auth_pf demo_authorize demo_browser"
    "ap_scopes demo_authorize = [''openid'']"
    by (simp_all add: demo_authorize_def sessionTooOld_def)
  have "decide demo_auth_pf demo_browser demo_decision demo_authorize demo_grant_world = (Inr resp, w')"
    using demo_auth_access [OF db] p f s c by (simp add: decide_def Let_def io_then_def io_bind_def)
  then show ?thesis
    using csrf by (simp add: post_decision_def Let_def q demo_query_limits route_gate_def route_bind_def
        demo_rate_passes [OF id] route_io_def io_bind_def demo_auth_validated [OF db])
qed


end
