(* ===== verification/Signing_Keys.thy ===== *)
theory Signing_Keys
  imports World
begin

text \<open>
  \<open>src/tokens/key-rotation.ts\<close>: the signing keys. The keyring is one versioned row of D1, written
  by compare-and-swap under a lease; rotation has two phases, so that a public key is published
  before its private key signs; a retired key keeps its public part for a grace period. The state
  also has the copies an older release kept in KV, and the caches of the isolate. The column
  \<open>keyring_json\<close> is given by the value its text parses to (\<open>None\<close> when it is not JSON). The JOSE
  library generates and imports keys (\<open>ke_generate\<close>, \<open>ke_import\<close>).
\<close>

section \<open>Constants\<close>

definition RETIRED_GRACE_SECONDS :: int where "RETIRED_GRACE_SECONDS = 91 * 24 * 60 * 60"
definition JWKS_PROPAGATION_SECONDS :: int where "JWKS_PROPAGATION_SECONDS = 2 * 60"
definition KEYRING_CACHE_TTL_MS :: int where "KEYRING_CACHE_TTL_MS = (JWKS_PROPAGATION_SECONDS * 1000) div 4"
definition ROTATION_LEASE_SECONDS :: int where "ROTATION_LEASE_SECONDS = 120"
definition ROTATION_LEASE_NAME :: string where "ROTATION_LEASE_NAME = ''signing-key-write''"

section \<open>Schemas\<close>

record StoredSigningKey =
  sk_kid :: string
  sk_privateJwk :: "json option"
  sk_publicJwk :: json
  sk_createdAt :: int
  sk_retiredAt :: "int option"

record StoredKeyring =
  kr_activeKid :: string
  kr_pendingKid :: "string option"
  kr_pendingSince :: "int option"
  kr_keys :: "StoredSigningKey list"

definition jwkSchema :: "json \<Rightarrow> bool" where
  "jwkSchema v = (case v of JObj ps \<Rightarrow> jget ps ''kty'' \<noteq> None | _ \<Rightarrow> False)"

text \<open>\<open>z.string()\<close>, \<open>z.number()\<close> and their nullable and optional forms, on a property that may be missing.\<close>

definition z_string :: "json option \<Rightarrow> string option" where
  "z_string v = (case v of Some (JStr s) \<Rightarrow> Some s | _ \<Rightarrow> None)"

definition z_number :: "json option \<Rightarrow> int option" where
  "z_number v = (case v of Some (JNum i) \<Rightarrow> Some i | _ \<Rightarrow> None)"

definition z_nullable :: "(json option \<Rightarrow> 'a option) \<Rightarrow> json option \<Rightarrow> 'a option option" where
  "z_nullable p v = (case v of Some JNull \<Rightarrow> Some None | _ \<Rightarrow> map_option Some (p v))"

definition z_nullish :: "(json option \<Rightarrow> 'a option) \<Rightarrow> json option \<Rightarrow> 'a option option" where
  "z_nullish p v = (case v of None \<Rightarrow> Some None | _ \<Rightarrow> z_nullable p v)"

definition z_jwk :: "json option \<Rightarrow> json option" where
  "z_jwk v = (case v of Some j \<Rightarrow> if jwkSchema j then Some j else None | None \<Rightarrow> None)"

definition z_optional :: "(json option \<Rightarrow> 'a option) \<Rightarrow> json option \<Rightarrow> 'a option option" where
  "z_optional p v = (case v of None \<Rightarrow> Some None | _ \<Rightarrow> map_option Some (p v))"

definition storedKeySchema :: "json \<Rightarrow> StoredSigningKey option" where
  "storedKeySchema v =
     (case v of
        JObj ps \<Rightarrow>
          (case (z_string (jget ps ''kid''), z_optional z_jwk (jget ps ''privateJwk''), z_jwk (jget ps ''publicJwk''),
                 z_number (jget ps ''createdAt''), z_nullable z_number (jget ps ''retiredAt'')) of
             (Some kid, Some private, Some public, Some createdAt, Some retiredAt) \<Rightarrow>
               Some \<lparr>sk_kid = kid, sk_privateJwk = private, sk_publicJwk = public, sk_createdAt = createdAt,
                     sk_retiredAt = retiredAt\<rparr>
           | _ \<Rightarrow> None)
      | _ \<Rightarrow> None)"

fun collect :: "'a option list \<Rightarrow> 'a list option" where
  "collect [] = Some []"
| "collect (x # xs) = (case (x, collect xs) of (Some a, Some as) \<Rightarrow> Some (a # as) | _ \<Rightarrow> None)"

definition storedKeysSchema :: "json \<Rightarrow> StoredSigningKey list option" where
  "storedKeysSchema v = (case v of JArr vs \<Rightarrow> collect (map storedKeySchema vs) | _ \<Rightarrow> None)"

definition keyringSchema :: "json \<Rightarrow> StoredKeyring option" where
  "keyringSchema v =
     (case v of
        JObj ps \<Rightarrow>
          (case (z_string (jget ps ''activeKid''), z_nullish z_string (jget ps ''pendingKid''),
                 z_nullish z_number (jget ps ''pendingSince''), Option.bind (jget ps ''keys'') storedKeysSchema) of
             (Some activeKid, Some pendingKid, Some pendingSince, Some keys) \<Rightarrow>
               Some \<lparr>kr_activeKid = activeKid, kr_pendingKid = pendingKid, kr_pendingSince = pendingSince, kr_keys = keys\<rparr>
           | _ \<Rightarrow> None)
      | _ \<Rightarrow> None)"

text \<open>The value \<open>JSON.stringify(keyring)\<close> prints: an undefined private key is left out.\<close>

definition json_nullable :: "('a \<Rightarrow> json) \<Rightarrow> 'a option \<Rightarrow> json" where
  "json_nullable f x = (case x of None \<Rightarrow> JNull | Some a \<Rightarrow> f a)"

definition key_json :: "StoredSigningKey \<Rightarrow> json" where
  "key_json k = JObj ([(''kid'', JStr (sk_kid k))] @
     (case sk_privateJwk k of None \<Rightarrow> [] | Some j \<Rightarrow> [(''privateJwk'', j)]) @
     [(''publicJwk'', sk_publicJwk k), (''createdAt'', JNum (sk_createdAt k)),
      (''retiredAt'', json_nullable JNum (sk_retiredAt k))])"

definition keyring_json :: "StoredKeyring \<Rightarrow> json" where
  "keyring_json r = JObj [(''activeKid'', JStr (kr_activeKid r)), (''pendingKid'', json_nullable JStr (kr_pendingKid r)),
     (''pendingSince'', json_nullable JNum (kr_pendingSince r)), (''keys'', JArr (map key_json (kr_keys r)))]"

section \<open>State\<close>

record lease =
  ls_owner :: string
  ls_until :: int
  ls_updatedAt :: int

record key_row =
  kw_json :: "json option"
  kw_version :: int
  kw_updatedAt :: int

text \<open>
  The row of \<open>signing_key_state\<close>, the table \<open>maintenance_leases\<close>, the marker in
  \<open>maintenance_state\<close> (its time), the two KV entries (the first as the value its text parses to),
  and the caches of the isolate.
\<close>

record key_state =
  ks_row :: "key_row option"
  ks_leases :: "string \<Rightarrow> lease option"
  ks_cleanup :: "int option"
  ks_kvKeys :: "json option option"
  ks_kvActive :: "string option"
  ks_cache :: "(StoredKeyring \<times> int) option"
  ks_private :: "string \<Rightarrow> string option"

record key_env =
  ke_nowMs :: int
  ke_uuid :: "string \<Rightarrow> string"
  ke_generate :: "string \<Rightarrow> string \<times> json \<times> (string \<times> json) list"
  ke_import :: "json \<Rightarrow> (failure, string option) result"
  ke_kvDelete :: "string \<Rightarrow> bool"
  ke_others :: "string \<Rightarrow> key_state \<Rightarrow> key_state"

type_synonym 'a kio = "key_state \<Rightarrow> (failure, 'a) result \<times> key_state"

definition k_bind :: "'a kio \<Rightarrow> ('a \<Rightarrow> 'b kio) \<Rightarrow> 'b kio" where
  "k_bind m f s = (case m s of (Inl e, s') \<Rightarrow> (Inl e, s') | (Inr x, s') \<Rightarrow> f x s')"

definition k_return :: "'a \<Rightarrow> 'a kio" where "k_return x s = (Inr x, s)"

text \<open>\<open>try m finally f\<close> for a release that does not throw.\<close>

definition k_finally :: "'a kio \<Rightarrow> (key_state \<Rightarrow> key_state) \<Rightarrow> 'a kio" where
  "k_finally m f s = (let (r, s') = m s in (r, f s'))"

definition ke_now :: "key_env \<Rightarrow> int" where "ke_now ke = nowSeconds (ke_nowMs ke)"

section \<open>The keyring\<close>

definition rememberKeyring :: "key_env \<Rightarrow> StoredKeyring \<Rightarrow> key_state \<Rightarrow> key_state" where
  "rememberKeyring ke keyring s = s\<lparr>ks_cache := Some (keyring, ke_nowMs ke + KEYRING_CACHE_TTL_MS)\<rparr>"

definition cachedKeyring :: "key_env \<Rightarrow> key_state \<Rightarrow> StoredKeyring option \<times> key_state" where
  "cachedKeyring ke s =
     (case ks_cache s of
        None \<Rightarrow> (None, s\<lparr>ks_cache := None\<rparr>)
      | Some (keyring, expiresAt) \<Rightarrow> if expiresAt \<le> ke_nowMs ke then (None, s\<lparr>ks_cache := None\<rparr>) else (Some keyring, s))"

definition publishedKeys :: "int \<Rightarrow> StoredKeyring \<Rightarrow> StoredSigningKey list" where
  "publishedKeys now keyring =
     filter (\<lambda>key. sk_kid key = kr_activeKid keyring \<or> Some (sk_kid key) = kr_pendingKid keyring \<or>
       (case sk_retiredAt key of None \<Rightarrow> False | Some t \<Rightarrow> now - t < RETIRED_GRACE_SECONDS)) (kr_keys keyring)"

definition hasUsableActiveKey :: "StoredKeyring \<Rightarrow> bool" where
  "hasUsableActiveKey keyring =
     list_ex (\<lambda>key. sk_kid key = kr_activeKid keyring \<and> sk_retiredAt key = None \<and> sk_privateJwk key \<noteq> None)
       (kr_keys keyring)"

section \<open>The copies in KV\<close>

definition markLegacyKvCleanupPending :: "key_env \<Rightarrow> key_state \<Rightarrow> key_state" where
  "markLegacyKvCleanupPending ke s = s\<lparr>ks_cleanup := Some (ke_now ke)\<rparr>"

definition clearLegacyKvCleanupPending :: "key_state \<Rightarrow> key_state" where
  "clearLegacyKvCleanupPending s = s\<lparr>ks_cleanup := None\<rparr>"

definition readLegacyKvCopies :: "key_state \<Rightarrow> bool \<times> bool" where
  "readLegacyKvCopies s = (ks_kvKeys s \<noteq> None, ks_kvActive s \<noteq> None)"

text \<open>\<open>ke_kvDelete\<close> tells whether the deletion of an entry is visible to the read that follows.\<close>

definition kv_delete :: "key_env \<Rightarrow> key_state \<Rightarrow> key_state" where
  "kv_delete ke s =
     (let s1 = (if ke_kvDelete ke ''signing:keys'' then s\<lparr>ks_kvKeys := None\<rparr> else s)
      in if ke_kvDelete ke ''signing:active'' then s1\<lparr>ks_kvActive := None\<rparr> else s1)"

definition removeLegacyKvKeyring :: "key_env \<Rightarrow> unit kio" where
  "removeLegacyKvKeyring ke s =
     (let s1 = kv_delete ke s; (signingKeys, activeKid) = readLegacyKvCopies s1
      in if signingKeys \<or> activeKid then (Inl (OtherFailure ''legacy signing-key KV copies remain after deletion''), s1)
         else (Inr (), clearLegacyKvCleanupPending s1))"

text \<open>The error is logged and dropped.\<close>

definition retryLegacyKvCleanup :: "key_env \<Rightarrow> key_state \<Rightarrow> key_state" where
  "retryLegacyKvCleanup ke s = snd (removeLegacyKvKeyring ke s)"

definition assertLegacySigningKeyCleanupComplete :: "key_env \<Rightarrow> unit kio" where
  "assertLegacySigningKeyCleanupComplete ke s =
     (let (signingKeys, activeKid) = readLegacyKvCopies s
      in if \<not> signingKeys \<and> \<not> activeKid \<and> ks_cleanup s = None then (Inr (), s)
         else if ks_row s = None then
           (Inl (OtherFailure ''legacy signing-key KV cleanup cannot run before D1 key initialization''), s)
         else removeLegacyKvKeyring ke (markLegacyKvCleanupPending ke s))"

section \<open>Loading and storing\<close>

definition invalid_keyring :: failure where "invalid_keyring = OtherFailure ''invalid keyring''"

definition loadPersistedKeyring :: "key_env \<Rightarrow> (StoredKeyring \<times> int) option kio" where
  "loadPersistedKeyring ke s =
     (case ks_row s of
        None \<Rightarrow> (Inr None, s)
      | Some row \<Rightarrow>
          (case Option.bind (kw_json row) keyringSchema of
             None \<Rightarrow> (Inl invalid_keyring, s)
           | Some keyring \<Rightarrow>
               if \<not> hasUsableActiveKey keyring then (Inl (AppFailure 500 ''Signing key unavailable''), s)
               else (Inr (Some (keyring, kw_version row)),
                     if ks_cleanup s \<noteq> None then retryLegacyKvCleanup ke s else s)))"

definition loadLegacyKeyring :: "key_state \<Rightarrow> (failure, StoredKeyring option) result" where
  "loadLegacyKeyring s =
     (case (ks_kvKeys s, ks_kvActive s) of
        (Some rawKeys, Some activeKid) \<Rightarrow>
          (case Option.bind rawKeys storedKeysSchema of
             None \<Rightarrow> Inl invalid_keyring
           | Some keys \<Rightarrow>
               (let candidate = \<lparr>kr_activeKid = activeKid, kr_pendingKid = None, kr_pendingSince = None, kr_keys = keys\<rparr>
                in Inr (if hasUsableActiveKey candidate then Some candidate else None)))
      | _ \<Rightarrow> Inr None)"

definition changed_concurrently :: failure where
  "changed_concurrently = AppFailure 503 ''Signing key state changed concurrently''"

definition persistKeyring :: "key_env \<Rightarrow> StoredKeyring \<Rightarrow> int option \<Rightarrow> int \<Rightarrow> int kio" where
  "persistKeyring ke keyring expectedVersion updatedAt s =
     (let encoded = Some (keyring_json keyring)
      in case expectedVersion of
           None \<Rightarrow>
             (case ks_row s of
                Some _ \<Rightarrow> (Inl changed_concurrently, s)
              | None \<Rightarrow> (Inr 1, rememberKeyring ke keyring
                         (s\<lparr>ks_row := Some \<lparr>kw_json = encoded, kw_version = 1, kw_updatedAt = updatedAt\<rparr>\<rparr>)))
         | Some v \<Rightarrow>
             (case ks_row s of
                None \<Rightarrow> (Inl changed_concurrently, s)
              | Some row \<Rightarrow>
                  if kw_version row \<noteq> v then (Inl changed_concurrently, s)
                  else (Inr (v + 1), rememberKeyring ke keyring
                         (s\<lparr>ks_row := Some \<lparr>kw_json = encoded, kw_version = kw_version row + 1,
                              kw_updatedAt = updatedAt\<rparr>\<rparr>))))"

section \<open>Rotation\<close>

definition generateStoredKey :: "key_env \<Rightarrow> string \<Rightarrow> int \<Rightarrow> StoredSigningKey" where
  "generateStoredKey ke label createdAt =
     (let (kid, privateJwk, publicJwk) = ke_generate ke label
      in \<lparr>sk_kid = kid, sk_privateJwk = Some privateJwk,
          sk_publicJwk = JObj (jset ''use'' (JStr ''sig'') (jset ''alg'' (JStr ''RS256'') (jset ''kid'' (JStr kid) publicJwk))),
          sk_createdAt = createdAt, sk_retiredAt = None\<rparr>)"

definition in_grace :: "int \<Rightarrow> StoredSigningKey \<Rightarrow> bool" where
  "in_grace rotatedAt key =
     (case sk_retiredAt key of None \<Rightarrow> True | Some t \<Rightarrow> rotatedAt - t < RETIRED_GRACE_SECONDS)"

definition strip_retired :: "StoredSigningKey \<Rightarrow> StoredSigningKey" where
  "strip_retired key = (if sk_retiredAt key = None then key else key\<lparr>sk_privateJwk := None\<rparr>)"

text \<open>The next keyring: the first one, the staging of a key, or its activation.\<close>

definition initial_keyring :: "StoredSigningKey \<Rightarrow> StoredKeyring" where
  "initial_keyring initial = \<lparr>kr_activeKid = sk_kid initial, kr_pendingKid = None, kr_pendingSince = None, kr_keys = [initial]\<rparr>"

definition stage_keyring :: "StoredKeyring \<Rightarrow> StoredSigningKey \<Rightarrow> int \<Rightarrow> StoredKeyring" where
  "stage_keyring current staged rotatedAt =
     \<lparr>kr_activeKid = kr_activeKid current, kr_pendingKid = Some (sk_kid staged), kr_pendingSince = Some rotatedAt,
      kr_keys = staged # filter (in_grace rotatedAt) (map strip_retired (kr_keys current))\<rparr>"

definition activate_key :: "StoredKeyring \<Rightarrow> string \<Rightarrow> int \<Rightarrow> StoredSigningKey \<Rightarrow> StoredSigningKey" where
  "activate_key current pendingKid rotatedAt key =
     (if sk_kid key = kr_activeKid current then key\<lparr>sk_privateJwk := None, sk_retiredAt := Some rotatedAt\<rparr>
      else if sk_kid key = pendingKid then key\<lparr>sk_retiredAt := None\<rparr>
      else strip_retired key)"

definition activate_keyring :: "StoredKeyring \<Rightarrow> string \<Rightarrow> int \<Rightarrow> StoredKeyring" where
  "activate_keyring current pendingKid rotatedAt =
     \<lparr>kr_activeKid = pendingKid, kr_pendingKid = None, kr_pendingSince = None,
      kr_keys = filter (in_grace rotatedAt) (map (activate_key current pendingKid rotatedAt) (kr_keys current))\<rparr>"

definition usable_pending :: "StoredKeyring \<Rightarrow> StoredSigningKey option" where
  "usable_pending current =
     find (\<lambda>key. Some (sk_kid key) = kr_pendingKid current \<and> sk_retiredAt key = None \<and> sk_privateJwk key \<noteq> None)
       (kr_keys current)"

text \<open>\<open>None\<close> when the staged key has not been published for long enough and nothing is written.\<close>

definition next_keyring ::
  "StoredKeyring option \<Rightarrow> StoredSigningKey \<Rightarrow> int \<Rightarrow> (failure, StoredKeyring option) result" where
  "next_keyring current generated rotatedAt =
     (case current of
        None \<Rightarrow> Inr (Some (initial_keyring generated))
      | Some c \<Rightarrow>
          if kr_pendingKid c = None then Inr (Some (stage_keyring c generated rotatedAt))
          else if (case kr_pendingSince c of None \<Rightarrow> True | Some t \<Rightarrow> rotatedAt - t < JWKS_PROPAGATION_SECONDS) then Inr None
          else case usable_pending c of
                 None \<Rightarrow> Inl (AppFailure 500 ''Pending signing key unavailable'')
               | Some staged \<Rightarrow> Inr (Some (activate_keyring c (sk_kid staged) rotatedAt)))"

text \<open>\<open>privateKeyCache.delete(current.activeKid)\<close> of the activation.\<close>

definition forget_private :: "StoredKeyring option \<Rightarrow> key_state \<Rightarrow> key_state" where
  "forget_private current s =
     (case current of
        Some c \<Rightarrow> if kr_pendingKid c = None then s else s\<lparr>ks_private := (ks_private s)(kr_activeKid c := None)\<rparr>
      | None \<Rightarrow> s)"

definition rotatePersistedKeyring :: "key_env \<Rightarrow> int \<Rightarrow> StoredKeyring kio" where
  "rotatePersistedKeyring ke rotatedAt =
     k_bind (loadPersistedKeyring ke) (\<lambda>persisted s.
       (case (if persisted = None then loadLegacyKeyring s else Inr None) of
          Inl e \<Rightarrow> (Inl e, s)
        | Inr legacy \<Rightarrow>
            (let current = (case persisted of Some (k, v) \<Rightarrow> Some k | None \<Rightarrow> legacy)
             in case next_keyring current (generateStoredKey ke ''rotate'' rotatedAt) rotatedAt of
                  Inl e \<Rightarrow> (Inl e, s)
                | Inr None \<Rightarrow> (case current of Some c \<Rightarrow> (Inr c, s) | None \<Rightarrow> (Inl invalid_keyring, s))
                | Inr (Some keyring) \<Rightarrow>
                    (let s1 = ke_others ke ''rotate'' (forget_private current s);
                         s2 = (if legacy \<noteq> None then markLegacyKvCleanupPending ke s1 else s1)
                     in case persistKeyring ke keyring (map_option snd persisted) (ke_now ke) s2 of
                          (Inl e, s3) \<Rightarrow> (Inl e, s3)
                        | (Inr _, s3) \<Rightarrow> (Inr keyring, if legacy \<noteq> None then retryLegacyKvCleanup ke s3 else s3)))))"

section \<open>Leases\<close>

text \<open>The conditional upsert on \<open>maintenance_leases\<close>, and the deletion of an owned lease.\<close>

definition acquire_lease :: "string \<Rightarrow> string \<Rightarrow> int \<Rightarrow> int \<Rightarrow> key_state \<Rightarrow> bool \<times> key_state" where
  "acquire_lease job ownerToken now leaseSeconds s =
     (let free = (case ks_leases s job of None \<Rightarrow> True | Some l \<Rightarrow> ls_until l \<le> now)
      in if free then (True, s\<lparr>ks_leases := (ks_leases s)(job \<mapsto>
             \<lparr>ls_owner = ownerToken, ls_until = now + leaseSeconds, ls_updatedAt = now\<rparr>)\<rparr>)
         else (False, s))"

definition release_lease :: "string \<Rightarrow> string \<Rightarrow> key_state \<Rightarrow> key_state" where
  "release_lease job ownerToken s =
     (case ks_leases s job of
        None \<Rightarrow> s
      | Some l \<Rightarrow> if ls_owner l = ownerToken then s\<lparr>ks_leases := (ks_leases s)(job := None)\<rparr> else s)"

definition acquireRotationLease :: "key_env \<Rightarrow> string \<Rightarrow> int \<Rightarrow> key_state \<Rightarrow> bool \<times> key_state" where
  "acquireRotationLease ke ownerToken now = acquire_lease ROTATION_LEASE_NAME ownerToken now ROTATION_LEASE_SECONDS"

definition releaseRotationLease :: "string \<Rightarrow> key_state \<Rightarrow> key_state" where
  "releaseRotationLease ownerToken = release_lease ROTATION_LEASE_NAME ownerToken"

definition rotateSigningKey :: "key_env \<Rightarrow> int \<Rightarrow> string kio" where
  "rotateSigningKey ke rotatedAt s =
     (let ownerToken = ke_uuid ke ''rotation''; (acquired, s1) = acquireRotationLease ke ownerToken (ke_now ke) s
      in if \<not> acquired then (Inl (AppFailure 503 ''Signing key rotation is already in progress''), s1)
         else k_finally (k_bind (rotatePersistedKeyring ke rotatedAt)
                (\<lambda>keyring s2. (Inr (kr_activeKid keyring), rememberKeyring ke keyring s2)))
                (releaseRotationLease ownerToken) s1)"

section \<open>Reading the keys\<close>

text \<open>The 40 attempts of an isolate that did not get the lease; other requests run between them.\<close>

fun await_keyring :: "key_env \<Rightarrow> nat \<Rightarrow> StoredKeyring kio" where
  "await_keyring ke 0 s = (Inl (AppFailure 503 ''Signing key initialization is still in progress''), s)"
| "await_keyring ke (Suc n) s =
     (case loadPersistedKeyring ke (ke_others ke (''attempt:'' @ nat_string n) s) of
        (Inl e, s1) \<Rightarrow> (Inl e, s1)
      | (Inr (Some (keyring, v)), s1) \<Rightarrow> if hasUsableActiveKey keyring then (Inr keyring, s1) else await_keyring ke n s1
      | (Inr None, s1) \<Rightarrow> await_keyring ke n s1)"

text \<open>
  The initialization under the lease. Its last statement returns the promise of
  \<open>rotatePersistedKeyring\<close> without awaiting it, so the \<open>finally\<close> block releases the lease before
  the rotation has done its work.
\<close>

definition initialize_keyring :: "key_env \<Rightarrow> string \<Rightarrow> StoredKeyring kio" where
  "initialize_keyring ke ownerToken s =
     (case loadPersistedKeyring ke s of
        (Inl e, s1) \<Rightarrow> (Inl e, releaseRotationLease ownerToken s1)
      | (Inr (Some (keyring, v)), s1) \<Rightarrow>
          if hasUsableActiveKey keyring then (Inr keyring, releaseRotationLease ownerToken s1)
          else rotatePersistedKeyring ke (ke_now ke) (ke_others ke ''released'' (releaseRotationLease ownerToken s1))
      | (Inr None, s1) \<Rightarrow>
          (case loadLegacyKeyring s1 of
             Inl e \<Rightarrow> (Inl e, releaseRotationLease ownerToken s1)
           | Inr (Some legacy) \<Rightarrow>
               (case persistKeyring ke legacy None (ke_now ke) (markLegacyKvCleanupPending ke s1) of
                  (Inl e, s2) \<Rightarrow> (Inl e, releaseRotationLease ownerToken s2)
                | (Inr _, s2) \<Rightarrow> (Inr legacy, releaseRotationLease ownerToken (retryLegacyKvCleanup ke s2)))
           | Inr None \<Rightarrow>
               rotatePersistedKeyring ke (ke_now ke) (ke_others ke ''released'' (releaseRotationLease ownerToken s1))))"

definition loadOrInitializeKeyring :: "key_env \<Rightarrow> StoredKeyring kio" where
  "loadOrInitializeKeyring ke s =
     (case loadPersistedKeyring ke s of
        (Inl e, s1) \<Rightarrow> (Inl e, s1)
      | (Inr (Some (keyring, v)), s1) \<Rightarrow>
          if hasUsableActiveKey keyring then (Inr keyring, s1)
          else (let (acquired, s2) = acquireRotationLease ke (ke_uuid ke ''initialize'') (ke_now ke) s1
                in if acquired then initialize_keyring ke (ke_uuid ke ''initialize'') s2 else await_keyring ke 40 s2)
      | (Inr None, s1) \<Rightarrow>
          (let (acquired, s2) = acquireRotationLease ke (ke_uuid ke ''initialize'') (ke_now ke) s1
           in if acquired then initialize_keyring ke (ke_uuid ke ''initialize'') s2 else await_keyring ke 40 s2))"

definition ensureKeyring :: "key_env \<Rightarrow> StoredKeyring kio" where
  "ensureKeyring ke s =
     (let (cached, s1) = cachedKeyring ke s
      in case cached of
           Some keyring \<Rightarrow>
             if hasUsableActiveKey keyring then (Inr keyring, s1)
             else k_bind (loadOrInitializeKeyring ke) (\<lambda>k s2. (Inr k, rememberKeyring ke k s2)) s1
         | None \<Rightarrow> k_bind (loadOrInitializeKeyring ke) (\<lambda>k s2. (Inr k, rememberKeyring ke k s2)) s1)"

record SigningKeyStatus =
  st_kid :: string
  st_createdAt :: int
  st_publishedKeyCount :: nat
  st_pendingKid :: "string option"
  st_pendingSince :: "int option"

definition getSigningKeyStatus :: "key_env \<Rightarrow> SigningKeyStatus option kio" where
  "getSigningKeyStatus ke s =
     (case loadPersistedKeyring ke s of
        (Inl e, s1) \<Rightarrow> (Inl e, s1)
      | (Inr None, s1) \<Rightarrow> (Inr None, s1\<lparr>ks_cache := None\<rparr>)
      | (Inr (Some (keyring, v)), s1) \<Rightarrow>
          (let s2 = rememberKeyring ke keyring s1
           in case find (\<lambda>key. sk_kid key = kr_activeKid keyring \<and> sk_retiredAt key = None) (kr_keys keyring) of
                None \<Rightarrow> (Inl (AppFailure 500 ''Signing key unavailable''), s2)
              | Some active \<Rightarrow>
                  (Inr (Some \<lparr>st_kid = sk_kid active, st_createdAt = sk_createdAt active,
                     st_publishedKeyCount = length (publishedKeys (ke_now ke) keyring),
                     st_pendingKid = kr_pendingKid keyring, st_pendingSince = kr_pendingSince keyring\<rparr>), s2)))"

definition getActiveSigningKey :: "key_env \<Rightarrow> (string \<times> string) kio" where
  "getActiveSigningKey ke =
     k_bind (ensureKeyring ke) (\<lambda>keyring s.
       (let activeKid = kr_activeKid keyring; unavailable = AppFailure 500 ''Signing key unavailable''
        in case ks_private s activeKid of
             Some cached \<Rightarrow> (Inr (activeKid, cached), s)
           | None \<Rightarrow>
               (case Option.bind (find (\<lambda>key. sk_kid key = activeKid \<and> sk_retiredAt key = None) (kr_keys keyring)) sk_privateJwk of
                  None \<Rightarrow> (Inl unavailable, s)
                | Some privateJwk \<Rightarrow>
                    (case ke_import ke privateJwk of
                       Inl e \<Rightarrow> (Inl e, s)
                     | Inr None \<Rightarrow> (Inl unavailable, s)
                     | Inr (Some imported) \<Rightarrow>
                         (Inr (activeKid, imported), s\<lparr>ks_private := (ks_private s)(activeKid \<mapsto> imported)\<rparr>)))))"

definition getPublicJwks :: "key_env \<Rightarrow> json kio" where
  "getPublicJwks ke =
     k_bind (ensureKeyring ke) (\<lambda>keyring s.
       (Inr (JObj [(''keys'', JArr (map sk_publicJwk (publishedKeys (ke_now ke) keyring)))]), s))"

section \<open>The stored form\<close>

text \<open>JWKs as the library exports them: objects with a \<open>kty\<close>.\<close>

definition key_jwks :: "StoredSigningKey \<Rightarrow> bool" where
  "key_jwks k = (jwkSchema (sk_publicJwk k) \<and> (\<forall>j. sk_privateJwk k = Some j \<longrightarrow> jwkSchema j))"

lemma storedKeySchema_json: "key_jwks k \<Longrightarrow> storedKeySchema (key_json k) = Some k"
  by (cases k) (auto simp: storedKeySchema_def key_json_def key_jwks_def jget_def z_string_def z_optional_def z_jwk_def
      z_number_def z_nullable_def json_nullable_def split: option.splits)

lemma collect_map: "(\<And>x. x \<in> set xs \<Longrightarrow> f (g x) = Some x) \<Longrightarrow> collect (map f (map g xs)) = Some xs"
  by (induction xs) auto

lemma keyringSchema_json:
  assumes "\<forall>k\<in>set (kr_keys r). key_jwks k"
  shows "keyringSchema (keyring_json r) = Some r"
proof -
  have "collect (map (storedKeySchema \<circ> key_json) (kr_keys r)) = Some (kr_keys r)"
    using collect_map [of "kr_keys r" storedKeySchema key_json] assms by (simp add: storedKeySchema_json)
  then show ?thesis
    by (cases r) (auto simp: keyringSchema_def keyring_json_def jget_def z_string_def z_number_def z_nullish_def z_nullable_def
        json_nullable_def storedKeysSchema_def split: option.splits)
qed

section \<open>Sound keyrings\<close>

definition usable :: "StoredSigningKey \<Rightarrow> bool" where
  "usable k = (sk_retiredAt k = None \<and> sk_privateJwk k \<noteq> None)"

text \<open>
  A sound keyring: the kids are distinct; the active key and the staged one, if any, are usable; every
  other key is retired; and no retired key has its private part.
\<close>

definition keyring_ok :: "StoredKeyring \<Rightarrow> bool" where
  "keyring_ok r =
     (distinct (map sk_kid (kr_keys r)) \<and> (\<forall>k\<in>set (kr_keys r). key_jwks k) \<and>
      (\<exists>k\<in>set (kr_keys r). sk_kid k = kr_activeKid r \<and> usable k) \<and>
      (\<forall>p. kr_pendingKid r = Some p \<longrightarrow> p \<noteq> kr_activeKid r \<and> kr_pendingSince r \<noteq> None \<and>
         (\<exists>k\<in>set (kr_keys r). sk_kid k = p \<and> usable k)) \<and>
      (\<forall>k\<in>set (kr_keys r). sk_retiredAt k = None \<longrightarrow> sk_kid k = kr_activeKid r \<or> Some (sk_kid k) = kr_pendingKid r) \<and>
      (\<forall>k\<in>set (kr_keys r). sk_retiredAt k \<noteq> None \<longrightarrow> sk_privateJwk k = None))"

lemma ok_has_active: "keyring_ok r \<Longrightarrow> hasUsableActiveKey r"
  by (auto simp: keyring_ok_def hasUsableActiveKey_def usable_def list_ex_iff)

definition fresh_key :: "StoredSigningKey \<Rightarrow> StoredKeyring option \<Rightarrow> bool" where
  "fresh_key g current =
     (usable g \<and> key_jwks g \<and> (\<forall>c. current = Some c \<longrightarrow> sk_kid g \<notin> sk_kid ` set (kr_keys c)))"

lemma initial_ok: "usable g \<Longrightarrow> key_jwks g \<Longrightarrow> keyring_ok (initial_keyring g)"
  by (simp add: keyring_ok_def initial_keyring_def usable_def)

lemma strip_retired_simps [simp]:
  "sk_kid (strip_retired k) = sk_kid k" "sk_retiredAt (strip_retired k) = sk_retiredAt k"
  "sk_publicJwk (strip_retired k) = sk_publicJwk k"
  by (simp_all add: strip_retired_def)

lemma strip_retired_ok: "sk_retiredAt k \<noteq> None \<longrightarrow> sk_privateJwk k = None \<Longrightarrow> strip_retired k = k"
  by (auto simp: strip_retired_def)

lemma strip_all: "keyring_ok c \<Longrightarrow> map strip_retired (kr_keys c) = kr_keys c"
  by (rule map_idI) (auto simp: keyring_ok_def strip_retired_def)

lemma stage_ok:
  assumes c: "keyring_ok c" and "kr_pendingKid c = None" and g: "fresh_key g (Some c)"
  shows "keyring_ok (stage_keyring c g t)"
proof -
  let ?keys = "filter (in_grace t) (kr_keys c)"
  have keys: "kr_keys (stage_keyring c g t) = g # ?keys" using strip_all [OF c] by (simp add: stage_keyring_def)
  have active: "\<exists>k\<in>set ?keys. sk_kid k = kr_activeKid c \<and> usable k"
    using c by (auto simp: keyring_ok_def usable_def in_grace_def)
  have new: "sk_kid g \<notin> sk_kid ` set (kr_keys c)" "usable g" "key_jwks g" using g by (auto simp: fresh_key_def)
  have "sk_kid g \<noteq> kr_activeKid c" using new(1) c by (auto simp: keyring_ok_def image_iff)
  moreover have "distinct (map sk_kid (g # ?keys))"
    using new(1) c distinct_map_filter [of sk_kid "kr_keys c" "in_grace t"] by (auto simp: keyring_ok_def)
  ultimately show ?thesis
    using c assms(2) new active unfolding keyring_ok_def keys
    by (auto simp: stage_keyring_def usable_def)
qed

lemma unretire_id: "sk_retiredAt k = None \<Longrightarrow> k\<lparr>sk_retiredAt := None\<rparr> = k" for k :: StoredSigningKey
  by (cases k) simp

lemma map_activate_kids: "map sk_kid (map (activate_key c p t) ks) = map sk_kid ks"
  by (simp add: activate_key_def comp_def)

lemma activate_ok:
  assumes c: "keyring_ok c" and p: "kr_pendingKid c = Some p"
  shows "keyring_ok (activate_keyring c p t)"
proof -
  let ?f = "activate_key c p t" and ?keys = "filter (in_grace t) (map (activate_key c p t) (kr_keys c))"
  have ne: "p \<noteq> kr_activeKid c" using c p by (simp add: keyring_ok_def)
  obtain k where k: "k \<in> set (kr_keys c)" "sk_kid k = p" "usable k" using c p by (auto simp: keyring_ok_def)
  have fk: "?f k = k" using k(2,3) ne by (simp add: activate_key_def usable_def unretire_id)
  then have pk: "k \<in> set ?keys" using k by (force simp: in_grace_def usable_def)
  have d: "distinct (map sk_kid ?keys)"
    using c distinct_map_filter [of sk_kid "map ?f (kr_keys c)" "in_grace t"]
    by (simp only: map_activate_kids keyring_ok_def)
  have each: "key_jwks (?f x) \<and> (sk_retiredAt (?f x) = None \<longrightarrow> sk_kid (?f x) = p) \<and>
      (sk_retiredAt (?f x) \<noteq> None \<longrightarrow> sk_privateJwk (?f x) = None)" if x: "x \<in> set (kr_keys c)" for x
  proof -
    have "key_jwks x" "sk_retiredAt x = None \<longrightarrow> sk_kid x = kr_activeKid c \<or> sk_kid x = p"
      "sk_retiredAt x \<noteq> None \<longrightarrow> sk_privateJwk x = None"
      using c x p by (auto simp: keyring_ok_def)
    then show ?thesis by (auto simp: activate_key_def strip_retired_def key_jwks_def)
  qed
  then have all: "\<forall>x\<in>set ?keys. key_jwks x \<and> (sk_retiredAt x = None \<longrightarrow> sk_kid x = p) \<and>
      (sk_retiredAt x \<noteq> None \<longrightarrow> sk_privateJwk x = None)" by auto
  have "\<exists>k\<in>set ?keys. sk_kid k = p \<and> usable k" using pk k(2,3) by blast
  with d all show ?thesis
    unfolding keyring_ok_def activate_keyring_def StoredKeyring.select_convs by blast
qed

lemma usable_pending_found:
  "keyring_ok c \<Longrightarrow> kr_pendingKid c = Some p \<Longrightarrow> \<exists>k. usable_pending c = Some k \<and> sk_kid k = p"
proof -
  assume c: "keyring_ok c" and p: "kr_pendingKid c = Some p"
  then have "list_ex (\<lambda>key. Some (sk_kid key) = kr_pendingKid c \<and> sk_retiredAt key = None \<and> sk_privateJwk key \<noteq> None) (kr_keys c)"
    by (auto simp: keyring_ok_def usable_def list_ex_iff)
  then obtain k where "usable_pending c = Some k" by (cases "usable_pending c") (auto simp: usable_pending_def find_None_iff list_ex_iff)
  moreover from this have "sk_kid k = p" using p by (auto simp: usable_pending_def dest: find_Some_mem)
  ultimately show ?thesis by blast
qed

text \<open>The steps a rotation can take from a sound keyring.\<close>

lemma next_keyring_cases:
  assumes "\<And>c. current = Some c \<Longrightarrow> keyring_ok c" and "fresh_key g current"
  shows "next_keyring current g t =
    (case current of
       None \<Rightarrow> Inr (Some (initial_keyring g))
     | Some c \<Rightarrow>
         (case (kr_pendingKid c, kr_pendingSince c) of
            (Some p, Some since) \<Rightarrow>
              if t - since < JWKS_PROPAGATION_SECONDS then Inr None else Inr (Some (activate_keyring c p t))
          | _ \<Rightarrow> Inr (Some (stage_keyring c g t))))"
proof (cases current)
  case (Some c)
  show ?thesis
  proof (cases "kr_pendingKid c")
    case (Some p)
    then obtain since where "kr_pendingSince c = Some since" using assms(1) \<open>current = Some c\<close> by (auto simp: keyring_ok_def)
    with Some \<open>current = Some c\<close> usable_pending_found [OF assms(1) Some] show ?thesis
      by (auto simp: next_keyring_def)
  qed (simp add: Some next_keyring_def)
qed (simp add: next_keyring_def)

lemma next_keyring_ok:
  assumes "\<And>c. current = Some c \<Longrightarrow> keyring_ok c" and "fresh_key g current"
  shows "\<exists>r. next_keyring current g t = Inr r \<and> (\<forall>k. r = Some k \<longrightarrow> keyring_ok k)"
proof (cases current)
  case None
  with assms(2) initial_ok [of g] show ?thesis by (auto simp: next_keyring_def fresh_key_def)
next
  case (Some c)
  show ?thesis
    using assms(1) [OF Some] assms(2) stage_ok [of c g] activate_ok [of c] next_keyring_cases [OF assms, of t] Some
    by (cases "kr_pendingKid c"; cases "kr_pendingSince c") (auto simp: keyring_ok_def [of c])
qed

section \<open>The history of a keyring\<close>

text \<open>
  A keyring with its history: when each key was first published, became active and was retired.
  A run is the first boot followed by rotations at later and later times, each with a fresh key.
\<close>

record key_history =
  kh_ring :: StoredKeyring
  kh_time :: int
  kh_first :: string
  kh_published :: "string \<Rightarrow> int option"
  kh_activated :: "string \<Rightarrow> int option"
  kh_retired :: "string \<Rightarrow> int option"

definition kids :: "StoredSigningKey list \<Rightarrow> string set" where "kids ks = sk_kid ` set ks"

definition boot :: "StoredSigningKey \<Rightarrow> int \<Rightarrow> key_history" where
  "boot g t = \<lparr>kh_ring = initial_keyring g, kh_time = t, kh_first = sk_kid g, kh_published = [sk_kid g \<mapsto> t],
     kh_activated = [sk_kid g \<mapsto> t], kh_retired = Map.empty\<rparr>"

definition advance :: "key_history \<Rightarrow> int \<Rightarrow> StoredKeyring \<Rightarrow> key_history" where
  "advance h t k =
     h\<lparr>kh_ring := k, kh_time := t,
       kh_published := (\<lambda>i. if kh_published h i = None \<and> i \<in> kids (publishedKeys t k) then Some t else kh_published h i),
       kh_activated := (if kr_activeKid k = kr_activeKid (kh_ring h) then kh_activated h
                        else (kh_activated h)(kr_activeKid k \<mapsto> t)),
       kh_retired := (if kr_activeKid k = kr_activeKid (kh_ring h) then kh_retired h
                      else (kh_retired h)(kr_activeKid (kh_ring h) \<mapsto> t))\<rparr>"

inductive key_run :: "key_history \<Rightarrow> bool" where
  first_boot: "usable g \<Longrightarrow> key_jwks g \<Longrightarrow> key_run (boot g t)"
| rotation: "key_run h \<Longrightarrow> kh_time h \<le> t \<Longrightarrow> usable g \<Longrightarrow> key_jwks g \<Longrightarrow> kh_published h (sk_kid g) = None \<Longrightarrow>
    next_keyring (Some (kh_ring h)) g t = Inr (Some k) \<Longrightarrow> key_run (advance h t k)"

text \<open>What the history says of the keyring.\<close>

definition known_keys :: "key_history \<Rightarrow> bool" where
  "known_keys h = (\<forall>k\<in>set (kr_keys (kh_ring h)). kh_published h (sk_kid k) \<noteq> None \<and>
     (\<forall>tr. sk_retiredAt k = Some tr \<longrightarrow> kh_retired h (sk_kid k) = Some tr))"

definition staged_since :: "key_history \<Rightarrow> bool" where
  "staged_since h = (\<forall>p. kr_pendingKid (kh_ring h) = Some p \<longrightarrow> kh_published h p = kr_pendingSince (kh_ring h) \<and>
     kh_retired h p = None)"

definition active_after :: "key_history \<Rightarrow> bool" where
  "active_after h = (\<forall>i ta. kh_activated h i = Some ta \<longrightarrow> i = kh_first h \<or>
     (\<exists>tp. kh_published h i = Some tp \<and> tp + JWKS_PROPAGATION_SECONDS \<le> ta))"

definition retired_kept :: "key_history \<Rightarrow> bool" where
  "retired_kept h = (kh_retired h (kr_activeKid (kh_ring h)) = None \<and>
     (\<forall>i tr. kh_retired h i = Some tr \<longrightarrow> tr \<le> kh_time h \<and> kh_published h i \<noteq> None \<and>
        (\<forall>k\<in>set (kr_keys (kh_ring h)). sk_kid k = i \<longrightarrow> sk_retiredAt k = Some tr) \<and>
        (kh_time h - tr < RETIRED_GRACE_SECONDS \<longrightarrow> i \<in> kids (kr_keys (kh_ring h)))))"

definition history_ok :: "key_history \<Rightarrow> bool" where
  "history_ok h = (keyring_ok (kh_ring h) \<and> known_keys h \<and> staged_since h \<and> active_after h \<and> retired_kept h)"

lemma boot_ok: "usable g \<Longrightarrow> key_jwks g \<Longrightarrow> history_ok (boot g t)"
  using initial_ok [of g]
  by (auto simp: history_ok_def boot_def known_keys_def staged_since_def active_after_def retired_kept_def)
    (auto simp: initial_keyring_def usable_def)

text \<open>A rotation either stages the new key or activates the staged one.\<close>

lemma rotation_cases:
  assumes ok: "history_ok h" and g: "usable g" "key_jwks g" "kh_published h (sk_kid g) = None"
    and nxt: "next_keyring (Some (kh_ring h)) g t = Inr (Some k)"
  obtains (stage) "kr_pendingKid (kh_ring h) = None" "k = stage_keyring (kh_ring h) g t"
  | (activate) p since where "kr_pendingKid (kh_ring h) = Some p" "kr_pendingSince (kh_ring h) = Some since"
      "since + JWKS_PROPAGATION_SECONDS \<le> t" "k = activate_keyring (kh_ring h) p t"
proof -
  have r: "keyring_ok (kh_ring h)" using ok by (simp add: history_ok_def)
  have "fresh_key g (Some (kh_ring h))"
    using g ok by (force simp: fresh_key_def history_ok_def known_keys_def)
  then have eq: "next_keyring (Some (kh_ring h)) g t =
      (case (kr_pendingKid (kh_ring h), kr_pendingSince (kh_ring h)) of
         (Some p, Some since) \<Rightarrow>
           if t - since < JWKS_PROPAGATION_SECONDS then Inr None else Inr (Some (activate_keyring (kh_ring h) p t))
       | _ \<Rightarrow> Inr (Some (stage_keyring (kh_ring h) g t)))"
    using next_keyring_cases [of "Some (kh_ring h)" g t] r by simp
  show ?thesis
  proof (cases "kr_pendingKid (kh_ring h)")
    case None
    with eq nxt stage show ?thesis by simp
  next
    case (Some p)
    then obtain since where "kr_pendingSince (kh_ring h) = Some since" using r by (auto simp: keyring_ok_def)
    with Some eq nxt activate [of p since] show ?thesis by (auto split: if_splits)
  qed
qed

lemma stage_keys:
  "keyring_ok c \<Longrightarrow> kr_keys (stage_keyring c g t) = g # filter (in_grace t) (kr_keys c)"
  by (simp add: stage_keyring_def strip_all)

lemma stage_preserves:
  assumes ok: "history_ok h" and t: "kh_time h \<le> t"
    and g: "usable g" "key_jwks g" "kh_published h (sk_kid g) = None" and none: "kr_pendingKid (kh_ring h) = None"
  shows "history_ok (advance h t (stage_keyring (kh_ring h) g t))"
proof -
  let ?r = "kh_ring h" and ?k = "stage_keyring (kh_ring h) g t"
  have r: "keyring_ok ?r" and kn: "known_keys h" and ac: "active_after h" and re: "retired_kept h"
    using ok by (simp_all add: history_ok_def)
  note keys = stage_keys [OF r, of g t]
  have "g \<in> set (publishedKeys t ?k)" by (simp add: publishedKeys_def keys) (simp add: stage_keyring_def)
  moreover have "set (publishedKeys t ?k) \<subseteq> insert g (set (kr_keys ?r))" by (auto simp: publishedKeys_def keys)
  ultimately have pubs: "sk_kid g \<in> kids (publishedKeys t ?k)" "kids (publishedKeys t ?k) \<subseteq> insert (sk_kid g) (kids (kr_keys ?r))"
    by (auto simp: kids_def)
  have "kh_published h i \<noteq> None" if "i \<in> kids (kr_keys ?r)" for i using kn that by (auto simp: known_keys_def kids_def)
  with pubs have "kh_published h i = None \<and> i \<in> kids (publishedKeys t ?k) \<longleftrightarrow> i = sk_kid g" for i using g(3) by blast
  then have pub: "kh_published (advance h t ?k) = (kh_published h)(sk_kid g \<mapsto> t)"
    by (auto simp: advance_def fun_eq_iff)
  have same: "kr_activeKid ?k = kr_activeKid ?r" by (simp add: stage_keyring_def)
  have gone: "kh_retired h (sk_kid g) = None" using re g(3) unfolding retired_kept_def by (metis not_None_eq)
  have "keyring_ok ?k"
    using r none g kn by (intro stage_ok) (force simp: fresh_key_def known_keys_def)+
  moreover have "known_keys (advance h t ?k)"
    using kn g(1) gone unfolding known_keys_def pub by (auto simp: advance_def same keys usable_def)
  moreover have "staged_since (advance h t ?k)"
    using gone unfolding staged_since_def pub by (simp add: advance_def same) (simp add: stage_keyring_def)
  moreover have "active_after (advance h t ?k)"
  proof -
    have adv: "kh_activated (advance h t ?k) = kh_activated h" "kh_first (advance h t ?k) = kh_first h"
      by (simp_all add: advance_def same)
    have "\<exists>tp. ((kh_published h)(sk_kid g \<mapsto> t)) i = Some tp \<and> tp + JWKS_PROPAGATION_SECONDS \<le> ta"
      if "kh_activated h i = Some ta" "i \<noteq> kh_first h" for i ta
    proof -
      from ac that obtain tp where tp: "kh_published h i = Some tp" "tp + JWKS_PROPAGATION_SECONDS \<le> ta"
        by (auto simp: active_after_def)
      with g(3) have "i \<noteq> sk_kid g" by auto
      with tp show ?thesis by simp
    qed
    then show ?thesis unfolding active_after_def pub adv by blast
  qed
  moreover have "retired_kept (advance h t ?k)"
  proof -
    have "tr \<le> t \<and> ((kh_published h)(sk_kid g \<mapsto> t)) i \<noteq> None \<and> (\<forall>x\<in>set (kr_keys ?k). sk_kid x = i \<longrightarrow> sk_retiredAt x = Some tr) \<and>
        (t - tr < RETIRED_GRACE_SECONDS \<longrightarrow> i \<in> kids (kr_keys ?k))" if i: "kh_retired h i = Some tr" for i tr
    proof -
      have old: "tr \<le> kh_time h" "\<forall>x\<in>set (kr_keys ?r). sk_kid x = i \<longrightarrow> sk_retiredAt x = Some tr"
        "kh_time h - tr < RETIRED_GRACE_SECONDS \<longrightarrow> i \<in> kids (kr_keys ?r)" "kh_published h i \<noteq> None"
        using re i by (auto simp: retired_kept_def)
      have "i \<noteq> sk_kid g" using i gone by auto
      with old t show ?thesis by (auto simp: keys kids_def in_grace_def)
    qed
    then show ?thesis using re unfolding retired_kept_def pub by (auto simp: advance_def same)
  qed
  ultimately show ?thesis by (simp add: history_ok_def advance_def)
qed

lemma activate_preserves:
  assumes ok: "history_ok h" and t: "kh_time h \<le> t"
    and p: "kr_pendingKid (kh_ring h) = Some p" "kr_pendingSince (kh_ring h) = Some since"
      "since + JWKS_PROPAGATION_SECONDS \<le> t"
  shows "history_ok (advance h t (activate_keyring (kh_ring h) p t))"
proof -
  let ?r = "kh_ring h" and ?k = "activate_keyring (kh_ring h) p t" and ?f = "activate_key (kh_ring h) p t"
  have r: "keyring_ok ?r" and kn: "known_keys h" and st: "staged_since h" and ac: "active_after h" and re: "retired_kept h"
    using ok by (simp_all add: history_ok_def)
  have ne: "p \<noteq> kr_activeKid ?r" using r p(1) by (simp add: keyring_ok_def)
  have keys: "kr_keys ?k = filter (in_grace t) (map ?f (kr_keys ?r))" and act: "kr_activeKid ?k = p" "kr_pendingKid ?k = None"
    by (simp_all add: activate_keyring_def)
  have kid: "sk_kid (?f x) = sk_kid x" for x by (simp add: activate_key_def)
  have "sk_kid ` set (kr_keys ?k) \<subseteq> sk_kid ` set (kr_keys ?r)" unfolding keys by (force simp: kid)
  then have "kids (publishedKeys t ?k) \<subseteq> kids (kr_keys ?r)" by (auto simp: publishedKeys_def kids_def)
  then have pub: "kh_published (advance h t ?k) = kh_published h"
    using kn by (auto simp: advance_def known_keys_def kids_def fun_eq_iff)
  have retd: "kh_retired (advance h t ?k) = (kh_retired h)(kr_activeKid ?r \<mapsto> t)"
    "kh_activated (advance h t ?k) = (kh_activated h)(p \<mapsto> t)" "kh_ring (advance h t ?k) = ?k" "kh_time (advance h t ?k) = t"
    "kh_first (advance h t ?k) = kh_first h"
    using ne by (auto simp: advance_def act)
  have pret: "kh_retired h p = None" "kh_published h p = Some since" using st p by (auto simp: staged_since_def)
  have arec: "\<exists>x\<in>set (kr_keys ?r). sk_kid x = kr_activeKid ?r" using r by (auto simp: keyring_ok_def)
  have ret: "sk_retiredAt (?f x) = (if sk_kid x = kr_activeKid ?r then Some t else if sk_kid x = p then None else sk_retiredAt x)" for x
    by (simp add: activate_key_def)
  have "keyring_ok ?k" using activate_ok [OF r p(1)] .
  moreover have "known_keys (advance h t ?k)"
    using kn unfolding known_keys_def pub retd by (auto simp: keys kid ret split: if_splits)
  moreover have "staged_since (advance h t ?k)" unfolding staged_since_def retd by (simp add: act)
  moreover have "active_after (advance h t ?k)"
    using ac pret(2) p(3) unfolding active_after_def pub retd by auto
  moreover have "retired_kept (advance h t ?k)"
  proof -
    have "tr \<le> t \<and> kh_published h i \<noteq> None \<and> (\<forall>x\<in>set (kr_keys ?k). sk_kid x = i \<longrightarrow> sk_retiredAt x = Some tr) \<and>
        (t - tr < RETIRED_GRACE_SECONDS \<longrightarrow> i \<in> kids (kr_keys ?k))"
      if i: "((kh_retired h)(kr_activeKid ?r \<mapsto> t)) i = Some tr" for i tr
    proof (cases "i = kr_activeKid ?r")
      case True
      then have tr: "tr = t" using i by simp
      obtain a where a: "a \<in> set (kr_keys ?r)" "sk_kid a = i" using arec True by auto
      have "sk_retiredAt (?f a) = Some t" using a(2) True by (simp add: ret)
      then have "in_grace t (?f a)" by (simp add: in_grace_def RETIRED_GRACE_SECONDS_def)
      then have "?f a \<in> set (kr_keys ?k)" using a(1) by (simp add: keys)
      then have "i \<in> kids (kr_keys ?k)" using a(2) kid [of a] unfolding kids_def by (metis image_eqI)
      moreover have "kh_published h i \<noteq> None" using kn a by (auto simp: known_keys_def)
      moreover have "\<forall>x\<in>set (kr_keys ?k). sk_kid x = i \<longrightarrow> sk_retiredAt x = Some tr"
        using True tr by (auto simp: keys kid ret)
      ultimately show ?thesis using tr by simp
    next
      case False
      with i have o: "kh_retired h i = Some tr" by simp
      have old: "tr \<le> kh_time h" "\<forall>x\<in>set (kr_keys ?r). sk_kid x = i \<longrightarrow> sk_retiredAt x = Some tr"
        "kh_time h - tr < RETIRED_GRACE_SECONDS \<longrightarrow> i \<in> kids (kr_keys ?r)" "kh_published h i \<noteq> None"
        using re o by (auto simp: retired_kept_def)
      have "i \<noteq> p" using o pret by auto
      have "i \<in> kids (kr_keys ?k)" if g: "t - tr < RETIRED_GRACE_SECONDS"
      proof -
        have "kh_time h - tr < RETIRED_GRACE_SECONDS" using g t by simp
        then obtain a where a: "a \<in> set (kr_keys ?r)" "sk_kid a = i" using old(3) by (auto simp: kids_def)
        have "sk_retiredAt (?f a) = Some tr" using a old(2) False \<open>i \<noteq> p\<close> by (simp add: ret)
        then have "?f a \<in> set (kr_keys ?k)" using a(1) g by (simp add: keys in_grace_def)
        then show ?thesis using a(2) kid [of a] unfolding kids_def by (metis image_eqI)
      qed
      moreover have "\<forall>x\<in>set (kr_keys ?k). sk_kid x = i \<longrightarrow> sk_retiredAt x = Some tr"
        using old(2) False \<open>i \<noteq> p\<close> by (auto simp: keys kid ret)
      ultimately show ?thesis using old t by simp
    qed
    then show ?thesis using pret ne unfolding retired_kept_def pub retd act by auto
  qed
  ultimately show ?thesis unfolding history_ok_def retd(3) by blast
qed

lemma key_run_ok: "key_run h \<Longrightarrow> history_ok h"
proof (induction rule: key_run.induct)
  case (rotation h t g k)
  from rotation.IH rotation.hyps(3-6) show ?case
  proof (cases rule: rotation_cases)
    case stage
    with rotation show ?thesis by (simp add: stage_preserves)
  next
    case (activate p since)
    with rotation show ?thesis by (simp add: activate_preserves)
  qed
qed (rule boot_ok)

section \<open>Leases\<close>

datatype lease_op = Op_acquire string string int int | Op_release string string

fun lease_step :: "lease_op \<Rightarrow> key_state \<Rightarrow> string option \<times> key_state" where
  "lease_step (Op_acquire job owner now secs) s =
     (let (ok, s') = acquire_lease job owner now secs s in (if ok then Some owner else None, s'))"
| "lease_step (Op_release job owner) s = (None, release_lease job owner s)"

text \<open>An operation other requests may run while the lease of \<open>owner\<close> on \<open>job\<close> has not expired.\<close>

fun while_held :: "string \<Rightarrow> string \<Rightarrow> int \<Rightarrow> lease_op \<Rightarrow> bool" where
  "while_held job owner until (Op_acquire j o' now secs) = (j = job \<and> now < until)"
| "while_held job owner until (Op_release j o') = (o' \<noteq> owner)"

definition holds_lease :: "string \<Rightarrow> string \<Rightarrow> int \<Rightarrow> key_state \<Rightarrow> bool" where
  "holds_lease job owner until s = (\<exists>l. ks_leases s job = Some l \<and> ls_owner l = owner \<and> ls_until l = until)"

lemma held_step:
  "holds_lease job owner until s \<Longrightarrow> while_held job owner until op \<Longrightarrow>
     fst (lease_step op s) = None \<and> holds_lease job owner until (snd (lease_step op s))"
  by (cases op) (auto simp: holds_lease_def acquire_lease_def release_lease_def Let_def split: option.splits)

lemma held_run:
  "holds_lease job owner until s \<Longrightarrow> \<forall>op\<in>set ops. while_held job owner until op \<Longrightarrow>
     grants (fst (run lease_step ops s)) = [] \<and> holds_lease job owner until (snd (run lease_step ops s))"
proof (induction ops arbitrary: s)
  case (Cons op ops)
  obtain g s' where st: "lease_step op s = (g, s')" by fastforce
  with held_step [OF Cons.prems(1), of op] Cons.prems(2) have "g = None" "holds_lease job owner until s'" by auto
  with Cons.IH [of s'] Cons.prems(2) st show ?case by (auto simp: Let_def split: prod.splits)
qed simp

section \<open>Writing the keyring\<close>

lemma load_sound:
  assumes "ks_row s = Some row" "kw_json row = Some (keyring_json c)" "keyring_ok c"
  shows "\<exists>s1. loadPersistedKeyring ke s = (Inr (Some (c, kw_version row)), s1) \<and> ks_row s1 = ks_row s \<and> ks_leases s1 = ks_leases s"
proof -
  have "keyringSchema (keyring_json c) = Some c" using assms(3) by (intro keyringSchema_json) (simp add: keyring_ok_def)
  moreover have "ks_row (retryLegacyKvCleanup ke s) = ks_row s \<and> ks_leases (retryLegacyKvCleanup ke s) = ks_leases s"
    by (simp add: retryLegacyKvCleanup_def removeLegacyKvKeyring_def kv_delete_def clearLegacyKvCleanupPending_def Let_def
        split: prod.splits)
  ultimately show ?thesis using assms ok_has_active by (simp add: loadPersistedKeyring_def)
qed

lemma generated_fresh:
  assumes "ke_generate ke l = (kid, private, public)" "jwkSchema private" "jget public ''kty'' \<noteq> None"
  shows "usable (generateStoredKey ke l t)" "key_jwks (generateStoredKey ke l t)" "sk_kid (generateStoredKey ke l t) = kid"
  using assms by (simp_all add: generateStoredKey_def usable_def key_jwks_def jwkSchema_def jget_jset)

text \<open>The lease is free while the first keyring is being made.\<close>

lemma initialization_unleased:
  assumes "ks_row s = None" "ks_kvKeys s = None" "ks_leases s ROTATION_LEASE_NAME = None"
  shows "\<exists>s1. loadOrInitializeKeyring ke s = rotatePersistedKeyring ke (ke_now ke) (ke_others ke ''released'' s1) \<and>
    ks_leases s1 ROTATION_LEASE_NAME = None"
proof -
  let ?o = "ke_uuid ke ''initialize''"
  obtain s2 where a: "acquireRotationLease ke ?o (ke_now ke) s = (True, s2)" "ks_row s2 = None" "ks_kvKeys s2 = None"
    "\<exists>l. ks_leases s2 ROTATION_LEASE_NAME = Some l \<and> ls_owner l = ?o"
    using assms by (simp add: acquireRotationLease_def acquire_lease_def)
  have "loadOrInitializeKeyring ke s =
      rotatePersistedKeyring ke (ke_now ke) (ke_others ke ''released'' (releaseRotationLease ?o s2))"
    using assms a by (simp add: loadOrInitializeKeyring_def loadPersistedKeyring_def initialize_keyring_def loadLegacyKeyring_def)
  moreover have "ks_leases (releaseRotationLease ?o s2) ROTATION_LEASE_NAME = None"
    using a(4) by (auto simp: releaseRotationLease_def release_lease_def)
  ultimately show ?thesis by blast
qed

section \<open>A concrete keyring\<close>

definition demo_key :: "string \<Rightarrow> int \<Rightarrow> StoredSigningKey" where
  "demo_key kid t = \<lparr>sk_kid = kid, sk_privateJwk = Some (JObj [(''kty'', JStr ''RSA'')]),
     sk_publicJwk = JObj [(''kty'', JStr ''RSA'')], sk_createdAt = t, sk_retiredAt = None\<rparr>"

definition demo_h0 :: key_history where "demo_h0 = boot (demo_key ''a'' 0) 0"
definition demo_h1 :: key_history where
  "demo_h1 = advance demo_h0 10 (stage_keyring (kh_ring demo_h0) (demo_key ''b'' 10) 10)"
definition demo_h2 :: key_history where "demo_h2 = advance demo_h1 200 (activate_keyring (kh_ring demo_h1) ''b'' 200)"

lemmas demo_history_defs = demo_h0_def demo_h1_def demo_h2_def boot_def advance_def stage_keyring_def activate_keyring_def
  initial_keyring_def demo_key_def publishedKeys_def kids_def strip_retired_def in_grace_def activate_key_def

lemma demo_key_ok: "usable (demo_key kid t)" "key_jwks (demo_key kid t)"
  by (simp_all add: demo_key_def usable_def key_jwks_def jwkSchema_def jget_def)

lemma demo_key_run: "key_run demo_h2"
proof -
  have 0: "key_run demo_h0" unfolding demo_h0_def by (intro first_boot demo_key_ok)
  have 1: "key_run demo_h1" unfolding demo_h1_def
    by (rule rotation [OF 0 _ demo_key_ok]) (simp_all add: next_keyring_def, simp_all add: demo_history_defs)
  have "next_keyring (Some (kh_ring demo_h1)) (demo_key ''c'' 200) 200 =
      Inr (Some (activate_keyring (kh_ring demo_h1) ''b'' 200))"
    by (simp add: next_keyring_def usable_pending_def) (simp add: demo_history_defs JWKS_PROPAGATION_SECONDS_def)
  then show ?thesis unfolding demo_h2_def
    by (rule rotation [OF 1 _ demo_key_ok, rotated 2]) (simp_all add: demo_history_defs)
qed

definition demo_ke :: key_env where
  "demo_ke = \<lparr>ke_nowMs = 20000, ke_uuid = (\<lambda>l. l),
     ke_generate = (\<lambda>l. (''n'', JObj [(''kty'', JStr ''RSA'')], [(''kty'', JStr ''RSA'')])), ke_import = (\<lambda>j. Inr (Some ''key'')),
     ke_kvDelete = (\<lambda>k. True), ke_others = (\<lambda>l s. s)\<rparr>"

definition demo_ks :: key_state where
  "demo_ks = \<lparr>ks_row = Some \<lparr>kw_json = Some (keyring_json (initial_keyring (demo_key ''a'' 0))), kw_version = 1, kw_updatedAt = 0\<rparr>,
     ks_leases = Map.empty, ks_cleanup = None, ks_kvKeys = None, ks_kvActive = None, ks_cache = None, ks_private = Map.empty\<rparr>"

section \<open>Properties\<close>

text \<open>
  C27. No key signs before the world can know it. In every run of boots and rotations, a key other
  than the very first one becomes active only after it has been published for the propagation
  time of two minutes, which exceeds four lifetimes of an isolate's cache of the keyring.
\<close>

theorem key_published_before_signing:
  assumes "key_run h" "kh_activated h i = Some ta" "i \<noteq> kh_first h"
  shows "\<exists>tp. kh_published h i = Some tp \<and> tp + 120 \<le> ta \<and> 4 * KEYRING_CACHE_TTL_MS \<le> (ta - tp) * 1000"
  using key_run_ok [OF assms(1)] assms(2,3)
  by (fastforce simp: history_ok_def active_after_def JWKS_PROPAGATION_SECONDS_def KEYRING_CACHE_TTL_MS_def)

theorem key_published_before_signing_witness:
  "kh_activated demo_h2 ''b'' = Some 200 \<and> (\<exists>tp. kh_published demo_h2 ''b'' = Some tp \<and> tp + 120 \<le> 200)"
proof -
  have a: "kh_activated demo_h2 ''b'' = Some 200" "''b'' \<noteq> kh_first demo_h2" by (simp_all add: demo_history_defs)
  from key_published_before_signing [OF demo_key_run a] a(1) show ?thesis by blast
qed

text \<open>
  A retired key verifies exactly for its grace period, and never signs. In every run, a key
  retired at \<open>tr\<close> is in the published set at a later time \<open>t\<close> if and only if less than 91 days have
  passed, so that whatever it signed (even from a stale cache) can be verified as long as it lives;
  and the stored keyring has lost its private part.
\<close>

theorem retired_key_grace_exact:
  assumes "key_run h" "kh_retired h i = Some tr" "kh_time h \<le> t"
  shows "(i \<in> kids (publishedKeys t (kh_ring h)) \<longleftrightarrow> t - tr < 91 * 86400) \<and> i \<noteq> kr_activeKid (kh_ring h) \<and>
    (\<forall>k\<in>set (kr_keys (kh_ring h)). sk_kid k = i \<longrightarrow> sk_privateJwk k = None)"
proof -
  have ok: "history_ok h" using key_run_ok [OF assms(1)] .
  have old: "tr \<le> kh_time h" "\<forall>x\<in>set (kr_keys (kh_ring h)). sk_kid x = i \<longrightarrow> sk_retiredAt x = Some tr"
    "kh_time h - tr < RETIRED_GRACE_SECONDS \<longrightarrow> i \<in> kids (kr_keys (kh_ring h))" "i \<noteq> kr_activeKid (kh_ring h)"
    using ok assms(2) by (auto simp: history_ok_def retired_kept_def)
  have pending: "kr_pendingKid (kh_ring h) \<noteq> Some i" using ok assms(2) by (auto simp: history_ok_def staged_since_def)
  have priv: "\<forall>k\<in>set (kr_keys (kh_ring h)). sk_kid k = i \<longrightarrow> sk_privateJwk k = None"
    using ok old(2) by (auto simp: history_ok_def keyring_ok_def)
  have "i \<in> kids (publishedKeys t (kh_ring h)) \<longleftrightarrow> t - tr < RETIRED_GRACE_SECONDS"
  proof
    assume "i \<in> kids (publishedKeys t (kh_ring h))"
    then show "t - tr < RETIRED_GRACE_SECONDS"
      using old(2,4) pending by (auto simp: kids_def publishedKeys_def split: option.splits)
  next
    assume g: "t - tr < RETIRED_GRACE_SECONDS"
    with assms(3) old(3) obtain k where "k \<in> set (kr_keys (kh_ring h))" "sk_kid k = i" by (auto simp: kids_def)
    with old(2) g show "i \<in> kids (publishedKeys t (kh_ring h))"
      by (auto simp: kids_def publishedKeys_def image_iff intro!: bexI [of _ k])
  qed
  with old(4) priv show ?thesis by (simp add: RETIRED_GRACE_SECONDS_def)
qed

theorem retired_key_grace_exact_witness:
  "''a'' \<in> kids (publishedKeys 300 (kh_ring demo_h2)) \<and> ''a'' \<notin> kids (publishedKeys 7862600 (kh_ring demo_h2))"
proof -
  have a: "kh_retired demo_h2 ''a'' = Some 200" "kh_time demo_h2 \<le> 300" "kh_time demo_h2 \<le> 7862600"
    by (simp_all add: demo_history_defs)
  show ?thesis
    using retired_key_grace_exact [OF demo_key_run a(1) a(2)] retired_key_grace_exact [OF demo_key_run a(1) a(3)] by simp
qed

text \<open>
  Concurrent rotations never overwrite each other and never damage the keyring. From a stored
  sound keyring, whatever other requests do between the read and the write, a rotation either
  finds that the staged key must wait and writes nothing, or writes the sound successor of exactly
  the keyring it has read, under the next version, or finds the version changed and fails with
  the stored row untouched.
\<close>

theorem rotation_compare_and_swap:
  assumes row: "ks_row s = Some row" "kw_json row = Some (keyring_json c)" and c: "keyring_ok c"
    and g: "fresh_key (generateStoredKey ke ''rotate'' t) (Some c)"
    and run: "rotatePersistedKeyring ke t s = (result, s')"
  shows "\<exists>s1. let others = ke_others ke ''rotate'' s1
     in ks_row s1 = Some row \<and>
        ((result = Inr c \<and> ks_row s' = Some row) \<or>
         (\<exists>k row1. next_keyring (Some c) (generateStoredKey ke ''rotate'' t) t = Inr (Some k) \<and> keyring_ok k \<and>
            ks_row others = Some row1 \<and> kw_version row1 = kw_version row \<and> result = Inr k \<and>
            ks_row s' = Some \<lparr>kw_json = Some (keyring_json k), kw_version = kw_version row + 1, kw_updatedAt = ke_now ke\<rparr>) \<or>
         (result = Inl changed_concurrently \<and> ks_row s' = ks_row others \<and>
            (case ks_row others of None \<Rightarrow> True | Some row1 \<Rightarrow> kw_version row1 \<noteq> kw_version row)))"
proof -
  obtain s0 where load: "loadPersistedKeyring ke s = (Inr (Some (c, kw_version row)), s0)" "ks_row s0 = Some row"
    using load_sound [OF row c, of ke] row by auto
  obtain r where r: "next_keyring (Some c) (generateStoredKey ke ''rotate'' t) t = Inr r" "\<forall>k. r = Some k \<longrightarrow> keyring_ok k"
    using next_keyring_ok [of "Some c" "generateStoredKey ke ''rotate'' t" t] c g by auto
  let ?s1 = "forget_private (Some c) s0"
  have s1: "ks_row ?s1 = Some row" using load(2) by (simp add: forget_private_def)
  show ?thesis
  proof (cases r)
    case None
    with run load r show ?thesis using s1 by (auto simp: rotatePersistedKeyring_def k_bind_def Let_def)
  next
    case (Some k)
    with run load r s1 show ?thesis
      by (intro exI [of _ ?s1])
        (auto simp: rotatePersistedKeyring_def k_bind_def Let_def persistKeyring_def rememberKeyring_def
          split: option.splits if_splits)
  qed
qed

theorem rotation_compare_and_swap_witness:
  "\<exists>result s'. rotatePersistedKeyring demo_ke 20 demo_ks = (result, s') \<and>
     (result = Inl changed_concurrently \<or> (\<exists>k. result = Inr k \<and> hasUsableActiveKey k))"
proof -
  let ?c = "initial_keyring (demo_key ''a'' 0)"
  obtain row where row: "ks_row demo_ks = Some row" "kw_json row = Some (keyring_json ?c)" by (simp add: demo_ks_def)
  have c: "keyring_ok ?c" by (intro initial_ok demo_key_ok)
  have g: "fresh_key (generateStoredKey demo_ke ''rotate'' 20) (Some ?c)"
    using generated_fresh [of demo_ke "''rotate''" "''n''" "JObj [(''kty'', JStr ''RSA'')]" "[(''kty'', JStr ''RSA'')]" 20]
    by (simp add: fresh_key_def demo_ke_def jwkSchema_def jget_def initial_keyring_def demo_key_def)
  obtain result s' where run: "rotatePersistedKeyring demo_ke 20 demo_ks = (result, s')" by fastforce
  from rotation_compare_and_swap [OF row c g run] c have
    "result = Inl changed_concurrently \<or> (\<exists>k. result = Inr k \<and> hasUsableActiveKey k)"
    by (auto simp: Let_def intro: ok_has_active)
  with run show ?thesis by blast
qed

text \<open>
  A lease excludes. After a lease on a job is acquired until some time, no acquisition of that
  job succeeds before that time, in whatever order other owners try to acquire or to release it,
  and the lease stays with its owner.
\<close>

theorem lease_exclusive:
  assumes "acquire_lease job owner now secs s = (True, s1)" "\<forall>op\<in>set ops. while_held job owner (now + secs) op"
  shows "grants (fst (run lease_step ops s1)) = [] \<and> holds_lease job owner (now + secs) (snd (run lease_step ops s1))"
proof -
  have "holds_lease job owner (now + secs) s1"
    using assms(1) by (auto simp: acquire_lease_def holds_lease_def Let_def split: if_splits)
  from held_run [OF this assms(2)] show ?thesis .
qed

theorem lease_exclusive_witness:
  "\<exists>s1. acquire_lease ''j'' ''me'' 100 60 demo_ks = (True, s1) \<and>
     grants (fst (run lease_step [Op_acquire ''j'' ''you'' 120 60, Op_release ''j'' ''you'', Op_acquire ''j'' ''you'' 159 60] s1)) = []"
proof -
  obtain s1 where a: "acquire_lease ''j'' ''me'' 100 60 demo_ks = (True, s1)"
    by (simp add: acquire_lease_def demo_ks_def)
  have "\<forall>op\<in>set [Op_acquire ''j'' ''you'' 120 60, Op_release ''j'' ''you'', Op_acquire ''j'' ''you'' 159 60].
      while_held ''j'' ''me'' (100 + 60) op" by simp
  from lease_exclusive [OF a this] a show ?thesis by blast
qed

end
