(* ===== verification/Account_Tokens.thy ===== *)
theory Account_Tokens
  imports Sessions
begin

text \<open>
  \<open>src/auth/account-tokens.ts\<close> and \<open>src/auth/magic-link.ts\<close>: the capabilities that are mailed to a
  user (email verification and change, password reset, invitation, sign-in link). A Durable Object
  holds the payload of a token under its hash and is the authority on single use; a row of D1
  mirrors the mailed ones. The payload carries the security version of the account, which every
  security transition increments.
\<close>

section \<open>State\<close>

datatype OneTimeTokenPurpose =
  magic_link | email_verification | email_change | password_reset | account_invitation

record AccountOneTimeTokenPayload =
  ot_purpose :: OneTimeTokenPurpose
  ot_userId :: string
  ot_email :: string
  ot_redirectTo :: "string option"
  ot_securityVersion :: int
  ot_reauthenticate :: "bool option"

record mail_token_row =
  mt_id :: string
  mt_userId :: string
  mt_tokenHash :: string
  mt_createdAt :: int
  mt_expiresAt :: int
  mt_consumedAt :: "int option"

record email_token_row = mail_token_row +
  mt_email :: string

record password_row =
  pw_id :: string
  pw_userId :: string
  pw_hash :: string
  pw_name :: "string option"
  pw_adminEligible :: bool
  pw_createdAt :: int
  pw_updatedAt :: int
  pw_lastUsedAt :: "int option"

record passkey_row =
  pk_id :: string
  pk_userId :: string
  pk_credentialId :: string
  pk_publicKey :: string
  pk_counter :: int
  pk_transports :: "json option"
  pk_name :: "string option"
  pk_createdAt :: int
  pk_lastUsedAt :: "int option"

text \<open>The world of the token flows with the tables and objects of the accounts.\<close>

record account_state =
  aw_world :: world
  aw_email_verifications :: "email_token_row list"
  aw_password_resets :: "mail_token_row list"
  aw_passwords :: "password_row list"
  aw_passkeys :: "passkey_row list"
  aw_tokens :: "string \<Rightarrow> AccountOneTimeTokenPayload one_time"

abbreviation aw_db :: "account_state \<Rightarrow> db" where "aw_db a \<equiv> w_db (aw_world a)"

type_synonym 'a aio = "account_state \<Rightarrow> (failure, 'a) result \<times> account_state"

text \<open>\<open>getUserSecurityVersion\<close> of \<open>src/db/queries/users.ts\<close>.\<close>

definition getUserSecurityVersion :: "db \<Rightarrow> string \<Rightarrow> int option" where
  "getUserSecurityVersion db i = map_option ur_securityVersion (find (\<lambda>u. u_id u = i) (t_users db))"

definition at_security_version :: "db \<Rightarrow> string \<Rightarrow> int \<Rightarrow> bool" where
  "at_security_version db i v = list_ex (\<lambda>u. u_id u = i \<and> ur_securityVersion u = v) (t_users db)"

definition account_unavailable :: failure where "account_unavailable = OtherFailure ''account unavailable''"

definition store_token :: "platform \<Rightarrow> string \<Rightarrow> AccountOneTimeTokenPayload \<Rightarrow> int \<Rightarrow> account_state \<Rightarrow> account_state" where
  "store_token pf h payload ttl a =
     a\<lparr>aw_tokens := (aw_tokens a)(h := ot_store (pf_nowMs pf) payload ttl (aw_tokens a h))\<rparr>"

section \<open>Tokens for an address\<close>

text \<open>
  The batch: the pending tokens of the user are spent, and the new row is inserted; nothing of it
  happens when the id or the hash is taken or the user is gone.
\<close>

definition insert_email_token :: "platform \<Rightarrow> email_token_row \<Rightarrow> unit aio" where
  "insert_email_token pf row a =
     (if list_ex (\<lambda>r. mt_id r = mt_id row \<or> mt_tokenHash r = mt_tokenHash row) (aw_email_verifications a) \<or>
         getUserById (aw_db a) (mt_userId row) = None
      then (Inl DatabaseFailure, a)
      else (Inr (), a\<lparr>aw_email_verifications :=
              update_where (\<lambda>r. mt_userId r = mt_userId row \<and> mt_consumedAt r = None)
                (\<lambda>r. r\<lparr>mt_consumedAt := Some (pf_now pf)\<rparr>) (aw_email_verifications a) @ [row]\<rparr>))"

text \<open>\<open>createEmailVerificationToken\<close> and \<open>createEmailChangeToken\<close> differ in the purpose and the path.\<close>

definition create_email_token ::
  "platform \<Rightarrow> OneTimeTokenPurpose \<Rightarrow> string \<Rightarrow> string \<Rightarrow> string \<Rightarrow> (string \<times> string) aio" where
  "create_email_token pf purpose path userId email a =
     (let token = randomToken (pf_random pf ''email-token''); tokenHash = hashOpaqueToken (pf_crypto pf) token;
          expiresAt = pf_now pf + ttl_emailVerification TOKEN_TTL
      in case getUserSecurityVersion (aw_db a) userId of
           None \<Rightarrow> (Inl account_unavailable, a)
         | Some securityVersion \<Rightarrow>
             (let payload = \<lparr>ot_purpose = purpose, ot_userId = userId, ot_email = email, ot_redirectTo = None,
                    ot_securityVersion = securityVersion, ot_reauthenticate = None\<rparr>;
                  row = \<lparr>mt_id = generateId pf ''evt'' ''email-token'', mt_userId = userId, mt_tokenHash = tokenHash,
                    mt_createdAt = pf_now pf, mt_expiresAt = expiresAt, mt_consumedAt = None, mt_email = email\<rparr>
              in case insert_email_token pf row a of
                   (Inl e, a1) \<Rightarrow> (Inl e, a1)
                 | (Inr _, a1) \<Rightarrow>
                     if pf_do_rejects pf 0 tokenHash then (Inl DurableObjectFailure, a1)
                     else (Inr (token, ISSUER (pf_env pf) @ path @ token),
                           store_token pf tokenHash payload (ttl_emailVerification TOKEN_TTL) a1)))"

definition createEmailVerificationToken :: "platform \<Rightarrow> string \<Rightarrow> string \<Rightarrow> (string \<times> string) aio" where
  "createEmailVerificationToken pf = create_email_token pf email_verification ''/account/email/verify?token=''"

definition createEmailChangeToken :: "platform \<Rightarrow> string \<Rightarrow> string \<Rightarrow> (string \<times> string) aio" where
  "createEmailChangeToken pf = create_email_token pf email_change ''/account/email/change/verify?token=''"

text \<open>The condition both the guarded update and the inspection put on the row.\<close>

definition email_row_live :: "int \<Rightarrow> db \<Rightarrow> string \<Rightarrow> AccountOneTimeTokenPayload \<Rightarrow> email_token_row \<Rightarrow> bool" where
  "email_row_live now db tokenHash p r =
     (mt_tokenHash r = tokenHash \<and> mt_userId r = ot_userId p \<and> mt_email r = ot_email p \<and> mt_consumedAt r = None \<and>
      mt_expiresAt r > now \<and> at_security_version db (ot_userId p) (ot_securityVersion p))"

definition consume_email_token ::
  "platform \<Rightarrow> OneTimeTokenPurpose \<Rightarrow> string \<Rightarrow> account_state \<Rightarrow> AccountOneTimeTokenPayload option \<times> account_state" where
  "consume_email_token pf purpose token a =
     (let h = hashOpaqueToken (pf_crypto pf) token; (consumed, slot) = ot_consume (pf_nowMs pf) (aw_tokens a h);
          a1 = a\<lparr>aw_tokens := (aw_tokens a)(h := slot)\<rparr>
      in case consumed of
           None \<Rightarrow> (None, a1)
         | Some p \<Rightarrow>
             if ot_purpose p \<noteq> purpose then (None, a1)
             else (let live = email_row_live (pf_now pf) (aw_db a1) h p;
                       a2 = a1\<lparr>aw_email_verifications :=
                              update_where live (\<lambda>r. r\<lparr>mt_consumedAt := Some (pf_now pf)\<rparr>) (aw_email_verifications a1)\<rparr>
                   in (if changes live (aw_email_verifications a1) = 1 then Some p else None, a2)))"

definition consumeEmailVerificationToken ::
  "platform \<Rightarrow> string \<Rightarrow> account_state \<Rightarrow> AccountOneTimeTokenPayload option \<times> account_state" where
  "consumeEmailVerificationToken pf = consume_email_token pf email_verification"

definition consumeEmailChangeToken ::
  "platform \<Rightarrow> string \<Rightarrow> account_state \<Rightarrow> AccountOneTimeTokenPayload option \<times> account_state" where
  "consumeEmailChangeToken pf = consume_email_token pf email_change"

definition peekEmailToken ::
  "platform \<Rightarrow> string \<Rightarrow> OneTimeTokenPurpose \<Rightarrow> account_state \<Rightarrow> AccountOneTimeTokenPayload option" where
  "peekEmailToken pf token purpose a =
     (let h = hashOpaqueToken (pf_crypto pf) token
      in case ot_peek (pf_nowMs pf) (aw_tokens a h) of
           None \<Rightarrow> None
         | Some p \<Rightarrow>
             if ot_purpose p \<noteq> purpose then None
             else if list_ex (email_row_live (pf_now pf) (aw_db a) h p) (aw_email_verifications a) then Some p else None)"

definition peekEmailVerificationToken :: "platform \<Rightarrow> string \<Rightarrow> account_state \<Rightarrow> AccountOneTimeTokenPayload option" where
  "peekEmailVerificationToken pf token = peekEmailToken pf token email_verification"

definition peekEmailChangeToken :: "platform \<Rightarrow> string \<Rightarrow> account_state \<Rightarrow> AccountOneTimeTokenPayload option" where
  "peekEmailChangeToken pf token = peekEmailToken pf token email_change"

section \<open>Tokens for a password\<close>

record PasswordResetTokenOptions =
  po_redirectTo :: "string option"
  po_reauthenticate :: bool
  po_purpose :: OneTimeTokenPurpose

definition createPasswordResetToken ::
  "platform \<Rightarrow> string \<Rightarrow> string \<Rightarrow> PasswordResetTokenOptions \<Rightarrow> (string \<times> string) aio" where
  "createPasswordResetToken pf userId email options a =
     (let token = randomToken (pf_random pf ''reset-token''); tokenHash = hashOpaqueToken (pf_crypto pf) token;
          expiresAt = pf_now pf + ttl_passwordReset TOKEN_TTL
      in case getUserSecurityVersion (aw_db a) userId of
           None \<Rightarrow> (Inl account_unavailable, a)
         | Some securityVersion \<Rightarrow>
             (let payload = \<lparr>ot_purpose = po_purpose options, ot_userId = userId, ot_email = email,
                    ot_redirectTo = po_redirectTo options, ot_securityVersion = securityVersion,
                    ot_reauthenticate = Some (po_reauthenticate options)\<rparr>;
                  row = \<lparr>mt_id = generateId pf ''prt'' ''reset-token'', mt_userId = userId, mt_tokenHash = tokenHash,
                    mt_createdAt = pf_now pf, mt_expiresAt = expiresAt, mt_consumedAt = None\<rparr>
              in if list_ex (\<lambda>r. mt_id r = mt_id row \<or> mt_tokenHash r = tokenHash) (aw_password_resets a) \<or>
                    getUserById (aw_db a) userId = None
                 then (Inl DatabaseFailure, a)
                 else (let a1 = a\<lparr>aw_password_resets := aw_password_resets a @ [row]\<rparr>
                       in if pf_do_rejects pf 0 tokenHash then (Inl DurableObjectFailure, a1)
                          else (Inr (token, ISSUER (pf_env pf) @ ''/password/reset?token='' @ token),
                                store_token pf tokenHash payload (ttl_passwordReset TOKEN_TTL) a1))))"

definition createAccountInvitationToken :: "platform \<Rightarrow> string \<Rightarrow> string \<Rightarrow> (string \<times> string) aio" where
  "createAccountInvitationToken pf userId email =
     createPasswordResetToken pf userId email
       \<lparr>po_redirectTo = Some ''/'', po_reauthenticate = False, po_purpose = account_invitation\<rparr>"

definition reset_row_live :: "int \<Rightarrow> string \<Rightarrow> AccountOneTimeTokenPayload \<Rightarrow> mail_token_row \<Rightarrow> bool" where
  "reset_row_live now tokenHash p r =
     (mt_tokenHash r = tokenHash \<and> mt_userId r = ot_userId p \<and> mt_consumedAt r = None \<and> mt_expiresAt r > now)"

definition resets_password :: "AccountOneTimeTokenPayload \<Rightarrow> bool" where
  "resets_password p = (ot_purpose p = password_reset \<or> ot_purpose p = account_invitation)"

definition peekPasswordResetToken :: "platform \<Rightarrow> string \<Rightarrow> account_state \<Rightarrow> AccountOneTimeTokenPayload option" where
  "peekPasswordResetToken pf token a =
     (let h = hashOpaqueToken (pf_crypto pf) token
      in case ot_peek (pf_nowMs pf) (aw_tokens a h) of
           None \<Rightarrow> None
         | Some p \<Rightarrow>
             if \<not> resets_password p then None
             else if \<not> list_ex (reset_row_live (pf_now pf) h p) (aw_password_resets a) then None
             else if getUserSecurityVersion (aw_db a) (ot_userId p) = Some (ot_securityVersion p) then Some p else None)"

definition consumePasswordResetToken ::
  "platform \<Rightarrow> string \<Rightarrow> account_state \<Rightarrow> AccountOneTimeTokenPayload option \<times> account_state" where
  "consumePasswordResetToken pf token a =
     (let h = hashOpaqueToken (pf_crypto pf) token; (consumed, slot) = ot_consume (pf_nowMs pf) (aw_tokens a h);
          a1 = a\<lparr>aw_tokens := (aw_tokens a)(h := slot)\<rparr>
      in case consumed of
           None \<Rightarrow> (None, a1)
         | Some p \<Rightarrow>
             if \<not> resets_password p then (None, a1)
             else (let live = reset_row_live (pf_now pf) h p;
                       a2 = a1\<lparr>aw_password_resets :=
                              update_where live (\<lambda>r. r\<lparr>mt_consumedAt := Some (pf_now pf)\<rparr>) (aw_password_resets a1)\<rparr>
                   in (if changes live (aw_password_resets a1) = 1 then Some p else None, a2)))"

section \<open>magic-link.ts\<close>

record MagicLinkInput =
  ml_userId :: string
  ml_redirectTo :: "string option"
  ml_reauthenticate :: "bool option"

definition createMagicLink :: "platform \<Rightarrow> MagicLinkInput \<Rightarrow> (string \<times> string) aio" where
  "createMagicLink pf input a =
     (let token = randomToken (pf_random pf ''magic-link''); h = hashOpaqueToken (pf_crypto pf) token
      in case (getUserById (aw_db a) (ml_userId input), getUserSecurityVersion (aw_db a) (ml_userId input)) of
           (Some user, Some securityVersion) \<Rightarrow>
             if u_disabled user then (Inl account_unavailable, a)
             else (let payload = \<lparr>ot_purpose = magic_link, ot_userId = ml_userId input, ot_email = u_email user,
                         ot_redirectTo = ml_redirectTo input, ot_securityVersion = securityVersion,
                         ot_reauthenticate = Some (ml_reauthenticate input = Some True)\<rparr>
                   in if pf_do_rejects pf 0 h then (Inl DurableObjectFailure, a)
                      else (Inr (token, ISSUER (pf_env pf) @ ''/login/magic/callback?token='' @ token),
                            store_token pf h payload (ttl_magicLink TOKEN_TTL) a))
         | _ \<Rightarrow> (Inl account_unavailable, a))"

definition magic_payload :: "db \<Rightarrow> AccountOneTimeTokenPayload option \<Rightarrow> AccountOneTimeTokenPayload option" where
  "magic_payload db found =
     (case found of
        None \<Rightarrow> None
      | Some p \<Rightarrow> if ot_purpose p \<noteq> magic_link then None
                  else if getUserSecurityVersion db (ot_userId p) = Some (ot_securityVersion p) then Some p else None)"

definition consumeMagicLink ::
  "platform \<Rightarrow> string \<Rightarrow> account_state \<Rightarrow> AccountOneTimeTokenPayload option \<times> account_state" where
  "consumeMagicLink pf token a =
     (let h = hashOpaqueToken (pf_crypto pf) token; (consumed, slot) = ot_consume (pf_nowMs pf) (aw_tokens a h);
          a1 = a\<lparr>aw_tokens := (aw_tokens a)(h := slot)\<rparr>
      in (magic_payload (aw_db a1) consumed, a1))"

definition peekMagicLink :: "platform \<Rightarrow> string \<Rightarrow> account_state \<Rightarrow> AccountOneTimeTokenPayload option" where
  "peekMagicLink pf token a =
     magic_payload (aw_db a) (ot_peek (pf_nowMs pf) (aw_tokens a (hashOpaqueToken (pf_crypto pf) token)))"

section \<open>The contract of a mailed capability\<close>

text \<open>
  What the callers rely on, whatever the purpose: redeeming a token consumes the slot of its hash
  and no other one, and yields the value of the slot, of one of the expected purposes, or nothing.
\<close>

abbreviation token_slot :: "platform \<Rightarrow> string \<Rightarrow> account_state \<Rightarrow> AccountOneTimeTokenPayload one_time" where
  "token_slot pf token a \<equiv> aw_tokens a (hashOpaqueToken (pf_crypto pf) token)"

locale mail_capability =
  fixes redeem :: "platform \<Rightarrow> string \<Rightarrow> account_state \<Rightarrow> AccountOneTimeTokenPayload option \<times> account_state"
    and purposes :: "OneTimeTokenPurpose set"
  assumes redeem_tokens: "aw_tokens (snd (redeem pf token a)) =
      (aw_tokens a)(hashOpaqueToken (pf_crypto pf) token := snd (ot_consume (pf_nowMs pf) (token_slot pf token a)))"
    and redeem_value: "redeem pf token a = (Some p, a') \<Longrightarrow>
      fst (ot_consume (pf_nowMs pf) (token_slot pf token a)) = Some p \<and> ot_purpose p \<in> purposes"
begin

lemma spent_refused: "ot_spent (token_slot pf token a) \<Longrightarrow> fst (redeem pf token a) = None"
  using redeem_value [of pf token a] ot_consume_spent(1) [of "token_slot pf token a" "pf_nowMs pf"]
  by (cases "redeem pf token a") (auto, metis not_None_eq)

lemma spent_stays: "ot_spent (aw_tokens a h) \<Longrightarrow> ot_spent (aw_tokens (snd (redeem pf token a)) h)"
  by (auto simp: redeem_tokens ot_consume_spent(1))

lemma redeem_spends:
  assumes "redeem pf token a = (Some p, a')"
  shows "ot_spent (token_slot pf token a')"
proof -
  obtain slot where "ot_consume (pf_nowMs pf) (token_slot pf token a) = (Some p, slot)"
    using redeem_value [OF assms] by (cases "ot_consume (pf_nowMs pf) (token_slot pf token a)") auto
  with redeem_tokens [of pf token a] assms ot_consume_spent(2) show ?thesis by auto
qed

lemma redeem_live:
  assumes "redeem pf token a = (Some p, a')"
  shows "\<exists>e. slot_of (token_slot pf token a) = Live p e \<and> pf_nowMs pf \<le> e"
  using redeem_value [OF assms]
  by (auto simp: ot_consume_def slot_of_def split: option.splits if_splits)

end

lemma consume_email_tokens:
  "aw_tokens (snd (consume_email_token pf purpose token a)) =
     (aw_tokens a)(hashOpaqueToken (pf_crypto pf) token := snd (ot_consume (pf_nowMs pf) (token_slot pf token a)))"
  by (auto simp: consume_email_token_def Let_def split: prod.splits option.splits)

lemma changes_one: "changes P t = 1 \<Longrightarrow> \<exists>r\<in>set t. P r"
proof -
  assume "changes P t = 1"
  then have "filter P t \<noteq> []" by (auto simp: changes_def)
  then show ?thesis by (auto simp: filter_empty_conv)
qed

lemma consume_email_value:
  "consume_email_token pf purpose token a = (Some p, a') \<Longrightarrow>
     fst (ot_consume (pf_nowMs pf) (token_slot pf token a)) = Some p \<and> ot_purpose p = purpose \<and>
     at_security_version (aw_db a) (ot_userId p) (ot_securityVersion p)"
  by (auto simp: consume_email_token_def Let_def email_row_live_def split: prod.splits option.splits if_splits
      dest!: changes_one [simplified])

interpretation verification: mail_capability consumeEmailVerificationToken "{email_verification}"
  by unfold_locales (simp_all add: consumeEmailVerificationToken_def consume_email_tokens, auto dest: consume_email_value)

interpretation change: mail_capability consumeEmailChangeToken "{email_change}"
  by unfold_locales (simp_all add: consumeEmailChangeToken_def consume_email_tokens, auto dest: consume_email_value)

interpretation reset: mail_capability consumePasswordResetToken "{password_reset, account_invitation}"
proof unfold_locales
  show "aw_tokens (snd (consumePasswordResetToken pf token a)) =
      (aw_tokens a)(hashOpaqueToken (pf_crypto pf) token := snd (ot_consume (pf_nowMs pf) (token_slot pf token a)))" for pf token a
    by (auto simp: consumePasswordResetToken_def Let_def split: prod.splits option.splits)
  show "fst (ot_consume (pf_nowMs pf) (token_slot pf token a)) = Some p \<and> ot_purpose p \<in> {password_reset, account_invitation}"
    if "consumePasswordResetToken pf token a = (Some p, a')" for pf token a p a'
    using that by (auto simp: consumePasswordResetToken_def Let_def resets_password_def split: prod.splits option.splits if_splits)
qed

interpretation magic: mail_capability consumeMagicLink "{magic_link}"
proof unfold_locales
  show "aw_tokens (snd (consumeMagicLink pf token a)) =
      (aw_tokens a)(hashOpaqueToken (pf_crypto pf) token := snd (ot_consume (pf_nowMs pf) (token_slot pf token a)))" for pf token a
    by (auto simp: consumeMagicLink_def Let_def split: prod.splits)
  show "fst (ot_consume (pf_nowMs pf) (token_slot pf token a)) = Some p \<and> ot_purpose p \<in> {magic_link}"
    if "consumeMagicLink pf token a = (Some p, a')" for pf token a p a'
    using that by (auto simp: consumeMagicLink_def magic_payload_def Let_def split: prod.splits option.splits if_splits)
qed

section \<open>Interleaved redemptions\<close>

datatype redemption =
    Verify_email platform string
  | Change_email platform string
  | Reset_password platform string
  | Follow_link platform string

fun op_hash :: "redemption \<Rightarrow> string" where
  "op_hash (Verify_email pf token) = hashOpaqueToken (pf_crypto pf) token"
| "op_hash (Change_email pf token) = hashOpaqueToken (pf_crypto pf) token"
| "op_hash (Reset_password pf token) = hashOpaqueToken (pf_crypto pf) token"
| "op_hash (Follow_link pf token) = hashOpaqueToken (pf_crypto pf) token"

fun redeem_op :: "redemption \<Rightarrow> account_state \<Rightarrow> AccountOneTimeTokenPayload option \<times> account_state" where
  "redeem_op (Verify_email pf token) = consumeEmailVerificationToken pf token"
| "redeem_op (Change_email pf token) = consumeEmailChangeToken pf token"
| "redeem_op (Reset_password pf token) = consumePasswordResetToken pf token"
| "redeem_op (Follow_link pf token) = consumeMagicLink pf token"

text \<open>The grants watched are those of the token with hash \<open>h\<close>.\<close>

definition redeem_step ::
  "string \<Rightarrow> redemption \<Rightarrow> account_state \<Rightarrow> AccountOneTimeTokenPayload option \<times> account_state" where
  "redeem_step h op a = (let (r, a') = redeem_op op a in (if op_hash op = h then r else None, a'))"

lemmas capability_laws =
  verification.spent_refused change.spent_refused reset.spent_refused magic.spent_refused
  verification.spent_stays change.spent_stays reset.spent_stays magic.spent_stays

lemmas capability_spends = verification.redeem_spends change.redeem_spends reset.redeem_spends magic.redeem_spends

interpretation mailed: single_use "redeem_step h" "\<lambda>a. ot_spent (aw_tokens a h)" for h
proof unfold_locales
  fix a op
  show "ot_spent (aw_tokens a h) \<Longrightarrow> fst (redeem_step h op a) = None"
    using capability_laws by (cases op) (auto simp: redeem_step_def Let_def case_prod_unfold)
  show "ot_spent (aw_tokens a h) \<Longrightarrow> ot_spent (aw_tokens (snd (redeem_step h op a)) h)"
    using capability_laws by (cases op) (auto simp: redeem_step_def Let_def case_prod_unfold)
next
  fix op a r a'
  show "redeem_step h op a = (Some r, a') \<Longrightarrow> ot_spent (aw_tokens a' h)"
    using capability_spends by (cases op) (auto simp: redeem_step_def Let_def split: prod.splits if_splits)
qed

section \<open>Properties\<close>

text \<open>
  C28. A mailed token is good for one action. However the redemptions of tokens at the four endpoints
  (verifying or changing an address, resetting a password, signing in) are interleaved, a token
  is accepted at most once in all.
\<close>

theorem mailed_token_single_use:
  "length (grants (fst (run (redeem_step h) ops a))) \<le> 1"
  by (rule mailed.at_most_one_grant)

text \<open>
  A security transition voids the tokens in flight. When the security version of the account is
  no longer the one a token was issued under, following a sign-in link, verifying or changing an
  address, and every preview of a token (the password reset included) is refused.
\<close>

theorem security_transition_voids_tokens:
  assumes "ot_value (token_slot pf token a) = Some p"
    and "\<not> at_security_version (aw_db a) (ot_userId p) (ot_securityVersion p)"
  shows "fst (consumeMagicLink pf token a) = None \<and> fst (consumeEmailVerificationToken pf token a) = None \<and>
    fst (consumeEmailChangeToken pf token a) = None \<and> peekMagicLink pf token a = None \<and>
    peekEmailVerificationToken pf token a = None \<and> peekEmailChangeToken pf token a = None \<and>
    peekPasswordResetToken pf token a = None"
proof -
  have v: "getUserSecurityVersion (aw_db a) (ot_userId p) \<noteq> Some (ot_securityVersion p)"
    using assms(2) by (auto simp: getUserSecurityVersion_def at_security_version_def list_ex_iff dest: find_Some_mem)
  have slot: "fst (ot_consume n (token_slot pf token a)) = Some q \<Longrightarrow> q = p" "ot_peek n (token_slot pf token a) = Some q \<Longrightarrow> q = p"
    for n q using assms(1) by (auto simp: ot_consume_def ot_peek_def split: option.splits if_splits)
  have "fst (consume_email_token pf purpose token a) = None" for purpose
    using consume_email_value [of pf purpose token a] slot(1) assms(2)
    by (cases "consume_email_token pf purpose token a"; cases "fst (consume_email_token pf purpose token a)") auto
  moreover have "peekEmailToken pf token purpose a = None" for purpose
    using slot(2) assms(2) by (auto simp: peekEmailToken_def email_row_live_def list_ex_iff Let_def split: option.splits)
  moreover have "magic_payload (aw_db a) x = None" if "x = None \<or> x = Some p" for x
    using that v by (auto simp: magic_payload_def)
  moreover have "peekPasswordResetToken pf token a = None"
    using slot(2) v by (auto simp: peekPasswordResetToken_def Let_def split: option.splits)
  moreover have "fst (ot_consume n (token_slot pf token a)) = None \<or> fst (ot_consume n (token_slot pf token a)) = Some p"
    "ot_peek n (token_slot pf token a) = None \<or> ot_peek n (token_slot pf token a) = Some p" for n
    using slot by (metis not_None_eq)+
  ultimately show ?thesis
    by (simp add: consumeMagicLink_def peekMagicLink_def consumeEmailVerificationToken_def consumeEmailChangeToken_def
        peekEmailVerificationToken_def peekEmailChangeToken_def Let_def case_prod_unfold)
qed

definition demo_payload :: AccountOneTimeTokenPayload where
  "demo_payload = \<lparr>ot_purpose = magic_link, ot_userId = ''u'', ot_email = ''u@x'', ot_redirectTo = None,
     ot_securityVersion = 7, ot_reauthenticate = Some False\<rparr>"

definition demo_accounts :: account_state where
  "demo_accounts = \<lparr>aw_world = demo_world, aw_email_verifications = [], aw_password_resets = [], aw_passwords = [],
     aw_passkeys = [], aw_tokens = (\<lambda>_. ot_store 0 demo_payload 2000000 ot_empty)\<rparr>"

text \<open>A link issued under version 7 of an account that is now at version 0.\<close>

theorem security_transition_voids_tokens_witness:
  "ot_peek (pf_nowMs demo_pf) (token_slot demo_pf ''t'' demo_accounts) = Some demo_payload \<and>
   fst (consumeMagicLink demo_pf ''t'' demo_accounts) = None \<and> peekMagicLink demo_pf ''t'' demo_accounts = None"
proof -
  have v: "ot_value (token_slot demo_pf ''t'' demo_accounts) = Some demo_payload"
    by (simp add: demo_accounts_def ot_store_def Let_def)
  have n: "\<not> at_security_version (aw_db demo_accounts) (ot_userId demo_payload) (ot_securityVersion demo_payload)"
    by (simp add: at_security_version_def demo_accounts_def demo_world_def demo_user_def demo_payload_def)
  have "ot_peek (pf_nowMs demo_pf) (token_slot demo_pf ''t'' demo_accounts) = Some demo_payload"
    by (simp add: demo_accounts_def ot_store_def ot_peek_def Let_def demo_pf_def)
  with security_transition_voids_tokens [OF v n] show ?thesis by blast
qed

end
