(* ===== verification/Maintenance.thy ===== *)
theory Maintenance
  imports Signing_Keys Client_Auth Account_Tokens
begin

text \<open>
  \<open>src/operations/runtime-config.ts\<close> and \<open>src/operations/maintenance.ts\<close>: the operator's settings
  with their bounds, and the scheduled job that rotates the signing key when it is due and deletes
  terminal rows in bounded batches, under a lease.
\<close>

section \<open>runtime-config.ts\<close>

definition DAY_SECONDS :: int where "DAY_SECONDS = 24 * 60 * 60"

record runtime_env = env +
  re_AUDIT_D1_RETENTION_DAYS :: "string option"
  re_KEY_ROTATION_INTERVAL_SECONDS :: "string option"
  re_TERMINAL_DATA_RETENTION_DAYS :: "string option"
  re_MAINTENANCE_BATCH_SIZE :: "string option"
  re_MAINTENANCE_LEASE_SECONDS :: "string option"

record RuntimeConfig =
  rc_environment :: string
  rc_keyRotationIntervalSeconds :: int
  rc_terminalDataRetentionDays :: int
  rc_auditD1RetentionDays :: int
  rc_maintenanceBatchSize :: nat
  rc_maintenanceLeaseSeconds :: int

definition ENVIRONMENTS :: "string list" where "ENVIRONMENTS = [''local'', ''test'', ''dev'', ''production'']"
definition REMOTE_ENVIRONMENTS :: "string list" where "REMOTE_ENVIRONMENTS = [''dev'', ''production'']"

definition boundedInteger ::
  "string \<Rightarrow> string option \<Rightarrow> nat \<Rightarrow> nat \<Rightarrow> nat \<Rightarrow> bool \<Rightarrow> (failure, nat) result" where
  "boundedInteger name raw fallback minimum maximum strict =
     (let rejected = (if strict then Inl (OtherFailure (name @ '' must be an integer between '' @ nat_string minimum @
                        '' and '' @ nat_string maximum)) else Inr fallback)
      in case raw of
           None \<Rightarrow> rejected
         | Some r \<Rightarrow>
             if all_digits r \<and> digits_value r \<le> 9007199254740991 \<and> minimum \<le> digits_value r \<and> digits_value r \<le> maximum
             then Inr (digits_value r) else rejected)"

definition environmentName :: "string option \<Rightarrow> (failure, string) result" where
  "environmentName raw =
     (case raw of
        Some r \<Rightarrow> if r \<in> set ENVIRONMENTS then Inr r
                  else Inl (OtherFailure (''ENVIRONMENT must be '' @ js_join '', '' ENVIRONMENTS))
      | None \<Rightarrow> Inl (OtherFailure (''ENVIRONMENT must be '' @ js_join '', '' ENVIRONMENTS)))"

definition r_bind :: "('e, 'a) result \<Rightarrow> ('a \<Rightarrow> ('e, 'b) result) \<Rightarrow> ('e, 'b) result" where
  "r_bind r f = (case r of Inl e \<Rightarrow> Inl e | Inr x \<Rightarrow> f x)"

lemma r_bind_Inr: "r_bind r f = Inr y \<longleftrightarrow> (\<exists>x. r = Inr x \<and> f x = Inr y)"
  by (cases r) (simp_all add: r_bind_def)

definition getRuntimeConfig :: "runtime_env \<Rightarrow> (failure, RuntimeConfig) result" where
  "getRuntimeConfig re =
     r_bind (environmentName (ENVIRONMENT re)) (\<lambda>environment.
     (let strict = (environment \<in> set REMOTE_ENVIRONMENTS \<and> \<not> isYoloEnabled (env.truncate re));
          required = (if environment = ''dev'' then 90 else 365)
      in r_bind (boundedInteger ''AUDIT_D1_RETENTION_DAYS'' (re_AUDIT_D1_RETENTION_DAYS re) 90 1 required strict) (\<lambda>audit.
         if strict \<and> audit \<noteq> required then
           Inl (OtherFailure (''AUDIT_D1_RETENTION_DAYS must be '' @ nat_string required @ '' in '' @ environment))
         else
           r_bind (boundedInteger ''KEY_ROTATION_INTERVAL_SECONDS'' (re_KEY_ROTATION_INTERVAL_SECONDS re)
             (7 * nat DAY_SECONDS) (nat DAY_SECONDS) (365 * nat DAY_SECONDS) strict) (\<lambda>interval.
           r_bind (boundedInteger ''TERMINAL_DATA_RETENTION_DAYS'' (re_TERMINAL_DATA_RETENTION_DAYS re) 30 1 3650 strict) (\<lambda>terminal.
           r_bind (boundedInteger ''MAINTENANCE_BATCH_SIZE'' (re_MAINTENANCE_BATCH_SIZE re) 100 1 100 strict) (\<lambda>batch.
           r_bind (boundedInteger ''MAINTENANCE_LEASE_SECONDS'' (re_MAINTENANCE_LEASE_SECONDS re) (15 * 60) 60 3600 strict) (\<lambda>lease.
             Inr \<lparr>rc_environment = environment, rc_keyRotationIntervalSeconds = int interval,
                  rc_terminalDataRetentionDays = int terminal, rc_auditD1RetentionDays = int audit,
                  rc_maintenanceBatchSize = batch, rc_maintenanceLeaseSeconds = int lease\<rparr>)))))))"

section \<open>Bounded deletes\<close>

text \<open>
  One terminal-state branch of a cleanup: the column it is ordered by and its condition. Rows are
  taken in the order of that column and of the key, as \<open>ORDER BY \<dots> LIMIT\<close> does.
\<close>

record 'r cleanup_branch =
  br_terminal :: "'r \<Rightarrow> int"
  br_predicate :: "'r \<Rightarrow> bool"

definition branch_candidates :: "('r \<Rightarrow> string) \<Rightarrow> nat \<Rightarrow> 'r list \<Rightarrow> 'r cleanup_branch \<Rightarrow> (string \<times> int) list" where
  "branch_candidates key batchSize t b =
     map (\<lambda>r. (key r, br_terminal b r))
       (take batchSize (sort_key (\<lambda>r. (br_terminal b r, key r)) (filter (br_predicate b) t)))"

text \<open>\<open>GROUP BY row_key ORDER BY MIN(terminal_at), row_key LIMIT batchSize\<close>.\<close>

definition bounded_keys :: "nat \<Rightarrow> (string \<times> int) list \<Rightarrow> string list" where
  "bounded_keys batchSize cands =
     take batchSize (sort_key (\<lambda>k. (Min (set (map snd (filter (\<lambda>c. fst c = k) cands))), k)) (remdups (map fst cands)))"

definition boundedCleanupStatement ::
  "('r \<Rightarrow> string) \<Rightarrow> 'r cleanup_branch list \<Rightarrow> nat \<Rightarrow> 'r list \<Rightarrow> string list" where
  "boundedCleanupStatement key branches batchSize t =
     bounded_keys batchSize (concat (map (branch_candidates key batchSize t) branches))"

definition MAX_AUDIT_DELETE_BATCHES_PER_RUN :: nat where "MAX_AUDIT_DELETE_BATCHES_PER_RUN = 12"
definition MAX_CLEANUP_BATCHES_PER_TABLE :: nat where "MAX_CLEANUP_BATCHES_PER_TABLE = 2"

text \<open>
  The loop over the batches of one statement: \<open>delete\<close> runs the statement once and gives the number
  of rows it has deleted.
\<close>

fun delete_batches :: "nat \<Rightarrow> nat \<Rightarrow> ('s \<Rightarrow> nat \<times> 's) \<Rightarrow> nat \<Rightarrow> 's \<Rightarrow> nat \<times> 's" where
  "delete_batches batchSize 0 delete deleted s = (deleted, s)"
| "delete_batches batchSize (Suc n) delete deleted s =
     (let (changed, s') = delete s
      in if changed < batchSize then (deleted + changed, s')
         else delete_batches batchSize n delete (deleted + changed) s')"

text \<open>The rows of a table with their keys among the given ones: their number, and the rest.\<close>

definition delete_keys :: "('r \<Rightarrow> string) \<Rightarrow> string list \<Rightarrow> 'r list \<Rightarrow> nat \<times> 'r list" where
  "delete_keys key ks t = (length (filter (\<lambda>r. key r \<in> set ks) t), filter (\<lambda>r. key r \<notin> set ks) t)"

section \<open>maintenance.ts: state and lease\<close>

definition JOB_NAME :: string where "JOB_NAME = ''scheduled-maintenance''"

record maintenance_state =
  ms_accounts :: account_state
  ms_keys :: key_state

definition acquireLease :: "string \<Rightarrow> int \<Rightarrow> int \<Rightarrow> maintenance_state \<Rightarrow> bool \<times> maintenance_state" where
  "acquireLease ownerToken now leaseSeconds s =
     (let (acquired, k) = acquire_lease JOB_NAME ownerToken now leaseSeconds (ms_keys s)
      in (acquired, s\<lparr>ms_keys := k\<rparr>))"

definition releaseLease :: "string \<Rightarrow> maintenance_state \<Rightarrow> maintenance_state" where
  "releaseLease ownerToken s = s\<lparr>ms_keys := release_lease JOB_NAME ownerToken (ms_keys s)\<rparr>"

definition rotateSigningKeyWhenDue :: "key_env \<Rightarrow> int \<Rightarrow> int \<Rightarrow> bool kio" where
  "rotateSigningKeyWhenDue ke now intervalSeconds =
     k_bind (getSigningKeyStatus ke) (\<lambda>status.
       let rotate = k_bind (rotateSigningKey ke now) (\<lambda>_. k_return True)
       in case status of
            None \<Rightarrow> rotate
          | Some st \<Rightarrow>
              (case st_pendingKid st of
                 Some _ \<Rightarrow>
                   (case st_pendingSince st of
                      None \<Rightarrow> k_return False
                    | Some since \<Rightarrow> if now - since < JWKS_PROPAGATION_SECONDS then k_return False else rotate)
               | None \<Rightarrow> if now - st_createdAt st < intervalSeconds then k_return False else rotate))"

section \<open>maintenance.ts: audit rows\<close>

definition delete_audit_batch :: "int \<Rightarrow> nat \<Rightarrow> AuditMessage list \<Rightarrow> nat \<times> AuditMessage list" where
  "delete_audit_batch cutoff batchSize t =
     delete_keys am_id (map am_id (take batchSize (sort_key (\<lambda>m. (am_createdAt m, am_id m))
       (filter (\<lambda>m. am_createdAt m < cutoff) t)))) t"

definition deleteExpiredAuditLogs :: "int \<Rightarrow> nat \<Rightarrow> AuditMessage list \<Rightarrow> nat \<times> AuditMessage list" where
  "deleteExpiredAuditLogs cutoff batchSize =
     delete_batches batchSize MAX_AUDIT_DELETE_BATCHES_PER_RUN (delete_audit_batch cutoff batchSize) 0"

definition auditBacklog :: "int \<Rightarrow> AuditMessage list \<Rightarrow> nat \<times> int option" where
  "auditBacklog cutoff t =
     (let old = map am_createdAt (filter (\<lambda>m. am_createdAt m < cutoff) t)
      in (length old, if old = [] then None else Some (Min (set old))))"

section \<open>maintenance.ts: terminal rows\<close>

definition before :: "int \<Rightarrow> ('r \<Rightarrow> int) \<Rightarrow> 'r cleanup_branch" where
  "before cutoff column = \<lparr>br_terminal = column, br_predicate = \<lambda>r. column r < cutoff\<rparr>"

definition set_before :: "int \<Rightarrow> ('r \<Rightarrow> int option) \<Rightarrow> 'r cleanup_branch" where
  "set_before cutoff column =
     \<lparr>br_terminal = \<lambda>r. case column r of None \<Rightarrow> 0 | Some t \<Rightarrow> t,
      br_predicate = \<lambda>r. case column r of None \<Rightarrow> False | Some t \<Rightarrow> t < cutoff\<rparr>"

definition session_branches :: "int \<Rightarrow> session_row cleanup_branch list" where
  "session_branches cutoff = [before cutoff sr_expiresAt, set_before cutoff se_revokedAt]"

definition refresh_branches :: "int \<Rightarrow> refresh_row cleanup_branch list" where
  "refresh_branches cutoff = [before cutoff rt_expiresAt, set_before cutoff rt_revokedAt]"

definition device_branches :: "int \<Rightarrow> device_row cleanup_branch list" where
  "device_branches cutoff = before cutoff dv_expiresAt #
     map (\<lambda>st. \<lparr>br_terminal = dv_createdAt, br_predicate = \<lambda>r. dv_status r = st \<and> dv_createdAt r < cutoff\<rparr>)
       [denied, expired, consumed]"

definition mail_branches :: "int \<Rightarrow> 'a mail_token_row_scheme cleanup_branch list" where
  "mail_branches cutoff = [before cutoff mt_expiresAt, set_before cutoff mt_consumedAt]"

definition reauth_branches :: "int \<Rightarrow> reauth_row cleanup_branch list" where
  "reauth_branches now = [before now ra_expiresAt,
     \<lparr>br_terminal = \<lambda>r. case ra_consumedAt r of None \<Rightarrow> 0 | Some t \<Rightarrow> t, br_predicate = \<lambda>r. ra_consumedAt r \<noteq> None\<rparr>]"

definition jti_key :: "string \<times> string \<times> int \<times> int \<Rightarrow> string" where "jti_key = fst"
definition jti_expires :: "string \<times> string \<times> int \<times> int \<Rightarrow> int" where "jti_expires = (\<lambda>(_, _, e, _). e)"

text \<open>An expired metadata client without consent, refresh token or grant.\<close>

definition client_branches :: "db \<Rightarrow> int \<Rightarrow> OAuthClient cleanup_branch list" where
  "client_branches db cutoff =
     [\<lparr>br_terminal = \<lambda>c. case oc_metadataExpiresAt c of None \<Rightarrow> 0 | Some t \<Rightarrow> t,
       br_predicate = \<lambda>c. oc_registrationType c = client_id_metadata \<and> oc_enabled c \<and>
         (case oc_metadataExpiresAt c of None \<Rightarrow> False | Some t \<Rightarrow> t < cutoff) \<and>
         \<not> list_ex (\<lambda>r. cs_clientId r = oc_clientId c) (t_consents db) \<and>
         \<not> list_ex (\<lambda>r. rt_clientId r = oc_clientId c) (t_refresh_tokens db) \<and>
         \<not> list_ex (\<lambda>r. gr_clientId r = oc_clientId c) (t_authorization_grants db)\<rparr>]"

text \<open>
  The statements, each with what the foreign keys do: the rows that refer to a deleted session lose
  the reference or, where it is mandatory, are deleted with it, and those of a deleted client go with
  the client. \<open>meta.changes\<close> counts the rows of the statement's own table.
\<close>

abbreviation upd_db :: "(db \<Rightarrow> db) \<Rightarrow> account_state \<Rightarrow> account_state" where
  "upd_db f a \<equiv> a\<lparr>aw_world := (aw_world a)\<lparr>w_db := f (aw_db a)\<rparr>\<rparr>"

definition cleanup :: "('r \<Rightarrow> string) \<Rightarrow> 'r cleanup_branch list \<Rightarrow> nat \<Rightarrow> 'r list \<Rightarrow> string list \<times> nat \<times> 'r list" where
  "cleanup key branches batchSize t =
     (let ks = boundedCleanupStatement key branches batchSize t in (ks, delete_keys key ks t))"

definition cleanup_sessions :: "int \<Rightarrow> nat \<Rightarrow> account_state \<Rightarrow> nat \<times> account_state" where
  "cleanup_sessions cutoff n a =
     (let (ks, c, t) = cleanup sr_id (session_branches cutoff) n (t_sessions (aw_db a))
      in (c, upd_db (\<lambda>db. (forget_sessions ks db)\<lparr>t_sessions := t\<rparr>) a))"

definition cleanup_refresh_tokens :: "int \<Rightarrow> nat \<Rightarrow> account_state \<Rightarrow> nat \<times> account_state" where
  "cleanup_refresh_tokens cutoff n a =
     (let (ks, c, t) = cleanup rt_id (refresh_branches cutoff) n (t_refresh_tokens (aw_db a))
      in (c, upd_db (\<lambda>db. db\<lparr>t_refresh_tokens := t\<rparr>) a))"

definition cleanup_authorization_grants :: "int \<Rightarrow> nat \<Rightarrow> account_state \<Rightarrow> nat \<times> account_state" where
  "cleanup_authorization_grants cutoff n a =
     (let (ks, c, t) = cleanup gr_id [before cutoff gr_createdAt] n (t_authorization_grants (aw_db a))
      in (c, upd_db (\<lambda>db. db\<lparr>t_authorization_grants := t\<rparr>) a))"

definition cleanup_devices :: "int \<Rightarrow> nat \<Rightarrow> account_state \<Rightarrow> nat \<times> account_state" where
  "cleanup_devices cutoff n a =
     (let (ks, c, t) = cleanup dv_id (device_branches cutoff) n (t_devices (aw_db a))
      in (c, upd_db (\<lambda>db. db\<lparr>t_devices := t\<rparr>) a))"

definition cleanup_email_verifications :: "int \<Rightarrow> nat \<Rightarrow> account_state \<Rightarrow> nat \<times> account_state" where
  "cleanup_email_verifications cutoff n a =
     (let (ks, c, t) = cleanup mt_id (mail_branches cutoff) n (aw_email_verifications a)
      in (c, a\<lparr>aw_email_verifications := t\<rparr>))"

definition cleanup_password_resets :: "int \<Rightarrow> nat \<Rightarrow> account_state \<Rightarrow> nat \<times> account_state" where
  "cleanup_password_resets cutoff n a =
     (let (ks, c, t) = cleanup mt_id (mail_branches cutoff) n (aw_password_resets a)
      in (c, a\<lparr>aw_password_resets := t\<rparr>))"

definition cleanup_reauth_continuations :: "int \<Rightarrow> nat \<Rightarrow> account_state \<Rightarrow> nat \<times> account_state" where
  "cleanup_reauth_continuations now n a =
     (let (ks, c, t) = cleanup ra_tokenHash (reauth_branches now) n (t_reauth_continuations (aw_db a))
      in (c, upd_db (\<lambda>db. db\<lparr>t_reauth_continuations := t\<rparr>) a))"

definition cleanup_assertion_jtis :: "int \<Rightarrow> nat \<Rightarrow> account_state \<Rightarrow> nat \<times> account_state" where
  "cleanup_assertion_jtis now n a =
     (let (ks, c, t) = cleanup jti_key [before now jti_expires] n (w_assertion_jtis (aw_world a))
      in (c, a\<lparr>aw_world := (aw_world a)\<lparr>w_assertion_jtis := t\<rparr>\<rparr>))"

definition cleanup_metadata_clients :: "int \<Rightarrow> nat \<Rightarrow> account_state \<Rightarrow> nat \<times> account_state" where
  "cleanup_metadata_clients cutoff n a =
     (let (ks, c, t) = cleanup oc_clientId (client_branches (aw_db a) cutoff) n (t_oauth_clients (aw_db a));
          a1 = upd_db (\<lambda>db. (prune_rules ''application'' ks db)\<lparr>t_oauth_clients := t,
                 t_devices := filter (\<lambda>r. dv_clientId r \<notin> set ks) (t_devices db),
                 t_metadata_client_approvals := filter (\<lambda>(i, _). i \<notin> set ks) (t_metadata_client_approvals db)\<rparr>) a
      in (c, a1\<lparr>aw_world := (aw_world a1)\<lparr>w_assertion_jtis :=
               filter (\<lambda>(_, i, _). i \<notin> set ks) (w_assertion_jtis (aw_world a1))\<rparr>\<rparr>))"

definition cleanup_statements :: "int \<Rightarrow> nat \<Rightarrow> int \<Rightarrow> (string \<times> (account_state \<Rightarrow> nat \<times> account_state)) list" where
  "cleanup_statements cutoff batchSize now =
     [(''sessions'', cleanup_sessions cutoff batchSize),
      (''refresh_tokens'', cleanup_refresh_tokens cutoff batchSize),
      (''authorization_grants'', cleanup_authorization_grants cutoff batchSize),
      (''device_authorization_sessions'', cleanup_devices cutoff batchSize),
      (''email_verifications'', cleanup_email_verifications cutoff batchSize),
      (''password_reset_tokens'', cleanup_password_resets cutoff batchSize),
      (''reauth_continuations'', cleanup_reauth_continuations now batchSize),
      (''oauth_client_assertion_jtis'', cleanup_assertion_jtis now batchSize),
      (''oauth_metadata_clients'', cleanup_metadata_clients cutoff batchSize)]"

fun run_statements ::
  "nat \<Rightarrow> (string \<times> (account_state \<Rightarrow> nat \<times> account_state)) list \<Rightarrow> account_state \<Rightarrow> (string \<times> nat) list \<times> account_state" where
  "run_statements batchSize [] a = ([], a)"
| "run_statements batchSize ((name, delete) # rest) a =
     (let (deleted, a1) = delete_batches batchSize MAX_CLEANUP_BATCHES_PER_TABLE delete 0 a;
          (results, a2) = run_statements batchSize rest a1
      in ((name, deleted) # results, a2))"

definition cleanupTerminalRows :: "int \<Rightarrow> nat \<Rightarrow> int \<Rightarrow> account_state \<Rightarrow> (string \<times> nat) list \<times> account_state" where
  "cleanupTerminalRows cutoff batchSize now = run_statements batchSize (cleanup_statements cutoff batchSize now)"

section \<open>maintenance.ts: the job\<close>

record MaintenanceResult =
  mr_completed :: bool
  mr_signingKeyRotated :: bool
  mr_deletedAuditRows :: nat
  mr_deletedRows :: "(string \<times> nat) list"
  mr_auditBacklogRemaining :: nat
  mr_oldestEligibleAuditAt :: "int option"

definition skipped_result :: MaintenanceResult where
  "skipped_result = \<lparr>mr_completed = False, mr_signingKeyRotated = False, mr_deletedAuditRows = 0, mr_deletedRows = [],
     mr_auditBacklogRemaining = 0, mr_oldestEligibleAuditAt = None\<rparr>"

abbreviation ms_logs :: "maintenance_state \<Rightarrow> AuditMessage list" where
  "ms_logs s \<equiv> audit_logs (w_audit (aw_world (ms_accounts s)))"

definition set_logs :: "AuditMessage list \<Rightarrow> account_state \<Rightarrow> account_state" where
  "set_logs t a = a\<lparr>aw_world := (aw_world a)\<lparr>w_audit := (w_audit (aw_world a))\<lparr>audit_logs := t\<rparr>\<rparr>\<rparr>"

text \<open>The body of the \<open>try\<close>.\<close>

definition maintain ::
  "key_env \<Rightarrow> RuntimeConfig \<Rightarrow> int \<Rightarrow> maintenance_state \<Rightarrow> (failure, MaintenanceResult) result \<times> maintenance_state" where
  "maintain ke config scheduledAt s =
     (case rotateSigningKeyWhenDue ke scheduledAt (rc_keyRotationIntervalSeconds config) (ms_keys s) of
        (Inl e, k) \<Rightarrow> (Inl e, s\<lparr>ms_keys := k\<rparr>)
      | (Inr rotated, k) \<Rightarrow>
          (let auditCutoff = scheduledAt - rc_auditD1RetentionDays config * DAY_SECONDS;
               (deletedAuditRows, logs) = deleteExpiredAuditLogs auditCutoff (rc_maintenanceBatchSize config) (ms_logs s);
               (deletedRows, a) = cleanupTerminalRows (scheduledAt - rc_terminalDataRetentionDays config * DAY_SECONDS)
                 (rc_maintenanceBatchSize config) scheduledAt (set_logs logs (ms_accounts s));
               (count, oldest) = auditBacklog auditCutoff logs
           in (Inr \<lparr>mr_completed = True, mr_signingKeyRotated = rotated, mr_deletedAuditRows = deletedAuditRows,
                 mr_deletedRows = deletedRows, mr_auditBacklogRemaining = count, mr_oldestEligibleAuditAt = oldest\<rparr>,
               s\<lparr>ms_accounts := a, ms_keys := k\<rparr>)))"

definition runScheduledMaintenance ::
  "key_env \<Rightarrow> runtime_env \<Rightarrow> int \<Rightarrow> maintenance_state \<Rightarrow> (failure, MaintenanceResult) result \<times> maintenance_state" where
  "runScheduledMaintenance ke re scheduledAt s =
     (case getRuntimeConfig re of
        Inl e \<Rightarrow> (Inl e, s)
      | Inr config \<Rightarrow>
          (let ownerToken = ke_uuid ke ''maintenance'';
               (acquired, s1) = acquireLease ownerToken (ke_now ke) (rc_maintenanceLeaseSeconds config) s
           in if \<not> acquired then (Inr skipped_result, s1)
              else (let (r, s2) = maintain ke config scheduledAt s1 in (r, releaseLease ownerToken s2))))"

section \<open>One bounded statement\<close>

lemma bounded_keys_set: "set (bounded_keys n cands) \<subseteq> fst ` set cands"
  using set_take_subset [of n] by (fastforce simp: bounded_keys_def)

lemma bounded_keys_length: "length (bounded_keys n cands) = min n (card (fst ` set cands))"
  by (simp add: bounded_keys_def length_remdups_card_conv)

lemma bounded_keys_distinct: "distinct (bounded_keys n cands)"
  by (simp add: bounded_keys_def distinct_take)

lemma bounded_keys_all: "card (fst ` set cands) \<le> n \<Longrightarrow> set (bounded_keys n cands) = fst ` set cands"
  by (simp add: bounded_keys_def length_remdups_card_conv)

lemma branch_candidates_set:
  "set (branch_candidates key n t b) \<subseteq> (\<lambda>r. (key r, br_terminal b r)) ` {r \<in> set t. br_predicate b r}"
  using set_take_subset [of n "sort_key (\<lambda>r. (br_terminal b r, key r)) (filter (br_predicate b) t)"]
  by (auto simp: branch_candidates_def)

text \<open>A branch either offers all its rows, or as many as the batch takes.\<close>

lemma branch_candidates_full:
  assumes "distinct (map key t)" "card (fst ` set (branch_candidates key n t b)) < n" "r \<in> set t" "br_predicate b r"
  shows "key r \<in> fst ` set (branch_candidates key n t b)"
proof -
  let ?sorted = "sort_key (\<lambda>r. (br_terminal b r, key r)) (filter (br_predicate b) t)"
  have fst_keys: "fst ` set (branch_candidates key n t b) = key ` set (take n ?sorted)"
    by (simp add: branch_candidates_def image_image)
  have "inj_on key (set t)" "distinct t" using assms(1) by (auto simp: distinct_map)
  moreover have "set (take n ?sorted) \<subseteq> set t" using set_take_subset [of n ?sorted] by auto
  ultimately have "card (key ` set (take n ?sorted)) = length (take n ?sorted)"
    by (simp add: card_image inj_on_subset distinct_card distinct_take)
  with assms(2) have "length ?sorted < n" unfolding fst_keys by simp
  then have "take n ?sorted = ?sorted" by simp
  with assms(3,4) show ?thesis unfolding fst_keys by simp
qed

lemma cleanup_exact:
  assumes "distinct (map key t)" "cleanup key bs n t = (ks, c, t')"
  shows "t' = filter (\<lambda>r. key r \<notin> set ks) t \<and> c + length t' = length t \<and> c \<le> n \<and>
    (\<forall>r\<in>set t. key r \<in> set ks \<longrightarrow> (\<exists>b\<in>set bs. br_predicate b r)) \<and>
    (c < n \<longrightarrow> (\<forall>r\<in>set t'. \<forall>b\<in>set bs. \<not> br_predicate b r))"
proof -
  define cands where "cands = concat (map (branch_candidates key n t) bs)"
  have ks: "ks = bounded_keys n cands" and t': "t' = filter (\<lambda>r. key r \<notin> set ks) t"
    and c: "c = length (filter (\<lambda>r. key r \<in> set ks) t)"
    using assms(2) by (auto simp: cleanup_def boundedCleanupStatement_def delete_keys_def Let_def cands_def)
  have inj: "inj_on key (set t)" and "distinct t" using assms(1) by (auto simp: distinct_map)
  have cand: "\<exists>r\<in>set t. \<exists>b\<in>set bs. key r = k \<and> br_predicate b r" if "k \<in> fst ` set cands" for k
    using that branch_candidates_set [of key n t] unfolding cands_def by fastforce
  have "set ks \<subseteq> fst ` set cands" unfolding ks by (rule bounded_keys_set)
  then have sub: "set ks \<subseteq> key ` set t" using cand by (metis image_eqI subsetD subsetI)
  have own: "\<exists>b\<in>set bs. br_predicate b r" if "r \<in> set t" "key r \<in> set ks" for r
  proof -
    from that(2) \<open>set ks \<subseteq> fst ` set cands\<close> cand obtain r' b where "r' \<in> set t" "b \<in> set bs" "key r' = key r" "br_predicate b r'"
      by (metis subsetD)
    with inj_onD [OF inj, of r' r] that(1) show ?thesis by auto
  qed
  have "c = card (set ks)"
  proof -
    have "c = card {r \<in> set t. key r \<in> set ks}" using \<open>distinct t\<close> by (simp add: c flip: distinct_card)
    also have "\<dots> = card (key ` {r \<in> set t. key r \<in> set ks})" using inj by (intro card_image [symmetric]) (auto simp: inj_on_def)
    also have "key ` {r \<in> set t. key r \<in> set ks} = set ks" using sub by auto
    finally show ?thesis .
  qed
  then have cn: "c = min n (card (fst ` set cands))"
    using bounded_keys_distinct [of n cands] bounded_keys_length [of n cands] by (simp add: ks distinct_card)
  have "\<not> br_predicate b r" if "c < n" "r \<in> set t'" "b \<in> set bs" for r b
  proof
    assume "br_predicate b r"
    have few: "card (fst ` set cands) < n" using cn \<open>c < n\<close> by simp
    have "fst ` set (branch_candidates key n t b) \<subseteq> fst ` set cands" using that(3) by (auto simp: cands_def)
    then have "card (fst ` set (branch_candidates key n t b)) < n"
      using few card_mono [of "fst ` set cands"] by (meson finite_imageI finite_set le_less_trans)
    from branch_candidates_full [OF assms(1) this _ \<open>br_predicate b r\<close>] that
    have "key r \<in> fst ` set cands" by (auto simp: t' cands_def)
    then have "key r \<in> set ks" using bounded_keys_all [of cands n] few by (simp add: ks)
    with that(2) show False by (simp add: t')
  qed
  moreover have "c + length t' = length t" using sum_length_filter_compl [of "\<lambda>r. key r \<in> set ks" t] by (simp add: c t')
  ultimately show ?thesis using own cn t' by auto
qed

section \<open>The loop over batches\<close>

text \<open>
  The contract of a bounded delete on a store \<open>'s\<close> with a table \<open>rows\<close>: live rows stay as they are,
  the count is that of the rows removed, at most \<open>n\<close>, and a short count means that no other row is
  left. The loop keeps the contract, for a larger bound.
\<close>

locale bounded_delete =
  fixes delete :: "'s \<Rightarrow> nat \<times> 's" and rows :: "'s \<Rightarrow> 'r list" and live :: "'r \<Rightarrow> bool" and n :: nat
    and key :: "'r \<Rightarrow> string"
  assumes delete_keys_distinct: "distinct (map key (rows s)) \<Longrightarrow> distinct (map key (rows (snd (delete s))))"
    and delete_live: "distinct (map key (rows s)) \<Longrightarrow> filter live (rows (snd (delete s))) = filter live (rows s)"
    and delete_count: "distinct (map key (rows s)) \<Longrightarrow> fst (delete s) + length (rows (snd (delete s))) = length (rows s)"
    and delete_bound: "distinct (map key (rows s)) \<Longrightarrow> fst (delete s) \<le> n"
    and delete_complete: "distinct (map key (rows s)) \<Longrightarrow> fst (delete s) < n \<Longrightarrow> list_all live (rows (snd (delete s)))"
begin

lemma batches:
  "distinct (map key (rows s)) \<Longrightarrow> delete_batches n m delete d s = (d', s') \<Longrightarrow>
     filter live (rows s') = filter live (rows s) \<and> d' + length (rows s') = d + length (rows s) \<and> d \<le> d' \<and> d' \<le> d + m * n \<and>
     (d' < d + m * n \<longrightarrow> list_all live (rows s'))"
proof (induction m arbitrary: d s)
  case (Suc m)
  obtain c s1 where step: "delete s = (c, s1)" by fastforce
  note laws = delete_live [OF Suc.prems(1), unfolded step] delete_count [OF Suc.prems(1), unfolded step]
    delete_bound [OF Suc.prems(1), unfolded step] delete_complete [OF Suc.prems(1), unfolded step]
  show ?case
  proof (cases "c < n")
    case True
    then show ?thesis using Suc.prems(2) step laws by auto
  next
    case False
    with laws have "c = n" by simp
    have "distinct (map key (rows s1))" using delete_keys_distinct [OF Suc.prems(1)] step by simp
    moreover have "delete_batches n m delete (d + n) s1 = (d', s')" using Suc.prems(2) step \<open>c = n\<close> by simp
    ultimately show ?thesis using Suc.IH [of s1 "d + n"] laws \<open>c = n\<close> by (auto simp: algebra_simps)
  qed
qed simp

end

lemma filter_filter_live:
  "(\<And>r. r \<in> set t \<Longrightarrow> live r \<Longrightarrow> Q r) \<Longrightarrow> filter live (filter Q t) = filter live t"
  by (induction t) auto

text \<open>A statement of \<open>boundedCleanupStatement\<close> on one table is such a delete.\<close>

lemma cleanup_laws:
  assumes "distinct (map key t)"
  shows "distinct (map key (snd (snd (cleanup key bs n t))))"
    and "(\<And>r b. live r \<Longrightarrow> b \<in> set bs \<Longrightarrow> \<not> br_predicate b r) \<Longrightarrow>
      filter live (snd (snd (cleanup key bs n t))) = filter live t"
    and "fst (snd (cleanup key bs n t)) + length (snd (snd (cleanup key bs n t))) = length t"
    and "fst (snd (cleanup key bs n t)) \<le> n"
    and "fst (snd (cleanup key bs n t)) < n \<Longrightarrow> (\<And>r. \<not> live r \<Longrightarrow> \<exists>b\<in>set bs. br_predicate b r) \<Longrightarrow>
      list_all live (snd (snd (cleanup key bs n t)))"
proof -
  obtain ks c t' where cl: "cleanup key bs n t = (ks, c, t')" by (metis prod_cases3)
  note exact = cleanup_exact [OF assms cl]
  show "distinct (map key (snd (snd (cleanup key bs n t))))"
    using exact assms by (auto simp: cl intro: distinct_map_filter)
  show "filter live (snd (snd (cleanup key bs n t))) = filter live t"
    if "\<And>r b. live r \<Longrightarrow> b \<in> set bs \<Longrightarrow> \<not> br_predicate b r"
  proof -
    have "filter live (filter (\<lambda>r. key r \<notin> set ks) t) = filter live t"
      using exact that by (intro filter_filter_live) blast
    with exact show ?thesis unfolding cl by (simp only: snd_conv)
  qed
  show "fst (snd (cleanup key bs n t)) + length (snd (snd (cleanup key bs n t))) = length t"
    "fst (snd (cleanup key bs n t)) \<le> n"
    using exact unfolding cl fst_conv snd_conv by blast+
  show "list_all live (snd (snd (cleanup key bs n t)))"
    if "fst (snd (cleanup key bs n t)) < n" "\<And>r. \<not> live r \<Longrightarrow> \<exists>b\<in>set bs. br_predicate b r"
    using exact that by (fastforce simp: cl list_all_iff)
qed

text \<open>The audit rows, whose single statement is the same delete with one branch.\<close>

lemma audit_batch_cleanup: "delete_audit_batch cutoff n t = snd (cleanup am_id [before cutoff am_createdAt] n t)"
proof -
  let ?cands = "branch_candidates am_id n t (before cutoff am_createdAt)"
  have "length ?cands \<le> n" by (simp add: branch_candidates_def)
  then have "card (fst ` set ?cands) \<le> n" by (metis card_length image_set le_trans length_map)
  then have "set (bounded_keys n ?cands) = fst ` set ?cands" by (rule bounded_keys_all)
  also have "\<dots> = set (map am_id (take n (sort_key (\<lambda>m. (am_createdAt m, am_id m)) (filter (\<lambda>m. am_createdAt m < cutoff) t))))"
    by (simp add: branch_candidates_def before_def image_image)
  finally show ?thesis
    by (simp add: delete_audit_batch_def cleanup_def boundedCleanupStatement_def delete_keys_def Let_def)
qed

interpretation audit: bounded_delete "delete_audit_batch cutoff n" "\<lambda>t. t" "\<lambda>m. cutoff \<le> am_createdAt m" n am_id for cutoff n
  unfolding audit_batch_cleanup
  by unfold_locales (auto simp: before_def intro!: cleanup_laws simp del: fst_conv)

text \<open>
  Audit rows are kept for the retention time, and deleted after it at a bounded rate. Where ids
  are unique, the rows that are not older than the cutoff stay as they are, in their order; the
  count returned is that of the rows deleted, at most twelve batches; when it is less than that, no
  older row is left, and the backlog reported afterwards is exactly what is left.
\<close>

theorem audit_retention_exact:
  assumes "distinct (map am_id t)" and "deleteExpiredAuditLogs cutoff n t = (deleted, t')"
  shows "filter (\<lambda>m. cutoff \<le> am_createdAt m) t' = filter (\<lambda>m. cutoff \<le> am_createdAt m) t \<and>
    deleted + length t' = length t \<and> deleted \<le> 12 * n \<and>
    (deleted < 12 * n \<longrightarrow> (\<forall>m\<in>set t'. cutoff \<le> am_createdAt m)) \<and>
    fst (auditBacklog cutoff t') + length (filter (\<lambda>m. cutoff \<le> am_createdAt m) t) = length t'"
proof -
  note b = audit.batches [of t n 12 cutoff 0 deleted t', OF assms(1)]
  have "length (filter (\<lambda>m. am_createdAt m < cutoff) t') + length (filter (\<lambda>m. cutoff \<le> am_createdAt m) t') = length t'"
    using sum_length_filter_compl [of "\<lambda>m. am_createdAt m < cutoff" t'] by (simp add: not_less)
  with b assms(2) show ?thesis
    by (auto simp: deleteExpiredAuditLogs_def MAX_AUDIT_DELETE_BATCHES_PER_RUN_def auditBacklog_def Let_def list_all_iff)
qed

section \<open>Live rows\<close>

definition live_until :: "int \<Rightarrow> int \<Rightarrow> int option \<Rightarrow> bool" where
  "live_until cutoff expiresAt endedAt = (cutoff \<le> expiresAt \<and> (case endedAt of None \<Rightarrow> True | Some t \<Rightarrow> cutoff \<le> t))"

definition live_device :: "int \<Rightarrow> device_row \<Rightarrow> bool" where
  "live_device cutoff r = (cutoff \<le> dv_expiresAt r \<and> (dv_status r \<in> {pending, approved} \<or> cutoff \<le> dv_createdAt r))"

definition live_proof :: "int \<Rightarrow> reauth_row \<Rightarrow> bool" where
  "live_proof now r = (now \<le> ra_expiresAt r \<and> ra_consumedAt r = None)"

definition durable_client :: "int \<Rightarrow> OAuthClient \<Rightarrow> bool" where
  "durable_client cutoff c = (oc_registrationType c = static \<or> \<not> oc_enabled c \<or>
     (case oc_metadataExpiresAt c of None \<Rightarrow> True | Some t \<Rightarrow> cutoff \<le> t))"

definition live_sessions :: "int \<Rightarrow> account_state \<Rightarrow> session_row list" where
  "live_sessions cutoff a = filter (\<lambda>r. live_until cutoff (sr_expiresAt r) (se_revokedAt r)) (t_sessions (aw_db a))"

definition live_clients :: "int \<Rightarrow> account_state \<Rightarrow> OAuthClient list" where
  "live_clients cutoff a = filter (durable_client cutoff) (t_oauth_clients (aw_db a))"

text \<open>
  What a run must leave alone. References to sessions are left out of the rows that may lose them;
  a reauthentication proof depends on its session, a device code and a used assertion on their client.
\<close>

record live_rows =
  lr_sessions :: "session_row list"
  lr_refresh :: "refresh_row list"
  lr_grants :: "grant_row list"
  lr_devices :: "device_row list"
  lr_emails :: "email_token_row list"
  lr_resets :: "mail_token_row list"
  lr_reauth :: "reauth_row list"
  lr_jtis :: "(string \<times> string \<times> int \<times> int) list"
  lr_clients :: "OAuthClient list"

definition live_view :: "int \<Rightarrow> int \<Rightarrow> account_state \<Rightarrow> live_rows" where
  "live_view cutoff now a = \<lparr>
     lr_sessions = live_sessions cutoff a,
     lr_refresh = map (\<lambda>r. r\<lparr>rt_sessionId := None\<rparr>)
       (filter (\<lambda>r. live_until cutoff (rt_expiresAt r) (rt_revokedAt r)) (t_refresh_tokens (aw_db a))),
     lr_grants = map (\<lambda>r. r\<lparr>gr_sessionId := None\<rparr>) (filter (\<lambda>r. cutoff \<le> gr_createdAt r) (t_authorization_grants (aw_db a))),
     lr_devices = map (\<lambda>r. r\<lparr>dv_sessionId := None\<rparr>)
       (filter (\<lambda>r. live_device cutoff r \<and> dv_clientId r \<in> set (map oc_clientId (live_clients cutoff a))) (t_devices (aw_db a))),
     lr_emails = filter (\<lambda>r. live_until cutoff (mt_expiresAt r) (mt_consumedAt r)) (aw_email_verifications a),
     lr_resets = filter (\<lambda>r. live_until cutoff (mt_expiresAt r) (mt_consumedAt r)) (aw_password_resets a),
     lr_reauth = filter (\<lambda>r. live_proof now r \<and> ra_sessionId r \<in> set (map sr_id (live_sessions cutoff a))) (t_reauth_continuations (aw_db a)),
     lr_jtis = filter (\<lambda>j. now \<le> jti_expires j \<and> fst (snd j) \<in> set (map oc_clientId (live_clients cutoff a)))
       (w_assertion_jtis (aw_world a)),
     lr_clients = live_clients cutoff a\<rparr>"

text \<open>The primary keys of the tables.\<close>

definition keys_ok :: "account_state \<Rightarrow> bool" where
  "keys_ok a \<longleftrightarrow> distinct (map sr_id (t_sessions (aw_db a))) \<and> distinct (map rt_id (t_refresh_tokens (aw_db a))) \<and>
     distinct (map gr_id (t_authorization_grants (aw_db a))) \<and> distinct (map dv_id (t_devices (aw_db a))) \<and>
     distinct (map mt_id (aw_email_verifications a)) \<and> distinct (map mt_id (aw_password_resets a)) \<and>
     distinct (map ra_tokenHash (t_reauth_continuations (aw_db a))) \<and> distinct (map jti_key (w_assertion_jtis (aw_world a))) \<and>
     distinct (map oc_clientId (t_oauth_clients (aw_db a)))"

definition spares_live :: "int \<Rightarrow> int \<Rightarrow> (account_state \<Rightarrow> nat \<times> account_state) \<Rightarrow> bool" where
  "spares_live cutoff now delete \<longleftrightarrow>
     (\<forall>a. keys_ok a \<longrightarrow> keys_ok (snd (delete a)) \<and> live_view cutoff now (snd (delete a)) = live_view cutoff now a)"

text \<open>What every statement keeps, the run keeps.\<close>

lemma batches_invariant:
  "(\<And>a. I a \<Longrightarrow> I (snd (delete a))) \<Longrightarrow> I a \<Longrightarrow> I (snd (delete_batches n m delete d a))"
proof (induction m arbitrary: d a)
  case (Suc m)
  obtain c b where "delete a = (c, b)" by fastforce
  moreover from this Suc.prems(1) [OF Suc.prems(2)] have "I b" by simp
  ultimately show ?case using Suc.IH [of b] Suc.prems(1) by simp
qed simp

lemma statements_invariant:
  "(\<And>d a. d \<in> set (map snd stmts) \<Longrightarrow> I a \<Longrightarrow> I (snd (d a))) \<Longrightarrow> I a \<Longrightarrow> I (snd (run_statements n stmts a))"
proof (induction stmts arbitrary: a)
  case (Cons st stmts)
  let ?b = "snd (delete_batches n MAX_CLEANUP_BATCHES_PER_TABLE (snd st) 0 a)"
  have "I ?b"
  proof (rule batches_invariant)
    show "I (snd (snd st a'))" if "I a'" for a' using Cons.prems(1) that by simp
  qed (rule Cons.prems(2))
  moreover have "I (snd (d a'))" if "d \<in> set (map snd stmts)" "I a'" for d a' using Cons.prems(1) that by simp
  ultimately have "I (snd (run_statements n stmts ?b))" by (intro Cons.IH)
  then show ?case by (cases st) (simp add: case_prod_unfold Let_def)
qed simp

text \<open>The branches of the statements say when a row is not live.\<close>

lemma session_live: "live_until cutoff (sr_expiresAt r) (se_revokedAt r) \<longleftrightarrow> \<not> (\<exists>b\<in>set (session_branches cutoff). br_predicate b r)"
  by (auto simp: session_branches_def before_def set_before_def live_until_def split: option.splits)

lemma refresh_live: "live_until cutoff (rt_expiresAt r) (rt_revokedAt r) \<longleftrightarrow> \<not> (\<exists>b\<in>set (refresh_branches cutoff). br_predicate b r)"
  by (auto simp: refresh_branches_def before_def set_before_def live_until_def split: option.splits)

lemma mail_live: "live_until cutoff (mt_expiresAt r) (mt_consumedAt r) \<longleftrightarrow> \<not> (\<exists>b\<in>set (mail_branches cutoff). br_predicate b r)"
  by (auto simp: mail_branches_def before_def set_before_def live_until_def split: option.splits)

lemma device_live: "live_device cutoff r \<longleftrightarrow> \<not> (\<exists>b\<in>set (device_branches cutoff). br_predicate b r)"
  by (cases "dv_status r") (auto simp: device_branches_def before_def live_device_def)

lemma proof_live: "live_proof now r \<longleftrightarrow> \<not> (\<exists>b\<in>set (reauth_branches now). br_predicate b r)"
  by (auto simp: reauth_branches_def before_def live_proof_def)

lemma before_live: "cutoff \<le> column r \<longleftrightarrow> \<not> (\<exists>b\<in>set [before cutoff column]. br_predicate b r)"
  by (auto simp: before_def)

lemma durable_spared: "durable_client cutoff c \<Longrightarrow> \<not> (\<exists>b\<in>set (client_branches db cutoff). br_predicate b c)"
  by (auto simp: client_branches_def durable_client_def split: option.splits)

lemma cleanup_keeps:
  assumes "distinct (map key t)" "\<And>r. live r \<Longrightarrow> \<not> (\<exists>b\<in>set bs. br_predicate b r)" "cleanup key bs n t = (ks, c, t')"
  shows "filter live t' = filter live t" "distinct (map key t')" "key ` {r \<in> set t. live r} \<inter> set ks = {}"
proof -
  show "filter live t' = filter live t" using cleanup_laws(2) [OF assms(1), of live bs n] assms(2,3) by auto
  show "distinct (map key t')" using cleanup_laws(1) [OF assms(1), of bs n] assms(3) by simp
  show "key ` {r \<in> set t. live r} \<inter> set ks = {}" using cleanup_exact [OF assms(1,3)] assms(2) by blast
qed

text \<open>A link to a live row is one the statement does not touch.\<close>

lemma filter_linked:
  "L \<inter> set ks = {} \<Longrightarrow> (\<And>r. Q r \<Longrightarrow> link r \<in> L) \<Longrightarrow> filter Q (filter (\<lambda>r. link r \<notin> set ks) t) = filter Q t"
  by (intro filter_filter_live) auto

lemma filter_relinked:
  "(\<And>r. live (f r) = live r) \<Longrightarrow> (\<And>r. g (f r) = g r) \<Longrightarrow> map g (filter live (map f t)) = map g (filter live t)"
  by (induction t) auto

lemma spares_sessions: "spares_live cutoff now (cleanup_sessions cutoff n)"
  unfolding spares_live_def
proof (intro allI impI)
  fix a assume ok: "keys_ok a"
  obtain ks c t where cl: "cleanup sr_id (session_branches cutoff) n (t_sessions (aw_db a)) = (ks, c, t)" by (metis prod_cases3)
  let ?b = "snd (cleanup_sessions cutoff n a)"
  have d: "distinct (map sr_id (t_sessions (aw_db a)))" using ok by (simp add: keys_ok_def)
  note k = cleanup_keeps [OF d iffD1 [OF session_live] cl]
  have apart: "sr_id ` set (live_sessions cutoff a) \<inter> set ks = {}" using k(3) by (auto simp: live_sessions_def)
  have same: "live_sessions cutoff ?b = live_sessions cutoff a" "live_clients cutoff ?b = live_clients cutoff a"
    using k(1) by (simp_all add: cleanup_sessions_def forget_sessions_def cl live_sessions_def live_clients_def)
  have "keys_ok ?b"
    using ok k(2) by (simp add: keys_ok_def cleanup_sessions_def forget_sessions_def cl comp_def distinct_map_filter)
  moreover have "live_view cutoff now ?b = live_view cutoff now a"
    unfolding live_view_def same
    by (simp add: cleanup_sessions_def forget_sessions_def cl filter_relinked live_device_def del: filter_filter)
      (rule filter_linked [OF apart], simp)
  ultimately show "keys_ok ?b \<and> live_view cutoff now ?b = live_view cutoff now a" by blast
qed

text \<open>A statement with no effect on other tables.\<close>

lemma spares_table:
  assumes "\<And>r. live r \<longleftrightarrow> \<not> (\<exists>b\<in>set bs. br_predicate b r)"
    and "\<And>a. delete a = (let (ks, c, t) = cleanup key bs n (get a) in (c, put t a))"
    and "\<And>a. keys_ok a \<Longrightarrow> distinct (map key (get a))"
    and "\<And>a t. keys_ok a \<Longrightarrow> distinct (map key t) \<Longrightarrow> keys_ok (put t a)"
    and "\<And>a t. filter live t = filter live (get a) \<Longrightarrow>
      (\<And>Q. filter (\<lambda>r. live r \<and> Q r) t = filter (\<lambda>r. live r \<and> Q r) (get a)) \<Longrightarrow>
      live_view cutoff now (put t a) = live_view cutoff now a"
  shows "spares_live cutoff now delete"
  unfolding spares_live_def
proof (intro allI impI)
  fix a assume ok: "keys_ok a"
  obtain ks c t where cl: "cleanup key bs n (get a) = (ks, c, t)" by (metis prod_cases3)
  note k = cleanup_keeps [of key "get a" live, OF assms(3) [OF ok] iffD1 [OF assms(1)] cl]
  have "filter (\<lambda>r. live r \<and> Q r) t = filter (\<lambda>r. live r \<and> Q r) (get a)" for Q
    using arg_cong [OF k(1), of "filter Q"] by simp
  from assms(5) [OF k(1) this] assms(4) [OF ok k(2)]
  show "keys_ok (snd (delete a)) \<and> live_view cutoff now (snd (delete a)) = live_view cutoff now a"
    by (simp add: assms(2) cl)
qed

lemmas view_defs = live_view_def live_sessions_def live_clients_def keys_ok_def

lemma spares_refresh: "spares_live cutoff now (cleanup_refresh_tokens cutoff n)"
  by (rule spares_table [OF refresh_live, where get = "\<lambda>a. t_refresh_tokens (aw_db a)"
        and put = "\<lambda>t. upd_db (\<lambda>db. db\<lparr>t_refresh_tokens := t\<rparr>)"])
    (simp_all add: cleanup_refresh_tokens_def view_defs, erule arg_cong)

lemma spares_grants: "spares_live cutoff now (cleanup_authorization_grants cutoff n)"
  by (rule spares_table [OF before_live, where get = "\<lambda>a. t_authorization_grants (aw_db a)"
        and put = "\<lambda>t. upd_db (\<lambda>db. db\<lparr>t_authorization_grants := t\<rparr>)"])
    (simp_all add: cleanup_authorization_grants_def view_defs, erule arg_cong)

lemma spares_devices: "spares_live cutoff now (cleanup_devices cutoff n)"
  by (rule spares_table [OF device_live, where get = "\<lambda>a. t_devices (aw_db a)" and put = "\<lambda>t. upd_db (\<lambda>db. db\<lparr>t_devices := t\<rparr>)"])
    (simp_all add: cleanup_devices_def view_defs, drule meta_spec, erule arg_cong)

lemma spares_emails: "spares_live cutoff now (cleanup_email_verifications cutoff n)"
  by (rule spares_table [OF mail_live, where get = aw_email_verifications and put = "\<lambda>t a. a\<lparr>aw_email_verifications := t\<rparr>"])
    (simp_all add: cleanup_email_verifications_def view_defs)

lemma spares_resets: "spares_live cutoff now (cleanup_password_resets cutoff n)"
  by (rule spares_table [OF mail_live, where get = aw_password_resets and put = "\<lambda>t a. a\<lparr>aw_password_resets := t\<rparr>"])
    (simp_all add: cleanup_password_resets_def view_defs)

lemma spares_reauth: "spares_live cutoff now (cleanup_reauth_continuations now n)"
  by (rule spares_table [OF proof_live, where get = "\<lambda>a. t_reauth_continuations (aw_db a)"
        and put = "\<lambda>t. upd_db (\<lambda>db. db\<lparr>t_reauth_continuations := t\<rparr>)"])
    (simp_all add: cleanup_reauth_continuations_def view_defs)

lemma spares_jtis: "spares_live cutoff now (cleanup_assertion_jtis now n)"
  by (rule spares_table [OF before_live, where get = "\<lambda>a. w_assertion_jtis (aw_world a)"
        and put = "\<lambda>t a. a\<lparr>aw_world := (aw_world a)\<lparr>w_assertion_jtis := t\<rparr>\<rparr>"])
    (simp_all add: cleanup_assertion_jtis_def view_defs)

lemma spares_clients: "spares_live cutoff now (cleanup_metadata_clients cutoff n)"
  unfolding spares_live_def
proof (intro allI impI)
  fix a assume ok: "keys_ok a"
  obtain ks c t where cl: "cleanup oc_clientId (client_branches (aw_db a) cutoff) n (t_oauth_clients (aw_db a)) = (ks, c, t)"
    by (metis prod_cases3)
  let ?b = "snd (cleanup_metadata_clients cutoff n a)"
  have d: "distinct (map oc_clientId (t_oauth_clients (aw_db a)))" using ok by (simp add: keys_ok_def)
  note k = cleanup_keeps [OF d durable_spared cl]
  have apart: "oc_clientId ` set (live_clients cutoff a) \<inter> set ks = {}" using k(3) by (auto simp: live_clients_def)
  have same: "live_sessions cutoff ?b = live_sessions cutoff a" "live_clients cutoff ?b = live_clients cutoff a"
    using k(1) by (simp_all add: cleanup_metadata_clients_def prune_rules_def cl live_sessions_def live_clients_def)
  have "keys_ok ?b"
    using ok k(2) by (simp add: keys_ok_def cleanup_metadata_clients_def prune_rules_def cl distinct_map_filter)
  moreover have "live_view cutoff now ?b = live_view cutoff now a"
    unfolding live_view_def same
    by (simp add: cleanup_metadata_clients_def prune_rules_def cl case_prod_unfold del: filter_filter)
      (rule conjI, rule arg_cong [OF filter_linked [OF apart]], simp, rule filter_linked [OF apart], simp)
  ultimately show "keys_ok ?b \<and> live_view cutoff now ?b = live_view cutoff now a" by blast
qed

lemmas statements_spare = spares_sessions spares_refresh spares_grants spares_devices
  spares_emails spares_resets spares_reauth spares_jtis spares_clients

lemma cleanup_spares_live:
  assumes "keys_ok a"
  shows "live_view cutoff now (snd (cleanupTerminalRows cutoff n now a)) = live_view cutoff now a"
proof -
  let ?I = "\<lambda>b. keys_ok b \<and> live_view cutoff now b = live_view cutoff now a"
  have "spares_live cutoff now d" if "d \<in> set (map snd (cleanup_statements cutoff n now))" for d
    using that statements_spare by (auto simp: cleanup_statements_def)
  then have "?I (snd (run_statements n (cleanup_statements cutoff n now) a))"
    using assms by (intro statements_invariant [where I = ?I]) (simp_all add: spares_live_def)
  then show ?thesis by (simp add: cleanupTerminalRows_def)
qed

lemma cleanup_audit: "w_audit (aw_world (snd (cleanupTerminalRows cutoff n now a))) = w_audit (aw_world a)"
  unfolding cleanupTerminalRows_def
proof (rule statements_invariant [where I = "\<lambda>b. w_audit (aw_world b) = w_audit (aw_world a)"])
  fix d and b :: account_state
  assume "d \<in> set (map snd (cleanup_statements cutoff n now))" "w_audit (aw_world b) = w_audit (aw_world a)"
  then show "w_audit (aw_world (snd (d b))) = w_audit (aw_world a)"
    by (auto simp: cleanup_statements_def cleanup_sessions_def forget_sessions_def cleanup_refresh_tokens_def cleanup_authorization_grants_def
        cleanup_devices_def cleanup_email_verifications_def cleanup_password_resets_def cleanup_reauth_continuations_def
        cleanup_assertion_jtis_def cleanup_metadata_clients_def prune_rules_def Let_def case_prod_unfold)
qed simp

section \<open>Properties of the job\<close>

definition retention_cutoff :: "int \<Rightarrow> int \<Rightarrow> int" where
  "retention_cutoff scheduledAt days = scheduledAt - days * 86400"


definition demo_runtime :: runtime_env where
  "demo_runtime = \<lparr>ENVIRONMENT = Some ''test'', YOLO_MODE = None, ISSUER = ''https://id.test'',
     re_AUDIT_D1_RETENTION_DAYS = Some ''7'', re_KEY_ROTATION_INTERVAL_SECONDS = None, re_TERMINAL_DATA_RETENTION_DAYS = None,
     re_MAINTENANCE_BATCH_SIZE = Some ''1000'', re_MAINTENANCE_LEASE_SECONDS = None\<rparr>"

lemma demo_config:
  "getRuntimeConfig demo_runtime = Inr \<lparr>rc_environment = ''test'', rc_keyRotationIntervalSeconds = 604800,
     rc_terminalDataRetentionDays = 30, rc_auditD1RetentionDays = 7, rc_maintenanceBatchSize = 100, rc_maintenanceLeaseSeconds = 900\<rparr>"
  by (simp add: getRuntimeConfig_def demo_runtime_def environmentName_def ENVIRONMENTS_def REMOTE_ENVIRONMENTS_def r_bind_def
      boundedInteger_def all_digits_def digits_value_def is_digit_def DAY_SECONDS_def Let_def)

definition demo_maintenance :: maintenance_state where
  "demo_maintenance = \<lparr>ms_accounts = demo_accounts\<lparr>aw_world := demo_world\<lparr>w_db := (w_db demo_world)\<lparr>t_refresh_tokens :=
      [\<lparr>rt_id = ''f'', rt_tokenHash = [], rt_userId = ''u'', rt_clientId = ''c'', rt_sessionId = None, rt_resource = ''r'', rt_scope = [],
        rt_generation = 0, rt_rememberMe = False, rt_createdAt = 1, rt_lastRotatedAt = 1, rt_expiresAt = 100000000, rt_authTime = 1,
        rt_revokedAt = None\<rparr>]\<rparr>\<rparr>\<rparr>, ms_keys = demo_ks\<rparr>"


text \<open>Three rows, of which the cutoff has overtaken two.\<close>

theorem audit_retention_exact_witness:
  "let m = \<lambda>i t. AuditEvent.extend (audit_event ''x'') (AuditMessage.fields i t); t = [m ''a'' 5, m ''b'' 20, m ''c'' 7]
   in \<exists>d t'. deleteExpiredAuditLogs 10 100 t = (d, t') \<and> d \<le> 2 \<and> (\<forall>x\<in>set t'. 10 \<le> am_createdAt x)"
proof -
  let ?m = "\<lambda>i t. AuditEvent.extend (audit_event ''x'') (AuditMessage.fields i t)"
  let ?t = "[?m ''a'' 5, ?m ''b'' 20, ?m ''c'' 7]"
  obtain d t' where step: "deleteExpiredAuditLogs 10 100 ?t = (d, t')" by fastforce
  have "distinct (map am_id ?t)" by (simp add: AuditEvent.defs AuditMessage.defs audit_event_def)
  note e = audit_retention_exact [OF this step]
  have "length (filter (\<lambda>m. 10 \<le> am_createdAt m) ?t) = 1" by (simp add: AuditEvent.defs AuditMessage.defs audit_event_def)
  with e have "1 \<le> length t'" by (metis length_filter_le)
  with e step show ?thesis by (auto simp: Let_def)
qed

text \<open>
  The settings of a run are within their bounds. Whatever the operator has configured, a
  configuration that is accepted has a key rotation interval between a day and a year, retentions of
  1 to 3650 and 1 to 365 days, batches of 1 to 100 rows and leases of a minute to an hour; in the
  remote environments (outside the development bypass) each setting is the configured number
  itself, never a fallback, and the audit retention is the one prescribed for the environment.
\<close>

theorem runtime_config_bounds:
  assumes "getRuntimeConfig re = Inr c"
  shows "86400 \<le> rc_keyRotationIntervalSeconds c \<and> rc_keyRotationIntervalSeconds c \<le> 31536000 \<and>
    1 \<le> rc_terminalDataRetentionDays c \<and> rc_terminalDataRetentionDays c \<le> 3650 \<and>
    1 \<le> rc_auditD1RetentionDays c \<and> rc_auditD1RetentionDays c \<le> 365 \<and>
    1 \<le> rc_maintenanceBatchSize c \<and> rc_maintenanceBatchSize c \<le> 100 \<and>
    60 \<le> rc_maintenanceLeaseSeconds c \<and> rc_maintenanceLeaseSeconds c \<le> 3600 \<and>
    (rc_environment c \<in> {''dev'', ''production''} \<and> \<not> isYoloEnabled (env.truncate re) \<longrightarrow>
      rc_auditD1RetentionDays c = (if rc_environment c = ''dev'' then 90 else 365) \<and>
      (\<exists>b l. re_MAINTENANCE_BATCH_SIZE re = Some b \<and> digits_value b = rc_maintenanceBatchSize c \<and>
             re_MAINTENANCE_LEASE_SECONDS re = Some l \<and> int (digits_value l) = rc_maintenanceLeaseSeconds c))"
proof -
  have b: "lo \<le> v \<and> v \<le> hi \<and> (strict \<longrightarrow> (\<exists>r. raw = Some r \<and> digits_value r = v))"
    if "boundedInteger nm raw fb lo hi strict = Inr v" "lo \<le> fb" "fb \<le> hi" for nm raw fb lo hi strict v
    using that by (auto simp: boundedInteger_def Let_def split: option.splits if_splits)
  define required :: nat where "required = (if rc_environment c = ''dev'' then 90 else 365)"
  define strict where "strict = (rc_environment c \<in> set REMOTE_ENVIRONMENTS \<and> \<not> isYoloEnabled (env.truncate re))"
  obtain audit interval terminal batch lease where
    vals: "rc_keyRotationIntervalSeconds c = int interval" "rc_terminalDataRetentionDays c = int terminal"
      "rc_auditD1RetentionDays c = int audit" "rc_maintenanceBatchSize c = batch" "rc_maintenanceLeaseSeconds c = int lease"
      "strict \<longrightarrow> audit = required"
    and parsed: "boundedInteger ''AUDIT_D1_RETENTION_DAYS'' (re_AUDIT_D1_RETENTION_DAYS re) 90 1 required strict = Inr audit"
      "boundedInteger ''KEY_ROTATION_INTERVAL_SECONDS'' (re_KEY_ROTATION_INTERVAL_SECONDS re) 604800 86400 31536000 strict = Inr interval"
      "boundedInteger ''TERMINAL_DATA_RETENTION_DAYS'' (re_TERMINAL_DATA_RETENTION_DAYS re) 30 1 3650 strict = Inr terminal"
      "boundedInteger ''MAINTENANCE_BATCH_SIZE'' (re_MAINTENANCE_BATCH_SIZE re) 100 1 100 strict = Inr batch"
      "boundedInteger ''MAINTENANCE_LEASE_SECONDS'' (re_MAINTENANCE_LEASE_SECONDS re) 900 60 3600 strict = Inr lease"
    using assms unfolding required_def strict_def
    by (auto simp: getRuntimeConfig_def r_bind_Inr Let_def DAY_SECONDS_def split: if_splits)
  have "strict \<longleftrightarrow> rc_environment c \<in> {''dev'', ''production''} \<and> \<not> isYoloEnabled (env.truncate re)"
    by (simp add: strict_def REMOTE_ENVIRONMENTS_def)
  moreover have "90 \<le> required" "required \<le> 365" by (simp_all add: required_def)
  ultimately show ?thesis
    using vals b [OF parsed(1)] b [OF parsed(2)] b [OF parsed(3)] b [OF parsed(4)] b [OF parsed(5)] required_def by auto
qed

text \<open>An operator's batch size beyond the bound falls back to 100 rows in the test environment.\<close>

theorem runtime_config_bounds_witness:
  "\<exists>c. getRuntimeConfig demo_runtime = Inr c \<and> rc_maintenanceBatchSize c \<le> 100 \<and> 60 \<le> rc_maintenanceLeaseSeconds c"
  using demo_config runtime_config_bounds [OF demo_config] by blast

text \<open>
  One maintenance run at a time, and none leaves its lease behind. While a lease of the job has
  not expired, a run is skipped and changes nothing; and however a run ends (completed, or failed in
  the rotation of the signing key), no lease in its name is left.
\<close>

theorem maintenance_exclusive:
  assumes "getRuntimeConfig re = Inr config" and "runScheduledMaintenance ke re scheduledAt s = (r, s')"
    and "\<forall>l. ks_leases (ms_keys s) JOB_NAME = Some l \<longrightarrow> ls_owner l \<noteq> ke_uuid ke ''maintenance''"
  shows "((\<exists>l. ks_leases (ms_keys s) JOB_NAME = Some l \<and> ke_now ke < ls_until l) \<longrightarrow> r = Inr skipped_result \<and> s' = s) \<and>
    (\<forall>l. ks_leases (ms_keys s') JOB_NAME = Some l \<longrightarrow> ls_owner l \<noteq> ke_uuid ke ''maintenance'')"
proof -
  have released: "ks_leases (ms_keys (releaseLease o' x)) JOB_NAME = Some l \<Longrightarrow> ls_owner l \<noteq> o'" for o' x l
    by (auto simp: releaseLease_def release_lease_def split: option.splits if_splits)
  show ?thesis
  proof (cases "\<exists>l. ks_leases (ms_keys s) JOB_NAME = Some l \<and> ke_now ke < ls_until l")
    case True
    then have "acquireLease (ke_uuid ke ''maintenance'') (ke_now ke) (rc_maintenanceLeaseSeconds config) s = (False, s)"
      by (auto simp: acquireLease_def acquire_lease_def)
    with assms show ?thesis by (auto simp: runScheduledMaintenance_def)
  next
    case False
    then obtain s1 where "acquireLease (ke_uuid ke ''maintenance'') (ke_now ke) (rc_maintenanceLeaseSeconds config) s = (True, s1)"
      by (cases "ks_leases (ms_keys s) JOB_NAME") (auto simp: acquireLease_def acquire_lease_def not_less)
    with assms(1,2) False released show ?thesis by (auto simp: runScheduledMaintenance_def Let_def case_prod_unfold)
  qed
qed

text \<open>A run beside one that holds the lease.\<close>

theorem maintenance_exclusive_witness:
  "let s = demo_maintenance\<lparr>ms_keys := demo_ks\<lparr>ks_leases := [JOB_NAME \<mapsto> \<lparr>ls_owner = ''x'', ls_until = 900, ls_updatedAt = 0\<rparr>]\<rparr>\<rparr>
   in runScheduledMaintenance demo_ke demo_runtime 20 s = (Inr skipped_result, s)"
proof -
  let ?s = "demo_maintenance\<lparr>ms_keys := demo_ks\<lparr>ks_leases := [JOB_NAME \<mapsto> \<lparr>ls_owner = ''x'', ls_until = 900, ls_updatedAt = 0\<rparr>]\<rparr>\<rparr>"
  obtain r s' where step: "runScheduledMaintenance demo_ke demo_runtime 20 ?s = (r, s')" by fastforce
  have "\<forall>l. ks_leases (ms_keys ?s) JOB_NAME = Some l \<longrightarrow> ls_owner l \<noteq> ke_uuid demo_ke ''maintenance''"
    by (simp add: demo_ke_def)
  from maintenance_exclusive [OF demo_config step this] step show ?thesis
    by (simp add: demo_ke_def ke_now_def nowSeconds_def)
qed

end
