(* ===== verification/Passwords.thy ===== *)
theory Passwords
  imports Account_Tokens Addresses
begin

text \<open>
  The password hashes of \<open>src/security/crypto.ts\<close> and \<open>src/auth/password.ts\<close>: the storage and
  verification of passwords, their policy, the recovery that replaces them together with every
  session, and the protection of the last login method. \<open>scrypt\<close> and the Unicode normalization
  are parameters, and so is \<open>Number\<close> (\<open>Some i\<close> for a text of an integer).
\<close>

section \<open>crypto.ts: scrypt hashes\<close>

record password_lib =
  pl_scrypt :: "byte list \<Rightarrow> byte list \<Rightarrow> int \<Rightarrow> int \<Rightarrow> int \<Rightarrow> nat \<Rightarrow> byte list option"
  pl_nfkc :: "string \<Rightarrow> string"
  pl_number :: "string \<Rightarrow> int option"

definition SCRYPT_N :: int where "SCRYPT_N = 2 ^ 15"
definition SCRYPT_r :: int where "SCRYPT_r = 8"
definition SCRYPT_p :: int where "SCRYPT_p = 1"
definition SCRYPT_dkLen :: nat where "SCRYPT_dkLen = 32"

definition pw_normalize :: "password_lib \<Rightarrow> string \<Rightarrow> byte list" where
  "pw_normalize lib pwd = utf8_encode (pl_nfkc lib pwd)"

definition scrypt_failed :: failure where "scrypt_failed = OtherFailure ''scrypt''"

definition hashPassword :: "password_lib \<Rightarrow> byte list \<Rightarrow> string \<Rightarrow> (failure, string) result" where
  "hashPassword lib salt pwd =
     (case pl_scrypt lib (pw_normalize lib pwd) salt SCRYPT_N SCRYPT_r SCRYPT_p SCRYPT_dkLen of
        None \<Rightarrow> Inl scrypt_failed
      | Some derived \<Rightarrow>
          Inr (js_join ''$'' [''scrypt'', int_string SCRYPT_N, int_string SCRYPT_r, int_string SCRYPT_p,
                 base64UrlEncode salt, base64UrlEncode derived]))"

definition verifyPassword :: "password_lib \<Rightarrow> string \<Rightarrow> string \<Rightarrow> (failure, bool) result" where
  "verifyPassword lib pwd stored =
     (case js_split (CHR ''$'') stored of
        scheme # nRaw # rRaw # pRaw # saltRaw # hashRaw # _ \<Rightarrow>
          if scheme \<noteq> ''scrypt'' then Inr False
          else (case (pl_number lib nRaw, pl_number lib rRaw, pl_number lib pRaw) of
                  (Some N, Some r, Some p) \<Rightarrow>
                    (case (base64UrlDecode hashRaw, base64UrlDecode saltRaw) of
                       (Some expected, Some salt) \<Rightarrow>
                         (case pl_scrypt lib (pw_normalize lib pwd) salt N r p (length expected) of
                            None \<Rightarrow> Inl scrypt_failed
                          | Some derived \<Rightarrow> Inr (timingSafeEqual derived expected))
                     | _ \<Rightarrow> Inl (OtherFailure ''base64url''))
                | _ \<Rightarrow> Inr False)
      | _ \<Rightarrow> Inr False)"

section \<open>password.ts: policy\<close>

definition DUMMY_PASSWORD_HASH :: string where
  "DUMMY_PASSWORD_HASH = ''scrypt$32768$8$1$yVLhH6oa6f3is1oUx0mLCg$iev7MtM5HU75bcTn8fv3AVGHeTZQg4sx-AlPLAWHJMA''"

definition pp_standardMinimum :: nat where "pp_standardMinimum = 6"
definition pp_administratorMinimum :: nat where "pp_administratorMinimum = 12"
definition pp_maximum :: nat where "pp_maximum = 128"
definition pp_maximumCredentials :: nat where "pp_maximumCredentials = 5"

lemmas password_policy = pp_standardMinimum_def pp_administratorMinimum_def pp_maximum_def pp_maximumCredentials_def

definition minimumPasswordLength :: "bool \<Rightarrow> nat" where
  "minimumPasswordLength administrator = (if administrator then pp_administratorMinimum else pp_standardMinimum)"

definition passwordMeetsPolicy :: "string \<Rightarrow> bool \<Rightarrow> bool" where
  "passwordMeetsPolicy pwd administrator =
     (length pwd \<ge> minimumPasswordLength administrator \<and> length pwd \<le> pp_maximum)"

definition passwordAcceptable :: "env \<Rightarrow> string \<Rightarrow> bool \<Rightarrow> bool" where
  "passwordAcceptable env pwd administrator =
     (if isYoloEnabled env then length pwd \<le> pp_maximum else passwordMeetsPolicy pwd administrator)"

definition adminEligible :: "string \<Rightarrow> bool" where
  "adminEligible pwd = (length pwd \<ge> pp_administratorMinimum)"

text \<open>\<open>isUserAdmin\<close> of \<open>src/db/queries/users.ts\<close>.\<close>

definition isUserAdmin :: "db \<Rightarrow> string \<Rightarrow> bool" where
  "isUserAdmin db userId =
     list_ex (\<lambda>m. um_userId m = userId \<and> list_ex (\<lambda>g. gp_id g = um_groupId m \<and> gp_name g = ''admins'') (t_groups db))
       (t_user_groups db)"

section \<open>password.ts: credentials\<close>

definition passwordRows :: "account_state \<Rightarrow> string \<Rightarrow> password_row list" where
  "passwordRows a userId =
     take pp_maximumCredentials (sort_key pw_createdAt (filter (\<lambda>r. pw_userId r = userId) (aw_passwords a)))"

record PasswordCredentialSummary =
  ps_id :: string
  ps_name :: "string option"
  ps_adminEligible :: bool
  ps_createdAt :: int
  ps_updatedAt :: int
  ps_lastUsedAt :: "int option"

definition listPasswordCredentials :: "account_state \<Rightarrow> string \<Rightarrow> PasswordCredentialSummary list" where
  "listPasswordCredentials a userId =
     map (\<lambda>r. \<lparr>ps_id = pw_id r, ps_name = pw_name r, ps_adminEligible = pw_adminEligible r, ps_createdAt = pw_createdAt r,
               ps_updatedAt = pw_updatedAt r, ps_lastUsedAt = pw_lastUsedAt r\<rparr>)
       (sort_key pw_createdAt (filter (\<lambda>r. pw_userId r = userId) (aw_passwords a)))"

definition new_password_row ::
  "platform \<Rightarrow> string \<Rightarrow> string \<Rightarrow> string \<Rightarrow> string \<Rightarrow> string option \<Rightarrow> password_row" where
  "new_password_row pf i userId pwd hash name =
     \<lparr>pw_id = i, pw_userId = userId, pw_hash = hash, pw_name = name, pw_adminEligible = adminEligible pwd,
      pw_createdAt = pf_now pf, pw_updatedAt = pf_now pf, pw_lastUsedAt = None\<rparr>"

abbreviation upd_users :: "(user_row list \<Rightarrow> user_row list) \<Rightarrow> account_state \<Rightarrow> account_state" where
  "upd_users f a \<equiv> a\<lparr>aw_world := (aw_world a)\<lparr>w_db := (aw_db a)\<lparr>t_users := f (t_users (aw_db a))\<rparr>\<rparr>\<rparr>"

definition bump_version :: "int \<Rightarrow> user_row \<Rightarrow> user_row" where
  "bump_version now u = u\<lparr>ur_securityVersion := ur_securityVersion u + 1, ur_updatedAt := now\<rparr>"

definition user_present :: "account_state \<Rightarrow> (user_row \<Rightarrow> bool) \<Rightarrow> bool" where
  "user_present a P = list_ex P (t_users (aw_db a))"

definition taken_password_id :: "account_state \<Rightarrow> string \<Rightarrow> bool" where
  "taken_password_id a i = list_ex (\<lambda>r. pw_id r = i) (aw_passwords a)"

definition setUserPassword :: "platform \<Rightarrow> password_lib \<Rightarrow> string \<Rightarrow> string \<Rightarrow> string \<Rightarrow> unit aio" where
  "setUserPassword pf lib userId pwd name a =
     (if \<not> passwordAcceptable (pf_env pf) pwd (isUserAdmin (aw_db a) userId) then
        (Inl (OtherFailure ''password length out of range''), a)
      else case hashPassword lib (pf_random pf ''salt'') pwd of
        Inl e \<Rightarrow> (Inl e, a)
      | Inr hash \<Rightarrow>
          (let i = generateId pf ''pwd'' ''password'';
               a1 = a\<lparr>aw_passwords := filter (\<lambda>r. pw_userId r \<noteq> userId) (aw_passwords a)\<rparr>;
               row = new_password_row pf i userId pwd hash (Some (take 80 name))
           in if taken_password_id a1 i \<and> user_present a (\<lambda>u. u_id u = userId) then (Inl DatabaseFailure, a)
              else (Inr (), upd_users (update_where (\<lambda>u. u_id u = userId) (bump_version (pf_now pf)))
                     (if user_present a (\<lambda>u. u_id u = userId) then a1\<lparr>aw_passwords := aw_passwords a1 @ [row]\<rparr> else a1))))"

definition addUserPassword :: "platform \<Rightarrow> password_lib \<Rightarrow> string \<Rightarrow> string \<Rightarrow> string option \<Rightarrow> string option aio" where
  "addUserPassword pf lib userId pwd name a =
     (if \<not> passwordAcceptable (pf_env pf) pwd (isUserAdmin (aw_db a) userId) then (Inr None, a)
      else case hashPassword lib (pf_random pf ''salt'') pwd of
        Inl e \<Rightarrow> (Inl e, a)
      | Inr hash \<Rightarrow>
          (let i = generateId pf ''pwd'' ''password'';
               row = new_password_row pf i userId pwd hash (map_option (take 80) name);
               insert = (user_present a (\<lambda>u. u_id u = userId \<and> \<not> u_disabled u) \<and>
                         length (filter (\<lambda>r. pw_userId r = userId) (aw_passwords a)) < pp_maximumCredentials)
           in if insert \<and> taken_password_id a i then (Inl DatabaseFailure, a)
              else (let a1 = (if insert then a\<lparr>aw_passwords := aw_passwords a @ [row]\<rparr> else a);
                        bumps = (\<lambda>u. u_id u = userId \<and> list_ex (\<lambda>r. pw_id r = i \<and> pw_userId r = userId) (aw_passwords a1))
                    in (Inr (if insert \<and> changes bumps (t_users (aw_db a1)) = 1 then Some i else None),
                        upd_users (update_where bumps (bump_version (pf_now pf))) a1))))"

section \<open>password.ts: recovery\<close>

text \<open>The account a recovery may act on: enabled, and at the version the token was issued under.\<close>

definition recoverable :: "string \<Rightarrow> int \<Rightarrow> user_row \<Rightarrow> bool" where
  "recoverable userId version u = (u_id u = userId \<and> \<not> u_disabled u \<and> ur_securityVersion u = version)"

text \<open>The revocation of the sessions and refresh tokens of a user, the ids of the latter returned.\<close>

definition revoke_access :: "int \<Rightarrow> string \<Rightarrow> db \<Rightarrow> string list \<times> db" where
  "revoke_access now userId db =
     (map rt_id (filter (\<lambda>r. rt_userId r = userId \<and> rt_revokedAt r = None) (t_refresh_tokens db)),
      db\<lparr>t_sessions := update_where (\<lambda>r. sr_userId r = userId \<and> se_revokedAt r = None)
           (\<lambda>r. r\<lparr>se_revokedAt := Some now\<rparr>) (t_sessions db),
         t_refresh_tokens := update_where (\<lambda>r. rt_userId r = userId \<and> rt_revokedAt r = None)
           (\<lambda>r. r\<lparr>rt_revokedAt := Some now\<rparr>) (t_refresh_tokens db)\<rparr>)"

text \<open>
  The five statements of the batch in order; each repeats the guard of the transition. The result
  are the counts of the second and the third, and the revoked families.
\<close>

definition recovery_batch ::
  "platform \<Rightarrow> password_row \<Rightarrow> int \<Rightarrow> bool \<Rightarrow> account_state \<Rightarrow> (bool \<times> nat \<times> string list) \<times> account_state" where
  "recovery_batch pf row version verifyEmail a =
     (let userId = pw_userId row; guard = user_present a (recoverable userId version);
          a1 = (if guard then a\<lparr>aw_passwords := filter (\<lambda>r. pw_userId r \<noteq> userId) (aw_passwords a)\<rparr> else a);
          a2 = (if guard then a1\<lparr>aw_passwords := aw_passwords a1 @ [row]\<rparr> else a1);
          bumps = (\<lambda>u. recoverable userId version u \<and>
                     list_ex (\<lambda>r. pw_id r = pw_id row \<and> pw_userId r = userId) (aw_passwords a2));
          a3 = upd_users (update_where bumps
                 (\<lambda>u. (bump_version (pf_now pf) u)\<lparr>u_emailVerified := (if verifyEmail then True else u_emailVerified u)\<rparr>)) a2;
          moved = (user_present a3 (\<lambda>u. u_id u = userId \<and> ur_securityVersion u = version + 1) \<and>
                   list_ex (\<lambda>r. pw_id r = pw_id row \<and> pw_userId r = userId) (aw_passwords a3));
          (ids, db) = (if moved then revoke_access (pf_now pf) userId (aw_db a3) else ([], aw_db a3))
      in ((guard, changes bumps (t_users (aw_db a2)), ids), a3\<lparr>aw_world := (aw_world a3)\<lparr>w_db := db\<rparr>\<rparr>))"

definition setUserPasswordAtSecurityVersion ::
  "platform \<Rightarrow> password_lib \<Rightarrow> string \<Rightarrow> string \<Rightarrow> int \<Rightarrow> bool \<Rightarrow> bool aio" where
  "setUserPasswordAtSecurityVersion pf lib userId pwd expectedSecurityVersion verifyEmail a =
     (if \<not> passwordAcceptable (pf_env pf) pwd (isUserAdmin (aw_db a) userId) then (Inr False, a)
      else case hashPassword lib (pf_random pf ''salt'') pwd of
        Inl e \<Rightarrow> (Inl e, a)
      | Inr hash \<Rightarrow>
          (let row = new_password_row pf (generateId pf ''pwd'' ''password'') userId pwd hash (Some ''Password'')
           in if user_present a (recoverable userId expectedSecurityVersion) \<and>
                 list_ex (\<lambda>r. pw_id r = pw_id row \<and> pw_userId r \<noteq> userId) (aw_passwords a)
              then (Inl DatabaseFailure, a)
              else (let ((inserted, changed, ids), a1) = recovery_batch pf row expectedSecurityVersion verifyEmail a;
                        w = snd (revokeRefreshFamilyDurableObjects pf ids (aw_world a1))
                    in (Inr (inserted \<and> changed = 1), a1\<lparr>aw_world := w\<rparr>))))"

section \<open>password.ts: verification\<close>

text \<open>The loop over the candidates, which a throwing comparison ends.\<close>

fun first_match :: "password_lib \<Rightarrow> string \<Rightarrow> password_row list \<Rightarrow> (failure, password_row option) result" where
  "first_match lib pwd [] = Inr None"
| "first_match lib pwd (r # rs) =
     (case verifyPassword lib pwd (pw_hash r) of
        Inl e \<Rightarrow> Inl e
      | Inr True \<Rightarrow> Inr (Some r)
      | Inr False \<Rightarrow> first_match lib pwd rs)"

definition dummy_row :: password_row where
  "dummy_row = \<lparr>pw_id = [], pw_userId = [], pw_hash = DUMMY_PASSWORD_HASH, pw_name = None, pw_adminEligible = True,
     pw_createdAt = 0, pw_updatedAt = 0, pw_lastUsedAt = None\<rparr>"

definition bounded_password :: "string \<Rightarrow> string" where
  "bounded_password pwd = (if length pwd \<le> pp_maximum then pwd else ''test-invalid-overlong-password'')"

definition verifyRows :: "password_lib \<Rightarrow> string \<Rightarrow> password_row list \<Rightarrow> (failure, password_row option) result" where
  "verifyRows lib pwd rows =
     (case first_match lib (bounded_password pwd) (if rows = [] then [dummy_row] else rows) of
        Inl e \<Rightarrow> Inl e
      | Inr None \<Rightarrow> Inr None
      | Inr (Some r) \<Rightarrow> Inr (if length pwd \<le> pp_maximum \<and> rows \<noteq> [] then Some r else None))"

definition js_lower :: "string \<Rightarrow> string" where "js_lower = map to_lower"

definition yoloIdentifierMatchesPassword :: "string option \<Rightarrow> string \<Rightarrow> bool" where
  "yoloIdentifierMatchesPassword identifier pwd =
     (case identifier of None \<Rightarrow> False | Some i \<Rightarrow> js_lower (js_trim i) = js_lower (js_trim pwd))"

definition yoloLoginNameMatches :: "db \<Rightarrow> string \<Rightarrow> string \<Rightarrow> bool" where
  "yoloLoginNameMatches db userId pwd =
     (case getUserById db userId of
        None \<Rightarrow> False
      | Some user \<Rightarrow> yoloIdentifierMatchesPassword (Some (u_email user)) pwd \<or>
          yoloIdentifierMatchesPassword (Some (u_alias user)) pwd)"

text \<open>The credentials that count for a user: an administrator's must be long enough.\<close>

definition eligible_rows :: "account_state \<Rightarrow> string \<Rightarrow> password_row list" where
  "eligible_rows a userId =
     filter (\<lambda>r. \<not> isUserAdmin (aw_db a) userId \<or> pw_adminEligible r) (passwordRows a userId)"

definition verifyUserPassword :: "platform \<Rightarrow> password_lib \<Rightarrow> string \<Rightarrow> string \<Rightarrow> account_state \<Rightarrow> (failure, bool) result" where
  "verifyUserPassword pf lib userId pwd a =
     (if isYoloEnabled (pf_env pf) \<and> yoloLoginNameMatches (aw_db a) userId pwd then Inr True
      else map_sum id (\<lambda>r. r \<noteq> None) (verifyRows lib pwd (eligible_rows a userId)))"

definition verifyLoginPassword ::
  "platform \<Rightarrow> password_lib \<Rightarrow> string option \<Rightarrow> string \<Rightarrow> string option \<Rightarrow> bool aio" where
  "verifyLoginPassword pf lib userId pwd identifier a =
     (if isYoloEnabled (pf_env pf) \<and> userId \<noteq> None \<and> yoloIdentifierMatchesPassword identifier pwd then (Inr True, a)
      else case userId of
        None \<Rightarrow> (map_sum id (\<lambda>_. False) (verifyPassword lib (bounded_password pwd) DUMMY_PASSWORD_HASH), a)
      | Some uid \<Rightarrow>
          (case verifyRows lib pwd (eligible_rows a uid) of
             Inl e \<Rightarrow> (Inl e, a)
           | Inr None \<Rightarrow> (Inr False, a)
           | Inr (Some m) \<Rightarrow>
               (Inr True, a\<lparr>aw_passwords := update_where (\<lambda>r. pw_id r = pw_id m \<and> pw_userId r = uid)
                  (\<lambda>r. r\<lparr>pw_lastUsedAt := Some (pf_now pf)\<rparr>) (aw_passwords a)\<rparr>)))"

section \<open>password.ts: management\<close>

definition renamePasswordCredential ::
  "platform \<Rightarrow> string \<Rightarrow> string \<Rightarrow> string option \<Rightarrow> account_state \<Rightarrow> bool \<times> account_state" where
  "renamePasswordCredential pf credentialId userId name a =
     (let hit = (\<lambda>r. pw_id r = credentialId \<and> pw_userId r = userId)
      in (changes hit (aw_passwords a) = 1,
          a\<lparr>aw_passwords := update_where hit
              (\<lambda>r. r\<lparr>pw_name := map_option (take 80) name, pw_updatedAt := pf_now pf\<rparr>) (aw_passwords a)\<rparr>))"

datatype ProtectedDeleteResult = credential_deleted | credential_not_found | last_login_method

definition deletePasswordCredentialPreservingLoginMethod ::
  "string \<Rightarrow> string \<Rightarrow> account_state \<Rightarrow> ProtectedDeleteResult \<times> account_state" where
  "deletePasswordCredentialPreservingLoginMethod credentialId userId a =
     (let hit = (\<lambda>r. pw_id r = credentialId \<and> pw_userId r = userId);
          spare = (list_ex (\<lambda>r. pw_userId r = userId \<and> pw_id r \<noteq> credentialId) (aw_passwords a) \<or>
                   list_ex (\<lambda>k. pk_userId k = userId) (aw_passkeys a));
          doomed = (\<lambda>r. hit r \<and> spare);
          a1 = a\<lparr>aw_passwords := filter (\<lambda>r. \<not> doomed r) (aw_passwords a)\<rparr>
      in if changes doomed (aw_passwords a) = 1 then (credential_deleted, a1)
         else (if list_ex hit (aw_passwords a1) then last_login_method else credential_not_found, a1))"

definition userHasPassword :: "account_state \<Rightarrow> string \<Rightarrow> bool" where
  "userHasPassword a userId = list_ex (\<lambda>r. pw_userId r = userId) (aw_passwords a)"

section \<open>Hashes\<close>

lemma int_string_no_dollar: "CHR ''$'' \<notin> set (int_string i)"
  using nat_string_digits [of "nat i"] nat_string_digits [of "nat (- i)"] by (auto simp: int_string_def all_digits_def list_all_iff is_digit_def)

lemma base64Url_no_dollar: "CHR ''$'' \<notin> set (base64UrlEncode bs)"
  using base64UrlEncode_chars [of bs] by (auto simp: list_all_iff is_b64url_char_def is_alnum_def is_lower_def is_upper_def is_digit_def)

lemma split_hash:
  "js_split (CHR ''$'') (js_join ''$'' [''scrypt'', int_string N, int_string r, int_string p, base64UrlEncode salt, base64UrlEncode d]) =
     [''scrypt'', int_string N, int_string r, int_string p, base64UrlEncode salt, base64UrlEncode d]"
  by (rule js_split_join) (simp_all add: int_string_no_dollar base64Url_no_dollar)

text \<open>
  Password hashes round trip. Where \<open>Number\<close> reads back a printed integer and \<open>scrypt\<close> returns
  as many bytes as asked for, the record stored for a password is accepted for exactly the
  passwords with the same derived key under its salt, the password itself first of all; the
  parameters and the salt are recovered from the record alone.
\<close>

theorem password_hash_roundtrip:
  assumes "\<forall>i. pl_number lib (int_string i) = Some i"
    and "\<forall>bytes s N r p n d. pl_scrypt lib bytes s N r p n = Some d \<longrightarrow> length d = n"
    and "hashPassword lib salt pwd = Inr stored"
  shows "verifyPassword lib pwd stored = Inr True \<and>
    (\<forall>other. verifyPassword lib other stored =
       (case pl_scrypt lib (pw_normalize lib other) salt SCRYPT_N SCRYPT_r SCRYPT_p SCRYPT_dkLen of
          None \<Rightarrow> Inl scrypt_failed
        | Some key \<Rightarrow> Inr (Some key = pl_scrypt lib (pw_normalize lib pwd) salt SCRYPT_N SCRYPT_r SCRYPT_p SCRYPT_dkLen)))"
proof -
  obtain d where d: "pl_scrypt lib (pw_normalize lib pwd) salt SCRYPT_N SCRYPT_r SCRYPT_p SCRYPT_dkLen = Some d"
    and s: "stored = js_join ''$'' [''scrypt'', int_string SCRYPT_N, int_string SCRYPT_r, int_string SCRYPT_p,
       base64UrlEncode salt, base64UrlEncode d]"
    using assms(3) by (auto simp: hashPassword_def split: option.splits)
  have "length d = SCRYPT_dkLen" by (rule assms(2) [rule_format, OF d])
  then have "verifyPassword lib other stored =
      (case pl_scrypt lib (pw_normalize lib other) salt SCRYPT_N SCRYPT_r SCRYPT_p SCRYPT_dkLen of
         None \<Rightarrow> Inl scrypt_failed | Some key \<Rightarrow> Inr (key = d))" for other
    unfolding s verifyPassword_def split_hash by (simp add: assms(1) base64Url_decode_encode split: option.splits)
  with d show ?thesis by (auto split: option.splits)
qed

definition demo_passwords :: password_lib where
  "demo_passwords = \<lparr>pl_scrypt = \<lambda>bytes salt N r p n. Some (take n (bytes @ salt @ replicate n 0)), pl_nfkc = id,
     pl_number = \<lambda>s. if s = [] then Some 0 else if all_digits s then Some (int (digits_value s))
        else if hd s = CHR ''-'' \<and> tl s \<noteq> [] \<and> all_digits (tl s) then Some (- int (digits_value (tl s))) else None\<rparr>"

lemma demo_scrypt:
  "pl_scrypt demo_passwords bytes salt N r p n = Some (take n (bytes @ salt @ replicate n 0))"
  "pw_normalize demo_passwords s = utf8_encode s"
  by (simp_all add: demo_passwords_def pw_normalize_def)

lemma demo_number: "\<forall>i. pl_number demo_passwords (int_string i) = Some i"
proof -
  have minus: "\<not> all_digits (CHR ''-'' # t)" for t by (simp add: all_digits_def is_digit_def)
  have "nat_string n \<noteq> []" for n by (simp add: nat_string.simps [of n])
  then show ?thesis
    using nat_string_digits by (auto simp: demo_passwords_def int_string_def minus)
qed

text \<open>A salted password with a stand-in for the key derivation.\<close>

theorem password_hash_roundtrip_witness:
  "\<exists>stored. hashPassword demo_passwords [1, 2] ''secret'' = Inr stored \<and> verifyPassword demo_passwords ''secret'' stored = Inr True \<and>
     verifyPassword demo_passwords ''Secret'' stored = Inr False"
proof -
  have len: "\<forall>bytes s N r p n d. pl_scrypt demo_passwords bytes s N r p n = Some d \<longrightarrow> length d = n"
    by (auto simp: demo_passwords_def)
  obtain stored where st: "hashPassword demo_passwords [1, 2] ''secret'' = Inr stored"
    by (simp add: hashPassword_def demo_passwords_def)
  note rt = password_hash_roundtrip [OF demo_number len st]
  have "verifyPassword demo_passwords ''Secret'' stored = Inr False"
    using conjunct2 [OF rt, THEN spec, of "''Secret''"]
    by (simp add: demo_scrypt utf8_encode_def utf8_char_def SCRYPT_dkLen_def)
  with st rt show ?thesis by blast
qed

section \<open>Recovery\<close>

lemma upd_users_frame [simp]:
  "aw_passwords (upd_users f a) = aw_passwords a" "aw_db (upd_users f a) = (aw_db a)\<lparr>t_users := f (t_users (aw_db a))\<rparr>"
  by simp_all

lemma changes_unique:
  "distinct (map key t) \<Longrightarrow> (\<And>u. P u \<Longrightarrow> key u = i) \<Longrightarrow> changes P t = (if list_ex P t then 1 else 0)"
proof (induction t)
  case (Cons u t)
  then have "P u \<Longrightarrow> \<not> list_ex P t" by (force simp: list_ex_iff)
  with Cons show ?case by (auto simp: changes_def)
qed (simp add: changes_def)

text \<open>Without the guard no statement of the batch has an effect, once the new id is unused.\<close>

lemma recovery_batch_refused:
  assumes "\<not> user_present a (recoverable (pw_userId row) v)" "\<not> taken_password_id a (pw_id row)"
  shows "recovery_batch pf row v e a = ((False, 0, []), a)"
proof -
  have "\<not> list_ex (\<lambda>r. pw_id r = pw_id row \<and> pw_userId r = pw_userId row) (aw_passwords a)"
    using assms(2) by (auto simp: taken_password_id_def list_ex_iff)
  with assms(1) show ?thesis
    by (simp add: recovery_batch_def Let_def changes_def update_where_def)
qed

text \<open>With the guard the batch moves the account to the next version and revokes every access.\<close>

definition recovered_user :: "int \<Rightarrow> string \<Rightarrow> int \<Rightarrow> bool \<Rightarrow> user_row \<Rightarrow> user_row" where
  "recovered_user now userId v e u =
     (if recoverable userId v u
      then (bump_version now u)\<lparr>u_emailVerified := (e \<or> u_emailVerified u)\<rparr> else u)"

definition recovered_db :: "platform \<Rightarrow> string \<Rightarrow> int \<Rightarrow> bool \<Rightarrow> db \<Rightarrow> db" where
  "recovered_db pf userId v e db =
     snd (revoke_access (pf_now pf) userId (db\<lparr>t_users := map (recovered_user (pf_now pf) userId v e) (t_users db)\<rparr>))"

definition recovered_passwords :: "password_row \<Rightarrow> account_state \<Rightarrow> password_row list" where
  "recovered_passwords row a = filter (\<lambda>r. pw_userId r \<noteq> pw_userId row) (aw_passwords a) @ [row]"

lemma recovered_moves:
  "list_ex (recoverable i v) t \<Longrightarrow> list_ex (\<lambda>u. u_id u = i \<and> ur_securityVersion u = v + 1) (map (recovered_user now i v e) t)"
  by (induction t) (auto simp: recovered_user_def bump_version_def recoverable_def)

lemma recovery_batch_done:
  assumes "user_present a (recoverable (pw_userId row) v)" "distinct (map u_id (t_users (aw_db a)))"
  shows "recovery_batch pf row v e a =
    ((True, 1, map rt_id (filter (\<lambda>r. rt_userId r = pw_userId row \<and> rt_revokedAt r = None) (t_refresh_tokens (aw_db a)))),
     a\<lparr>aw_passwords := recovered_passwords row a,
       aw_world := (aw_world a)\<lparr>w_db := recovered_db pf (pw_userId row) v e (aw_db a)\<rparr>\<rparr>)"
proof -
  have upd: "update_where (recoverable (pw_userId row) v)
      (\<lambda>u. (bump_version (pf_now pf) u)\<lparr>u_emailVerified := (if e then True else u_emailVerified u)\<rparr>) t =
      map (recovered_user (pf_now pf) (pw_userId row) v e) t" for t
    by (simp add: update_where_def recovered_user_def)
  have "changes (recoverable (pw_userId row) v) (t_users (aw_db a)) = 1"
    using changes_unique [OF assms(2), of "recoverable (pw_userId row) v"] assms(1)
    by (auto simp: user_present_def recoverable_def)
  with assms(1) recovered_moves [OF assms(1) [unfolded user_present_def], of "pf_now pf" e] show ?thesis
    by (simp add: recovery_batch_def Let_def user_present_def upd revoke_access_def recovered_db_def recovered_passwords_def)
qed

lemma update_where_all:
  "(\<And>r. P r \<Longrightarrow> Q (f r)) \<Longrightarrow> (\<And>r. \<not> P r \<Longrightarrow> Q r) \<Longrightarrow> \<forall>r\<in>set (update_where P f t). Q r"
  by (induction t) auto

lemma recovered_effect:
  fixes pf :: platform and e :: bool
  assumes "user_present a (recoverable i v)" "distinct (map u_id (t_users (aw_db a)))"
  defines "db \<equiv> recovered_db pf i v e (aw_db a)"
  shows "getUserSecurityVersion db i = Some (v + 1) \<and>
    filter (\<lambda>u. u_id u \<noteq> i) (t_users db) = filter (\<lambda>u. u_id u \<noteq> i) (t_users (aw_db a)) \<and>
    (\<forall>s\<in>set (t_sessions db). sr_userId s = i \<longrightarrow> se_revokedAt s \<noteq> None) \<and>
    (\<forall>r\<in>set (t_refresh_tokens db). rt_userId r = i \<longrightarrow> rt_revokedAt r \<noteq> None) \<and>
    filter (\<lambda>s. sr_userId s \<noteq> i) (t_sessions db) = filter (\<lambda>s. sr_userId s \<noteq> i) (t_sessions (aw_db a))"
proof -
  have users: "t_users db = map (recovered_user (pf_now pf) i v e) (t_users (aw_db a))"
    by (simp add: db_def recovered_db_def revoke_access_def)
  have "distinct (map u_id t) \<Longrightarrow> list_ex (recoverable i v) t \<Longrightarrow>
      find (\<lambda>u. u_id u = i) (map (recovered_user (pf_now pf) i v e) t) = map_option (recovered_user (pf_now pf) i v e) (find (recoverable i v) t) \<and>
      find (recoverable i v) t \<noteq> None" for t
    by (induction t) (auto simp: recovered_user_def recoverable_def bump_version_def list_ex_iff)
  moreover have "recoverable i v u \<Longrightarrow> ur_securityVersion (recovered_user (pf_now pf) i v e u) = v + 1" for u
    by (simp add: recovered_user_def bump_version_def recoverable_def)
  ultimately have "getUserSecurityVersion db i = Some (v + 1)"
    using assms(1,2) by (fastforce simp: getUserSecurityVersion_def users user_present_def dest: find_Some_mem)
  moreover have "filter (\<lambda>u. u_id u \<noteq> i) (map (recovered_user (pf_now pf) i v e) t) = filter (\<lambda>u. u_id u \<noteq> i) t" for t
    by (induction t) (auto simp: recovered_user_def recoverable_def bump_version_def)
  then have "filter (\<lambda>u. u_id u \<noteq> i) (t_users db) = filter (\<lambda>u. u_id u \<noteq> i) (t_users (aw_db a))" unfolding users .
  moreover have "filter (\<lambda>s. sr_userId s \<noteq> i) (t_sessions db) = filter (\<lambda>s. sr_userId s \<noteq> i) (t_sessions (aw_db a))"
    unfolding db_def recovered_db_def revoke_access_def by (simp, rule filter_update_untouched) simp
  moreover have "\<forall>s\<in>set (t_sessions db). sr_userId s = i \<longrightarrow> se_revokedAt s \<noteq> None"
    unfolding db_def recovered_db_def revoke_access_def by (simp, rule update_where_all) simp_all
  moreover have "\<forall>r\<in>set (t_refresh_tokens db). rt_userId r = i \<longrightarrow> rt_revokedAt r \<noteq> None"
    unfolding db_def recovered_db_def revoke_access_def by (simp, rule update_where_all) simp_all
  ultimately show ?thesis by blast
qed

text \<open>
  C29. A recovery takes effect as a whole or not at all. Where the generated id is unused and the
  account exists once, setting a password at a security version succeeds exactly when the
  password is acceptable and the account is enabled and still at that version. Then the new
  password is the only one of the user and carries the new hash, the version has moved on (so that
  a second recovery under the old one fails), no session and no refresh token of the user is
  live, and the rows of every other user are as before. Otherwise nothing has changed.
\<close>

theorem password_recovery_exact:
  assumes "distinct (map u_id (t_users (aw_db a)))"
    and "\<not> taken_password_id a (generateId pf ''pwd'' ''password'')"
    and "setUserPasswordAtSecurityVersion pf lib userId pwd v e a = (Inr ok, a')"
  shows "(ok \<longleftrightarrow> passwordAcceptable (pf_env pf) pwd (isUserAdmin (aw_db a) userId) \<and> user_present a (recoverable userId v)) \<and>
    (if ok then (\<exists>r. filter (\<lambda>r. pw_userId r = userId) (aw_passwords a') = [r] \<and>
           hashPassword lib (pf_random pf ''salt'') pwd = Inr (pw_hash r)) \<and>
         filter (\<lambda>r. pw_userId r \<noteq> userId) (aw_passwords a') = filter (\<lambda>r. pw_userId r \<noteq> userId) (aw_passwords a) \<and>
         getUserSecurityVersion (aw_db a') userId = Some (v + 1) \<and>
         filter (\<lambda>u. u_id u \<noteq> userId) (t_users (aw_db a')) = filter (\<lambda>u. u_id u \<noteq> userId) (t_users (aw_db a)) \<and>
         (\<forall>s\<in>set (t_sessions (aw_db a')). sr_userId s = userId \<longrightarrow> se_revokedAt s \<noteq> None) \<and>
         (\<forall>r\<in>set (t_refresh_tokens (aw_db a')). rt_userId r = userId \<longrightarrow> rt_revokedAt r \<noteq> None) \<and>
         filter (\<lambda>s. sr_userId s \<noteq> userId) (t_sessions (aw_db a')) = filter (\<lambda>s. sr_userId s \<noteq> userId) (t_sessions (aw_db a))
     else a' = a)"
proof (cases "passwordAcceptable (pf_env pf) pwd (isUserAdmin (aw_db a) userId)")
  case False
  then show ?thesis using assms(3) by (simp add: setUserPasswordAtSecurityVersion_def)
next
  case True
  then obtain h where h: "hashPassword lib (pf_random pf ''salt'') pwd = Inr h"
    using assms(3) by (auto simp: setUserPasswordAtSecurityVersion_def split: sum.splits)
  define row where "row = new_password_row pf (generateId pf ''pwd'' ''password'') userId pwd h (Some ''Password'')"
  have row: "pw_id row = generateId pf ''pwd'' ''password''" "pw_userId row = userId" "pw_hash row = h"
    by (simp_all add: row_def new_password_row_def)
  have fresh: "\<not> taken_password_id a (pw_id row)" using assms(2) row by simp
  show ?thesis
  proof (cases "user_present a (recoverable userId v)")
    case False
    with recovery_batch_refused [of a row v pf e] fresh row have "recovery_batch pf row v e a = ((False, 0, []), a)" by simp
    with True False h assms(3) show ?thesis
      by (simp add: setUserPasswordAtSecurityVersion_def row_def [symmetric] revokeRefreshFamilyDurableObjects_def numeral_2_eq_2)
  next
    case present: True
    let ?ids = "map rt_id (filter (\<lambda>r. rt_userId r = userId \<and> rt_revokedAt r = None) (t_refresh_tokens (aw_db a)))"
    let ?w = "(aw_world a)\<lparr>w_db := recovered_db pf userId v e (aw_db a)\<rparr>"
    have "\<not> list_ex (\<lambda>r. pw_id r = pw_id row \<and> pw_userId r \<noteq> userId) (aw_passwords a)"
      using fresh by (auto simp: taken_password_id_def list_ex_iff)
    with True present h assms(3) recovery_batch_done [of a row v pf e] assms(1) row
    have ok: "ok" and a': "a' = a\<lparr>aw_passwords := recovered_passwords row a,
        aw_world := snd (revokeRefreshFamilyDurableObjects pf ?ids ?w)\<rparr>"
      by (simp_all add: setUserPasswordAtSecurityVersion_def row_def [symmetric] case_prod_unfold)
    have db: "aw_db a' = recovered_db pf userId v e (aw_db a)"
      unfolding a' by (simp add: revokeRefreshFamilyDurableObjects_def)
    show ?thesis
      using True present ok h row recovered_effect [OF present assms(1), of pf e]
      by (simp add: db) (simp add: a' recovered_passwords_def)
  qed
qed

definition demo_recovery :: account_state where
  "demo_recovery = demo_accounts\<lparr>aw_passwords := [\<lparr>pw_id = ''old'', pw_userId = ''u'', pw_hash = ''h'', pw_name = None,
     pw_adminEligible = True, pw_createdAt = 1, pw_updatedAt = 1, pw_lastUsedAt = None\<rparr>]\<rparr>"

text \<open>A reset of the only user, at the current version 0.\<close>

theorem password_recovery_exact_witness:
  "\<exists>a'. setUserPasswordAtSecurityVersion demo_pf demo_passwords ''u'' ''new secret'' 0 False demo_recovery = (Inr True, a') \<and>
     getUserSecurityVersion (aw_db a') ''u'' = Some 1 \<and> (\<exists>r. filter (\<lambda>r. pw_userId r = ''u'') (aw_passwords a') = [r])"
proof -
  have users: "t_users (aw_db demo_recovery) = [demo_user]" by (simp add: demo_recovery_def demo_accounts_def demo_world_def)
  have id: "generateId demo_pf ''pwd'' ''password'' \<noteq> ''old''" by (simp add: generateId_def)
  then have fresh: "\<not> taken_password_id demo_recovery (generateId demo_pf ''pwd'' ''password'')"
    by (simp add: taken_password_id_def demo_recovery_def)
  have ok: "passwordAcceptable (pf_env demo_pf) ''new secret'' (isUserAdmin (aw_db demo_recovery) ''u'')"
    by (simp add: passwordAcceptable_def passwordMeetsPolicy_def minimumPasswordLength_def password_policy isUserAdmin_def
        demo_recovery_def demo_accounts_def demo_world_def empty_db_def)
  obtain h where h: "hashPassword demo_passwords (pf_random demo_pf ''salt'') ''new secret'' = Inr h"
    by (simp add: hashPassword_def demo_scrypt)
  have present: "user_present demo_recovery (recoverable ''u'' 0)"
    by (simp add: user_present_def users recoverable_def demo_user_def)
  obtain b a' where step: "setUserPasswordAtSecurityVersion demo_pf demo_passwords ''u'' ''new secret'' 0 False demo_recovery = (Inr b, a')"
    using ok h by (auto simp: setUserPasswordAtSecurityVersion_def Let_def case_prod_unfold demo_recovery_def)
  have "distinct (map u_id (t_users (aw_db demo_recovery)))" by (simp add: users)
  from password_recovery_exact [OF this fresh step] ok present step show ?thesis by auto
qed

section \<open>Sign-in with a password\<close>

lemma first_match_Some:
  "first_match lib pwd rs = Inr (Some r) \<Longrightarrow> r \<in> set rs \<and> verifyPassword lib pwd (pw_hash r) = Inr True"
  by (induction rs) (auto split: sum.splits bool.splits)

lemma first_match_None:
  "first_match lib pwd rs = Inr None \<Longrightarrow> r \<in> set rs \<Longrightarrow> verifyPassword lib pwd (pw_hash r) = Inr False"
  by (induction rs) (auto split: sum.splits bool.splits)

lemma verifyRows_exact:
  assumes "verifyRows lib pwd rows = Inr m"
  shows "(m \<noteq> None \<longleftrightarrow> length pwd \<le> pp_maximum \<and> (\<exists>r\<in>set rows. verifyPassword lib pwd (pw_hash r) = Inr True)) \<and>
    (\<forall>r. m = Some r \<longrightarrow> r \<in> set rows)"
  using assms first_match_Some [of lib pwd rows] first_match_None [of lib pwd rows]
  by (cases "rows = []") (auto simp: verifyRows_def bounded_password_def split: sum.splits option.splits if_splits)

text \<open>
  Signing in with a password. Outside the development bypass a sign-in that is decided accepts
  exactly a password of at most 128 characters that verifies against one of the (at most five
  oldest) credentials of a known user, of an administrator only against one that was long enough
  when it was set. A refusal changes nothing; an acceptance changes no more than the time of last
  use of credentials of that user.
\<close>

theorem login_password_exact:
  assumes "\<not> isYoloEnabled (pf_env pf)"
    and "verifyLoginPassword pf lib userId pwd identifier a = (Inr ok, a')"
  shows "(ok \<longleftrightarrow> (\<exists>uid. userId = Some uid \<and> length pwd \<le> 128 \<and>
      (\<exists>r\<in>set (passwordRows a uid). (isUserAdmin (aw_db a) uid \<longrightarrow> pw_adminEligible r) \<and>
         verifyPassword lib pwd (pw_hash r) = Inr True))) \<and>
    (\<not> ok \<longrightarrow> a' = a) \<and>
    a'\<lparr>aw_passwords := []\<rparr> = a\<lparr>aw_passwords := []\<rparr> \<and>
    map (\<lambda>r. r\<lparr>pw_lastUsedAt := None\<rparr>) (aw_passwords a') = map (\<lambda>r. r\<lparr>pw_lastUsedAt := None\<rparr>) (aw_passwords a)"
proof (cases userId)
  case None
  then show ?thesis using assms by (auto simp: verifyLoginPassword_def map_sum_def split: sum.splits)
next
  case (Some uid)
  then obtain m where m: "verifyRows lib pwd (eligible_rows a uid) = Inr m"
    using assms by (auto simp: verifyLoginPassword_def split: sum.splits)
  have el: "set (eligible_rows a uid) = {r \<in> set (passwordRows a uid). isUserAdmin (aw_db a) uid \<longrightarrow> pw_adminEligible r}"
    by (auto simp: eligible_rows_def)
  show ?thesis
    using assms Some m verifyRows_exact [OF m] unfolding el
    by (cases m) (auto simp: verifyLoginPassword_def pp_maximum_def update_where_def)
qed

text \<open>An overlong password is refused and changes nothing.\<close>

theorem login_password_exact_witness:
  "\<exists>a' ok. verifyLoginPassword demo_pf demo_passwords (Some ''u'') (replicate 200 (CHR ''x'')) None demo_recovery = (Inr ok, a') \<and>
     \<not> ok \<and> a' = demo_recovery"
proof -
  have yolo: "\<not> isYoloEnabled (pf_env demo_pf)"
    by (simp add: isYoloEnabled_def YOLO_ENVIRONMENT_def demo_pf_def demo_env_def)
  have "verifyPassword demo_passwords (bounded_password pwd) ''h'' = Inr False" for pwd
    by (simp add: verifyPassword_def)
  then obtain ok a' where step: "verifyLoginPassword demo_pf demo_passwords (Some ''u'') (replicate 200 (CHR ''x'')) None demo_recovery = (Inr ok, a')"
    using yolo by (auto simp: verifyLoginPassword_def verifyRows_def eligible_rows_def passwordRows_def demo_recovery_def
        isUserAdmin_def demo_accounts_def password_policy)
  from login_password_exact [OF yolo step] step show ?thesis by auto
qed

end
