(* ===== verification/Passkeys.thy ===== *)
theory Passkeys
  imports Passwords
begin

text \<open>
  \<open>src/db/queries/webauthn.ts\<close> and \<open>src/auth/passkey.ts\<close>: the passkeys of the users. The WebAuthn
  library (\<open>@simplewebauthn/server\<close>) is a parameter that checks a response against the options it
  is called with; the challenge, the relying party and the stored credential are what the code
  passes. A JSON column is held as the value of its text. Together with the passwords the passkeys
  are the login methods of a user, the last of which the account pages do not remove.
\<close>

section \<open>webauthn.ts\<close>

record StoredCredential =
  sc_id :: string
  sc_userId :: string
  sc_credentialId :: string
  sc_publicKey :: string
  sc_counter :: int
  sc_transports :: "string list"

text \<open>\<open>z.array(z.string()).safeParse\<close>, with \<open>[]\<close> for a value that is no list of strings.\<close>

fun json_string :: "json \<Rightarrow> string option" where
  "json_string (JStr s) = Some s"
| "json_string _ = None"

definition transports_of :: "json option \<Rightarrow> string list" where
  "transports_of column =
     (case column of
        Some (JArr js) \<Rightarrow> if list_all (\<lambda>j. json_string j \<noteq> None) js then List.map_filter json_string js else []
      | _ \<Rightarrow> [])"

definition mapRow :: "passkey_row \<Rightarrow> StoredCredential" where
  "mapRow row = \<lparr>sc_id = pk_id row, sc_userId = pk_userId row, sc_credentialId = pk_credentialId row,
     sc_publicKey = pk_publicKey row, sc_counter = pk_counter row, sc_transports = transports_of (pk_transports row)\<rparr>"

definition getCredentialsByUser :: "account_state \<Rightarrow> string \<Rightarrow> StoredCredential list" where
  "getCredentialsByUser a userId = map mapRow (filter (\<lambda>k. pk_userId k = userId) (aw_passkeys a))"

definition getCredentialByCredentialId :: "account_state \<Rightarrow> string \<Rightarrow> StoredCredential option" where
  "getCredentialByCredentialId a credentialId =
     map_option mapRow (find (\<lambda>k. pk_credentialId k = credentialId) (aw_passkeys a))"

record InsertCredentialInput =
  ic_userId :: string
  ic_credentialId :: string
  ic_publicKey :: string
  ic_counter :: int
  ic_transports :: "string list"
  ic_name :: "string option"

definition insertCredential :: "platform \<Rightarrow> InsertCredentialInput \<Rightarrow> unit aio" where
  "insertCredential pf input a =
     (let row = \<lparr>pk_id = generateId pf ''wac'' ''passkey'', pk_userId = ic_userId input,
            pk_credentialId = ic_credentialId input, pk_publicKey = ic_publicKey input, pk_counter = ic_counter input,
            pk_transports = Some (JArr (map JStr (ic_transports input))), pk_name = ic_name input,
            pk_createdAt = pf_now pf, pk_lastUsedAt = None\<rparr>
      in if list_ex (\<lambda>k. pk_id k = pk_id row \<or> pk_credentialId k = pk_credentialId row) (aw_passkeys a) \<or>
            getUserById (aw_db a) (pk_userId row) = None
         then (Inl DatabaseFailure, a)
         else (Inr (), a\<lparr>aw_passkeys := aw_passkeys a @ [row]\<rparr>))"

definition updateCredentialCounter :: "platform \<Rightarrow> string \<Rightarrow> int \<Rightarrow> int \<Rightarrow> account_state \<Rightarrow> bool \<times> account_state" where
  "updateCredentialCounter pf credentialId expectedCounter nextCounter a =
     (let hit = (\<lambda>k. pk_credentialId k = credentialId \<and> pk_counter k = expectedCounter)
      in (changes hit (aw_passkeys a) = 1,
          a\<lparr>aw_passkeys := update_where hit (\<lambda>k. k\<lparr>pk_counter := nextCounter, pk_lastUsedAt := Some (pf_now pf)\<rparr>)
              (aw_passkeys a)\<rparr>))"

record CredentialSummary =
  cu_id :: string
  cu_name :: "string option"
  cu_createdAt :: int
  cu_lastUsedAt :: "int option"
  cu_transports :: "string list"

definition listCredentialSummaries :: "account_state \<Rightarrow> string \<Rightarrow> CredentialSummary list" where
  "listCredentialSummaries a userId =
     map (\<lambda>k. \<lparr>cu_id = pk_id k, cu_name = pk_name k, cu_createdAt = pk_createdAt k, cu_lastUsedAt = pk_lastUsedAt k,
               cu_transports = transports_of (pk_transports k)\<rparr>)
       (sort_key pk_createdAt (filter (\<lambda>k. pk_userId k = userId) (aw_passkeys a)))"

definition renameCredential :: "string \<Rightarrow> string \<Rightarrow> string option \<Rightarrow> account_state \<Rightarrow> bool \<times> account_state" where
  "renameCredential credentialId userId name a =
     (let hit = (\<lambda>k. pk_id k = credentialId \<and> pk_userId k = userId)
      in (changes hit (aw_passkeys a) = 1,
          a\<lparr>aw_passkeys := update_where hit (\<lambda>k. k\<lparr>pk_name := name\<rparr>) (aw_passkeys a)\<rparr>))"

definition deleteCredential :: "string \<Rightarrow> string \<Rightarrow> account_state \<Rightarrow> bool \<times> account_state" where
  "deleteCredential credentialId userId a =
     (let hit = (\<lambda>k. pk_id k = credentialId \<and> pk_userId k = userId)
      in (changes hit (aw_passkeys a) = 1, a\<lparr>aw_passkeys := filter (\<lambda>k. \<not> hit k) (aw_passkeys a)\<rparr>))"

definition deleteCredentialPreservingLoginMethod ::
  "string \<Rightarrow> string \<Rightarrow> account_state \<Rightarrow> ProtectedDeleteResult \<times> account_state" where
  "deleteCredentialPreservingLoginMethod credentialId userId a =
     (let hit = (\<lambda>k. pk_id k = credentialId \<and> pk_userId k = userId);
          spare = (list_ex (\<lambda>r. pw_userId r = userId) (aw_passwords a) \<or>
                   list_ex (\<lambda>k. pk_userId k = userId \<and> pk_id k \<noteq> credentialId) (aw_passkeys a));
          doomed = (\<lambda>k. hit k \<and> spare);
          a1 = a\<lparr>aw_passkeys := filter (\<lambda>k. \<not> doomed k) (aw_passkeys a)\<rparr>
      in if changes doomed (aw_passkeys a) = 1 then (credential_deleted, a1)
         else (if list_ex hit (aw_passkeys a1) then last_login_method else credential_not_found, a1))"

definition countCredentialsByUser :: "account_state \<Rightarrow> string \<Rightarrow> nat" where
  "countCredentialsByUser a userId = changes (\<lambda>k. pk_userId k = userId) (aw_passkeys a)"

section \<open>passkey.ts\<close>

definition VALID_TRANSPORTS :: "string list" where
  "VALID_TRANSPORTS = [''ble'', ''cable'', ''hybrid'', ''internal'', ''nfc'', ''smart-card'', ''usb'']"

definition toTransports :: "string list \<Rightarrow> string list" where
  "toTransports values = filter (\<lambda>v. v \<in> set VALID_TRANSPORTS) values"

record rp_config =
  rp_ID :: string
  rp_Name :: string
  rp_origin :: string

definition rpConfig :: "platform \<Rightarrow> (failure, rp_config) result" where
  "rpConfig pf =
     (case pf_url pf (ISSUER (pf_env pf)) of
        None \<Rightarrow> Inl (OtherFailure ''invalid url'')
      | Some url \<Rightarrow> Inr \<lparr>rp_ID = url_hostname url, rp_Name = ''KeyForge'', rp_origin = ISSUER (pf_env pf)\<rparr>)"

record registration_options =
  ro_rpName :: string
  ro_rpID :: string
  ro_userName :: string
  ro_userID :: "byte list"
  ro_userDisplayName :: string
  ro_attestationType :: string
  ro_excludeCredentials :: "(string \<times> string list) list"
  ro_residentKey :: string
  ro_userVerification :: string

text \<open>The arguments of \<open>generateRegistrationOptions\<close>.\<close>

definition buildRegistrationOptions :: "platform \<Rightarrow> User \<Rightarrow> account_state \<Rightarrow> (failure, registration_options) result" where
  "buildRegistrationOptions pf user a =
     map_sum id (\<lambda>rp.
       \<lparr>ro_rpName = rp_Name rp, ro_rpID = rp_ID rp, ro_userName = u_alias user, ro_userID = utf8_encode (u_id user),
        ro_userDisplayName = (case u_name user of None \<Rightarrow> u_email user | Some n \<Rightarrow> n), ro_attestationType = ''none'',
        ro_excludeCredentials = map (\<lambda>c. (sc_credentialId c, toTransports (sc_transports c))) (getCredentialsByUser a (u_id user)),
        ro_residentKey = ''required'', ro_userVerification = ''required''\<rparr>) (rpConfig pf)"

text \<open>
  What the library is called with, and what it answers: \<open>None\<close> when it throws, \<open>Some None\<close> when the
  response does not verify. An assertion is checked against the stored credential.
\<close>

record verify_options =
  vo_expectedChallenge :: string
  vo_expectedOrigin :: string
  vo_expectedRPID :: string
  vo_requireUserVerification :: bool

record library_credential =
  lc_id :: string
  lc_publicKey :: "byte list"
  lc_counter :: int
  lc_transports :: "string list option"

record webauthn =
  wa_verifyRegistration :: "json \<Rightarrow> verify_options \<Rightarrow> library_credential option option"
  wa_verifyAuthentication :: "json \<Rightarrow> verify_options \<Rightarrow> library_credential \<Rightarrow> int option option"

definition verify_options_for :: "rp_config \<Rightarrow> string \<Rightarrow> verify_options" where
  "verify_options_for rp challenge = \<lparr>vo_expectedChallenge = challenge, vo_expectedOrigin = rp_origin rp,
     vo_expectedRPID = rp_ID rp, vo_requireUserVerification = True\<rparr>"

definition verifyAndStoreRegistration :: "platform \<Rightarrow> webauthn \<Rightarrow> User \<Rightarrow> json \<Rightarrow> string \<Rightarrow> bool aio" where
  "verifyAndStoreRegistration pf wa user response expectedChallenge a =
     (case rpConfig pf of
        Inl e \<Rightarrow> (Inl e, a)
      | Inr rp \<Rightarrow>
          (case wa_verifyRegistration wa response (verify_options_for rp expectedChallenge) of
             Some (Some credential) \<Rightarrow>
               (case insertCredential pf \<lparr>ic_userId = u_id user, ic_credentialId = lc_id credential,
                       ic_publicKey = base64UrlEncode (lc_publicKey credential), ic_counter = lc_counter credential,
                       ic_transports = (case lc_transports credential of None \<Rightarrow> [] | Some ts \<Rightarrow> ts), ic_name = None\<rparr> a of
                  (Inl e, a1) \<Rightarrow> (Inl e, a1)
                | (Inr _, a1) \<Rightarrow> (Inr True, a1))
           | _ \<Rightarrow> (Inr False, a)))"

fun extractCredentialId :: "json \<Rightarrow> string option" where
  "extractCredentialId (JObj ps) = (case jget ps ''id'' of Some (JStr s) \<Rightarrow> Some s | _ \<Rightarrow> None)"
| "extractCredentialId _ = None"

text \<open>
  The library's answer for a stored credential: the key is decoded inside the \<open>try\<close>, so that a
  malformed one reads like a response that does not verify.
\<close>

definition check_assertion :: "webauthn \<Rightarrow> rp_config \<Rightarrow> json \<Rightarrow> string \<Rightarrow> StoredCredential \<Rightarrow> int option" where
  "check_assertion wa rp response challenge stored =
     (case base64UrlDecode (sc_publicKey stored) of
        None \<Rightarrow> None
      | Some key \<Rightarrow>
          (case wa_verifyAuthentication wa response (verify_options_for rp challenge)
                  \<lparr>lc_id = sc_credentialId stored, lc_publicKey = key, lc_counter = sc_counter stored,
                   lc_transports = Some (toTransports (sc_transports stored))\<rparr> of
             None \<Rightarrow> None
           | Some answer \<Rightarrow> answer))"

text \<open>\<open>others\<close> are the requests that run between the verification and the update of the counter.\<close>

definition verifyAuthentication ::
  "platform \<Rightarrow> webauthn \<Rightarrow> (account_state \<Rightarrow> account_state) \<Rightarrow> json \<Rightarrow> string \<Rightarrow> string option aio" where
  "verifyAuthentication pf wa others response expectedChallenge a =
     (case extractCredentialId response of
        None \<Rightarrow> (Inr None, a)
      | Some credentialId \<Rightarrow>
          (case getCredentialByCredentialId a credentialId of
             None \<Rightarrow> (Inr None, a)
           | Some stored \<Rightarrow>
               (case rpConfig pf of
                  Inl e \<Rightarrow> (Inl e, a)
                | Inr rp \<Rightarrow>
                    (case check_assertion wa rp response expectedChallenge stored of
                       None \<Rightarrow> (Inr None, a)
                     | Some newCounter \<Rightarrow>
                         (let (advanced, a1) = updateCredentialCounter pf (sc_credentialId stored) (sc_counter stored)
                                newCounter (others a)
                          in (Inr (if advanced then Some (sc_userId stored) else None), a1))))))"

section \<open>Assertions\<close>

lemma changes_by_credential:
  "distinct (map pk_credentialId t) \<Longrightarrow>
     changes (\<lambda>k. pk_credentialId k = c \<and> pk_counter k = n) t = 1 \<longleftrightarrow>
       (\<exists>k\<in>set t. pk_credentialId k = c \<and> pk_counter k = n)"
  using changes_unique [of pk_credentialId t "\<lambda>k. pk_credentialId k = c \<and> pk_counter k = n" c] by (simp add: list_ex_iff)

text \<open>
  A passkey signs in whom it belongs to, and not against a stale counter. Where credential ids
  are unique, a user is returned exactly when the response names a stored credential of that user
  that the library accepts for the expected challenge, the issuer's origin and host and the stored
  key and counter, and when no request that ran in between moved the counter. The row then carries
  the counter of the assertion, so that the next one is checked against it.
\<close>

theorem passkey_assertion_exact:
  assumes "distinct (map pk_credentialId (aw_passkeys (others a)))"
    and "verifyAuthentication pf wa others response challenge a = (Inr res, a')"
  shows "(res = Some u \<longleftrightarrow> (\<exists>c k rp n. extractCredentialId response = Some c \<and> find (\<lambda>k. pk_credentialId k = c) (aw_passkeys a) = Some k \<and>
      rpConfig pf = Inr rp \<and> check_assertion wa rp response challenge (mapRow k) = Some n \<and> pk_userId k = u \<and>
      (\<exists>k'\<in>set (aw_passkeys (others a)). pk_credentialId k' = c \<and> pk_counter k' = pk_counter k))) \<and>
    (res \<noteq> None \<longrightarrow> (\<exists>c k rp n. extractCredentialId response = Some c \<and> find (\<lambda>k. pk_credentialId k = c) (aw_passkeys a) = Some k \<and>
      rpConfig pf = Inr rp \<and> check_assertion wa rp response challenge (mapRow k) = Some n \<and>
      (\<exists>k'\<in>set (aw_passkeys a'). pk_credentialId k' = c \<and> pk_counter k' = n)))"
proof (cases "\<exists>c k rp n. extractCredentialId response = Some c \<and> find (\<lambda>k. pk_credentialId k = c) (aw_passkeys a) = Some k \<and>
      rpConfig pf = Inr rp \<and> check_assertion wa rp response challenge (mapRow k) = Some n")
  case False
  then have "res = None"
    using assms(2) by (auto simp: verifyAuthentication_def getCredentialByCredentialId_def split: option.splits sum.splits)
  with False show ?thesis by blast
next
  case True
  then obtain c k rp n where checked: "extractCredentialId response = Some c" "find (\<lambda>k. pk_credentialId k = c) (aw_passkeys a) = Some k"
    "rpConfig pf = Inr rp" "check_assertion wa rp response challenge (mapRow k) = Some n" by blast
  from checked(2) have "pk_credentialId k = c" by (auto dest: find_Some_mem)
  let ?hit = "\<lambda>r. pk_credentialId r = c \<and> pk_counter r = pk_counter k"
  have res: "res = (if changes ?hit (aw_passkeys (others a)) = 1 then Some (pk_userId k) else None)"
    and a': "aw_passkeys a' = update_where ?hit (\<lambda>r. r\<lparr>pk_counter := n, pk_lastUsedAt := Some (pf_now pf)\<rparr>) (aw_passkeys (others a))"
    using assms(2) checked \<open>pk_credentialId k = c\<close>
    by (auto simp: verifyAuthentication_def getCredentialByCredentialId_def updateCredentialCounter_def mapRow_def Let_def)
  have moved: "\<exists>k'\<in>set (aw_passkeys a'). pk_credentialId k' = c \<and> pk_counter k' = n"
    if "\<exists>k'\<in>set (aw_passkeys (others a)). ?hit k'"
  proof -
    from that obtain r where "r \<in> set (aw_passkeys (others a))" "?hit r" by blast
    then show ?thesis
      by (intro bexI [of _ "r\<lparr>pk_counter := n, pk_lastUsedAt := Some (pf_now pf)\<rparr>"])
        (auto simp: a' set_update_where intro!: image_eqI [of _ _ r])
  qed
  show ?thesis
    unfolding res changes_by_credential [OF assms(1)] using checked moved by auto
qed

definition demo_webauthn :: webauthn where
  "demo_webauthn = \<lparr>wa_verifyRegistration = \<lambda>_ _. None, wa_verifyAuthentication = \<lambda>_ _ c. Some (Some (lc_counter c + 1))\<rparr>"

definition demo_passkey :: passkey_row where
  "demo_passkey = \<lparr>pk_id = ''k'', pk_userId = ''u'', pk_credentialId = ''cred'', pk_publicKey = [], pk_counter = 4,
     pk_transports = None, pk_name = None, pk_createdAt = 1, pk_lastUsedAt = None\<rparr>"

text \<open>An assertion that a concurrent one overtook: the library accepts it, the counter has moved on.\<close>

theorem passkey_assertion_exact_witness:
  "\<exists>a'. verifyAuthentication demo_pf demo_webauthn (\<lambda>a. a\<lparr>aw_passkeys := [demo_passkey\<lparr>pk_counter := 5\<rparr>]\<rparr>)
     (JObj [(''id'', JStr ''cred'')]) ''ch'' (demo_accounts\<lparr>aw_passkeys := [demo_passkey]\<rparr>) = (Inr None, a')"
proof -
  let ?others = "\<lambda>a :: account_state. a\<lparr>aw_passkeys := [demo_passkey\<lparr>pk_counter := 5\<rparr>]\<rparr>"
  let ?a = "demo_accounts\<lparr>aw_passkeys := [demo_passkey]\<rparr>"
  obtain rp where "rpConfig demo_pf = Inr rp" by (simp add: rpConfig_def demo_pf_def demo_url_def)
  then obtain res a' where step: "verifyAuthentication demo_pf demo_webauthn ?others (JObj [(''id'', JStr ''cred'')]) ''ch'' ?a = (Inr res, a')"
    by (cases "base64UrlDecode []") (auto simp: verifyAuthentication_def getCredentialByCredentialId_def demo_passkey_def jget_def
        updateCredentialCounter_def check_assertion_def mapRow_def Let_def demo_webauthn_def)
  have "res \<noteq> Some u" for u
    using passkey_assertion_exact [of ?others ?a, OF _ step, of u] by (simp add: demo_passkey_def jget_def)
  with step show ?thesis by (cases res) auto
qed

section \<open>Login methods\<close>

definition password_owners :: "account_state \<Rightarrow> string set" where
  "password_owners a = pw_userId ` set (aw_passwords a)"

definition passkey_owners :: "account_state \<Rightarrow> string set" where
  "passkey_owners a = pk_userId ` set (aw_passkeys a)"

definition has_login_method :: "account_state \<Rightarrow> string \<Rightarrow> bool" where
  "has_login_method a userId = (userId \<in> password_owners a \<union> passkey_owners a)"

definition user_ids :: "account_state \<Rightarrow> string set" where
  "user_ids a = u_id ` set (t_users (aw_db a))"

text \<open>The foreign key of the passwords is \<open>password_owners a \<subseteq> user_ids a\<close>.\<close>

lemmas owners_defs = password_owners_def passkey_owners_def user_ids_def

text \<open>
  Everything that the sources do to login methods, in any order and by any user: the statements of
  an assertion are one step each, and the removals are those of the account pages.
\<close>

inductive credential_step :: "account_state \<Rightarrow> account_state \<Rightarrow> bool" where
  set: "setUserPassword pf lib u pwd n a = (r, a') \<Longrightarrow> credential_step a a'"
| add: "addUserPassword pf lib u pwd name a = (r, a') \<Longrightarrow> credential_step a a'"
| recover: "setUserPasswordAtSecurityVersion pf lib u pwd v e a = (r, a') \<Longrightarrow> credential_step a a'"
| use_password: "verifyLoginPassword pf lib user pwd i a = (r, a') \<Longrightarrow> credential_step a a'"
| rename_password: "renamePasswordCredential pf c u name a = (r, a') \<Longrightarrow> credential_step a a'"
| remove_password: "deletePasswordCredentialPreservingLoginMethod c u a = (r, a') \<Longrightarrow> credential_step a a'"
| register: "verifyAndStoreRegistration pf wa user response challenge a = (r, a') \<Longrightarrow> credential_step a a'"
| use_passkey: "updateCredentialCounter pf c m n a = (r, a') \<Longrightarrow> credential_step a a'"
| rename_passkey: "renameCredential c u name a = (r, a') \<Longrightarrow> credential_step a a'"
| remove_passkey: "deleteCredentialPreservingLoginMethod c u a = (r, a') \<Longrightarrow> credential_step a a'"

text \<open>What a step keeps: the accounts, the foreign key, and a login method for whoever has one.\<close>

definition keeps_login :: "account_state \<Rightarrow> account_state \<Rightarrow> bool" where
  "keeps_login a a' \<longleftrightarrow> (password_owners a \<subseteq> user_ids a \<longrightarrow>
     user_ids a' = user_ids a \<and> password_owners a' \<subseteq> user_ids a \<and>
     password_owners a \<union> passkey_owners a \<subseteq> password_owners a' \<union> passkey_owners a')"

lemma update_where_keys: "(\<And>r. key (f r) = key r) \<Longrightarrow> key ` set (update_where P f t) = key ` set t"
  by (induction t) auto

lemma keeps_login_same:
  "user_ids a' = user_ids a \<Longrightarrow> password_owners a' = password_owners a \<Longrightarrow> passkey_owners a \<subseteq> passkey_owners a' \<Longrightarrow> keeps_login a a'"
  by (auto simp: keeps_login_def)

lemma keeps_login_refl [simp]: "keeps_login a a"
  by (simp add: keeps_login_def)

text \<open>A replacement of the passwords of an existing user leaves that user the new one.\<close>

lemma keeps_login_replace:
  assumes "user_ids a' = user_ids a" "passkey_owners a' = passkey_owners a"
    and "password_owners a' = password_owners a - {u} \<union> (if u \<in> user_ids a then {u} else {})"
  shows "keeps_login a a'"
  using assms by (auto simp: keeps_login_def)

text \<open>A removal spares the user a method.\<close>

lemma keeps_login_remove:
  assumes "user_ids a' = user_ids a" "password_owners a' \<subseteq> password_owners a"
    and "password_owners a \<union> passkey_owners a \<subseteq> password_owners a' \<union> passkey_owners a'"
  shows "keeps_login a a'"
  using assms by (auto simp: keeps_login_def)

lemma keeps_login_grow:
  assumes "user_ids a' = user_ids a" "password_owners a \<subseteq> password_owners a'"
    and "password_owners a' \<subseteq> password_owners a \<union> user_ids a" "passkey_owners a \<subseteq> passkey_owners a'"
  shows "keeps_login a a'"
  using assms by (auto simp: keeps_login_def)

lemma replaced_owners: "pw_userId ` set (filter (\<lambda>r. pw_userId r \<noteq> u) t) = pw_userId ` set t - {u}"
  by (induction t) auto

lemma filter_keys: "key ` set (filter (\<lambda>r. \<not> (ident r = c \<and> key r = u)) t) \<union> {u} = key ` set t \<union> {u}"
  by (induction t) auto

lemma owners_simps [simp]:
  "user_ids (a\<lparr>aw_passwords := t\<rparr>) = user_ids a" "password_owners (a\<lparr>aw_passwords := t\<rparr>) = pw_userId ` set t"
  "passkey_owners (a\<lparr>aw_passwords := t\<rparr>) = passkey_owners a"
  "user_ids (a\<lparr>aw_passkeys := ks\<rparr>) = user_ids a" "password_owners (a\<lparr>aw_passkeys := ks\<rparr>) = password_owners a"
  "passkey_owners (a\<lparr>aw_passkeys := ks\<rparr>) = pk_userId ` set ks"
  "password_owners (a\<lparr>aw_world := w\<rparr>) = password_owners a" "passkey_owners (a\<lparr>aw_world := w\<rparr>) = passkey_owners a"
  "user_ids (a\<lparr>aw_world := w\<rparr>) = u_id ` set (t_users (w_db w))"
  by (simp_all add: owners_defs)

lemma user_ids_bumped [simp]: "u_id ` set (update_where P (bump_version now) (t_users (aw_db a))) = user_ids a"
  unfolding user_ids_def by (rule update_where_keys) (simp add: bump_version_def)

lemma list_ex_user: "user_present a (\<lambda>u. u_id u = i) \<longleftrightarrow> i \<in> user_ids a"
  by (auto simp: user_present_def user_ids_def list_ex_iff)

lemma set_keeps_login: "setUserPassword pf lib u pwd n a = (r, a') \<Longrightarrow> keeps_login a a'"
  unfolding setUserPassword_def Let_def
  by (auto simp: list_ex_user new_password_row_def replaced_owners password_owners_def simp del: set_filter
      intro!: keeps_login_replace [of _ _ u] split: if_splits sum.splits)

lemma live_user: "user_present a (\<lambda>x. u_id x = u \<and> P x) \<Longrightarrow> u \<in> user_ids a"
  by (auto simp: user_present_def list_ex_iff user_ids_def)

lemma add_keeps_login:
  assumes "addUserPassword pf lib u pwd name a = (r, a')"
  shows "keeps_login a a'"
proof -
  have "keeps_login a (upd_users (update_where P (bump_version now)) (a\<lparr>aw_passwords := aw_passwords a @ [row]\<rparr>))"
    if "pw_userId row = u" "u \<in> user_ids a" for P now row
    using that by (intro keeps_login_grow) (auto simp: password_owners_def)
  moreover have "keeps_login a (upd_users (update_where P (bump_version now)) a)" for P now
    by (intro keeps_login_grow) auto
  ultimately show ?thesis
    using assms live_user [of a u "\<lambda>x. \<not> u_disabled x"]
    by (auto simp: addUserPassword_def Let_def new_password_row_def split: if_splits sum.splits)
qed

lemma recovery_batch_owners:
  fixes row v pf e a
  defines "a' \<equiv> snd (recovery_batch pf row v e a)"
  shows "user_ids a' = user_ids a" "passkey_owners a' = passkey_owners a"
    "aw_passwords a' = (if user_present a (recoverable (pw_userId row) v) then recovered_passwords row a else aw_passwords a)"
proof -
  have ids: "u_id ` set (update_where P (\<lambda>u. (bump_version now u)\<lparr>u_emailVerified := g u\<rparr>) t) = u_id ` set t" for P g now t
    by (rule update_where_keys) (simp add: bump_version_def)
  show "user_ids a' = user_ids a"
    by (simp add: a'_def recovery_batch_def Let_def case_prod_unfold revoke_access_def ids)
      (simp add: user_ids_def)
  show "passkey_owners a' = passkey_owners a"
    by (simp add: a'_def recovery_batch_def Let_def case_prod_unfold)
  show "aw_passwords a' = (if user_present a (recoverable (pw_userId row) v) then recovered_passwords row a else aw_passwords a)"
    by (simp add: a'_def recovery_batch_def Let_def case_prod_unfold recovered_passwords_def)
qed

lemma recover_keeps_login: "setUserPasswordAtSecurityVersion pf lib u pwd v e a = (r, a') \<Longrightarrow> keeps_login a a'"
proof -
  assume step: "setUserPasswordAtSecurityVersion pf lib u pwd v e a = (r, a')"
  have batch: "keeps_login a (b\<lparr>aw_world := snd (revokeRefreshFamilyDurableObjects pf ids (aw_world b))\<rparr>)"
    if "pw_userId row = u" "b = snd (recovery_batch pf row v e a)" for row b ids
  proof -
    note owners = recovery_batch_owners [of pf row v e a, folded that(2), unfolded that(1)]
    have "user_present a (recoverable u v) \<Longrightarrow> u \<in> user_ids a"
      by (auto simp: user_present_def list_ex_iff recoverable_def user_ids_def)
    with owners show ?thesis
      by (auto simp: keeps_login_def revokeRefreshFamilyDurableObjects_def recovered_passwords_def that(1)
          password_owners_def [of b] replaced_owners user_ids_def [symmetric] simp del: set_filter) (auto simp: password_owners_def)
  qed
  from step show ?thesis
    by (auto simp: setUserPasswordAtSecurityVersion_def Let_def case_prod_unfold new_password_row_def split: if_splits sum.splits intro!: batch)
qed

lemma use_keeps_login: "verifyLoginPassword pf lib user pwd i a = (r, a') \<Longrightarrow> keeps_login a a'"
  by (auto simp: verifyLoginPassword_def update_where_keys password_owners_def intro!: keeps_login_same
      split: if_splits option.splits sum.splits)

lemma rename_keeps_login: "renamePasswordCredential pf c u name a = (r, a') \<Longrightarrow> keeps_login a a'"
  by (auto simp: renamePasswordCredential_def Let_def update_where_keys password_owners_def intro!: keeps_login_same)

lemma register_keeps_login: "verifyAndStoreRegistration pf wa user response challenge a = (r, a') \<Longrightarrow> keeps_login a a'"
  by (auto simp: verifyAndStoreRegistration_def insertCredential_def Let_def passkey_owners_def intro!: keeps_login_same
      split: sum.splits option.splits if_splits)

lemma remove_password_keeps_login:
  "deletePasswordCredentialPreservingLoginMethod c u a = (r, a') \<Longrightarrow> keeps_login a a'"
proof -
  let ?spare = "list_ex (\<lambda>r. pw_userId r = u \<and> pw_id r \<noteq> c) (aw_passwords a) \<or> list_ex (\<lambda>k. pk_userId k = u) (aw_passkeys a)"
  let ?rest = "filter (\<lambda>r. \<not> ((pw_id r = c \<and> pw_userId r = u) \<and> ?spare)) (aw_passwords a)"
  assume "deletePasswordCredentialPreservingLoginMethod c u a = (r, a')"
  then have a': "a' = a\<lparr>aw_passwords := ?rest\<rparr>"
    by (auto simp: deletePasswordCredentialPreservingLoginMethod_def Let_def split: if_splits)
  show ?thesis
  proof (cases ?spare)
    case True
    let ?own = "pw_userId ` set (filter (\<lambda>r. \<not> (pw_id r = c \<and> pw_userId r = u)) (aw_passwords a))"
    from True have "u \<in> ?own \<union> passkey_owners a" by (auto simp: list_ex_iff passkey_owners_def)
    with filter_keys [of pw_userId pw_id c u "aw_passwords a"]
    have "password_owners a \<union> passkey_owners a \<subseteq> ?own \<union> passkey_owners a" unfolding password_owners_def by blast
    moreover have "?own \<subseteq> password_owners a" by (auto simp: password_owners_def)
    moreover have "a' = a\<lparr>aw_passwords := filter (\<lambda>r. \<not> (pw_id r = c \<and> pw_userId r = u)) (aw_passwords a)\<rparr>"
      using True unfolding a' by simp
    ultimately show ?thesis by (intro keeps_login_remove) simp_all
  qed (simp add: a')
qed

lemma remove_passkey_keeps_login: "deleteCredentialPreservingLoginMethod c u a = (r, a') \<Longrightarrow> keeps_login a a'"
proof -
  let ?spare = "list_ex (\<lambda>r. pw_userId r = u) (aw_passwords a) \<or> list_ex (\<lambda>k. pk_userId k = u \<and> pk_id k \<noteq> c) (aw_passkeys a)"
  let ?rest = "filter (\<lambda>r. \<not> ((pk_id r = c \<and> pk_userId r = u) \<and> ?spare)) (aw_passkeys a)"
  assume "deleteCredentialPreservingLoginMethod c u a = (r, a')"
  then have a': "a' = a\<lparr>aw_passkeys := ?rest\<rparr>"
    by (auto simp: deleteCredentialPreservingLoginMethod_def Let_def split: if_splits)
  show ?thesis
  proof (cases ?spare)
    case True
    let ?own = "pk_userId ` set (filter (\<lambda>r. \<not> (pk_id r = c \<and> pk_userId r = u)) (aw_passkeys a))"
    from True have "u \<in> password_owners a \<union> ?own" by (auto simp: list_ex_iff password_owners_def)
    with filter_keys [of pk_userId pk_id c u "aw_passkeys a"]
    have "password_owners a \<union> passkey_owners a \<subseteq> password_owners a \<union> ?own" unfolding passkey_owners_def by blast
    moreover have "a' = a\<lparr>aw_passkeys := filter (\<lambda>r. \<not> (pk_id r = c \<and> pk_userId r = u)) (aw_passkeys a)\<rparr>"
      using True unfolding a' by simp
    ultimately show ?thesis by (intro keeps_login_remove) simp_all
  qed (simp add: a')
qed

lemma credential_step_keeps: "credential_step a a' \<Longrightarrow> keeps_login a a'"
proof (induction rule: credential_step.induct)
  case (use_passkey pf c m n a r a')
  then show ?case
    by (auto simp: updateCredentialCounter_def Let_def update_where_keys passkey_owners_def intro!: keeps_login_same)
next
  case (rename_passkey c u name a r a')
  then show ?case by (auto simp: renameCredential_def Let_def update_where_keys passkey_owners_def intro!: keeps_login_same)
qed (fact set_keeps_login add_keeps_login recover_keeps_login use_keeps_login rename_keeps_login
    remove_password_keeps_login register_keeps_login remove_passkey_keeps_login)+



end
