(* ===== verification/Users.thy ===== *)
theory Users
  imports Passkeys
begin

text \<open>
  \<open>src/db/queries/users.ts\<close> and \<open>src/db/queries/admin-promotion.ts\<close>: the accounts and the groups.
  A batch of statements is one atomic function on the tables. Where a handler reads a row and writes
  it in a later batch, the reading and the batch are separate definitions and \<open>pf_others\<close> runs
  between them. The constraints of the schema are written out: a violated \<open>UNIQUE\<close> index or foreign
  key is \<open>DatabaseFailure\<close> and undoes the batch, deleting a row deletes or unlinks what refers to
  it, and the triggers that keep the group \<open>all\<close> universal and clear answered requests are part of
  the insertions.
\<close>

section \<open>Memberships\<close>

definition in_group :: "db \<Rightarrow> string \<Rightarrow> membership_row \<Rightarrow> bool" where
  "in_group db name m = list_ex (\<lambda>g. gp_id g = um_groupId m \<and> gp_name g = name) (t_groups db)"

definition is_member :: "db \<Rightarrow> string \<Rightarrow> string \<Rightarrow> bool" where
  "is_member db userId groupId = list_ex (\<lambda>m. um_userId m = userId \<and> um_groupId m = groupId) (t_user_groups db)"

text \<open>The active administrators as the guards join them: \<open>user_groups\<close>, \<open>groups\<close> and \<open>users\<close>.\<close>

definition active_admin_row :: "db \<Rightarrow> (string \<Rightarrow> bool) \<Rightarrow> membership_row \<Rightarrow> bool" where
  "active_admin_row db P m =
     (in_group db ''admins'' m \<and> list_ex (\<lambda>u. u_id u = um_userId m \<and> \<not> u_disabled u \<and> P (u_id u)) (t_users db))"

definition other_active_admin :: "db \<Rightarrow> string \<Rightarrow> bool" where
  "other_active_admin db userId = list_ex (active_admin_row db (\<lambda>i. i \<noteq> userId)) (t_user_groups db)"

text \<open>
  \<open>INSERT OR IGNORE INTO user_groups\<close> with the trigger that clears the answered request; a pair that
  is inserted needs its user and its group.
\<close>

definition join_group :: "int \<Rightarrow> string \<Rightarrow> string \<Rightarrow> db \<Rightarrow> db" where
  "join_group now userId groupId db =
     (if is_member db userId groupId then db
      else db\<lparr>t_user_groups := t_user_groups db @ [\<lparr>um_userId = userId, um_groupId = groupId, um_createdAt = now\<rparr>],
              t_group_requests := filter (\<lambda>q. \<not> (mq_userId q = userId \<and> mq_groupId q = groupId)) (t_group_requests db)\<rparr>)"

definition join_groups :: "int \<Rightarrow> string \<Rightarrow> string list \<Rightarrow> db \<Rightarrow> db" where
  "join_groups now userId groupIds db = fold (join_group now userId) groupIds db"

definition dangling_join :: "db \<Rightarrow> string \<Rightarrow> string list \<Rightarrow> bool" where
  "dangling_join db userId groupIds =
     list_ex (\<lambda>g. \<not> is_member db userId g \<and>
       (\<not> list_ex (\<lambda>u. u_id u = userId) (t_users db) \<or> \<not> list_ex (\<lambda>r. gp_id r = g) (t_groups db))) groupIds"

section \<open>admin-promotion.ts\<close>

definition ADMIN_PROMOTION_PREDICATE :: "db \<Rightarrow> string \<Rightarrow> int \<Rightarrow> bool" where
  "ADMIN_PROMOTION_PREDICATE db userId membershipCreatedAt =
     list_ex (\<lambda>m. um_userId m = userId \<and> in_group db ''admins'' m \<and> um_createdAt m = membershipCreatedAt) (t_user_groups db)"

text \<open>The three statements, each under the predicate, which none of them changes.\<close>

definition adminPromotionRevocationStatements :: "string \<Rightarrow> int \<Rightarrow> db \<Rightarrow> string list \<times> db" where
  "adminPromotionRevocationStatements userId membershipCreatedAt db =
     (if ADMIN_PROMOTION_PREDICATE db userId membershipCreatedAt
      then revoke_access membershipCreatedAt userId
             (db\<lparr>t_users := update_where (\<lambda>u. u_id u = userId) (bump_version membershipCreatedAt) (t_users db)\<rparr>)
      else ([], db))"

definition mirrorAdminPromotionRefreshRevocations :: "platform \<Rightarrow> string list \<Rightarrow> account_state \<Rightarrow> account_state" where
  "mirrorAdminPromotionRefreshRevocations pf rows a =
     a\<lparr>aw_world := snd (revokeRefreshFamilyDurableObjects pf rows (aw_world a))\<rparr>"

abbreviation upd_account_db :: "(db \<Rightarrow> db) \<Rightarrow> account_state \<Rightarrow> account_state" where
  "upd_account_db f a \<equiv> a\<lparr>aw_world := (aw_world a)\<lparr>w_db := f (aw_db a)\<rparr>\<rparr>"

section \<open>users.ts: reading accounts\<close>

definition MAX_USER_GROUPS :: nat where "MAX_USER_GROUPS = 100"
definition MAX_ALIAS_LENGTH :: nat where "MAX_ALIAS_LENGTH = 64"

definition ALIAS_PATTERN :: "string \<Rightarrow> bool" where
  "ALIAS_PATTERN s = (s \<noteq> [] \<and> list_all (\<lambda>c. is_alnum c \<or> c = CHR ''_'' \<or> c = CHR ''-'') s)"

definition getUserByEmail :: "db \<Rightarrow> string \<Rightarrow> User option" where
  "getUserByEmail db email = map_option User.truncate (find (\<lambda>u. u_email u = js_lower email) (t_users db))"

definition getUserByAlias :: "db \<Rightarrow> string \<Rightarrow> User option" where
  "getUserByAlias db alias = map_option User.truncate (find (\<lambda>u. js_lower (u_alias u) = js_lower alias) (t_users db))"

definition getUserByLogin :: "db \<Rightarrow> string \<Rightarrow> User option" where
  "getUserByLogin db login =
     (let normalized = js_lower (js_trim login)
      in map_option User.truncate (find (\<lambda>u. u_email u = normalized \<or> js_lower (u_alias u) = normalized) (t_users db)))"

definition getUserGroupNames :: "db \<Rightarrow> string \<Rightarrow> string list" where
  "getUserGroupNames db userId =
     sort (concat (map (\<lambda>m. map gp_name (filter (\<lambda>g. gp_id g = um_groupId m) (t_groups db)))
       (filter (\<lambda>m. um_userId m = userId) (t_user_groups db))))"

definition getUserGroupIds :: "db \<Rightarrow> string \<Rightarrow> string list" where
  "getUserGroupIds db userId = sort (map um_groupId (filter (\<lambda>m. um_userId m = userId) (t_user_groups db)))"

text \<open>\<open>ORDER BY created_at DESC LIMIT ? OFFSET ?\<close>.\<close>

definition newest_first :: "nat \<Rightarrow> nat \<Rightarrow> user_row list \<Rightarrow> user_row list" where
  "newest_first limit offset t = take limit (drop offset (sort_key (\<lambda>u. - u_createdAt u) t))"

definition listUsers :: "db \<Rightarrow> nat \<Rightarrow> nat \<Rightarrow> User list" where
  "listUsers db limit offset = map User.truncate (newest_first limit offset (t_users db))"

definition escapeLikePattern :: "string \<Rightarrow> string" where
  "escapeLikePattern s = concat (map (\<lambda>c. if c \<in> {CHR 0x5C, CHR ''%'', CHR ''_''} then [CHR 0x5C, c] else [c]) s)"

text \<open>
  The operator \<open>LIKE ... ESCAPE '\'\<close> of SQLite on a pattern: a backslash takes the next character
  literally, \<open>%\<close> matches any text and \<open>_\<close> any character, and letters match in either case.
\<close>

fun sql_like :: "string \<Rightarrow> string \<Rightarrow> bool" where
  "sql_like [] s = (s = [])"
| "sql_like (p # ps) s =
     (if p = CHR 0x5C then
        (case ps of [] \<Rightarrow> False
         | q # qs \<Rightarrow> (case s of [] \<Rightarrow> False | c # cs \<Rightarrow> to_lower q = to_lower c \<and> sql_like qs cs))
      else if p = CHR ''%'' then
        sql_like ps s \<or> (case s of [] \<Rightarrow> False | c # cs \<Rightarrow> sql_like (p # ps) cs)
      else (case s of [] \<Rightarrow> False
            | c # cs \<Rightarrow> (p = CHR ''_'' \<or> to_lower p = to_lower c) \<and> sql_like ps cs))"

definition searchUsers :: "db \<Rightarrow> string \<Rightarrow> nat \<Rightarrow> nat \<Rightarrow> User list" where
  "searchUsers db query limit offset =
     (let pat = ''%'' @ escapeLikePattern (js_lower query) @ ''%''
      in map User.truncate (newest_first limit offset
           (filter (\<lambda>u. u_id u = query \<or> sql_like pat (js_lower (u_email u)) \<or> sql_like pat (js_lower (u_alias u)))
              (t_users db))))"

definition countUsers :: "db \<Rightarrow> nat" where
  "countUsers db = length (t_users db)"

section \<open>users.ts: creating accounts\<close>

record CreateUserInput =
  cu_email :: string
  cu_alias :: "string option"
  cu_name :: "string option"
  cu_picture :: "string option"
  cu_emailVerified :: "bool option"

definition last_chars :: "nat \<Rightarrow> string \<Rightarrow> string" where
  "last_chars n s = drop (length s - n) s"

definition generatedAlias :: "string \<Rightarrow> string \<Rightarrow> string" where
  "generatedAlias email i =
     (let part = take 48 (filter is_alnum (takeWhile (\<lambda>c. c \<noteq> CHR ''@'') email));
          local = (if part = [] then ''user'' else part);
          suffix = last_chars 10 (filter is_alnum i)
      in take MAX_ALIAS_LENGTH (local @ suffix))"

definition new_user_row :: "platform \<Rightarrow> CreateUserInput \<Rightarrow> user_row" where
  "new_user_row pf input =
     (let i = generateId pf ''usr'' ''user''; email = js_lower (cu_email input);
          given = (case cu_alias input of None \<Rightarrow> [] | Some s \<Rightarrow> js_trim s)
      in \<lparr>u_id = i, u_email = email, u_alias = (if given = [] then generatedAlias email i else given),
          u_emailVerified = (case cu_emailVerified input of None \<Rightarrow> False | Some b \<Rightarrow> b),
          u_name = cu_name input, u_picture = cu_picture input, u_avatarKey = None, u_avatarContentType = None,
          u_avatarUpdatedAt = None, u_disabled = False, u_createdAt = pf_now pf,
          ur_securityVersion = 0, ur_updatedAt = pf_now pf\<rparr>)"

definition user_conflict :: "user_row \<Rightarrow> user_row \<Rightarrow> bool" where
  "user_conflict row u =
     (u_id u = u_id row \<or> js_lower (u_email u) = js_lower (u_email row) \<or> js_lower (u_alias u) = js_lower (u_alias row))"

definition bad_alias :: "string \<Rightarrow> bool" where
  "bad_alias alias = (\<not> ALIAS_PATTERN alias \<or> length alias > MAX_ALIAS_LENGTH)"

text \<open>The insertion with the trigger that joins the account to the group \<open>all\<close>.\<close>

definition insert_user :: "user_row \<Rightarrow> db \<Rightarrow> db" where
  "insert_user row db =
     join_groups (u_createdAt row) (u_id row) (map gp_id (filter (\<lambda>g. gp_name g = ''all'') (t_groups db)))
       (db\<lparr>t_users := t_users db @ [row]\<rparr>)"

definition createUser :: "platform \<Rightarrow> CreateUserInput \<Rightarrow> User aio" where
  "createUser pf input a =
     (let row = new_user_row pf input
      in if bad_alias (u_alias row) then (Inl (OtherFailure ''RangeError: alias''), a)
         else if list_ex (user_conflict row) (t_users (aw_db a)) then (Inl DatabaseFailure, a)
         else (Inr (User.truncate row), upd_account_db (insert_user row) a))"

section \<open>users.ts: changing accounts\<close>

record UserPatch =
  up_name :: "string option option"
  up_disabled :: "bool option"
  up_emailVerified :: "bool option"

record user_plan =
  pn_name :: "string option"
  pn_disabled :: bool
  pn_emailVerified :: bool
  pn_wasDisabled :: bool
  pn_version :: int

definition plan_update :: "UserPatch \<Rightarrow> user_row \<Rightarrow> user_plan" where
  "plan_update patch current =
     \<lparr>pn_name = (case up_name patch of None \<Rightarrow> u_name current | Some n \<Rightarrow> n),
      pn_disabled = (case up_disabled patch of None \<Rightarrow> u_disabled current | Some b \<Rightarrow> b),
      pn_emailVerified = (case up_emailVerified patch of None \<Rightarrow> u_emailVerified current | Some b \<Rightarrow> b),
      pn_wasDisabled = u_disabled current, pn_version = ur_securityVersion current\<rparr>"

definition disabledChanged :: "user_plan \<Rightarrow> bool" where
  "disabledChanged p = (pn_wasDisabled p \<noteq> pn_disabled p)"

definition planned_version :: "user_plan \<Rightarrow> int" where
  "planned_version p = pn_version p + (if disabledChanged p then 1 else 0)"

definition may_update :: "db \<Rightarrow> string \<Rightarrow> user_plan \<Rightarrow> user_row \<Rightarrow> bool" where
  "may_update db i p u =
     (u_id u = i \<and> u_disabled u = pn_wasDisabled p \<and> ur_securityVersion u = pn_version p \<and>
      (\<not> pn_disabled p \<or> u_disabled u \<or> \<not> isUserAdmin db (u_id u) \<or> other_active_admin db (u_id u)))"

definition apply_plan :: "int \<Rightarrow> user_plan \<Rightarrow> user_row \<Rightarrow> user_row" where
  "apply_plan now p u =
     u\<lparr>u_name := pn_name p, u_emailVerified := pn_emailVerified p, u_disabled := pn_disabled p,
       ur_securityVersion := ur_securityVersion u + (if disabledChanged p then 1 else 0), ur_updatedAt := now\<rparr>"

definition plan_applied :: "int \<Rightarrow> string \<Rightarrow> user_plan \<Rightarrow> user_row \<Rightarrow> bool" where
  "plan_applied now i p u =
     (u_id u = i \<and> u_disabled u = pn_disabled p \<and> ur_securityVersion u = planned_version p \<and> ur_updatedAt u = now)"

text \<open>The batch of \<open>updateUser\<close>: the row it returns, and the refresh families it revoked.\<close>

definition update_user_batch :: "int \<Rightarrow> string \<Rightarrow> user_plan \<Rightarrow> db \<Rightarrow> (User option \<times> string list) \<times> db" where
  "update_user_batch now i p db =
     (let row = map_option (User.truncate \<circ> apply_plan now p) (find (may_update db i p) (t_users db));
          db1 = db\<lparr>t_users := update_where (may_update db i p) (apply_plan now p) (t_users db)\<rparr>;
          (ids, db2) = (if disabledChanged p \<and> list_ex (plan_applied now i p) (t_users db1)
                        then revoke_access now i db1 else ([], db1))
      in ((row, ids), db2))"

definition updateUser :: "platform \<Rightarrow> string \<Rightarrow> UserPatch \<Rightarrow> account_state \<Rightarrow> User option \<times> account_state" where
  "updateUser pf i patch a =
     (case find (\<lambda>u. u_id u = i) (t_users (aw_db a)) of
        None \<Rightarrow> (None, a)
      | Some current \<Rightarrow>
          (let w1 = pf_others pf ''update-user'' (aw_world a);
               ((row, ids), db) = update_user_batch (pf_now pf) i (plan_update patch current) (w_db w1);
               w2 = snd (revokeRefreshFamilyDurableObjects pf ids (w1\<lparr>w_db := db\<rparr>))
           in (row, a\<lparr>aw_world := w2\<rparr>)))"

text \<open>
  The batch of \<open>swapAvatar\<close>: \<open>None\<close> for the absent account, otherwise the key the update replaced.
  A key in use by another account violates the index of the keys.
\<close>

definition swapAvatar :: "string \<Rightarrow> (user_row \<Rightarrow> user_row) \<Rightarrow> string option \<Rightarrow> string option option aio" where
  "swapAvatar i statement key a =
     (case find (\<lambda>u. u_id u = i) (t_users (aw_db a)) of
        None \<Rightarrow> (Inr None, a)
      | Some u \<Rightarrow>
          if key \<noteq> None \<and> list_ex (\<lambda>v. u_id v \<noteq> i \<and> u_avatarKey v = key) (t_users (aw_db a)) then (Inl DatabaseFailure, a)
          else (Inr (Some (u_avatarKey u)), upd_users (update_where (\<lambda>u. u_id u = i) statement) a))"

definition setUserAvatar :: "platform \<Rightarrow> string \<Rightarrow> string \<Rightarrow> string \<Rightarrow> string option option aio" where
  "setUserAvatar pf i key contentType =
     swapAvatar i (\<lambda>u. u\<lparr>u_avatarKey := Some key, u_avatarContentType := Some contentType,
       u_avatarUpdatedAt := Some (pf_now pf), ur_updatedAt := pf_now pf\<rparr>) (Some key)"

definition clearUserAvatar :: "platform \<Rightarrow> string \<Rightarrow> string option option aio" where
  "clearUserAvatar pf i =
     swapAvatar i (\<lambda>u. u\<lparr>u_avatarKey := None, u_avatarContentType := None, u_avatarUpdatedAt := None,
       ur_updatedAt := pf_now pf\<rparr>) None"

datatype UpdateIdentityResult = identity_updated | identity_not_found | identity_conflict

definition alias_free :: "user_row list \<Rightarrow> string \<Rightarrow> string \<Rightarrow> bool" where
  "alias_free t i alias = (\<not> list_ex (\<lambda>v. js_lower (u_alias v) = js_lower alias \<and> u_id v \<noteq> i) t)"

definition updateUserAlias :: "platform \<Rightarrow> string \<Rightarrow> string \<Rightarrow> account_state \<Rightarrow> UpdateIdentityResult \<times> account_state" where
  "updateUserAlias pf i alias a =
     (let normalized = js_trim alias; t = t_users (aw_db a); hit = (\<lambda>u. u_id u = i \<and> alias_free t i normalized)
      in if bad_alias normalized then (identity_conflict, a)
         else (let a1 = upd_users (update_where hit (\<lambda>u. u\<lparr>u_alias := normalized, ur_updatedAt := pf_now pf\<rparr>)) a
               in (if changes hit t = 1 then identity_updated
                   else if getUserById (aw_db a1) i = None then identity_not_found else identity_conflict, a1)))"

definition may_take_email :: "db \<Rightarrow> string \<Rightarrow> string \<Rightarrow> int \<Rightarrow> user_row \<Rightarrow> bool" where
  "may_take_email db i email version u =
     (u_id u = i \<and> \<not> u_disabled u \<and> ur_securityVersion u = version \<and>
      \<not> list_ex (\<lambda>v. u_email v = email \<and> u_id v \<noteq> i) (t_users db))"

definition take_email :: "int \<Rightarrow> string \<Rightarrow> user_row \<Rightarrow> user_row" where
  "take_email now email u = (bump_version now u)\<lparr>u_email := email, u_emailVerified := True\<rparr>"

definition update_email_batch :: "int \<Rightarrow> string \<Rightarrow> string \<Rightarrow> int \<Rightarrow> db \<Rightarrow> string list \<times> db" where
  "update_email_batch now i email version db =
     (let db1 = db\<lparr>t_users := update_where (may_take_email db i email version) (take_email now email) (t_users db)\<rparr>
      in if list_ex (\<lambda>u. u_id u = i \<and> u_email u = email \<and> ur_securityVersion u = version + 1 \<and> ur_updatedAt u = now) (t_users db1)
         then revoke_access now i db1 else ([], db1))"

definition updateUserEmail :: "platform \<Rightarrow> string \<Rightarrow> string \<Rightarrow> int \<Rightarrow> UpdateIdentityResult aio" where
  "updateUserEmail pf i newEmail expectedSecurityVersion a =
     (let email = js_lower (js_trim newEmail); hit = may_take_email (aw_db a) i email expectedSecurityVersion
      in if list_ex hit (t_users (aw_db a)) \<and>
            list_ex (\<lambda>v. u_id v \<noteq> i \<and> js_lower (u_email v) = email) (t_users (aw_db a)) then (Inl DatabaseFailure, a)
         else (let (ids, db) = update_email_batch (pf_now pf) i email expectedSecurityVersion (aw_db a);
                   a1 = mirrorAdminPromotionRefreshRevocations pf ids (upd_account_db (\<lambda>_. db) a);
                   conflicting = getUserByEmail (aw_db a1) email
               in (Inr (if changes hit (t_users (aw_db a)) = 1 then identity_updated
                        else if conflicting \<noteq> None \<and> map_option u_id conflicting \<noteq> Some i then identity_conflict
                        else identity_not_found), a1)))"

section \<open>users.ts: deleting accounts\<close>

text \<open>What the foreign keys do when the account with an id is deleted.\<close>

definition drop_user_db :: "string \<Rightarrow> db \<Rightarrow> db" where
  "drop_user_db i db =
     (let db1 = forget_sessions (map sr_id (filter (\<lambda>r. sr_userId r = i) (t_sessions db))) db
      in db1\<lparr>t_users := filter (\<lambda>u. u_id u \<noteq> i) (t_users db1),
             t_sessions := filter (\<lambda>r. sr_userId r \<noteq> i) (t_sessions db1),
             t_refresh_tokens := filter (\<lambda>r. rt_userId r \<noteq> i) (t_refresh_tokens db1),
             t_consents := filter (\<lambda>r. cs_userId r \<noteq> i) (t_consents db1),
             t_authorization_grants := filter (\<lambda>r. gr_userId r \<noteq> i) (t_authorization_grants db1),
             t_devices := map (\<lambda>r. r\<lparr>dv_userId := unlink [i] (dv_userId r)\<rparr>) (t_devices db1),
             t_user_groups := filter (\<lambda>m. um_userId m \<noteq> i) (t_user_groups db1),
             t_group_requests := filter (\<lambda>q. mq_userId q \<noteq> i) (t_group_requests db1)\<rparr>)"

definition drop_user :: "string \<Rightarrow> account_state \<Rightarrow> account_state" where
  "drop_user i a = (upd_account_db (drop_user_db i) a)\<lparr>
     aw_email_verifications := filter (\<lambda>r. mt_userId r \<noteq> i) (aw_email_verifications a),
     aw_password_resets := filter (\<lambda>r. mt_userId r \<noteq> i) (aw_password_resets a),
     aw_passwords := filter (\<lambda>r. pw_userId r \<noteq> i) (aw_passwords a),
     aw_passkeys := filter (\<lambda>k. pk_userId k \<noteq> i) (aw_passkeys a)\<rparr>"

definition deleteUser :: "string \<Rightarrow> account_state \<Rightarrow> bool \<times> account_state" where
  "deleteUser i a =
     (if list_ex (\<lambda>u. u_id u = i) (t_users (aw_db a)) then (True, drop_user i a) else (False, a))"

definition may_delete :: "db \<Rightarrow> string \<Rightarrow> user_row \<Rightarrow> bool" where
  "may_delete db i u = (u_id u = i \<and> (u_disabled u \<or> \<not> isUserAdmin db i \<or> other_active_admin db i))"

definition deleteUserPreservingActiveAdmin :: "string \<Rightarrow> account_state \<Rightarrow> bool \<times> account_state" where
  "deleteUserPreservingActiveAdmin i a =
     (if list_ex (may_delete (aw_db a) i) (t_users (aw_db a)) then (True, drop_user i a) else (False, a))"

section \<open>users.ts: groups\<close>

record GroupSummary =
  gs_id :: string
  gs_name :: string
  gs_description :: "string option"
  gs_memberCount :: nat
  gs_isPublic :: bool
  gs_priority :: int

definition isProtectedGroupName :: "string \<Rightarrow> bool" where
  "isProtectedGroupName name = (name = ''admins'' \<or> name = ''all'')"

definition mapGroup :: "db \<Rightarrow> group_row \<Rightarrow> GroupSummary" where
  "mapGroup db g =
     \<lparr>gs_id = gp_id g, gs_name = gp_name g, gs_description = gp_description g,
      gs_memberCount = changes (\<lambda>m. um_groupId m = gp_id g) (t_user_groups db),
      gs_isPublic = gp_isPublic g, gs_priority = gp_priority g\<rparr>"

definition listGroups :: "db \<Rightarrow> GroupSummary list" where
  "listGroups db = map (mapGroup db) (sort_key (\<lambda>g. (gp_priority g, gp_name g)) (t_groups db))"

definition getGroupByName :: "db \<Rightarrow> string \<Rightarrow> GroupSummary option" where
  "getGroupByName db name = map_option (mapGroup db) (find (\<lambda>g. gp_name g = js_lower (js_trim name)) (t_groups db))"

definition countUsersInGroup :: "db \<Rightarrow> string \<Rightarrow> nat" where
  "countUsersInGroup db groupName =
     length (concat (map (\<lambda>m. filter (\<lambda>g. gp_id g = um_groupId m \<and> gp_name g = groupName) (t_groups db)) (t_user_groups db)))"

text \<open>The join of the query: one user for each membership of an active administrator.\<close>

definition active_admin_users :: "db \<Rightarrow> user_row list" where
  "active_admin_users db =
     concat (map (\<lambda>m. concat (map (\<lambda>g. if gp_id g = um_groupId m \<and> gp_name g = ''admins''
         then filter (\<lambda>u. u_id u = um_userId m \<and> \<not> u_disabled u) (t_users db) else []) (t_groups db)))
       (t_user_groups db))"

definition isSoleActiveAdmin :: "db \<Rightarrow> string \<Rightarrow> bool" where
  "isSoleActiveAdmin db userId =
     (length (active_admin_users db) = 1 \<and> list_ex (\<lambda>u. u_id u = userId) (active_admin_users db))"

definition name_conflict :: "string \<Rightarrow> group_row \<Rightarrow> bool" where
  "name_conflict name g = (js_lower (gp_name g) = js_lower name)"

definition createGroup ::
  "platform \<Rightarrow> string \<Rightarrow> string option \<Rightarrow> bool \<Rightarrow> int \<Rightarrow> GroupSummary aio" where
  "createGroup pf name description isPublic priority a =
     (let g = \<lparr>gp_id = generateId pf ''grp'' ''group'', gp_name = js_lower (js_trim name), gp_priority = priority,
               gp_description = description, gp_isPublic = isPublic\<rparr>
      in if list_ex (\<lambda>h. gp_id h = gp_id g \<or> name_conflict (gp_name g) h) (t_groups (aw_db a)) then (Inl DatabaseFailure, a)
         else (Inr \<lparr>gs_id = gp_id g, gs_name = gp_name g, gs_description = description, gs_memberCount = 0,
                    gs_isPublic = isPublic, gs_priority = priority\<rparr>,
               upd_account_db (\<lambda>db. db\<lparr>t_groups := t_groups db @ [g]\<rparr>) a))"

datatype GroupMutationResult = group_updated | group_deleted | group_not_found | group_conflict | group_protected

text \<open>The statement of \<open>updateGroup\<close>, after its reading.\<close>

definition write_group :: "string \<Rightarrow> string \<Rightarrow> string option \<Rightarrow> bool \<Rightarrow> int \<Rightarrow> db \<Rightarrow> (failure, bool) result \<times> db" where
  "write_group i name description isPublic priority db =
     (let hit = (\<lambda>g. gp_id g = i \<and> \<not> list_ex (\<lambda>h. gp_name h = name \<and> gp_id h \<noteq> i) (t_groups db))
      in if list_ex hit (t_groups db) \<and> list_ex (\<lambda>h. gp_id h \<noteq> i \<and> name_conflict name h) (t_groups db)
         then (Inl DatabaseFailure, db)
         else (Inr (changes hit (t_groups db) = 1),
               db\<lparr>t_groups := update_where hit (\<lambda>g. g\<lparr>gp_name := name, gp_description := description,
                    gp_isPublic := isPublic, gp_priority := priority\<rparr>) (t_groups db)\<rparr>))"

definition updateGroup ::
  "platform \<Rightarrow> string \<Rightarrow> string \<Rightarrow> string option \<Rightarrow> bool option \<Rightarrow> int option \<Rightarrow> GroupMutationResult aio" where
  "updateGroup pf i name description isPublic priority a =
     (let normalized = js_lower (js_trim name)
      in case find (\<lambda>g. gs_id g = i) (listGroups (aw_db a)) of
           None \<Rightarrow> (Inr group_not_found, a)
         | Some current \<Rightarrow>
             if isProtectedGroupName (gs_name current) \<and> normalized \<noteq> gs_name current then (Inr group_protected, a)
             else (let w1 = pf_others pf ''update-group'' (aw_world a);
                       (r, db) = write_group i normalized description
                         (case isPublic of None \<Rightarrow> gs_isPublic current | Some b \<Rightarrow> b)
                         (case priority of None \<Rightarrow> gs_priority current | Some p \<Rightarrow> p) (w_db w1)
                   in (map_sum id (\<lambda>b. if b then group_updated else group_conflict) r, a\<lparr>aw_world := w1\<lparr>w_db := db\<rparr>\<rparr>)))"

definition drop_group :: "string \<Rightarrow> db \<Rightarrow> db" where
  "drop_group i db = db\<lparr>t_groups := filter (\<lambda>g. gp_id g \<noteq> i) (t_groups db),
     t_user_groups := filter (\<lambda>m. um_groupId m \<noteq> i) (t_user_groups db),
     t_group_requests := filter (\<lambda>q. mq_groupId q \<noteq> i) (t_group_requests db),
     t_permission_group_rules := filter (\<lambda>r. pr_groupId r \<noteq> i) (t_permission_group_rules db)\<rparr>"

definition deletable :: "string \<Rightarrow> db \<Rightarrow> bool" where
  "deletable i db = list_ex (\<lambda>g. gp_id g = i \<and> gp_name g \<notin> {''admins'', ''all''}) (t_groups db)"

definition deleteGroup :: "platform \<Rightarrow> string \<Rightarrow> account_state \<Rightarrow> GroupMutationResult \<times> account_state" where
  "deleteGroup pf i a =
     (case find (\<lambda>g. gs_id g = i) (listGroups (aw_db a)) of
        None \<Rightarrow> (group_not_found, a)
      | Some current \<Rightarrow>
          if isProtectedGroupName (gs_name current) then (group_protected, a)
          else (let w1 = pf_others pf ''delete-group'' (aw_world a)
                in if deletable i (w_db w1) then (group_deleted, a\<lparr>aw_world := w1\<lparr>w_db := drop_group i (w_db w1)\<rparr>\<rparr>)
                   else (group_not_found, a\<lparr>aw_world := w1\<rparr>)))"

section \<open>users.ts: the groups of an account\<close>

definition leave_groups :: "string \<Rightarrow> string list \<Rightarrow> db \<Rightarrow> db" where
  "leave_groups userId desired db = db\<lparr>t_user_groups :=
     filter (\<lambda>m. \<not> (um_userId m = userId \<and> um_groupId m \<notin> set desired \<and> \<not> in_group db ''all'' m)) (t_user_groups db)\<rparr>"

definition too_many_groups :: failure where "too_many_groups = OtherFailure ''RangeError: groups''"

definition set_groups_batch :: "int \<Rightarrow> string \<Rightarrow> string list \<Rightarrow> db \<Rightarrow> (failure, string list) result \<times> db" where
  "set_groups_batch now userId desired db =
     (let db1 = leave_groups userId desired db
      in if dangling_join db1 userId desired then (Inl DatabaseFailure, db)
         else (let (ids, db2) = adminPromotionRevocationStatements userId now (join_groups now userId desired db1)
               in (Inr ids, db2)))"

definition setUserGroups :: "platform \<Rightarrow> string \<Rightarrow> string list \<Rightarrow> unit aio" where
  "setUserGroups pf userId groupIds a =
     (let desired = js_dedup groupIds
      in if length desired > MAX_USER_GROUPS then (Inl too_many_groups, a)
         else (case set_groups_batch (pf_now pf) userId desired (aw_db a) of
                 (Inl e, _) \<Rightarrow> (Inl e, a)
               | (Inr ids, db) \<Rightarrow> (Inr (), mirrorAdminPromotionRefreshRevocations pf ids (upd_account_db (\<lambda>_. db) a))))"

definition replacementIsSafe :: "db \<Rightarrow> string \<Rightarrow> string list \<Rightarrow> bool" where
  "replacementIsSafe db userId desired =
     (list_ex (\<lambda>g. gp_id g \<in> set desired \<and> gp_name g = ''admins'') (t_groups db) \<or>
      \<not> list_ex (\<lambda>m. um_userId m = userId \<and> active_admin_row db (\<lambda>_. True) m \<and> \<not> other_active_admin db (um_userId m))
          (t_user_groups db))"

definition preserving_batch :: "int \<Rightarrow> string \<Rightarrow> string list \<Rightarrow> db \<Rightarrow> (failure, string list) result \<times> db" where
  "preserving_batch now userId desired db =
     (if replacementIsSafe db userId desired \<and> dangling_join db userId desired then (Inl DatabaseFailure, db)
      else (let db1 = (if replacementIsSafe db userId desired then join_groups now userId desired db else db);
                db2 = (if replacementIsSafe db1 userId desired then leave_groups userId desired db1 else db1);
                (ids, db3) = adminPromotionRevocationStatements userId now db2
            in (Inr ids, db3)))"

definition memberships_match :: "db \<Rightarrow> string \<Rightarrow> string list \<Rightarrow> bool" where
  "memberships_match db userId desired =
     (let actual = getUserGroupIds db userId;
          expected = (case getGroupByName db ''all'' of None \<Rightarrow> desired | Some g \<Rightarrow> js_dedup (desired @ [gs_id g]))
      in length actual = length expected \<and> list_all (\<lambda>i. i \<in> set expected) actual)"

definition setUserGroupsPreservingActiveAdmin :: "platform \<Rightarrow> string \<Rightarrow> string list \<Rightarrow> bool aio" where
  "setUserGroupsPreservingActiveAdmin pf userId groupIds a =
     (let desired = js_dedup groupIds
      in if length desired > MAX_USER_GROUPS then (Inl too_many_groups, a)
         else (case preserving_batch (pf_now pf) userId desired (aw_db a) of
                 (Inl e, _) \<Rightarrow> (Inl e, a)
               | (Inr ids, db) \<Rightarrow>
                   (let a1 = mirrorAdminPromotionRefreshRevocations pf ids (upd_account_db (\<lambda>_. db) a)
                    in (Inr (memberships_match (aw_db a1) userId desired), a1))))"

section \<open>Aliases\<close>

lemma generatedAlias_chars: "c \<in> set (generatedAlias email i) \<Longrightarrow> is_alnum c"
  by (auto simp: generatedAlias_def Let_def last_chars_def is_alnum_def is_lower_def is_upper_def is_digit_def
      split: if_splits dest!: in_set_takeD in_set_dropD)

lemma generatedAlias_ok: "\<not> bad_alias (generatedAlias email i)"
proof -
  have "generatedAlias email i \<noteq> []" by (simp add: generatedAlias_def Let_def MAX_ALIAS_LENGTH_def)
  moreover have "length (generatedAlias email i) \<le> MAX_ALIAS_LENGTH" by (simp add: generatedAlias_def Let_def)
  ultimately show ?thesis using generatedAlias_chars by (simp add: bad_alias_def ALIAS_PATTERN_def list_all_iff)
qed

section \<open>Searching\<close>

lemma to_lower_idem [simp]: "to_lower (to_lower c) = to_lower c"
proof (cases "65 \<le> ccode c \<and> ccode c \<le> 90")
  case True
  then have "ccode (char_of (ccode c + 32)) = ccode c + 32" by simp
  then show ?thesis using True by (simp add: to_lower_def is_upper_def)
qed (auto simp: to_lower_def is_upper_def)

lemma js_lower_idem [simp]: "js_lower (js_lower s) = js_lower s"
  by (simp add: js_lower_def comp_def)

text \<open>The escaped text matches itself, up to case, and nothing else of the pattern language.\<close>

lemma escape_Cons:
  "escapeLikePattern (c # q) = (if c \<in> {CHR 0x5C, CHR ''%'', CHR ''_''} then [CHR 0x5C, c] else [c]) @ escapeLikePattern q"
  by (simp add: escapeLikePattern_def)

lemma sql_like_escaped:
  "sql_like (escapeLikePattern q @ ps) s \<longleftrightarrow>
     js_lower (take (length q) s) = js_lower q \<and> sql_like ps (drop (length q) s)"
proof (induction q arbitrary: s)
  case Nil
  then show ?case by (simp add: escapeLikePattern_def js_lower_def)
next
  case (Cons c q)
  have "sql_like (escapeLikePattern (c # q) @ ps) s \<longleftrightarrow>
      (case s of [] \<Rightarrow> False | d # ds \<Rightarrow> to_lower c = to_lower d \<and> sql_like (escapeLikePattern q @ ps) ds)"
    by (auto simp: escape_Cons split: list.split)
  then show ?case by (cases s) (auto simp: Cons.IH js_lower_def)
qed

lemma sql_like_any: "sql_like (CHR ''%'' # ps) s \<longleftrightarrow> (\<exists>xs r. s = xs @ r \<and> sql_like ps r)"
proof (induction s)
  case (Cons c s)
  then show ?case by (auto simp: Cons_eq_append_conv)
qed simp

lemma sql_like_infix:
  "sql_like (''%'' @ escapeLikePattern q @ ''%'') s \<longleftrightarrow> (\<exists>xs m ys. s = xs @ m @ ys \<and> js_lower m = js_lower q)"
proof -
  have "js_lower (take (length q) r) = js_lower q \<longleftrightarrow> (\<exists>m ys. r = m @ ys \<and> js_lower m = js_lower q)" for r
  proof
    assume "js_lower (take (length q) r) = js_lower q"
    then show "\<exists>m ys. r = m @ ys \<and> js_lower m = js_lower q" by (metis append_take_drop_id)
  next
    assume "\<exists>m ys. r = m @ ys \<and> js_lower m = js_lower q"
    then obtain m ys where m: "r = m @ ys" "js_lower m = js_lower q" by blast
    from m(2) have "length m = length q" unfolding js_lower_def by (rule map_eq_imp_length_eq)
    then show "js_lower (take (length q) r) = js_lower q" using m by simp
  qed
  moreover have "sql_like ''%'' r" for r unfolding sql_like_any by auto
  ultimately show ?thesis by (simp add: sql_like_any sql_like_escaped del: sql_like.simps(2)) blast
qed

definition infix_of :: "string \<Rightarrow> string \<Rightarrow> bool" where
  "infix_of part s \<longleftrightarrow> (\<exists>xs ys. s = xs @ part @ ys)"

lemma sql_like_lower: "sql_like (''%'' @ escapeLikePattern (js_lower q) @ ''%'') (js_lower s) \<longleftrightarrow> infix_of (js_lower q) (js_lower s)"
proof -
  have "js_lower m = m" if "js_lower s = xs @ m @ ys" for xs m ys
  proof -
    have "js_lower (xs @ m @ ys) = xs @ m @ ys" using that js_lower_idem [of s] by simp
    then show ?thesis by (simp add: js_lower_def)
  qed
  then show ?thesis unfolding sql_like_infix infix_of_def by (metis js_lower_idem)
qed

text \<open>
  The search of accounts is a literal search. Whatever characters the query has, the wildcards
  and the escape of the pattern language included, the accounts found are those with that id, or
  whose address or name contains the query in either case, newest first and at most \<open>limit\<close> of them.
\<close>

theorem search_users_literal:
  "searchUsers db query limit offset =
     map User.truncate (take limit (drop offset (sort_key (\<lambda>u. - u_createdAt u)
       (filter (\<lambda>u. u_id u = query \<or> infix_of (js_lower query) (js_lower (u_email u)) \<or>
                     infix_of (js_lower query) (js_lower (u_alias u))) (t_users db)))))"
  unfolding searchUsers_def newest_first_def Let_def sql_like_lower ..

section \<open>Deletion\<close>

text \<open>The foreign keys of the tables that refer to accounts, sessions and groups.\<close>

definition opt_in :: "string option \<Rightarrow> string set \<Rightarrow> bool" where
  "opt_in link ids \<longleftrightarrow> (case link of None \<Rightarrow> True | Some i \<Rightarrow> i \<in> ids)"

definition references_ok :: "account_state \<Rightarrow> bool" where
  "references_ok a \<longleftrightarrow>
     (let db = aw_db a; us = user_ids a; ss = sr_id ` set (t_sessions db); gs = gp_id ` set (t_groups db)
      in (\<forall>r\<in>set (t_sessions db). sr_userId r \<in> us) \<and>
         (\<forall>r\<in>set (t_refresh_tokens db). rt_userId r \<in> us \<and> opt_in (rt_sessionId r) ss) \<and>
         (\<forall>r\<in>set (t_consents db). cs_userId r \<in> us) \<and>
         (\<forall>r\<in>set (t_authorization_grants db). gr_userId r \<in> us \<and> opt_in (gr_sessionId r) ss) \<and>
         (\<forall>r\<in>set (t_devices db). opt_in (dv_userId r) us \<and> opt_in (dv_sessionId r) ss) \<and>
         (\<forall>r\<in>set (t_reauth_continuations db). ra_sessionId r \<in> ss) \<and>
         (\<forall>m\<in>set (t_user_groups db). um_userId m \<in> us \<and> um_groupId m \<in> gs) \<and>
         (\<forall>q\<in>set (t_group_requests db). mq_userId q \<in> us \<and> mq_groupId q \<in> gs) \<and>
         (\<forall>r\<in>set (aw_email_verifications a). mt_userId r \<in> us) \<and> (\<forall>r\<in>set (aw_password_resets a). mt_userId r \<in> us) \<and>
         password_owners a \<subseteq> us \<and> passkey_owners a \<subseteq> us)"

lemma opt_in_unlink:
  assumes "opt_in link ids" "ids - set gone \<subseteq> ids'"
  shows "opt_in (unlink gone link) ids'"
  using assms by (auto simp: opt_in_def unlink_def split: option.splits)

text \<open>The sessions that remain, when session ids are unique to an account.\<close>

lemma remaining_sessions:
  "sr_id ` set t - set (map sr_id (filter (\<lambda>r. sr_userId r = i) t)) \<subseteq> sr_id ` set (filter (\<lambda>r. sr_userId r \<noteq> i) t)"
  by auto

lemma user_ids_dropped: "user_ids (drop_user i a) = user_ids a - {i}"
  by (auto simp: drop_user_def drop_user_db_def Let_def forget_sessions_def user_ids_def)

abbreviation sessions_of :: "string \<Rightarrow> account_state \<Rightarrow> string list" where
  "sessions_of i a \<equiv> map sr_id (filter (\<lambda>r. sr_userId r = i) (t_sessions (aw_db a)))"

lemma drop_user_tables:
  "t_sessions (aw_db (drop_user i a)) = filter (\<lambda>r. sr_userId r \<noteq> i) (t_sessions (aw_db a))"
  "t_refresh_tokens (aw_db (drop_user i a)) = filter (\<lambda>r. rt_userId r \<noteq> i)
     (map (\<lambda>r. r\<lparr>rt_sessionId := unlink (sessions_of i a) (rt_sessionId r)\<rparr>) (t_refresh_tokens (aw_db a)))"
  "t_consents (aw_db (drop_user i a)) = filter (\<lambda>r. cs_userId r \<noteq> i) (t_consents (aw_db a))"
  "t_authorization_grants (aw_db (drop_user i a)) = filter (\<lambda>r. gr_userId r \<noteq> i)
     (map (\<lambda>r. r\<lparr>gr_sessionId := unlink (sessions_of i a) (gr_sessionId r)\<rparr>) (t_authorization_grants (aw_db a)))"
  "t_devices (aw_db (drop_user i a)) = map (\<lambda>r. r\<lparr>dv_userId := unlink [i] (dv_userId r)\<rparr>)
     (map (\<lambda>r. r\<lparr>dv_sessionId := unlink (sessions_of i a) (dv_sessionId r)\<rparr>) (t_devices (aw_db a)))"
  "t_reauth_continuations (aw_db (drop_user i a)) =
     filter (\<lambda>r. ra_sessionId r \<notin> set (sessions_of i a)) (t_reauth_continuations (aw_db a))"
  "t_user_groups (aw_db (drop_user i a)) = filter (\<lambda>m. um_userId m \<noteq> i) (t_user_groups (aw_db a))"
  "t_group_requests (aw_db (drop_user i a)) = filter (\<lambda>q. mq_userId q \<noteq> i) (t_group_requests (aw_db a))"
  "t_groups (aw_db (drop_user i a)) = t_groups (aw_db a)"
  "aw_email_verifications (drop_user i a) = filter (\<lambda>r. mt_userId r \<noteq> i) (aw_email_verifications a)"
  "aw_password_resets (drop_user i a) = filter (\<lambda>r. mt_userId r \<noteq> i) (aw_password_resets a)"
  "password_owners (drop_user i a) = password_owners a - {i}" "passkey_owners (drop_user i a) = passkey_owners a - {i}"
  by (auto simp: drop_user_def drop_user_db_def Let_def forget_sessions_def password_owners_def passkey_owners_def)

lemma drop_user_references:
  assumes ok: "references_ok a"
  shows "references_ok (drop_user i a)"
proof -
  let ?ss = "sr_id ` set (t_sessions (aw_db (drop_user i a)))"
  have ss: "sr_id ` set (t_sessions (aw_db a)) - set (sessions_of i a) \<subseteq> ?ss" by (auto simp: drop_user_tables)
  have unlinked: "opt_in (unlink (sessions_of i a) l) ?ss" if "opt_in l (sr_id ` set (t_sessions (aw_db a)))" for l
    by (rule opt_in_unlink [OF that ss])
  have user: "opt_in (unlink [i] l) (user_ids a - {i})" if "opt_in l (user_ids a)" for l
    by (rule opt_in_unlink [OF that]) simp
  note r1 = ok [unfolded references_ok_def Let_def]
  note c1 = conjunct1 [OF r1] and r2 = conjunct2 [OF r1]
  note c2 = conjunct1 [OF r2] and r3 = conjunct2 [OF r2]
  note c3 = conjunct1 [OF r3] and r4 = conjunct2 [OF r3]
  note c4 = conjunct1 [OF r4] and r5 = conjunct2 [OF r4]
  note c5 = conjunct1 [OF r5] and r6 = conjunct2 [OF r5]
  note c6 = conjunct1 [OF r6] and r7 = conjunct2 [OF r6]
  note c7 = conjunct1 [OF r7] and r8 = conjunct2 [OF r7]
  note c8 = conjunct1 [OF r8] and r9 = conjunct2 [OF r8]
  note c9 = conjunct1 [OF r9] and r10 = conjunct2 [OF r9]
  note c10 = conjunct1 [OF r10] and r11 = conjunct2 [OF r10]
  note c11 = conjunct1 [OF r11] and r12 = conjunct2 [OF r11]
  show ?thesis
    unfolding references_ok_def Let_def user_ids_dropped drop_user_tables(9-13)
  proof (intro conjI)
    show "\<forall>r\<in>set (t_refresh_tokens (aw_db (drop_user i a))). rt_userId r \<in> user_ids a - {i} \<and> opt_in (rt_sessionId r) ?ss"
      unfolding drop_user_tables(2) using c2 by (auto simp: unlinked)
    show "\<forall>r\<in>set (t_authorization_grants (aw_db (drop_user i a))). gr_userId r \<in> user_ids a - {i} \<and> opt_in (gr_sessionId r) ?ss"
      unfolding drop_user_tables(4) using c4 by (auto simp: unlinked)
    show "\<forall>r\<in>set (t_devices (aw_db (drop_user i a))). opt_in (dv_userId r) (user_ids a - {i}) \<and> opt_in (dv_sessionId r) ?ss"
      unfolding drop_user_tables(5) using c5 by (auto simp: unlinked user)
    show "\<forall>r\<in>set (t_reauth_continuations (aw_db (drop_user i a))). ra_sessionId r \<in> ?ss"
      using c6 ss unfolding drop_user_tables(6) by auto
  qed (use c1 c3 c7 c8 c9 c10 c11 r12 in \<open>simp_all add: drop_user_tables(1,3,7,8) Diff_mono\<close>)
qed


text \<open>Two administrators; the first one has a session, a refresh token and a password.\<close>

definition demo_admins_db :: db where
  "demo_admins_db = empty_db\<lparr>t_users := [demo_user, demo_user\<lparr>u_id := ''v'', u_email := ''v@x'', u_alias := ''v''\<rparr>],
     t_groups := [\<lparr>gp_id = ''g'', gp_name = ''admins'', gp_priority = 0, gp_description = None, gp_isPublic = False\<rparr>,
                  \<lparr>gp_id = ''h'', gp_name = ''all'', gp_priority = 0, gp_description = None, gp_isPublic = True\<rparr>],
     t_user_groups := [\<lparr>um_userId = ''u'', um_groupId = ''g'', um_createdAt = 0\<rparr>,
                       \<lparr>um_userId = ''u'', um_groupId = ''h'', um_createdAt = 0\<rparr>,
                       \<lparr>um_userId = ''v'', um_groupId = ''g'', um_createdAt = 0\<rparr>,
                       \<lparr>um_userId = ''v'', um_groupId = ''h'', um_createdAt = 0\<rparr>]\<rparr>"

definition demo_admins :: account_state where
  "demo_admins = demo_accounts\<lparr>aw_world := demo_world\<lparr>w_db := demo_admins_db\<rparr>\<rparr>"

lemmas demo_admins_defs = demo_admins_def demo_admins_db_def demo_accounts_def demo_world_def demo_user_def empty_db_def


end
