(* ===== verification/Group_Membership.thy ===== *)
theory Group_Membership
  imports Users
begin

text \<open>
  \<open>src/db/queries/group-memberships.ts\<close>: requests to join a group, their approval and rejection, and
  the addition and removal of members by an administrator.
\<close>

section \<open>Requests of a user\<close>

datatype membership_state = state_member | state_pending | state_available

record PermissionGroupMembershipSummary =
  pm_id :: string
  pm_name :: string
  pm_description :: "string option"
  pm_memberCount :: nat
  pm_state :: membership_state

definition has_request :: "db \<Rightarrow> string \<Rightarrow> string \<Rightarrow> bool" where
  "has_request db userId groupId = list_ex (\<lambda>q. mq_userId q = userId \<and> mq_groupId q = groupId) (t_group_requests db)"

definition membership_state_of :: "db \<Rightarrow> string \<Rightarrow> group_row \<Rightarrow> membership_state" where
  "membership_state_of db userId g =
     (if is_member db userId (gp_id g) then state_member
      else if has_request db userId (gp_id g) then state_pending else state_available)"

fun state_rank :: "membership_state \<Rightarrow> nat" where
  "state_rank state_member = 0"
| "state_rank state_pending = 1"
| "state_rank state_available = 2"

definition listPermissionGroupsForUser :: "db \<Rightarrow> string \<Rightarrow> PermissionGroupMembershipSummary list" where
  "listPermissionGroupsForUser db userId =
     map (\<lambda>g. \<lparr>pm_id = gp_id g, pm_name = gp_name g, pm_description = gp_description g,
               pm_memberCount = changes (\<lambda>m. um_groupId m = gp_id g) (t_user_groups db),
               pm_state = membership_state_of db userId g\<rparr>)
       (sort_key (\<lambda>g. (state_rank (membership_state_of db userId g), gp_name g))
         (filter (\<lambda>g. gp_isPublic g \<and> gp_name g \<noteq> ''admins'' \<or> is_member db userId (gp_id g)) (t_groups db)))"

text \<open>\<open>INSERT OR IGNORE INTO group_membership_requests ... SELECT\<close> for the groups that qualify.\<close>

definition open_to_requests :: "db \<Rightarrow> string \<Rightarrow> (group_row \<Rightarrow> bool) \<Rightarrow> group_row \<Rightarrow> bool" where
  "open_to_requests db userId P g =
     (P g \<and> gp_name g \<notin> {''admins'', ''all''} \<and> \<not> is_member db userId (gp_id g))"

definition insert_request :: "int \<Rightarrow> string \<Rightarrow> (group_row \<Rightarrow> bool) \<Rightarrow> db \<Rightarrow> (failure, string option) result \<times> db" where
  "insert_request now userId P db =
     (case find (\<lambda>g. open_to_requests db userId P g \<and> \<not> has_request db userId (gp_id g)) (t_groups db) of
        None \<Rightarrow> (Inr None, db)
      | Some g \<Rightarrow>
          if \<not> list_ex (\<lambda>u. u_id u = userId) (t_users db) then (Inl DatabaseFailure, db)
          else (Inr (Some (gp_id g)), db\<lparr>t_group_requests := t_group_requests db @
                 [\<lparr>mq_userId = userId, mq_groupId = gp_id g, mq_requestedAt = now\<rparr>]\<rparr>))"

datatype MembershipRequestResult = requested | already_member | already_pending | request_not_found | request_protected

definition requestPermissionGroupMembership ::
  "platform \<Rightarrow> string \<Rightarrow> string \<Rightarrow> MembershipRequestResult aio" where
  "requestPermissionGroupMembership pf userId groupId a =
     (case find (\<lambda>g. gp_id g = groupId \<and> gp_isPublic g) (t_groups (aw_db a)) of
        None \<Rightarrow> (Inr request_not_found, a)
      | Some g \<Rightarrow>
          if isProtectedGroupName (gp_name g) then (Inr request_protected, a)
          else if is_member (aw_db a) userId groupId then (Inr already_member, a)
          else if has_request (aw_db a) userId groupId then (Inr already_pending, a)
          else (let w1 = pf_others pf ''request-membership'' (aw_world a);
                    (r, db) = insert_request (pf_now pf) userId (\<lambda>g. gp_id g = groupId \<and> gp_isPublic g) (w_db w1)
                in (map_sum id (\<lambda>x. if x = None then request_not_found else requested) r, a\<lparr>aw_world := w1\<lparr>w_db := db\<rparr>\<rparr>)))"

definition findPublicPermissionGroupIdByExactName :: "db \<Rightarrow> string \<Rightarrow> string option" where
  "findPublicPermissionGroupIdByExactName db exactGroupName =
     map_option gp_id (find (\<lambda>g. gp_name g = exactGroupName \<and> gp_isPublic g) (t_groups db))"

definition requestHiddenPermissionGroupMembership :: "platform \<Rightarrow> string \<Rightarrow> string \<Rightarrow> string option aio" where
  "requestHiddenPermissionGroupMembership pf userId exactGroupName a =
     (let (r, db) = insert_request (pf_now pf) userId (\<lambda>g. gp_name g = exactGroupName \<and> \<not> gp_isPublic g) (aw_db a)
      in (r, upd_account_db (\<lambda>_. db) a))"

definition drop_request :: "string \<Rightarrow> string \<Rightarrow> db \<Rightarrow> db" where
  "drop_request userId groupId db =
     db\<lparr>t_group_requests := filter (\<lambda>q. \<not> (mq_userId q = userId \<and> mq_groupId q = groupId)) (t_group_requests db)\<rparr>"

definition cancelPermissionGroupMembershipRequest :: "string \<Rightarrow> string \<Rightarrow> account_state \<Rightarrow> bool \<times> account_state" where
  "cancelPermissionGroupMembershipRequest userId groupId a =
     (changes (\<lambda>q. mq_userId q = userId \<and> mq_groupId q = groupId) (t_group_requests (aw_db a)) = 1,
      upd_account_db (drop_request userId groupId) a)"

section \<open>Listings\<close>

record GroupMemberCandidate =
  gm_userId :: string
  gm_email :: string
  gm_alias :: string
  gm_name :: "string option"
  gm_disabled :: bool

record GroupMemberSummary = GroupMemberCandidate +
  gm_joinedAt :: int

record GroupMembershipRequestSummary = GroupMemberCandidate +
  gm_requestedAt :: int

definition candidate_of :: "user_row \<Rightarrow> GroupMemberCandidate" where
  "candidate_of u = \<lparr>gm_userId = u_id u, gm_email = u_email u, gm_alias = u_alias u, gm_name = u_name u, gm_disabled = u_disabled u\<rparr>"

definition mapMember :: "membership_row \<times> user_row \<Rightarrow> GroupMemberSummary" where
  "mapMember r = GroupMemberCandidate.extend (candidate_of (snd r)) (GroupMemberSummary.fields (um_createdAt (fst r)))"

definition listGroupMembers :: "db \<Rightarrow> string \<Rightarrow> nat \<Rightarrow> nat \<Rightarrow> GroupMemberSummary list" where
  "listGroupMembers db groupId limit offset =
     map mapMember (take limit (drop offset
       (sort_key (\<lambda>(m, u). (u_disabled u, js_lower (u_alias u), u_id u))
         (concat (map (\<lambda>m. map (Pair m) (filter (\<lambda>u. u_id u = um_userId m) (t_users db)))
           (filter (\<lambda>m. um_groupId m = groupId) (t_user_groups db)))))))"

definition listPendingGroupMembershipRequests :: "db \<Rightarrow> string \<Rightarrow> nat \<Rightarrow> GroupMembershipRequestSummary list" where
  "listPendingGroupMembershipRequests db groupId limit =
     map (\<lambda>(q, u). GroupMemberCandidate.extend (candidate_of u) (GroupMembershipRequestSummary.fields (mq_requestedAt q)))
       (take limit (sort_key (\<lambda>(q, u). (mq_requestedAt q, u_id u))
         (concat (map (\<lambda>q. map (Pair q) (filter (\<lambda>u. u_id u = mq_userId q) (t_users db)))
           (filter (\<lambda>q. mq_groupId q = groupId \<and> \<not> is_member db (mq_userId q) (mq_groupId q)) (t_group_requests db))))))"

text \<open>\<open>instr(text, part) > 0\<close>.\<close>

fun contains_text :: "string \<Rightarrow> string \<Rightarrow> bool" where
  "contains_text part [] = (part = [])"
| "contains_text part (c # cs) = (take (length part) (c # cs) = part \<or> contains_text part cs)"

definition matches_query :: "string \<Rightarrow> string \<Rightarrow> user_row \<Rightarrow> bool" where
  "matches_query raw normalized u =
     (normalized = [] \<or> u_id u = raw \<or> contains_text normalized (js_lower (u_email u)) \<or>
      contains_text normalized (js_lower (u_alias u)) \<or>
      contains_text normalized (js_lower (case u_name u of None \<Rightarrow> [] | Some n \<Rightarrow> n)))"

definition searchGroupMemberCandidates :: "db \<Rightarrow> string \<Rightarrow> string \<Rightarrow> nat \<Rightarrow> GroupMemberCandidate list" where
  "searchGroupMemberCandidates db groupId query limit =
     (let raw = js_trim query; normalized = js_lower raw
      in map candidate_of (take limit
           (sort_key (\<lambda>u. (\<not> (js_lower (u_email u) = normalized \<or> js_lower (u_alias u) = normalized), u_disabled u, - u_createdAt u))
             (filter (\<lambda>u. \<not> is_member db (u_id u) groupId \<and> matches_query raw normalized u) (t_users db)))))"

section \<open>Members\<close>

datatype AddGroupMemberResult = member_added | member_already | add_not_found | add_limit | add_no_request

text \<open>The memberships that count against the limit: all but the universal group.\<close>

definition group_count :: "db \<Rightarrow> string \<Rightarrow> nat" where
  "group_count db userId =
     length (concat (map (\<lambda>m. filter (\<lambda>g. gp_id g = um_groupId m \<and> gp_name g \<noteq> ''all'') (t_groups db))
       (filter (\<lambda>m. um_userId m = userId) (t_user_groups db))))"

definition user_exists :: "db \<Rightarrow> string \<Rightarrow> bool" where
  "user_exists db userId = list_ex (\<lambda>u. u_id u = userId) (t_users db)"

definition group_exists :: "db \<Rightarrow> string \<Rightarrow> bool" where
  "group_exists db groupId = list_ex (\<lambda>g. gp_id g = groupId) (t_groups db)"

definition may_add :: "db \<Rightarrow> string \<Rightarrow> string \<Rightarrow> bool \<Rightarrow> bool" where
  "may_add db groupId userId requireRequest =
     (user_exists db userId \<and> group_exists db groupId \<and> (\<not> requireRequest \<or> has_request db userId groupId) \<and>
      group_count db userId < MAX_USER_GROUPS)"

text \<open>The batch: whether a row was inserted, and the refresh families of a promotion.\<close>

definition add_member_batch :: "int \<Rightarrow> string \<Rightarrow> string \<Rightarrow> bool \<Rightarrow> db \<Rightarrow> (bool \<times> string list) \<times> db" where
  "add_member_batch now groupId userId requireRequest db =
     (let inserted = (may_add db groupId userId requireRequest \<and> \<not> is_member db userId groupId);
          db1 = (if inserted then join_group now userId groupId db else db);
          (ids, db2) = adminPromotionRevocationStatements userId now db1
      in ((inserted, ids), db2))"

definition addGroupMember ::
  "platform \<Rightarrow> string \<Rightarrow> string \<Rightarrow> bool \<Rightarrow> account_state \<Rightarrow> AddGroupMemberResult \<times> account_state" where
  "addGroupMember pf groupId userId requireRequest a =
     (let ((inserted, ids), db) = add_member_batch (pf_now pf) groupId userId requireRequest (aw_db a);
          a1 = mirrorAdminPromotionRefreshRevocations pf ids (upd_account_db (\<lambda>_. db) a);
          w2 = pf_others pf ''add-member'' (aw_world a1); a2 = a1\<lparr>aw_world := w2\<rparr>; db2 = w_db w2
      in if inserted then (member_added, upd_account_db (drop_request userId groupId) a2)
         else if \<not> user_exists db2 userId \<or> \<not> group_exists db2 groupId then (add_not_found, a2)
         else if requireRequest \<and> \<not> has_request db2 userId groupId then (add_no_request, a2)
         else if is_member db2 userId groupId then (member_already, upd_account_db (drop_request userId groupId) a2)
         else (if group_count db2 userId \<ge> MAX_USER_GROUPS then add_limit else add_not_found, a2))"

definition addUserToPermissionGroup ::
  "platform \<Rightarrow> string \<Rightarrow> string \<Rightarrow> account_state \<Rightarrow> AddGroupMemberResult \<times> account_state" where
  "addUserToPermissionGroup pf groupId userId = addGroupMember pf groupId userId False"

definition approvePermissionGroupMembershipRequest ::
  "platform \<Rightarrow> string \<Rightarrow> string \<Rightarrow> account_state \<Rightarrow> AddGroupMemberResult \<times> account_state" where
  "approvePermissionGroupMembershipRequest pf groupId userId = addGroupMember pf groupId userId True"

definition rejectPermissionGroupMembershipRequest :: "string \<Rightarrow> string \<Rightarrow> account_state \<Rightarrow> bool \<times> account_state" where
  "rejectPermissionGroupMembershipRequest groupId userId a =
     (changes (\<lambda>q. mq_userId q = userId \<and> mq_groupId q = groupId) (t_group_requests (aw_db a)) = 1,
      upd_account_db (drop_request userId groupId) a)"

datatype RemoveGroupMemberResult = member_removed | not_member | last_admin | remove_protected

definition may_remove :: "db \<Rightarrow> string \<Rightarrow> string \<Rightarrow> membership_row \<Rightarrow> bool" where
  "may_remove db groupId userId m =
     (um_userId m = userId \<and> um_groupId m = groupId \<and>
      (\<not> in_group db ''admins'' m \<or>
       list_ex (\<lambda>u. u_id u = um_userId m \<and> u_disabled u) (t_users db) \<or>
       other_active_admin db (um_userId m)))"

definition remove_member :: "string \<Rightarrow> string \<Rightarrow> db \<Rightarrow> db" where
  "remove_member groupId userId db =
     db\<lparr>t_user_groups := filter (\<lambda>m. \<not> may_remove db groupId userId m) (t_user_groups db)\<rparr>"

definition removeUserFromPermissionGroup ::
  "platform \<Rightarrow> string \<Rightarrow> string \<Rightarrow> account_state \<Rightarrow> RemoveGroupMemberResult \<times> account_state" where
  "removeUserFromPermissionGroup pf groupId userId a =
     (if map_option gp_name (find (\<lambda>g. gp_id g = groupId) (t_groups (aw_db a))) = Some ''all'' then (remove_protected, a)
      else (let w1 = pf_others pf ''remove-member'' (aw_world a); db = remove_member groupId userId (w_db w1);
                a1 = a\<lparr>aw_world := w1\<lparr>w_db := db\<rparr>\<rparr>
            in if changes (may_remove (w_db w1) groupId userId) (t_user_groups (w_db w1)) = 1 then (member_removed, a1)
               else (if is_member db userId groupId then last_admin else not_member, a1)))"

end
