(* ===== verification/Administrators.thy ===== *)
theory Administrators
  imports Group_Membership
begin

text \<open>
  What the guards of the account and group operations are for: over every interleaving of them an
  active administrator remains, and an account that becomes an administrator loses every session and
  refresh token it had before.
\<close>

section \<open>The active administrators\<close>

text \<open>There is a group with a name, and \<open>A\<close> is the id of that group alone.\<close>

definition named_group :: "string \<Rightarrow> string \<Rightarrow> db \<Rightarrow> bool" where
  "named_group n A db \<longleftrightarrow> (\<forall>g\<in>set (t_groups db). gp_name g = n \<longleftrightarrow> gp_id g = A) \<and> A \<in> gp_id ` set (t_groups db)"

abbreviation admin_group :: "string \<Rightarrow> db \<Rightarrow> bool" where
  "admin_group \<equiv> named_group ''admins''"

definition members_of :: "string \<Rightarrow> db \<Rightarrow> string set" where
  "members_of A db = um_userId ` {m \<in> set (t_user_groups db). um_groupId m = A}"

definition active_ids :: "db \<Rightarrow> string set" where
  "active_ids db = u_id ` {u \<in> set (t_users db). \<not> u_disabled u}"

definition administered :: "string \<Rightarrow> db \<Rightarrow> bool" where
  "administered A db \<longleftrightarrow> user_keys db \<and> admin_group A db \<and> members_of A db \<inter> active_ids db \<noteq> {}"

lemma in_admins: "admin_group A db \<Longrightarrow> in_group db ''admins'' m \<longleftrightarrow> um_groupId m = A"
  by (auto simp: named_group_def in_group_def list_ex_iff)

lemma isUserAdmin_iff: "admin_group A db \<Longrightarrow> isUserAdmin db i \<longleftrightarrow> i \<in> members_of A db"
proof -
  assume "admin_group A db"
  then have "isUserAdmin db i \<longleftrightarrow> list_ex (\<lambda>m. um_userId m = i \<and> um_groupId m = A) (t_user_groups db)"
    by (simp add: isUserAdmin_def in_group_def [symmetric] in_admins)
  then show ?thesis by (auto simp: list_ex_iff members_of_def)
qed

lemma active_admin_row_iff:
  "admin_group A db \<Longrightarrow> active_admin_row db P m \<longleftrightarrow> um_groupId m = A \<and> um_userId m \<in> active_ids db \<and> P (um_userId m)"
  by (force simp: active_admin_row_def in_admins list_ex_iff active_ids_def)

lemma other_active_admin_iff:
  "admin_group A db \<Longrightarrow> other_active_admin db i \<longleftrightarrow> members_of A db \<inter> active_ids db - {i} \<noteq> {}"
  by (auto simp: other_active_admin_def active_admin_row_iff list_ex_iff members_of_def)

lemmas admin_views = isUserAdmin_iff other_active_admin_iff active_admin_row_iff in_admins

text \<open>A write that leaves the groups alone is judged by its effect on the two sets.\<close>

lemma administeredI:
  assumes "administered A db" "t_groups db' = t_groups db" "user_keys db'"
    and "members_of A db \<inter> active_ids db \<noteq> {} \<Longrightarrow> members_of A db' \<inter> active_ids db' \<noteq> {}"
  shows "administered A db'"
  using assms by (simp add: administered_def named_group_def)

lemma administered_grow:
  assumes "administered A db" "t_groups db' = t_groups db" "user_keys db'"
    and "members_of A db \<subseteq> members_of A db'" "active_ids db \<subseteq> active_ids db'"
  shows "administered A db'"
  by (rule administeredI [OF assms(1-3)]) (use assms(4,5) in blast)

section \<open>Effects on accounts and memberships\<close>

text \<open>The part of the accounts the invariant reads.\<close>

abbreviation roles :: "user_row list \<Rightarrow> (string \<times> bool) list" where
  "roles t \<equiv> map (\<lambda>u. (u_id u, u_disabled u)) t"

lemma roles_views:
  assumes "roles (t_users db') = roles (t_users db)"
  shows "active_ids db' = active_ids db" "user_keys db' = user_keys db"
proof -
  have "active_ids d = fst ` {x \<in> set (roles (t_users d)). \<not> snd x}" for d by (force simp: active_ids_def)
  then show "active_ids db' = active_ids db" by (simp only: assms)
  have "user_keys d = distinct (map fst (roles (t_users d)))" for d by (simp add: user_keys_def comp_def)
  then show "user_keys db' = user_keys db" by (simp only: assms)
qed

lemma views_irrelevant [simp]:
  "members_of A (db\<lparr>t_users := us\<rparr>) = members_of A db" "members_of A (db\<lparr>t_groups := gs\<rparr>) = members_of A db"
  "active_ids (db\<lparr>t_groups := gs\<rparr>) = active_ids db" "active_ids (db\<lparr>t_user_groups := ms\<rparr>) = active_ids db"
  "active_ids (db\<lparr>t_group_requests := qs\<rparr>) = active_ids db" "members_of A (db\<lparr>t_group_requests := qs\<rparr>) = members_of A db"
  "user_keys (db\<lparr>t_groups := gs\<rparr>) = user_keys db" "user_keys (db\<lparr>t_user_groups := ms\<rparr>) = user_keys db"
  "user_keys (db\<lparr>t_group_requests := qs\<rparr>) = user_keys db"
  by (simp_all add: members_of_def active_ids_def user_keys_def)

abbreviation same_roles :: "db \<Rightarrow> db \<Rightarrow> bool" where
  "same_roles db' db \<equiv> t_groups db' = t_groups db \<and> t_user_groups db' = t_user_groups db \<and>
     roles (t_users db') = roles (t_users db)"

lemma same_roles_administered: "administered A db \<Longrightarrow> same_roles db' db \<Longrightarrow> administered A db'"
  using roles_views [of db' db] by (simp add: administered_def named_group_def members_of_def)

lemma revoke_access_roles: "same_roles (snd (revoke_access now i db)) db"
  by (simp add: revoke_access_def)

lemma bumped_roles:
  "roles (update_where P (bump_version now) t) = roles t"
  by (rule map_update_where) (simp add: bump_version_def)

lemma promotion_roles: "same_roles (snd (adminPromotionRevocationStatements i now db)) db"
  using revoke_access_roles [of now i "db\<lparr>t_users := update_where (\<lambda>u. u_id u = i) (bump_version now) (t_users db)\<rparr>"]
  by (simp add: adminPromotionRevocationStatements_def bumped_roles)

text \<open>Joining adds memberships, and touches the requests besides.\<close>

lemma join_group_effect:
  "t_groups (join_group now i g db) = t_groups db" "t_users (join_group now i g db) = t_users db"
  "set (t_user_groups db) \<subseteq> set (t_user_groups (join_group now i g db))"
  by (auto simp: join_group_def)

lemma join_groups_effect:
  "t_groups (join_groups now i gs db) = t_groups db" "t_users (join_groups now i gs db) = t_users db"
  "set (t_user_groups db) \<subseteq> set (t_user_groups (join_groups now i gs db))"
  unfolding join_groups_def
proof (induction gs arbitrary: db)
  case (Cons g gs)
  case 3
  show ?case using join_group_effect(3) [of db now i g] Cons(3) [of "join_group now i g db"] by auto
qed (simp_all add: join_group_effect)

lemma join_groups_members:
  "\<lbrakk>m \<in> set (t_user_groups (join_groups now i gs db)); m \<notin> set (t_user_groups db)\<rbrakk> \<Longrightarrow>
     um_userId m = i \<and> um_groupId m \<in> set gs \<and> um_createdAt m = now"
  unfolding join_groups_def
proof (induction gs arbitrary: db)
  case (Cons g gs)
  then show ?case by (cases "m \<in> set (t_user_groups (join_group now i g db))") (auto simp: join_group_def split: if_splits)
qed simp

lemma is_member_join: "is_member (join_groups now i gs db) i g" if "g \<in> set gs \<or> is_member db i g"
  using that unfolding join_groups_def
proof (induction gs arbitrary: db)
  case (Cons x gs)
  have "g \<in> set gs \<or> is_member (join_group now i x db) i g"
    using Cons.prems by (auto simp: join_group_def is_member_def)
  then show ?case using Cons.IH by simp
qed simp

lemma administered_join: "administered A db \<Longrightarrow> administered A (join_groups now i gs db)"
  by (rule administered_grow [of A db])
    (auto simp: join_groups_effect user_keys_def administered_def active_ids_def members_of_def
      dest: subsetD [OF join_groups_effect(3)])

lemma administered_promotion: "administered A db \<Longrightarrow> administered A (snd (adminPromotionRevocationStatements i now db))"
  by (rule same_roles_administered [OF _ promotion_roles])

section \<open>Histories\<close>

text \<open>
  The states the tables go through, the newest first. Each statement or batch of the operations on
  accounts and groups is one step, so every interleaving of requests is a history; what a request
  read before its batch it read in any earlier state. \<open>elsewhere\<close> is every write of the rest of the
  program, which leaves accounts, their status, groups and memberships alone. The batch that sets the
  first groups of an account runs on an account that is not an administrator.
\<close>

inductive history :: "account_state \<Rightarrow> account_state list \<Rightarrow> bool" for a0 where
  start: "history a0 [a0]"
| create: "\<lbrakk>history a0 (a # h); createUser pf input a = (r, a')\<rbrakk> \<Longrightarrow> history a0 (a' # a # h)"
| update: "\<lbrakk>history a0 (a # h); s \<in> set (a # h); find (\<lambda>u. u_id u = i) (t_users (aw_db s)) = Some current;
     update_user_batch now i (plan_update patch current) (aw_db a) = (r, db)\<rbrakk>
     \<Longrightarrow> history a0 (upd_account_db (\<lambda>_. db) a # a # h)"
| delete: "\<lbrakk>history a0 (a # h); deleteUserPreservingActiveAdmin i a = (r, a')\<rbrakk> \<Longrightarrow> history a0 (a' # a # h)"
| new_group: "\<lbrakk>history a0 (a # h); createGroup pf name d p n a = (r, a')\<rbrakk> \<Longrightarrow> history a0 (a' # a # h)"
| change_group: "\<lbrakk>history a0 (a # h); s \<in> set (a # h); find (\<lambda>g. gs_id g = i) (listGroups (aw_db s)) = Some current;
     \<not> (isProtectedGroupName (gs_name current) \<and> name \<noteq> gs_name current);
     write_group i name d p n (aw_db a) = (r, db)\<rbrakk> \<Longrightarrow> history a0 (upd_account_db (\<lambda>_. db) a # a # h)"
| delete_group: "\<lbrakk>history a0 (a # h); deletable i (aw_db a)\<rbrakk> \<Longrightarrow> history a0 (upd_account_db (drop_group i) a # a # h)"
| first_groups: "\<lbrakk>history a0 (a # h); \<not> isUserAdmin (aw_db a) i; set_groups_batch now i gs (aw_db a) = (r, db)\<rbrakk>
     \<Longrightarrow> history a0 (upd_account_db (\<lambda>_. db) a # a # h)"
| set_groups: "\<lbrakk>history a0 (a # h); preserving_batch now i gs (aw_db a) = (r, db)\<rbrakk>
     \<Longrightarrow> history a0 (upd_account_db (\<lambda>_. db) a # a # h)"
| add_member: "\<lbrakk>history a0 (a # h); add_member_batch now g i req (aw_db a) = (r, db)\<rbrakk>
     \<Longrightarrow> history a0 (upd_account_db (\<lambda>_. db) a # a # h)"
| remove_member: "\<lbrakk>history a0 (a # h); s \<in> set (a # h);
     map_option gp_name (find (\<lambda>x. gp_id x = g) (t_groups (aw_db s))) \<noteq> Some ''all''\<rbrakk>
     \<Longrightarrow> history a0 (upd_account_db (remove_member g i) a # a # h)"
| elsewhere: "\<lbrakk>history a0 (a # h); same_roles (aw_db a') (aw_db a)\<rbrakk> \<Longrightarrow> history a0 (a' # a # h)"

section \<open>Each step keeps an active administrator\<close>

lemma administered_insert:
  assumes "administered A db" "u_id row \<notin> u_id ` set (t_users db)"
  shows "administered A (insert_user row db)"
proof -
  have "administered A (db\<lparr>t_users := t_users db @ [row]\<rparr>)"
    by (rule administered_grow [OF assms(1)]) (use assms in \<open>auto simp: user_keys_def administered_def active_ids_def\<close>)
  then show ?thesis unfolding insert_user_def by (rule administered_join)
qed

lemma administered_create:
  assumes "administered A (aw_db a)" "createUser pf input a = (r, a')"
  shows "administered A (aw_db a')"
  using assms administered_insert [of A "aw_db a" "new_user_row pf input"]
  by (fastforce simp: createUser_def Let_def list_ex_iff user_conflict_def split: if_splits)

text \<open>An account is disabled only if it was, is no administrator, or leaves another one.\<close>

lemma administered_update:
  assumes adm: "administered A db"
  shows "administered A (snd (update_user_batch now i p db))"
proof -
  let ?db1 = "db\<lparr>t_users := update_where (may_update db i p) (apply_plan now p) (t_users db)\<rparr>"
  have g: "admin_group A db" using adm by (simp add: administered_def)
  have "administered A ?db1"
  proof (rule administeredI [OF adm])
    show "user_keys ?db1" using adm by (simp add: administered_def user_keys_def map_update_where apply_plan_def)
    assume "members_of A db \<inter> active_ids db \<noteq> {}"
    then obtain j where j: "j \<in> members_of A db" "j \<in> active_ids db" by blast
    have row: "u_id u \<in> active_ids ?db1" if "u \<in> set (t_users db)" "\<not> u_disabled u" "\<not> (may_update db i p u \<and> pn_disabled p)" for u
    proof -
      let ?v = "if may_update db i p u then apply_plan now p u else u"
      have "?v \<in> set (t_users ?db1)" "\<not> u_disabled ?v" "u_id ?v = u_id u"
        using that by (auto simp: set_update_where apply_plan_def)
      then show ?thesis unfolding active_ids_def by (intro rev_image_eqI [of ?v]) simp_all
    qed
    have kept: "k \<in> active_ids ?db1" if k: "k \<in> active_ids db" "k \<noteq> i" for k
    proof -
      obtain u where u: "u \<in> set (t_users db)" "\<not> u_disabled u" "u_id u = k" using k(1) by (auto simp: active_ids_def)
      show ?thesis using row [OF u(1,2)] u(3) k(2) by (simp add: may_update_def)
    qed
    show "members_of A ?db1 \<inter> active_ids ?db1 \<noteq> {}"
    proof (cases "j \<in> active_ids ?db1")
      case False
      with kept j have "j = i" by blast
      moreover from False j obtain u where "u \<in> set (t_users db)" "u_id u = j" "\<not> u_disabled u" "may_update db i p u" "pn_disabled p"
        using row by (force simp: active_ids_def [of db])
      ultimately have "other_active_admin db i" using j by (auto simp: may_update_def admin_views [OF g])
      then show ?thesis using kept by (auto simp: admin_views [OF g])
    qed (use j in auto)
  qed simp
  then show ?thesis
    using revoke_access_roles [of now i ?db1] same_roles_administered [of A ?db1 "snd (revoke_access now i ?db1)"]
    by (simp add: update_user_batch_def Let_def case_prod_beta)
qed

text \<open>Removing an account or a membership that leaves another active administrator.\<close>

lemma administered_drop:
  assumes adm: "administered A db" and may: "list_ex (may_delete db i) (t_users db)"
  shows "administered A (drop_user_db i db)"
proof -
  have g: "admin_group A db" and keys: "user_keys db" using adm by (simp_all add: administered_def)
  from may obtain u where u: "u \<in> set (t_users db)" "u_id u = i"
    and safe: "u_disabled u \<or> i \<notin> members_of A db \<or> members_of A db \<inter> active_ids db - {i} \<noteq> {}"
    by (auto simp: list_ex_iff may_delete_def admin_views [OF g])
  have views: "members_of A (drop_user_db i db) = members_of A db - {i}" "active_ids (drop_user_db i db) = active_ids db - {i}"
    by (auto simp: drop_user_db_def Let_def forget_sessions_def members_of_def active_ids_def)
  have off: "i \<notin> active_ids db" if "u_disabled u"
    using u keys that by (auto simp: active_ids_def user_keys_def distinct_map inj_on_def)
  show ?thesis
  proof (rule administeredI [OF adm])
    show "user_keys (drop_user_db i db)"
      using keys by (simp add: user_keys_def drop_user_db_def Let_def forget_sessions_def distinct_map_filter)
    show "members_of A db \<inter> active_ids db \<noteq> {} \<Longrightarrow> members_of A (drop_user_db i db) \<inter> active_ids (drop_user_db i db) \<noteq> {}"
      using safe off unfolding views by blast
  qed (simp add: drop_user_db_def Let_def forget_sessions_def)
qed

lemma administered_delete:
  assumes "administered A (aw_db a)" "deleteUserPreservingActiveAdmin i a = (r, a')"
  shows "administered A (aw_db a')"
  using assms by (auto simp: deleteUserPreservingActiveAdmin_def drop_user_def administered_drop split: if_splits)

lemma administered_filter:
  assumes adm: "administered A db"
    and safe: "\<And>m. \<lbrakk>m \<in> set (t_user_groups db); \<not> Q m; um_groupId m = A; um_userId m \<in> active_ids db\<rbrakk> \<Longrightarrow>
      \<exists>k\<in>set (t_user_groups db). Q k \<and> um_groupId k = A \<and> um_userId k \<in> active_ids db"
  shows "administered A (db\<lparr>t_user_groups := filter Q (t_user_groups db)\<rparr>)"
proof (rule administeredI [OF adm])
  assume "members_of A db \<inter> active_ids db \<noteq> {}"
  then obtain m where "m \<in> set (t_user_groups db)" "um_groupId m = A" "um_userId m \<in> active_ids db"
    by (auto simp: members_of_def)
  with safe obtain k where "k \<in> set (t_user_groups db)" "Q k" "um_groupId k = A" "um_userId k \<in> active_ids db"
    by (cases "Q m") blast+
  then show "members_of A (db\<lparr>t_user_groups := filter Q (t_user_groups db)\<rparr>) \<inter> active_ids (db\<lparr>t_user_groups := filter Q (t_user_groups db)\<rparr>) \<noteq> {}"
    by (auto simp: members_of_def)
qed (use adm in \<open>simp_all add: administered_def\<close>)

lemma administered_remove:
  assumes adm: "administered A db"
  shows "administered A (remove_member g i db)"
proof -
  have ag: "admin_group A db" and keys: "user_keys db" using adm by (simp_all add: administered_def)
  show ?thesis unfolding remove_member_def
  proof (rule administered_filter [OF adm])
    fix m assume m: "m \<in> set (t_user_groups db)" "\<not> \<not> may_remove db g i m" "um_groupId m = A" "um_userId m \<in> active_ids db"
    then have "other_active_admin db i"
      using keys by (auto simp: may_remove_def in_admins [OF ag] list_ex_iff active_ids_def user_keys_def distinct_map inj_on_def)
    then show "\<exists>k\<in>set (t_user_groups db). \<not> may_remove db g i k \<and> um_groupId k = A \<and> um_userId k \<in> active_ids db"
      by (auto simp: admin_views [OF ag] members_of_def may_remove_def)
  qed
qed

lemma in_group_groups: "t_groups db' = t_groups db \<Longrightarrow> in_group db' n m = in_group db n m"
  by (simp add: in_group_def)

lemma administered_leave:
  assumes adm: "administered A db"
    and safe: "A \<in> set desired \<or> i \<notin> members_of A db \<or> i \<notin> active_ids db \<or> members_of A db \<inter> active_ids db - {i} \<noteq> {}"
  shows "administered A (leave_groups i desired db)"
  unfolding leave_groups_def
proof (rule administered_filter [OF adm])
  fix m assume m: "m \<in> set (t_user_groups db)" "um_groupId m = A" "um_userId m \<in> active_ids db"
    "\<not> \<not> (um_userId m = i \<and> um_groupId m \<notin> set desired \<and> \<not> in_group db ''all'' m)"
  then have "members_of A db \<inter> active_ids db - {i} \<noteq> {}" using safe by (auto simp: members_of_def)
  then show "\<exists>k\<in>set (t_user_groups db). \<not> (um_userId k = i \<and> um_groupId k \<notin> set desired \<and> \<not> in_group db ''all'' k) \<and>
      um_groupId k = A \<and> um_userId k \<in> active_ids db"
    by (auto simp: members_of_def)
qed

lemma replacementIsSafe_iff:
  assumes "admin_group A db"
  shows "replacementIsSafe db i desired \<longleftrightarrow>
    A \<in> set desired \<or> i \<notin> members_of A db \<or> i \<notin> active_ids db \<or> members_of A db \<inter> active_ids db - {i} \<noteq> {}"
proof -
  have "list_ex (\<lambda>g. gp_id g \<in> set desired \<and> gp_name g = ''admins'') (t_groups db) \<longleftrightarrow> A \<in> set desired"
    using assms by (auto simp: named_group_def list_ex_iff)
  moreover have "list_ex (\<lambda>m. um_userId m = i \<and> active_admin_row db (\<lambda>_. True) m \<and> \<not> other_active_admin db (um_userId m)) (t_user_groups db)
      \<longleftrightarrow> i \<in> members_of A db \<and> i \<in> active_ids db \<and> \<not> other_active_admin db i"
    by (auto simp: list_ex_iff active_admin_row_iff [OF assms] members_of_def)
  ultimately show ?thesis by (auto simp: replacementIsSafe_def other_active_admin_iff [OF assms])
qed

lemma administered_preserving:
  assumes adm: "administered A db"
  shows "administered A (snd (preserving_batch now i desired db))"
proof -
  let ?db1 = "if replacementIsSafe db i desired then join_groups now i desired db else db"
  let ?db2 = "if replacementIsSafe ?db1 i desired then leave_groups i desired ?db1 else ?db1"
  have adm1: "administered A ?db1" using administered_join [OF adm] adm by simp
  then have ag: "admin_group A ?db1" by (simp only: administered_def)
  have "administered A ?db2"
  proof (cases "replacementIsSafe ?db1 i desired")
    case True
    then show ?thesis using administered_leave [OF adm1] replacementIsSafe_iff [OF ag] by (simp only: if_True)
  next
    case False
    then show ?thesis using adm1 by (simp only: if_False)
  qed
  from administered_promotion [OF this] show ?thesis
    using adm by (simp add: preserving_batch_def Let_def case_prod_beta)
qed

lemma administered_first_groups:
  assumes adm: "administered A db" and "\<not> isUserAdmin db i"
  shows "administered A (snd (set_groups_batch now i gs db))"
proof -
  have "i \<notin> members_of A db" using assms isUserAdmin_iff [of A db i] by (simp add: administered_def)
  then have "administered A (leave_groups i gs db)" by (intro administered_leave [OF adm]) simp
  from administered_promotion [OF administered_join [OF this]] show ?thesis
    using adm by (simp add: set_groups_batch_def Let_def case_prod_beta)
qed

lemma administered_add:
  assumes adm: "administered A db"
  shows "administered A (snd (add_member_batch now g i req db))"
proof -
  have "administered A (join_group now i g db)" using administered_join [OF adm, of now i "[g]"] by (simp add: join_groups_def)
  then have "administered A (if may_add db g i req \<and> \<not> is_member db i g then join_group now i g db else db)" using adm by simp
  from administered_promotion [OF this] show ?thesis by (simp add: add_member_batch_def Let_def case_prod_beta)
qed

text \<open>The group \<open>admins\<close> keeps its name and stays the only one, whatever was read before the write.\<close>

lemma named_new_group:
  assumes ng: "named_group n A db" and new: "\<not> list_ex (\<lambda>h. gp_id h = gp_id g \<or> name_conflict (gp_name g) h) (t_groups db)"
  shows "named_group n A (db\<lparr>t_groups := t_groups db @ [g]\<rparr>)"
proof -
  obtain h where h: "h \<in> set (t_groups db)" "gp_id h = A" using ng unfolding named_group_def by blast
  then have "gp_name h = n" using ng by (simp add: named_group_def)
  then have "gp_id g \<noteq> A" "gp_name g \<noteq> n" using new h by (auto simp: list_ex_iff name_conflict_def)
  then show ?thesis using ng by (auto simp: named_group_def)
qed

lemma createGroup_groups:
  assumes "createGroup pf name d p k a = (r, a')" "named_group n A (aw_db a)"
  shows "named_group n A (aw_db a')" "\<exists>gs. aw_db a' = (aw_db a)\<lparr>t_groups := gs\<rparr>"
  using assms named_new_group [OF assms(2)] by (auto simp: createGroup_def Let_def split: if_splits intro: exI [of _ "t_groups (aw_db a)"])

lemma read_group_name:
  assumes "named_group n A db" "find (\<lambda>g. gs_id g = A) (listGroups db) = Some current"
  shows "gs_name current = n"
  using find_Some_mem [OF assms(2)] assms(1) by (auto simp: listGroups_def mapGroup_def named_group_def)

lemma write_group_groups:
  assumes ng: "named_group n A db" and name: "i = A \<Longrightarrow> name = n"
  shows "named_group n A (snd (write_group i name d p k db))" "\<exists>gs. snd (write_group i name d p k db) = db\<lparr>t_groups := gs\<rparr>"
proof -
  let ?hit = "\<lambda>g. gp_id g = i \<and> \<not> list_ex (\<lambda>h. gp_name h = name \<and> gp_id h \<noteq> i) (t_groups db)"
  let ?f = "\<lambda>g. g\<lparr>gp_name := name, gp_description := d, gp_isPublic := p, gp_priority := k\<rparr>"
  have row: "(gp_name (?f g) = n) = (gp_id g = A)" if "g \<in> set (t_groups db)" "?hit g" for g
    using that ng name by (auto simp: named_group_def list_ex_iff)
  have "named_group n A (db\<lparr>t_groups := update_where ?hit ?f (t_groups db)\<rparr>)"
  proof -
    have "gp_id ` set (update_where ?hit ?f (t_groups db)) = gp_id ` set (t_groups db)" by (rule update_where_keys) simp
    moreover have "(gp_name (if ?hit g then ?f g else g) = n) = (gp_id (if ?hit g then ?f g else g) = A)"
      if "g \<in> set (t_groups db)" for g
      using row [OF that] that ng by (auto simp: named_group_def)
    then have "\<forall>g\<in>set (update_where ?hit ?f (t_groups db)). (gp_name g = n) = (gp_id g = A)"
      unfolding set_update_where by blast
    ultimately show ?thesis using ng unfolding named_group_def by simp
  qed
  then show "named_group n A (snd (write_group i name d p k db))" using ng by (simp add: write_group_def Let_def)
  show "\<exists>gs. snd (write_group i name d p k db) = db\<lparr>t_groups := gs\<rparr>"
    by (auto simp: write_group_def Let_def intro: exI [of _ "t_groups db"])
qed

lemma drop_group_named:
  assumes "named_group n A db" "deletable i db" "n \<in> {''admins'', ''all''}"
  shows "i \<noteq> A" "named_group n A (drop_group i db)" "members_of A (drop_group i db) = members_of A db"
proof -
  show i: "i \<noteq> A" using assms by (auto simp: deletable_def list_ex_iff named_group_def)
  show "named_group n A (drop_group i db)" "members_of A (drop_group i db) = members_of A db"
    using assms(1) i by (auto simp: drop_group_def members_of_def named_group_def)
qed

lemma administered_groups:
  assumes "administered A db" "named_group ''admins'' A db'" "\<exists>gs. db' = db\<lparr>t_groups := gs\<rparr>"
  shows "administered A db'"
  using assms by (auto simp: administered_def)

lemma administered_delete_group:
  assumes adm: "administered A db" and "deletable i db"
  shows "administered A (drop_group i db)"
proof -
  have "active_ids (drop_group i db) = active_ids db" "user_keys (drop_group i db) = user_keys db"
    by (simp_all add: drop_group_def active_ids_def user_keys_def)
  then show ?thesis using adm drop_group_named [OF _ assms(2), of "''admins''" A] by (simp add: administered_def)
qed

text \<open>What a handler read of a protected group is its name, which the write keeps.\<close>

lemma protected_name:
  assumes "named_group n A db" "find (\<lambda>g. gs_id g = A) (listGroups db) = Some current" "n \<in> {''admins'', ''all''}"
    and "\<not> (isProtectedGroupName (gs_name current) \<and> name \<noteq> gs_name current)"
  shows "name = n"
  using read_group_name [OF assms(1,2)] assms(3,4) by (auto simp: isProtectedGroupName_def)

lemma history_administered:
  assumes "history a0 h" "administered A (aw_db a0)"
  shows "\<forall>a\<in>set h. administered A (aw_db a)"
  using assms
proof (induction rule: history.induct)
  case (update a h s i current now patch r db)
  then show ?case using administered_update [of A "aw_db a" now i "plan_update patch current"] by simp
next
  case (change_group a h s i current name d p n r db)
  have ag: "admin_group A (aw_db s)" "admin_group A (aw_db a)" using change_group unfolding administered_def by (blast, simp)
  have "name = ''admins''" if "i = A" using protected_name [OF ag(1)] change_group.hyps(3,4) that by simp
  note write_group_groups [where i = i and name = name and d = d and p = p and k = n, OF ag(2) this]
  with change_group show ?case using administered_groups [of A "aw_db a" db] by simp
next
  case (first_groups a h i now gs r db)
  then show ?case using administered_first_groups [of A "aw_db a" i now gs] by simp
next
  case (set_groups a h now i gs r db)
  then show ?case using administered_preserving [of A "aw_db a" now i gs] by simp
next
  case (add_member a h now g i req r db)
  then show ?case using administered_add [of A "aw_db a" now g i req] by simp
next
  case (create a h pf input r a')
  then show ?case using administered_create [of A a pf input r a'] by simp
next
  case (delete a h i r a')
  then show ?case using administered_delete [of A a i r a'] by simp
next
  case (new_group a h pf name d p n r a')
  have adm: "administered A (aw_db a)" using new_group.IH [OF new_group.prems] by simp
  then have ag: "admin_group A (aw_db a)" unfolding administered_def by blast
  have "administered A (aw_db a')" by (rule administered_groups [OF adm createGroup_groups [OF new_group.hyps(2) ag]])
  with new_group.IH [OF new_group.prems] show ?case by simp
next
  case (elsewhere a h a')
  then show ?case using same_roles_administered [of A "aw_db a" "aw_db a'"] by simp
qed (simp_all add: administered_delete_group administered_remove)



section \<open>Promotion\<close>

lemma revoke_access_revokes:
  "\<forall>r\<in>set (t_sessions (snd (revoke_access now i db))). sr_userId r = i \<longrightarrow> se_revokedAt r \<noteq> None"
  "\<forall>r\<in>set (t_refresh_tokens (snd (revoke_access now i db))). rt_userId r = i \<longrightarrow> rt_revokedAt r \<noteq> None"
  unfolding revoke_access_def snd_conv by (simp_all, rule update_where_all, simp_all, rule update_where_all, simp_all)

text \<open>
  A batch that joins an account to groups at an instant and ends with the statements of
  \<open>admin-promotion.ts\<close>: the memberships that appear carry that instant.
\<close>

locale promoting_batch =
  fixes joins batch :: "db \<Rightarrow> db" and i :: string and now :: int
  assumes batch: "batch db = snd (adminPromotionRevocationStatements i now (joins db)) \<or> batch db = db"
    and joins_tables: "t_groups (joins db) = t_groups db" "t_users (joins db) = t_users db"
    and fresh: "\<lbrakk>m \<in> set (t_user_groups (joins db)); m \<notin> set (t_user_groups db); um_userId m = i\<rbrakk> \<Longrightarrow> um_createdAt m = now"
begin

lemma promoted:
  assumes "\<not> isUserAdmin db i" "isUserAdmin (batch db) i"
  shows "batch db = snd (revoke_access now i ((joins db)\<lparr>t_users := update_where (\<lambda>u. u_id u = i) (bump_version now) (t_users db)\<rparr>))"
proof -
  have b: "batch db = snd (adminPromotionRevocationStatements i now (joins db))" using batch assms by fastforce
  have roles: "t_groups (batch db) = t_groups db" "t_user_groups (batch db) = t_user_groups (joins db)"
    using promotion_roles [of i now "joins db"] by (simp_all add: b joins_tables)
  then obtain m where m: "m \<in> set (t_user_groups (joins db))" "um_userId m = i" "in_group db ''admins'' m"
    using assms(2) by (auto simp: isUserAdmin_def in_group_def list_ex_iff)
  moreover have "m \<notin> set (t_user_groups db)" using assms(1) m(2,3) by (auto simp: isUserAdmin_def in_group_def list_ex_iff)
  ultimately have "ADMIN_PROMOTION_PREDICATE (joins db) i now"
    using fresh by (auto simp: ADMIN_PROMOTION_PREDICATE_def list_ex_iff in_group_groups [OF joins_tables(1)])
  then show ?thesis by (simp add: b adminPromotionRevocationStatements_def joins_tables)
qed

lemma promotion_revokes:
  assumes "\<not> isUserAdmin db i" "isUserAdmin (batch db) i"
  shows "\<forall>r\<in>set (t_sessions (batch db)). sr_userId r = i \<longrightarrow> se_revokedAt r \<noteq> None"
    and "\<forall>r\<in>set (t_refresh_tokens (batch db)). rt_userId r = i \<longrightarrow> rt_revokedAt r \<noteq> None"
    and "t_users (batch db) = update_where (\<lambda>u. u_id u = i) (bump_version now) (t_users db)"
proof -
  note b = promoted [OF assms]
  show "\<forall>r\<in>set (t_sessions (batch db)). sr_userId r = i \<longrightarrow> se_revokedAt r \<noteq> None" unfolding b by (rule revoke_access_revokes)
  show "\<forall>r\<in>set (t_refresh_tokens (batch db)). rt_userId r = i \<longrightarrow> rt_revokedAt r \<noteq> None" unfolding b by (rule revoke_access_revokes)
  show "t_users (batch db) = update_where (\<lambda>u. u_id u = i) (bump_version now) (t_users db)" unfolding b by (simp add: revoke_access_def)
qed

end

abbreviation set_groups_joins :: "int \<Rightarrow> string \<Rightarrow> string list \<Rightarrow> db \<Rightarrow> db" where
  "set_groups_joins now i gs db \<equiv> join_groups now i gs (leave_groups i gs db)"

abbreviation preserving_joins :: "int \<Rightarrow> string \<Rightarrow> string list \<Rightarrow> db \<Rightarrow> db" where
  "preserving_joins now i gs db \<equiv>
     (let db1 = (if replacementIsSafe db i gs then join_groups now i gs db else db)
      in if replacementIsSafe db1 i gs then leave_groups i gs db1 else db1)"

abbreviation add_member_joins :: "int \<Rightarrow> string \<Rightarrow> string \<Rightarrow> bool \<Rightarrow> db \<Rightarrow> db" where
  "add_member_joins now g i req db \<equiv> (if may_add db g i req \<and> \<not> is_member db i g then join_group now i g db else db)"

lemma leave_groups_effect:
  "t_groups (leave_groups i gs db) = t_groups db" "t_users (leave_groups i gs db) = t_users db"
  "set (t_user_groups (leave_groups i gs db)) \<subseteq> set (t_user_groups db)"
  by (auto simp: leave_groups_def)

lemmas fresh_membership = join_groups_members [THEN conjunct2, THEN conjunct2]

interpretation set_groups: promoting_batch "set_groups_joins now i gs" "\<lambda>db. snd (set_groups_batch now i gs db)" i now for now i gs
proof
  fix db
  show "snd (set_groups_batch now i gs db) = snd (adminPromotionRevocationStatements i now (set_groups_joins now i gs db)) \<or>
      snd (set_groups_batch now i gs db) = db"
    by (simp add: set_groups_batch_def Let_def case_prod_beta)
  show "um_createdAt m = now"
    if "m \<in> set (t_user_groups (set_groups_joins now i gs db))" "m \<notin> set (t_user_groups db)" for m
    using that leave_groups_effect(3) by (intro fresh_membership [of m now i gs "leave_groups i gs db"]) auto
qed (simp_all add: join_groups_effect leave_groups_effect)

lemma preserving_joins_members:
  "set (t_user_groups (preserving_joins now i gs db)) \<subseteq> set (t_user_groups (join_groups now i gs db))"
proof -
  let ?db1 = "if replacementIsSafe db i gs then join_groups now i gs db else db"
  have "set (t_user_groups ?db1) \<subseteq> set (t_user_groups (join_groups now i gs db))" using join_groups_effect(3) by simp
  moreover have "set (t_user_groups (if replacementIsSafe d i gs then leave_groups i gs d else d)) \<subseteq> set (t_user_groups d)" for d
    using leave_groups_effect(3) by simp
  ultimately show ?thesis unfolding Let_def by (rule order_trans [rotated])
qed

interpretation preserving: promoting_batch "preserving_joins now i gs" "\<lambda>db. snd (preserving_batch now i gs db)" i now for now i gs
proof
  fix db
  show "snd (preserving_batch now i gs db) = snd (adminPromotionRevocationStatements i now (preserving_joins now i gs db)) \<or>
      snd (preserving_batch now i gs db) = db"
    by (simp add: preserving_batch_def Let_def case_prod_beta)
  show "um_createdAt m = now"
    if "m \<in> set (t_user_groups (preserving_joins now i gs db))" "m \<notin> set (t_user_groups db)" for m
    by (rule fresh_membership [OF subsetD [OF preserving_joins_members that(1)] that(2)])
qed (simp_all add: join_groups_effect leave_groups_effect Let_def)

interpretation adding: promoting_batch "add_member_joins now g i req" "\<lambda>db. snd (add_member_batch now g i req db)" i now for now g i req
proof
  fix db
  show "snd (add_member_batch now g i req db) = snd (adminPromotionRevocationStatements i now (add_member_joins now g i req db)) \<or>
      snd (add_member_batch now g i req db) = db"
    by (simp add: add_member_batch_def Let_def case_prod_beta)
  show "um_createdAt m = now"
    if "m \<in> set (t_user_groups (add_member_joins now g i req db))" "m \<notin> set (t_user_groups db)" for m
    using that by (auto simp: join_group_def split: if_splits)
qed (simp_all add: join_group_effect)

text \<open>What a promotion leaves of the access an account had.\<close>

definition access_ended :: "string \<Rightarrow> int \<Rightarrow> db \<Rightarrow> db \<Rightarrow> bool" where
  "access_ended i now db db' \<longleftrightarrow>
     (\<forall>pf token s. getAuthenticatedSessionByToken pf db' token = Some s \<longrightarrow> sr_userId (as_session s) \<noteq> i) \<and>
     (\<forall>r\<in>set (t_refresh_tokens db'). rt_userId r = i \<longrightarrow> rt_revokedAt r \<noteq> None) \<and>
     t_users db' = update_where (\<lambda>u. u_id u = i) (bump_version now) (t_users db)"

lemma access_endedI:
  assumes "\<forall>r\<in>set (t_sessions db'). sr_userId r = i \<longrightarrow> se_revokedAt r \<noteq> None"
    and "\<forall>r\<in>set (t_refresh_tokens db'). rt_userId r = i \<longrightarrow> rt_revokedAt r \<noteq> None"
    and "t_users db' = update_where (\<lambda>u. u_id u = i) (bump_version now) (t_users db)"
  shows "access_ended i now db db'"
proof -
  have "sr_userId (as_session s) \<noteq> i" if "getAuthenticatedSessionByToken pf db' token = Some s" for pf token s
    using that assms(1) by (elim authenticated_row) (auto simp: SessionRecord.defs)
  then show ?thesis using assms(2,3) by (simp add: access_ended_def)
qed

text \<open>
  C34. Promotion starts from nothing. Whichever way an account becomes an administrator, by a
  replacement of its groups, by its first groups, or by an addition or approved request, the same
  batch raises its security version and ends every session and refresh token it had: no session
  token of the account authenticates afterwards, and no refresh token of it is live.
\<close>

theorem promotion_ends_access:
  assumes "\<not> isUserAdmin db i"
    and "db' \<in> {snd (set_groups_batch now i gs db), snd (preserving_batch now i gs db), snd (add_member_batch now g i req db)}"
    and "isUserAdmin db' i"
  shows "access_ended i now db db'"
  using assms
  by (auto intro!: access_endedI [OF set_groups.promotion_revokes] access_endedI [OF preserving.promotion_revokes]
      access_endedI [OF adding.promotion_revokes])

text \<open>An account with an open session joins the administrators.\<close>

definition demo_joining_db :: db where
  "demo_joining_db = demo_admins_db\<lparr>t_user_groups := filter (\<lambda>m. \<not> (um_userId m = ''u'' \<and> um_groupId m = ''g'')) (t_user_groups demo_admins_db)\<rparr>"

theorem promotion_ends_access_witness:
  "\<not> isUserAdmin demo_joining_db ''u'' \<and> isUserAdmin (snd (add_member_batch 5 ''g'' ''u'' False demo_joining_db)) ''u'' \<and>
   access_ended ''u'' 5 demo_joining_db (snd (add_member_batch 5 ''g'' ''u'' False demo_joining_db))"
proof -
  let ?db' = "snd (add_member_batch 5 ''g'' ''u'' False demo_joining_db)"
  have old: "\<not> isUserAdmin demo_joining_db ''u''" by (simp add: demo_joining_db_def demo_admins_defs isUserAdmin_def)
  have "may_add demo_joining_db ''g'' ''u'' False" "\<not> is_member demo_joining_db ''u'' ''g''"
    by (simp_all add: demo_joining_db_def demo_admins_defs may_add_def user_exists_def group_exists_def group_count_def
        MAX_USER_GROUPS_def is_member_def)
  moreover have "isUserAdmin (join_group 5 ''u'' ''g'' demo_joining_db) ''u''"
    by (simp add: demo_joining_db_def demo_admins_defs isUserAdmin_def join_group_def is_member_def)
  ultimately have new: "isUserAdmin ?db' ''u''"
    using promotion_roles [of "''u''" 5 "join_group 5 ''u'' ''g'' demo_joining_db"]
    by (simp add: add_member_batch_def Let_def case_prod_beta isUserAdmin_def)
  show ?thesis using promotion_ends_access [OF old _ new, of 5 "[]" "''g''" False] old new by simp
qed

section \<open>The universal group\<close>

definition universal :: "string \<Rightarrow> db \<Rightarrow> bool" where
  "universal U db \<longleftrightarrow> named_group ''all'' U db \<and> u_id ` set (t_users db) \<subseteq> members_of U db"

lemma in_all: "universal U db \<Longrightarrow> in_group db ''all'' m \<longleftrightarrow> um_groupId m = U"
  by (auto simp: universal_def named_group_def in_group_def list_ex_iff)

lemma universalI:
  assumes "universal U db" "t_groups db' = t_groups db" "u_id ` set (t_users db') \<subseteq> u_id ` set (t_users db)"
    and "members_of U db \<inter> u_id ` set (t_users db') \<subseteq> members_of U db'"
  shows "universal U db'"
  using assms unfolding universal_def named_group_def by (simp only: simp_thms) blast

lemma universal_same_roles: "universal U db \<Longrightarrow> same_roles db' db \<Longrightarrow> universal U db'"
proof (rule universalI)
  assume "same_roles db' db"
  then have "fst ` set (roles (t_users db')) = fst ` set (roles (t_users db))" by simp
  then show "u_id ` set (t_users db') \<subseteq> u_id ` set (t_users db)" by (simp add: image_image)
qed (simp_all add: members_of_def)

lemma members_of_join: "members_of U db \<subseteq> members_of U (join_groups now i gs db)"
  using join_groups_effect(3) [of db now i gs] by (auto simp: members_of_def)

lemma universal_join: "universal U db \<Longrightarrow> universal U (join_groups now i gs db)"
  by (erule universalI) (use members_of_join [of U db now i gs] in \<open>simp_all only: join_groups_effect, blast+\<close>)

lemma universal_leave: "universal U db \<Longrightarrow> universal U (leave_groups i gs db)"
  by (rule universalI) (auto simp: leave_groups_effect, auto simp: leave_groups_def members_of_def in_all)

lemma universal_promotion: "universal U db \<Longrightarrow> universal U (snd (adminPromotionRevocationStatements i now db))"
  by (rule universal_same_roles [OF _ promotion_roles])

lemma is_member_iff: "is_member db i g \<longleftrightarrow> i \<in> members_of g db"
  by (auto simp: is_member_def list_ex_iff members_of_def)

lemma universal_create:
  assumes "universal U (aw_db a)" "createUser pf input a = (r, a')"
  shows "universal U (aw_db a')"
proof -
  have "universal U (insert_user row db)" if u: "universal U db" for row db
  proof -
    let ?gs = "map gp_id (filter (\<lambda>g. gp_name g = ''all'') (t_groups db))" and ?db1 = "db\<lparr>t_users := t_users db @ [row]\<rparr>"
    have "U \<in> set ?gs" using u unfolding universal_def named_group_def by auto
    then have "u_id row \<in> members_of U (join_groups (u_createdAt row) (u_id row) ?gs ?db1)"
      using is_member_join [of U ?gs ?db1] by (simp add: is_member_iff)
    moreover have "u_id ` set (t_users db) \<subseteq> members_of U (join_groups (u_createdAt row) (u_id row) ?gs ?db1)"
      using u members_of_join [of U ?db1 "u_createdAt row" "u_id row" ?gs] unfolding universal_def views_irrelevant by blast
    ultimately show ?thesis
      using u unfolding universal_def insert_user_def by (simp add: join_groups_effect named_group_def)
  qed
  then show ?thesis using assms by (auto simp: createUser_def Let_def split: if_splits)
qed

lemma universal_update: "universal U db \<Longrightarrow> universal U (snd (update_user_batch now i p db))"
proof -
  let ?db1 = "db\<lparr>t_users := update_where (may_update db i p) (apply_plan now p) (t_users db)\<rparr>"
  assume "universal U db"
  then have "universal U ?db1"
    by (rule universalI) (simp_all add: update_where_keys apply_plan_def)
  then show ?thesis
    using revoke_access_roles [of now i ?db1] universal_same_roles [of U ?db1 "snd (revoke_access now i ?db1)"]
    by (simp add: update_user_batch_def Let_def case_prod_beta)
qed

lemma universal_delete:
  assumes "universal U (aw_db a)" "deleteUserPreservingActiveAdmin i a = (r, a')"
  shows "universal U (aw_db a')"
proof -
  have "u_id ` set (t_users (aw_db (drop_user i a))) = u_id ` set (t_users (aw_db a)) - {i}"
    using user_ids_dropped by (simp add: user_ids_def)
  moreover have "members_of U (aw_db (drop_user i a)) = members_of U (aw_db a) - {i}"
    by (auto simp: drop_user_tables members_of_def)
  ultimately have "universal U (aw_db (drop_user i a))"
    by (intro universalI [OF assms(1)]) (auto simp: drop_user_tables)
  then show ?thesis using assms by (auto simp: deleteUserPreservingActiveAdmin_def split: if_splits)
qed

lemma universal_remove: "universal U db \<Longrightarrow> g \<noteq> U \<Longrightarrow> universal U (remove_member g i db)"
  by (rule universalI) (auto simp: remove_member_def members_of_def may_remove_def)

lemma universal_groups:
  assumes "universal U db" "named_group ''all'' U db'" "\<exists>gs. db' = db\<lparr>t_groups := gs\<rparr>"
  shows "universal U db'"
  using assms unfolding universal_def by (elim exE) simp

lemma universal_preserving: "universal U db \<Longrightarrow> universal U (snd (preserving_batch now i gs db))"
  by (simp add: preserving_batch_def Let_def case_prod_beta universal_promotion universal_leave universal_join)

lemma universal_first: "universal U db \<Longrightarrow> universal U (snd (set_groups_batch now i gs db))"
  by (simp add: set_groups_batch_def Let_def case_prod_beta universal_promotion universal_leave universal_join)

lemma universal_add: "universal U db \<Longrightarrow> universal U (snd (add_member_batch now g i req db))"
  using universal_join [of U db now i "[g]"]
  by (simp add: add_member_batch_def Let_def case_prod_beta universal_promotion join_groups_def)

lemma universal_drop_group:
  assumes "universal U db" "deletable i db"
  shows "universal U (drop_group i db)"
proof -
  have ng: "named_group ''all'' U db" and sub: "u_id ` set (t_users db) \<subseteq> members_of U db"
    using assms(1) by (simp_all only: universal_def)
  have "t_users (drop_group i db) = t_users db" by (simp add: drop_group_def)
  then show ?thesis
    using sub drop_group_named [OF ng assms(2)] unfolding universal_def by (simp only: insert_iff simp_thms)
qed

lemma history_universal:
  assumes "history a0 h" "universal U (aw_db a0)"
  shows "\<forall>a\<in>set h. universal U (aw_db a)"
  using assms
proof (induction rule: history.induct)
  case (update a h s i current now patch r db)
  then show ?case using universal_update [of U "aw_db a" now i "plan_update patch current"] by simp
next
  case (change_group a h s i current name d p n r db)
  have ng: "named_group ''all'' U (aw_db s)" "named_group ''all'' U (aw_db a)"
    using change_group unfolding universal_def by (blast, simp)
  have "name = ''all''" if "i = U" using protected_name [OF ng(1)] change_group.hyps(3,4) that by simp
  note write_group_groups [where i = i and name = name and d = d and p = p and k = n, OF ng(2) this]
  with change_group show ?case using universal_groups [of U "aw_db a" db] by simp
next
  case (first_groups a h i now gs r db)
  then show ?case using universal_first [of U "aw_db a" now i gs] by simp
next
  case (set_groups a h now i gs r db)
  then show ?case using universal_preserving [of U "aw_db a" now i gs] by simp
next
  case (add_member a h now g i req r db)
  then show ?case using universal_add [of U "aw_db a" now g i req] by simp
next
  case (create a h pf input r a')
  then show ?case using universal_create [of U a pf input r a'] by simp
next
  case (delete a h i r a')
  then show ?case using universal_delete [of U a i r a'] by simp
next
  case (new_group a h pf name d p n r a')
  have u: "universal U (aw_db a)" using new_group.IH [OF new_group.prems] by simp
  then have ng: "named_group ''all'' U (aw_db a)" unfolding universal_def by blast
  have "universal U (aw_db a')" by (rule universal_groups [OF u createGroup_groups [OF new_group.hyps(2) ng]])
  with new_group.IH [OF new_group.prems] show ?case by simp
next
  case (delete_group a h i)
  have u: "universal U (aw_db a)" using delete_group.IH [OF delete_group.prems] by simp
  have "universal U (drop_group i (aw_db a))" by (rule universal_drop_group [OF u delete_group.hyps(2)])
  with delete_group.IH [OF delete_group.prems] show ?case by simp
next
  case (remove_member a h s g i)
  have "universal U (aw_db s)" using remove_member.IH remove_member.hyps(2) remove_member.prems by blast
  then obtain x where x: "find (\<lambda>x. gp_id x = U) (t_groups (aw_db s)) = Some x" "gp_name x = ''all''"
    unfolding universal_def named_group_def
    by (cases "find (\<lambda>x. gp_id x = U) (t_groups (aw_db s))") (auto simp: find_None_iff dest!: find_Some_mem)
  then have "g \<noteq> U" using remove_member.hyps(3) by auto
  then show ?case using remove_member universal_remove [of U "aw_db a" g i] by simp
next
  case (elsewhere a h a')
  then show ?case using universal_same_roles [of U "aw_db a" "aw_db a'"] by simp
qed simp

text \<open>
  The group \<open>all\<close> is universal and protected. From a database in which every account is a member
  of the one group called \<open>all\<close>, over every history of the account and group operations, whatever
  the requests interleave, every account is a member of it, new ones from their creation, and the
  group keeps its name and is never deleted.
\<close>

theorem universal_group_kept:
  assumes "history a0 h"
    and "\<forall>g\<in>set (t_groups (aw_db a0)). gp_name g = ''all'' \<longleftrightarrow> gp_id g = U" and "group_exists (aw_db a0) U"
    and "\<forall>u\<in>set (t_users (aw_db a0)). is_member (aw_db a0) (u_id u) U"
  shows "\<forall>a\<in>set h. (\<exists>g\<in>set (t_groups (aw_db a)). gp_id g = U \<and> gp_name g = ''all'') \<and>
    (\<forall>u\<in>set (t_users (aw_db a)). is_member (aw_db a) (u_id u) U)"
proof -
  have "universal U (aw_db a0)"
    using assms(2-4) by (auto simp: universal_def named_group_def group_exists_def list_ex_iff is_member_iff)
  from history_universal [OF assms(1) this] show ?thesis
    by (fastforce simp: universal_def named_group_def is_member_iff)
qed

text \<open>A new account of a database with two accounts, and an attempt to take one out of the group.\<close>

definition demo_input :: CreateUserInput where
  "demo_input = \<lparr>cu_email = ''W@x'', cu_alias = None, cu_name = None, cu_picture = None, cu_emailVerified = None\<rparr>"

theorem universal_group_kept_witness:
  "history demo_admins [snd (createUser demo_pf demo_input demo_admins), demo_admins] \<and>
   user_ids (snd (createUser demo_pf demo_input demo_admins)) \<subseteq> members_of ''h'' (aw_db (snd (createUser demo_pf demo_input demo_admins)))"
proof -
  let ?a = "snd (createUser demo_pf demo_input demo_admins)"
  have h: "history demo_admins [?a, demo_admins]"
    by (rule history.create [OF history.start, of demo_pf demo_input _ "fst (createUser demo_pf demo_input demo_admins)"]) simp
  have g: "\<forall>g\<in>set (t_groups (aw_db demo_admins)). gp_name g = ''all'' \<longleftrightarrow> gp_id g = ''h''" "group_exists (aw_db demo_admins) ''h''"
    "\<forall>u\<in>set (t_users (aw_db demo_admins)). is_member (aw_db demo_admins) (u_id u) ''h''"
    by (simp_all add: demo_admins_defs group_exists_def is_member_def)
  from universal_group_kept [OF h g] show ?thesis using h by (auto simp: user_ids_def is_member_iff)
qed

end
