(* ===== verification/Admin_Access.thy ===== *)
theory Admin_Access
  imports Token_Inspection Administrators
begin

text \<open>
  \<open>src/middleware/admin.ts\<close>: the middleware in front of every route under \<open>/admin/\<close>. The result is
  either the response that ends the request, or the user (if any) the handlers run for.
\<close>

section \<open>requireAdminApiToken\<close>

definition ADMIN_API_audience :: string where "ADMIN_API_audience = ''https://admin.pangda.app''"
definition ADMIN_API_readScope :: string where "ADMIN_API_readScope = ''admin.read''"
definition ADMIN_API_writeScope :: string where "ADMIN_API_writeScope = ''admin.write''"

lemmas ADMIN_API = ADMIN_API_audience_def ADMIN_API_readScope_def ADMIN_API_writeScope_def

definition READ_METHODS :: "string list" where "READ_METHODS = [''GET'', ''HEAD'']"

definition admin_invalidToken :: response where
  "admin_invalidToken =
     json_response 401 [(''www-authenticate'', ''Bearer realm=\"admin\", error=\"invalid_token\"'')]
       (JObj [(''error'', JStr ''invalid_token'')])"

definition insufficientScope :: "string \<Rightarrow> response" where
  "insufficientScope requiredScope =
     json_response 403 [(''www-authenticate'',
         ''Bearer realm=\"admin\", error=\"insufficient_scope\", scope=\"'' @ requiredScope @ ''\"'')]
       (JObj [(''error'', JStr ''insufficient_scope''), (''required_scope'', JStr requiredScope)])"

definition reauthenticationRequired :: response where
  "reauthenticationRequired = json_response 403 [] (JObj [(''error'', JStr ''reauthentication_required'')])"

definition required_scope :: "string \<Rightarrow> string" where
  "required_scope verb = (if verb \<in> set READ_METHODS then ADMIN_API_readScope else ADMIN_API_writeScope)"

definition MAX_SAFE_INTEGER :: int where "MAX_SAFE_INTEGER = 2 ^ 53 - 1"

definition recent_auth_claim :: "int \<Rightarrow> json option \<Rightarrow> bool" where
  "recent_auth_claim now claim =
     (case claim of
        Some (JNum t) \<Rightarrow> \<bar>t\<bar> \<le> MAX_SAFE_INTEGER \<and> \<not> t > now \<and> \<not> now - t > RECENT_AUTH_SECONDS
      | _ \<Rightarrow> False)"

text \<open>The checks on a verified payload whose audience, subject and client are texts.\<close>

definition admin_subject ::
  "platform \<Rightarrow> db \<Rightarrow> string \<Rightarrow> claims \<Rightarrow> string \<Rightarrow> string \<Rightarrow> response + User" where
  "admin_subject pf db verb payload sub clientId =
     (let scopes = payload_scopes payload; requiredScope = required_scope verb
      in if requiredScope \<notin> set scopes then Inl (insufficientScope requiredScope)
         else case (getUserById db sub, getClientById db clientId) of
           (Some user, Some client) \<Rightarrow>
             if u_disabled user \<or> \<not> oc_enabled client then Inl admin_invalidToken
             else if \<not> is_ok (resolveResourceForScopes (pf_url pf) (pf_env pf) db client (Some ADMIN_API_audience) scopes)
               then Inl admin_invalidToken
             else if \<not> is_ok (evaluateUserTokenAccess (pf_env pf) db (u_id user) (oc_clientId client) ADMIN_API_audience scopes)
               then Inl admin_invalidToken
             else if requiredScope = ADMIN_API_writeScope \<and> \<not> recent_auth_claim (pf_now pf) (jget payload ''auth_time'')
               then Inl reauthenticationRequired
             else Inr user
         | _ \<Rightarrow> Inl admin_invalidToken)"

definition requireAdminApiToken ::
  "platform \<Rightarrow> db \<Rightarrow> string \<Rightarrow> request \<Rightarrow> User option \<Rightarrow> response + User" where
  "requireAdminApiToken pf db verb rq sessionUser =
     (case (sessionUser, isYoloEnabled (pf_env pf)) of
        (Some user, True) \<Rightarrow> Inr user
      | _ \<Rightarrow>
          (case extractBearerToken rq of
             None \<Rightarrow> Inl admin_invalidToken
           | Some token \<Rightarrow>
               if \<not> isPlausibleCompactJwt token then Inl admin_invalidToken
               else case verifyAccessToken pf token (Some [ADMIN_API_audience]) actor_user of
                 None \<Rightarrow> Inl admin_invalidToken
               | Some payload \<Rightarrow>
                   if jget payload ''aud'' \<noteq> Some (JStr ADMIN_API_audience) then Inl admin_invalidToken
                   else (case (jget payload ''sub'', jget payload ''client_id'') of
                           (Some (JStr sub), Some (JStr clientId)) \<Rightarrow> admin_subject pf db verb payload sub clientId
                         | _ \<Rightarrow> Inl admin_invalidToken)))"

section \<open>Who reaches the administration API\<close>

lemma admin_member: "up_valid (getUserPermissionRules db i) \<Longrightarrow> up_adminMember (getUserPermissionRules db i) \<Longrightarrow> isUserAdmin db i"
  using getUserPermissionRules_admin [of db i] by (fastforce simp: isUserAdmin_def list_ex_iff)

lemma evaluated_admin:
  assumes "is_ok (evaluateUserTokenAccess env db i c r scopes)" "\<not> isYoloEnabled env"
    and "s \<in> set scopes" "s \<in> set ADMIN_SCOPES"
  shows "isUserAdmin db i"
proof -
  have "list_ex (\<lambda>x. x \<in> set ADMIN_SCOPES) (js_dedup scopes)" using assms(3,4) by (auto simp: list_ex_iff)
  then have "up_valid (getUserPermissionRules db i) \<and> up_adminMember (getUserPermissionRules db i)"
    using assms(1,2)
    by (auto simp: evaluateUserTokenAccess_def yoloAllow_def Let_def is_ok_def
        split: if_splits option.splits PermissionRuleDecision.splits)
  then show ?thesis using admin_member by blast
qed

lemma required_scope_admin: "required_scope verb \<in> set ADMIN_SCOPES"
  by (simp add: required_scope_def ADMIN_API ADMIN_SCOPES_def)

text \<open>
  C32. The administration API is open to administrators only. Outside YOLO mode a request passes the
  middleware only with a verified access token issued to a user for the administration audience
  with the scope its method needs, whose user is enabled and is at this moment a member of
  \<open>admins\<close>, whose client is enabled, and, for every method but \<open>GET\<close> and \<open>HEAD\<close>, whose
  authentication is at most ten minutes old; the handlers run for that user.
\<close>

theorem admin_api_administrators_only:
  assumes "\<not> isYoloEnabled (pf_env pf)" and "requireAdminApiToken pf db verb rq sessionUser = Inr user"
  shows "\<exists>token payload clientId.
    extractBearerToken rq = Some token \<and>
    verifyAccessToken pf token (Some [ADMIN_API_audience]) actor_user = Some payload \<and>
    jget payload ''aud'' = Some (JStr ADMIN_API_audience) \<and> jget payload ''client_id'' = Some (JStr clientId) \<and>
    jget payload ''sub'' = Some (JStr (u_id user)) \<and> getUserById db (u_id user) = Some user \<and> \<not> u_disabled user \<and>
    required_scope verb \<in> set (payload_scopes payload) \<and> isUserAdmin db (u_id user) \<and>
    (\<exists>client. getClientById db clientId = Some client \<and> oc_enabled client) \<and>
    (verb \<notin> {''GET'', ''HEAD''} \<longrightarrow>
       (\<exists>t. jget payload ''auth_time'' = Some (JNum t) \<and> t \<le> pf_now pf \<and> pf_now pf - t \<le> 600))"
proof -
  obtain token payload sub clientId where t: "extractBearerToken rq = Some token"
    "verifyAccessToken pf token (Some [ADMIN_API_audience]) actor_user = Some payload"
    "jget payload ''aud'' = Some (JStr ADMIN_API_audience)" "jget payload ''sub'' = Some (JStr sub)"
    "jget payload ''client_id'' = Some (JStr clientId)"
    and s: "admin_subject pf db verb payload sub clientId = Inr user"
    using assms by (auto simp: requireAdminApiToken_def split: option.splits if_splits json.splits)
  obtain client where u: "getUserById db sub = Some user" "\<not> u_disabled user"
    "getClientById db clientId = Some client" "oc_enabled client" "required_scope verb \<in> set (payload_scopes payload)"
    and e: "is_ok (evaluateUserTokenAccess (pf_env pf) db (u_id user) (oc_clientId client) ADMIN_API_audience (payload_scopes payload))"
    and r: "required_scope verb = ADMIN_API_writeScope \<longrightarrow> recent_auth_claim (pf_now pf) (jget payload ''auth_time'')"
    using s by (auto simp: admin_subject_def Let_def split: option.splits if_splits)
  have "\<exists>t. jget payload ''auth_time'' = Some (JNum t) \<and> t \<le> pf_now pf \<and> pf_now pf - t \<le> 600" if "verb \<notin> {''GET'', ''HEAD''}"
    using that r by (auto simp: required_scope_def READ_METHODS_def recent_auth_claim_def RECENT_AUTH_SECONDS_def split: option.splits json.splits)
  then show ?thesis
    using t u getUserById_id [OF u(1)] evaluated_admin [OF e assms(1) u(5) required_scope_admin] by auto
qed

section \<open>An administrator at work\<close>

definition demo_rule :: "string \<Rightarrow> int \<Rightarrow> PermissionRuleCondition \<Rightarrow> group_rule_row" where
  "demo_rule i n c = \<lparr>pr_id = i, pr_groupId = ''g'', pr_effect = allow, pr_condition_json = Some (condition_json c), pr_position = n\<rparr>"

definition demo_api_db :: db where
  "demo_api_db = demo_admins_db\<lparr>
     t_oauth_clients := [demo_client\<lparr>oc_clientId := ''app'', oc_allowedScopes := [''admin.read''], oc_allowedResources := [ADMIN_API_audience]\<rparr>],
     t_oauth_resources := [\<lparr>rs_resourceUri = ADMIN_API_audience, rs_name = ''Admin'', rs_allowedScopes = [''admin.read''], rs_enabled = True,
        rs_mcpEnabled = False, rs_metadataClientPolicy = policy_disabled\<rparr>],
     t_permission_group_rules := [demo_rule ''p'' 0 (SingleMatch field_application equals ''app''),
        demo_rule ''q'' 1 (SingleMatch field_scope equals ''admin.read'')]\<rparr>"

definition demo_claims :: claims where
  "demo_claims = [(''token_use'', JStr ''access_token''), (''aud'', JStr ADMIN_API_audience), (''sub'', JStr ''u''),
     (''client_id'', JStr ''app''), (''scope'', JStr ''admin.read'')]"

definition demo_api_pf :: platform where
  "demo_api_pf = demo_pf\<lparr>pf_jwtVerify := (\<lambda>t opts. Some (Some JWT_TYP_accessToken, demo_claims))\<rparr>"

definition demo_api_request :: request where
  "demo_api_request = \<lparr>rq_headers = [(''authorization'', ''Bearer a.b.c'')], rq_url = ''/admin/users''\<rparr>"

lemma demo_rule_parsed:
  assumes "wf_condition c" "inspectCondition c 1 = \<lparr>in_nodes = 1, in_valid = True, in_standardScope = False\<rparr>"
  shows "parse_condition (condition_json c) = Some c" "revalidate allow c"
proof -
  show p: "parse_condition (condition_json c) = Some c" by (rule parse_condition_json [OF assms(1)])
  show "revalidate allow c"
    using p assms(2)
    by (simp add: revalidate_def validatePermissionGroupRules_def strict_keys_def jget_def rule_bounds Let_def is_ok_def
        del: condition_json.simps inspectCondition.simps)
qed

lemma demo_api_rules:
  "up_valid (getUserPermissionRules demo_api_db ''u'')" "up_adminMember (getUserPermissionRules demo_api_db ''u'')"
  "map (\<lambda>r. (er_effect r, er_condition r)) (up_rules (getUserPermissionRules demo_api_db ''u'')) =
     [(allow, SingleMatch field_application equals ''app''), (allow, SingleMatch field_scope equals ''admin.read'')]"
proof -
  note ok = demo_rule_parsed [of "SingleMatch field_application equals ''app''"]
    demo_rule_parsed [of "SingleMatch field_scope equals ''admin.read''"]
  have r: "getUserPermissionRules demo_api_db ''u'' =
      \<lparr>up_valid = True, up_adminMember = True,
       up_rules = [\<lparr>er_id = ''p'', er_effect = allow, er_condition = SingleMatch field_application equals ''app'',
          er_groupId = ''g'', er_groupName = ''admins'', er_priority = 0\<rparr>,
         \<lparr>er_id = ''q'', er_effect = allow, er_condition = SingleMatch field_scope equals ''admin.read'',
          er_groupId = ''g'', er_groupName = ''admins'', er_priority = 0\<rparr>]\<rparr>"
    using ok
    by (simp add: getUserPermissionRules_def user_rule_rows_def demo_api_db_def demo_admins_db_def empty_db_def demo_rule_def Let_def
        wf_value_def rule_bounds isResourceAuthorizedScope_def RESOURCE_AUTHORIZED_SCOPES_def USER_ONLY_SCOPES_def
        del: condition_json.simps)
  show "up_valid (getUserPermissionRules demo_api_db ''u'')" "up_adminMember (getUserPermissionRules demo_api_db ''u'')"
    "map (\<lambda>r. (er_effect r, er_condition r)) (up_rules (getUserPermissionRules demo_api_db ''u'')) =
     [(allow, SingleMatch field_application equals ''app''), (allow, SingleMatch field_scope equals ''admin.read'')]"
    by (simp_all add: r)
qed

theorem admin_api_administrators_only_witness:
  "\<not> isYoloEnabled (pf_env demo_api_pf) \<and>
   (\<exists>user. requireAdminApiToken demo_api_pf demo_api_db ''GET'' demo_api_request None = Inr user \<and> isUserAdmin demo_api_db (u_id user))"
proof -
  let ?client = "demo_client\<lparr>oc_clientId := ''app'', oc_allowedScopes := [''admin.read''], oc_allowedResources := [ADMIN_API_audience]\<rparr>"
  have y: "\<not> isYoloEnabled (pf_env demo_api_pf)" by (simp add: demo_api_pf_def demo_pf_def demo_env_def isYoloEnabled_def YOLO_ENVIRONMENT_def)
  have "parseScopeString (Some ''admin.read'') = [''admin.read'']" by code_simp
  then have scopes: "payload_scopes demo_claims = [''admin.read'']" by (simp add: payload_scopes_def demo_claims_def jget_def)
  have db: "getUserById demo_api_db ''u'' = Some (User.truncate demo_user)" "getClientById demo_api_db ''app'' = Some ?client"
    by (simp_all add: getUserById_def getClientById_def demo_api_db_def demo_admins_db_def demo_user_def)
  let ?res = "\<lparr>rs_resourceUri = ADMIN_API_audience, rs_name = ''Admin'', rs_allowedScopes = [''admin.read''], rs_enabled = True,
        rs_mcpEnabled = False, rs_metadataClientPolicy = policy_disabled\<rparr>"
  have "getResourceByUri demo_api_db ADMIN_API_audience = Some ?res" by (simp add: getResourceByUri_def demo_api_db_def)
  moreover have "admits (pf_url demo_api_pf) (pf_env demo_api_pf) demo_api_db ?client (Some ADMIN_API_audience) ?res"
    by (simp add: admits_def demo_client_def)
  ultimately have "resolveResourceForScopes (pf_url demo_api_pf) (pf_env demo_api_pf) demo_api_db ?client (Some ADMIN_API_audience) [''admin.read''] =
      Inr ADMIN_API_audience"
    unfolding resolveResourceForScopes_iff [OF y] by (intro exI [of _ ?res]) (auto simp: ADMIN_API)
  then have res: "is_ok (resolveResourceForScopes (pf_url demo_api_pf) (pf_env demo_api_pf) demo_api_db ?client (Some ADMIN_API_audience) [''admin.read''])"
    by (simp add: is_ok_def)
  obtain r1 r2 where rules: "up_rules (getUserPermissionRules demo_api_db ''u'') = [r1, r2]" "er_effect r1 = allow" "er_effect r2 = allow"
    "er_condition r1 = SingleMatch field_application equals ''app''" "er_condition r2 = SingleMatch field_scope equals ''admin.read''"
    using demo_api_rules(3) by auto
  have "evaluateUserTokenAccess (pf_env demo_api_pf) demo_api_db ''u'' ''app'' ADMIN_API_audience [''admin.read''] = Inr ()"
    unfolding evaluateUserTokenAccess_iff [OF y]
    by (simp add: demo_api_rules(1,2) rules Let_def allows_def resolvePermissionRules_def matching_rules_def)
  then have acc: "is_ok (evaluateUserTokenAccess (pf_env demo_api_pf) demo_api_db ''u'' ''app'' ADMIN_API_audience [''admin.read''])"
    by (simp add: is_ok_def)
  have tok: "extractBearerToken demo_api_request = Some ''a.b.c''" "isPlausibleCompactJwt ''a.b.c''"
    by code_simp+
  have ver: "verifyAccessToken demo_api_pf ''a.b.c'' (Some [ADMIN_API_audience]) actor_user = Some demo_claims"
    by (simp add: verifyAccessToken_def demo_api_pf_def demo_claims_def jget_def is_str_def sub_has_client_prefix_def
        valid_audience_def starts_with_def ADMIN_API)
  have f: "\<not> u_disabled (User.truncate demo_user)" "u_id (User.truncate demo_user) = ''u''" "oc_enabled demo_client"
    by (simp_all add: demo_user_def demo_client_def User.defs)
  have run: "requireAdminApiToken demo_api_pf demo_api_db ''GET'' demo_api_request None = Inr (User.truncate demo_user)"
    using tok ver scopes db res acc f
    by (simp add: requireAdminApiToken_def admin_subject_def required_scope_def READ_METHODS_def ADMIN_API demo_claims_def jget_def)
  from admin_api_administrators_only [OF y run] y run show ?thesis by auto
qed

end
