(* ===== verification/Group_Rules.thy ===== *)
theory Group_Rules
  imports Users
begin

text \<open>
  The administration of the permission rules of a group in
  \<open>src/db/queries/permission-group-rules.ts\<close>: reading the policy of a group, checking that the
  rules refer to things that exist, and replacing them. The trigger of the schema that refuses
  rules about standard scopes is part of the insertion.
\<close>

section \<open>Reading\<close>

record PermissionGroupRule =
  pg_id :: string
  pg_effect :: PermissionRuleEffect
  pg_condition :: PermissionRuleCondition

record PermissionGroupPolicy =
  pg_priority :: int
  pg_rules :: "PermissionGroupRule list"

definition parseCondition :: "json option \<Rightarrow> PermissionRuleCondition option" where
  "parseCondition raw = Option.bind raw parse_condition"

definition readable_rule :: "group_rule_row \<Rightarrow> PermissionGroupRule option" where
  "readable_rule r = map_option (\<lambda>c. \<lparr>pg_id = pr_id r, pg_effect = pr_effect r, pg_condition = c\<rparr>) (parseCondition (pr_condition_json r))"

definition getPermissionGroupPolicy :: "db \<Rightarrow> string \<Rightarrow> PermissionGroupPolicy option" where
  "getPermissionGroupPolicy db groupId =
     (case filter (\<lambda>g. gp_id g = groupId) (t_groups db) of
        [g] \<Rightarrow> Some \<lparr>pg_priority = gp_priority g,
                pg_rules = List.map_filter readable_rule (sort_key (\<lambda>r. (pr_position r, pr_id r))
                  (filter (\<lambda>r. pr_groupId r = groupId) (t_permission_group_rules db)))\<rparr>
      | _ \<Rightarrow> None)"

section \<open>References\<close>

datatype ReplaceRulesResult =
    rules_updated | rules_not_found | rules_invalid_rule | rules_invalid_application | rules_invalid_api
  | rules_invalid_scope | rules_standard_scope

definition referenced :: "PermissionRuleField \<Rightarrow> PermissionGroupRuleInput list \<Rightarrow> string list" where
  "referenced f rules =
     js_dedup (map snd (filter (\<lambda>m. fst m = f) (concat (map (\<lambda>r. listPermissionRuleReferences (ri_condition r)) rules))))"

definition validateRuleReferences :: "db \<Rightarrow> PermissionGroupRuleInput list \<Rightarrow> ReplaceRulesResult option" where
  "validateRuleReferences db rules =
     (let applicationIds = referenced field_application rules; apiUris = referenced field_api rules;
          scopes = referenced field_scope rules;
          applications = filter (\<lambda>c. oc_clientKind c \<in> {application, device} \<and> oc_clientId c \<in> set applicationIds) (t_oauth_clients db);
          apis = filter (\<lambda>r. rs_resourceUri r \<in> set apiUris) (t_oauth_resources db);
          offered = js_dedup (filter (\<lambda>s. s \<in> set scopes) (concat (map rs_allowedScopes (t_oauth_resources db))))
      in if length applications \<noteq> length applicationIds then Some rules_invalid_application
         else if length apis \<noteq> length apiUris then Some rules_invalid_api
         else if length offered \<noteq> length scopes then Some rules_invalid_scope
         else None)"

section \<open>Replacing\<close>

text \<open>The trigger \<open>reject_standard_scope_rule_insert\<close>.\<close>

definition standard_scope_rule :: "group_rule_row \<Rightarrow> bool" where
  "standard_scope_rule r =
     (case pr_condition_json r of None \<Rightarrow> False
      | Some j \<Rightarrow> list_ex (\<lambda>s. json_mentions ''scope'' s j) [''openid'', ''profile'', ''email'', ''offline_access''])"

definition rule_row :: "platform \<Rightarrow> string \<Rightarrow> nat \<Rightarrow> PermissionGroupRuleInput \<Rightarrow> group_rule_row" where
  "rule_row pf groupId k r =
     \<lparr>pr_id = (case ri_id r of Some i \<Rightarrow> i | None \<Rightarrow> generateId pf ''prule'' (''rule'' @ nat_string k)),
      pr_groupId = groupId, pr_effect = ri_effect r, pr_condition_json = Some (condition_json (ri_condition r)),
      pr_position = int k\<rparr>"

definition rule_rows :: "platform \<Rightarrow> string \<Rightarrow> PermissionGroupRuleInput list \<Rightarrow> group_rule_row list" where
  "rule_rows pf groupId rules =
     map (\<lambda>k. rule_row pf groupId k (rules ! k)) [0..<length rules]"

text \<open>The batch: the old rules deleted and the new rows inserted, or nothing.\<close>

definition write_rules :: "string \<Rightarrow> group_rule_row list \<Rightarrow> db \<Rightarrow> (failure, unit) result \<times> db" where
  "write_rules groupId rows db =
     (let others = filter (\<lambda>r. pr_groupId r \<noteq> groupId) (t_permission_group_rules db)
      in if list_ex standard_scope_rule rows \<or> \<not> distinct (map pr_id rows) \<or>
            list_ex (\<lambda>r. pr_id r \<in> set (map pr_id rows)) others \<or>
            rows \<noteq> [] \<and> \<not> list_ex (\<lambda>g. gp_id g = groupId) (t_groups db)
         then (Inl DatabaseFailure, db)
         else (Inr (), db\<lparr>t_permission_group_rules := others @ rows\<rparr>))"

definition replacePermissionGroupRules :: "platform \<Rightarrow> string \<Rightarrow> json \<Rightarrow> ReplaceRulesResult aio" where
  "replacePermissionGroupRules pf groupId rawRules a =
     (case validatePermissionGroupRules rawRules of
        Inl issue \<Rightarrow> (Inr (if issue = standard_scope then rules_standard_scope else rules_invalid_rule), a)
      | Inr rules \<Rightarrow>
          (let existing = map pr_id (filter (\<lambda>r. pr_groupId r = groupId) (t_permission_group_rules (aw_db a)))
           in if \<not> list_ex (\<lambda>g. gp_id g = groupId) (t_groups (aw_db a)) then (Inr rules_not_found, a)
              else if list_ex (\<lambda>r. case ri_id r of None \<Rightarrow> False | Some i \<Rightarrow> i \<notin> set existing) rules then (Inr rules_invalid_rule, a)
              else case validateRuleReferences (aw_db a) rules of
                Some issue \<Rightarrow> (Inr issue, a)
              | None \<Rightarrow>
                  (let w1 = pf_others pf ''replace-rules'' (aw_world a);
                       (r, db) = write_rules groupId (rule_rows pf groupId rules) (w_db w1)
                   in (map_sum id (\<lambda>_. rules_updated) r, a\<lparr>aw_world := w1\<lparr>w_db := db\<rparr>\<rparr>))))"

section \<open>What the validator keeps out of the trigger\<close>

lemma json_mentions_condition:
  "json_mentions (field_string f) s (condition_json c) \<longleftrightarrow> (f, s) \<in> set (listPermissionRuleReferences c)"
proof (induction c)
  case (SingleMatch g op v)
  then show ?case by (cases f; cases g) (auto simp: jget_def json_names_def)
next
  case (SetMatch g op vs)
  have "\<not> list_ex (json_mentions (field_string f) s) (map JStr vs)" by (simp add: list_ex_iff)
  then show ?case by (cases f; cases g) (auto simp: jget_def json_names_def list_ex_iff)
next
  case (GroupCond op cs)
  then show ?case by (auto simp: jget_def list_ex_iff)
qed

lemma no_standard_scope_rows:
  assumes "validatePermissionGroupRules raw = Inr rules"
  shows "\<not> list_ex standard_scope_rule (rule_rows pf groupId rules)"
proof -
  have "\<not> mentions_standard (ri_condition r)" if "r \<in> set rules" for r
    using validated_rules_bounded [OF assms] that by blast
  then have "\<not> json_mentions ''scope'' s (condition_json (ri_condition r))" if "r \<in> set rules" "isResourceAuthorizedScope s" for r s
    using that json_mentions_condition [of field_scope s "ri_condition r"] by (auto simp: mentions_standard_def list_ex_iff)
  moreover have "isResourceAuthorizedScope s" if "s \<in> {''openid'', ''profile'', ''email'', ''offline_access''}" for s
    using that by (auto simp: isResourceAuthorizedScope_def RESOURCE_AUTHORIZED_SCOPES_def USER_ONLY_SCOPES_def)
  ultimately show ?thesis
    by (auto simp: list_ex_iff rule_rows_def rule_row_def standard_scope_rule_def)
qed

section \<open>Reading back what was written\<close>

lemma rule_rows_positions: "map pr_position (rule_rows pf g rules) = map int [0..<length rules]"
  by (simp add: rule_rows_def rule_row_def comp_def)

lemma rule_rows_group: "r \<in> set (rule_rows pf g rules) \<Longrightarrow> pr_groupId r = g"
  by (auto simp: rule_rows_def rule_row_def)

lemma sorted_key_unique:
  assumes "sorted (map f xs)" "\<And>x. k x = (f x, g x)" "distinct (map f xs)"
  shows "sort_key k xs = xs"
proof -
  have "sorted (map k xs)"
    using assms(1,3) by (induction xs) (auto simp: assms(2) less_le image_iff)
  then show ?thesis by (rule sort_key_id_if_sorted)
qed

lemma rule_rows_sorted: "sort_key (\<lambda>r. (pr_position r, pr_id r)) (rule_rows pf g rules) = rule_rows pf g rules"
proof (rule sorted_key_unique)
  show "sorted (map pr_position (rule_rows pf g rules))"
    unfolding rule_rows_positions by (simp add: sorted_iff_nth_mono)
  show "distinct (map pr_position (rule_rows pf g rules))"
    unfolding rule_rows_positions by (simp add: distinct_map inj_on_def)
qed simp

text \<open>The rules as they are kept: with the given id or a new one.\<close>

definition kept_rule :: "platform \<Rightarrow> nat \<Rightarrow> PermissionGroupRuleInput \<Rightarrow> PermissionGroupRule" where
  "kept_rule pf k r =
     \<lparr>pg_id = (case ri_id r of Some i \<Rightarrow> i | None \<Rightarrow> generateId pf ''prule'' (''rule'' @ nat_string k)),
      pg_effect = ri_effect r, pg_condition = ri_condition r\<rparr>"

lemma map_filter_all: "(\<And>x. x \<in> set xs \<Longrightarrow> f x = Some (g x)) \<Longrightarrow> List.map_filter f xs = map g xs"
  by (induction xs) (auto simp: List.map_filter_def)

lemma readable_rows:
  assumes "validatePermissionGroupRules raw = Inr rules"
  shows "List.map_filter readable_rule (rule_rows pf g rules) = map (\<lambda>k. kept_rule pf k (rules ! k)) [0..<length rules]"
proof -
  have "readable_rule (rule_row pf g k (rules ! k)) = Some (kept_rule pf k (rules ! k))" if "k < length rules" for k
  proof -
    have "wf_condition (ri_condition (rules ! k))" using validated_rules_bounded [OF assms] that by auto
    then show ?thesis by (simp add: readable_rule_def parseCondition_def rule_row_def kept_rule_def parse_condition_json)
  qed
  then have "List.map_filter (\<lambda>k. readable_rule (rule_row pf g k (rules ! k))) [0..<length rules] =
      map (\<lambda>k. kept_rule pf k (rules ! k)) [0..<length rules]"
    by (intro map_filter_all) simp
  then show ?thesis by (simp add: rule_rows_def List.map_filter_def filter_map comp_def)
qed

lemma validateRuleReferences_issue: "validateRuleReferences db rules \<noteq> Some rules_updated"
  by (simp add: validateRuleReferences_def Let_def)

lemma map_sum_Inr_iff: "map_sum f g x = Inr y \<longleftrightarrow> (\<exists>z. x = Inr z \<and> g z = y)" "map_sum id g x = Inl e \<longleftrightarrow> x = Inl e"
  by (cases x; auto)+

lemma write_rules_fails:
  assumes "write_rules groupId rows db = (Inl e, db')"
  shows "db' = db"
  using assms by (auto simp: write_rules_def Let_def split: if_splits)

lemma filter_by_key:
  assumes "distinct (map k t)" "list_ex (\<lambda>x. k x = i) t"
  obtains x where "filter (\<lambda>x. k x = i) t = [x]"
proof -
  have "\<exists>x. filter (\<lambda>x. k x = i) t = [x]"
    using assms
  proof (induction t)
    case (Cons a t)
    have "filter (\<lambda>x. k x = k a) t = []" using Cons.prems(1) by (auto simp: filter_empty_conv image_iff)
    then show ?case using Cons by (cases "k a = i") auto
  qed simp
  then show ?thesis using that by blast
qed

lemma write_rules_done:
  assumes "write_rules groupId rows db = (Inr (), db')"
  shows "db' = db\<lparr>t_permission_group_rules := filter (\<lambda>r. pr_groupId r \<noteq> groupId) (t_permission_group_rules db) @ rows\<rparr>"
  using assms by (auto simp: write_rules_def Let_def split: if_splits)

lemma rules_replaced:
  assumes "replacePermissionGroupRules pf groupId raw a = (Inr rules_updated, a')"
    and "pf_others pf ''replace-rules'' = id" and "distinct (map gp_id (t_groups (aw_db a)))"
  shows "\<exists>rules. validatePermissionGroupRules raw = Inr rules \<and> validateRuleReferences (aw_db a) rules = None \<and>
    map_option pg_rules (getPermissionGroupPolicy (aw_db a') groupId) =
      Some (map (\<lambda>k. kept_rule pf k (rules ! k)) [0..<length rules]) \<and>
    filter (\<lambda>x. pr_groupId x \<noteq> groupId) (t_permission_group_rules (aw_db a')) =
      filter (\<lambda>x. pr_groupId x \<noteq> groupId) (t_permission_group_rules (aw_db a))"
proof -
  obtain rules where v: "validatePermissionGroupRules raw = Inr rules" "validateRuleReferences (aw_db a) rules = None"
    and g: "list_ex (\<lambda>g. gp_id g = groupId) (t_groups (aw_db a))"
    and w: "write_rules groupId (rule_rows pf groupId rules) (aw_db a) = (Inr (), aw_db a')"
    using assms(1,2) validateRuleReferences_issue
    by (fastforce simp: replacePermissionGroupRules_def Let_def case_prod_beta map_sum_Inr_iff prod_eq_iff
        split: sum.splits if_splits option.splits)
  let ?rows = "rule_rows pf groupId rules"
  have t: "t_permission_group_rules (aw_db a') = filter (\<lambda>r. pr_groupId r \<noteq> groupId) (t_permission_group_rules (aw_db a)) @ ?rows"
    "t_groups (aw_db a') = t_groups (aw_db a)"
    by (simp_all add: write_rules_done [OF w])
  have rows: "filter (\<lambda>r. pr_groupId r = groupId) (t_permission_group_rules (aw_db a')) = ?rows"
    "filter (\<lambda>r. pr_groupId r \<noteq> groupId) ?rows = []"
    using rule_rows_group [of _ pf groupId rules] by (auto simp: t filter_id_conv filter_empty_conv)
  obtain h where "filter (\<lambda>g. gp_id g = groupId) (t_groups (aw_db a)) = [h]"
    using filter_by_key [OF assms(3) g] .
  then have "map_option pg_rules (getPermissionGroupPolicy (aw_db a') groupId) = Some (map (\<lambda>k. kept_rule pf k (rules ! k)) [0..<length rules])"
    by (simp add: getPermissionGroupPolicy_def t(2) rows rule_rows_sorted readable_rows [OF v(1)])
  then show ?thesis using v t(1) rows(2) by auto
qed

lemma rules_write_failed:
  assumes "replacePermissionGroupRules pf groupId raw a = (Inl e, a')" and "pf_others pf ''replace-rules'' = id"
  shows "a' = a \<and> (\<exists>rules. validatePermissionGroupRules raw = Inr rules \<and>
      (\<not> distinct (map pr_id (rule_rows pf groupId rules)) \<or>
       (\<exists>x\<in>set (t_permission_group_rules (aw_db a)). pr_groupId x \<noteq> groupId \<and> pr_id x \<in> set (map pr_id (rule_rows pf groupId rules)))))"
proof -
  obtain rules where v: "validatePermissionGroupRules raw = Inr rules"
    and g: "list_ex (\<lambda>g. gp_id g = groupId) (t_groups (aw_db a))"
    and w: "write_rules groupId (rule_rows pf groupId rules) (aw_db a) = (Inl e, aw_db a')"
    and a': "a' = a\<lparr>aw_world := (aw_world a)\<lparr>w_db := aw_db a'\<rparr>\<rparr>"
    using assms
    by (fastforce simp: replacePermissionGroupRules_def Let_def case_prod_beta map_sum_Inr_iff prod_eq_iff
        split: sum.splits if_splits option.splits)
  have "a' = a" by (subst a') (simp add: write_rules_fails [OF w])
  then show ?thesis
    using v w g no_standard_scope_rows [OF v, of pf groupId]
    by (auto simp: write_rules_def Let_def list_ex_iff split: if_splits)
qed

lemma rules_refused:
  assumes "replacePermissionGroupRules pf groupId raw a = (Inr x, a')" "x \<noteq> rules_updated"
  shows "a' = a"
  using assms
  by (auto simp: replacePermissionGroupRules_def Let_def case_prod_beta map_sum_Inr_iff
      split: sum.splits if_splits option.splits)

text \<open>
  C36. Permission rules are stored exactly. When an administrator replaces the rules of a group, the
  answer \<open>updated\<close> means that the document passed the validator, names only existing applications,
  APIs and offered scopes and only rules of this group; the policy of the group then reads back as
  exactly these rules in their order, and the rules of every other group are untouched. The trigger
  of the schema never fires for them: without a concurrent request the only way to fail after the
  checks is a drawn id already in use, and a failed or refused replacement changes nothing.
\<close>

theorem rules_replaced_exactly:
  assumes "replacePermissionGroupRules pf groupId raw a = (r, a')"
    and "pf_others pf ''replace-rules'' = id" and "distinct (map gp_id (t_groups (aw_db a)))"
  shows "(r = Inr rules_updated \<longrightarrow> (\<exists>rules.
      validatePermissionGroupRules raw = Inr rules \<and> validateRuleReferences (aw_db a) rules = None \<and>
      map_option pg_rules (getPermissionGroupPolicy (aw_db a') groupId) =
        Some (map (\<lambda>k. kept_rule pf k (rules ! k)) [0..<length rules]) \<and>
      filter (\<lambda>x. pr_groupId x \<noteq> groupId) (t_permission_group_rules (aw_db a')) =
        filter (\<lambda>x. pr_groupId x \<noteq> groupId) (t_permission_group_rules (aw_db a)))) \<and>
    (r \<noteq> Inr rules_updated \<longrightarrow> a' = a) \<and>
    (\<forall>e. r = Inl e \<longrightarrow> (\<exists>rules. validatePermissionGroupRules raw = Inr rules \<and>
      (\<not> distinct (map pr_id (rule_rows pf groupId rules)) \<or>
       (\<exists>x\<in>set (t_permission_group_rules (aw_db a)). pr_groupId x \<noteq> groupId \<and> pr_id x \<in> set (map pr_id (rule_rows pf groupId rules))))))"
  using rules_replaced [OF _ assms(2,3), of groupId raw a'] rules_write_failed [OF _ assms(2), of groupId raw a _ a']
    rules_refused [of pf groupId raw a _ a'] assms(1)
  by (cases r) (auto; blast)+

text \<open>A rule for an application that exists.\<close>

definition demo_rules_accounts :: account_state where
  "demo_rules_accounts = upd_account_db (\<lambda>db. db\<lparr>t_oauth_clients := [demo_client\<lparr>oc_clientId := ''app''\<rparr>]\<rparr>) demo_admins"

theorem rules_replaced_exactly_witness:
  "fst (replacePermissionGroupRules demo_pf ''g'' demo_rules demo_rules_accounts) = Inr rules_updated \<and>
   map_option pg_rules (getPermissionGroupPolicy (aw_db (snd (replacePermissionGroupRules demo_pf ''g'' demo_rules demo_rules_accounts))) ''g'') =
     Some [\<lparr>pg_id = ''prule_'' @ pf_ulid demo_pf ''rule0'', pg_effect = allow, pg_condition = SingleMatch field_application equals ''app''\<rparr>]"
proof -
  let ?rule = "\<lparr>ri_id = None, ri_effect = allow, ri_condition = SingleMatch field_application equals ''app''\<rparr>"
  have v: "validatePermissionGroupRules demo_rules = Inr [?rule]" by (rule demo_rules_valid)
  have o: "pf_others demo_pf ''replace-rules'' = id" by (simp add: demo_pf_def fun_eq_iff)
  have d: "distinct (map gp_id (t_groups (aw_db demo_rules_accounts)))" by (simp add: demo_rules_accounts_def demo_admins_defs)
  have refs: "validateRuleReferences (aw_db demo_rules_accounts) [?rule] = None"
    by (simp add: validateRuleReferences_def Let_def referenced_def demo_rules_accounts_def demo_admins_defs demo_client_def)
  have "\<not> list_ex standard_scope_rule (rule_rows demo_pf ''g'' [?rule])" by (rule no_standard_scope_rows [OF v])
  then have ok: "fst (replacePermissionGroupRules demo_pf ''g'' demo_rules demo_rules_accounts) = Inr rules_updated"
    using v refs o
    by (simp add: replacePermissionGroupRules_def Let_def write_rules_def case_prod_beta rule_rows_def)
      (simp add: demo_rules_accounts_def demo_admins_defs)
  obtain r a' where step: "replacePermissionGroupRules demo_pf ''g'' demo_rules demo_rules_accounts = (r, a')" by (rule prod.exhaust)
  have c: "char_of (48 :: nat) = CHR ''0''" by code_simp
  from rules_replaced_exactly [OF step o d] ok step v show ?thesis
    by (auto simp: kept_rule_def generateId_def nat_string.simps c)
qed

end
