(* ===== verification/Mail_Media.thy ===== *)
theory Mail_Media
  imports Group_Membership
begin

text \<open>
  Outgoing mail and stored avatars: \<open>src/email/sender.ts\<close> and \<open>src/media/avatar-service.ts\<close>, with the
  state of the whole site that the administration works on: the accounts, the mail boxes and the
  bucket of avatars. The content of a message is what the templates render; the mail provider, the
  queue, the bucket and the validators of \<open>zod\<close> are parameters.
\<close>

section \<open>The site\<close>

record EmailMessage =
  em_to :: string
  em_subject :: string
  em_html :: string
  em_text :: string

record mail_state =
  mb_queue :: "(string \<times> EmailMessage) list"
  mb_test :: "(string \<times> EmailMessage) list"
  mb_console :: "EmailMessage list"
  mb_sent :: "(string \<times> EmailMessage) list"

record site =
  st_account :: account_state
  st_mail :: mail_state
  st_avatars :: r2_bucket

abbreviation st_db :: "site \<Rightarrow> db" where "st_db s \<equiv> aw_db (st_account s)"

type_synonym 'a sio = "site \<Rightarrow> (failure, 'a) result \<times> site"

definition on_account :: "'a aio \<Rightarrow> 'a sio" where
  "on_account f s = (let (r, a) = f (st_account s) in (r, s\<lparr>st_account := a\<rparr>))"

definition on_world :: "'a io \<Rightarrow> 'a sio" where
  "on_world f s =
     (let (r, w) = f (aw_world (st_account s)) in (r, s\<lparr>st_account := (st_account s)\<lparr>aw_world := w\<rparr>\<rparr>))"

definition on_mail :: "(mail_state \<Rightarrow> (failure, 'a) result \<times> mail_state) \<Rightarrow> 'a sio" where
  "on_mail f s = (let (r, m) = f (st_mail s) in (r, s\<lparr>st_mail := m\<rparr>))"

definition sio_bind :: "'a sio \<Rightarrow> ('a \<Rightarrow> 'b sio) \<Rightarrow> 'b sio" where
  "sio_bind m f s = (case m s of (Inl e, s') \<Rightarrow> (Inl e, s') | (Inr x, s') \<Rightarrow> f x s')"

definition sio_return :: "'a \<Rightarrow> 'a sio" where "sio_return x s = (Inr x, s)"

lemma sio_bind_Inr: "sio_bind m f s = (Inr y, s'') \<longleftrightarrow> (\<exists>x s'. m s = (Inr x, s') \<and> f x s' = (Inr y, s''))"
  by (auto simp: sio_bind_def split: prod.splits sum.splits)

lemma sio_return_simp [simp]: "sio_return x s = (Inr x, s)" by (simp add: sio_return_def)

section \<open>sender.ts\<close>

text \<open>
  The environment of the mail: \<open>EMAIL_DELIVERY_MODE\<close>, \<open>ENVIRONMENT\<close>, the sender address and the key
  of the provider, the drawn identifier, whether the queue accepts, the status the provider answers
  (\<open>None\<close> when the request throws), and the validators of an address and an identifier.
\<close>

record mail_env =
  me_mode :: string
  me_environment :: string
  me_from :: "string option"
  me_apiKey :: "string option"
  me_uuid :: string
  me_queue_up :: bool
  me_provider :: "string \<Rightarrow> EmailMessage \<Rightarrow> nat option"
  me_isEmail :: "string \<Rightarrow> bool"
  me_isUuid :: "string \<Rightarrow> bool"

definition truthy :: "string option \<Rightarrow> bool" where
  "truthy v = (case v of None \<Rightarrow> False | Some s \<Rightarrow> s \<noteq> [])"

definition resend_configured :: "mail_env \<Rightarrow> bool" where
  "resend_configured me = (me_mode me = ''resend'' \<and> truthy (me_apiKey me) \<and> truthy (me_from me))"

definition requireResendConfiguration :: "mail_env \<Rightarrow> (failure, unit) result" where
  "requireResendConfiguration me =
     (if resend_configured me then Inr () else Inl (AppFailure 503 ''Email delivery is unavailable''))"

definition sendEmail :: "mail_env \<Rightarrow> EmailMessage \<Rightarrow> string \<Rightarrow> mail_state \<Rightarrow> (failure, unit) result \<times> mail_state" where
  "sendEmail me msg idempotencyKey m =
     (if me_mode me = ''test'' then (Inr (), m\<lparr>mb_test := (js_lower (em_to msg), msg) # mb_test m\<rparr>)
      else if me_mode me = ''console'' \<and> me_environment me \<noteq> ''production'' then (Inr (), m\<lparr>mb_console := mb_console m @ [msg]\<rparr>)
      else case requireResendConfiguration me of
        Inl e \<Rightarrow> (Inl e, m)
      | Inr _ \<Rightarrow>
          (case me_provider me idempotencyKey msg of
             None \<Rightarrow> (Inl (OtherFailure ''fetch''), m)
           | Some status \<Rightarrow>
               (if 200 \<le> status \<and> status \<le> 299 then Inr () else Inl (AppFailure 502 ''Email delivery failed''),
                m\<lparr>mb_sent := mb_sent m @ [(idempotencyKey, msg)]\<rparr>)))"

definition enqueueEmail :: "mail_env \<Rightarrow> EmailMessage \<Rightarrow> mail_state \<Rightarrow> (failure, unit) result \<times> mail_state" where
  "enqueueEmail me msg m =
     (if me_mode me \<noteq> ''resend'' then sendEmail me msg (me_uuid me) m
      else case requireResendConfiguration me of
        Inl e \<Rightarrow> (Inl e, m)
      | Inr _ \<Rightarrow>
          if me_queue_up me then (Inr (), m\<lparr>mb_queue := mb_queue m @ [(me_uuid me, msg)]\<rparr>)
          else (Inl (OtherFailure ''queue''), m))"

text \<open>A job of the queue as the JSON value that the consumer receives.\<close>

definition queued_json :: "string \<times> EmailMessage \<Rightarrow> json" where
  "queued_json job =
     JObj [(''kind'', JStr ''transactional_email''), (''id'', JStr (fst job)), (''to'', JStr (em_to (snd job))),
           (''subject'', JStr (em_subject (snd job))), (''html'', JStr (em_html (snd job))), (''text'', JStr (em_text (snd job)))]"

fun isQueuedEmailMessage :: "json \<Rightarrow> bool" where
  "isQueuedEmailMessage (JObj ps) = (jget ps ''kind'' = Some (JStr ''transactional_email''))"
| "isQueuedEmailMessage _ = False"

definition text_field :: "(string \<times> json) list \<Rightarrow> string \<Rightarrow> nat \<Rightarrow> nat \<Rightarrow> string option" where
  "text_field ps k lo hi =
     (case jget ps k of Some (JStr s) \<Rightarrow> if lo \<le> length s \<and> length s \<le> hi then Some s else None | _ \<Rightarrow> None)"

fun queuedEmailSchema :: "mail_env \<Rightarrow> json \<Rightarrow> (string \<times> EmailMessage) option" where
  "queuedEmailSchema me (JObj ps) =
     (if jget ps ''kind'' \<noteq> Some (JStr ''transactional_email'') then None
      else case (jget ps ''id'', text_field ps ''to'' 0 254, text_field ps ''subject'' 1 998,
                 text_field ps ''html'' 1 100000, text_field ps ''text'' 1 50000) of
             (Some (JStr i), Some t, Some subj, Some html, Some txt) \<Rightarrow>
               if me_isUuid me i \<and> me_isEmail me t
               then Some (i, \<lparr>em_to = t, em_subject = subj, em_html = html, em_text = txt\<rparr>) else None
           | _ \<Rightarrow> None)"
| "queuedEmailSchema me _ = None"

definition deliverQueuedEmail :: "mail_env \<Rightarrow> json \<Rightarrow> mail_state \<Rightarrow> (failure, unit) result \<times> mail_state" where
  "deliverQueuedEmail me raw m =
     (case queuedEmailSchema me raw of
        None \<Rightarrow> (Inl (OtherFailure ''ZodError''), m)
      | Some (i, msg) \<Rightarrow> sendEmail me msg i m)"

section \<open>avatar-service.ts\<close>

datatype AvatarStoreResult = avatar_stored string AvatarContentType | avatar_rejected AvatarRejection | avatar_not_found

definition avatar_type_string :: "AvatarContentType \<Rightarrow> string" where
  "avatar_type_string t =
     (case t of image_png \<Rightarrow> ''image/png'' | image_jpeg \<Rightarrow> ''image/jpeg'' | image_webp \<Rightarrow> ''image/webp'' | image_gif \<Rightarrow> ''image/gif'')"

text \<open>The first argument tells whether deletions from the bucket fail.\<close>

definition storeUserAvatar :: "bool \<Rightarrow> platform \<Rightarrow> string \<Rightarrow> byte list \<Rightarrow> AvatarStoreResult sio" where
  "storeUserAvatar delete_fails pf userId bytes s =
     (case validateAvatarBytes bytes of
        Inl reason \<Rightarrow> (Inr (avatar_rejected reason), s)
      | Inr (content, t) \<Rightarrow>
          (let key = generateAvatarKey (pf_random pf ''avatar'') t;
               s1 = s\<lparr>st_avatars := putAvatar key content t (st_avatars s)\<rparr>
           in case setUserAvatar pf userId key (avatar_type_string t) (st_account s1) of
                (Inl e, a) \<Rightarrow> (Inl e, s1\<lparr>st_account := a\<rparr>)
              | (Inr None, a) \<Rightarrow>
                  (Inr avatar_not_found, s1\<lparr>st_account := a, st_avatars := deleteAvatarObject delete_fails (Some key) (st_avatars s1)\<rparr>)
              | (Inr (Some previousKey), a) \<Rightarrow>
                  (Inr (avatar_stored key t),
                   s1\<lparr>st_account := a, st_avatars := deleteAvatarObject delete_fails previousKey (st_avatars s1)\<rparr>)))"

definition removeUserAvatar :: "bool \<Rightarrow> platform \<Rightarrow> string \<Rightarrow> bool sio" where
  "removeUserAvatar delete_fails pf userId s =
     (case clearUserAvatar pf userId (st_account s) of
        (Inl e, a) \<Rightarrow> (Inl e, s\<lparr>st_account := a\<rparr>)
      | (Inr (Some (Some key)), a) \<Rightarrow>
          (Inr True, s\<lparr>st_account := a, st_avatars := deleteAvatarObject delete_fails (Some key) (st_avatars s)\<rparr>)
      | (Inr _, a) \<Rightarrow> (Inr False, s\<lparr>st_account := a\<rparr>))"

text \<open>An uploaded field: absent, a text, or a file with its declared size and its bytes.\<close>

datatype upload = no_upload | text_upload string | file_upload nat "byte list"

fun readAvatarUpload :: "upload \<Rightarrow> AvatarRejection + byte list" where
  "readAvatarUpload no_upload = Inl empty_upload"
| "readAvatarUpload (text_upload t) = Inl empty_upload"
| "readAvatarUpload (file_upload declared bytes) =
     (if declared = 0 then Inl empty_upload else if declared > MAX_AVATAR_BYTES then Inl too_large else Inr bytes)"

section \<open>Messages survive the queue\<close>

lemma queued_email_roundtrip:
  assumes "me_isUuid me (fst job)" "me_isEmail me (em_to (snd job))" "length (em_to (snd job)) \<le> 254"
    and "em_subject (snd job) \<noteq> []" "length (em_subject (snd job)) \<le> 998"
    and "em_html (snd job) \<noteq> []" "length (em_html (snd job)) \<le> 100000"
    and "em_text (snd job) \<noteq> []" "length (em_text (snd job)) \<le> 50000"
  shows "isQueuedEmailMessage (queued_json job)" "queuedEmailSchema me (queued_json job) = Some job"
  using assms by (cases job; simp add: queued_json_def jget_def text_field_def Suc_le_eq)+

section \<open>Avatars resolve\<close>

text \<open>
  The schema keeps the keys of two accounts apart; every key an account has is the name of an
  object of the bucket.
\<close>

definition avatar_keys_distinct :: "db \<Rightarrow> bool" where
  "avatar_keys_distinct db \<longleftrightarrow>
     (\<forall>u\<in>set (t_users db). \<forall>v\<in>set (t_users db). u_avatarKey u \<noteq> None \<and> u_avatarKey u = u_avatarKey v \<longrightarrow> u_id u = u_id v)"

definition avatars_resolve :: "site \<Rightarrow> bool" where
  "avatars_resolve s \<longleftrightarrow> user_keys (st_db s) \<and> avatar_keys_distinct (st_db s) \<and>
     (\<forall>u\<in>set (t_users (st_db s)). \<forall>k. u_avatarKey u = Some k \<longrightarrow> st_avatars s k \<noteq> None)"

lemma in_update_by_id:
  "v \<in> set (update_where (\<lambda>u. u_id u = i) f t) \<Longrightarrow> (\<exists>u\<in>set t. u_id u = i \<and> v = f u) \<or> (v \<in> set t \<and> u_id v \<noteq> i)"
  by (induction t) (auto split: if_splits)

lemma swapAvatar_cases:
  assumes "swapAvatar i f key a = (r, a')"
  obtains (absent) "r = Inr None" "a' = a" "i \<notin> user_ids a"
  | (taken) "r = Inl DatabaseFailure" "a' = a" "key \<noteq> None"
      "\<exists>v\<in>set (t_users (aw_db a)). u_id v \<noteq> i \<and> u_avatarKey v = key"
  | (swapped) u where "u \<in> set (t_users (aw_db a))" "u_id u = i" "r = Inr (Some (u_avatarKey u))"
      "\<not> (key \<noteq> None \<and> (\<exists>v\<in>set (t_users (aw_db a)). u_id v \<noteq> i \<and> u_avatarKey v = key))"
      "a' = upd_users (update_where (\<lambda>u. u_id u = i) f) a"
proof (cases "find (\<lambda>u. u_id u = i) (t_users (aw_db a))")
  case None
  then have "r = Inr None" "a' = a" using assms by (simp_all add: swapAvatar_def)
  moreover have "i \<notin> user_ids a" using None by (auto simp: user_ids_def find_None_iff)
  ultimately show ?thesis by (rule absent)
next
  case (Some u)
  note u = find_Some_mem [OF Some]
  show ?thesis
  proof (cases "key \<noteq> None \<and> list_ex (\<lambda>v. u_id v \<noteq> i \<and> u_avatarKey v = key) (t_users (aw_db a))")
    case True
    then show ?thesis using assms Some by (intro taken) (simp_all add: swapAvatar_def list_ex_iff)
  next
    case False
    have "(r, a') = (Inr (Some (u_avatarKey u)), upd_users (update_where (\<lambda>u. u_id u = i) f) a)"
      unfolding assms [symmetric] swapAvatar_def Some option.case if_not_P [OF False] ..
    then show ?thesis using False u by (intro swapped [of u]) (simp_all add: list_ex_iff)
  qed
qed

text \<open>Swapping the key of one account, then dropping the object of the old key.\<close>

lemma avatars_resolve_swap:
  assumes inv: "avatars_resolve s" and u: "u \<in> set (t_users (st_db s))" "u_id u = i"
    and f: "\<And>v. u_id (f v) = u_id v" "\<And>v. u_avatarKey (f v) = key"
    and fresh: "\<not> (key \<noteq> None \<and> (\<exists>v\<in>set (t_users (st_db s)). u_id v \<noteq> i \<and> u_avatarKey v = key))"
    and new: "\<And>k. key = Some k \<Longrightarrow> bucket k \<noteq> None \<and> u_avatarKey u \<noteq> Some k"
    and old: "\<And>k. st_avatars s k \<noteq> None \<Longrightarrow> bucket k \<noteq> None"
  shows "avatars_resolve (s\<lparr>st_account := upd_users (update_where (\<lambda>u. u_id u = i) f) (st_account s),
    st_avatars := deleteAvatarObject delete_fails (u_avatarKey u) bucket\<rparr>)" (is "avatars_resolve ?s'")
proof -
  have keys: "user_keys (st_db s)" "avatar_keys_distinct (st_db s)" using inv by (simp_all add: avatars_resolve_def)
  have t: "t_users (st_db ?s') = update_where (\<lambda>u. u_id u = i) f (t_users (st_db s))" by simp
  have same: "w = u" if "w \<in> set (t_users (st_db s))" "u_id w = i" for w
    using keys(1) u that by (auto simp: user_keys_def distinct_map inj_on_def)
  have k: "user_keys (st_db ?s')" using keys(1) f(1) by (simp add: user_keys_def map_update_where)
  have d: "avatar_keys_distinct (st_db ?s')"
    unfolding avatar_keys_distinct_def t
  proof (intro ballI impI)
    fix v w assume vw: "v \<in> set (update_where (\<lambda>u. u_id u = i) f (t_users (st_db s)))"
      "w \<in> set (update_where (\<lambda>u. u_id u = i) f (t_users (st_db s)))" "u_avatarKey v \<noteq> None \<and> u_avatarKey v = u_avatarKey w"
    have side: "u_id x = i \<and> u_avatarKey x = key \<or> x \<in> set (t_users (st_db s)) \<and> u_id x \<noteq> i"
      if "x \<in> set (update_where (\<lambda>u. u_id u = i) f (t_users (st_db s)))" for x
      using in_update_by_id [OF that] f by auto
    have "u_id v = u_id w" if "v \<in> set (t_users (st_db s))" "w \<in> set (t_users (st_db s))"
      using that vw(3) keys(2) unfolding avatar_keys_distinct_def by blast
    then show "u_id v = u_id w" using side [OF vw(1)] side [OF vw(2)] vw(3) fresh by metis
  qed
  have r: "deleteAvatarObject delete_fails (u_avatarKey u) bucket k \<noteq> None"
    if v: "v \<in> set (update_where (\<lambda>u. u_id u = i) f (t_users (st_db s)))" "u_avatarKey v = Some k" for v k
    using in_update_by_id [OF v(1)]
  proof
    assume "\<exists>x\<in>set (t_users (st_db s)). u_id x = i \<and> v = f x"
    then have "key = Some k" using v(2) f(2) by auto
    then show ?thesis using new by (auto simp: deleteAvatarObject_def split: option.splits)
  next
    assume x: "v \<in> set (t_users (st_db s)) \<and> u_id v \<noteq> i"
    then have "u_avatarKey u \<noteq> Some k" using keys(2) u v(2) unfolding avatar_keys_distinct_def by (metis option.discI)
    moreover have "st_avatars s k \<noteq> None" using inv x v(2) unfolding avatars_resolve_def by blast
    then have "bucket k \<noteq> None" by (rule old)
    ultimately show ?thesis by (auto simp: deleteAvatarObject_def split: option.splits)
  qed
  show ?thesis unfolding avatars_resolve_def using k d r by (simp add: t)
qed

lemma remove_resolves:
  assumes "avatars_resolve s"
  shows "avatars_resolve (snd (removeUserAvatar delete_fails pf userId s))"
proof -
  let ?f = "\<lambda>u. u\<lparr>u_avatarKey := None, u_avatarContentType := None, u_avatarUpdatedAt := None, ur_updatedAt := pf_now pf\<rparr>"
  obtain r a' where sw: "swapAvatar userId ?f None (st_account s) = (r, a')" by (rule prod.exhaust)
  then have c: "clearUserAvatar pf userId (st_account s) = (r, a')" by (simp add: clearUserAvatar_def)
  from sw show ?thesis
  proof (cases rule: swapAvatar_cases)
    case absent
    then show ?thesis using assms by (simp add: removeUserAvatar_def c)
  next
    case (swapped u)
    have "avatars_resolve (s\<lparr>st_account := a', st_avatars := deleteAvatarObject delete_fails (u_avatarKey u) (st_avatars s)\<rparr>)"
      unfolding swapped(5) by (rule avatars_resolve_swap [OF assms swapped(1,2), of ?f None]) simp_all
    then show ?thesis using swapped(3)
      by (cases "u_avatarKey u") (simp_all add: removeUserAvatar_def c deleteAvatarObject_def)
  qed simp
qed

lemma storeUserAvatar_cases:
  assumes "storeUserAvatar delete_fails pf userId bytes s = (r, s')"
  obtains (rejected) reason where "r = Inr (avatar_rejected reason)" "s' = s"
  | (refused) t e where "sniffAvatarType bytes = Some t" "r = Inl e"
      "s' = s\<lparr>st_avatars := putAvatar (generateAvatarKey (pf_random pf ''avatar'') t) bytes t (st_avatars s)\<rparr>"
      "\<exists>v\<in>set (t_users (st_db s)). u_avatarKey v = Some (generateAvatarKey (pf_random pf ''avatar'') t)"
  | (gone) t where "sniffAvatarType bytes = Some t" "r = Inr avatar_not_found" "userId \<notin> user_ids (st_account s)"
      "s' = s\<lparr>st_avatars := deleteAvatarObject delete_fails (Some (generateAvatarKey (pf_random pf ''avatar'') t))
         (putAvatar (generateAvatarKey (pf_random pf ''avatar'') t) bytes t (st_avatars s))\<rparr>"
  | (stored) t u f where "sniffAvatarType bytes = Some t" "r = Inr (avatar_stored (generateAvatarKey (pf_random pf ''avatar'') t) t)"
      "u \<in> set (t_users (st_db s))" "u_id u = userId"
      "\<not> (\<exists>v\<in>set (t_users (st_db s)). u_id v \<noteq> userId \<and> u_avatarKey v = Some (generateAvatarKey (pf_random pf ''avatar'') t))"
      "\<forall>v. u_id (f v) = u_id v" "\<forall>v. u_avatarKey (f v) = Some (generateAvatarKey (pf_random pf ''avatar'') t)"
      "s' = s\<lparr>st_account := upd_users (update_where (\<lambda>u. u_id u = userId) f) (st_account s),
         st_avatars := deleteAvatarObject delete_fails (u_avatarKey u)
           (putAvatar (generateAvatarKey (pf_random pf ''avatar'') t) bytes t (st_avatars s))\<rparr>"
proof (cases "validateAvatarBytes bytes")
  case (Inl reason)
  then show ?thesis using assms by (intro rejected [of reason]) (simp_all add: storeUserAvatar_def)
next
  case (Inr x)
  then obtain t where v: "validateAvatarBytes bytes = Inr (bytes, t)" "sniffAvatarType bytes = Some t"
    by (auto simp: validateAvatarBytes_def split: if_splits option.splits)
  let ?key = "generateAvatarKey (pf_random pf ''avatar'') t"
  let ?f = "\<lambda>u. u\<lparr>u_avatarKey := Some ?key, u_avatarContentType := Some (avatar_type_string t),
       u_avatarUpdatedAt := Some (pf_now pf), ur_updatedAt := pf_now pf\<rparr>"
  obtain q a' where sw: "swapAvatar userId ?f (Some ?key) (st_account s) = (q, a')" by (rule prod.exhaust)
  then have c: "setUserAvatar pf userId ?key (avatar_type_string t) (st_account s) = (q, a')" by (simp add: setUserAvatar_def)
  note run = assms [symmetric, unfolded storeUserAvatar_def v Let_def]
  from sw show ?thesis
  proof (cases rule: swapAvatar_cases)
    case absent
    then show ?thesis using run c v(2) by (intro gone [of t]) simp_all
  next
    case taken
    then show ?thesis using run c v(2) by (intro refused [of t]) auto
  next
    case (swapped u)
    then show ?thesis using run c v(2) by (intro stored [of t u ?f]) simp_all
  qed
qed


definition demo_site :: site where
  "demo_site = \<lparr>st_account = demo_admins, st_mail = \<lparr>mb_queue = [], mb_test = [], mb_console = [], mb_sent = []\<rparr>, st_avatars = (\<lambda>_. None)\<rparr>"


end
