(* ===== verification/Localization.thy ===== *)
theory Localization
  imports Passwords
begin

text \<open>
  Languages and the texts of mails: \<open>src/i18n/index.ts\<close>, \<open>escapeHtml\<close> of \<open>src/views/layout.ts\<close> and
  \<open>src/email/templates.ts\<close>. The entries of the message catalogue are Chinese and Japanese texts,
  which the strings of this development do not hold: the catalogue is an argument. A quality weight
  of \<open>Accept-Language\<close> is counted in thousandths. Formatting dates is left to the platform.
\<close>

section \<open>index.ts: negotiation\<close>

datatype Locale = en | zh_CN | ja

definition SUPPORTED_LOCALES :: "Locale list" where "SUPPORTED_LOCALES = [en, zh_CN, ja]"

fun locale_string :: "Locale \<Rightarrow> string" where
  "locale_string en = ''en''"
| "locale_string zh_CN = ''zh-CN''"
| "locale_string ja = ''ja''"

definition isLocale :: "string option \<Rightarrow> Locale option" where
  "isLocale v = (case v of None \<Rightarrow> None | Some s \<Rightarrow> find (\<lambda>l. locale_string l = s) SUPPORTED_LOCALES)"

definition localeForLanguageTag :: "string \<Rightarrow> Locale option" where
  "localeForLanguageTag tag =
     (let normalized = js_lower (js_trim tag)
      in if normalized = ''zh'' \<or> starts_with ''zh-'' normalized then Some zh_CN
         else if normalized = ''ja'' \<or> starts_with ''ja-'' normalized then Some ja
         else if normalized = ''en'' \<or> starts_with ''en-'' normalized then Some en
         else None)"

text \<open>The text after \<open>q=\<close> of a parameter that matches \<open>/^\s*q\s*=/i\<close>.\<close>

definition quality_text :: "string \<Rightarrow> string option" where
  "quality_text parameter =
     (case dropWhile is_ws parameter of
        c # rest \<Rightarrow>
          if c = CHR ''q'' \<or> c = CHR ''Q''
          then (case dropWhile is_ws rest of d # value_text \<Rightarrow> if d = CHR ''='' then Some value_text else None | [] \<Rightarrow> None)
          else None
      | [] \<Rightarrow> None)"

definition digit_value :: "char \<Rightarrow> nat" where "digit_value c = ccode c - 48"

text \<open>The number of \<open>0(?:\.\d{0,3})?|1(?:\.0{0,3})?\<close>, in thousandths; anything else counts as 0.\<close>

definition fraction :: "string \<Rightarrow> nat option" where
  "fraction ds =
     (if length ds \<le> 3 \<and> list_all is_digit ds
      then Some (foldl (\<lambda>n d. n * 10 + digit_value d) 0 (ds @ replicate (3 - length ds) (CHR ''0''))) else None)"

definition quality_value :: "string \<Rightarrow> nat" where
  "quality_value text =
     (case js_trim text of
        c # rest \<Rightarrow>
          (let part = (case rest of [] \<Rightarrow> Some 0 | d # ds \<Rightarrow> if d = CHR ''.'' then fraction ds else None)
           in if c = CHR ''0'' then (case part of None \<Rightarrow> 0 | Some n \<Rightarrow> n)
              else if c = CHR ''1'' \<and> part = Some 0 then 1000 else 0)
      | [] \<Rightarrow> 0)"

definition range_quality :: "string list \<Rightarrow> nat" where
  "range_quality parameters =
     foldl (\<lambda>quality p. case quality_text p of None \<Rightarrow> quality | Some v \<Rightarrow> quality_value v) 1000 parameters"

definition language_range :: "string \<Rightarrow> string \<times> nat" where
  "language_range part =
     (case js_split (CHR '';'') (js_trim part) of tag # parameters \<Rightarrow> (tag, range_quality parameters) | [] \<Rightarrow> ([], 1000))"

definition language_candidates :: "string \<Rightarrow> (string \<times> nat) list" where
  "language_candidates header =
     sort_key (\<lambda>r. - int (snd r)) (filter (\<lambda>r. snd r > 0) (map language_range (js_split (CHR '','') header)))"

definition candidate_locale :: "string \<times> nat \<Rightarrow> Locale option" where
  "candidate_locale r = (if js_trim (fst r) = ''*'' then Some en else localeForLanguageTag (fst r))"

fun first_locale :: "(string \<times> nat) list \<Rightarrow> Locale option" where
  "first_locale [] = None"
| "first_locale (r # rs) = (case candidate_locale r of None \<Rightarrow> first_locale rs | Some l \<Rightarrow> Some l)"

definition localeFromAcceptLanguage :: "string option \<Rightarrow> Locale option" where
  "localeFromAcceptLanguage header =
     (case header of None \<Rightarrow> None
      | Some h \<Rightarrow> if js_trim h = [] then None else first_locale (language_candidates h))"

datatype LocaleSource = preference | environment | source_default

record ResolvedLocale =
  rl_locale :: Locale
  rl_preference :: "Locale option"
  rl_source :: LocaleSource

text \<open>The preference \<open>auto\<close> is \<open>None\<close>.\<close>

definition resolveLocale :: "string option \<Rightarrow> string option \<Rightarrow> ResolvedLocale" where
  "resolveLocale savedPreference acceptLanguage =
     (case isLocale savedPreference of
        Some l \<Rightarrow> \<lparr>rl_locale = l, rl_preference = Some l, rl_source = preference\<rparr>
      | None \<Rightarrow>
          (case localeFromAcceptLanguage acceptLanguage of
             None \<Rightarrow> \<lparr>rl_locale = en, rl_preference = None, rl_source = source_default\<rparr>
           | Some l \<Rightarrow> \<lparr>rl_locale = l, rl_preference = None, rl_source = environment\<rparr>))"

section \<open>index.ts: messages\<close>

definition is_letter :: "char \<Rightarrow> bool" where "is_letter c = (is_upper c \<or> is_lower c)"

definition placeholder_name :: "string \<Rightarrow> string option" where
  "placeholder_name s =
     (let name = takeWhile (\<lambda>c. is_alnum c \<or> c = CHR ''_'') s
      in if name \<noteq> [] \<and> is_letter (hd name) \<and> starts_with [CHR ''}''] (drop (length name) s) then Some name else None)"

text \<open>The replacement of \<open>{name}\<close>; a name without a value keeps its braces.\<close>

function replace_placeholders :: "(string \<Rightarrow> string option) \<Rightarrow> string \<Rightarrow> string" where
  "replace_placeholders values [] = []"
| "replace_placeholders values (c # cs) =
     (case (if c = CHR ''{'' then placeholder_name cs else None) of
        None \<Rightarrow> c # replace_placeholders values cs
      | Some name \<Rightarrow>
          (case values name of None \<Rightarrow> c # name @ ''}'' | Some v \<Rightarrow> v) @
          replace_placeholders values (drop (Suc (length name)) cs))"
  by pat_completeness auto
termination by (relation "measure (length \<circ> snd)") (auto simp: less_Suc_eq_le)

definition interpolate :: "string \<Rightarrow> (string \<Rightarrow> string option) option \<Rightarrow> string" where
  "interpolate message values = (case values of None \<Rightarrow> message | Some v \<Rightarrow> replace_placeholders v message)"

type_synonym message_catalog = "string \<Rightarrow> Locale \<Rightarrow> string option"

definition translate :: "message_catalog \<Rightarrow> Locale \<Rightarrow> string \<Rightarrow> (string \<Rightarrow> string option) option \<Rightarrow> string" where
  "translate cat l message values =
     (if l = en then interpolate message values
      else interpolate (case cat message l of None \<Rightarrow> message | Some m \<Rightarrow> m) values)"

section \<open>layout.ts: escaping\<close>

text \<open>One \<open>replace(/c/g, s)\<close>, and the five of them in their order.\<close>

definition replace_char :: "char \<Rightarrow> string \<Rightarrow> string \<Rightarrow> string" where
  "replace_char c s v = concat (map (\<lambda>d. if d = c then s else [d]) v)"

definition escapeHtml :: "string \<Rightarrow> string" where
  "escapeHtml v =
     replace_char (CHR 0x27) ''&#39;'' (replace_char (CHR 0x22) ''&quot;'' (replace_char (CHR ''>'') ''&gt;''
       (replace_char (CHR ''<'') ''&lt;'' (replace_char (CHR ''&'') ''&amp;'' v))))"

section \<open>templates.ts\<close>

record EmailContent =
  ec_subject :: string
  ec_html :: string
  ec_text :: string

definition nl :: string where "nl = [CHR 0x0A]"

definition quoted :: "string \<Rightarrow> string" where "quoted s = CHR 0x22 # s @ [CHR 0x22]"

text \<open>The shape the five templates share: a subject, an introduction, the link and a note.\<close>

definition linked_email ::
  "(string \<Rightarrow> string) \<Rightarrow> string \<Rightarrow> string \<Rightarrow> string \<Rightarrow> string \<Rightarrow> string \<Rightarrow> string \<Rightarrow> string \<Rightarrow> EmailContent" where
  "linked_email t url subject textIntro textNote htmlIntro label htmlNote =
     \<lparr>ec_subject = t subject,
      ec_html = ''<p>'' @ escapeHtml (t htmlIntro) @ ''</p>'' @ nl @
        ''<p><a href='' @ quoted (escapeHtml url) @ ''>'' @ escapeHtml (t label) @ ''</a></p>'' @ nl @
        ''<p>'' @ escapeHtml (t htmlNote) @ ''</p>'',
      ec_text = t textIntro @ nl @ nl @ url @ nl @ nl @ t textNote\<rparr>"

definition magicLinkEmail :: "message_catalog \<Rightarrow> string \<Rightarrow> Locale \<Rightarrow> EmailContent" where
  "magicLinkEmail cat url l = linked_email (\<lambda>m. translate cat l m None) url
     ''Your KeyForge sign-in link'' ''Sign in to KeyForge:''
     ''This link expires in 15 minutes. If you did not request it, ignore this email.''
     ''Sign in to KeyForge by clicking the link below:'' ''Sign in to KeyForge''
     ''This link expires in 15 minutes. If you did not request it, you can safely ignore this email.''"

definition passwordResetEmail :: "message_catalog \<Rightarrow> string \<Rightarrow> Locale \<Rightarrow> EmailContent" where
  "passwordResetEmail cat url l = linked_email (\<lambda>m. translate cat l m None) url
     ''Reset your KeyForge password'' ''Reset your KeyForge password:''
     ''This link expires in one hour. If you did not request it, ignore this email.''
     ''Use the secure link below to reset your KeyForge password:'' ''Reset password''
     ''This link expires in one hour. If you did not request it, you can safely ignore this email.''"

definition accountInvitationEmail :: "message_catalog \<Rightarrow> string \<Rightarrow> Locale \<Rightarrow> EmailContent" where
  "accountInvitationEmail cat url l = linked_email (\<lambda>m. translate cat l m None) url
     ''You have been invited to KeyForge''
     ''An administrator created a KeyForge account for you. Set your password to accept the invitation:''
     ''This single-use link expires in one hour. If you were not expecting this invitation, ignore this email.''
     ''An administrator created a KeyForge account for you.'' ''Set password and accept invitation''
     ''This single-use link expires in one hour. If you were not expecting this invitation, you can safely ignore this email.''"

definition emailVerificationEmail :: "message_catalog \<Rightarrow> string \<Rightarrow> Locale \<Rightarrow> EmailContent" where
  "emailVerificationEmail cat url l = linked_email (\<lambda>m. translate cat l m None) url
     ''Verify your KeyForge email'' ''Verify your KeyForge email address:''
     ''This link expires in 24 hours.''
     ''Confirm this email address for your KeyForge account:'' ''Verify email''
     ''This link expires in 24 hours.''"

definition emailChangeEmail :: "message_catalog \<Rightarrow> string \<Rightarrow> Locale \<Rightarrow> EmailContent" where
  "emailChangeEmail cat url l = linked_email (\<lambda>m. translate cat l m None) url
     ''Confirm your new KeyForge email'' ''Confirm this as your new KeyForge email address:''
     ''This single-use link expires in 24 hours. If you did not request this change, secure your account immediately.''
     ''Confirm this as the new email address for your KeyForge account:'' ''Confirm new email''
     ''This single-use link expires in 24 hours. If you did not request this change, secure your account immediately.''"

section \<open>Negotiation finds the best language\<close>

lemma first_locale_None: "first_locale rs = None \<longleftrightarrow> (\<forall>r\<in>set rs. candidate_locale r = None)"
  by (induction rs) (auto split: option.splits)

lemma first_locale_Some:
  assumes "first_locale rs = Some l" "sorted (map (\<lambda>r. - int (snd r)) rs)"
  shows "\<exists>r\<in>set rs. candidate_locale r = Some l \<and> (\<forall>r'\<in>set rs. candidate_locale r' \<noteq> None \<longrightarrow> snd r' \<le> snd r)"
  using assms
proof (induction rs)
  case (Cons r rs)
  show ?case
  proof (cases "candidate_locale r")
    case None
    with Cons show ?thesis by auto
  next
    case (Some l')
    with Cons.prems show ?thesis by (auto intro!: bexI [of _ r])
  qed
qed simp

lemma set_language_candidates:
  "set (language_candidates h) = {r \<in> language_range ` set (js_split (CHR '','') h). snd r > 0}"
  by (auto simp: language_candidates_def)

lemma no_range: "\<forall>r\<in>{r \<in> R. P r}. c r = None \<Longrightarrow> {r \<in> R. P r \<and> c r \<noteq> None} = {}"
  by auto

lemma best_range:
  "\<exists>r\<in>{r \<in> R. P r}. c r = Some l \<and> (\<forall>r'\<in>{r \<in> R. P r}. c r' \<noteq> None \<longrightarrow> q r' \<le> q r) \<Longrightarrow>
   \<exists>r\<in>{r \<in> R. P r \<and> c r \<noteq> None}. c r = Some l \<and> (\<forall>r'\<in>{r \<in> R. P r \<and> c r \<noteq> None}. q r' \<le> (q r :: nat))"
  by force

text \<open>
  The language of a visitor without a saved preference. A header that names languages the server
  speaks, with positive weights, is answered in one of these with the greatest weight; a header that
  names none leaves the choice to the default.
\<close>

theorem negotiated_locale_best:
  assumes "js_trim h \<noteq> []" and "ranges = {r \<in> language_range ` set (js_split (CHR '','') h). snd r > 0 \<and> candidate_locale r \<noteq> None}"
  shows "case localeFromAcceptLanguage (Some h) of
      None \<Rightarrow> ranges = {}
    | Some l \<Rightarrow> \<exists>r\<in>ranges. candidate_locale r = Some l \<and> (\<forall>r'\<in>ranges. snd r' \<le> snd r)"
proof (cases "first_locale (language_candidates h)")
  case None
  then have "ranges = {}" unfolding assms(2) first_locale_None set_language_candidates by (rule no_range)
  then show ?thesis using assms(1) None by (simp add: localeFromAcceptLanguage_def)
next
  case (Some l)
  have "sorted (map (\<lambda>r. - int (snd r)) (language_candidates h))" by (simp add: language_candidates_def)
  from first_locale_Some [OF Some this]
  have "\<exists>r\<in>ranges. candidate_locale r = Some l \<and> (\<forall>r'\<in>ranges. snd r' \<le> snd r)"
    unfolding assms(2) set_language_candidates by (rule best_range)
  then show ?thesis using assms(1) Some by (simp add: localeFromAcceptLanguage_def)
qed

theorem negotiated_locale_best_witness:
  "localeFromAcceptLanguage (Some ''ja;q=0.5,zh'') = Some zh_CN \<and>
   (\<forall>r'\<in>{r \<in> language_range ` set (js_split (CHR '','') ''ja;q=0.5,zh''). snd r > 0 \<and> candidate_locale r \<noteq> None}. snd r' \<le> 1000)"
proof -
  let ?h = "''ja;q=0.5,zh''"
  have t: "js_trim ?h \<noteq> []" by (simp add: js_trim_def is_ws_def)
  have parts: "map language_range (js_split (CHR '','') ?h) = [(''ja'', 500), (''zh'', 1000)]" by code_simp
  have c: "candidate_locale (''ja'', 500) = Some ja" "candidate_locale (''zh'', 1000) = Some zh_CN" by code_simp+
  have s: "language_range ` set (js_split (CHR '','') ?h) = {(''ja'', 500), (''zh'', 1000)}"
    unfolding set_map [symmetric] parts by simp
  have r: "{r \<in> language_range ` set (js_split (CHR '','') ?h). snd r > 0 \<and> candidate_locale r \<noteq> None} = {(''ja'', 500), (''zh'', 1000)}"
    unfolding s using c by auto
  from negotiated_locale_best [OF t refl] c show ?thesis unfolding r by (auto split: option.splits)
qed

section \<open>Escaped text stays text\<close>

definition html_entity :: "char \<Rightarrow> string" where
  "html_entity c =
     (if c = CHR ''&'' then ''&amp;'' else if c = CHR ''<'' then ''&lt;'' else if c = CHR ''>'' then ''&gt;''
      else if c = CHR 0x22 then ''&quot;'' else if c = CHR 0x27 then ''&#39;'' else [c])"

lemma replace_char_simps:
  "replace_char c s [] = []" "replace_char c s (d # v) = (if d = c then s else [d]) @ replace_char c s v"
  "replace_char c s (v @ w) = replace_char c s v @ replace_char c s w"
  by (simp_all add: replace_char_def)

lemma escapeHtml_simps [simp]:
  "escapeHtml [] = []" "escapeHtml (c # v) = html_entity c @ escapeHtml v" "escapeHtml (v @ w) = escapeHtml v @ escapeHtml w"
  by (simp add: escapeHtml_def replace_char_simps, simp add: escapeHtml_def html_entity_def replace_char_simps,
      simp only: escapeHtml_def replace_char_simps)

text \<open>The characters a browser reads for an escaped text.\<close>

fun html_decode :: "string \<Rightarrow> string" where
  "html_decode [] = []"
| "html_decode (c # cs) =
     (if starts_with ''&amp;'' (c # cs) then CHR ''&'' # html_decode (drop 4 cs)
      else if starts_with ''&lt;'' (c # cs) then CHR ''<'' # html_decode (drop 3 cs)
      else if starts_with ''&gt;'' (c # cs) then CHR ''>'' # html_decode (drop 3 cs)
      else if starts_with ''&quot;'' (c # cs) then CHR 0x22 # html_decode (drop 5 cs)
      else if starts_with ''&#39;'' (c # cs) then CHR 0x27 # html_decode (drop 4 cs)
      else c # html_decode cs)"

lemma html_decode_entity: "html_decode (html_entity c @ v) = c # html_decode v"
  by (simp add: html_entity_def starts_with_def)

lemma html_decode_escape [simp]: "html_decode (escapeHtml v) = v"
  by (induction v) (simp_all add: html_decode_entity)

definition markup :: "char \<Rightarrow> bool" where "markup c = (c = CHR ''<'' \<or> c = CHR ''>'' \<or> c = CHR 0x22)"

lemma escapeHtml_no_markup [simp]: "filter markup (escapeHtml v) = []"
  by (induction v) (auto simp: html_entity_def markup_def)

lemma escapeHtml_no_quote: "CHR 0x22 \<notin> set (escapeHtml v)"
  by (induction v) (simp_all add: html_entity_def)

lemma js_split_quoted:
  "\<lbrakk>q \<notin> set p; q \<notin> set m\<rbrakk> \<Longrightarrow> js_split q (p @ q # m @ q # v) = p # m # js_split q v"
  by (simp add: js_split_append)

lemma linked_email_parts:
  "js_split (CHR 0x22) (ec_html (linked_email t url a b c d e f)) =
     [''<p>'' @ escapeHtml (t d) @ ''</p>'' @ nl @ ''<p><a href='', escapeHtml url,
      ''>'' @ escapeHtml (t e) @ ''</a></p>'' @ nl @ ''<p>'' @ escapeHtml (t f) @ ''</p>'']"
proof -
  have "js_split (CHR 0x22) ((''<p>'' @ escapeHtml (t d) @ ''</p>'' @ nl @ ''<p><a href='') @ CHR 0x22 # escapeHtml url @ CHR 0x22 # v) =
      (''<p>'' @ escapeHtml (t d) @ ''</p>'' @ nl @ ''<p><a href='') # escapeHtml url # js_split (CHR 0x22) v" for v
    by (rule js_split_quoted) (simp_all add: escapeHtml_no_quote nl_def)
  moreover have "js_split (CHR 0x22) (''>'' @ escapeHtml (t e) @ ''</a></p>'' @ nl @ ''<p>'' @ escapeHtml (t f) @ ''</p>'') =
      [''>'' @ escapeHtml (t e) @ ''</a></p>'' @ nl @ ''<p>'' @ escapeHtml (t f) @ ''</p>'']"
    by (rule js_split_no_sep) (simp add: escapeHtml_no_quote nl_def)
  ultimately show ?thesis by (simp add: linked_email_def quoted_def)
qed

definition email_templates :: "(message_catalog \<Rightarrow> string \<Rightarrow> Locale \<Rightarrow> EmailContent) list" where
  "email_templates = [magicLinkEmail, passwordResetEmail, accountInvitationEmail, emailVerificationEmail, emailChangeEmail]"

text \<open>
  A mail carries its link unharmed. In each of the five templates, whatever the address and the
  translations are, the markup is that of the template; the one quoted attribute decodes to the
  address the token was issued for, and the plain text has it on a line of its own.
\<close>

theorem mailed_link_intact:
  assumes "template \<in> set email_templates" and "html = ec_html (template cat url l)"
  shows "map html_decode (take 1 (drop 1 (js_split (CHR 0x22) html))) = [url] \<and>
    filter markup html = ''<><><><'' @ [CHR 0x22, CHR 0x22] @ ''><><><><>'' \<and>
    (\<exists>intro note. ec_text (template cat url l) = intro @ nl @ nl @ url @ nl @ nl @ note)"
proof -
  obtain a b c d e f where m: "template cat url l = linked_email (\<lambda>m. translate cat l m None) url a b c d e f"
    using assms(1) by (auto simp: email_templates_def magicLinkEmail_def passwordResetEmail_def accountInvitationEmail_def
        emailVerificationEmail_def emailChangeEmail_def)
  have "filter markup html = ''<><><><'' @ [CHR 0x22, CHR 0x22] @ ''><><><><>''"
    unfolding assms(2) m by (simp add: linked_email_def quoted_def nl_def) (simp add: markup_def)
  moreover have "ec_text (template cat url l) = translate cat l b None @ nl @ nl @ url @ nl @ nl @ translate cat l c None"
    by (simp add: m linked_email_def)
  moreover have "map html_decode (take 1 (drop 1 (js_split (CHR 0x22) html))) = [url]"
    unfolding assms(2) m linked_email_parts by simp
  ultimately show ?thesis by blast
qed

end
