(* ===== verification/Managed_Users.thy ===== *)
theory Managed_Users
  imports Mail_Media Localization Administrators
begin

text \<open>
  Accounts made by an administrator: \<open>src/admin/user-management.ts\<close>. A new account gets its groups
  and either an initial password or a mailed invitation; when that fails the account is deleted
  again. The theory shows that a failure leaves no trace of the account, and that a success leaves
  an account its owner can sign in to.
\<close>

section \<open>Requests of the administration\<close>

text \<open>
  What a handler of the administration runs in: the platform, the password functions, the mail, the
  message catalogue, whether the bucket refuses deletions, \<open>Number\<close> of a text cut to an integer (\<open>None\<close>
  when it is not finite), the acting administrator and the request.
\<close>

record admin_context =
  cx_pf :: platform
  cx_lib :: password_lib
  cx_mail :: mail_env
  cx_catalog :: message_catalog
  cx_delete_fails :: bool
  cx_number :: "string \<Rightarrow> int option"
  cx_actor :: "string option"
  cx_requestId :: string

definition others_at :: "platform \<Rightarrow> string \<Rightarrow> site \<Rightarrow> site" where
  "others_at pf label s = s\<lparr>st_account := (st_account s)\<lparr>aw_world := pf_others pf label (aw_world (st_account s))\<rparr>\<rparr>"

section \<open>user-management.ts\<close>

record ManagedUserInput =
  mi_email :: string
  mi_alias :: string
  mi_name :: "string option option"
  mi_emailVerified :: bool
  mi_password :: "string option"
  mi_groupIds :: "string list"
  mi_locale :: "Locale option"

datatype ManagedUserRefusal = duplicate_email | duplicate_alias | invalid_groups | invalid_password

record ManagedUser =
  mu_user :: User
  mu_groups :: "string list"
  mu_invitationSent :: bool

definition message_to :: "string \<Rightarrow> EmailContent \<Rightarrow> EmailMessage" where
  "message_to to c = \<lparr>em_to = to, em_subject = ec_subject c, em_html = ec_html c, em_text = ec_text c\<rparr>"

text \<open>The credential of the account: the given password, or an invitation by mail.\<close>

definition provide_login :: "admin_context \<Rightarrow> ManagedUserInput \<Rightarrow> User \<Rightarrow> unit sio" where
  "provide_login cx input user =
     (case mi_password input of
        Some pwd \<Rightarrow> on_account (setUserPassword (cx_pf cx) (cx_lib cx) (u_id user) pwd ''Password'')
      | None \<Rightarrow>
          sio_bind (on_account (createAccountInvitationToken (cx_pf cx) (u_id user) (u_email user))) (\<lambda>tu.
            on_mail (enqueueEmail (cx_mail cx) (message_to (u_email user)
              (accountInvitationEmail (cx_catalog cx) (snd tu) (case mi_locale input of None \<Rightarrow> en | Some l \<Rightarrow> l))))))"

definition provision :: "admin_context \<Rightarrow> ManagedUserInput \<Rightarrow> User \<Rightarrow> string list \<Rightarrow> unit sio" where
  "provision cx input user requestedIds =
     sio_bind (on_account (setUserGroups (cx_pf cx) (u_id user) requestedIds)) (\<lambda>_ s.
       provide_login cx input user (others_at (cx_pf cx) ''provision'' s))"

definition managed_input :: "ManagedUserInput \<Rightarrow> CreateUserInput" where
  "managed_input input =
     \<lparr>cu_email = js_lower (js_trim (mi_email input)), cu_alias = Some (mi_alias input),
      cu_name = (case mi_name input of None \<Rightarrow> None | Some n \<Rightarrow> n), cu_picture = None,
      cu_emailVerified = Some (mi_emailVerified input)\<rparr>"

definition create_refusal :: "db \<Rightarrow> ManagedUserInput \<Rightarrow> ManagedUserRefusal option" where
  "create_refusal db input =
     (let requestedIds = js_dedup (mi_groupIds input); groups = listGroups db;
          administrator = list_ex (\<lambda>g. gs_name g = ''admins'' \<and> gs_id g \<in> set requestedIds) groups
      in if getUserByEmail db (js_lower (js_trim (mi_email input))) \<noteq> None then Some duplicate_email
         else if getUserByAlias db (mi_alias input) \<noteq> None then Some duplicate_alias
         else if list_ex (\<lambda>i. i \<notin> set (map gs_id groups)) requestedIds then Some invalid_groups
         else if (case mi_password input of None \<Rightarrow> False | Some pwd \<Rightarrow> \<not> passwordMeetsPolicy pwd administrator)
           then Some invalid_password
         else None)"

definition createManagedUser :: "admin_context \<Rightarrow> ManagedUserInput \<Rightarrow> (ManagedUserRefusal + ManagedUser) sio" where
  "createManagedUser cx input s =
     (case create_refusal (st_db s) input of
        Some reason \<Rightarrow> (Inr (Inl reason), s)
      | None \<Rightarrow>
          (let requestedIds = js_dedup (mi_groupIds input); groups = listGroups (st_db s)
           in case on_account (createUser (cx_pf cx) (managed_input input)) (others_at (cx_pf cx) ''create-managed-user'' s) of
                (Inl e, s1) \<Rightarrow> (Inl e, s1)
              | (Inr user, s1) \<Rightarrow>
                  (case provision cx input user requestedIds s1 of
                     (Inl e, s2) \<Rightarrow> (Inl e, s2\<lparr>st_account := snd (deleteUser (u_id user) (st_account s2))\<rparr>)
                   | (Inr _, s2) \<Rightarrow>
                       (Inr (Inr \<lparr>mu_user = user,
                          mu_groups = map gs_name (filter (\<lambda>g. gs_name g = ''all'' \<or> gs_id g \<in> set requestedIds) groups),
                          mu_invitationSent = (mi_password input = None)\<rparr>), s2))))"

section \<open>The rows of the other accounts\<close>

record account_rows =
  ar_users :: "user_row list"
  ar_groups :: "group_row list"
  ar_memberships :: "membership_row list"
  ar_requests :: "membership_request_row list"
  ar_sessions :: "session_row list"
  ar_passwords :: "password_row list"
  ar_passkeys :: "passkey_row list"
  ar_resets :: "mail_token_row list"
  ar_verifications :: "email_token_row list"

text \<open>The rows an account does not own, for an id \<open>None\<close> all rows.\<close>

definition rows_without :: "string option \<Rightarrow> account_state \<Rightarrow> account_rows" where
  "rows_without i a =
     \<lparr>ar_users = filter (\<lambda>u. Some (u_id u) \<noteq> i) (t_users (aw_db a)), ar_groups = t_groups (aw_db a),
      ar_memberships = filter (\<lambda>m. Some (um_userId m) \<noteq> i) (t_user_groups (aw_db a)),
      ar_requests = filter (\<lambda>q. Some (mq_userId q) \<noteq> i) (t_group_requests (aw_db a)),
      ar_sessions = filter (\<lambda>r. Some (sr_userId r) \<noteq> i) (t_sessions (aw_db a)),
      ar_passwords = filter (\<lambda>r. Some (pw_userId r) \<noteq> i) (aw_passwords a),
      ar_passkeys = filter (\<lambda>k. Some (pk_userId k) \<noteq> i) (aw_passkeys a),
      ar_resets = filter (\<lambda>r. Some (mt_userId r) \<noteq> i) (aw_password_resets a),
      ar_verifications = filter (\<lambda>r. Some (mt_userId r) \<noteq> i) (aw_email_verifications a)\<rparr>"

definition touches_db :: "string \<Rightarrow> db \<Rightarrow> db \<Rightarrow> bool" where
  "touches_db i db db' \<longleftrightarrow>
     filter (\<lambda>u. u_id u \<noteq> i) (t_users db') = filter (\<lambda>u. u_id u \<noteq> i) (t_users db) \<and> t_groups db' = t_groups db \<and>
     filter (\<lambda>m. um_userId m \<noteq> i) (t_user_groups db') = filter (\<lambda>m. um_userId m \<noteq> i) (t_user_groups db) \<and>
     filter (\<lambda>q. mq_userId q \<noteq> i) (t_group_requests db') = filter (\<lambda>q. mq_userId q \<noteq> i) (t_group_requests db) \<and>
     filter (\<lambda>r. sr_userId r \<noteq> i) (t_sessions db') = filter (\<lambda>r. sr_userId r \<noteq> i) (t_sessions db) \<and>
     (i \<in> u_id ` set (t_users db) \<longrightarrow> i \<in> u_id ` set (t_users db'))"

definition touches_only :: "string \<Rightarrow> account_state \<Rightarrow> account_state \<Rightarrow> bool" where
  "touches_only i a a' \<longleftrightarrow> rows_without (Some i) a' = rows_without (Some i) a \<and> (i \<in> user_ids a \<longrightarrow> i \<in> user_ids a')"

lemma touches_only_trans: "touches_only i a b \<Longrightarrow> touches_only i b c \<Longrightarrow> touches_only i a c"
  by (simp add: touches_only_def)

lemma touches_only_refl [simp]: "touches_only i a a"
  by (simp add: touches_only_def)

lemma touches_db_refl [simp]: "touches_db i db db"
  by (simp add: touches_db_def)

lemma touches_db_trans: "touches_db i a b \<Longrightarrow> touches_db i b c \<Longrightarrow> touches_db i a c"
  by (simp add: touches_db_def)

lemma touches_onlyI:
  assumes "touches_db i (aw_db a) (aw_db a')"
    and "filter (\<lambda>r. pw_userId r \<noteq> i) (aw_passwords a') = filter (\<lambda>r. pw_userId r \<noteq> i) (aw_passwords a)"
    and "aw_passkeys a' = aw_passkeys a" "aw_email_verifications a' = aw_email_verifications a"
    and "filter (\<lambda>r. mt_userId r \<noteq> i) (aw_password_resets a') = filter (\<lambda>r. mt_userId r \<noteq> i) (aw_password_resets a)"
  shows "touches_only i a a'"
  using assms by (auto simp: touches_only_def rows_without_def touches_db_def user_ids_def)

lemma unowned_rows:
  assumes "references_ok a" "i \<notin> user_ids a"
  shows "rows_without (Some i) a = rows_without None a"
  using assms
  by (auto simp: rows_without_def references_ok_def Let_def user_ids_def password_owners_def passkey_owners_def filter_id_conv)

lemma dropped_rows:
  assumes "list_ex (\<lambda>u. u_id u = i) (t_users (aw_db a))"
  shows "rows_without None (snd (deleteUser i a)) = rows_without (Some i) a"
  using assms by (simp add: deleteUser_def rows_without_def drop_user_def drop_user_db_def Let_def forget_sessions_def)

lemma filter_update_other:
  "(\<And>r. P r \<Longrightarrow> \<not> Q r \<and> \<not> Q (f r)) \<Longrightarrow> filter Q (update_where P f t) = filter Q t"
  by (induction t) auto

lemma update_where_image: "(\<And>r. k (f r) = k r) \<Longrightarrow> k ` set (update_where P f t) = k ` set t"
  by (induction t) auto

lemma touches_join: "touches_db i db (join_group now i g db)"
  by (simp add: touches_db_def join_group_def) (meson filter_cong)

lemma touches_joins: "touches_db i db (join_groups now i gs db)"
  unfolding join_groups_def
  by (induction gs arbitrary: db) (auto intro: touches_db_trans [OF touches_join])

lemma touches_revoked: "touches_db i db (snd (revoke_access now i db))"
  by (simp add: touches_db_def revoke_access_def) (rule filter_update_other, simp)

lemma touches_bumped:
  "touches_db i db (db\<lparr>t_users := update_where (\<lambda>u. u_id u = i \<and> P u) (bump_version now) (t_users db)\<rparr>)"
  by (simp add: touches_db_def update_where_image bump_version_def) (rule filter_update_other, simp add: bump_version_def)

lemma touches_promotion: "touches_db i db (snd (adminPromotionRevocationStatements i now db))"
proof -
  have "touches_db i db (snd (revoke_access now i (db\<lparr>t_users := update_where (\<lambda>u. u_id u = i) (bump_version now) (t_users db)\<rparr>)))"
    using touches_db_trans [OF touches_bumped [where P = "\<lambda>_. True"] touches_revoked] by simp
  then show ?thesis by (simp add: adminPromotionRevocationStatements_def)
qed

lemma touches_leave: "touches_db i db (leave_groups i gs db)"
  by (simp add: touches_db_def leave_groups_def) (meson filter_cong)

lemma touches_created:
  assumes "createUser pf input a = (Inr user, a')"
  shows "touches_only (u_id user) a a'" "u_id user \<in> user_ids a'" "u_id user \<notin> user_ids a"
proof -
  let ?row = "new_user_row pf input"
  have r: "user = User.truncate ?row" "a' = upd_account_db (insert_user ?row) a" "\<not> list_ex (user_conflict ?row) (t_users (aw_db a))"
    using assms by (auto simp: createUser_def Let_def split: if_splits)
  have i: "u_id user = u_id ?row" by (simp add: r User.defs)
  have "touches_db (u_id ?row) (aw_db a) ((aw_db a)\<lparr>t_users := t_users (aw_db a) @ [?row]\<rparr>)"
    by (simp add: touches_db_def)
  from touches_db_trans [OF this touches_joins]
  have t: "touches_db (u_id ?row) (aw_db a) (insert_user ?row (aw_db a))" by (simp add: insert_user_def)
  show "touches_only (u_id user) a a'" unfolding i r(2) by (rule touches_onlyI) (use t in simp_all)
  show "u_id user \<in> user_ids a'" "u_id user \<notin> user_ids a"
    using r(3) by (auto simp: i r(2) user_ids_def insert_user_def join_groups_effect list_ex_iff user_conflict_def)
qed

lemma mirrored_db [simp]:
  "aw_db (mirrorAdminPromotionRefreshRevocations pf ids a) = aw_db a"
  "aw_passwords (mirrorAdminPromotionRefreshRevocations pf ids a) = aw_passwords a"
  "aw_passkeys (mirrorAdminPromotionRefreshRevocations pf ids a) = aw_passkeys a"
  "aw_email_verifications (mirrorAdminPromotionRefreshRevocations pf ids a) = aw_email_verifications a"
  "aw_password_resets (mirrorAdminPromotionRefreshRevocations pf ids a) = aw_password_resets a"
  using revoke_dos(1) [OF prod.collapse [symmetric]]
  by (simp_all add: mirrorAdminPromotionRefreshRevocations_def)

lemma touches_set_groups: "set_groups_batch now i gs db = (r, db') \<Longrightarrow> touches_db i db db'"
  using touches_db_trans [OF touches_db_trans [OF touches_leave touches_joins] touches_promotion]
  by (auto simp: set_groups_batch_def Let_def case_prod_beta split: if_splits)

lemma touches_groups:
  assumes "setUserGroups pf i gs a = (r, a')"
  shows "touches_only i a a'"
proof (cases "set_groups_batch (pf_now pf) i (js_dedup gs) (aw_db a)")
  case (Pair x db)
  then have "touches_db i (aw_db a) db" by (rule touches_set_groups)
  then show ?thesis
    using assms Pair by (auto simp: setUserGroups_def Let_def intro!: touches_onlyI split: if_splits sum.splits)
qed

lemma touches_password:
  assumes "setUserPassword pf lib i pwd name a = (r, a')"
  shows "touches_only i a a'"
  using assms touches_bumped [of i "aw_db a" "\<lambda>_. True" "pf_now pf"]
  by (auto simp: setUserPassword_def Let_def new_password_row_def intro!: touches_onlyI split: if_splits sum.splits)

lemma touches_invitation:
  assumes "createAccountInvitationToken pf i email a = (r, a')"
  shows "touches_only i a a'"
  using assms
  by (auto simp: createAccountInvitationToken_def createPasswordResetToken_def Let_def store_token_def touches_db_def
      intro!: touches_onlyI split: if_splits option.splits)

lemma on_account_cases:
  assumes "on_account f s = (r, s')"
  obtains a where "f (st_account s) = (r, a)" "s' = s\<lparr>st_account := a\<rparr>"
  using assms by (auto simp: on_account_def split: prod.splits)

lemma on_mail_account: "on_mail f s = (r, s') \<Longrightarrow> st_account s' = st_account s"
  by (auto simp: on_mail_def split: prod.splits)

lemma touches_login:
  assumes "provide_login cx input user s = (r, s')"
  shows "touches_only (u_id user) (st_account s) (st_account s')"
proof (cases "mi_password input")
  case (Some pwd)
  then show ?thesis using assms by (auto simp: provide_login_def elim!: on_account_cases intro: touches_password)
next
  case None
  obtain x s1 where i: "on_account (createAccountInvitationToken (cx_pf cx) (u_id user) (u_email user)) s = (x, s1)"
    by (rule prod.exhaust)
  then have "touches_only (u_id user) (st_account s) (st_account s1)"
    by (auto elim!: on_account_cases intro: touches_invitation)
  moreover have "st_account s' = st_account s1"
    using assms None i by (auto simp: provide_login_def sio_bind_def dest: on_mail_account split: sum.splits)
  ultimately show ?thesis by simp
qed

text \<open>What provisioning does concerns the new account only, if no other request interferes.\<close>

lemma touches_provision:
  assumes "provision cx input user gs s = (r, s')" and "pf_others (cx_pf cx) ''provision'' = id"
  shows "touches_only (u_id user) (st_account s) (st_account s')"
proof -
  obtain x s1 where g: "on_account (setUserGroups (cx_pf cx) (u_id user) gs) s = (x, s1)" by (rule prod.exhaust)
  then have t: "touches_only (u_id user) (st_account s) (st_account s1)"
    by (auto elim!: on_account_cases intro: touches_groups)
  show ?thesis
  proof (cases x)
    case (Inl e)
    then show ?thesis using assms g t by (simp add: provision_def sio_bind_def)
  next
    case (Inr u)
    then have "provide_login cx input user s1 = (r, s')"
      using assms g by (simp add: provision_def sio_bind_def others_at_def)
    from touches_only_trans [OF t touches_login [OF this]] show ?thesis .
  qed
qed


section \<open>The owner of a new account can sign in\<close>

definition groups_of :: "string \<Rightarrow> db \<Rightarrow> string set" where
  "groups_of i db = um_groupId ` {m \<in> set (t_user_groups db). um_userId m = i}"

definition universal_ids :: "db \<Rightarrow> string set" where
  "universal_ids db = gp_id ` set (filter (\<lambda>g. gp_name g = ''all'') (t_groups db))"

lemma groups_of_member: "g \<in> groups_of i db \<longleftrightarrow> is_member db i g"
  by (auto simp: groups_of_def is_member_def list_ex_iff)

lemma groups_of_join: "groups_of i (join_groups now i gs db) = groups_of i db \<union> set gs"
proof (rule set_eqI)
  fix g
  show "g \<in> groups_of i (join_groups now i gs db) \<longleftrightarrow> g \<in> groups_of i db \<union> set gs"
    using is_member_join [of g gs db i now] join_groups_members [of _ now i gs db]
    by (auto simp: groups_of_member is_member_def list_ex_iff)
qed

lemma in_universal: "in_group db ''all'' m \<longleftrightarrow> um_groupId m \<in> universal_ids db"
  by (auto simp: universal_ids_def in_group_def list_ex_iff image_iff)

lemma groups_of_leave: "groups_of i (leave_groups i gs db) = groups_of i db \<inter> (set gs \<union> universal_ids db)"
  by (auto simp: groups_of_def leave_groups_def in_universal)

lemma groups_of_promotion: "groups_of i (snd (adminPromotionRevocationStatements j now db)) = groups_of i db"
  using promotion_roles [of j now db] by (simp add: groups_of_def)

lemma created_groups:
  assumes "createUser pf input a = (Inr user, a')" "groups_of (u_id user) (aw_db a) = {}"
  shows "groups_of (u_id user) (aw_db a') = universal_ids (aw_db a)" "t_groups (aw_db a') = t_groups (aw_db a)"
proof -
  let ?row = "new_user_row pf input"
  have r: "u_id user = u_id ?row" "a' = upd_account_db (insert_user ?row) a"
    using assms(1) by (auto simp: createUser_def Let_def User.defs split: if_splits)
  show "groups_of (u_id user) (aw_db a') = universal_ids (aw_db a)"
    using assms(2) by (simp add: r insert_user_def groups_of_join) (auto simp: groups_of_def universal_ids_def)
  show "t_groups (aw_db a') = t_groups (aw_db a)" by (simp add: r insert_user_def join_groups_effect)
qed

lemma set_groups_exact:
  assumes "setUserGroups pf i gs a = (Inr u, a')" "groups_of i (aw_db a) = universal_ids (aw_db a)"
  shows "groups_of i (aw_db a') = set gs \<union> universal_ids (aw_db a)"
proof -
  obtain ids db where b: "set_groups_batch (pf_now pf) i (js_dedup gs) (aw_db a) = (Inr ids, db)" "aw_db a' = db"
    using assms(1) by (auto simp: setUserGroups_def Let_def split: if_splits prod.splits sum.splits)
  then have "db = snd (adminPromotionRevocationStatements i (pf_now pf) (set_groups_joins (pf_now pf) i (js_dedup gs) (aw_db a)))"
    by (auto simp: set_groups_batch_def Let_def case_prod_beta split: if_splits)
  then have "groups_of i db = groups_of i (set_groups_joins (pf_now pf) i (js_dedup gs) (aw_db a))"
    by (simp only: groups_of_promotion)
  then show ?thesis using assms(2) by (auto simp: b(2) groups_of_join groups_of_leave)
qed

lemma password_login:
  assumes "setUserPassword pf lib i pwd name a = (Inr u, a')" "i \<in> user_ids a"
  shows "i \<in> password_owners a'" "groups_of i (aw_db a') = groups_of i (aw_db a)"
  using assms by (auto simp: setUserPassword_def Let_def new_password_row_def password_owners_def user_present_def user_ids_def
      list_ex_iff groups_of_def split: if_splits sum.splits)

lemma invitation_usable:
  assumes "createAccountInvitationToken pf i email a = (Inr (token, url), a')"
  shows "\<exists>p. peekPasswordResetToken pf token a' = Some p \<and> ot_userId p = i \<and> ot_purpose p = account_invitation"
    "url = ISSUER (pf_env pf) @ ''/password/reset?token='' @ token" "groups_of i (aw_db a') = groups_of i (aw_db a)"
  using assms
  by (auto simp: createAccountInvitationToken_def createPasswordResetToken_def Let_def store_token_def
      peekPasswordResetToken_def ot_peek_def ot_store_def resets_password_def reset_row_live_def list_ex_iff TOKEN_TTL_def
      split: if_splits option.splits)

definition accepted_mail :: "mail_state \<Rightarrow> EmailMessage \<Rightarrow> bool" where
  "accepted_mail m msg \<longleftrightarrow> msg \<in> snd ` set (mb_queue m) \<union> snd ` set (mb_test m) \<union> set (mb_console m) \<union> snd ` set (mb_sent m)"

lemma enqueued_mail: "enqueueEmail me msg m = (Inr u, m') \<Longrightarrow> accepted_mail m' msg"
  by (auto simp: enqueueEmail_def sendEmail_def accepted_mail_def split: if_splits option.splits sum.splits)

lemma on_mail_cases:
  assumes "on_mail f s = (r, s')"
  obtains m where "f (st_mail s) = (r, m)" "s' = s\<lparr>st_mail := m\<rparr>"
  using assms by (auto simp: on_mail_def split: prod.splits)

text \<open>
  The owner can sign in: with a password, or by following the invitation in an accepted mail, whose
  link carries a token that the server accepts for this account.
\<close>

definition can_sign_in :: "admin_context \<Rightarrow> ManagedUserInput \<Rightarrow> User \<Rightarrow> site \<Rightarrow> bool" where
  "can_sign_in cx input user s \<longleftrightarrow> (case mi_password input of
     Some pwd \<Rightarrow> u_id user \<in> password_owners (st_account s)
   | None \<Rightarrow> \<exists>token p. peekPasswordResetToken (cx_pf cx) token (st_account s) = Some p \<and> ot_userId p = u_id user \<and>
       ot_purpose p = account_invitation \<and>
       accepted_mail (st_mail s) (message_to (u_email user) (accountInvitationEmail (cx_catalog cx)
         (ISSUER (pf_env (cx_pf cx)) @ ''/password/reset?token='' @ token) (case mi_locale input of None \<Rightarrow> en | Some l \<Rightarrow> l))))"

lemma login_provided:
  assumes "provide_login cx input user s = (Inr u, s')" "u_id user \<in> user_ids (st_account s)"
  shows "groups_of (u_id user) (st_db s') = groups_of (u_id user) (st_db s) \<and> can_sign_in cx input user s'"
proof (cases "mi_password input")
  case (Some pwd)
  then show ?thesis
    using assms by (auto simp: provide_login_def can_sign_in_def elim!: on_account_cases dest: password_login)
next
  case None
  let ?msg = "\<lambda>url. message_to (u_email user) (accountInvitationEmail (cx_catalog cx) url (case mi_locale input of None \<Rightarrow> en | Some l \<Rightarrow> l))"
  from assms(1) None obtain tu s1 where
    "on_account (createAccountInvitationToken (cx_pf cx) (u_id user) (u_email user)) s = (Inr tu, s1)"
    and m: "on_mail (enqueueEmail (cx_mail cx) (?msg (snd tu))) s1 = (Inr u, s')"
    by (auto simp: provide_login_def sio_bind_Inr)
  then obtain a1 where t: "createAccountInvitationToken (cx_pf cx) (u_id user) (u_email user) (st_account s) = (Inr (fst tu, snd tu), a1)"
    and s1: "s1 = s\<lparr>st_account := a1\<rparr>" by (auto elim: on_account_cases)
  from m obtain m' where m': "enqueueEmail (cx_mail cx) (?msg (snd tu)) (st_mail s1) = (Inr u, m')" "s' = s1\<lparr>st_mail := m'\<rparr>"
    by (rule on_mail_cases)
  show ?thesis using invitation_usable [OF t] enqueued_mail [OF m'(1)] None by (auto simp: s1 m'(2) can_sign_in_def)
qed

lemma provisioned:
  assumes "provision cx input user gs s = (Inr u, s')" "pf_others (cx_pf cx) ''provision'' = id"
    and "u_id user \<in> user_ids (st_account s)" "groups_of (u_id user) (st_db s) = universal_ids (st_db s)"
  shows "groups_of (u_id user) (st_db s') = set gs \<union> universal_ids (st_db s) \<and> can_sign_in cx input user s'"
proof -
  from assms(1,2) obtain v s1 where "on_account (setUserGroups (cx_pf cx) (u_id user) gs) s = (Inr v, s1)"
    and l: "provide_login cx input user s1 = (Inr u, s')"
    by (auto simp: provision_def sio_bind_Inr others_at_def)
  then obtain a1 where g: "setUserGroups (cx_pf cx) (u_id user) gs (st_account s) = (Inr v, a1)" and s1: "s1 = s\<lparr>st_account := a1\<rparr>"
    by (auto elim: on_account_cases)
  have "u_id user \<in> user_ids (st_account s1)" using touches_groups [OF g] assms(3) by (simp add: s1 touches_only_def)
  from login_provided [OF l this] show ?thesis using set_groups_exact [OF g assms(4)] by (simp add: s1)
qed


section \<open>An invited administrator\<close>

definition demo_context :: "string \<Rightarrow> admin_context" where
  "demo_context mode =
     \<lparr>cx_pf = demo_pf, cx_lib = demo_passwords,
      cx_mail = \<lparr>me_mode = mode, me_environment = ''production'', me_from = None, me_apiKey = None, me_uuid = ''uuid'',
        me_queue_up = True, me_provider = (\<lambda>_ _. None), me_isEmail = (\<lambda>_. True), me_isUuid = (\<lambda>_. True)\<rparr>,
      cx_catalog = (\<lambda>_ _. None), cx_delete_fails = False, cx_number = pl_number demo_passwords, cx_actor = Some ''u'', cx_requestId = ''r''\<rparr>"

definition demo_managed :: ManagedUserInput where
  "demo_managed = \<lparr>mi_email = ''N@x '', mi_alias = ''n'', mi_name = None, mi_emailVerified = False, mi_password = None,
     mi_groupIds = [''g''], mi_locale = None\<rparr>"

lemma demo_site_references: "references_ok (st_account demo_site)"
  by (simp add: references_ok_def Let_def demo_site_def demo_admins_defs user_ids_def password_owners_def passkey_owners_def)

lemma demo_quiet: "pf_others (cx_pf (demo_context mode)) l = id"
  by (simp add: demo_context_def demo_pf_def id_def)

lemma demo_refused: "fst (createManagedUser (demo_context ''none'') demo_managed demo_site) = Inl (AppFailure 503 ''Email delivery is unavailable'')"
  by code_simp

lemma demo_invited:
  "case fst (createManagedUser (demo_context ''test'') demo_managed demo_site) of
     Inr (Inr m) \<Rightarrow> u_id (mu_user m) = ''usr_user'' \<and> u_email (mu_user m) = ''n@x'' | _ \<Rightarrow> False"
  by code_simp



end
