(* ===== verification/Admin_Users.thy ===== *)
theory Admin_Users
  imports Admin_Access Group_Rules Managed_Users
begin

text \<open>
  The administration API of accounts and groups: \<open>src/admin/users.ts\<close> with \<open>src/utils/http.ts\<close>, the
  handlers behind the access check of \<open>Admin_Access\<close>. A schema is a decoder of the JSON body; a body
  that is not JSON reads as \<open>null\<close>. The path parameters and the body are arguments of a handler.
\<close>

section \<open>http.ts\<close>

definition DEFAULT_LIMIT :: int where "DEFAULT_LIMIT = 50"
definition MAX_LIMIT :: int where "MAX_LIMIT = 200"

record Pagination =
  pg_limit :: nat
  pg_offset :: nat

definition parsePagination :: "(string \<Rightarrow> int option) \<Rightarrow> string option \<Rightarrow> string option \<Rightarrow> Pagination" where
  "parsePagination number lim ofs =
     (let rawLimit = (case lim of None \<Rightarrow> Some DEFAULT_LIMIT | Some s \<Rightarrow> number s);
          rawOffset = (case ofs of None \<Rightarrow> Some 0 | Some s \<Rightarrow> number s)
      in \<lparr>pg_limit = nat (case rawLimit of None \<Rightarrow> DEFAULT_LIMIT | Some n \<Rightarrow> min (max n 1) MAX_LIMIT),
          pg_offset = nat (case rawOffset of None \<Rightarrow> 0 | Some n \<Rightarrow> max n 0)\<rparr>)"

definition readJsonBody :: "json option \<Rightarrow> json" where
  "readJsonBody body = (case body of None \<Rightarrow> JNull | Some j \<Rightarrow> j)"

section \<open>Decoders\<close>

text \<open>
  A field that may be absent gives \<open>Some None\<close> then, and \<open>None\<close> when it is present and invalid.
\<close>

definition opt_field :: "(json \<Rightarrow> 'a option) \<Rightarrow> (string \<times> json) list \<Rightarrow> string \<Rightarrow> 'a option option" where
  "opt_field dec ps k = (case jget ps k of None \<Rightarrow> Some None | Some j \<Rightarrow> map_option Some (dec j))"

definition req_field :: "(json \<Rightarrow> 'a option) \<Rightarrow> (string \<times> json) list \<Rightarrow> string \<Rightarrow> 'a option" where
  "req_field dec ps k = Option.bind (jget ps k) dec"

definition default_field :: "'a \<Rightarrow> (json \<Rightarrow> 'a option) \<Rightarrow> (string \<times> json) list \<Rightarrow> string \<Rightarrow> 'a option" where
  "default_field d dec ps k = (case jget ps k of None \<Rightarrow> Some d | Some j \<Rightarrow> dec j)"

fun dec_text :: "nat \<Rightarrow> nat \<Rightarrow> (string \<Rightarrow> bool) \<Rightarrow> json \<Rightarrow> string option" where
  "dec_text lo hi P (JStr s) = (if lo \<le> length s \<and> length s \<le> hi \<and> P s then Some s else None)"
| "dec_text lo hi P _ = None"

fun dec_trimmed :: "nat \<Rightarrow> nat \<Rightarrow> (string \<Rightarrow> bool) \<Rightarrow> json \<Rightarrow> string option" where
  "dec_trimmed lo hi P (JStr s) = dec_text lo hi P (JStr (js_trim s))"
| "dec_trimmed lo hi P _ = None"

fun dec_bool :: "json \<Rightarrow> bool option" where
  "dec_bool (JBool b) = Some b"
| "dec_bool _ = None"

fun dec_int :: "int \<Rightarrow> int \<Rightarrow> json \<Rightarrow> int option" where
  "dec_int lo hi (JNum n) = (if lo \<le> n \<and> n \<le> hi then Some n else None)"
| "dec_int lo hi _ = None"

fun dec_nullable :: "(json \<Rightarrow> 'a option) \<Rightarrow> json \<Rightarrow> 'a option option" where
  "dec_nullable dec JNull = Some None"
| "dec_nullable dec j = map_option Some (dec j)"

fun dec_list :: "nat \<Rightarrow> (json \<Rightarrow> 'a option) \<Rightarrow> json \<Rightarrow> 'a list option" where
  "dec_list n dec (JArr vs) = (case those (map dec vs) of None \<Rightarrow> None | Some xs \<Rightarrow> if length xs \<le> n then Some xs else None)"
| "dec_list n dec _ = None"

definition nonempty_text :: "json \<Rightarrow> string option" where
  "nonempty_text j = (case j of JStr s \<Rightarrow> if s = [] then None else Some s | _ \<Rightarrow> None)"

section \<open>Schemas\<close>

record user_patch_body =
  ub_alias :: "string option"
  ub_name :: "string option option"
  ub_disabled :: "bool option"
  ub_emailVerified :: "bool option"

definition dec_alias :: "json \<Rightarrow> string option" where "dec_alias = dec_trimmed 1 MAX_ALIAS_LENGTH ALIAS_PATTERN"

definition dec_person :: "json \<Rightarrow> string option option" where "dec_person = dec_nullable (dec_trimmed 1 120 (\<lambda>_. True))"

fun patchSchema :: "json \<Rightarrow> user_patch_body option" where
  "patchSchema (JObj ps) =
     (if \<not> strict_keys [''alias'', ''name'', ''disabled'', ''emailVerified''] ps then None
      else case (opt_field dec_alias ps ''alias'', opt_field dec_person ps ''name'', opt_field dec_bool ps ''disabled'',
                 opt_field dec_bool ps ''emailVerified'') of
        (Some a, Some n, Some d, Some v) \<Rightarrow> Some \<lparr>ub_alias = a, ub_name = n, ub_disabled = d, ub_emailVerified = v\<rparr>
      | _ \<Rightarrow> None)"
| "patchSchema _ = None"

fun createUserSchema :: "admin_context \<Rightarrow> json \<Rightarrow> ManagedUserInput option" where
  "createUserSchema cx (JObj ps) =
     (case (req_field (dec_text 0 254 (me_isEmail (cx_mail cx))) ps ''email'', req_field dec_alias ps ''alias'',
            opt_field dec_person ps ''name'', default_field False dec_bool ps ''email_verified'',
            opt_field (dec_text 6 128 (\<lambda>_. True)) ps ''password'',
            default_field [] (dec_list MAX_USER_GROUPS nonempty_text) ps ''group_ids'') of
        (Some e, Some a, Some n, Some v, Some p, Some g) \<Rightarrow>
          Some \<lparr>mi_email = e, mi_alias = a, mi_name = n, mi_emailVerified = v, mi_password = p, mi_groupIds = g, mi_locale = None\<rparr>
      | _ \<Rightarrow> None)"
| "createUserSchema cx _ = None"

record password_body =
  pb_password :: string
  pb_name :: "string option option"

fun passwordSchema :: "json \<Rightarrow> password_body option" where
  "passwordSchema (JObj ps) =
     (case (req_field (dec_text 6 128 (\<lambda>_. True)) ps ''password'', opt_field (dec_nullable (dec_trimmed 0 80 (\<lambda>_. True))) ps ''name'') of
        (Some p, Some n) \<Rightarrow> Some \<lparr>pb_password = p, pb_name = n\<rparr>
      | _ \<Rightarrow> None)"
| "passwordSchema _ = None"

fun setGroupsSchema :: "json \<Rightarrow> string list option" where
  "setGroupsSchema (JObj ps) = req_field (dec_list MAX_USER_GROUPS nonempty_text) ps ''group_ids''"
| "setGroupsSchema _ = None"

text \<open>The pattern \<open>/^[a-z0-9][a-z0-9._:-]*$/\<close>.\<close>

definition GROUP_NAME :: "string \<Rightarrow> bool" where
  "GROUP_NAME s =
     (case s of [] \<Rightarrow> False
      | c # cs \<Rightarrow> (is_lower c \<or> is_digit c) \<and>
          list_all (\<lambda>d. is_lower d \<or> is_digit d \<or> d \<in> {CHR ''.'', CHR ''_'', CHR '':'', CHR ''-''}) cs)"

definition PRIORITY_minimum :: int where "PRIORITY_minimum = 0"
definition PRIORITY_maximum :: int where "PRIORITY_maximum = 1000000"

record group_body =
  gb_name :: string
  gb_description :: "string option option"
  gb_isPublic :: bool
  gb_priority :: int

definition dec_description :: "json \<Rightarrow> string option option" where
  "dec_description = dec_nullable (dec_trimmed 0 500 (\<lambda>_. True))"

fun createGroupSchema :: "json \<Rightarrow> group_body option" where
  "createGroupSchema (JObj ps) =
     (case (req_field (dec_trimmed 1 64 GROUP_NAME) ps ''name'', opt_field dec_description ps ''description'',
            default_field True dec_bool ps ''is_public'', default_field 0 (dec_int PRIORITY_minimum PRIORITY_maximum) ps ''priority'') of
        (Some n, Some d, Some b, Some p) \<Rightarrow> Some \<lparr>gb_name = n, gb_description = d, gb_isPublic = b, gb_priority = p\<rparr>
      | _ \<Rightarrow> None)"
| "createGroupSchema _ = None"

record group_patch_body =
  qb_name :: "string option"
  qb_description :: "string option option"
  qb_isPublic :: "bool option"
  qb_priority :: "int option"

fun patchGroupSchema :: "json \<Rightarrow> group_patch_body option" where
  "patchGroupSchema (JObj ps) =
     (if \<not> strict_keys [''name'', ''description'', ''is_public'', ''priority''] ps \<or> ps = [] then None
      else case (opt_field (dec_trimmed 1 64 GROUP_NAME) ps ''name'', opt_field dec_description ps ''description'',
                 opt_field dec_bool ps ''is_public'', opt_field (dec_int PRIORITY_minimum PRIORITY_maximum) ps ''priority'') of
        (Some n, Some d, Some b, Some p) \<Rightarrow> Some \<lparr>qb_name = n, qb_description = d, qb_isPublic = b, qb_priority = p\<rparr>
      | _ \<Rightarrow> None)"
| "patchGroupSchema _ = None"

text \<open>The value of \<open>rules\<close> goes on to the validator of the rules, which decodes it again.\<close>

fun permissionGroupPolicySchema :: "json \<Rightarrow> json option" where
  "permissionGroupPolicySchema (JObj ps) =
     (if \<not> strict_keys [''rules''] ps then None
      else case jget ps ''rules'' of None \<Rightarrow> None | Some j \<Rightarrow> if parse_rules j = None then None else Some j)"
| "permissionGroupPolicySchema _ = None"

section \<open>Answers\<close>

definition opt_json :: "('a \<Rightarrow> json) \<Rightarrow> 'a option \<Rightarrow> json" where
  "opt_json f v = (case v of None \<Rightarrow> JNull | Some x \<Rightarrow> f x)"

definition error_answer :: "nat \<Rightarrow> string \<Rightarrow> response" where
  "error_answer status e = json_response status [] (JObj [(''error'', JStr e)])"

abbreviation refuse :: "nat \<Rightarrow> string \<Rightarrow> response sio" where
  "refuse status e \<equiv> sio_return (error_answer status e)"

definition serializeUser :: "platform \<Rightarrow> User \<Rightarrow> string list option \<Rightarrow> (failure, (string \<times> json) list) result" where
  "serializeUser pf user groups =
     (case effectivePictureUrl pf user of
        Inl e \<Rightarrow> Inl e
      | Inr picture \<Rightarrow> Inr (
          [(''id'', JStr (u_id user)), (''email'', JStr (u_email user)), (''alias'', JStr (u_alias user)),
           (''email_verified'', JBool (u_emailVerified user)), (''name'', opt_json JStr (u_name user)),
           (''picture'', opt_json JStr picture), (''has_avatar'', JBool (u_avatarKey user \<noteq> None)),
           (''avatar_updated_at'', opt_json JNum (u_avatarUpdatedAt user)), (''disabled'', JBool (u_disabled user)),
           (''created_at'', JNum (u_createdAt user))] @
          (case groups of None \<Rightarrow> [] | Some gs \<Rightarrow> [(''groups'', JArr (map JStr gs))])))"

definition group_json :: "GroupSummary \<Rightarrow> json" where
  "group_json g = JObj [(''id'', JStr (gs_id g)), (''name'', JStr (gs_name g)), (''description'', opt_json JStr (gs_description g)),
     (''memberCount'', JNum (int (gs_memberCount g))), (''isPublic'', JBool (gs_isPublic g)), (''priority'', JNum (gs_priority g))]"

definition group_rule_json :: "PermissionGroupRule \<Rightarrow> json" where
  "group_rule_json r = JObj [(''id'', JStr (pg_id r)), (''effect'', JStr (effect_string (pg_effect r))), (''condition'', condition_json (pg_condition r))]"

definition serializePermissionGroupPolicy :: "PermissionGroupPolicy \<Rightarrow> (string \<times> json) list" where
  "serializePermissionGroupPolicy p = [(''priority'', JNum (pg_priority p)), (''rules'', JArr (map group_rule_json (pg_rules p)))]"

definition validateGroupIds :: "db \<Rightarrow> string list \<Rightarrow> bool" where
  "validateGroupIds db groupIds = list_all (\<lambda>i. i \<in> set (map gs_id (listGroups db))) groupIds"

definition admin_audit :: "admin_context \<Rightarrow> string \<Rightarrow> AuditEvent \<Rightarrow> unit sio" where
  "admin_audit cx label event =
     on_world (io_audit (cx_pf cx) label
       (event\<lparr>ae_actorUserId := cx_actor cx, ae_requestId := Some (cx_requestId cx), ae_success := Some True\<rparr>))"

text \<open>An event about an account, with a detail.\<close>

definition user_event :: "string \<Rightarrow> string \<Rightarrow> string option \<Rightarrow> AuditEvent" where
  "user_event t userId detail = (audit_event t)\<lparr>ae_userId := Some userId, ae_detail := detail\<rparr>"

definition group_event :: "string \<Rightarrow> (string \<times> json) list \<Rightarrow> AuditEvent" where
  "group_event t metadata = (audit_event t)\<lparr>ae_metadata := Some (JObj metadata)\<rparr>"

definition audited :: "admin_context \<Rightarrow> AuditEvent \<Rightarrow> response \<Rightarrow> response sio" where
  "audited cx event answer = sio_bind (admin_audit cx (ae_type event) event) (\<lambda>_. sio_return answer)"

definition sio_lift :: "(failure, 'a) result \<Rightarrow> 'a sio" where "sio_lift r s = (r, s)"

definition sio_total :: "(account_state \<Rightarrow> 'a \<times> account_state) \<Rightarrow> 'a sio" where
  "sio_total f s = (let (x, a) = f (st_account s) in (Inr x, s\<lparr>st_account := a\<rparr>))"

text \<open>The handlers of \<open>/admin/users/:id\<close> begin with the account.\<close>

definition with_user :: "string \<Rightarrow> (User \<Rightarrow> response sio) \<Rightarrow> response sio" where
  "with_user i k s = (case getUserById (st_db s) i of None \<Rightarrow> refuse 404 ''not_found'' s | Some user \<Rightarrow> k user s)"

section \<open>Accounts\<close>

text \<open>\<open>map\<close> with a function that may throw.\<close>

fun those_results :: "('e, 'a) result list \<Rightarrow> ('e, 'a list) result" where
  "those_results [] = Inr []"
| "those_results (Inl e # rs) = Inl e"
| "those_results (Inr x # rs) = map_sum id ((#) x) (those_results rs)"

definition get_users :: "admin_context \<Rightarrow> string option \<Rightarrow> string option \<Rightarrow> response sio" where
  "get_users cx lim ofs s =
     (let p = parsePagination (cx_number cx) lim ofs;
          users = listUsers (st_db s) (pg_limit p) (pg_offset p)
      in sio_bind (sio_lift (those_results (map (\<lambda>u. serializeUser (cx_pf cx) u None) users))) (\<lambda>us.
           sio_return (json_response 200 [] (JObj [(''users'', JArr (map JObj us))]))) s)"

definition refusal_string :: "ManagedUserRefusal \<Rightarrow> string" where
  "refusal_string r = (case r of duplicate_email \<Rightarrow> ''duplicate_email'' | duplicate_alias \<Rightarrow> ''duplicate_alias''
     | invalid_groups \<Rightarrow> ''invalid_groups'' | invalid_password \<Rightarrow> ''invalid_password'')"

definition post_users :: "admin_context \<Rightarrow> json option \<Rightarrow> response sio" where
  "post_users cx body =
     (case createUserSchema cx (readJsonBody body) of
        None \<Rightarrow> refuse 400 ''invalid_request''
      | Some input \<Rightarrow> sio_bind (createManagedUser cx input) (\<lambda>r. case r of
          Inl reason \<Rightarrow> refuse (if reason \<in> {duplicate_email, duplicate_alias} then 409 else 400) (refusal_string reason)
        | Inr m \<Rightarrow>
            sio_bind (admin_audit cx ''admin.user.created'' (user_event ''admin.user.created'' (u_id (mu_user m))
              (Some (if mu_invitationSent m then ''admin created user and sent invitation'' else ''admin created user with initial password''))))
            (\<lambda>_. sio_bind (sio_lift (serializeUser (cx_pf cx) (mu_user m) (Some (mu_groups m)))) (\<lambda>u.
              sio_return (json_response 201 [] (JObj (u @ [(''credential_setup'',
                JStr (if mu_invitationSent m then ''invitation_sent'' else ''password_set''))])))))))"

definition get_user :: "admin_context \<Rightarrow> string \<Rightarrow> response sio" where
  "get_user cx i = with_user i (\<lambda>user s.
     sio_bind (sio_lift (serializeUser (cx_pf cx) user (Some (getUserGroupNames (st_db s) (u_id user))))) (\<lambda>u.
       sio_return (json_response 200 [] (JObj u))) s)"

text \<open>The part of the patch after the alias.\<close>

definition patch_profile :: "admin_context \<Rightarrow> User \<Rightarrow> user_patch_body \<Rightarrow> response sio" where
  "patch_profile cx current b =
     sio_bind (sio_total (updateUser (cx_pf cx) (u_id current)
       \<lparr>up_name = ub_name b, up_disabled = ub_disabled b, up_emailVerified = ub_emailVerified b\<rparr>)) (\<lambda>r s. case r of
         None \<Rightarrow> (if getUserById (st_db s) (u_id current) = None then refuse 404 ''not_found'' else refuse 409 ''last_active_admin'') s
       | Some updated \<Rightarrow>
           sio_bind (if ub_name b \<noteq> None \<or> ub_alias b \<noteq> None \<or> ub_emailVerified b \<noteq> None
                     then admin_audit cx ''admin.user.updated'' (user_event ''admin.user.updated'' (u_id updated)
                            (Some (''admin updated user '' @ u_id updated)))
                     else sio_return ()) (\<lambda>_.
           sio_bind (case ub_disabled b of
                       Some d \<Rightarrow> if d \<noteq> u_disabled current
                         then (let t = (if d then ''admin.user.disabled'' else ''admin.user.enabled'')
                               in admin_audit cx t (user_event t (u_id updated) None))
                         else sio_return ()
                     | None \<Rightarrow> sio_return ()) (\<lambda>_.
           sio_bind (sio_lift (serializeUser (cx_pf cx) updated None)) (\<lambda>u.
             sio_return (json_response 200 [] (JObj u))))) s)"

definition patch_user :: "admin_context \<Rightarrow> string \<Rightarrow> json option \<Rightarrow> response sio" where
  "patch_user cx i body =
     (case patchSchema (readJsonBody body) of
        None \<Rightarrow> refuse 400 ''invalid_request''
      | Some b \<Rightarrow> with_user i (\<lambda>current.
          case ub_alias b of
            None \<Rightarrow> patch_profile cx current b
          | Some alias \<Rightarrow> sio_bind (sio_total (updateUserAlias (cx_pf cx) i alias)) (\<lambda>r. case r of
              identity_updated \<Rightarrow> patch_profile cx current b
            | identity_conflict \<Rightarrow> refuse 409 ''duplicate_alias''
            | identity_not_found \<Rightarrow> refuse 404 ''not_found'')))"

definition put_user_groups :: "admin_context \<Rightarrow> string \<Rightarrow> json option \<Rightarrow> response sio" where
  "put_user_groups cx i body =
     (case setGroupsSchema (readJsonBody body) of
        None \<Rightarrow> refuse 400 ''invalid_request''
      | Some ids \<Rightarrow> with_user i (\<lambda>user s.
          let groupIds = js_dedup ids; groups = listGroups (st_db s)
          in if \<not> validateGroupIds (st_db s) groupIds then refuse 400 ''invalid_groups'' s
             else sio_bind (on_account (setUserGroupsPreservingActiveAdmin (cx_pf cx) i groupIds)) (\<lambda>done.
               if \<not> done then refuse 409 ''last_active_admin''
               else (let names = map gs_name (filter (\<lambda>g. gs_name g = ''all'' \<or> gs_id g \<in> set groupIds) groups)
                     in audited cx ((user_event ''admin.user.groups_updated'' (u_id user) (Some (''admin updated groups for '' @ u_id user)))
                            \<lparr>ae_metadata := Some (JObj [(''groups'', JArr (map JStr names))])\<rparr>)
                          (json_response 200 [] (JObj [(''user_id'', JStr (u_id user)), (''groups'', JArr (map JStr names))])))) s))"

section \<open>Login methods, avatars and links\<close>

definition password_json :: "PasswordCredentialSummary \<Rightarrow> json" where
  "password_json r = JObj [(''id'', JStr (ps_id r)), (''name'', opt_json JStr (ps_name r)), (''adminEligible'', JBool (ps_adminEligible r)),
     (''createdAt'', JNum (ps_createdAt r)), (''updatedAt'', JNum (ps_updatedAt r)), (''lastUsedAt'', opt_json JNum (ps_lastUsedAt r))]"

definition passkey_json :: "CredentialSummary \<Rightarrow> json" where
  "passkey_json k = JObj [(''id'', JStr (CredentialSummary.cu_id k)), (''name'', opt_json JStr (CredentialSummary.cu_name k)),
     (''createdAt'', JNum (cu_createdAt k)), (''lastUsedAt'', opt_json JNum (cu_lastUsedAt k))]"

definition get_login_methods :: "string \<Rightarrow> response sio" where
  "get_login_methods i = with_user i (\<lambda>user s.
     sio_return (json_response 200 [] (JObj [
       (''passwords'', JArr (map password_json (listPasswordCredentials (st_account s) (u_id user)))),
       (''passkeys'', JArr (map passkey_json (listCredentialSummaries (st_account s) (u_id user))))])) s)"

definition post_password :: "admin_context \<Rightarrow> string \<Rightarrow> json option \<Rightarrow> response sio" where
  "post_password cx i body = with_user i (\<lambda>user.
     case passwordSchema (readJsonBody body) of
       None \<Rightarrow> refuse 400 ''invalid_request''
     | Some b \<Rightarrow> sio_bind (on_account (addUserPassword (cx_pf cx) (cx_lib cx) (u_id user) (pb_password b)
                   (case pb_name b of None \<Rightarrow> None | Some n \<Rightarrow> n))) (\<lambda>r. case r of
         None \<Rightarrow> refuse 400 ''invalid_password_or_limit''
       | Some credential \<Rightarrow> audited cx (user_event ''admin.user.password_added'' (u_id user) (Some ''admin added password login method''))
           (json_response 201 [] (JObj [(''id'', JStr credential)]))))"

definition deletion_answer :: "admin_context \<Rightarrow> AuditEvent \<Rightarrow> ProtectedDeleteResult \<Rightarrow> response sio" where
  "deletion_answer cx event r = (case r of
     credential_deleted \<Rightarrow> audited cx event (json_response 200 [] (JObj [(''deleted'', JBool True)]))
   | last_login_method \<Rightarrow> refuse 409 ''last_login_method''
   | credential_not_found \<Rightarrow> refuse 404 ''not_found'')"

definition delete_password :: "admin_context \<Rightarrow> string \<Rightarrow> string \<Rightarrow> response sio" where
  "delete_password cx i credentialId = with_user i (\<lambda>user.
     sio_bind (sio_total (deletePasswordCredentialPreservingLoginMethod credentialId (u_id user)))
       (deletion_answer cx (user_event ''admin.user.password_deleted'' (u_id user) (Some ''admin deleted password login method''))))"

definition delete_passkey :: "admin_context \<Rightarrow> string \<Rightarrow> string \<Rightarrow> response sio" where
  "delete_passkey cx i credentialId = with_user i (\<lambda>user.
     sio_bind (sio_total (deleteCredentialPreservingLoginMethod credentialId (u_id user)))
       (deletion_answer cx (user_event ''admin.user.passkey_deleted'' (u_id user) (Some ''admin deleted passkey login method''))))"

text \<open>
  The upload of an avatar: the declared length and the content type, the form field of a multipart
  body (\<open>None\<close> when the form does not parse), and the bytes of the body.
\<close>

record avatar_request =
  aq_contentLength :: "string option"
  aq_contentType :: "string option"
  aq_form :: "upload option"
  aq_bytes :: "byte list"

definition readAdminAvatarBody :: "avatar_request \<Rightarrow> (failure, AvatarRejection + byte list) result" where
  "readAdminAvatarBody q =
     (if starts_with ''multipart/form-data'' (case aq_contentType q of None \<Rightarrow> [] | Some t \<Rightarrow> t)
      then (case aq_form q of None \<Rightarrow> Inl (OtherFailure ''formData'') | Some field \<Rightarrow> Inr (readAvatarUpload field))
      else Inr (if aq_bytes q = [] then Inl empty_upload
                else if length (aq_bytes q) > MAX_AVATAR_BYTES then Inl too_large else Inr (aq_bytes q)))"

definition rejection_string :: "AvatarRejection \<Rightarrow> string" where
  "rejection_string r = (case r of too_large \<Rightarrow> ''avatar_too_large'' | unsupported \<Rightarrow> ''avatar_unsupported'' | empty_upload \<Rightarrow> ''avatar_empty'')"

abbreviation reject_avatar :: "AvatarRejection \<Rightarrow> response sio" where
  "reject_avatar r \<equiv> refuse (if r = too_large then 413 else 400) (rejection_string r)"

definition put_avatar :: "admin_context \<Rightarrow> string \<Rightarrow> avatar_request \<Rightarrow> response sio" where
  "put_avatar cx i q = with_user i (\<lambda>user.
     let declaredLength = cx_number cx (case aq_contentLength q of None \<Rightarrow> ''0'' | Some n \<Rightarrow> n)
     in if (case declaredLength of None \<Rightarrow> False | Some n \<Rightarrow> n > int MAX_AVATAR_BYTES) then reject_avatar too_large
        else sio_bind (sio_lift (readAdminAvatarBody q)) (\<lambda>content. case content of
          Inl r \<Rightarrow> reject_avatar r
        | Inr bytes \<Rightarrow> sio_bind (storeUserAvatar (cx_delete_fails cx) (cx_pf cx) (u_id user) bytes) (\<lambda>r. case r of
            avatar_rejected reason \<Rightarrow> reject_avatar reason
          | avatar_not_found \<Rightarrow> refuse 404 ''not_found''
          | avatar_stored key t \<Rightarrow>
              sio_bind (admin_audit cx ''admin.user.updated'' (user_event ''admin.user.updated'' (u_id user) (Some ''admin updated avatar''))) (\<lambda>_ s.
                sio_bind (case getUserById (st_db s) (u_id user) of
                    None \<Rightarrow> sio_return None | Some updated \<Rightarrow> sio_lift (effectivePictureUrl (cx_pf cx) updated)) (\<lambda>picture.
                  sio_return (json_response 200 [] (JObj [(''picture'', opt_json JStr picture),
                    (''content_type'', JStr (avatar_type_string t))]))) s))))"

definition delete_avatar :: "admin_context \<Rightarrow> string \<Rightarrow> response sio" where
  "delete_avatar cx i = with_user i (\<lambda>user.
     sio_bind (removeUserAvatar (cx_delete_fails cx) (cx_pf cx) (u_id user)) (\<lambda>removed.
       let answer = json_response 200 [] (JObj [(''deleted'', JBool removed)])
       in if removed then audited cx (user_event ''admin.user.updated'' (u_id user) (Some ''admin removed avatar'')) answer
          else sio_return answer))"

definition post_magic_link :: "admin_context \<Rightarrow> string \<Rightarrow> response sio" where
  "post_magic_link cx i = with_user i (\<lambda>user.
     if u_disabled user then refuse 409 ''account_disabled''
     else sio_bind (on_account (createMagicLink (cx_pf cx) \<lparr>ml_userId = u_id user, ml_redirectTo = Some ''/'', ml_reauthenticate = None\<rparr>)) (\<lambda>link.
       audited cx (user_event ''admin.user.magic_link.generated'' (u_id user) None)
         (json_response 200 [] (JObj [(''url'', JStr (snd link)), (''expires_in'', JNum (15 * 60))]))))"

definition post_revoke_sessions :: "admin_context \<Rightarrow> string \<Rightarrow> response sio" where
  "post_revoke_sessions cx i = with_user i (\<lambda>user.
     sio_bind (on_world (\<lambda>w. (Inr (), revokeAllUserSessions (cx_pf cx) (u_id user) w))) (\<lambda>_.
       audited cx (user_event ''admin.user.sessions_revoked'' (u_id user) (Some (''admin revoked all sessions for '' @ u_id user)))
         (json_response 200 [] (JObj [(''revoked'', JBool True)]))))"

section \<open>Groups\<close>

definition get_groups :: "response sio" where
  "get_groups s = sio_return (json_response 200 [] (JObj [(''groups'', JArr (map group_json (listGroups (st_db s))))])) s"

definition find_group :: "string \<Rightarrow> db \<Rightarrow> GroupSummary option" where
  "find_group i db = find (\<lambda>g. gs_id g = i) (listGroups db)"

definition get_group :: "string \<Rightarrow> response sio" where
  "get_group i s = (case find_group i (st_db s) of
     None \<Rightarrow> refuse 404 ''not_found'' s | Some g \<Rightarrow> sio_return (json_response 200 [] (group_json g)) s)"

definition post_groups :: "admin_context \<Rightarrow> json option \<Rightarrow> response sio" where
  "post_groups cx body =
     (case createGroupSchema (readJsonBody body) of
        None \<Rightarrow> refuse 400 ''invalid_request''
      | Some b \<Rightarrow> (\<lambda>s.
          if getGroupByName (st_db s) (gb_name b) \<noteq> None then refuse 409 ''duplicate_group'' s
          else sio_bind (on_account (createGroup (cx_pf cx) (gb_name b) (case gb_description b of None \<Rightarrow> None | Some d \<Rightarrow> d)
                 (gb_isPublic b) (gb_priority b))) (\<lambda>g.
               audited cx ((group_event ''admin.group.created'' [(''group_id'', JStr (gs_id g))])
                   \<lparr>ae_detail := Some (''admin created group '' @ gs_name g)\<rparr>)
                 (json_response 201 [] (group_json g))) (others_at (cx_pf cx) ''post-groups'' s)))"

definition get_group_access :: "string \<Rightarrow> response sio" where
  "get_group_access i s = (case getPermissionGroupPolicy (st_db s) i of
     None \<Rightarrow> refuse 404 ''not_found'' s
   | Some p \<Rightarrow> sio_return (json_response 200 [] (JObj (serializePermissionGroupPolicy p))) s)"

definition rules_result_string :: "ReplaceRulesResult \<Rightarrow> string" where
  "rules_result_string r = (case r of rules_updated \<Rightarrow> ''updated'' | rules_not_found \<Rightarrow> ''not_found''
     | rules_invalid_rule \<Rightarrow> ''invalid_rule'' | rules_invalid_application \<Rightarrow> ''invalid_application''
     | rules_invalid_api \<Rightarrow> ''invalid_api'' | rules_invalid_scope \<Rightarrow> ''invalid_scope'' | rules_standard_scope \<Rightarrow> ''standard_scope'')"

definition put_group_access :: "admin_context \<Rightarrow> string \<Rightarrow> json option \<Rightarrow> response sio" where
  "put_group_access cx i body =
     (case permissionGroupPolicySchema (readJsonBody body) of
        None \<Rightarrow> refuse 400 ''invalid_request''
      | Some rules \<Rightarrow> sio_bind (on_account (replacePermissionGroupRules (cx_pf cx) i rules)) (\<lambda>r s.
          if r = rules_not_found then refuse 404 ''not_found'' s
          else if r \<noteq> rules_updated then
            sio_return (json_response 400 [] (JObj [
              (''error'', JStr (if r = rules_standard_scope then ''standard_scope_not_configurable'' else ''invalid_permission_rule'')),
              (''reason'', JStr (rules_result_string r))])) s
          else (case getPermissionGroupPolicy (st_db s) i of
              None \<Rightarrow> refuse 404 ''not_found'' s
            | Some p \<Rightarrow> audited cx (group_event ''admin.group.access_updated'' ((''group_id'', JStr i) # serializePermissionGroupPolicy p))
                  (json_response 200 [] (JObj (serializePermissionGroupPolicy p))) s)))"

definition patch_group :: "admin_context \<Rightarrow> string \<Rightarrow> json option \<Rightarrow> response sio" where
  "patch_group cx i body =
     (case patchGroupSchema (readJsonBody body) of
        None \<Rightarrow> refuse 400 ''invalid_request''
      | Some b \<Rightarrow> (\<lambda>s. case find_group i (st_db s) of
          None \<Rightarrow> refuse 404 ''not_found'' s
        | Some current \<Rightarrow>
            sio_bind (on_account (updateGroup (cx_pf cx) i (case qb_name b of None \<Rightarrow> gs_name current | Some n \<Rightarrow> n)
              (case qb_description b of None \<Rightarrow> gs_description current | Some d \<Rightarrow> d)
              (Some (case qb_isPublic b of None \<Rightarrow> gs_isPublic current | Some p \<Rightarrow> p))
              (Some (case qb_priority b of None \<Rightarrow> gs_priority current | Some p \<Rightarrow> p)))) (\<lambda>r.
                if r \<noteq> group_updated then refuse 409 (if r = group_protected then ''protected_group'' else ''duplicate_group'')
                else sio_bind (admin_audit cx ''admin.group.updated'' (group_event ''admin.group.updated'' [(''group_id'', JStr i)])) (\<lambda>_ s1.
                  sio_return (json_response 200 [] (case find_group i (st_db s1) of None \<Rightarrow> JObj [] | Some g \<Rightarrow> group_json g)) s1)) s))"

definition delete_group :: "admin_context \<Rightarrow> string \<Rightarrow> response sio" where
  "delete_group cx i =
     sio_bind (sio_total (deleteGroup (cx_pf cx) i)) (\<lambda>r.
       if r \<noteq> group_deleted then
         (if r = group_protected then refuse 409 ''protected_group'' else refuse 404 ''not_found'')
       else audited cx (group_event ''admin.group.deleted'' [(''group_id'', JStr i)])
              (json_response 200 [] (JObj [(''deleted'', JBool True)])))"

section \<open>The routes\<close>

datatype admin_call =
    GetUsers "string option" "string option" | PostUsers "json option"
  | GetGroups | PostGroups "json option" | GetGroup string | GetGroupAccess string | PutGroupAccess string "json option"
  | PatchGroup string "json option" | DeleteGroup string
  | GetUser string | PatchUser string "json option" | PutUserGroups string "json option"
  | GetLoginMethods string | PostPassword string "json option" | DeletePassword string string | DeletePasskey string string
  | PutAvatar string avatar_request | DeleteAvatar string | PostMagicLink string | PostRevokeSessions string

definition call_verb :: "admin_call \<Rightarrow> string" where
  "call_verb call = (case call of
     GetUsers _ _ \<Rightarrow> ''GET'' | PostUsers _ \<Rightarrow> ''POST'' | GetGroups \<Rightarrow> ''GET'' | PostGroups _ \<Rightarrow> ''POST''
   | GetGroup _ \<Rightarrow> ''GET'' | GetGroupAccess _ \<Rightarrow> ''GET'' | PutGroupAccess _ _ \<Rightarrow> ''PUT'' | PatchGroup _ _ \<Rightarrow> ''PATCH''
   | DeleteGroup _ \<Rightarrow> ''DELETE'' | GetUser _ \<Rightarrow> ''GET'' | PatchUser _ _ \<Rightarrow> ''PATCH'' | PutUserGroups _ _ \<Rightarrow> ''PUT''
   | GetLoginMethods _ \<Rightarrow> ''GET'' | PostPassword _ _ \<Rightarrow> ''POST'' | DeletePassword _ _ \<Rightarrow> ''DELETE'' | DeletePasskey _ _ \<Rightarrow> ''DELETE''
   | PutAvatar _ _ \<Rightarrow> ''PUT'' | DeleteAvatar _ \<Rightarrow> ''DELETE'' | PostMagicLink _ \<Rightarrow> ''POST'' | PostRevokeSessions _ \<Rightarrow> ''POST'')"

fun run_call :: "admin_context \<Rightarrow> admin_call \<Rightarrow> response sio" where
  "run_call cx (GetUsers l f) = get_users cx l f"
| "run_call cx (PostUsers b) = post_users cx b"
| "run_call cx GetGroups = get_groups"
| "run_call cx (PostGroups b) = post_groups cx b"
| "run_call cx (GetGroup i) = get_group i"
| "run_call cx (GetGroupAccess i) = get_group_access i"
| "run_call cx (PutGroupAccess i b) = put_group_access cx i b"
| "run_call cx (PatchGroup i b) = patch_group cx i b"
| "run_call cx (DeleteGroup i) = delete_group cx i"
| "run_call cx (GetUser i) = get_user cx i"
| "run_call cx (PatchUser i b) = patch_user cx i b"
| "run_call cx (PutUserGroups i b) = put_user_groups cx i b"
| "run_call cx (GetLoginMethods i) = get_login_methods i"
| "run_call cx (PostPassword i b) = post_password cx i b"
| "run_call cx (DeletePassword i c) = delete_password cx i c"
| "run_call cx (DeletePasskey i c) = delete_passkey cx i c"
| "run_call cx (PutAvatar i q) = put_avatar cx i q"
| "run_call cx (DeleteAvatar i) = delete_avatar cx i"
| "run_call cx (PostMagicLink i) = post_magic_link cx i"
| "run_call cx (PostRevokeSessions i) = post_revoke_sessions cx i"

text \<open>\<open>admin.use("/admin/*", requireAdminApiToken)\<close> before the handlers.\<close>

definition admin_api :: "admin_context \<Rightarrow> request \<Rightarrow> User option \<Rightarrow> admin_call \<Rightarrow> response sio" where
  "admin_api cx rq sessionUser call s =
     (case requireAdminApiToken (cx_pf cx) (st_db s) (call_verb call) rq sessionUser of
        Inl answer \<Rightarrow> (Inr answer, s)
      | Inr user \<Rightarrow> run_call (cx\<lparr>cx_actor := Some (u_id user)\<rparr>) call s)"

end
