(* ===== verification/Admin_Invariants.thy ===== *)
theory Admin_Invariants
  imports Admin_Users
begin

text \<open>
  What the administration API keeps of the accounts and groups. The locale \<open>role_invariant\<close> states what
  an invariant of accounts, their status and their memberships needs of the statements the API runs;
  in it every handler is shown to keep the invariant, whether it succeeds, refuses or fails. It is
  interpreted by the active administrator and by the universal group. Requests run one after the
  other here; interleaved statements are the histories of \<open>Administrators\<close>.
\<close>

section \<open>Keeping an invariant\<close>

definition keeps :: "(db \<Rightarrow> bool) \<Rightarrow> 'a sio \<Rightarrow> bool" where
  "keeps P m \<longleftrightarrow> (\<forall>s. P (st_db s) \<longrightarrow> P (st_db (snd (m s))))"

lemma keepsI: "(\<And>s. P (st_db s) \<Longrightarrow> P (st_db (snd (m s)))) \<Longrightarrow> keeps P m"
  by (simp add: keeps_def)

lemma keepsD: "keeps P m \<Longrightarrow> P (st_db s) \<Longrightarrow> P (st_db (snd (m s)))"
  by (simp add: keeps_def)

lemma keeps_return: "keeps P (sio_return x)"
  by (simp add: keeps_def)

lemma keeps_lift: "keeps P (sio_lift r)"
  by (simp add: keeps_def sio_lift_def)

lemma keeps_bind: "keeps P m \<Longrightarrow> (\<And>x. keeps P (f x)) \<Longrightarrow> keeps P (sio_bind m f)"
  by (auto simp: keeps_def sio_bind_def split: prod.splits sum.splits)

lemma keeps_pair: "keeps P (Pair x)"
  by (simp add: keeps_def)

lemma keepsD_bind: "keeps P m \<Longrightarrow> (\<And>x. keeps P (f x)) \<Longrightarrow> P (st_db s) \<Longrightarrow> P (st_db (snd (sio_bind m f s)))"
  by (rule keepsD [OF keeps_bind])

lemma keeps_account: "(\<And>a. P (aw_db a) \<Longrightarrow> P (aw_db (snd (f a)))) \<Longrightarrow> keeps P (on_account f)"
  by (simp add: keeps_def on_account_def case_prod_beta)

lemma keeps_total: "(\<And>a. P (aw_db a) \<Longrightarrow> P (aw_db (snd (f a)))) \<Longrightarrow> keeps P (sio_total f)"
  by (simp add: keeps_def sio_total_def case_prod_beta)

lemma keeps_world: "(\<And>w. P (w_db w) \<Longrightarrow> P (w_db (snd (f w)))) \<Longrightarrow> keeps P (on_world f)"
  by (simp add: keeps_def on_world_def case_prod_beta)

lemma keeps_audit: "keeps P (admin_audit cx label event)"
  unfolding admin_audit_def by (rule keeps_world) (simp add: io_audit_def split: prod.splits sum.splits)

lemma keeps_audited: "keeps P (audited cx event answer)"
  unfolding audited_def by (intro keeps_bind keeps_audit keeps_return)

lemma keeps_user: "(\<And>user. keeps P (k user)) \<Longrightarrow> keeps P (with_user i k)"
  by (simp add: keeps_def with_user_def split: option.splits)

lemma keepsD_audited: "P (st_db s) \<Longrightarrow> P (st_db (snd (audited cx event answer s)))"
  by (rule keepsD [OF keeps_audited])

lemmas keeps_intros = keepsD_bind keepsD_audited keeps_pair keeps_return keeps_lift keeps_bind keeps_audit keeps_audited keeps_user

text \<open>The operations that leave accounts, their status, groups and memberships alone.\<close>

lemma roles_updated: "(\<And>u. u_id (f u) = u_id u \<and> u_disabled (f u) = u_disabled u) \<Longrightarrow> roles (update_where Q f t) = roles t"
  by (rule map_update_where) simp

lemma same_roles_ops:
  "same_roles (aw_db (snd (updateUserAlias pf i alias a))) (aw_db a)"
  "same_roles (aw_db (snd (setUserPassword pf lib i pwd name a))) (aw_db a)"
  "same_roles (aw_db (snd (addUserPassword pf lib i pwd label a))) (aw_db a)"
  "same_roles (aw_db (snd (deletePasswordCredentialPreservingLoginMethod c i a))) (aw_db a)"
  "same_roles (aw_db (snd (deleteCredentialPreservingLoginMethod c i a))) (aw_db a)"
  "same_roles (aw_db (snd (createAccountInvitationToken pf i email a))) (aw_db a)"
  "same_roles (aw_db (snd (createMagicLink pf link a))) (aw_db a)"
  by (simp_all add: updateUserAlias_def Let_def roles_updated setUserPassword_def addUserPassword_def bumped_roles
      deletePasswordCredentialPreservingLoginMethod_def deleteCredentialPreservingLoginMethod_def
      createAccountInvitationToken_def createPasswordResetToken_def createMagicLink_def store_token_def
      split: sum.splits option.splits)

lemma same_roles_rules:
  "pf_others pf ''replace-rules'' = id \<Longrightarrow> same_roles (aw_db (snd (replacePermissionGroupRules pf i rules a))) (aw_db a)"
  by (simp add: replacePermissionGroupRules_def write_rules_def Let_def case_prod_beta split: sum.splits option.splits)

lemma same_roles_revoke: "same_roles (w_db (revokeAllUserSessions pf i w)) (w_db w)"
  using revoke_dos(1) [OF prod.collapse [symmetric]]
  by (simp add: revokeAllUserSessions_def end_sessions_def revokeMatchingFamilies_def Let_def case_prod_beta)

lemma same_roles_swap:
  "(\<And>u. u_id (f u) = u_id u \<and> u_disabled (f u) = u_disabled u) \<Longrightarrow> same_roles (aw_db (snd (swapAvatar i f key a))) (aw_db a)"
  by (simp add: swapAvatar_def roles_updated split: option.splits)

lemma same_roles_avatar:
  "same_roles (st_db (snd (storeUserAvatar x pf i bytes s))) (st_db s)" "same_roles (st_db (snd (removeUserAvatar x pf i s))) (st_db s)"
proof -
  have "same_roles (aw_db (snd (setUserAvatar pf i key t a))) (aw_db a)" "same_roles (aw_db (snd (clearUserAvatar pf i a))) (aw_db a)" for key t a
    unfolding setUserAvatar_def clearUserAvatar_def by (rule same_roles_swap, simp)+
  note * = this
  show "same_roles (st_db (snd (storeUserAvatar x pf i bytes s))) (st_db s)"
  proof (cases "validateAvatarBytes bytes")
    case (Inr ct)
    let ?f = "setUserAvatar pf i (generateAvatarKey (pf_random pf ''avatar'') (snd ct)) (avatar_type_string (snd ct)) (st_account s)"
    have "st_account (snd (storeUserAvatar x pf i bytes s)) = snd ?f"
      using Inr by (cases ct; cases ?f) (auto simp: storeUserAvatar_def Let_def split: sum.splits option.splits)
    then show ?thesis using *(1) by simp
  qed (simp add: storeUserAvatar_def)
  have "st_account (snd (removeUserAvatar x pf i s)) = snd (clearUserAvatar pf i (st_account s))"
    by (cases "clearUserAvatar pf i (st_account s)") (auto simp: removeUserAvatar_def split: sum.splits option.splits)
  then show "same_roles (st_db (snd (removeUserAvatar x pf i s))) (st_db s)" using *(2) by simp
qed

text \<open>
  What an invariant of the accounts, their status and their memberships needs of the statements the
  administration runs: it does not depend on anything else, and it survives the creation, the change
  and the undone creation of an account, the two ways to set its groups, and the changes of groups.
\<close>

locale role_invariant =
  fixes P :: "db \<Rightarrow> bool"
  assumes elsewhere: "P db \<Longrightarrow> same_roles db' db \<Longrightarrow> P db'"
    and created: "P (aw_db a) \<Longrightarrow> createUser pf input a = (r, a') \<Longrightarrow> P (aw_db a')"
    and updated: "P db \<Longrightarrow> P (snd (update_user_batch now i plan db))"
    and undone: "P db \<Longrightarrow> i \<notin> u_id ` set (t_users db) \<Longrightarrow> touches_db i db db' \<Longrightarrow> P (drop_user_db i db')"
    and first_groups: "P (aw_db a) \<Longrightarrow> createUser pf input a = (Inr user, a') \<Longrightarrow>
      P (snd (set_groups_batch now (u_id user) gs (aw_db a')))"
    and replaced: "P db \<Longrightarrow> P (snd (preserving_batch now i gs db))"
    and new_group: "P (aw_db a) \<Longrightarrow> createGroup pf name d p n a = (r', a') \<Longrightarrow> P (aw_db a')"
    and changed_group: "P db \<Longrightarrow> find (\<lambda>g. gs_id g = i) (listGroups db) = Some c \<Longrightarrow>
      \<not> (isProtectedGroupName (gs_name c) \<and> name \<noteq> gs_name c) \<Longrightarrow> P (snd (write_group i name d p n db))"
    and dropped_group: "P db \<Longrightarrow> deletable i db \<Longrightarrow> P (drop_group i db)"
begin

lemma account_op: "(\<And>a. same_roles (aw_db (snd (f a))) (aw_db a)) \<Longrightarrow> keeps P (on_account f)"
  by (rule keeps_account) (blast intro: elsewhere)

lemma total_op: "(\<And>a. same_roles (aw_db (snd (f a))) (aw_db a)) \<Longrightarrow> keeps P (sio_total f)"
  by (rule keeps_total) (blast intro: elsewhere)

lemma site_op: "(\<And>s. same_roles (st_db (snd (m s))) (st_db s)) \<Longrightarrow> keeps P m"
  by (rule keepsI) (blast intro: elsewhere)

lemmas plain_ops =
  total_op [OF same_roles_ops(1)] account_op [OF same_roles_ops(2)] account_op [OF same_roles_ops(3)]
  total_op [OF same_roles_ops(4)] total_op [OF same_roles_ops(5)] account_op [OF same_roles_ops(6)]
  account_op [OF same_roles_ops(7)] site_op [OF same_roles_avatar(1)] site_op [OF same_roles_avatar(2)]

lemma keeps_updateUser:
  assumes "pf_others pf ''update-user'' = id"
  shows "keeps P (sio_total (updateUser pf i patch))"
proof (rule keeps_total)
  fix a assume "P (aw_db a)"
  then show "P (aw_db (snd (updateUser pf i patch a)))"
    using assms updated [of "aw_db a"] revoke_dos(1) [OF prod.collapse [symmetric]]
    by (auto simp: updateUser_def Let_def case_prod_beta split: option.splits)
qed

lemma keeps_set_groups: "keeps P (on_account (setUserGroupsPreservingActiveAdmin pf i gs))"
proof (rule keeps_account)
  fix a assume "P (aw_db a)"
  then have "P (snd (preserving_batch (pf_now pf) i (js_dedup gs) (aw_db a)))" by (rule replaced)
  then show "P (aw_db (snd (setUserGroupsPreservingActiveAdmin pf i gs a)))"
    using \<open>P (aw_db a)\<close> by (auto simp: setUserGroupsPreservingActiveAdmin_def Let_def split: prod.splits sum.splits)
qed

lemma keeps_createGroup: "keeps P (on_account (createGroup pf name d p n))"
  by (rule keeps_account) (metis new_group prod.collapse)

lemma keeps_updateGroup:
  assumes "pf_others pf ''update-group'' = id"
  shows "keeps P (on_account (updateGroup pf i name d p n))"
  by (rule keeps_account) (auto simp: assms updateGroup_def Let_def case_prod_beta intro: changed_group split: option.splits)

lemma keeps_deleteGroup:
  assumes "pf_others pf ''delete-group'' = id"
  shows "keeps P (sio_total (deleteGroup pf i))"
  by (rule keeps_total) (auto simp: assms deleteGroup_def Let_def intro: dropped_group split: option.splits)

lemma keeps_provide_login: "keeps P (provide_login cx input user)"
proof -
  have "keeps P (on_mail f)" for f :: "mail_state \<Rightarrow> (failure, unit) result \<times> mail_state"
    by (rule site_op) (simp add: on_mail_def case_prod_beta)
  then show ?thesis unfolding provide_login_def by (auto intro!: keeps_bind plain_ops split: option.split)
qed

lemma keeps_createManagedUser:
  assumes "pf_others (cx_pf cx) ''create-managed-user'' = id" "pf_others (cx_pf cx) ''provision'' = id"
  shows "keeps P (createManagedUser cx input)"
proof (rule keepsI)
  fix s assume P: "P (st_db s)"
  have o: "others_at (cx_pf cx) l s = s" if "pf_others (cx_pf cx) l = id" for l s by (simp add: others_at_def that)
  obtain r a1 where c: "createUser (cx_pf cx) (managed_input input) (st_account s) = (r, a1)" by (rule prod.exhaust)
  let ?s1 = "s\<lparr>st_account := a1\<rparr>" and ?gs = "js_dedup (mi_groupIds input)"
  show "P (st_db (snd (createManagedUser cx input s)))"
  proof (cases r)
    case (Inl e)
    then show ?thesis
      using P created [OF P c] c by (simp add: createManagedUser_def o [OF assms(1)] on_account_def Let_def split: option.split)
  next
    case (Inr user)
    let ?i = "u_id user"
    note c = c [unfolded Inr]
    obtain x s2 where p: "provision cx input user ?gs ?s1 = (x, s2)" by (rule prod.exhaust)
    have new: "?i \<notin> u_id ` set (t_users (st_db s))" "?i \<in> user_ids a1" using touches_created [OF c] by (simp_all add: user_ids_def)
    have t: "touches_only ?i (st_account s) (st_account s2)"
      using touches_only_trans [OF touches_created(1) [OF c], of "st_account s2"] touches_provision [OF p assms(2)] by simp
    have groups: "P (aw_db (snd (setUserGroups (cx_pf cx) ?i ?gs a1)))"
      using created [OF P c] first_groups [OF P c, of "pf_now (cx_pf cx)" "js_dedup ?gs"]
      by (auto simp: setUserGroups_def Let_def split: prod.splits sum.splits)
    have ran: "P (st_db s2)"
      using p groups keepsD [OF keeps_provide_login, of "s\<lparr>st_account := snd (setUserGroups (cx_pf cx) ?i ?gs a1)\<rparr>" cx input user]
      by (auto simp: provision_def sio_bind_def on_account_def o [OF assms(2)] case_prod_beta split: sum.splits prod.splits)
    have "touches_db ?i (st_db s) (st_db s2)" using t by (simp add: touches_only_def touches_db_def rows_without_def user_ids_def)
    from undone [OF P new(1) this] have "P (aw_db (snd (deleteUser ?i (st_account s2))))"
      using ran by (simp add: deleteUser_def drop_user_def)
    then show ?thesis
      using P ran p c by (auto simp: createManagedUser_def o [OF assms(1)] on_account_def Let_def split: option.split sum.split)
  qed
qed

lemmas handler_intros = keeps_intros [where P = P] plain_ops keeps_createManagedUser
  keeps_updateUser keeps_set_groups keeps_createGroup keeps_updateGroup keeps_deleteGroup

lemma keeps_patch_profile:
  assumes "pf_others (cx_pf cx) ''update-user'' = id"
  shows "keeps P (patch_profile cx current b)"
proof -
  have "keeps P (if Q then admin_audit cx l e else sio_return ())" "keeps P (case d of None \<Rightarrow> sio_return () | Some d \<Rightarrow>
      if d \<noteq> d' then (let t = T d in admin_audit cx t (E t)) else sio_return ())" for Q l e d d' T E
    by (auto intro: keeps_audit keeps_return split: option.split simp: Let_def)
  note parts = this
  show ?thesis unfolding patch_profile_def
    by (rule keeps_bind [OF keeps_updateUser [OF assms]], rule keepsI)
      (auto split: option.split simp: Let_def intro!: handler_intros parts)
qed

lemma keeps_user_calls:
  assumes "\<forall>l. pf_others (cx_pf cx) l = id"
  shows "keeps P (get_users cx lim ofs)" "keeps P (post_users cx body)" "keeps P (get_user cx i)" "keeps P (patch_user cx i body)"
    "keeps P (put_user_groups cx i body)" "keeps P (get_login_methods i)" "keeps P (post_password cx i body)"
    "keeps P (delete_password cx i c)" "keeps P (delete_passkey cx i c)"
proof -
  show "keeps P (get_users cx lim ofs)"
    by (rule keepsI) (auto simp: get_users_def Let_def intro!: handler_intros)
  show "keeps P (post_users cx body)"
    using assms by (auto simp: post_users_def split: option.split sum.split intro!: handler_intros)
  show "keeps P (get_user cx i)"
    unfolding get_user_def by (rule keeps_user, rule keepsI) (auto intro!: handler_intros)
  show "keeps P (patch_user cx i body)"
    using assms by (auto simp: patch_user_def split: option.split UpdateIdentityResult.split
        intro!: handler_intros keeps_patch_profile)
  show "keeps P (put_user_groups cx i body)"
    by (auto simp: put_user_groups_def Let_def split: option.split intro!: keeps_user keepsI handler_intros)
  show "keeps P (get_login_methods i)"
    unfolding get_login_methods_def by (rule keeps_user, rule keepsI) simp
  show "keeps P (post_password cx i body)"
    by (auto simp: post_password_def split: option.split intro!: handler_intros)
  have d: "keeps P (deletion_answer cx e r)" for e r
    by (auto simp: deletion_answer_def split: ProtectedDeleteResult.split intro!: handler_intros)
  show "keeps P (delete_password cx i c)" "keeps P (delete_passkey cx i c)"
    unfolding delete_password_def delete_passkey_def by (auto intro!: handler_intros d)
qed

lemma keeps_avatar_calls:
  "keeps P (put_avatar cx i q)" "keeps P (delete_avatar cx i)" "keeps P (post_magic_link cx i)" "keeps P (post_revoke_sessions cx i)"
proof -
  show "keeps P (put_avatar cx i q)"
    unfolding put_avatar_def Let_def
    by (auto simp: sio_lift_def split: option.split sum.split AvatarStoreResult.split intro!: keeps_user keeps_bind keeps_lift keepsI handler_intros)
  show "keeps P (delete_avatar cx i)" "keeps P (post_magic_link cx i)"
    unfolding delete_avatar_def post_magic_link_def Let_def by (auto intro!: handler_intros)
  have "keeps P (on_world (\<lambda>w. (Inr (), revokeAllUserSessions (cx_pf cx) j w)))" for j
    by (rule keeps_world) (use elsewhere same_roles_revoke in auto)
  then show "keeps P (post_revoke_sessions cx i)" unfolding post_revoke_sessions_def by (auto intro!: handler_intros)
qed

lemma keeps_group_calls:
  assumes "\<forall>l. pf_others (cx_pf cx) l = id"
  shows "keeps P get_groups" "keeps P (post_groups cx body)" "keeps P (get_group i)" "keeps P (get_group_access i)"
    "keeps P (put_group_access cx i body)" "keeps P (patch_group cx i body)" "keeps P (delete_group cx i)"
proof -
  show "keeps P get_groups" "keeps P (get_group i)" "keeps P (get_group_access i)"
    by (auto simp: keeps_def get_groups_def get_group_def get_group_access_def split: option.split)
  show "keeps P (post_groups cx body)"
    using assms by (auto simp: post_groups_def others_at_def split: option.split intro!: keepsI handler_intros)
  have r: "keeps P (on_account (replacePermissionGroupRules (cx_pf cx) i rules))" for rules
    by (rule account_op) (use same_roles_rules assms in blast)
  show "keeps P (put_group_access cx i body)"
    by (auto simp: put_group_access_def split: option.split intro!: keeps_bind r keepsI handler_intros)
  show "keeps P (patch_group cx i body)"
    using assms by (auto simp: patch_group_def split: option.split intro!: keepsI handler_intros)
  show "keeps P (delete_group cx i)"
    using assms by (auto simp: delete_group_def intro!: handler_intros)
qed

lemma call_keeps: "\<forall>l. pf_others (cx_pf cx) l = id \<Longrightarrow> keeps P (run_call cx call)"
  by (cases call) (simp_all add: keeps_user_calls keeps_avatar_calls keeps_group_calls)

lemma api_keeps: "\<forall>l. pf_others (cx_pf cx) l = id \<Longrightarrow> keeps P (admin_api cx rq sessionUser call)"
  by (rule keepsI) (auto simp: admin_api_def intro: keepsD [OF call_keeps] split: sum.split)

end

section \<open>The two invariants\<close>

text \<open>An administrator that was there before an account was made stays, whatever is done to that account.\<close>

lemma administered_others:
  assumes adm: "administered A db" and new: "i \<notin> u_id ` set (t_users db)" and keys: "user_keys db'"
    and users: "filter (\<lambda>u. u_id u \<noteq> i) (t_users db') = filter (\<lambda>u. u_id u \<noteq> i) (t_users db)"
    and groups: "t_groups db' = t_groups db"
    and members: "filter (\<lambda>m. um_userId m \<noteq> i) (t_user_groups db') = filter (\<lambda>m. um_userId m \<noteq> i) (t_user_groups db)"
  shows "administered A db'"
proof (rule administeredI [OF adm groups keys])
  assume "members_of A db \<inter> active_ids db \<noteq> {}"
  then obtain m u where m: "m \<in> set (t_user_groups db)" "um_groupId m = A"
    and u: "u \<in> set (t_users db)" "u_id u = um_userId m" "\<not> u_disabled u"
    by (force simp: members_of_def active_ids_def)
  have i: "um_userId m \<noteq> i" using new u(1,2) by force
  have "m \<in> set (filter (\<lambda>m. um_userId m \<noteq> i) (t_user_groups db'))" unfolding members using m(1) i by simp
  moreover have "u \<in> set (filter (\<lambda>u. u_id u \<noteq> i) (t_users db'))" unfolding users using u(1,2) i by simp
  ultimately show "members_of A db' \<inter> active_ids db' \<noteq> {}" using m(2) u(2,3) by (auto simp: members_of_def active_ids_def)
qed

lemma administered_touched:
  assumes "administered A db" "i \<notin> u_id ` set (t_users db)" "user_keys db'" "touches_db i db db'"
  shows "administered A db'"
  by (rule administered_others [OF assms(1-3)]) (use assms(4) in \<open>simp_all add: touches_db_def\<close>)

lemma dropped_tables:
  "t_users (drop_user_db i db) = filter (\<lambda>u. u_id u \<noteq> i) (t_users db)" "t_groups (drop_user_db i db) = t_groups db"
  "t_user_groups (drop_user_db i db) = filter (\<lambda>m. um_userId m \<noteq> i) (t_user_groups db)"
  by (simp_all add: drop_user_db_def Let_def forget_sessions_def)

lemma set_groups_users: "map u_id (t_users (snd (set_groups_batch now i gs db))) = map u_id (t_users db)"
proof -
  have "map fst (roles (t_users (snd (adminPromotionRevocationStatements i now (set_groups_joins now i gs db))))) = map fst (roles (t_users db))"
    using promotion_roles [of i now "set_groups_joins now i gs db"] by (simp add: join_groups_effect leave_groups_effect)
  then show ?thesis by (simp add: set_groups_batch_def Let_def case_prod_beta comp_def)
qed

interpretation administered: role_invariant "administered A" for A
proof
  fix db db' i
  assume adm: "administered A db" and new: "i \<notin> u_id ` set (t_users db)" and t: "touches_db i db db'"
  have "distinct (map u_id (filter (\<lambda>u. u_id u \<noteq> i) (t_users db)))"
    using adm by (simp add: administered_def user_keys_def distinct_map_filter)
  then have "user_keys (drop_user_db i db')" using t by (simp add: user_keys_def dropped_tables touches_db_def)
  then show "administered A (drop_user_db i db')"
    using t by (intro administered_others [OF adm new]) (simp_all add: touches_db_def dropped_tables)
next
  fix a pf input user a' now gs
  assume adm: "administered A (aw_db a)" and c: "createUser pf input a = (Inr user, a')"
  let ?db' = "snd (set_groups_batch now (u_id user) gs (aw_db a'))"
  have "touches_db (u_id user) (aw_db a) (aw_db a')"
    using touches_created(1) [OF c] by (simp add: touches_only_def rows_without_def touches_db_def user_ids_def)
  then have t: "touches_db (u_id user) (aw_db a) ?db'"
    by (rule touches_db_trans) (rule touches_set_groups [OF prod.collapse [symmetric]])
  have "user_keys (aw_db a')" using administered_create [OF adm c] by (simp add: administered_def)
  then have "user_keys ?db'" by (simp add: user_keys_def set_groups_users)
  then show "administered A ?db'"
    using t touches_created(3) [OF c] by (intro administered_touched [OF adm]) (simp_all add: user_ids_def)
next
  fix a pf name d p n r a'
  assume adm: "administered A (aw_db a)" and c: "createGroup pf name d p n a = (r, a')"
  then have "admin_group A (aw_db a)" unfolding administered_def by blast
  then show "administered A (aw_db a')" by (intro administered_groups [OF adm] createGroup_groups [OF c])
next
  fix db i c name d p n
  assume adm: "administered A db" and f: "find (\<lambda>g. gs_id g = i) (listGroups db) = Some c"
    and pr: "\<not> (isProtectedGroupName (gs_name c) \<and> name \<noteq> gs_name c)"
  have ag: "admin_group A db" using adm by (simp add: administered_def)
  have "name = ''admins''" if "i = A" using protected_name [OF ag] f pr that by simp
  from write_group_groups [where i = i and name = name and d = d and p = p and k = n, OF ag this]
  show "administered A (snd (write_group i name d p n db))" by (rule administered_groups [OF adm])
qed (fact same_roles_administered administered_create administered_update administered_preserving administered_delete_group)+

interpretation universal: role_invariant "universal U" for U
proof
  fix db db' i
  assume u: "universal U db" and new: "i \<notin> u_id ` set (t_users db)" and t: "touches_db i db db'"
  have users: "t_users (drop_user_db i db') = t_users db"
    using t new by (auto simp: dropped_tables touches_db_def filter_id_conv)
  have "members_of U db \<inter> u_id ` set (t_users db) \<subseteq> members_of U (drop_user_db i db')"
  proof
    fix x assume x: "x \<in> members_of U db \<inter> u_id ` set (t_users db)"
    then obtain m where m: "m \<in> set (t_user_groups db)" "um_groupId m = U" "um_userId m = x" by (auto simp: members_of_def)
    then have "m \<in> set (filter (\<lambda>m. um_userId m \<noteq> i) (t_user_groups db))" using x new by auto
    then have "m \<in> set (t_user_groups (drop_user_db i db'))" using t by (simp add: dropped_tables touches_db_def)
    then show "x \<in> members_of U (drop_user_db i db')" using m(2,3) by (auto simp: members_of_def)
  qed
  then show "universal U (drop_user_db i db')"
    using t by (intro universalI [OF u]) (simp_all add: users dropped_tables(2) touches_db_def)
next
  fix a pf input user a' now gs
  assume "universal U (aw_db a)" "createUser pf input a = (Inr user, a')"
  then show "universal U (snd (set_groups_batch now (u_id user) gs (aw_db a')))"
    by (intro universal_first) (rule universal_create)
next
  fix a pf name d p n r a'
  assume u: "universal U (aw_db a)" and c: "createGroup pf name d p n a = (r, a')"
  then have "named_group ''all'' U (aw_db a)" unfolding universal_def by blast
  then show "universal U (aw_db a')" by (intro universal_groups [OF u] createGroup_groups [OF c])
next
  fix db i c name d p n
  assume u: "universal U db" and f: "find (\<lambda>g. gs_id g = i) (listGroups db) = Some c"
    and pr: "\<not> (isProtectedGroupName (gs_name c) \<and> name \<noteq> gs_name c)"
  have ng: "named_group ''all'' U db" using u unfolding universal_def by blast
  have "name = ''all''" if "i = U" using protected_name [OF ng] f pr that by simp
  from write_group_groups [where i = i and name = name and d = d and p = p and k = n, OF ng this]
  show "universal U (snd (write_group i name d p n db))" by (rule universal_groups [OF u])
qed (fact universal_same_roles universal_create universal_update universal_preserving universal_drop_group)+

section \<open>Sequences of requests\<close>

record admin_request =
  rq_context :: admin_context
  rq_request :: request
  rq_session :: "User option"
  rq_call :: admin_call

definition serve :: "admin_request \<Rightarrow> site \<Rightarrow> site" where
  "serve r s = snd (admin_api (rq_context r) (rq_request r) (rq_session r) (rq_call r) s)"

text \<open>
  C38. The administration API cannot lock itself out. From a site with distinct account ids, one group
  \<open>admins\<close> with an active member and one group \<open>all\<close> with every account, every sequence of requests to
  the API of accounts and groups, admitted or not, with any body, whether they succeed, are refused or
  fail in the middle, ends in a site in which some enabled account is an administrator and every
  account is in the group \<open>all\<close>.
\<close>

theorem admin_api_keeps_roles:
  assumes "\<forall>r\<in>set rs. \<forall>l. pf_others (cx_pf (rq_context r)) l = id" and "user_keys (st_db s)"
    and "\<forall>g\<in>set (t_groups (st_db s)). (gp_name g = ''admins'') = (gp_id g = A) \<and> (gp_name g = ''all'') = (gp_id g = U)"
    and "U \<in> gp_id ` set (t_groups (st_db s))"
    and "\<exists>u\<in>set (t_users (st_db s)). \<not> u_disabled u \<and> isUserAdmin (st_db s) (u_id u)"
    and "\<forall>u\<in>set (t_users (st_db s)). is_member (st_db s) (u_id u) U"
  shows "(\<exists>u\<in>set (t_users (st_db (fold serve rs s))). \<not> u_disabled u \<and> isUserAdmin (st_db (fold serve rs s)) (u_id u)) \<and>
    (\<forall>u\<in>set (t_users (st_db (fold serve rs s))). is_member (st_db (fold serve rs s)) (u_id u) U)"
proof -
  have keep: "P (st_db (fold serve rs s))"
    if "P (st_db s)" "\<And>cx rq u call. \<forall>l. pf_others (cx_pf cx) l = id \<Longrightarrow> keeps P (admin_api cx rq u call)" for P
    using assms(1) that(1)
  proof (induction rs arbitrary: s)
    case (Cons r rs)
    have "P (st_db (serve r s))" unfolding serve_def by (rule keepsD [OF that(2)]) (use Cons.prems in \<open>simp_all add: id_def\<close>)
    then show ?case using Cons by simp
  qed simp
  have ag: "admin_group A (st_db s)" using assms(3,5) by (auto simp: named_group_def isUserAdmin_def list_ex_iff)
  then have "administered A (st_db s)" using assms(2,5) by (auto simp: administered_def isUserAdmin_iff active_ids_def)
  from keep [OF this administered.api_keeps] have a: "administered A (st_db (fold serve rs s))" .
  have "universal U (st_db s)" using assms(3,4,6) by (auto simp: universal_def named_group_def is_member_iff)
  from keep [OF this universal.api_keeps] have "universal U (st_db (fold serve rs s))" .
  then show ?thesis
    using a by (fastforce simp: administered_def isUserAdmin_iff active_ids_def universal_def is_member_iff)
qed

definition demo_yolo :: admin_context where
  "demo_yolo = (demo_context ''test'')\<lparr>cx_pf := demo_pf\<lparr>pf_env := \<lparr>ENVIRONMENT = Some YOLO_ENVIRONMENT, YOLO_MODE = Some ''true'', ISSUER = ''https://id.test''\<rparr>\<rparr>\<rparr>"

definition demo_leave :: "string \<Rightarrow> admin_request" where
  "demo_leave i = \<lparr>rq_context = demo_yolo, rq_request = demo_api_request, rq_session = Some (User.truncate demo_user),
     rq_call = PutUserGroups i (Some (JObj [(''group_ids'', JArr [])]))\<rparr>"

lemma demo_left: "isUserAdmin (st_db (serve (demo_leave ''u'') demo_site)) ''u'' = False"
  by code_simp

text \<open>One of two administrators is taken out of all groups, then the other one.\<close>

theorem admin_api_keeps_roles_witness:
  "\<not> isUserAdmin (st_db (serve (demo_leave ''u'') demo_site)) ''u'' \<and>
   (\<exists>u\<in>set (t_users (st_db (serve (demo_leave ''v'') (serve (demo_leave ''u'') demo_site)))).
     isUserAdmin (st_db (serve (demo_leave ''v'') (serve (demo_leave ''u'') demo_site))) (u_id u))"
proof -
  let ?rs = "[demo_leave ''u'', demo_leave ''v'']"
  have q: "\<forall>r\<in>set ?rs. \<forall>l. pf_others (cx_pf (rq_context r)) l = id"
    by (simp add: demo_leave_def demo_yolo_def demo_pf_def id_def)
  have k: "user_keys (st_db demo_site)" by (simp add: demo_site_def demo_admins_defs user_keys_def)
  have g: "\<forall>g\<in>set (t_groups (st_db demo_site)). (gp_name g = ''admins'') = (gp_id g = ''g'') \<and> (gp_name g = ''all'') = (gp_id g = ''h'')"
    "''h'' \<in> gp_id ` set (t_groups (st_db demo_site))" by (simp_all add: demo_site_def demo_admins_defs)
  have e: "\<exists>u\<in>set (t_users (st_db demo_site)). \<not> u_disabled u \<and> isUserAdmin (st_db demo_site) (u_id u)"
    by (simp add: demo_site_def demo_admins_defs isUserAdmin_def)
  have m: "\<forall>u\<in>set (t_users (st_db demo_site)). is_member (st_db demo_site) (u_id u) ''h''"
    by (simp add: demo_site_def demo_admins_defs is_member_def)
  from admin_api_keeps_roles [OF q k g e m] show ?thesis using demo_left by auto
qed

end
