(* ===== verification/Spec2Isabelle.thy ===== *)
theory Spec2Isabelle
  imports Authorize_Routes Maintenance Admin_Invariants
begin

text \<open>
  KeyForge is an OAuth 2.1 and OpenID Connect authorization server that runs as a Cloudflare
  Worker. Its state lives in a D1 (SQLite) database, in Durable Objects (one per authorization
  code, refresh-token family, rate-limit key, one-time token and passkey ceremony) and in a queue of
  audit events. This development models the server's core, from the bytes of a request to an OAuth
  endpoint down to the rows and objects it changes, and proves what makes it correct.

  \<^bold>\<open>Parts and theories.\<close> Every definition keeps the name of the function or type it translates; the
  operations of Durable Objects carry a prefix (\<open>ot_\<close>, \<open>rl_\<close>, \<open>fam_\<close>), as do record fields.

  \<^item> \<open>KF_Prelude\<close>: results as sums, characters, the JavaScript string functions the sources use, the
    collections of simplification rules. \<open>Config\<close>: \<open>config.ts\<close>, \<open>types/domain.ts\<close>, \<open>security/errors.ts\<close>,
    \<open>operations/yolo.ts\<close>, the clock. \<open>Encoding\<close>: base64, base64url, UTF-8, the token shapes of
    \<open>security/ingress.ts\<close>. \<open>Crypto\<close>: \<open>security/crypto.ts\<close>, PKCE, CSRF, client secrets. \<open>Json\<close>: JSON
    values and \<open>JSON.stringify\<close>.
  \<^item> \<open>Capabilities\<close>: the locales. \<open>single_use\<close> is the contract of everything that can be redeemed once,
    with the lemma that every sequence of operations redeems it at most once; the one-time objects and
    the rows of device requests interpret it on their own step functions.
  \<^item> \<open>One_Time_Store\<close>: \<open>do/base.ts\<close>, \<open>do/AuthorizationCodeDO.ts\<close>; a refinement of an abstract slot.
    \<open>Rate_Limit\<close>: \<open>do/RateLimitDO.ts\<close>, \<open>security/rate-limit.ts\<close>. \<open>Refresh_Family\<close>:
    \<open>do/RefreshTokenFamilyDO.ts\<close>, with the invariant of its storage by rule induction over its calls.
  \<^item> \<open>Scopes\<close>, \<open>Permission_Rules\<close>: \<open>oauth/scopes.ts\<close>, \<open>oauth/scope-policy.ts\<close>,
    \<open>oauth/permission-rules.ts\<close>. \<open>Database\<close>: the tables as lists of rows and the statements on them,
    one definition per query function of \<open>db/queries\<close>. \<open>Policy\<close>: \<open>oauth/resources.ts\<close>,
    \<open>oauth/consent.ts\<close>, \<open>oauth/user-token-policy.ts\<close>, \<open>security/redirect-uri.ts\<close>.
  \<^item> \<open>Audit_Trail\<close>: \<open>security/audit.ts\<close>, \<open>security/audit-sanitize.ts\<close>.
  \<^item> \<open>World\<close>: the state of the whole server as one record, the platform it runs on, and the sequencing
    of effects. \<open>Refresh_Tokens\<close>: \<open>tokens/refresh-token.ts\<close>, \<open>tokens/refresh-token-revocation.ts\<close>.
    \<open>Sessions\<close>: \<open>auth/session.ts\<close>, \<open>middleware/session.ts\<close>.
  \<^item> \<open>User_Code\<close>: \<open>utils/random.ts\<close>, \<open>oauth/user-code.ts\<close>. \<open>Local_Paths\<close>: \<open>security/return-to.ts\<close>,
    \<open>media/avatar.ts\<close>, with the part of the URL parser they need. \<open>Http\<close>: forms, requests, responses.
  \<^item> \<open>Tokens\<close>: \<open>tokens/jwt.ts\<close>, \<open>tokens/access-token.ts\<close>, \<open>tokens/id-token.ts\<close>, \<open>oidc/claims.ts\<close>.
    \<open>Device_Flow\<close>: \<open>db/queries/devices.ts\<close>, \<open>oauth/device-authorization.ts\<close>, \<open>routes/device.ts\<close>.
    \<open>Token_Endpoint\<close>: the four grants under \<open>oauth/token\<close> and \<open>oauth/client-credentials.ts\<close>.
    \<open>Token_Inspection\<close>: \<open>oauth/introspect.ts\<close>, \<open>oauth/revoke.ts\<close>, \<open>oauth/userinfo.ts\<close>.
  \<^item> \<open>Client_Auth\<close>: \<open>oauth/clients.ts\<close>, \<open>oauth/private-key-jwt.ts\<close>, \<open>oauth/client-identifier.ts\<close>,
    \<open>oauth/request-limits.ts\<close>. \<open>Oauth_Routes\<close>: \<open>routes/oauth.ts\<close>, \<open>security/request-meta.ts\<close> and the
    error handler of \<open>index.ts\<close>. \<open>Query_Strings\<close>: \<open>URLSearchParams\<close> with its round trip.
  \<^item> \<open>Addresses\<close>, \<open>Public_Fetch\<close>, \<open>Client_Metadata\<close>: \<open>oauth/client-id-metadata.ts\<close>, from the ranges of
    special-use addresses over the guarded fetch of a client's document to the client it becomes.
  \<^item> \<open>Authorize\<close>: \<open>oauth/authorize.ts\<close>, \<open>oauth/redirect.ts\<close>, \<open>oauth/post-logout.ts\<close>.
    \<open>Reauthentication\<close>: \<open>security/reauth-continuation.ts\<close>. \<open>Authorize_Routes\<close>: \<open>routes/authorize.ts\<close>, the
    authorization endpoint and the consent form on top of all of these.
  \<^item> \<open>Signing_Keys\<close>: \<open>tokens/key-rotation.ts\<close>, with the histories of boots and rotations as an inductive
    predicate and an invariant of the keyring by rule induction.
  \<^item> \<open>Account_Tokens\<close>: \<open>auth/account-tokens.ts\<close>, \<open>auth/magic-link.ts\<close>; the locale \<open>mail_capability\<close> is
    interpreted by the four endpoints that redeem a mailed token. \<open>Passwords\<close>: \<open>auth/password.ts\<close> and the
    hashes of \<open>security/crypto.ts\<close>. \<open>Passkeys\<close>: \<open>auth/passkey.ts\<close>, \<open>db/queries/webauthn.ts\<close>, and the
    step relation of everything that changes a login method.
  \<^item> \<open>Maintenance\<close>: \<open>operations/runtime-config.ts\<close>, \<open>operations/maintenance.ts\<close>; the locale
    \<open>bounded_delete\<close> is the contract of a bounded cleanup statement.
  \<^item> \<open>Users\<close>: \<open>db/queries/users.ts\<close>, \<open>db/queries/admin-promotion.ts\<close>, with the triggers and foreign keys of
    the schema they rely on. \<open>Group_Membership\<close>: \<open>db/queries/group-memberships.ts\<close>. \<open>Group_Rules\<close>:
    \<open>db/queries/permission-group-rules.ts\<close>. \<open>Administrators\<close>: the histories of all statements that change
    accounts, groups and memberships, as an inductive predicate; the locale \<open>promoting_batch\<close> is the
    contract of the three batches that can make an administrator.
  \<^item> \<open>Mail_Media\<close>: \<open>email/sender.ts\<close>, \<open>media/avatar-service.ts\<close>, and the state of the whole site.
    \<open>Localization\<close>: \<open>i18n/index.ts\<close>, \<open>email/templates.ts\<close>, \<open>escapeHtml\<close> of \<open>views/layout.ts\<close>.
  \<^item> \<open>Admin_Access\<close>: \<open>middleware/admin.ts\<close>. \<open>Managed_Users\<close>: \<open>admin/user-management.ts\<close>. \<open>Admin_Users\<close>:
    \<open>admin/users.ts\<close>, \<open>utils/http.ts\<close>, \<open>routes/admin.ts\<close>, every handler with its schema.
    \<open>Admin_Invariants\<close>: the locale \<open>role_invariant\<close>, in which every handler is shown to keep an invariant
    of accounts and memberships, interpreted by the active administrator and by the universal group.

  \<^bold>\<open>State and effects.\<close> A handler is a function from the \<open>world\<close> to a result and the next world; a
  thrown error is the result \<open>Inl\<close>, and what was written before it stays written. What a request does
  not decide is a field of the record \<open>platform\<close>, an argument of every definition that uses it: the
  clock (read once per request), the drawn identifiers and random bytes (by the name of the call
  site), WebCrypto digests and HMAC, the WHATWG URL parser where a whole URL is parsed, the JOSE
  library, the network, scrypt, Unicode normalization, the WebAuthn library, the failures of D1 writes and of Durable Object calls,
  and \<open>pf_others\<close>, the effect of concurrent requests at a named \<open>await\<close>. D1 reads do not fail in the
  model. A statement on a table is atomic, and so is a call on a Durable Object, as the platform
  guarantees; \<open>deleteAll\<close> clears the alarm. The accounts and the signing keys extend the \<open>world\<close> by
  records of their own (\<open>account_state\<close>, \<open>key_state\<close>).

  \<^bold>\<open>Data.\<close> Strings are lists of characters with codes below 256, so texts outside of Latin-1 are not
  represented; lengths in bytes count their UTF-8 encoding. Integers are \<open>int\<close>: they are times and
  counters far below \<open>2^53\<close>. Bytes are 8-bit words. A page is named by its renderer and its texts.

  \<^bold>\<open>What is shown.\<close> An authorization code, a device code and a client assertion are redeemed at most
  once, over every interleaving; a code, a refresh token and a device approval yield tokens only while
  the account, session, consent, permission rules and resource authorize them, and never more than was
  authorized; a replayed refresh token burns its family in both stores, and a revocation that races a
  rotation wins; a failed issuance leaves nothing alive; signing out everywhere ends every session and
  family. A client is authenticated only by the proof its registration asks for, and the token
  endpoint answers no one else. The authorization endpoint accepts exactly the valid requests, hands out
  codes only to entitled users with consent, and sends browsers only to registered targets; a proof of
  reauthentication counts once, for its session and request. A client's document is fetched from public
  addresses only and admits no more than the resource invites. A signing key is published before it
  signs and after it retires, for the times stated. A mailed token acts once and dies with a security
  transition; a password recovery takes effect as a whole, and nobody loses the last login method.
  Maintenance spares live rows. However requests interleave, an enabled administrator remains and every
  account stays in the group \<open>all\<close>; becoming an administrator ends every earlier session and refresh
  token; deleting an account leaves no reference to it. The administration API answers administrators
  only, an account it creates is ready for its owner or leaves no trace, replaced permission rules read
  back exactly, and no avatar an account names lacks its bytes. Token and policy decisions are characterized exactly. The rate limiter,
  the audit trail, the permission rules and the refresh families are bounded; encodings, stored rules,
  keyrings, user codes, credentials, password records, queued mails, escaped texts and avatars survive
  their round trips.

  \<^bold>\<open>Loops and termination.\<close> All definitions are total. The rejection-sampling loop of
  \<open>generateUserCode\<close> may run forever on adversarial bytes; it is a \<open>partial_function (option)\<close> and is
  shown to return exactly when enough acceptable bytes are drawn. The retries of refresh revocation
  are bounded by the attempt count of the source.

  \<^bold>\<open>Not modelled.\<close> The client registration rules (\<open>oauth/client-config.ts\<close>) with the administration of
  clients, resources and devices, the MCP resource server, and the login, recovery and account routes
  around the modelled operations: they parse forms, call the operations modelled here and render pages.
  The console, the views and the message catalogue produce text; discovery documents print the
  configuration; the middleware chain of \<open>index.ts\<close> sets headers; listings for the console only read.
\<close>

end
